(* ===== verification/Prelude.thy ===== *)
theory Prelude
  imports Complex_Main
begin

text \<open>
  Shared ground of the development: the parts of Go's standard library the add-ons use on
  strings and integers (packages \<open>strings\<close> and \<open>strconv\<close>), together with the lemmas and the
  \<open>named_theorems\<close> collections the component theories rest on.

  A Go string is a byte sequence, so it is modelled by HOL's \<open>string\<close>, whose characters are
  bytes; \<open>length\<close> is Go's \<open>len\<close> and slices are \<open>take\<close> and \<open>drop\<close>.  A Go \<open>int\<close> is a
  64-bit signed integer; it is modelled by \<open>int\<close>, and the places where the width is visible
  (the saturation of \<open>strconv.Atoi\<close> and \<open>strconv.ParseUint\<close>, the wrap-around of products)
  write the bound out.  A fallible call whose error value the program looks at returns a sum
  or an option.
\<close>

named_theorems gostr "rewrite rules for Go's string operations"
named_theorems golist "rewrite rules for list and map operations shared by the components"

section \<open>Integers of fixed width\<close>

definition int64_max :: int where
  "int64_max = 9223372036854775807"

definition int64_min :: int where
  "int64_min = - 9223372036854775808"

definition uint64_max :: int where
  "uint64_max = 18446744073709551615"

definition fits_int64 :: "int \<Rightarrow> bool" where
  "fits_int64 n \<longleftrightarrow> int64_min \<le> n \<and> n \<le> int64_max"

text \<open>Two's complement wrap-around of a 64-bit signed result.\<close>

definition wrap64 :: "int \<Rightarrow> int" where
  "wrap64 n = (n + 9223372036854775808) mod 18446744073709551616 - 9223372036854775808"

definition wrapu64 :: "int \<Rightarrow> int" where
  "wrapu64 n = n mod 18446744073709551616"

lemma wrap64_id: "fits_int64 n \<Longrightarrow> wrap64 n = n"
  by (simp add: fits_int64_def wrap64_def int64_min_def int64_max_def)

lemma fits_wrap64: "fits_int64 (wrap64 n)"
  by (simp add: fits_int64_def wrap64_def int64_min_def int64_max_def)

section \<open>Package strings: prefixes, search, splitting\<close>

definition has_prefix :: "string \<Rightarrow> string \<Rightarrow> bool" where
  "has_prefix s p \<longleftrightarrow> take (length p) s = p"

definition has_suffix :: "string \<Rightarrow> string \<Rightarrow> bool" where
  "has_suffix s p \<longleftrightarrow> length p \<le> length s \<and> drop (length s - length p) s = p"

definition trim_prefix :: "string \<Rightarrow> string \<Rightarrow> string" where
  "trim_prefix s p = (if has_prefix s p then drop (length p) s else s)"

definition trim_suffix :: "string \<Rightarrow> string \<Rightarrow> string" where
  "trim_suffix s p = (if has_suffix s p then take (length s - length p) s else s)"

text \<open>\<open>strings.Index\<close>; \<open>None\<close> is Go's -1.\<close>

fun str_index :: "string \<Rightarrow> string \<Rightarrow> nat option" where
  "str_index [] p = (if p = [] then Some 0 else None)"
| "str_index (c # s) p =
     (if has_prefix (c # s) p then Some 0 else map_option Suc (str_index s p))"

definition str_contains :: "string \<Rightarrow> string \<Rightarrow> bool" where
  "str_contains s p \<longleftrightarrow> str_index s p \<noteq> None"

text \<open>\<open>strings.LastIndexByte\<close>.\<close>

fun last_index_byte :: "string \<Rightarrow> char \<Rightarrow> nat option" where
  "last_index_byte [] c = None"
| "last_index_byte (x # s) c =
     (case last_index_byte s c of
        Some i \<Rightarrow> Some (Suc i)
      | None \<Rightarrow> if x = c then Some 0 else None)"

text \<open>\<open>strings.Split\<close> with a separator of one byte.\<close>

fun split_on :: "char \<Rightarrow> string \<Rightarrow> string list" where
  "split_on c [] = [[]]"
| "split_on c (x # xs) =
     (if x = c then [] # split_on c xs
      else (case split_on c xs of [] \<Rightarrow> [[x]] | y # ys \<Rightarrow> (x # y) # ys))"

text \<open>\<open>strings.SplitN(s, sep, 2)\<close> with a separator of one byte.\<close>

definition split_n2 :: "char \<Rightarrow> string \<Rightarrow> string list" where
  "split_n2 c s =
     (case dropWhile (\<lambda>x. x \<noteq> c) s of
        [] \<Rightarrow> [s]
      | _ # rest \<Rightarrow> [takeWhile (\<lambda>x. x \<noteq> c) s, rest])"

fun join_with :: "string \<Rightarrow> string list \<Rightarrow> string" where
  "join_with sep [] = []"
| "join_with sep [s] = s"
| "join_with sep (s # t # ss) = s @ sep @ join_with sep (t # ss)"

lemma has_prefix_append [simp, gostr]: "has_prefix (p @ s) p"
  by (simp add: has_prefix_def)

lemma has_prefix_Nil [simp, gostr]: "has_prefix s []"
  by (simp add: has_prefix_def)

lemma has_prefix_iff: "has_prefix s p \<longleftrightarrow> (\<exists>r. s = p @ r)"
proof
  assume "has_prefix s p"
  then have "s = p @ drop (length p) s"
    by (metis append_take_drop_id has_prefix_def)
  then show "\<exists>r. s = p @ r" ..
qed auto

lemma has_prefix_Cons [simp, gostr]:
  "has_prefix (x # s) (y # p) \<longleftrightarrow> x = y \<and> has_prefix s p"
  by (auto simp: has_prefix_def)

lemma has_prefix_Nil_Cons [simp, gostr]: "\<not> has_prefix [] (y # p)"
  by (simp add: has_prefix_def)

lemma has_suffix_append [simp, gostr]: "has_suffix (s @ p) p"
  by (simp add: has_suffix_def)

lemma trim_prefix_append [simp, gostr]: "trim_prefix (p @ s) p = s"
  by (simp add: trim_prefix_def)

lemma trim_suffix_append [simp, gostr]: "trim_suffix (s @ p) p = s"
  by (simp add: trim_suffix_def)

lemma str_index_Some: "str_index s p = Some i \<Longrightarrow> i + length p \<le> length s \<and> take (length p) (drop i s) = p"
proof (induction s p arbitrary: i rule: str_index.induct)
  case (2 c s p)
  then show ?case
    by (cases "has_prefix (c # s) p")
      (auto simp: has_prefix_def dest: arg_cong [where f = length])
qed (simp split: if_splits)

lemma str_index_prefix: "str_index (p @ s) p = Some 0"
proof (cases "p @ s")
  case (Cons a l)
  then have "has_prefix (a # l) p" by (metis has_prefix_append)
  with Cons show ?thesis by simp
qed simp

lemma str_contains_iff: "str_contains s p \<longleftrightarrow> (\<exists>a b. s = a @ p @ b)"
proof
  assume "str_contains s p"
  then obtain i where "str_index s p = Some i" by (auto simp: str_contains_def)
  then have "take (length p) (drop i s) = p" using str_index_Some by blast
  then have "s = take i s @ p @ drop (length p) (drop i s)"
    by (metis append_take_drop_id)
  then show "\<exists>a b. s = a @ p @ b" by blast
next
  assume "\<exists>a b. s = a @ p @ b"
  then obtain a b where "s = a @ p @ b" by blast
  then show "str_contains s p"
  proof (induction a arbitrary: s)
    case Nil
    then show ?case by (simp add: str_contains_def str_index_prefix)
  next
    case (Cons x a)
    then show ?case by (auto simp: str_contains_def)
  qed
qed

lemma last_index_byte_lt: "last_index_byte s c = Some i \<Longrightarrow> i < length s \<and> s ! i = c"
  by (induction s arbitrary: i) (auto split: option.splits if_splits)

lemma last_index_byte_None: "last_index_byte s c = None \<longleftrightarrow> c \<notin> set s"
  by (induction s) (auto split: option.splits if_splits)

lemma split_on_not_Nil [simp]: "split_on c s \<noteq> []"
  by (cases s) (auto split: list.splits)

lemma split_on_no_sep: "x \<in> set (split_on c s) \<Longrightarrow> c \<notin> set x"
proof (induction s arbitrary: x)
  case (Cons a s)
  then show ?case by (fastforce split: if_splits list.splits)
qed simp

lemma join_with_Cons: "ss \<noteq> [] \<Longrightarrow> join_with sep (s # ss) = s @ sep @ join_with sep ss"
  by (cases ss) simp_all

lemma join_split_on: "join_with [c] (split_on c s) = s"
proof (induction s)
  case (Cons a s)
  obtain y ys where y: "split_on c s = y # ys"
    by (meson neq_Nil_conv split_on_not_Nil)
  show ?case
    using Cons y by (cases ys) (auto simp: join_with_Cons)
qed simp

lemma split_on_none: "c \<notin> set s \<Longrightarrow> split_on c s = [s]"
  by (induction s) auto

lemma split_on_append: "c \<notin> set s \<Longrightarrow> split_on c (s @ c # t) = s # split_on c t"
  by (induction s) auto

lemma split_join:
  assumes "ss \<noteq> []" and "\<And>s. s \<in> set ss \<Longrightarrow> c \<notin> set s"
  shows "split_on c (join_with [c] ss) = ss"
  using assms
proof (induction "[c]" ss rule: join_with.induct)
  case (2 s)
  then show ?case by (simp add: split_on_none)
next
  case (3 s t ss)
  then show ?case by (simp add: split_on_append)
qed simp

lemma split_n2_append: "c \<notin> set a \<Longrightarrow> split_n2 c (a @ c # b) = [a, b]"
proof -
  assume c: "c \<notin> set a"
  have t: "takeWhile (\<lambda>x. x \<noteq> c) (a @ c # b) = a" and d: "dropWhile (\<lambda>x. x \<noteq> c) (a @ c # b) = c # b"
    using c by (induction a) auto
  show ?thesis by (simp add: split_n2_def t d)
qed

lemma split_n2_two: "split_n2 c s = [a, b] \<Longrightarrow> s = a @ c # b \<and> c \<notin> set a"
proof -
  assume h: "split_n2 c s = [a, b]"
  obtain rest x where d: "dropWhile (\<lambda>x. x \<noteq> c) s = x # rest"
    using h by (cases "dropWhile (\<lambda>x. x \<noteq> c) s") (auto simp: split_n2_def)
  have x: "x = c" using d by (metis (mono_tags, lifting) dropWhile_eq_Cons_conv)
  have "s = takeWhile (\<lambda>x. x \<noteq> c) s @ c # rest"
    using d x by (metis takeWhile_dropWhile_id)
  with h d show ?thesis
    by (auto simp: split_n2_def dest: set_takeWhileD)
qed

section \<open>Package strings: white space, fields, case\<close>

text \<open>
  Unicode white space as the UTF-8 byte sequences that encode it: \<open>space_len s\<close> is the number
  of bytes of a space at the start of \<open>s\<close>, 0 if there is none.  A byte that opens one of the
  longer sequences never continues another rune, so looking at each byte position finds the same
  spaces as decoding the runes from the start.
\<close>

definition ascii_space :: "char \<Rightarrow> bool" where
  "ascii_space c \<longleftrightarrow>
     c = CHR 0x20 \<or> c = CHR 0x09 \<or> c = CHR 0x0A \<or> c = CHR 0x0B \<or> c = CHR 0x0C \<or> c = CHR 0x0D"

definition space2 :: "char \<Rightarrow> char \<Rightarrow> bool" where
  "space2 a b \<longleftrightarrow> a = CHR 0xC2 \<and> (b = CHR 0x85 \<or> b = CHR 0xA0)"

definition space3 :: "char \<Rightarrow> char \<Rightarrow> char \<Rightarrow> bool" where
  "space3 a b c \<longleftrightarrow>
     (a = CHR 0xE1 \<and> b = CHR 0x9A \<and> c = CHR 0x80) \<or>
     (a = CHR 0xE2 \<and> b = CHR 0x80 \<and>
        c \<in> set [CHR 0x80, CHR 0x81, CHR 0x82, CHR 0x83, CHR 0x84, CHR 0x85, CHR 0x86, CHR 0x87,
                CHR 0x88, CHR 0x89, CHR 0x8A, CHR 0xA8, CHR 0xA9, CHR 0xAF]) \<or>
     (a = CHR 0xE2 \<and> b = CHR 0x81 \<and> c = CHR 0x9F) \<or>
     (a = CHR 0xE3 \<and> b = CHR 0x80 \<and> c = CHR 0x80)"

fun space_len :: "string \<Rightarrow> nat" where
  "space_len [] = 0"
| "space_len [a] = (if ascii_space a then 1 else 0)"
| "space_len [a, b] = (if ascii_space a then 1 else if space2 a b then 2 else 0)"
| "space_len (a # b # c # s) =
     (if ascii_space a then 1 else if space2 a b then 2 else if space3 a b c then 3 else 0)"

text \<open>The same at the end of a string, which is read backwards.\<close>

fun space_len_rev :: "string \<Rightarrow> nat" where
  "space_len_rev [] = 0"
| "space_len_rev [a] = (if ascii_space a then 1 else 0)"
| "space_len_rev [b, a] = (if ascii_space b then 1 else if space2 a b then 2 else 0)"
| "space_len_rev (c # b # a # s) =
     (if ascii_space c then 1 else if space2 b c then 2 else if space3 a b c then 3 else 0)"

text \<open>\<open>skip\<close> counts the bytes of a space already recognised.\<close>

fun trim_front :: "(string \<Rightarrow> nat) \<Rightarrow> nat \<Rightarrow> string \<Rightarrow> string" where
  "trim_front sl skip [] = []"
| "trim_front sl (Suc skip) (c # s) = trim_front sl skip s"
| "trim_front sl 0 (c # s) =
     (case sl (c # s) of 0 \<Rightarrow> c # s | Suc k \<Rightarrow> trim_front sl k s)"

definition trim_space :: "string \<Rightarrow> string" where
  "trim_space s = rev (trim_front space_len_rev 0 (rev (trim_front space_len 0 s)))"

definition flush_word :: "string \<Rightarrow> string list" where
  "flush_word w = (if w = [] then [] else [w])"

text \<open>\<open>strings.Fields\<close>: the maximal runs of bytes outside white space.\<close>

fun fields_from :: "nat \<Rightarrow> string \<Rightarrow> string \<Rightarrow> string list" where
  "fields_from skip w [] = flush_word w"
| "fields_from (Suc skip) w (c # s) = fields_from skip w s"
| "fields_from 0 w (c # s) =
     (case space_len (c # s) of
        0 \<Rightarrow> fields_from 0 (w @ [c]) s
      | Suc k \<Rightarrow> flush_word w @ fields_from k [] s)"

definition str_fields :: "string \<Rightarrow> string list" where
  "str_fields s = fields_from 0 [] s"

text \<open>\<open>strings.FieldsFunc\<close> for a predicate on single bytes.\<close>

fun fields_func :: "(char \<Rightarrow> bool) \<Rightarrow> string \<Rightarrow> string \<Rightarrow> string list" where
  "fields_func P w [] = flush_word w"
| "fields_func P w (c # s) =
     (if P c then flush_word w @ fields_func P [] s else fields_func P (w @ [c]) s)"

text \<open>
  \<open>strings.ToUpper\<close> and \<open>strings.EqualFold\<close>, as far as a comparison with an ASCII word can tell:
  besides the ASCII letters, the runes U+0131 and U+017F (two bytes each) have ASCII upper-case
  forms, and U+212A (three bytes) and U+017F fold to ASCII letters.
\<close>

definition ascii_upper :: "char \<Rightarrow> char" where
  "ascii_upper c = (if 97 \<le> (of_char c :: nat) \<and> (of_char c :: nat) \<le> 122 then char_of ((of_char c :: nat) - 32) else c)"

definition ascii_lower :: "char \<Rightarrow> char" where
  "ascii_lower c = (if 65 \<le> (of_char c :: nat) \<and> (of_char c :: nat) \<le> 90 then char_of ((of_char c :: nat) + 32) else c)"

fun to_upper :: "string \<Rightarrow> string" where
  "to_upper [] = []"
| "to_upper [a] = [ascii_upper a]"
| "to_upper (a # b # s) =
     (if a = CHR 0xC4 \<and> b = CHR 0xB1 then CHR ''I'' # to_upper s
      else if a = CHR 0xC5 \<and> b = CHR 0xBF then CHR ''S'' # to_upper s
      else ascii_upper a # to_upper (b # s))"

fun fold_case :: "string \<Rightarrow> string" where
  "fold_case [] = []"
| "fold_case [a] = [ascii_lower a]"
| "fold_case [a, b] = (if a = CHR 0xC5 \<and> b = CHR 0xBF then [CHR ''s''] else ascii_lower a # fold_case [b])"
| "fold_case (a # b # c # s) =
     (if a = CHR 0xC5 \<and> b = CHR 0xBF then CHR ''s'' # fold_case (c # s)
      else if a = CHR 0xE2 \<and> b = CHR 0x84 \<and> c = CHR 0xAA then CHR ''k'' # fold_case s
      else ascii_lower a # fold_case (b # c # s))"

text \<open>\<open>strings.ToLower\<close> as far as a test for an ASCII text can tell: besides the ASCII letters,
  U+0130 and U+212A have ASCII lower-case forms.\<close>

fun to_lower :: "string \<Rightarrow> string" where
  "to_lower [] = []"
| "to_lower [a] = [ascii_lower a]"
| "to_lower [a, b] = (if a = CHR 0xC4 \<and> b = CHR 0xB0 then ''i'' else ascii_lower a # to_lower [b])"
| "to_lower (a # b # c # s) =
     (if a = CHR 0xC4 \<and> b = CHR 0xB0 then CHR ''i'' # to_lower (c # s)
      else if a = CHR 0xE2 \<and> b = CHR 0x84 \<and> c = CHR 0xAA then CHR ''k'' # to_lower s
      else ascii_lower a # to_lower (b # c # s))"

definition equal_fold :: "string \<Rightarrow> string \<Rightarrow> bool" where
  "equal_fold s t \<longleftrightarrow> fold_case s = fold_case t"

lemma length_trim_front: "length (trim_front sl k s) \<le> length s"
  by (induction sl k s rule: trim_front.induct) (auto split: nat.splits)

lemma length_trim_space: "length (trim_space s) \<le> length s"
  using length_trim_front [of space_len_rev 0 "rev (trim_front space_len 0 s)"]
    length_trim_front [of space_len 0 s]
  by (simp add: trim_space_def)

lemma set_trim_front: "set (trim_front sl k s) \<subseteq> set s"
  by (induction sl k s rule: trim_front.induct) (auto split: nat.splits)

lemma set_trim_space: "set (trim_space s) \<subseteq> set s"
  using set_trim_front [of space_len_rev 0 "rev (trim_front space_len 0 s)"]
    set_trim_front [of space_len 0 s]
  by (auto simp: trim_space_def)

lemma trim_space_Nil [simp, gostr]: "trim_space [] = []"
  by (simp add: trim_space_def)

lemma fields_func_no_sep: "\<lbrakk>x \<in> set (fields_func P w s); \<forall>c \<in> set w. \<not> P c\<rbrakk> \<Longrightarrow> x \<noteq> [] \<and> (\<forall>c \<in> set x. \<not> P c)"
  by (induction P w s arbitrary: x rule: fields_func.induct) (auto simp: flush_word_def split: if_splits)

section \<open>Package strconv: decimal numbers\<close>

definition is_digit :: "char \<Rightarrow> bool" where
  "is_digit c \<longleftrightarrow> 48 \<le> (of_char c :: int) \<and> (of_char c :: int) \<le> 57"

definition digit_val :: "char \<Rightarrow> int" where
  "digit_val c = of_char c - 48"

definition digit_char :: "int \<Rightarrow> char" where
  "digit_char d = char_of (48 + d)"

text \<open>Decimal digits of a number that is not negative.\<close>

function dec_digits :: "int \<Rightarrow> string" where
  "dec_digits n = (if n < 10 then [digit_char n] else dec_digits (n div 10) @ [digit_char (n mod 10)])"
  by pat_completeness auto
termination
  by (relation "measure nat") auto

declare dec_digits.simps [simp del]

text \<open>\<open>strconv.Itoa\<close> and the verb \<open>%d\<close>.\<close>

definition itoa :: "int \<Rightarrow> string" where
  "itoa n = (if n < 0 then CHR ''-'' # dec_digits (- n) else dec_digits n)"

definition dec_val :: "string \<Rightarrow> int" where
  "dec_val s = foldl (\<lambda>a c. 10 * a + digit_val c) 0 s"

definition all_digits :: "string \<Rightarrow> bool" where
  "all_digits s \<longleftrightarrow> s \<noteq> [] \<and> list_all is_digit s"

datatype num_error = ErrSyntax | ErrRange

text \<open>
  \<open>strconv.Atoi\<close> returns a value together with its error: 0 on a syntax error, the nearest
  64-bit integer when the number is out of range.
\<close>

definition atoi_full :: "string \<Rightarrow> int \<times> num_error option" where
  "atoi_full s =
     (let neg = (case s of c # _ \<Rightarrow> c = CHR ''-'' | [] \<Rightarrow> False);
          ds = (case s of c # r \<Rightarrow> if c = CHR ''-'' \<or> c = CHR ''+'' then r else s | [] \<Rightarrow> []);
          n = dec_val ds
      in if \<not> all_digits ds then (0, Some ErrSyntax)
         else if neg then (if - n < int64_min then (int64_min, Some ErrRange) else (- n, None))
         else (if n > int64_max then (int64_max, Some ErrRange) else (n, None)))"

text \<open>\<open>strconv.ParseUint(s, 10, 64)\<close>, which takes no sign.\<close>

definition parse_uint_full :: "string \<Rightarrow> int \<times> num_error option" where
  "parse_uint_full s =
     (if \<not> all_digits s then (0, Some ErrSyntax)
      else if dec_val s > uint64_max then (uint64_max, Some ErrRange)
      else (dec_val s, None))"

text \<open>The idiom \<open>n, _ := strconv.Atoi(s)\<close>: the error is dropped, the value kept.\<close>

definition atoi :: "string \<Rightarrow> int" where
  "atoi s = fst (atoi_full s)"

definition atou64 :: "string \<Rightarrow> int" where
  "atou64 s = fst (parse_uint_full s)"

lemma dec_val_Nil [simp]: "dec_val [] = 0"
  by (simp add: dec_val_def)

lemma dec_val_snoc [simp]: "dec_val (s @ [c]) = 10 * dec_val s + digit_val c"
  by (simp add: dec_val_def)

lemma dec_val_single [simp]: "dec_val [c] = digit_val c"
  by (simp add: dec_val_def)

lemma digit_char_digit: "0 \<le> d \<Longrightarrow> d < 10 \<Longrightarrow> is_digit (digit_char d)"
  by (simp add: is_digit_def digit_char_def)

lemma digit_val_char [simp]: "0 \<le> d \<Longrightarrow> d < 10 \<Longrightarrow> digit_val (digit_char d) = d"
  by (simp add: digit_val_def digit_char_def)

lemma dec_val_dec_digits [simp]: "0 \<le> n \<Longrightarrow> dec_val (dec_digits n) = n"
proof (induction n rule: dec_digits.induct)
  case (1 n)
  then show ?case
    by (subst dec_digits.simps) auto
qed

lemma all_digits_dec_digits [simp]: "0 \<le> n \<Longrightarrow> all_digits (dec_digits n)"
proof (induction n rule: dec_digits.induct)
  case (1 n)
  then show ?case
    by (subst dec_digits.simps) (auto simp: all_digits_def digit_char_digit)
qed

lemma dec_digits_not_Nil [simp]: "dec_digits n \<noteq> []"
  by (subst dec_digits.simps) simp

lemma dec_digits_inject: "0 \<le> m \<Longrightarrow> 0 \<le> n \<Longrightarrow> dec_digits m = dec_digits n \<longleftrightarrow> m = n"
  by (metis dec_val_dec_digits)

lemma digit_not_sign [simp]: "is_digit c \<Longrightarrow> c \<noteq> CHR ''-'' \<and> c \<noteq> CHR ''+''"
  by (auto simp: is_digit_def)

lemma dec_val_nonneg: "list_all is_digit s \<Longrightarrow> 0 \<le> dec_val s"
  by (induction s rule: rev_induct) (auto simp: is_digit_def digit_val_def)

lemma atoi_full_digits:
  assumes "all_digits s"
  shows "atoi_full s = (if dec_val s > int64_max then (int64_max, Some ErrRange) else (dec_val s, None))"
proof -
  obtain c r where s: "s = c # r" and c: "is_digit c"
    using assms by (cases s) (auto simp: all_digits_def)
  from c have "c \<noteq> CHR ''-''" "c \<noteq> CHR ''+''" by auto
  with assms s show ?thesis by (simp add: atoi_full_def)
qed

lemma atoi_full_itoa: "fits_int64 n \<Longrightarrow> atoi_full (itoa n) = (n, None)"
proof (cases "n < 0")
  case True
  then show "fits_int64 n \<Longrightarrow> ?thesis"
    by (simp add: itoa_def atoi_full_def fits_int64_def)
next
  case False
  then show "fits_int64 n \<Longrightarrow> ?thesis"
    by (simp add: itoa_def atoi_full_digits fits_int64_def)
qed

lemma atoi_dec_digits: "0 \<le> n \<Longrightarrow> n \<le> int64_max \<Longrightarrow> atoi (dec_digits n) = n"
  by (simp add: atoi_def atoi_full_digits)

lemma fits_atoi: "fits_int64 (atoi s)"
proof -
  let ?ds = "case s of c # r \<Rightarrow> if c = CHR ''-'' \<or> c = CHR ''+'' then r else s | [] \<Rightarrow> []"
  have "all_digits ?ds \<Longrightarrow> 0 \<le> dec_val ?ds"
    by (simp add: all_digits_def dec_val_nonneg)
  then show ?thesis
    by (auto simp: atoi_def atoi_full_def fits_int64_def int64_min_def int64_max_def Let_def)
qed

lemma atou64_bounds: "0 \<le> atou64 s \<and> atou64 s \<le> uint64_max"
  by (auto simp: atou64_def parse_uint_full_def uint64_max_def all_digits_def dec_val_nonneg)

lemma atou64_dec_digits: "0 \<le> n \<Longrightarrow> n \<le> uint64_max \<Longrightarrow> atou64 (dec_digits n) = n"
  by (simp add: atou64_def parse_uint_full_def)

section \<open>The verb \<open>%q\<close>\<close>

text \<open>\<open>strconv.Quote\<close> on text of printable characters (which pass as they are, beyond ASCII in
  their UTF-8 form) and ASCII control characters.\<close>

definition hex_digit :: "int \<Rightarrow> char" where
  "hex_digit d = (if d < 10 then char_of (48 + d) else char_of (87 + d))"

definition quote_char :: "char \<Rightarrow> string" where
  "quote_char c =
     (let n = (of_char c :: int) in
      if c = CHR 0x22 \<or> c = CHR 0x5C then [CHR 0x5C, c]
      else if n = 7 then [CHR 0x5C, CHR ''a''] else if n = 8 then [CHR 0x5C, CHR ''b'']
      else if n = 12 then [CHR 0x5C, CHR ''f''] else if n = 10 then [CHR 0x5C, CHR ''n'']
      else if n = 13 then [CHR 0x5C, CHR ''r''] else if n = 9 then [CHR 0x5C, CHR ''t'']
      else if n = 11 then [CHR 0x5C, CHR ''v'']
      else if n < 32 \<or> n = 127 then [CHR 0x5C, CHR ''x'', hex_digit (n div 16), hex_digit (n mod 16)]
      else [c])"

definition go_quote :: "string \<Rightarrow> string" where
  "go_quote s = [CHR 0x22] @ concat (map quote_char s) @ [CHR 0x22]"

section \<open>Times: the layout RFC3339 in UTC\<close>

text \<open>An instant is a number of nanoseconds since 1970-01-01T00:00:00Z; \<open>civil\<close> is the date of a
  day, counted from the same origin.\<close>

definition civil :: "int \<Rightarrow> int \<times> int \<times> int" where
  "civil days =
     (let z = days + 719468; era = z div 146097; doe = z mod 146097;
          yoe = (doe - doe div 1460 + doe div 36524 - doe div 146096) div 365;
          doy = doe - (365 * yoe + yoe div 4 - yoe div 100);
          mp = (5 * doy + 2) div 153;
          d = doy - (153 * mp + 2) div 5 + 1;
          m = (if mp < 10 then mp + 3 else mp - 9)
      in (yoe + era * 400 + (if m \<le> 2 then 1 else 0), m, d))"

definition pad_num :: "nat \<Rightarrow> int \<Rightarrow> string" where
  "pad_num w n = replicate (w - length (itoa n)) (CHR ''0'') @ itoa n"

definition rfc3339 :: "int \<Rightarrow> string" where
  "rfc3339 ns =
     (let secs = ns div 1000000000; (y, m, d) = civil (secs div 86400); t = secs mod 86400
      in pad_num 4 y @ ''-'' @ pad_num 2 m @ ''-'' @ pad_num 2 d @ ''T'' @ pad_num 2 (t div 3600) @
         '':'' @ pad_num 2 (t div 60 mod 60) @ '':'' @ pad_num 2 (t mod 60) @ ''Z'')"

end
