(* ===== verification/GoRegex.thy ===== *)
theory GoRegex
  imports Prelude
begin

text \<open>
  Package \<open>regexp\<close>, as far as the parsers of the add-ons use it: a matcher with leftmost-first
  semantics and submatches.  A pattern of the source is written as a value of \<open>regex\<close>, and
  \<open>find_submatch\<close> is \<open>FindStringSubmatch\<close>: the submatches of the leftmost match, preferring
  the alternatives from left to right and the repetitions as their greediness says.

  The matcher is structural in the pattern; a repetition runs on a fuel of the length of the
  rest of the input, and \<open>star_iter_fuel\<close> shows that this is enough, because an iteration that
  consumes nothing is not continued.
\<close>

type_synonym caps = "nat \<Rightarrow> string"
type_synonym cont = "string \<Rightarrow> caps \<Rightarrow> caps option"
type_synonym matcher = "string \<Rightarrow> caps \<Rightarrow> cont \<Rightarrow> caps option"

datatype regex =
    Eps
  | Bol
  | Eol
  | Cls "char \<Rightarrow> bool"
  | Seq regex regex
  | Alt regex regex
  | Star bool regex
  | Cap nat regex

fun star_iter :: "bool \<Rightarrow> nat \<Rightarrow> matcher \<Rightarrow> matcher" where
  "star_iter greedy 0 m s c k = k s c"
| "star_iter greedy (Suc n) m s c k =
     (if greedy then
        (case m s c (\<lambda>s' c'. if length s' < length s then star_iter greedy n m s' c' k else None) of
           Some r \<Rightarrow> Some r
         | None \<Rightarrow> k s c)
      else
        (case k s c of
           Some r \<Rightarrow> Some r
         | None \<Rightarrow> m s c (\<lambda>s' c'. if length s' < length s then star_iter greedy n m s' c' k else None)))"

definition cls_match :: "(char \<Rightarrow> bool) \<Rightarrow> matcher" where
  "cls_match P s c k = (case s of [] \<Rightarrow> None | x # t \<Rightarrow> if P x then k t c else None)"

text \<open>\<open>len\<close> is the length of the whole input, which tells where the text begins.\<close>

fun rmatch :: "regex \<Rightarrow> nat \<Rightarrow> matcher" where
  "rmatch Eps len s c k = k s c"
| "rmatch Bol len s c k = (if length s = len then k s c else None)"
| "rmatch Eol len s c k = (if s = [] then k s c else None)"
| "rmatch (Cls P) len s c k = cls_match P s c k"
| "rmatch (Seq r q) len s c k = rmatch r len s c (\<lambda>s' c'. rmatch q len s' c' k)"
| "rmatch (Alt r q) len s c k =
     (case rmatch r len s c k of Some x \<Rightarrow> Some x | None \<Rightarrow> rmatch q len s c k)"
| "rmatch (Star greedy r) len s c k = star_iter greedy (length s) (rmatch r len) s c k"
| "rmatch (Cap i r) len s c k =
     rmatch r len s c (\<lambda>s' c'. k s' (c'(i := take (length s - length s') s)))"

fun find_from :: "regex \<Rightarrow> nat \<Rightarrow> string \<Rightarrow> caps option" where
  "find_from r len [] = rmatch r len [] (\<lambda>_. []) (\<lambda>_ c. Some c)"
| "find_from r len (x # s) =
     (case rmatch r len (x # s) (\<lambda>_. []) (\<lambda>_ c. Some c) of
        Some c \<Rightarrow> Some c
      | None \<Rightarrow> find_from r len s)"

definition find_submatch :: "regex \<Rightarrow> string \<Rightarrow> caps option" where
  "find_submatch r s = find_from r (length s) s"

section \<open>Pattern notation\<close>

definition re_digit :: "char \<Rightarrow> bool" where
  "re_digit c \<longleftrightarrow> is_digit c"

text \<open>\<open>\s\<close> is the ASCII set without the vertical tab, unlike \<open>strings.TrimSpace\<close>.\<close>

definition re_space :: "char \<Rightarrow> bool" where
  "re_space c \<longleftrightarrow> c = CHR 0x20 \<or> c = CHR 0x09 \<or> c = CHR 0x0A \<or> c = CHR 0x0C \<or> c = CHR 0x0D"

definition re_any :: "char \<Rightarrow> bool" where
  "re_any c \<longleftrightarrow> c \<noteq> CHR 0x0A"

fun re_lit :: "string \<Rightarrow> regex" where
  "re_lit [] = Eps"
| "re_lit (c # s) = Seq (Cls (\<lambda>x. x = c)) (re_lit s)"

fun re_alts :: "regex list \<Rightarrow> regex" where
  "re_alts [] = Cls (\<lambda>_. False)"
| "re_alts [r] = r"
| "re_alts (r # q # rs) = Alt r (re_alts (q # rs))"

fun re_seq :: "regex list \<Rightarrow> regex" where
  "re_seq [] = Eps"
| "re_seq [r] = r"
| "re_seq (r # q # rs) = Seq r (re_seq (q # rs))"

definition re_star :: "(char \<Rightarrow> bool) \<Rightarrow> regex" where
  "re_star P = Star True (Cls P)"

definition re_plus :: "(char \<Rightarrow> bool) \<Rightarrow> regex" where
  "re_plus P = Seq (Cls P) (Star True (Cls P))"

definition re_opt :: "regex \<Rightarrow> regex" where
  "re_opt r = Alt r Eps"

section \<open>What a match means\<close>

lemma cls_match_Nil [simp]: "cls_match P [] c k = None"
  by (simp add: cls_match_def)

lemma cls_match_Cons [simp]: "cls_match P (x # t) c k = (if P x then k t c else None)"
  by (simp add: cls_match_def)

lemma rmatch_Cls [simp]: "rmatch (Cls P) len = cls_match P"
  by (intro ext) simp

lemma cls_match_Some: "cls_match P s c k = Some r \<longleftrightarrow> (\<exists>x t. s = x # t \<and> P x \<and> k t c = Some r)"
  by (cases s) auto

text \<open>A match succeeds only by calling its continuation.\<close>

lemma star_iter_dead:
  assumes "\<And>s c. m s c (\<lambda>_ _. None) = None" and "\<And>s c. k s c = None"
  shows "star_iter greedy n m s c k = None"
proof (induction n arbitrary: s c)
  case (Suc n)
  have h: "(\<lambda>s' c'. if length s' < length s then star_iter greedy n m s' c' k else None) = (\<lambda>_ _. None)"
    by (intro ext) (simp add: Suc.IH)
  show ?case unfolding star_iter.simps h by (simp add: assms)
qed (simp add: assms)

lemma rmatch_dead: "rmatch r len s c (\<lambda>_ _. None) = None"
proof (induction r arbitrary: s c)
  case (Star greedy r)
  then show ?case by (simp add: star_iter_dead)
next
  case (Cls P)
  then show ?case by (cases s) auto
qed auto

text \<open>Any two fuels that cover the input give the same result.\<close>

lemma star_iter_fuel:
  assumes dead: "\<And>s c. m s c (\<lambda>_ _. None) = None"
  shows "length s \<le> n \<Longrightarrow> length s \<le> n' \<Longrightarrow> star_iter greedy n m s c k = star_iter greedy n' m s c k"
proof (induction n arbitrary: n' s c)
  case 0
  then show ?case by (cases n') (auto simp: dead split: option.splits)
next
  case (Suc n)
  show ?case
  proof (cases n')
    case 0
    with Suc.prems show ?thesis by (auto simp: dead split: option.splits)
  next
    case (Suc n'')
    have h: "(\<lambda>s' c'. if length s' < length s then star_iter greedy n m s' c' k else None) =
        (\<lambda>s' c'. if length s' < length s then star_iter greedy n'' m s' c' k else None)"
      using Suc.IH Suc Suc.prems by fastforce
    show ?thesis unfolding Suc star_iter.simps h by (rule refl)
  qed
qed

lemma rmatch_star_fuel:
  "length s \<le> n \<Longrightarrow> rmatch (Star greedy r) len s c k = star_iter greedy n (rmatch r len) s c k"
  unfolding rmatch.simps
  by (rule star_iter_fuel [of "rmatch r len", OF rmatch_dead]) simp_all

text \<open>
  A greedy repetition of a byte class takes the longest run if the rest of the pattern matches
  behind it, and whatever it takes is a run of the class.
\<close>

lemma star_cls_greedy:
  "k (dropWhile P s) c = Some x \<Longrightarrow> star_iter True (length s) (cls_match P) s c k = Some x"
proof (induction s)
  case (Cons a t)
  then show ?case by (cases "P a") auto
qed simp

lemma re_star_greedy: "k (dropWhile P s) c = Some x \<Longrightarrow> rmatch (re_star P) len s c k = Some x"
  by (simp add: re_star_def star_cls_greedy)

lemma re_plus_greedy:
  "P a \<Longrightarrow> k (dropWhile P s) c = Some x \<Longrightarrow> rmatch (re_plus P) len (a # s) c k = Some x"
  by (simp add: re_plus_def star_cls_greedy)

lemma star_cls_sound:
  "star_iter g n (cls_match P) s c k = Some x \<Longrightarrow>
     \<exists>u v. s = u @ v \<and> list_all P u \<and> k v c = Some x"
proof (induction n arbitrary: s)
  case (Suc n)
  have now: "k s c = Some x \<Longrightarrow> ?case"
    by (rule exI [of _ "[]"]) simp
  show ?case
  proof (cases "k s c = Some x")
    case False
    with Suc.prems have "cls_match P s c
        (\<lambda>s' c'. if length s' < length s then star_iter g n (cls_match P) s' c' k else None) = Some x"
      by (auto split: if_splits option.splits)
    then obtain a t where s: "s = a # t" "P a"
      and t: "star_iter g n (cls_match P) t c k = Some x"
      by (auto simp: cls_match_Some split: if_splits)
    from Suc.IH [OF t] obtain u v where "t = u @ v" "list_all P u" "k v c = Some x" by blast
    with s have "s = (a # u) @ v \<and> list_all P (a # u) \<and> k v c = Some x" by simp
    then show ?thesis by blast
  qed (rule now)
qed (auto intro: exI [of _ "[]"])

lemma re_star_sound:
  "rmatch (re_star P) len s c k = Some x \<Longrightarrow> \<exists>u v. s = u @ v \<and> list_all P u \<and> k v c = Some x"
  by (auto simp: re_star_def dest: star_cls_sound)

lemma re_plus_sound:
  "rmatch (re_plus P) len s c k = Some x \<Longrightarrow>
     \<exists>u v. s = u @ v \<and> u \<noteq> [] \<and> list_all P u \<and> k v c = Some x"
proof -
  assume "rmatch (re_plus P) len s c k = Some x"
  then obtain a t where s: "s = a # t" "P a"
    and t: "star_iter True (length t) (cls_match P) t c k = Some x"
    by (auto simp: re_plus_def cls_match_Some)
  from star_cls_sound [OF t] obtain u v where "t = u @ v" "list_all P u" "k v c = Some x" by blast
  with s have "s = (a # u) @ v \<and> a # u \<noteq> [] \<and> list_all P (a # u) \<and> k v c = Some x" by simp
  then show ?thesis by blast
qed

lemma re_lit_match: "rmatch (re_lit w) len s c k = (if has_prefix s w then k (drop (length w) s) c else None)"
proof (induction w arbitrary: s)
  case (Cons a w)
  then show ?case by (cases s) auto
qed simp

text \<open>An alternation of words matches the one word that is a prefix of the input.\<close>

lemma re_alts_Cons:
  "ws \<noteq> [] \<Longrightarrow> re_alts (map re_lit (w # ws)) = Alt (re_lit w) (re_alts (map re_lit ws))"
  by (cases ws) simp_all

lemma re_alts_none:
  "(\<And>w. w \<in> set ws \<Longrightarrow> \<not> has_prefix s w) \<Longrightarrow> rmatch (re_alts (map re_lit ws)) len s c k = None"
proof (induction ws)
  case Nil
  then show ?case by (cases s) simp_all
next
  case (Cons w ws)
  then show ?case
    by (cases "ws = []") (simp add: re_lit_match, simp add: re_alts_Cons re_lit_match del: list.map)
qed

lemma re_alts_unique:
  assumes "\<And>w'. w' \<in> set ws \<Longrightarrow> has_prefix s w' \<longleftrightarrow> w' = w" and "w \<in> set ws"
  shows "rmatch (re_alts (map re_lit ws)) len s c k = k (drop (length w) s) c"
  using assms
proof (induction ws)
  case (Cons w1 ws)
  show ?case
  proof (cases "ws = []")
    case False
    have IH: "w \<in> set ws \<Longrightarrow> rmatch (re_alts (map re_lit ws)) len s c k = k (drop (length w) s) c"
      using Cons by simp
    have none: "w \<notin> set ws \<Longrightarrow> rmatch (re_alts (map re_lit ws)) len s c k = None"
      using Cons.prems(1) by (intro re_alts_none) auto
    show ?thesis
      using Cons.prems IH none False
      by (cases "w \<in> set ws"; cases "k (drop (length w) s) c")
        (auto simp: re_alts_Cons re_lit_match simp del: list.map)
  qed (use Cons.prems in \<open>simp add: re_lit_match\<close>)
qed simp

lemmas re_sound = re_star_sound re_plus_sound

lemma find_from_anchored:
  assumes "\<And>s c k. length s < len \<Longrightarrow> rmatch r len s c k = None" and "length s < len"
  shows "find_from r len s = None"
  using assms(2)
proof (induction s)
  case Nil
  then show ?case using assms(1) [of "[]"] by simp
next
  case (Cons a s)
  then show ?case using assms(1) [of "a # s"] by simp
qed

text \<open>A pattern that starts with \<open>^\<close> can only match at the start of the text.\<close>

lemma find_submatch_bol:
  "find_submatch (Seq Bol r) s = rmatch r (length s) s (\<lambda>_. []) (\<lambda>_ c. Some c)"
proof (cases s)
  case (Cons a t)
  have "find_from (Seq Bol r) (length s) t = None"
    by (rule find_from_anchored) (auto simp: Cons)
  with Cons show ?thesis by (auto simp: find_submatch_def split: option.splits)
qed (simp add: find_submatch_def)

end
