(* ===== verification/GoFloat.thy ===== *)
theory GoFloat
  imports Prelude "HOL-Library.Log_Nat"
begin

text \<open>
  Go's \<open>float64\<close>: IEEE 754 binary64 values, the finite ones as the rationals they denote (the
  sign of zero is not kept, no operation of the program looks at it).  \<open>round64\<close> is rounding to
  nearest, ties to even, with 53 bits of precision and gradual underflow; every operation is the
  exact rational result rounded once.
\<close>

datatype float64 = NaN | PInf | NInf | Fin rat

definition pow2 :: "int \<Rightarrow> rat" where
  "pow2 e = (if 0 \<le> e then 2 ^ nat e else 1 / 2 ^ nat (- e))"

text \<open>The exponent \<open>e\<close> with \<open>2^e \<le> x < 2^(e+1)\<close>, for positive \<open>x\<close>.\<close>

definition ilog2 :: "rat \<Rightarrow> int" where
  "ilog2 x =
     (let (p, q) = quotient_of x; e = bitlen p - bitlen q
      in if x < pow2 e then e - 1 else e)"

definition round_even :: "rat \<Rightarrow> int" where
  "round_even x =
     (let n = \<lfloor>x\<rfloor>; d = x - of_int n
      in if d < 1 / 2 then n else if d > 1 / 2 then n + 1 else if even n then n else n + 1)"

definition round64_abs :: "rat \<Rightarrow> rat" where
  "round64_abs a =
     (let e = max (ilog2 a - 52) (- 1074) in of_int (round_even (a / pow2 e)) * pow2 e)"

definition round64 :: "rat \<Rightarrow> float64" where
  "round64 x =
     (if x = 0 then Fin 0
      else let r = round64_abs \<bar>x\<bar>
           in if r \<ge> 2 ^ 1024 then (if 0 < x then PInf else NInf)
              else Fin (if 0 < x then r else - r))"

text \<open>The conversion \<open>float64(n)\<close> of an integer.\<close>

definition f64_of_int :: "int \<Rightarrow> float64" where
  "f64_of_int n = round64 (of_int n)"

fun f64_ge :: "float64 \<Rightarrow> float64 \<Rightarrow> bool" where
  "f64_ge NaN y = False"
| "f64_ge x NaN = False"
| "f64_ge PInf y = True"
| "f64_ge x NInf = True"
| "f64_ge NInf y = False"
| "f64_ge x PInf = False"
| "f64_ge (Fin a) (Fin b) = (a \<ge> b)"

fun f64_gt :: "float64 \<Rightarrow> float64 \<Rightarrow> bool" where
  "f64_gt NaN y = False"
| "f64_gt x NaN = False"
| "f64_gt x PInf = False"
| "f64_gt PInf y = True"
| "f64_gt NInf y = False"
| "f64_gt (Fin a) NInf = True"
| "f64_gt (Fin a) (Fin b) = (a > b)"

text \<open>Division and multiplication of finite values; the divisor is not zero where the code divides.\<close>

fun f64_div :: "float64 \<Rightarrow> float64 \<Rightarrow> float64" where
  "f64_div (Fin a) (Fin b) = (if b = 0 then NaN else round64 (a / b))"
| "f64_div NaN y = NaN"
| "f64_div x NaN = NaN"
| "f64_div (Fin a) y = Fin 0"
| "f64_div x (Fin b) = (if (x = PInf) = (b \<ge> 0) then PInf else NInf)"
| "f64_div x y = NaN"

fun f64_mul :: "float64 \<Rightarrow> rat \<Rightarrow> float64" where
  "f64_mul (Fin a) b = round64 (a * b)"
| "f64_mul NaN b = NaN"
| "f64_mul x b = (if b = 0 then NaN else if (x = PInf) = (b > 0) then PInf else NInf)"

text \<open>
  \<open>strconv.ParseFloat\<close> on the texts the parsers hand to it, which consist of digits and dots:
  at most one dot and at least one digit, else a syntax error with value 0.
\<close>

definition parse_dec_float :: "string \<Rightarrow> float64 option" where
  "parse_dec_float s =
     (case split_on (CHR ''.'') s of
        [w] \<Rightarrow> if all_digits w then Some (round64 (of_int (dec_val w))) else None
      | [w, f] \<Rightarrow>
          if list_all is_digit w \<and> list_all is_digit f \<and> (w \<noteq> [] \<or> f \<noteq> [])
          then Some (round64 (of_int (dec_val (w @ f)) / 10 ^ length f)) else None
      | _ \<Rightarrow> None)"

text \<open>The idiom \<open>f, _ := strconv.ParseFloat(s, 64)\<close>.\<close>

definition parse_float :: "string \<Rightarrow> float64" where
  "parse_float s = (case parse_dec_float s of Some f \<Rightarrow> f | None \<Rightarrow> Fin 0)"

text \<open>
  The conversion \<open>uint64(f)\<close> truncates; outside the range of the type the language leaves the
  result to the implementation, which is the argument \<open>oor\<close>.
\<close>

definition f64_to_u64 :: "(float64 \<Rightarrow> int) \<Rightarrow> float64 \<Rightarrow> int" where
  "f64_to_u64 oor x =
     (case x of
        Fin a \<Rightarrow> if - 1 < a \<and> a < 18446744073709551616 then max 0 \<lfloor>a\<rfloor> else oor x
      | _ \<Rightarrow> oor x)"

section \<open>Integers are exact\<close>

lemma pow2_pos [simp]: "0 < pow2 e"
  by (simp add: pow2_def)

lemma pow2_neg: "pow2 (- e) = 1 / pow2 e"
  by (auto simp: pow2_def)

lemma round_even_int [simp]: "round_even (of_int n) = n"
  by (simp add: round_even_def)

lemma round64_abs_int:
  assumes n: "0 < n" "n < 2 ^ 53"
  shows "round64_abs (of_int n) = of_int n"
proof -
  let ?e = "max (ilog2 (of_int n :: rat) - 52) (- 1074)"
  have "bitlen n \<le> 53"
    using n by (simp add: bitlen_le_iff_power)
  moreover have "bitlen (1::int) = 1" by (simp add: bitlen_def floorlog_eq_zero_iff compute_floorlog)
  ultimately have "ilog2 (of_int n :: rat) \<le> 52"
    by (auto simp: ilog2_def quotient_of_int Let_def)
  then have e: "?e \<le> 0" by simp
  then have "(of_int n :: rat) / pow2 ?e = of_int (n * 2 ^ nat (- ?e))"
    by (auto simp: pow2_def)
  then have "round_even ((of_int n :: rat) / pow2 ?e) = n * 2 ^ nat (- ?e)"
    by (metis round_even_int)
  then have "round64_abs (of_int n) = of_int (n * 2 ^ nat (- ?e)) * pow2 ?e"
    by (simp add: round64_abs_def Let_def)
  also have "\<dots> = of_int n" using e by (auto simp: pow2_def)
  finally show ?thesis .
qed

lemma f64_of_int_exact: "\<bar>n\<bar> < 2 ^ 53 \<Longrightarrow> f64_of_int n = Fin (of_int n)"
proof -
  assume n: "\<bar>n\<bar> < 2 ^ 53"
  show ?thesis
  proof (cases "n = 0")
    case False
    then have pos: "0 < \<bar>n\<bar>" by simp
    have r: "round64_abs \<bar>of_int n\<bar> = of_int \<bar>n\<bar>"
      using round64_abs_int [OF pos n] by simp
    have "(of_int \<bar>n\<bar> :: rat) < 2 ^ 53"
      using n by (metis of_int_less_iff of_int_numeral of_int_power)
    also have "(2 ^ 53 :: rat) \<le> 2 ^ 1024" by (rule power_increasing) simp_all
    finally have "\<not> (2 ^ 1024 :: rat) \<le> of_int \<bar>n\<bar>" by simp
    then show ?thesis using False r by (auto simp: f64_of_int_def round64_def Let_def)
  qed (simp add: f64_of_int_def round64_def)
qed

lemma f64_ge_refl [simp]: "f64_ge (Fin a) (Fin a)"
  by simp

lemma f64_ge_not_gt: "f64_ge x y \<Longrightarrow> \<not> f64_gt y x"
  by (cases x; cases y) auto

end
