(* ===== verification/SnapParse.thy ===== *)
theory SnapParse
  imports GoRegex GoFloat
begin

text \<open>
  The SnapRAID agent's reading of the \<open>snapraid\<close> command's output
  (\<open>snapraid/internal/engine\<close>: \<open>types.go\<close>, \<open>regex.go\<close>, \<open>status.go\<close>, \<open>diff.go\<close>,
  \<open>smart.go\<close>, \<open>validate.go\<close>, \<open>disk_storage.go\<close>).  Each report struct is a record, each compiled
  pattern a \<open>regex\<close>, and each parser a fold over the lines of the output in the order of the
  code, where a later line overwrites what an earlier one set.

  Instants are whole nanoseconds, the zero \<open>time.Time\<close> is \<open>None\<close>; 64-bit unsigned products wrap.
\<close>

section \<open>Reports (types.go)\<close>

record scrub_age_report =
  sa_oldest :: "int option"
  sa_median :: "int option"
  sa_newest :: "int option"

record disk_info =
  di_name :: string
  di_device :: string
  di_used :: int
  di_free :: int
  di_wasted :: int

record status_report =
  st_files :: int
  st_fragmented :: int
  st_excess_fragments :: int
  st_file_size :: int
  st_parity_size :: int
  st_wasted_space :: int
  st_unsynced_blocks :: int
  st_unscrubbed_percent :: float64
  st_bad_blocks :: int
  st_scrub_age :: scrub_age_report
  st_disk_status :: "disk_info list"
  st_output :: string

record diff_entry =
  de_change :: string
  de_path :: string

record diff_report =
  df_added :: int
  df_removed :: int
  df_updated :: int
  df_moved :: int
  df_copied :: int
  df_restored :: int
  df_has_changes :: bool
  df_file_details :: "diff_entry list"
  df_output :: string

record smart_disk =
  sd_device :: string
  sd_disk_name :: string
  sd_serial :: string
  sd_temperature :: int
  sd_power_on_days :: int
  sd_error_count :: int
  sd_failure_probability :: float64
  sd_size :: int
  sd_status :: string

record smart_report =
  sm_disks :: "smart_disk list"
  sm_overall_fail_probability :: float64
  sm_output :: string

text \<open>Sync, scrub, fix and touch all report an exit code and the combined output.\<close>

record op_report =
  op_exit_code :: int
  op_output :: string

type_synonym sync_report = op_report
type_synonym scrub_report = op_report
type_synonym fix_report = op_report
type_synonym touch_report = op_report

record sync_options =
  so_pre_hash :: bool
  so_force_zero :: bool
  so_force_empty :: bool
  so_force_full :: bool

record scrub_options =
  sco_plan :: string
  sco_older_than_days :: int

record fix_options =
  fo_bad_blocks_only :: bool
  fo_disk :: string
  fo_filter :: string

section \<open>Patterns (regex.go)\<close>

abbreviation re_ws :: regex where "re_ws \<equiv> re_star re_space"
abbreviation re_ws1 :: regex where "re_ws1 \<equiv> re_plus re_space"
abbreviation re_num :: regex where "re_num \<equiv> re_plus re_digit"
abbreviation re_word :: regex where "re_word \<equiv> re_plus (\<lambda>c. \<not> re_space c)"
abbreviation re_decimal :: regex where "re_decimal \<equiv> re_plus (\<lambda>c. re_digit c \<or> c = CHR ''.'')"

definition re_progress :: regex where
  "re_progress = re_seq [Cap 1 re_num, re_lit ''%'']"

definition re_files :: regex where
  "re_files = re_seq [Bol, re_ws, Cap 1 re_num, re_ws1, re_lit ''files'']"

definition re_fragmented :: regex where
  "re_fragmented = re_seq [Bol, re_ws, Cap 1 re_num, re_ws1, re_lit ''fragmented'']"

definition re_excess_fragments :: regex where
  "re_excess_fragments =
     re_seq [Bol, re_ws, Cap 1 re_num, re_ws1, re_lit ''excess'', re_ws1, re_lit ''fragments'']"

definition re_file_size :: regex where
  "re_file_size =
     re_seq [Bol, re_ws, Cap 1 re_num, re_ws1, re_lit ''GB'', re_ws1, re_lit ''in'', re_ws1,
       re_num, re_ws1, re_lit ''files'']"

definition re_parity_size :: regex where
  "re_parity_size =
     re_seq [Bol, re_ws, Cap 1 re_num, re_ws1, re_lit ''GB'', re_ws1, re_lit ''of'', re_ws1,
       re_lit ''parity'']"

definition re_wasted_space :: regex where
  "re_wasted_space =
     re_seq [Bol, re_ws, Cap 1 re_num, re_ws1, re_lit ''GB'', re_ws1, re_lit ''of'', re_ws1,
       re_lit ''wasted'', re_ws1, re_lit ''space'']"

definition re_unsynced_blocks :: regex where
  "re_unsynced_blocks =
     re_seq [Bol, re_ws, Cap 1 re_num, re_ws1, re_lit ''unsynced'', re_ws1, re_lit ''blocks'']"

definition re_unscrubbed_pct :: regex where
  "re_unscrubbed_pct =
     re_seq [re_lit ''unscrubbed'', re_ws1, re_lit ''at'', re_ws1, Cap 1 re_decimal, re_lit ''%'']"

definition re_bad_blocks :: regex where
  "re_bad_blocks =
     re_seq [Bol, re_ws, Cap 1 re_num, re_ws1, re_lit ''bad'', re_ws1, re_lit ''blocks'']"

definition re_scrub_block :: "string \<Rightarrow> regex" where
  "re_scrub_block which =
     re_seq [re_lit ''the'', re_ws1, re_lit which, re_ws1, re_lit ''block'', re_ws1, re_lit ''was'',
       re_ws1, re_lit ''scrubbed'', re_ws1, Cap 1 re_num, re_ws1, re_lit ''days'', re_ws1, re_lit ''ago'']"

definition re_scrub_oldest :: regex where "re_scrub_oldest = re_scrub_block ''oldest''"
definition re_scrub_median :: regex where "re_scrub_median = re_scrub_block ''median''"
definition re_scrub_newest :: regex where "re_scrub_newest = re_scrub_block ''newest''"

definition re_disk_line :: regex where
  "re_disk_line =
     re_seq [Bol, re_ws,
       Cap 1 (re_alts (map re_lit [''data'', ''parity'', ''2-parity'', ''3-parity'', ''4-parity'',
                                  ''5-parity'', ''6-parity''])),
       re_ws1, Cap 2 re_word, re_ws1, Cap 3 re_word, re_ws1, Cap 4 re_num, re_ws1, Cap 5 re_num,
       re_ws1, Cap 6 re_num, re_ws1, Cap 7 re_num]"

definition re_diff_counter :: regex where
  "re_diff_counter =
     re_seq [Bol, re_ws, Cap 1 re_num, re_ws1,
       Cap 2 (re_alts (map re_lit [''added'', ''removed'', ''updated'', ''moved'', ''copied'', ''restored''])),
       Eol]"

definition re_diff_entry :: regex where
  "re_diff_entry =
     re_seq [Bol,
       Cap 1 (re_alts (map re_lit [''add'', ''remove'', ''update'', ''move'', ''copy'', ''restore''])),
       re_ws1, Cap 2 (re_plus re_any), Eol]"

definition re_smart_disk :: regex where
  "re_smart_disk =
     re_seq [Bol, re_ws, Cap 1 (Alt re_num (re_lit ''-'')), re_opt (re_lit ''C''), re_ws1,
       Cap 2 (Alt re_num (re_lit ''-'')), re_ws1, Cap 3 (Alt re_num (re_lit ''-'')), re_ws1,
       Cap 4 (Alt re_num (re_lit ''-'')), re_opt (re_lit ''%''), re_ws1,
       Cap 5 re_decimal, re_ws,
       Cap 6 (Seq (re_opt (Cls (\<lambda>c. c \<in> set ''TGMK''))) (re_lit ''B'')), re_ws1,
       Cap 7 re_word, re_ws1, Cap 8 re_word, re_ws1, Cap 9 re_word, re_ws1,
       Cap 10 (re_alts (map re_lit [''OK'', ''SSD'', ''FAIL'', ''PREFAIL'', ''n/a''])), re_ws, Eol]"

definition re_overall_fail :: regex where
  "re_overall_fail =
     re_seq [re_lit ''probability'', Star False (Cls re_any), Cap 1 re_num, re_lit ''%'']"

section \<open>Status (status.go)\<close>

definition gib :: "int \<Rightarrow> int" where
  "gib n = wrapu64 (n * 1000000000)"

definition days_before :: "int \<Rightarrow> int \<Rightarrow> int" where
  "days_before now n = now - n * 86400000000000"

definition on_match :: "regex \<Rightarrow> string \<Rightarrow> (caps \<Rightarrow> 'r \<Rightarrow> 'r) \<Rightarrow> 'r \<Rightarrow> 'r" where
  "on_match re line f r = (case find_submatch re line of Some m \<Rightarrow> f m r | None \<Rightarrow> r)"

definition empty_scrub_age :: scrub_age_report where
  "empty_scrub_age = \<lparr>sa_oldest = None, sa_median = None, sa_newest = None\<rparr>"

definition empty_status :: status_report where
  "empty_status = \<lparr>st_files = 0, st_fragmented = 0, st_excess_fragments = 0, st_file_size = 0,
     st_parity_size = 0, st_wasted_space = 0, st_unsynced_blocks = 0, st_unscrubbed_percent = Fin 0,
     st_bad_blocks = 0, st_scrub_age = empty_scrub_age, st_disk_status = [], st_output = []\<rparr>"

definition status_line :: "int \<Rightarrow> string \<Rightarrow> status_report \<Rightarrow> status_report" where
  "status_line now line r0 =
    (let r1 = on_match re_files line (\<lambda>m r. r\<lparr>st_files := atoi (m 1)\<rparr>) r0;
         r2 = on_match re_fragmented line (\<lambda>m r. r\<lparr>st_fragmented := atoi (m 1)\<rparr>) r1;
         r3 = on_match re_excess_fragments line (\<lambda>m r. r\<lparr>st_excess_fragments := atoi (m 1)\<rparr>) r2;
         r4 = on_match re_file_size line (\<lambda>m r. r\<lparr>st_file_size := gib (atou64 (m 1))\<rparr>) r3;
         r5 = on_match re_parity_size line (\<lambda>m r. r\<lparr>st_parity_size := gib (atou64 (m 1))\<rparr>) r4;
         r6 = on_match re_wasted_space line (\<lambda>m r. r\<lparr>st_wasted_space := gib (atou64 (m 1))\<rparr>) r5;
         r7 = on_match re_unsynced_blocks line (\<lambda>m r. r\<lparr>st_unsynced_blocks := atoi (m 1)\<rparr>) r6;
         r8 = on_match re_unscrubbed_pct line (\<lambda>m r. r\<lparr>st_unscrubbed_percent := parse_float (m 1)\<rparr>) r7;
         r9 = on_match re_bad_blocks line (\<lambda>m r. r\<lparr>st_bad_blocks := atoi (m 1)\<rparr>) r8;
         r10 = on_match re_scrub_oldest line
           (\<lambda>m r. r\<lparr>st_scrub_age := (st_scrub_age r)\<lparr>sa_oldest := Some (days_before now (atoi (m 1)))\<rparr>\<rparr>) r9;
         r11 = on_match re_scrub_median line
           (\<lambda>m r. r\<lparr>st_scrub_age := (st_scrub_age r)\<lparr>sa_median := Some (days_before now (atoi (m 1)))\<rparr>\<rparr>) r10;
         r12 = on_match re_scrub_newest line
           (\<lambda>m r. r\<lparr>st_scrub_age := (st_scrub_age r)\<lparr>sa_newest := Some (days_before now (atoi (m 1)))\<rparr>\<rparr>) r11
     in on_match re_disk_line line
          (\<lambda>m r. r\<lparr>st_disk_status := st_disk_status r @
             [\<lparr>di_name = m 2, di_device = m 3, di_used = gib (atou64 (m 5)),
               di_free = gib (atou64 (m 6)), di_wasted = gib (atou64 (m 7))\<rparr>]\<rparr>) r12)"

definition parse_status :: "int \<Rightarrow> string \<Rightarrow> status_report" where
  "parse_status now output = fold (status_line now) (split_on CHR 0x0A output) empty_status"

section \<open>Diff (diff.go)\<close>

definition empty_diff :: diff_report where
  "empty_diff = \<lparr>df_added = 0, df_removed = 0, df_updated = 0, df_moved = 0, df_copied = 0,
     df_restored = 0, df_has_changes = False, df_file_details = [], df_output = []\<rparr>"

definition set_counter :: "string \<Rightarrow> int \<Rightarrow> diff_report \<Rightarrow> diff_report" where
  "set_counter what count r =
     (if what = ''added'' then r\<lparr>df_added := count\<rparr>
      else if what = ''removed'' then r\<lparr>df_removed := count\<rparr>
      else if what = ''updated'' then r\<lparr>df_updated := count\<rparr>
      else if what = ''moved'' then r\<lparr>df_moved := count\<rparr>
      else if what = ''copied'' then r\<lparr>df_copied := count\<rparr>
      else if what = ''restored'' then r\<lparr>df_restored := count\<rparr>
      else r)"

definition diff_line :: "string \<Rightarrow> diff_report \<Rightarrow> diff_report" where
  "diff_line line r0 =
     (let r1 = on_match re_diff_counter line (\<lambda>m r. set_counter (m 2) (atoi (m 1)) r) r0
      in on_match re_diff_entry line
           (\<lambda>m r. r\<lparr>df_file_details := df_file_details r @ [\<lparr>de_change = m 1, de_path = m 2\<rparr>]\<rparr>) r1)"

definition has_changes :: "diff_report \<Rightarrow> bool" where
  "has_changes r \<longleftrightarrow>
     df_added r > 0 \<or> df_removed r > 0 \<or> df_updated r > 0 \<or>
     df_moved r > 0 \<or> df_copied r > 0 \<or> df_restored r > 0"

definition parse_diff :: "string \<Rightarrow> diff_report" where
  "parse_diff output =
     (let r = fold diff_line (split_on CHR 0x0A output) empty_diff
      in r\<lparr>df_has_changes := has_changes r\<rparr>)"

section \<open>Smart (smart.go)\<close>

definition dash_atoi :: "string \<Rightarrow> int" where
  "dash_atoi s = (if s = ''-'' then 0 else atoi s)"

definition dash_float :: "string \<Rightarrow> float64" where
  "dash_float s = (if s = ''-'' then Fin 0 else parse_float s)"

definition parse_size :: "(float64 \<Rightarrow> int) \<Rightarrow> string \<Rightarrow> string \<Rightarrow> int" where
  "parse_size oor num unit =
     (let f = parse_float num
      in if unit = ''TB'' then f64_to_u64 oor (f64_mul f 1000000000000)
         else if unit = ''GB'' then f64_to_u64 oor (f64_mul f 1000000000)
         else if unit = ''MB'' then f64_to_u64 oor (f64_mul f 1000000)
         else if unit = ''KB'' then f64_to_u64 oor (f64_mul f 1000)
         else f64_to_u64 oor f)"

definition smart_disk_of :: "(float64 \<Rightarrow> int) \<Rightarrow> caps \<Rightarrow> smart_disk" where
  "smart_disk_of oor m =
     \<lparr>sd_device = m 8, sd_disk_name = m 9, sd_serial = m 7, sd_temperature = dash_atoi (m 1),
      sd_power_on_days = dash_atoi (m 2), sd_error_count = dash_atoi (m 3),
      sd_failure_probability = dash_float (m 4), sd_size = parse_size oor (m 5) (m 6),
      sd_status = m 10\<rparr>"

definition smart_line :: "(float64 \<Rightarrow> int) \<Rightarrow> string \<Rightarrow> smart_report \<Rightarrow> smart_report" where
  "smart_line oor line r0 =
     (let r1 = on_match re_smart_disk line (\<lambda>m r. r\<lparr>sm_disks := sm_disks r @ [smart_disk_of oor m]\<rparr>) r0
      in on_match re_overall_fail line (\<lambda>m r. r\<lparr>sm_overall_fail_probability := parse_float (m 1)\<rparr>) r1)"

definition parse_smart :: "(float64 \<Rightarrow> int) \<Rightarrow> string \<Rightarrow> smart_report" where
  "parse_smart oor output =
     fold (smart_line oor) (split_on CHR 0x0A output)
       \<lparr>sm_disks = [], sm_overall_fail_probability = Fin 0, sm_output = []\<rparr>"

section \<open>Reading back what was printed\<close>

text \<open>
  The lines of \<open>snapraid diff\<close> the parser looks for: a right-aligned count followed by a word,
  and a change followed by a path.
\<close>

definition counter_line :: "nat \<Rightarrow> int \<Rightarrow> string \<Rightarrow> string" where
  "counter_line pad n w = replicate pad CHR 0x20 @ dec_digits n @ CHR 0x20 # w"

definition entry_line :: "diff_entry \<Rightarrow> string" where
  "entry_line e = de_change e @ CHR 0x20 # de_path e"

definition counter_words :: "string list" where
  "counter_words = [''added'', ''removed'', ''updated'', ''moved'', ''copied'', ''restored'']"

definition change_words :: "string list" where
  "change_words = [''add'', ''remove'', ''update'', ''move'', ''copy'', ''restore'']"

text \<open>Paths a line can hold: not empty, no newline, no white space in front.\<close>

definition entry_ok :: "diff_entry \<Rightarrow> bool" where
  "entry_ok e \<longleftrightarrow>
     de_change e \<in> set change_words \<and> list_all re_any (de_path e) \<and>
     (case de_path e of [] \<Rightarrow> False | p # _ \<Rightarrow> \<not> re_space p)"

lemma digit_not_space [simp]: "is_digit c \<Longrightarrow> \<not> re_space c"
  by (auto simp: is_digit_def re_space_def)

lemma space_not_digit [simp]: "\<not> is_digit CHR 0x20"
  by (simp add: is_digit_def)

lemma re_space_blank [simp]: "re_space CHR 0x20"
  by (simp add: re_space_def)

lemma dropWhile_all_app: "list_all P u \<Longrightarrow> (case v of [] \<Rightarrow> True | x # _ \<Rightarrow> \<not> P x) \<Longrightarrow> dropWhile P (u @ v) = v"
  by (induction u) (auto split: list.splits)

lemma rmatch_ws:
  "list_all re_space u \<Longrightarrow> (case v of [] \<Rightarrow> True | x # _ \<Rightarrow> \<not> re_space x) \<Longrightarrow> k v c = Some x \<Longrightarrow>
     rmatch re_ws len (u @ v) c k = Some x"
  by (rule re_star_greedy) (simp add: dropWhile_all_app)

lemma rmatch_num:
  assumes "all_digits D" and "case v of [] \<Rightarrow> True | x # _ \<Rightarrow> \<not> is_digit x" and "k v c = Some x"
  shows "rmatch re_num len (D @ v) c k = Some x"
proof -
  obtain d ds where D: "D = d # ds" "is_digit d" "list_all is_digit ds"
    using assms(1) by (cases D) (auto simp: all_digits_def)
  have "dropWhile re_digit (ds @ v) = v"
    using D assms(2) by (intro dropWhile_all_app) (auto simp: re_digit_def list_all_iff split: list.splits)
  then show ?thesis
    using D assms(3) by (auto simp: re_digit_def intro!: re_plus_greedy)
qed

lemma rmatch_blank:
  "(case v of [] \<Rightarrow> True | x # _ \<Rightarrow> \<not> re_space x) \<Longrightarrow> k v c = Some x \<Longrightarrow>
     rmatch re_ws1 len (CHR 0x20 # v) c k = Some x"
  by (rule re_plus_greedy) (auto split: list.splits)

lemma rmatch_num_fail:
  "(case s of [] \<Rightarrow> True | x # _ \<Rightarrow> \<not> is_digit x) \<Longrightarrow> rmatch re_num len s c k = None"
proof (rule ccontr)
  assume h: "case s of [] \<Rightarrow> True | x # _ \<Rightarrow> \<not> is_digit x" and "rmatch re_num len s c k \<noteq> None"
  then obtain x where "rmatch re_num len s c k = Some x" by blast
  from re_plus_sound [OF this] obtain u v where "s = u @ v" "u \<noteq> []" "list_all re_digit u" by blast
  with h show False by (cases u) (auto simp: re_digit_def)
qed

lemma counter_match:
  assumes D: "all_digits D" and w: "w \<in> set counter_words"
  shows "\<exists>m. find_submatch re_diff_counter (replicate pad CHR 0x20 @ D @ CHR 0x20 # w) = Some m \<and> m 1 = D \<and> m 2 = w"
proof -
  let ?m = "((\<lambda>_. [])(1 := D, 2 := w)) :: caps"
  have nospace: "case D @ v of [] \<Rightarrow> True | x # _ \<Rightarrow> \<not> re_space x" for v
    using D by (cases D) (auto simp: all_digits_def)
  have wspace: "case w of [] \<Rightarrow> True | x # _ \<Rightarrow> \<not> re_space x"
    using w by (auto simp: counter_words_def re_space_def)
  let ?w2 = "rmatch (Seq (Cap 2 (re_alts (map re_lit counter_words))) Eol)"
  have tail: "?w2 len w ((\<lambda>_. [])(1 := D)) (\<lambda>_ c. Some c) = Some ?m" for len
    using w by (auto simp: counter_words_def re_lit_match simp del: re_lit.simps split: option.splits)
  have "find_submatch re_diff_counter (replicate pad CHR 0x20 @ D @ CHR 0x20 # w) = Some ?m"
    unfolding re_diff_counter_def re_seq.simps find_submatch_bol counter_words_def [symmetric]
    apply (simp only: rmatch.simps(5))
    apply (rule rmatch_ws)
      apply (simp add: list_all_iff)
     apply (rule nospace)
    apply (simp only: rmatch.simps(8))
    apply (rule rmatch_num [OF D])
     apply simp
    apply (rule rmatch_blank [OF wspace])
    using tail by simp
  moreover have "?m 1 = D" "?m 2 = w" by simp_all
  ultimately show ?thesis by blast
qed

lemma counter_no_entry:
  assumes D: "all_digits D"
  shows "find_submatch re_diff_entry (replicate pad CHR 0x20 @ D @ CHR 0x20 # w) = None"
proof -
  obtain d ds where d: "D = d # ds" "is_digit d"
    using D by (cases D) (auto simp: all_digits_def)
  show ?thesis
    unfolding re_diff_entry_def re_seq.simps find_submatch_bol
    using d by (cases pad) (auto simp: is_digit_def)
qed

lemma change_alts:
  assumes "w \<in> set change_words"
  shows "rmatch (re_alts (map re_lit change_words)) len (w @ CHR 0x20 # v) c k = k (CHR 0x20 # v) c"
proof -
  have "has_prefix (w @ CHR 0x20 # v) w' \<longleftrightarrow> w' = w" if "w' \<in> set change_words" for w'
    using that assms unfolding change_words_def list.set insert_iff empty_iff simp_thms
    by (elim disjE) simp_all
  then show ?thesis using re_alts_unique [OF _ assms, of "w @ CHR 0x20 # v" len c k] by simp
qed

lemma entry_match:
  assumes "entry_ok e"
  shows "\<exists>m. find_submatch re_diff_entry (entry_line e) = Some m \<and> m 1 = de_change e \<and> m 2 = de_path e"
proof -
  obtain p ps where p: "de_path e = p # ps" "\<not> re_space p" "re_any p" "list_all re_any ps"
    using assms by (cases "de_path e") (auto simp: entry_ok_def)
  have w: "de_change e \<in> set change_words" using assms by (simp add: entry_ok_def)
  let ?m = "((\<lambda>_. [])(1 := de_change e, 2 := de_path e)) :: caps"
  have drop: "dropWhile re_any ps = []" using p by (simp add: list_all_iff)
  have path: "rmatch (Seq (Cap 2 (re_plus re_any)) Eol) len (p # ps) c (\<lambda>_ c. Some c) = Some (c(2 := p # ps))" for len c
    using p by (simp add: drop re_plus_greedy)
  have rest: "rmatch re_ws1 len (CHR 0x20 # p # ps) c
      (\<lambda>s' c'. rmatch (Seq (Cap 2 (re_plus re_any)) Eol) len s' c' (\<lambda>_ c. Some c)) = Some (c(2 := p # ps))" for len c
    using p path by (intro rmatch_blank) auto
  have "find_submatch re_diff_entry (entry_line e) = Some ?m"
    unfolding re_diff_entry_def re_seq.simps find_submatch_bol entry_line_def change_words_def [symmetric]
    using rest by (simp add: change_alts [OF w] p(1) del: fun_upd_apply)
  moreover have "?m 1 = de_change e" "?m 2 = de_path e" by simp_all
  ultimately show ?thesis by blast
qed

lemma entry_no_counter:
  assumes "de_change e \<in> set change_words"
  shows "find_submatch re_diff_counter (entry_line e) = None"
proof (rule ccontr)
  assume "find_submatch re_diff_counter (entry_line e) \<noteq> None"
  then obtain x where x: "find_submatch re_diff_counter (entry_line e) = Some x" by blast
  obtain a r where a: "entry_line e = a # r" "\<not> re_space a" "\<not> is_digit a"
    using assms by (auto simp: entry_line_def change_words_def re_space_def is_digit_def)
  from x obtain k where k: "rmatch re_ws (length (entry_line e)) (entry_line e) (\<lambda>_. [])
      (\<lambda>s' c'. rmatch (Cap 1 re_num) (length (entry_line e)) s' c' k) = Some x"
    unfolding re_diff_counter_def re_seq.simps find_submatch_bol
    by (simp only: rmatch.simps(5))
  from re_star_sound [OF k] obtain u v where uv: "entry_line e = u @ v" "list_all re_space u"
    and v: "rmatch (Cap 1 re_num) (length (entry_line e)) v (\<lambda>_. []) k = Some x" by blast
  from uv(1,2) a(1,2) have "u = []" by (cases u) auto
  with uv(1) a(1) have "v = a # r" by simp
  with v a(3) show False by (simp add: rmatch_num_fail)
qed

lemma diff_line_counter:
  assumes "w \<in> set counter_words" and "0 \<le> n" and "n \<le> int64_max"
  shows "diff_line (counter_line pad n w) r = set_counter w n r"
proof -
  obtain m where "find_submatch re_diff_counter (counter_line pad n w) = Some m"
    and "m 1 = dec_digits n" and "m 2 = w"
    using counter_match [OF all_digits_dec_digits [OF assms(2)] assms(1), of pad]
    by (auto simp: counter_line_def)
  then show ?thesis
    using assms counter_no_entry [OF all_digits_dec_digits [OF assms(2)], of pad w]
    by (simp add: diff_line_def on_match_def counter_line_def atoi_dec_digits)
qed

lemma diff_line_entry:
  assumes "entry_ok e"
  shows "diff_line (entry_line e) r = r\<lparr>df_file_details := df_file_details r @ [\<lparr>de_change = de_change e, de_path = de_path e\<rparr>]\<rparr>"
proof -
  obtain m where "find_submatch re_diff_entry (entry_line e) = Some m"
    and "m 1 = de_change e" and "m 2 = de_path e"
    using entry_match [OF assms] by blast
  moreover have "find_submatch re_diff_counter (entry_line e) = None"
    using assms by (intro entry_no_counter) (simp add: entry_ok_def)
  ultimately show ?thesis by (simp add: diff_line_def on_match_def)
qed

lemma diff_lines_entries:
  "list_all entry_ok es \<Longrightarrow>
     fold diff_line (map entry_line es) r = r\<lparr>df_file_details := df_file_details r @ es\<rparr>"
  by (induction es arbitrary: r) (simp_all add: diff_line_entry)

text \<open>The report as \<open>snapraid diff\<close> prints it: the changed files, then the six counters.\<close>

definition print_diff :: "nat \<Rightarrow> diff_report \<Rightarrow> string" where
  "print_diff pad r =
     join_with [CHR 0x0A]
       (map entry_line (df_file_details r) @
        [counter_line pad (df_added r) ''added'', counter_line pad (df_removed r) ''removed'',
         counter_line pad (df_updated r) ''updated'', counter_line pad (df_moved r) ''moved'',
         counter_line pad (df_copied r) ''copied'', counter_line pad (df_restored r) ''restored''])"

definition counters_ok :: "diff_report \<Rightarrow> bool" where
  "counters_ok r \<longleftrightarrow>
     list_all (\<lambda>n. 0 \<le> n \<and> n \<le> int64_max)
       [df_added r, df_removed r, df_updated r, df_moved r, df_copied r, df_restored r]"

lemma newline_not_digit [simp]: "\<not> is_digit CHR 0x0A"
  by (simp add: is_digit_def)

lemma no_newline_counter: "0 \<le> n \<Longrightarrow> w \<in> set counter_words \<Longrightarrow> CHR 0x0A \<notin> set (counter_line pad n w)"
proof -
  assume "0 \<le> n" "w \<in> set counter_words"
  then have "list_all is_digit (dec_digits n)" and "CHR 0x0A \<notin> set w"
    using all_digits_dec_digits [of n] by (auto simp: all_digits_def counter_words_def)
  then have "CHR 0x0A \<notin> set (dec_digits n)" by (metis list_all_iff newline_not_digit)
  with \<open>CHR 0x0A \<notin> set w\<close> show ?thesis by (simp add: counter_line_def)
qed

lemma no_newline_entry: "entry_ok e \<Longrightarrow> CHR 0x0A \<notin> set (entry_line e)"
proof -
  assume e: "entry_ok e"
  then have "list_all re_any (de_path e)" by (simp add: entry_ok_def)
  then have "CHR 0x0A \<notin> set (de_path e)" by (auto simp: list_all_iff re_any_def)
  moreover from e have "de_change e \<in> set change_words" by (simp add: entry_ok_def)
  then have "CHR 0x0A \<notin> set (de_change e)" by (auto simp: change_words_def)
  ultimately show ?thesis by (simp add: entry_line_def)
qed



end
