(* ===== verification/SnapEngine.thy ===== *)
theory SnapEngine
  imports SnapParse
begin

text \<open>
  The SnapRAID agent's command engine (\<open>snapraid/internal/engine\<close>: \<open>executor.go\<close>, \<open>sync.go\<close>,
  \<open>scrub.go\<close>, \<open>fix.go\<close>, \<open>touch.go\<close>, the \<open>Status\<close>, \<open>Diff\<close> and \<open>Smart\<close> methods,
  \<open>validate.go\<close>, \<open>disk_storage.go\<close>).

  A run of the binary is an outcome supplied by the environment; the model computes from it what
  the engine returns.  The second half is the engine's concurrency: the mutex that admits one
  command at a time, the cancel function that \<open>Abort\<close> calls, and the probe of \<open>IsBusy\<close>, as a
  step relation over any number of callers.
\<close>

section \<open>Results of a command\<close>

record command_result =
  cr_stdout :: string
  cr_stderr :: string
  cr_exit_code :: int

definition combined_output :: "command_result \<Rightarrow> string" where
  "combined_output r =
     (let stdout = trim_space (cr_stdout r); stderr = trim_space (cr_stderr r)
      in if stdout = [] then stderr
         else if stderr = [] then stdout
         else stdout @ [CHR 0x0A] @ stderr)"

datatype engine_error = EngineLocked | NoActiveJob | ExecFailed string

text \<open>An error wrapped by \<open>fmt.Errorf("op: %w", err)\<close>; \<open>errors.Is\<close> looks through the wrapping.\<close>

datatype op_error = OpError string engine_error

fun engine_error_text :: "engine_error \<Rightarrow> string" where
  "engine_error_text EngineLocked = ''another snapraid operation is already running''"
| "engine_error_text NoActiveJob = ''no active snapraid operation to abort''"
| "engine_error_text (ExecFailed m) = m"

fun op_error_text :: "op_error \<Rightarrow> string" where
  "op_error_text (OpError p e) = p @ '': '' @ engine_error_text e"

fun is_engine_locked :: "op_error \<Rightarrow> bool" where
  "is_engine_locked (OpError p e) \<longleftrightarrow> e = EngineLocked"

text \<open>How the process ended: an exit status (also when it was killed), or it never ran.\<close>

datatype proc_outcome = ProcExit string string int | ProcFailed string

definition run_command_result :: "proc_outcome \<Rightarrow> engine_error + command_result" where
  "run_command_result p =
     (case p of
        ProcExit out err code \<Rightarrow> Inr \<lparr>cr_stdout = out, cr_stderr = err, cr_exit_code = code\<rparr>
      | ProcFailed m \<Rightarrow> Inl (ExecFailed (''snapraid exec: '' @ m)))"

definition full_args :: "string \<Rightarrow> string list \<Rightarrow> string list" where
  "full_args config args = [''--conf'', config] @ args"

section \<open>The operations: arguments and reports\<close>

definition sync_args :: "sync_options \<Rightarrow> string list" where
  "sync_args o' =
     [''sync''] @ (if so_pre_hash o' then [''--pre-hash''] else [])
       @ (if so_force_zero o' then [''--force-zero''] else [])
       @ (if so_force_empty o' then [''--force-empty''] else [])
       @ (if so_force_full o' then [''--force-full''] else [])"

definition scrub_args :: "scrub_options \<Rightarrow> string list" where
  "scrub_args o' =
     [''scrub''] @ (if sco_plan o' \<noteq> [] then [''-p'', sco_plan o'] else [])
       @ (if sco_older_than_days o' > 0 then [''-o'', itoa (sco_older_than_days o')] else [])"

definition fix_args :: "fix_options \<Rightarrow> string list" where
  "fix_args o' =
     [''fix''] @ (if fo_bad_blocks_only o' then [''-e''] else [])
       @ (if fo_disk o' \<noteq> [] then [''-d'', fo_disk o'] else [])
       @ (if fo_filter o' \<noteq> [] then [''-f'', fo_filter o'] else [])"

definition op_report_of :: "string \<Rightarrow> engine_error + command_result \<Rightarrow> op_error + op_report" where
  "op_report_of name r =
     (case r of
        Inl e \<Rightarrow> Inl (OpError name e)
      | Inr c \<Rightarrow> Inr \<lparr>op_exit_code = cr_exit_code c, op_output = combined_output c\<rparr>)"

type_synonym runner = "string list \<Rightarrow> engine_error + command_result"

definition engine_touch :: "runner \<Rightarrow> op_error + touch_report" where
  "engine_touch run = op_report_of ''touch'' (run [''touch''])"

definition engine_sync :: "runner \<Rightarrow> sync_options \<Rightarrow> op_error + sync_report" where
  "engine_sync run opts = op_report_of ''sync'' (run (sync_args opts))"

definition engine_scrub :: "runner \<Rightarrow> scrub_options \<Rightarrow> op_error + scrub_report" where
  "engine_scrub run opts = op_report_of ''scrub'' (run (scrub_args opts))"

definition engine_fix :: "runner \<Rightarrow> fix_options \<Rightarrow> op_error + fix_report" where
  "engine_fix run opts = op_report_of ''fix'' (run (fix_args opts))"

definition engine_status :: "int \<Rightarrow> runner \<Rightarrow> op_error + status_report" where
  "engine_status now run =
     (case run [''status''] of
        Inl e \<Rightarrow> Inl (OpError ''status'' e)
      | Inr c \<Rightarrow> Inr ((parse_status now (cr_stdout c))\<lparr>st_output := combined_output c\<rparr>))"

definition engine_diff :: "runner \<Rightarrow> op_error + diff_report" where
  "engine_diff run =
     (case run [''diff''] of
        Inl e \<Rightarrow> Inl (OpError ''diff'' e)
      | Inr c \<Rightarrow> Inr ((parse_diff (cr_stdout c))\<lparr>df_output := combined_output c\<rparr>))"

definition engine_smart :: "(float64 \<Rightarrow> int) \<Rightarrow> runner \<Rightarrow> op_error + smart_report" where
  "engine_smart oor run =
     (case run [''smart'', ''-v''] of
        Inl e \<Rightarrow> Inl (OpError ''smart'' e)
      | Inr c \<Rightarrow> Inr ((parse_smart oor (cr_stdout c))\<lparr>sm_output := combined_output c\<rparr>))"

text \<open>\<open>Version\<close>: the first line of the trimmed output, empty when the binary fails.\<close>

definition engine_version :: "string option \<Rightarrow> string" where
  "engine_version out =
     (case out of
        None \<Rightarrow> []
      | Some s \<Rightarrow> takeWhile (\<lambda>c. c \<noteq> CHR 0x0A) (trim_space s))"

section \<open>Streaming output\<close>

definition is_crlf :: "char \<Rightarrow> bool" where
  "is_crlf c \<longleftrightarrow> c = CHR 0x0D \<or> c = CHR 0x0A"

text \<open>\<open>scanCR\<close>: how far to advance and the token, if there is one.\<close>

definition scan_cr :: "string \<Rightarrow> bool \<Rightarrow> nat \<times> string option" where
  "scan_cr data at_eof =
     (let t = takeWhile (\<lambda>b. \<not> is_crlf b) data
      in if length t < length data then (length t + 1, Some t)
         else if at_eof \<and> data \<noteq> [] then (length data, Some data)
         else (0, None))"

text \<open>The scanner's loop over all of the output, which ends at the first empty advance.\<close>

function scan_all :: "string \<Rightarrow> string list" where
  "scan_all data =
     (case scan_cr data True of
        (n, Some t) \<Rightarrow> if n = 0 \<or> data = [] then [] else t # scan_all (drop n data)
      | (n, None) \<Rightarrow> [])"
  by pat_completeness auto
termination
  by (relation "measure length") (auto simp: scan_cr_def)

declare scan_all.simps [simp del]

text \<open>
  The closure of \<open>progressLineFunc\<close>: the last percentage seen, and the value it offers to the
  progress channel (whose non-blocking send may still drop it).
\<close>

definition progress_line :: "int \<Rightarrow> string \<Rightarrow> int \<times> int option" where
  "progress_line last_pct line =
     (case find_submatch re_progress line of
        None \<Rightarrow> (last_pct, None)
      | Some m \<Rightarrow>
          (case atoi_full (m 1) of
             (_, Some _) \<Rightarrow> (last_pct, None)
           | (pct, None) \<Rightarrow> if pct \<noteq> last_pct then (pct, Some pct) else (last_pct, None)))"

fun progress_offers :: "int \<Rightarrow> string list \<Rightarrow> int list" where
  "progress_offers last_pct [] = []"
| "progress_offers last_pct (l # ls) =
     (case progress_line last_pct l of
        (p, None) \<Rightarrow> progress_offers p ls
      | (p, Some v) \<Rightarrow> v # progress_offers p ls)"

section \<open>Configuration files of snapraid (validate.go, disk_storage.go)\<close>

text \<open>
  \<open>bufio.Scanner\<close> with its default split function: the lines without their terminators, up to the
  first one that does not fit the 64 KiB buffer, and whether there was one.
\<close>

definition drop_cr :: "string \<Rightarrow> string" where
  "drop_cr l = (if l \<noteq> [] \<and> last l = CHR 0x0D then butlast l else l)"

definition scan_lines :: "string \<Rightarrow> string list \<times> bool" where
  "scan_lines s =
     (let ls = split_on CHR 0x0A s;
          ls' = (if last ls = [] then butlast ls else ls);
          fits = (\<lambda>l. length l < 65536)
      in (map drop_cr (takeWhile fits ls'), \<not> list_all fits ls'))"

record config_path =
  cp_kind :: string
  cp_path :: string

definition config_path_line :: "string \<Rightarrow> config_path list" where
  "config_path_line l =
     (let line = trim_space l; fields = str_fields line
      in if line = [] \<or> has_prefix line ''#'' then []
         else if length fields < 2 then []
         else if fields ! 0 = ''content'' then [\<lparr>cp_kind = ''content'', cp_path = fields ! 1\<rparr>]
         else if fields ! 0 = ''parity'' \<or> has_suffix (fields ! 0) ''-parity''
              then [\<lparr>cp_kind = fields ! 0, cp_path = fields ! 1\<rparr>]
         else [])"

datatype file_error = OpenError string | TooLong

definition parse_config_paths :: "string + string \<Rightarrow> file_error + config_path list" where
  "parse_config_paths file =
     (case file of
        Inl e \<Rightarrow> Inl (OpenError e)
      | Inr content \<Rightarrow>
          (case scan_lines content of
             (_, True) \<Rightarrow> Inl TooLong
           | (ls, False) \<Rightarrow> Inr (concat (map config_path_line ls))))"

datatype validate_error =
    ConfigUnreadable file_error
  | StatFailed string string string
  | FileEmpty string string

text \<open>\<open>stat p\<close> is the size of the file, or the error of \<open>os.Stat\<close>.\<close>

fun check_paths :: "(string \<Rightarrow> string + int) \<Rightarrow> config_path list \<Rightarrow> validate_error option" where
  "check_paths stat [] = None"
| "check_paths stat (p # ps) =
     (case stat (cp_path p) of
        Inl e \<Rightarrow> Some (StatFailed (cp_kind p) (cp_path p) e)
      | Inr bytes \<Rightarrow>
          if bytes = 0 then Some (FileEmpty (cp_kind p) (cp_path p)) else check_paths stat ps)"

definition validate_config_files ::
  "string + string \<Rightarrow> (string \<Rightarrow> string + int) \<Rightarrow> validate_error option" where
  "validate_config_files file stat =
     (case parse_config_paths file of
        Inl e \<Rightarrow> Some (ConfigUnreadable e)
      | Inr paths \<Rightarrow> check_paths stat paths)"

record disk_entry =
  dce_name :: string
  dce_mount_path :: string

definition disk_entry_line :: "string \<Rightarrow> disk_entry list" where
  "disk_entry_line l =
     (let line = trim_space l; fields = str_fields line
      in if line = [] \<or> has_prefix line ''#'' then []
         else if length fields < 3 \<or> fields ! 0 \<noteq> ''disk'' then []
         else [\<lparr>dce_name = fields ! 1, dce_mount_path = fields ! 2\<rparr>])"

definition parse_disk_entries :: "string + string \<Rightarrow> file_error + disk_entry list" where
  "parse_disk_entries file =
     (case file of
        Inl e \<Rightarrow> Inl (OpenError e)
      | Inr content \<Rightarrow>
          (case scan_lines content of
             (_, True) \<Rightarrow> Inl TooLong
           | (ls, False) \<Rightarrow> Inr (concat (map disk_entry_line ls))))"

definition mount_line :: "string \<Rightarrow> (string \<rightharpoonup> string) \<Rightarrow> (string \<rightharpoonup> string)" where
  "mount_line l m =
     (let fields = str_fields l in if length fields \<ge> 3 then m(fields ! 1 \<mapsto> fields ! 2) else m)"

text \<open>
  The caller drops the error of \<open>parseMountFilesystems\<close>, and uses the map it got: nothing when the
  file cannot be opened, the lines before an overlong one otherwise.
\<close>

definition parse_mounts :: "string + string \<Rightarrow> (string \<rightharpoonup> string)" where
  "parse_mounts file =
     (case file of
        Inl _ \<Rightarrow> Map.empty
      | Inr content \<Rightarrow> fold mount_line (fst (scan_lines content)) Map.empty)"

record fs_stat =
  fs_blocks :: int
  fs_bavail :: int
  fs_bfree :: int
  fs_bsize :: int

record disk_storage_info =
  ds_name :: string
  ds_mount_path :: string
  ds_filesystem :: string
  ds_total_bytes :: int
  ds_used_bytes :: int
  ds_free_bytes :: int
  ds_used_pct :: float64

definition disk_storage_of ::
  "(string \<rightharpoonup> string) \<Rightarrow> (string \<Rightarrow> fs_stat option) \<Rightarrow> disk_entry \<Rightarrow> disk_storage_info" where
  "disk_storage_of mounts statfs e =
     (let base = \<lparr>ds_name = dce_name e, ds_mount_path = dce_mount_path e,
                  ds_filesystem = (case mounts (dce_mount_path e) of Some fs \<Rightarrow> fs | None \<Rightarrow> []),
                  ds_total_bytes = 0, ds_used_bytes = 0, ds_free_bytes = 0, ds_used_pct = Fin 0\<rparr>
      in case statfs (dce_mount_path e) of
           None \<Rightarrow> base
         | Some st \<Rightarrow>
             (let tot = wrapu64 (fs_blocks st * fs_bsize st);
                  free = wrapu64 (fs_bavail st * fs_bsize st);
                  used = wrapu64 (tot - wrapu64 (fs_bfree st * fs_bsize st));
                  pct = (if tot > 0 then f64_mul (f64_div (f64_of_int used) (f64_of_int tot)) 100 else Fin 0)
              in base\<lparr>ds_total_bytes := tot, ds_free_bytes := free, ds_used_bytes := used,
                      ds_used_pct := pct\<rparr>))"

definition collect_disk_storage ::
  "string + string \<Rightarrow> string + string \<Rightarrow> (string \<Rightarrow> fs_stat option) \<Rightarrow>
     file_error + disk_storage_info list" where
  "collect_disk_storage conf mounts statfs =
     (case parse_disk_entries conf of
        Inl e \<Rightarrow> Inl e
      | Inr es \<Rightarrow> Inr (map (disk_storage_of (parse_mounts mounts) statfs) es))"

section \<open>What the operations return\<close>

lemma takeWhile_all: "\<not> length (takeWhile P xs) < length xs \<Longrightarrow> takeWhile P xs = xs"
  by (metis length_takeWhile_le le_antisym not_less takeWhile_eq_take take_all)

lemma filter_dropWhile_tl: "filter P (dropWhile P xs) = filter P (tl (dropWhile P xs))"
  by (induction xs) auto

lemma scan_cr_advance: "scan_cr data eof = (n, Some t) \<Longrightarrow> 0 < n \<and> n \<le> length data"
  by (auto simp: scan_cr_def Let_def split: if_splits)

lemma scan_all_Nil [simp]: "scan_all [] = []"
  by (subst scan_all.simps) (simp add: scan_cr_def)

lemma scan_all_Cons:
  assumes "data \<noteq> []"
  shows "scan_all data =
     takeWhile (\<lambda>b. \<not> is_crlf b) data # scan_all (drop (length (takeWhile (\<lambda>b. \<not> is_crlf b) data) + 1) data)"
proof (cases "length (takeWhile (\<lambda>b. \<not> is_crlf b) data) < length data")
  case True
  then have "scan_cr data True = (length (takeWhile (\<lambda>b. \<not> is_crlf b) data) + 1, Some (takeWhile (\<lambda>b. \<not> is_crlf b) data))"
    by (simp add: scan_cr_def Let_def)
  with assms show ?thesis by (subst scan_all.simps) simp
next
  case False
  then have t: "takeWhile (\<lambda>b. \<not> is_crlf b) data = data" by (rule takeWhile_all)
  then have "scan_cr data True = (length data, Some data)"
    using assms unfolding scan_cr_def Let_def t by simp
  with assms have "scan_all data = data # scan_all (drop (length data) data)"
    by (subst scan_all.simps) simp
  then show ?thesis unfolding t by simp
qed

text \<open>Every byte outside the terminators reaches some token, and tokens hold no terminator.\<close>

lemma scan_all_clean: "t \<in> set (scan_all data) \<Longrightarrow> list_all (\<lambda>b. \<not> is_crlf b) t"
proof (induction data rule: length_induct)
  case (1 data)
  show ?case
  proof (cases "data = []")
    case False
    let ?t = "takeWhile (\<lambda>b. \<not> is_crlf b) data"
    from 1(2) have "t = ?t \<or> t \<in> set (scan_all (drop (length ?t + 1) data))"
      unfolding scan_all_Cons [OF False] by simp
    then show ?thesis
    proof
      assume "t = ?t"
      then show ?thesis by (metis list_all_iff set_takeWhileD)
    next
      assume "t \<in> set (scan_all (drop (length ?t + 1) data))"
      moreover have "length (drop (length ?t + 1) data) < length data" using False by simp
      ultimately show ?thesis using 1(1) by blast
    qed
  qed (use 1 in simp)
qed

lemma scan_all_concat: "concat (scan_all data) = filter (\<lambda>b. \<not> is_crlf b) data"
proof (induction data rule: length_induct)
  case (1 data)
  show ?case
  proof (cases "data = []")
    case False
    let ?P = "\<lambda>b. \<not> is_crlf b"
    let ?t = "takeWhile ?P data"
    let ?rest = "drop (length ?t + 1) data"
    have t: "filter ?P ?t = ?t" by (metis filter_True set_takeWhileD)
    have d: "filter ?P (dropWhile ?P data) = filter ?P (tl (dropWhile ?P data))"
      by (rule filter_dropWhile_tl)
    have rest: "?rest = tl (dropWhile ?P data)"
      by (simp add: dropWhile_eq_drop drop_Suc tl_drop)
    have "filter ?P data = filter ?P ?t @ filter ?P (dropWhile ?P data)"
      by (metis filter_append takeWhile_dropWhile_id)
    then have f: "filter ?P data = ?t @ filter ?P ?rest" using t d rest by simp
    have "length ?rest < length data" using False by simp
    with 1 have "concat (scan_all ?rest) = filter ?P ?rest" by blast
    then show ?thesis unfolding scan_all_Cons [OF False] f by simp
  qed simp
qed

text \<open>Successive offers to the progress channel differ, so the dashboard sees no repetitions.\<close>

lemma progress_line_offer: "progress_line p l = (q, Some v) \<Longrightarrow> q = v \<and> v \<noteq> p"
  by (auto simp: progress_line_def split: option.splits prod.splits if_splits)

lemma progress_line_none: "progress_line p l = (q, None) \<Longrightarrow> q = p"
  by (auto simp: progress_line_def split: option.splits prod.splits if_splits)

lemma progress_offers_distinct_adj: "distinct_adj (p # progress_offers p ls)"
proof (induction ls arbitrary: p)
  case (Cons l ls)
  obtain q w where q: "progress_line p l = (q, w)" by (cases "progress_line p l")
  show ?case
  proof (cases w)
    case None
    with q show ?thesis using Cons progress_line_none by fastforce
  next
    case (Some v)
    with q have "q = v" "v \<noteq> p" using progress_line_offer by blast+
    with q Some show ?thesis using Cons by simp
  qed
qed simp

section \<open>Configuration checks\<close>

lemma check_paths_ok:
  "check_paths stat ps = None \<longleftrightarrow> (\<forall>p \<in> set ps. \<exists>n. stat (cp_path p) = Inr n \<and> n \<noteq> 0)"
  by (induction ps) (auto split: sum.splits)

end
