(* ===== verification/SnapEngineLock.thy ===== *)
theory SnapEngineLock
  imports SnapEngine
begin

text \<open>
  The concurrency of the SnapRAID engine (\<open>snapraid/internal/engine/executor.go\<close>): the mutex
  \<open>mu\<close> that every command takes with \<open>TryLock\<close>, the \<open>cancelFn\<close> that the running command
  publishes, \<open>Abort\<close>, which reads it and calls it later, and \<open>IsBusy\<close>, which probes the mutex
  by taking it for a moment.  Commands, aborts and probes are numbered callers; a step is one
  caller moving to its next point of synchronisation, in any order.
\<close>

datatype run_phase = RunIdle | RunLocked | RunActive | RunClearing | RunDone | RunRejected
datatype abort_phase = AbortIdle | AbortHolding nat | AbortNoJob | AbortDone
datatype mu_holder = HeldByRun nat | HeldByProbe nat

record engine_state =
  es_mu :: "mu_holder option"
  es_cancel :: "nat option"
  es_run :: "nat \<Rightarrow> run_phase"
  es_abort :: "nat \<Rightarrow> abort_phase"
  es_busy :: "nat \<Rightarrow> bool option"
  es_cancelled :: "nat set"

definition engine_init :: engine_state where
  "engine_init = \<lparr>es_mu = None, es_cancel = None, es_run = (\<lambda>_. RunIdle),
     es_abort = (\<lambda>_. AbortIdle), es_busy = (\<lambda>_. None), es_cancelled = {}\<rparr>"

text \<open>\<open>runCommand\<close>: \<open>TryLock\<close>, then \<open>setCancel(cancel)\<close>, then the deferred clean-up, then the unlock.\<close>

definition run_try_lock :: "nat \<Rightarrow> engine_state \<Rightarrow> engine_state" where
  "run_try_lock r s =
     (if es_mu s = None then s\<lparr>es_mu := Some (HeldByRun r), es_run := (es_run s)(r := RunLocked)\<rparr>
      else s\<lparr>es_run := (es_run s)(r := RunRejected)\<rparr>)"

definition run_set_cancel :: "nat \<Rightarrow> engine_state \<Rightarrow> engine_state" where
  "run_set_cancel r s = s\<lparr>es_cancel := Some r, es_run := (es_run s)(r := RunActive)\<rparr>"

definition run_clear_cancel :: "nat \<Rightarrow> engine_state \<Rightarrow> engine_state" where
  "run_clear_cancel r s =
     s\<lparr>es_cancel := None, es_cancelled := insert r (es_cancelled s), es_run := (es_run s)(r := RunClearing)\<rparr>"

definition run_unlock :: "nat \<Rightarrow> engine_state \<Rightarrow> engine_state" where
  "run_unlock r s = s\<lparr>es_mu := None, es_run := (es_run s)(r := RunDone)\<rparr>"

text \<open>\<open>Abort\<close>: read \<open>cancelFn\<close> under its own mutex, and call it if there was one.\<close>

definition abort_read :: "nat \<Rightarrow> engine_state \<Rightarrow> engine_state" where
  "abort_read a s =
     s\<lparr>es_abort := (es_abort s)(a := (case es_cancel s of None \<Rightarrow> AbortNoJob | Some r \<Rightarrow> AbortHolding r))\<rparr>"

definition abort_call :: "nat \<Rightarrow> nat \<Rightarrow> engine_state \<Rightarrow> engine_state" where
  "abort_call a r s =
     s\<lparr>es_cancelled := insert r (es_cancelled s), es_abort := (es_abort s)(a := AbortDone)\<rparr>"

text \<open>\<open>IsBusy\<close>: a successful \<open>TryLock\<close> means not busy, and is undone.\<close>

definition probe_try_lock :: "nat \<Rightarrow> engine_state \<Rightarrow> engine_state" where
  "probe_try_lock p s =
     (if es_mu s = None then s\<lparr>es_mu := Some (HeldByProbe p)\<rparr>
      else s\<lparr>es_busy := (es_busy s)(p := Some True)\<rparr>)"

definition probe_unlock :: "nat \<Rightarrow> engine_state \<Rightarrow> engine_state" where
  "probe_unlock p s = s\<lparr>es_mu := None, es_busy := (es_busy s)(p := Some False)\<rparr>"

inductive engine_step :: "engine_state \<Rightarrow> engine_state \<Rightarrow> bool" where
  step_try_lock: "es_run s r = RunIdle \<Longrightarrow> engine_step s (run_try_lock r s)"
| step_set_cancel: "es_run s r = RunLocked \<Longrightarrow> engine_step s (run_set_cancel r s)"
| step_clear_cancel: "es_run s r = RunActive \<Longrightarrow> engine_step s (run_clear_cancel r s)"
| step_unlock: "es_run s r = RunClearing \<Longrightarrow> engine_step s (run_unlock r s)"
| step_abort_read: "es_abort s a = AbortIdle \<Longrightarrow> engine_step s (abort_read a s)"
| step_abort_call: "es_abort s a = AbortHolding r \<Longrightarrow> engine_step s (abort_call a r s)"
| step_probe_lock: "es_busy s p = None \<Longrightarrow> es_mu s \<noteq> Some (HeldByProbe p) \<Longrightarrow> engine_step s (probe_try_lock p s)"
| step_probe_unlock: "es_mu s = Some (HeldByProbe p) \<Longrightarrow> engine_step s (probe_unlock p s)"

inductive engine_reachable :: "engine_state \<Rightarrow> bool" where
  engine_start: "engine_reachable engine_init"
| engine_next: "engine_reachable s \<Longrightarrow> engine_step s t \<Longrightarrow> engine_reachable t"

inductive_cases engine_stepE: "engine_step s t"

lemmas engine_ops = run_try_lock_def run_set_cancel_def run_clear_cancel_def run_unlock_def
  abort_read_def abort_call_def probe_try_lock_def probe_unlock_def

text \<open>
  The mutex, the published cancel function and the phases of the commands agree; a context that
  is cancelled, or about to be, belongs to a command that has published it.
\<close>

definition engine_inv :: "engine_state \<Rightarrow> bool" where
  "engine_inv s \<longleftrightarrow>
     (\<forall>r. es_mu s = Some (HeldByRun r) \<longleftrightarrow> es_run s r \<in> {RunLocked, RunActive, RunClearing}) \<and>
     (\<forall>r. es_cancel s = Some r \<longleftrightarrow> es_run s r = RunActive) \<and>
     (\<forall>r \<in> es_cancelled s. es_run s r \<in> {RunActive, RunClearing, RunDone}) \<and>
     (\<forall>a r. es_abort s a = AbortHolding r \<longrightarrow> es_run s r \<in> {RunActive, RunClearing, RunDone})"

lemma engine_inv_init: "engine_inv engine_init"
  by (simp add: engine_inv_def engine_init_def)

lemma engine_invD:
  assumes "engine_inv s"
  shows "es_mu s = Some (HeldByRun r) \<longleftrightarrow> es_run s r = RunLocked \<or> es_run s r = RunActive \<or> es_run s r = RunClearing"
    and "es_cancel s = Some r \<longleftrightarrow> es_run s r = RunActive"
    and "r \<in> es_cancelled s \<Longrightarrow> es_run s r = RunActive \<or> es_run s r = RunClearing \<or> es_run s r = RunDone"
    and "es_abort s a = AbortHolding r \<Longrightarrow> es_run s r = RunActive \<or> es_run s r = RunClearing \<or> es_run s r = RunDone"
  using assms by (auto simp: engine_inv_def)

lemma engine_invI:
  assumes "\<And>r. es_mu s = Some (HeldByRun r) \<longleftrightarrow> es_run s r = RunLocked \<or> es_run s r = RunActive \<or> es_run s r = RunClearing"
    and "\<And>r. es_cancel s = Some r \<longleftrightarrow> es_run s r = RunActive"
    and "\<And>r. r \<in> es_cancelled s \<Longrightarrow> es_run s r = RunActive \<or> es_run s r = RunClearing \<or> es_run s r = RunDone"
    and "\<And>a r. es_abort s a = AbortHolding r \<Longrightarrow> es_run s r = RunActive \<or> es_run s r = RunClearing \<or> es_run s r = RunDone"
  shows "engine_inv s"
  using assms by (auto simp: engine_inv_def)

lemma engine_inv_unique:
  assumes "engine_inv s" and "es_run s r = RunLocked \<or> es_run s r = RunActive \<or> es_run s r = RunClearing"
    and "es_run s q = RunLocked \<or> es_run s q = RunActive \<or> es_run s q = RunClearing"
  shows "q = r"
  using engine_invD(1) [OF assms(1), of r] engine_invD(1) [OF assms(1), of q] assms(2,3) by simp

lemma engine_inv_try_lock:
  assumes inv: "engine_inv s" and r: "es_run s r = RunIdle"
  shows "engine_inv (run_try_lock r s)"
proof (rule engine_invI)
  fix q a
  note I = engine_invD [OF inv, where r = q]
  show "es_mu (run_try_lock r s) = Some (HeldByRun q) \<longleftrightarrow>
      es_run (run_try_lock r s) q = RunLocked \<or> es_run (run_try_lock r s) q = RunActive \<or> es_run (run_try_lock r s) q = RunClearing"
    using I(1) r by (auto simp: run_try_lock_def)
  show "es_cancel (run_try_lock r s) = Some q \<longleftrightarrow> es_run (run_try_lock r s) q = RunActive"
    using I(2) r by (auto simp: run_try_lock_def)
  show "q \<in> es_cancelled (run_try_lock r s) \<Longrightarrow> es_run (run_try_lock r s) q = RunActive \<or>
      es_run (run_try_lock r s) q = RunClearing \<or> es_run (run_try_lock r s) q = RunDone"
    using I(3) r by (auto simp: run_try_lock_def split: if_splits)
  show "es_abort (run_try_lock r s) a = AbortHolding q \<Longrightarrow> es_run (run_try_lock r s) q = RunActive \<or>
      es_run (run_try_lock r s) q = RunClearing \<or> es_run (run_try_lock r s) q = RunDone"
    using I(4) r by (auto simp: run_try_lock_def split: if_splits)
qed

lemma engine_inv_set_cancel:
  assumes inv: "engine_inv s" and r: "es_run s r = RunLocked"
  shows "engine_inv (run_set_cancel r s)"
proof (rule engine_invI)
  fix q a
  note I = engine_invD [OF inv, where r = q] and U = engine_inv_unique [OF inv, of r q]
  show "es_mu (run_set_cancel r s) = Some (HeldByRun q) \<longleftrightarrow>
      es_run (run_set_cancel r s) q = RunLocked \<or> es_run (run_set_cancel r s) q = RunActive \<or> es_run (run_set_cancel r s) q = RunClearing"
    using I(1) r by (auto simp: run_set_cancel_def)
  show "es_cancel (run_set_cancel r s) = Some q \<longleftrightarrow> es_run (run_set_cancel r s) q = RunActive"
    using U r by (cases "q = r") (simp_all add: run_set_cancel_def, metis)
  show "q \<in> es_cancelled (run_set_cancel r s) \<Longrightarrow> es_run (run_set_cancel r s) q = RunActive \<or>
      es_run (run_set_cancel r s) q = RunClearing \<or> es_run (run_set_cancel r s) q = RunDone"
    using I(3) by (auto simp: run_set_cancel_def)
  show "es_abort (run_set_cancel r s) a = AbortHolding q \<Longrightarrow> es_run (run_set_cancel r s) q = RunActive \<or>
      es_run (run_set_cancel r s) q = RunClearing \<or> es_run (run_set_cancel r s) q = RunDone"
    using I(4) by (auto simp: run_set_cancel_def)
qed

lemma engine_inv_clear_cancel:
  assumes inv: "engine_inv s" and r: "es_run s r = RunActive"
  shows "engine_inv (run_clear_cancel r s)"
proof (rule engine_invI)
  fix q a
  note I = engine_invD [OF inv, where r = q] and U = engine_inv_unique [OF inv, of r q]
  show "es_mu (run_clear_cancel r s) = Some (HeldByRun q) \<longleftrightarrow>
      es_run (run_clear_cancel r s) q = RunLocked \<or> es_run (run_clear_cancel r s) q = RunActive \<or> es_run (run_clear_cancel r s) q = RunClearing"
    using I(1) r by (auto simp: run_clear_cancel_def)
  show "es_cancel (run_clear_cancel r s) = Some q \<longleftrightarrow> es_run (run_clear_cancel r s) q = RunActive"
    using U r by (cases "q = r") (simp_all add: run_clear_cancel_def, metis)
  show "q \<in> es_cancelled (run_clear_cancel r s) \<Longrightarrow> es_run (run_clear_cancel r s) q = RunActive \<or>
      es_run (run_clear_cancel r s) q = RunClearing \<or> es_run (run_clear_cancel r s) q = RunDone"
    using I(3) by (auto simp: run_clear_cancel_def)
  show "es_abort (run_clear_cancel r s) a = AbortHolding q \<Longrightarrow> es_run (run_clear_cancel r s) q = RunActive \<or>
      es_run (run_clear_cancel r s) q = RunClearing \<or> es_run (run_clear_cancel r s) q = RunDone"
    using I(4) by (auto simp: run_clear_cancel_def)
qed

lemma engine_inv_unlock:
  assumes inv: "engine_inv s" and r: "es_run s r = RunClearing"
  shows "engine_inv (run_unlock r s)"
proof (rule engine_invI)
  fix q a
  note I = engine_invD [OF inv, where r = q] and U = engine_inv_unique [OF inv, of r q]
  show "es_mu (run_unlock r s) = Some (HeldByRun q) \<longleftrightarrow>
      es_run (run_unlock r s) q = RunLocked \<or> es_run (run_unlock r s) q = RunActive \<or> es_run (run_unlock r s) q = RunClearing"
    using U r by (cases "q = r") (simp_all add: run_unlock_def, metis)
  show "es_cancel (run_unlock r s) = Some q \<longleftrightarrow> es_run (run_unlock r s) q = RunActive"
    using I(2) r by (auto simp: run_unlock_def)
  show "q \<in> es_cancelled (run_unlock r s) \<Longrightarrow> es_run (run_unlock r s) q = RunActive \<or>
      es_run (run_unlock r s) q = RunClearing \<or> es_run (run_unlock r s) q = RunDone"
    using I(3) by (auto simp: run_unlock_def)
  show "es_abort (run_unlock r s) a = AbortHolding q \<Longrightarrow> es_run (run_unlock r s) q = RunActive \<or>
      es_run (run_unlock r s) q = RunClearing \<or> es_run (run_unlock r s) q = RunDone"
    using I(4) by (auto simp: run_unlock_def)
qed

lemma engine_inv_abort_read: "engine_inv s \<Longrightarrow> engine_inv (abort_read a s)"
  by (rule engine_invI) (auto simp: abort_read_def engine_invD split: if_splits option.splits)

lemma engine_inv_abort_call: "engine_inv s \<Longrightarrow> es_abort s a = AbortHolding r \<Longrightarrow> engine_inv (abort_call a r s)"
  by (rule engine_invI) (auto simp: abort_call_def engine_invD split: if_splits dest: engine_invD(3,4))

lemma engine_inv_probe:
  assumes "engine_inv s"
  shows "engine_inv (probe_try_lock p s)" and "es_mu s = Some (HeldByProbe p) \<Longrightarrow> engine_inv (probe_unlock p s)"
proof -
  have none: "es_run s r \<noteq> RunLocked \<and> es_run s r \<noteq> RunActive \<and> es_run s r \<noteq> RunClearing"
    if "es_mu s = None \<or> es_mu s = Some (HeldByProbe p)" for r
    using engine_invD(1) [OF assms, of r] that by auto
  show "engine_inv (probe_try_lock p s)"
    using none by (intro engine_invI) (auto simp: probe_try_lock_def engine_invD [OF assms], (metis engine_invD(3,4) [OF assms])+)
  show "engine_inv (probe_unlock p s)" if "es_mu s = Some (HeldByProbe p)"
    using none that by (intro engine_invI) (auto simp: probe_unlock_def engine_invD [OF assms] dest: engine_invD(3,4) [OF assms])
qed

lemma engine_step_inv: "engine_step s t \<Longrightarrow> engine_inv s \<Longrightarrow> engine_inv t"
  by (induction rule: engine_step.induct)
    (simp_all add: engine_inv_try_lock engine_inv_set_cancel engine_inv_clear_cancel engine_inv_unlock
      engine_inv_abort_read engine_inv_abort_call engine_inv_probe)

lemma engine_reachable_inv: "engine_reachable s \<Longrightarrow> engine_inv s"
  by (induction rule: engine_reachable.induct) (simp_all add: engine_inv_init engine_step_inv)

text \<open>
  C13.  At any moment at most one \<open>snapraid\<close> command is between its lock and its unlock, and the
  cancel function that \<open>Abort\<close> would call, now or with a value it read earlier, is that of a
  command that has published it and never of one still to start.
\<close>

theorem engine_one_command:
  assumes "engine_reachable s"
  shows "(es_run s r \<in> {RunLocked, RunActive, RunClearing} \<longrightarrow>
           es_run s q \<in> {RunLocked, RunActive, RunClearing} \<longrightarrow> q = r) \<and>
         (r \<in> es_cancelled s \<or> (\<exists>a. es_abort s a = AbortHolding r) \<longrightarrow>
           es_run s r \<notin> {RunIdle, RunLocked, RunRejected})"
proof -
  have inv: "engine_inv s" using assms by (rule engine_reachable_inv)
  show ?thesis
    using engine_inv_unique [OF inv, of r q] engine_invD(3,4) [OF inv, where r = r] by auto
qed

lemma engine_run_one:
  "engine_reachable (run_set_cancel 0 (run_try_lock 0 engine_init))"
proof -
  have 1: "engine_reachable (run_try_lock 0 engine_init)"
    by (rule engine_next [OF engine_start step_try_lock]) (simp add: engine_init_def)
  show ?thesis
    by (rule engine_next [OF 1 step_set_cancel]) (simp add: run_try_lock_def engine_init_def)
qed

theorem engine_one_command_witness:
  "es_run (run_set_cancel 0 (run_try_lock 0 engine_init)) 0 = RunActive \<and>
   es_run (run_set_cancel 0 (run_try_lock 0 engine_init)) 1 \<notin> {RunLocked, RunActive, RunClearing}"
proof -
  have "es_run (run_set_cancel 0 (run_try_lock 0 engine_init)) 0 = RunActive"
    by (simp add: engine_ops engine_init_def)
  then show ?thesis using engine_one_command [OF engine_run_one, of 0 1] by auto
qed

text \<open>
  The probe of \<open>IsBusy\<close> can make a command fail with "another snapraid operation is already
  running" although no command runs: there is a reachable state in which a command was rejected
  and every other command has not even started.
\<close>

lemma probe_rejects_command:
  "\<exists>s. engine_reachable s \<and> es_run s = (\<lambda>_. RunIdle)(0 := RunRejected)"
proof -
  have 1: "engine_reachable (probe_try_lock 0 engine_init)"
    by (rule engine_next [OF engine_start step_probe_lock]) (simp_all add: engine_init_def)
  have 2: "engine_reachable (run_try_lock 0 (probe_try_lock 0 engine_init))"
    by (rule engine_next [OF 1 step_try_lock]) (simp add: engine_ops engine_init_def)
  then show ?thesis by (intro exI conjI) (auto simp: engine_ops engine_init_def)
qed

end
