(* ===== verification/SnapConfig.thy ===== *)
theory SnapConfig
  imports GoFloat
begin

text \<open>
  Configuration of the SnapRAID add-on (\<open>snapraid/internal/config\<close>): the agent's and the hub's
  configuration structs, their defaults, the environment overrides, loading and validation.

  The YAML decoder and the cron parser are third-party packages and stand as arguments
  (\<open>unmarshal\<close>, \<open>cron_ok\<close>), as does \<open>strconv.ParseFloat\<close> on arbitrary text (\<open>pfloat\<close>).
  \<open>getenv k\<close> is \<open>os.Getenv(k)\<close>, the empty string when the variable is not set.
\<close>

section \<open>Structures\<close>

record hooks_config =
  hk_pre_sync :: string
  hk_post_sync :: string

record docker_config =
  dk_pause_containers :: "string list"
  dk_stop_containers :: "string list"

record agent_hub =
  ah_url :: string
  ah_psk :: string

record agent_identity =
  ai_agent_id :: string
  ai_advertise_addr :: string

record snapraid_paths =
  spa_binary_path :: string
  spa_config_path :: string

record scheduler_config =
  sc_maintenance_cron :: string
  sc_scrub_cron :: string
  sc_status_cron :: string

record thresholds =
  th_max_deleted :: int
  th_max_updated :: int
  th_add_del_ratio :: float64
  th_smart_fail_probability :: int

record scrub_config =
  scr_plan :: string
  scr_older_than_days :: int
  scr_auto_fix_bad_blocks :: bool

record timeouts_config =
  to_touch :: int
  to_status :: int
  to_diff :: int
  to_smart :: int
  to_sync :: int
  to_scrub :: int
  to_fix :: int
  to_default :: int

record log_config =
  lg_level :: string
  lg_file :: string
  lg_max_size_mb :: int
  lg_max_backups :: int

record agent_config =
  ac_listen_port :: int
  ac_hub :: agent_hub
  ac_identity :: agent_identity
  ac_snapraid :: snapraid_paths
  ac_scheduler :: scheduler_config
  ac_thresholds :: thresholds
  ac_scrub :: scrub_config
  ac_sync_pre_hash :: bool
  ac_timeouts :: timeouts_config
  ac_hooks :: hooks_config
  ac_docker :: docker_config
  ac_logging :: log_config

definition default_agent_config :: agent_config where
  "default_agent_config =
     \<lparr>ac_listen_port = 9400,
      ac_hub = \<lparr>ah_url = ''http://snapraid-hub:9300'', ah_psk = []\<rparr>,
      ac_identity = \<lparr>ai_agent_id = [], ai_advertise_addr = []\<rparr>,
      ac_snapraid = \<lparr>spa_binary_path = [], spa_config_path = ''/etc/snapraid.conf''\<rparr>,
      ac_scheduler = \<lparr>sc_maintenance_cron = ''0 2 * * *'', sc_scrub_cron = ''0 6 1 * *'',
                     sc_status_cron = ''0 */6 * * *''\<rparr>,
      ac_thresholds = \<lparr>th_max_deleted = 250, th_max_updated = 3000, th_add_del_ratio = Fin (- 1),
                      th_smart_fail_probability = 50\<rparr>,
      ac_scrub = \<lparr>scr_plan = ''8'', scr_older_than_days = 10, scr_auto_fix_bad_blocks = True\<rparr>,
      ac_sync_pre_hash = True,
      ac_timeouts = \<lparr>to_touch = 5, to_status = 5, to_diff = 5, to_smart = 5, to_sync = 60,
                    to_scrub = 480, to_fix = 60, to_default = 10\<rparr>,
      ac_hooks = \<lparr>hk_pre_sync = [], hk_post_sync = []\<rparr>,
      ac_docker = \<lparr>dk_pause_containers = [], dk_stop_containers = []\<rparr>,
      ac_logging = \<lparr>lg_level = ''info'', lg_file = ''/var/log/vigil-snapraid-agent.log'',
                   lg_max_size_mb = 50, lg_max_backups = 3\<rparr>\<rparr>"

section \<open>Timeouts\<close>

definition minute_ns :: int where
  "minute_ns = 60000000000"

definition for_command :: "timeouts_config \<Rightarrow> string \<Rightarrow> int" where
  "for_command t cmd =
     (let mins = (if cmd = ''touch'' then to_touch t
                  else if cmd = ''status'' then to_status t
                  else if cmd = ''diff'' then to_diff t
                  else if cmd = ''smart'' then to_smart t
                  else if cmd = ''sync'' then to_sync t
                  else if cmd = ''scrub'' then to_scrub t
                  else if cmd = ''fix'' then to_fix t
                  else to_default t);
          mins' = (if mins \<le> 0 then 10 else mins)
      in wrap64 (mins' * minute_ns))"

section \<open>Environment overrides\<close>

definition set_int :: "string \<Rightarrow> int \<Rightarrow> int" where
  "set_int s dst = (case atoi_full s of (n, None) \<Rightarrow> n | (_, Some _) \<Rightarrow> dst)"

definition set_float :: "(string \<Rightarrow> float64 option) \<Rightarrow> string \<Rightarrow> float64 \<Rightarrow> float64" where
  "set_float pfloat s dst = (case pfloat s of Some f \<Rightarrow> f | None \<Rightarrow> dst)"

definition parse_bool :: "string \<Rightarrow> bool" where
  "parse_bool s \<longleftrightarrow> s = ''true'' \<or> s = ''1''"

type_synonym agent_override = "string \<times> (string \<Rightarrow> agent_config \<Rightarrow> agent_config)"

definition agent_env_overrides :: "(string \<Rightarrow> float64 option) \<Rightarrow> agent_override list" where
  "agent_env_overrides pfloat =
    [(''VIGIL_SNAPRAID_AGENT_LISTEN_PORT'', \<lambda>v c. c\<lparr>ac_listen_port := set_int v (ac_listen_port c)\<rparr>),
     (''VIGIL_SNAPRAID_AGENT_HUB_URL'', \<lambda>v c. c\<lparr>ac_hub := (ac_hub c)\<lparr>ah_url := v\<rparr>\<rparr>),
     (''VIGIL_SNAPRAID_AGENT_HUB_PSK'', \<lambda>v c. c\<lparr>ac_hub := (ac_hub c)\<lparr>ah_psk := v\<rparr>\<rparr>),
     (''VIGIL_SNAPRAID_AGENT_ID'', \<lambda>v c. c\<lparr>ac_identity := (ac_identity c)\<lparr>ai_agent_id := v\<rparr>\<rparr>),
     (''VIGIL_SNAPRAID_AGENT_ADVERTISE_ADDR'', \<lambda>v c. c\<lparr>ac_identity := (ac_identity c)\<lparr>ai_advertise_addr := v\<rparr>\<rparr>),
     (''VIGIL_SNAPRAID_AGENT_SNAPRAID_BINARY_PATH'', \<lambda>v c. c\<lparr>ac_snapraid := (ac_snapraid c)\<lparr>spa_binary_path := v\<rparr>\<rparr>),
     (''VIGIL_SNAPRAID_AGENT_SNAPRAID_CONFIG_PATH'', \<lambda>v c. c\<lparr>ac_snapraid := (ac_snapraid c)\<lparr>spa_config_path := v\<rparr>\<rparr>),
     (''VIGIL_SNAPRAID_AGENT_SCHEDULER_MAINTENANCE_CRON'', \<lambda>v c. c\<lparr>ac_scheduler := (ac_scheduler c)\<lparr>sc_maintenance_cron := v\<rparr>\<rparr>),
     (''VIGIL_SNAPRAID_AGENT_SCHEDULER_SCRUB_CRON'', \<lambda>v c. c\<lparr>ac_scheduler := (ac_scheduler c)\<lparr>sc_scrub_cron := v\<rparr>\<rparr>),
     (''VIGIL_SNAPRAID_AGENT_SCHEDULER_STATUS_CRON'', \<lambda>v c. c\<lparr>ac_scheduler := (ac_scheduler c)\<lparr>sc_status_cron := v\<rparr>\<rparr>),
     (''VIGIL_SNAPRAID_AGENT_THRESHOLDS_MAX_DELETED'', \<lambda>v c. c\<lparr>ac_thresholds := (ac_thresholds c)\<lparr>th_max_deleted := set_int v (th_max_deleted (ac_thresholds c))\<rparr>\<rparr>),
     (''VIGIL_SNAPRAID_AGENT_THRESHOLDS_MAX_UPDATED'', \<lambda>v c. c\<lparr>ac_thresholds := (ac_thresholds c)\<lparr>th_max_updated := set_int v (th_max_updated (ac_thresholds c))\<rparr>\<rparr>),
     (''VIGIL_SNAPRAID_AGENT_THRESHOLDS_ADD_DEL_RATIO'', \<lambda>v c. c\<lparr>ac_thresholds := (ac_thresholds c)\<lparr>th_add_del_ratio := set_float pfloat v (th_add_del_ratio (ac_thresholds c))\<rparr>\<rparr>),
     (''VIGIL_SNAPRAID_AGENT_THRESHOLDS_SMART_FAIL_PROBABILITY'', \<lambda>v c. c\<lparr>ac_thresholds := (ac_thresholds c)\<lparr>th_smart_fail_probability := set_int v (th_smart_fail_probability (ac_thresholds c))\<rparr>\<rparr>),
     (''VIGIL_SNAPRAID_AGENT_SCRUB_PLAN'', \<lambda>v c. c\<lparr>ac_scrub := (ac_scrub c)\<lparr>scr_plan := v\<rparr>\<rparr>),
     (''VIGIL_SNAPRAID_AGENT_SCRUB_OLDER_THAN_DAYS'', \<lambda>v c. c\<lparr>ac_scrub := (ac_scrub c)\<lparr>scr_older_than_days := set_int v (scr_older_than_days (ac_scrub c))\<rparr>\<rparr>),
     (''VIGIL_SNAPRAID_AGENT_SCRUB_AUTO_FIX_BAD_BLOCKS'', \<lambda>v c. c\<lparr>ac_scrub := (ac_scrub c)\<lparr>scr_auto_fix_bad_blocks := parse_bool v\<rparr>\<rparr>),
     (''VIGIL_SNAPRAID_AGENT_SYNC_PRE_HASH'', \<lambda>v c. c\<lparr>ac_sync_pre_hash := parse_bool v\<rparr>),
     (''VIGIL_SNAPRAID_AGENT_HOOKS_PRE_SYNC'', \<lambda>v c. c\<lparr>ac_hooks := (ac_hooks c)\<lparr>hk_pre_sync := v\<rparr>\<rparr>),
     (''VIGIL_SNAPRAID_AGENT_HOOKS_POST_SYNC'', \<lambda>v c. c\<lparr>ac_hooks := (ac_hooks c)\<lparr>hk_post_sync := v\<rparr>\<rparr>),
     (''VIGIL_SNAPRAID_AGENT_DOCKER_PAUSE_CONTAINERS'', \<lambda>v c. c\<lparr>ac_docker := (ac_docker c)\<lparr>dk_pause_containers := split_on CHR '','' v\<rparr>\<rparr>),
     (''VIGIL_SNAPRAID_AGENT_DOCKER_STOP_CONTAINERS'', \<lambda>v c. c\<lparr>ac_docker := (ac_docker c)\<lparr>dk_stop_containers := split_on CHR '','' v\<rparr>\<rparr>),
     (''VIGIL_SNAPRAID_AGENT_TIMEOUTS_TOUCH'', \<lambda>v c. c\<lparr>ac_timeouts := (ac_timeouts c)\<lparr>to_touch := set_int v (to_touch (ac_timeouts c))\<rparr>\<rparr>),
     (''VIGIL_SNAPRAID_AGENT_TIMEOUTS_STATUS'', \<lambda>v c. c\<lparr>ac_timeouts := (ac_timeouts c)\<lparr>to_status := set_int v (to_status (ac_timeouts c))\<rparr>\<rparr>),
     (''VIGIL_SNAPRAID_AGENT_TIMEOUTS_DIFF'', \<lambda>v c. c\<lparr>ac_timeouts := (ac_timeouts c)\<lparr>to_diff := set_int v (to_diff (ac_timeouts c))\<rparr>\<rparr>),
     (''VIGIL_SNAPRAID_AGENT_TIMEOUTS_SMART'', \<lambda>v c. c\<lparr>ac_timeouts := (ac_timeouts c)\<lparr>to_smart := set_int v (to_smart (ac_timeouts c))\<rparr>\<rparr>),
     (''VIGIL_SNAPRAID_AGENT_TIMEOUTS_SYNC'', \<lambda>v c. c\<lparr>ac_timeouts := (ac_timeouts c)\<lparr>to_sync := set_int v (to_sync (ac_timeouts c))\<rparr>\<rparr>),
     (''VIGIL_SNAPRAID_AGENT_TIMEOUTS_SCRUB'', \<lambda>v c. c\<lparr>ac_timeouts := (ac_timeouts c)\<lparr>to_scrub := set_int v (to_scrub (ac_timeouts c))\<rparr>\<rparr>),
     (''VIGIL_SNAPRAID_AGENT_TIMEOUTS_FIX'', \<lambda>v c. c\<lparr>ac_timeouts := (ac_timeouts c)\<lparr>to_fix := set_int v (to_fix (ac_timeouts c))\<rparr>\<rparr>),
     (''VIGIL_SNAPRAID_AGENT_TIMEOUTS_DEFAULT'', \<lambda>v c. c\<lparr>ac_timeouts := (ac_timeouts c)\<lparr>to_default := set_int v (to_default (ac_timeouts c))\<rparr>\<rparr>),
     (''VIGIL_SNAPRAID_AGENT_LOGGING_LEVEL'', \<lambda>v c. c\<lparr>ac_logging := (ac_logging c)\<lparr>lg_level := v\<rparr>\<rparr>),
     (''VIGIL_SNAPRAID_AGENT_LOGGING_FILE'', \<lambda>v c. c\<lparr>ac_logging := (ac_logging c)\<lparr>lg_file := v\<rparr>\<rparr>),
     (''VIGIL_SNAPRAID_AGENT_LOGGING_MAX_SIZE_MB'', \<lambda>v c. c\<lparr>ac_logging := (ac_logging c)\<lparr>lg_max_size_mb := set_int v (lg_max_size_mb (ac_logging c))\<rparr>\<rparr>),
     (''VIGIL_SNAPRAID_AGENT_LOGGING_MAX_BACKUPS'', \<lambda>v c. c\<lparr>ac_logging := (ac_logging c)\<lparr>lg_max_backups := set_int v (lg_max_backups (ac_logging c))\<rparr>\<rparr>)]"

definition apply_override :: "(string \<Rightarrow> string) \<Rightarrow> agent_override \<Rightarrow> agent_config \<Rightarrow> agent_config" where
  "apply_override getenv o' c = (let v = getenv (fst o') in if v \<noteq> [] then snd o' v c else c)"

definition apply_agent_env_overrides ::
  "(string \<Rightarrow> float64 option) \<Rightarrow> (string \<Rightarrow> string) \<Rightarrow> agent_config \<Rightarrow> agent_config" where
  "apply_agent_env_overrides pfloat getenv c = fold (apply_override getenv) (agent_env_overrides pfloat) c"

section \<open>Validation and loading\<close>

datatype config_error =
    BadCron string string
  | PortOutOfRange int
  | EmptyConfigPath
  | EmptyRegistryPath
  | ReadFailed string
  | ParseFailed string

text \<open>\<open>cron_ok e\<close>: the six-field parser accepts \<open>e\<close>.\<close>

definition validate_cron :: "(string \<Rightarrow> bool) \<Rightarrow> string \<Rightarrow> string \<Rightarrow> config_error option" where
  "validate_cron cron_ok name expr =
     (if expr = [] then None
      else if cron_ok (''0 '' @ expr) then None else Some (BadCron name expr))"

fun validate_crons :: "(string \<Rightarrow> bool) \<Rightarrow> (string \<times> string) list \<Rightarrow> config_error option" where
  "validate_crons cron_ok [] = None"
| "validate_crons cron_ok ((name, expr) # cs) =
     (case validate_cron cron_ok name expr of
        Some e \<Rightarrow> Some e
      | None \<Rightarrow> validate_crons cron_ok cs)"

definition validate_agent_config :: "(string \<Rightarrow> bool) \<Rightarrow> agent_config \<Rightarrow> config_error option" where
  "validate_agent_config cron_ok c =
     (case validate_crons cron_ok
        [(''scheduler.maintenance_cron'', sc_maintenance_cron (ac_scheduler c)),
         (''scheduler.scrub_cron'', sc_scrub_cron (ac_scheduler c)),
         (''scheduler.status_cron'', sc_status_cron (ac_scheduler c))] of
        Some e \<Rightarrow> Some e
      | None \<Rightarrow>
          if ac_listen_port c < 1 \<or> ac_listen_port c > 65535 then Some (PortOutOfRange (ac_listen_port c))
          else if spa_config_path (ac_snapraid c) = [] then Some EmptyConfigPath
          else None)"

datatype file_read = FileContents string | FileMissing | FileError string

definition load_agent_config ::
  "(string \<Rightarrow> agent_config \<Rightarrow> string + agent_config) \<Rightarrow> (string \<Rightarrow> bool) \<Rightarrow> (string \<Rightarrow> float64 option) \<Rightarrow>
     (string \<Rightarrow> string) \<Rightarrow> file_read \<Rightarrow> config_error + agent_config" where
  "load_agent_config unmarshal cron_ok pfloat getenv file =
     (case (case file of
              FileContents data \<Rightarrow>
                (case unmarshal data default_agent_config of
                   Inl e \<Rightarrow> Inl (ParseFailed e)
                 | Inr c \<Rightarrow> Inr c)
            | FileMissing \<Rightarrow> Inr default_agent_config
            | FileError e \<Rightarrow> Inl (ReadFailed e)) of
        Inl e \<Rightarrow> Inl e
      | Inr c0 \<Rightarrow>
          (let c = apply_agent_env_overrides pfloat getenv c0
           in case validate_agent_config cron_ok c of
                Some e \<Rightarrow> Inl e
              | None \<Rightarrow> Inr c))"

section \<open>The hub's configuration\<close>

record hub_vigil =
  hv_server_url :: string
  hv_token :: string
  hv_server_pubkey :: string

record hub_config =
  hc_listen_port :: int
  hc_vigil :: hub_vigil
  hc_registry_path :: string
  hc_logging :: log_config

definition default_hub_config :: hub_config where
  "default_hub_config =
     \<lparr>hc_listen_port = 9300,
      hc_vigil = \<lparr>hv_server_url = ''http://vigil.local:9080'', hv_token = [], hv_server_pubkey = []\<rparr>,
      hc_registry_path = ''/data/agents.json'',
      hc_logging = \<lparr>lg_level = ''info'', lg_file = [], lg_max_size_mb = 0, lg_max_backups = 0\<rparr>\<rparr>"

definition override :: "(string \<Rightarrow> string) \<Rightarrow> string \<Rightarrow> (string \<Rightarrow> 'c \<Rightarrow> 'c) \<Rightarrow> 'c \<Rightarrow> 'c" where
  "override getenv key f c = (let v = getenv key in if v \<noteq> [] then f v c else c)"

definition apply_hub_env_overrides :: "(string \<Rightarrow> string) \<Rightarrow> hub_config \<Rightarrow> hub_config" where
  "apply_hub_env_overrides getenv c0 =
    (let c1 = override getenv ''VIGIL_SNAPRAID_HUB_LISTEN_PORT''
                (\<lambda>v c. c\<lparr>hc_listen_port := set_int v (hc_listen_port c)\<rparr>) c0;
         c2 = override getenv ''VIGIL_SNAPRAID_HUB_VIGIL_SERVER_URL''
                (\<lambda>v c. c\<lparr>hc_vigil := (hc_vigil c)\<lparr>hv_server_url := v\<rparr>\<rparr>) c1;
         c3 = override getenv ''VIGIL_URL'' (\<lambda>v c. c\<lparr>hc_vigil := (hc_vigil c)\<lparr>hv_server_url := v\<rparr>\<rparr>) c2;
         c4 = override getenv ''VIGIL_SNAPRAID_HUB_VIGIL_TOKEN''
                (\<lambda>v c. c\<lparr>hc_vigil := (hc_vigil c)\<lparr>hv_token := v\<rparr>\<rparr>) c3;
         c5 = override getenv ''VIGIL_TOKEN'' (\<lambda>v c. c\<lparr>hc_vigil := (hc_vigil c)\<lparr>hv_token := v\<rparr>\<rparr>) c4;
         c6 = override getenv ''VIGIL_SERVER_PUBKEY''
                (\<lambda>v c. c\<lparr>hc_vigil := (hc_vigil c)\<lparr>hv_server_pubkey := v\<rparr>\<rparr>) c5;
         c7 = override getenv ''VIGIL_SNAPRAID_HUB_DATA_REGISTRY_PATH'' (\<lambda>v c. c\<lparr>hc_registry_path := v\<rparr>) c6
     in override getenv ''VIGIL_SNAPRAID_HUB_LOGGING_LEVEL''
          (\<lambda>v c. c\<lparr>hc_logging := (hc_logging c)\<lparr>lg_level := v\<rparr>\<rparr>) c7)"

definition validate_hub_config :: "hub_config \<Rightarrow> config_error option" where
  "validate_hub_config c =
     (if hc_listen_port c < 1 \<or> hc_listen_port c > 65535 then Some (PortOutOfRange (hc_listen_port c))
      else if hc_registry_path c = [] then Some EmptyRegistryPath
      else None)"

definition load_hub_config ::
  "(string \<Rightarrow> hub_config \<Rightarrow> string + hub_config) \<Rightarrow> (string \<Rightarrow> string) \<Rightarrow> file_read \<Rightarrow>
     config_error + hub_config" where
  "load_hub_config unmarshal getenv file =
     (case file of
        FileMissing \<Rightarrow> Inl (ReadFailed ''no such file or directory'')
      | FileError e \<Rightarrow> Inl (ReadFailed e)
      | FileContents data \<Rightarrow>
          (case unmarshal data default_hub_config of
             Inl e \<Rightarrow> Inl (ParseFailed e)
           | Inr c0 \<Rightarrow>
               (let c = apply_hub_env_overrides getenv c0
                in case validate_hub_config c of Some e \<Rightarrow> Inl e | None \<Rightarrow> Inr c)))"

definition redacted_token :: "string \<Rightarrow> string" where
  "redacted_token token =
     (if length token \<le> 8 then ''***''
      else take 4 token @ replicate (length token - 8) CHR ''*'' @ drop (length token - 4) token)"

section \<open>Properties\<close>

lemma for_command_default_pos: "0 < for_command (ac_timeouts default_agent_config) cmd"
  by (simp add: for_command_def default_agent_config_def minute_ns_def wrap64_def)

text \<open>
  A configuration that loads is valid, whatever the file and the environment say: the port
  is a TCP port, the path of the snapraid configuration is not empty, and every schedule that is
  set parses with the seconds field the scheduler will put in front of it.
\<close>

lemma load_agent_config_valid:
  assumes "load_agent_config unmarshal cron_ok pfloat getenv file = Inr c"
  shows "1 \<le> ac_listen_port c \<and> ac_listen_port c \<le> 65535 \<and> spa_config_path (ac_snapraid c) \<noteq> [] \<and>
         (\<forall>e \<in> {sc_maintenance_cron (ac_scheduler c), sc_scrub_cron (ac_scheduler c), sc_status_cron (ac_scheduler c)}.
            e = [] \<or> cron_ok (''0 '' @ e))"
proof -
  have v: "validate_agent_config cron_ok c = None"
    using assms by (auto simp: load_agent_config_def Let_def split: sum.splits option.splits file_read.splits)
  show ?thesis
    using v by (auto simp: validate_agent_config_def validate_cron_def split: option.splits if_splits)
qed

end
