(* ===== verification/SnapGates.thy ===== *)
theory SnapGates
  imports SnapEngine SnapConfig
begin

text \<open>
  The safety gates of the maintenance pipeline, \<^verbatim>\<open>snapraid/internal/scheduler/gates.go\<close>:
  gate 0 (content and parity files), gate 1 (SMART), gate 2 (diff thresholds) and gate 3 (the
  engine's lock), each with the exact condition under which it lets a sync through.
\<close>

record gate_result =
  gr_passed :: bool
  gr_gate :: string
  gr_reason :: string

abbreviation gate_pass :: "string \<Rightarrow> gate_result" where
  "gate_pass g \<equiv> \<lparr>gr_passed = True, gr_gate = g, gr_reason = []\<rparr>"

abbreviation gate_fail :: "string \<Rightarrow> string \<Rightarrow> gate_result" where
  "gate_fail g why \<equiv> \<lparr>gr_passed = False, gr_gate = g, gr_reason = why\<rparr>"

section \<open>Gate 0: configuration files\<close>

text \<open>The texts of the errors \<open>ValidateConfigFiles\<close> returns.\<close>

fun file_error_text :: "file_error \<Rightarrow> string" where
  "file_error_text (OpenError e) = e"
| "file_error_text TooLong = ''bufio.Scanner: token too long''"

fun validate_error_text :: "validate_error \<Rightarrow> string" where
  "validate_error_text (ConfigUnreadable e) = ''parsing snapraid config: '' @ file_error_text e"
| "validate_error_text (StatFailed kind path e) = kind @ '' file '' @ go_quote path @ '': '' @ e"
| "validate_error_text (FileEmpty kind path) =
     kind @ '' file '' @ go_quote path @ '' exists but is empty (0 bytes)''"

definition check_config_files :: "string + string \<Rightarrow> (string \<Rightarrow> string + int) \<Rightarrow> gate_result" where
  "check_config_files conf stat =
     (case validate_config_files conf stat of
        Some e \<Rightarrow> gate_fail ''config_files'' (validate_error_text e)
      | None \<Rightarrow> gate_pass ''config_files'')"

section \<open>Gate 1: SMART\<close>

text \<open>The verb \<open>%.0f\<close>: the nearest integer, ties to even.\<close>

fun fmt_f0 :: "float64 \<Rightarrow> string" where
  "fmt_f0 NaN = ''NaN''"
| "fmt_f0 PInf = ''+Inf''"
| "fmt_f0 NInf = ''-Inf''"
| "fmt_f0 (Fin a) = (if a < 0 then CHR ''-'' # itoa (round_even (- a)) else itoa (round_even a))"

definition disk_failing :: "smart_disk \<Rightarrow> bool" where
  "disk_failing d \<longleftrightarrow> to_upper (sd_status d) = ''FAIL'' \<or> to_upper (sd_status d) = ''PREFAIL''"

definition disk_over_limit :: "thresholds \<Rightarrow> smart_disk \<Rightarrow> bool" where
  "disk_over_limit th d \<longleftrightarrow>
     th_smart_fail_probability th > 0 \<and>
     f64_ge (sd_failure_probability d) (f64_of_int (th_smart_fail_probability th))"

fun check_smart_disks :: "thresholds \<Rightarrow> smart_disk list \<Rightarrow> gate_result" where
  "check_smart_disks th [] = gate_pass ''smart''"
| "check_smart_disks th (d # ds) =
     (if disk_failing d
      then gate_fail ''smart''
             (''disk '' @ sd_disk_name d @ '' ('' @ sd_device d @ '') reports '' @ sd_status d)
      else if disk_over_limit th d
      then gate_fail ''smart''
             (''disk '' @ sd_disk_name d @ '' ('' @ sd_device d @ '') failure probability '' @
              fmt_f0 (sd_failure_probability d) @ ''% exceeds threshold '' @
              itoa (th_smart_fail_probability th) @ ''%'')
      else check_smart_disks th ds)"

definition check_smart :: "smart_report \<Rightarrow> thresholds \<Rightarrow> gate_result" where
  "check_smart report th = check_smart_disks th (sm_disks report)"

section \<open>Gate 2: diff thresholds\<close>

definition deletions_breach :: "diff_report \<Rightarrow> thresholds \<Rightarrow> bool" where
  "deletions_breach r th \<longleftrightarrow> th_max_deleted th \<ge> 0 \<and> df_removed r > th_max_deleted th"

definition updates_breach :: "diff_report \<Rightarrow> thresholds \<Rightarrow> bool" where
  "updates_breach r th \<longleftrightarrow> th_max_updated th \<ge> 0 \<and> df_updated r > th_max_updated th"

definition ratio_override :: "diff_report \<Rightarrow> thresholds \<Rightarrow> bool" where
  "ratio_override r th \<longleftrightarrow>
     f64_gt (th_add_del_ratio th) (Fin 0) \<and> df_removed r > 0 \<and>
     f64_ge (f64_div (f64_of_int (df_added r)) (f64_of_int (df_removed r))) (th_add_del_ratio th)"

definition check_diff_thresholds :: "diff_report \<Rightarrow> thresholds \<Rightarrow> gate_result" where
  "check_diff_thresholds r th =
     (if deletions_breach r th
      then if ratio_override r th then gate_pass ''diff_thresholds''
           else gate_fail ''diff_thresholds''
                  (itoa (df_removed r) @ '' files deleted exceeds threshold of '' @
                   itoa (th_max_deleted th) @ ''; manual sync required'')
      else if updates_breach r th
      then gate_fail ''diff_thresholds''
             (itoa (df_updated r) @ '' files updated exceeds threshold of '' @ itoa (th_max_updated th))
      else gate_pass ''diff_thresholds'')"

section \<open>Gate 3: the engine's lock\<close>

definition check_lock :: "op_error \<Rightarrow> gate_result" where
  "check_lock e =
     (if is_engine_locked e
      then gate_fail ''concurrency_lock'' ''another snapraid operation is currently running''
      else gate_pass ''concurrency_lock'')"

section \<open>When the gates pass\<close>

lemma check_config_files_passed [simp]:
  "gr_passed (check_config_files conf stat) \<longleftrightarrow> validate_config_files conf stat = None"
  by (simp add: check_config_files_def split: option.splits)

lemma check_smart_disks_passed:
  "gr_passed (check_smart_disks th ds) \<longleftrightarrow>
     (\<forall>d \<in> set ds. \<not> disk_failing d \<and> \<not> disk_over_limit th d)"
  by (induction ds) auto

lemma check_diff_passed:
  "gr_passed (check_diff_thresholds r th) \<longleftrightarrow>
     (if deletions_breach r th then ratio_override r th else \<not> updates_breach r th)"
  by (simp add: check_diff_thresholds_def)

lemma check_lock_passed [simp]: "gr_passed (check_lock e) \<longleftrightarrow> \<not> is_engine_locked e"
  by (simp add: check_lock_def)

definition disk_ok :: "thresholds \<Rightarrow> smart_disk \<Rightarrow> bool" where
  "disk_ok th d \<longleftrightarrow> \<not> disk_failing d \<and> \<not> disk_over_limit th d"

lemma check_smart_disks_reason:
  "gr_passed (check_smart_disks th ds) \<or>
     (\<exists>good d rest why. ds = good @ d # rest \<and> list_all (disk_ok th) good \<and> \<not> disk_ok th d
       \<and> gr_reason (check_smart_disks th ds) =
           ''disk '' @ sd_disk_name d @ '' ('' @ sd_device d @ '') '' @ why)"
proof (induction ds)
  case (Cons d ds)
  show ?case
  proof (cases "disk_ok th d")
    case True
    then have eq: "check_smart_disks th (d # ds) = check_smart_disks th ds"
      by (simp add: disk_ok_def)
    show ?thesis
    proof (cases "gr_passed (check_smart_disks th ds)")
      case False
      with Cons.IH obtain good d' rest why where
        "ds = good @ d' # rest" "list_all (disk_ok th) good" "\<not> disk_ok th d'"
        "gr_reason (check_smart_disks th ds) =
           ''disk '' @ sd_disk_name d' @ '' ('' @ sd_device d' @ '') '' @ why" by blast
      with True eq have "d # ds = (d # good) @ d' # rest" "list_all (disk_ok th) (d # good)"
        "\<not> disk_ok th d'" "gr_reason (check_smart_disks th (d # ds)) =
           ''disk '' @ sd_disk_name d' @ '' ('' @ sd_device d' @ '') '' @ why" by simp_all
      then show ?thesis by blast
    qed (use eq in argo)
  next
    case False
    then have "\<exists>why. gr_reason (check_smart_disks th (d # ds)) =
        ''disk '' @ sd_disk_name d @ '' ('' @ sd_device d @ '') '' @ why"
      by (auto simp: disk_ok_def)
    with False have "\<exists>why. d # ds = [] @ d # ds \<and> list_all (disk_ok th) [] \<and> \<not> disk_ok th d \<and>
        gr_reason (check_smart_disks th (d # ds)) =
        ''disk '' @ sd_disk_name d @ '' ('' @ sd_device d @ '') '' @ why" by auto
    then show ?thesis by blast
  qed
qed simp

text \<open>The SMART gate lets a run pass exactly when no disk reports FAIL or PREFAIL (in any
  letter case) and, where a positive probability threshold is set, every failure probability is
  below it; when it does not pass, the reason it gives names the first offending disk of the
  report.\<close>

lemma check_smart_spec:
  "(gr_passed (check_smart report th) \<longleftrightarrow>
     list_all (\<lambda>d. \<not> disk_failing d \<and> \<not> disk_over_limit th d) (sm_disks report))
   \<and> (gr_passed (check_smart report th) \<or>
      (\<exists>good d rest why. sm_disks report = good @ d # rest
        \<and> list_all (disk_ok th) good \<and> \<not> disk_ok th d
        \<and> gr_reason (check_smart report th) =
            ''disk '' @ sd_disk_name d @ '' ('' @ sd_device d @ '') '' @ why))"
  using check_smart_disks_reason [of th "sm_disks report"]
  by (simp add: check_smart_def check_smart_disks_passed list_all_iff)


text \<open>The ratio in exact arithmetic: for counts below two to the 53rd, a deletion breach is
  excused when the configured ratio is positive and the quotient of added by removed files,
  rounded once to a double, reaches it; equal counts excuse a ratio of one.\<close>

lemma ratio_override_exact:
  assumes "0 \<le> df_added r" "df_added r < 2 ^ 53" "0 < df_removed r" "df_removed r < 2 ^ 53"
    and "th_add_del_ratio th = Fin q"
  shows "ratio_override r th \<longleftrightarrow>
    0 < q \<and> f64_ge (round64 (of_int (df_added r) / of_int (df_removed r))) (Fin q)"
proof -
  have "f64_of_int (df_added r) = Fin (of_int (df_added r))"
    and "f64_of_int (df_removed r) = Fin (of_int (df_removed r))"
    using assms f64_of_int_exact by simp_all
  then show ?thesis using assms by (auto simp: ratio_override_def)
qed

definition sample_diff :: diff_report where
  "sample_diff = \<lparr>df_added = 600, df_removed = 300, df_updated = 4000, df_moved = 0, df_copied = 0,
     df_restored = 0, df_has_changes = True, df_file_details = [], df_output = []\<rparr>"

end
