(* ===== verification/SnapSummary.thy ===== *)
theory SnapSummary
  imports SnapEngine SnapGates "HOL-Library.Sublist"
begin

text \<open>
  The texts of the pipeline's notifications: \<^verbatim>\<open>snapraid/internal/scheduler/summary.go\<close>
  (one extractor per command) and, from pipeline.go, \<open>FormatStatusSummary\<close> and
  \<open>truncateForNotification\<close>. Strings are bytes, so a dash or an ellipsis is its UTF-8 form.
\<close>

section \<open>Extractors (summary.go)\<close>

definition split_output :: "string \<Rightarrow> string list" where
  "split_output s = fields_func (\<lambda>c. c = CHR 0x0A \<or> c = CHR 0x0D) [] s"

definition accessed_marker :: string where
  "accessed_marker = '' accessed in ''"

definition clean_completion_line :: "string \<Rightarrow> string" where
  "clean_completion_line line =
     (case str_index line accessed_marker of
        None \<Rightarrow> trim_space line
      | Some idx \<Rightarrow>
          (case str_fields (trim_space (drop (idx + length accessed_marker) line)) of
             [] \<Rightarrow> trim_space line
           | f # fs \<Rightarrow> take idx line @ accessed_marker @ f))"

definition operation_line :: "string \<Rightarrow> string list" where
  "operation_line l =
     (let line = trim_space l in
      if line = [] then []
      else if str_contains line ''% completed'' \<and> str_contains line accessed_marker
      then [clean_completion_line line]
      else if equal_fold line ''everything ok'' then [''Everything OK'']
      else if has_prefix line ''DANGER'' \<or> has_prefix line ''WARNING'' then [line]
      else [])"

definition format_operation_summary :: "string \<Rightarrow> string" where
  "format_operation_summary out =
     join_with [CHR 0x0A] (concat (map operation_line (split_output out)))"

definition status_summary_line :: "string \<Rightarrow> bool" where
  "status_summary_line line \<longleftrightarrow> line \<noteq> [] \<and>
     (has_prefix line ''The '' \<or> has_prefix line ''No '' \<or>
      str_contains line ''% of the array'' \<or> str_contains line ''in progress'')"

definition format_status_lines :: "string \<Rightarrow> string" where
  "format_status_lines out =
     join_with [CHR 0x0A] (filter status_summary_line (map trim_space (split_output out)))"

definition diff_summary_line :: "string \<Rightarrow> bool" where
  "diff_summary_line t \<longleftrightarrow> t \<noteq> [] \<and>
     \<not> (has_prefix t ''Loading state'' \<or> has_prefix t ''Using '' \<or> t = ''Comparing...'' \<or>
        has_prefix t ''Initializing'' \<or> has_prefix t ''Saving state'')"

definition format_diff_lines :: "string \<Rightarrow> string" where
  "format_diff_lines out =
     join_with [CHR 0x0A] (filter diff_summary_line (map trim_space (split_output out)))"

definition smart_summary_line :: "string \<Rightarrow> bool" where
  "smart_summary_line line \<longleftrightarrow> has_prefix line ''Probability that at least one disk''"

definition format_smart_lines :: "string \<Rightarrow> string" where
  "format_smart_lines out =
     join_with [CHR 0x0A] (filter smart_summary_line (map trim_space (split_output out)))"

definition touch_summary_line :: "string \<Rightarrow> bool" where
  "touch_summary_line t \<longleftrightarrow> t \<noteq> [] \<and>
     \<not> (has_prefix t ''Loading state'' \<or> has_prefix t ''Using '' \<or> has_prefix t ''Initializing'' \<or>
        has_prefix t ''Saving state'' \<or> has_prefix t ''Scanning disk'')"

definition format_touch_lines :: "string \<Rightarrow> string" where
  "format_touch_lines out =
     join_with [CHR 0x0A] (filter touch_summary_line (map trim_space (split_output out)))"

definition format_command_summary :: "string \<Rightarrow> string \<Rightarrow> string" where
  "format_command_summary jt out =
     (if out = [] then []
      else if jt = ''scrub'' \<or> jt = ''sync'' \<or> jt = ''fix'' then format_operation_summary out
      else if jt = ''status'' then format_status_lines out
      else if jt = ''diff'' then format_diff_lines out
      else if jt = ''smart'' then format_smart_lines out
      else if jt = ''touch'' then format_touch_lines out
      else [])"

section \<open>The status summary and its truncation (pipeline.go)\<close>

text \<open>\<open>now.Sub(t)\<close> saturates at the ends of the 64-bit range; the zero time lies further back
  than that. \<open>int(d.Hours() / 24)\<close> computes with doubles and truncates.\<close>

definition time_sub :: "int \<Rightarrow> int option \<Rightarrow> int" where
  "time_sub now t =
     (case t of None \<Rightarrow> int64_max | Some u \<Rightarrow> max int64_min (min int64_max (now - u)))"

definition hour_ns :: int where
  "hour_ns = 3600000000000"

definition trunc_rat :: "rat \<Rightarrow> int" where
  "trunc_rat x = (if 0 \<le> x then \<lfloor>x\<rfloor> else - \<lfloor>- x\<rfloor>)"

definition fin_part :: "float64 \<Rightarrow> rat" where
  "fin_part x = (case x of Fin a \<Rightarrow> a | _ \<Rightarrow> 0)"

definition duration_days :: "int \<Rightarrow> int" where
  "duration_days d =
     (let h = sgn d * (\<bar>d\<bar> div hour_ns); ns = sgn d * (\<bar>d\<bar> mod hour_ns);
          hours = round64 (of_int h + fin_part (round64 (of_int ns / of_int hour_ns)))
      in trunc_rat (fin_part (f64_div hours (Fin 24))))"

definition trim_right_nl :: "string \<Rightarrow> string" where
  "trim_right_nl s = rev (dropWhile (\<lambda>c. c = CHR 0x0A) (rev s))"

definition nl :: string where
  "nl = [CHR 0x0A]"

definition status_summary_parts :: "int \<Rightarrow> status_report \<Rightarrow> string list" where
  "status_summary_parts now s =
     (let age = st_scrub_age s;
          days = (\<lambda>t. itoa (duration_days (time_sub now t)))
      in (if sa_oldest age \<noteq> None
          then [''The oldest block was scrubbed '' @ days (sa_oldest age) @ '' days ago, the median '' @
                days (sa_median age) @ '', the newest '' @ days (sa_newest age) @ ''.'']
          else []) @
         [if st_unsynced_blocks s > 0 then itoa (st_unsynced_blocks s) @ '' block(s) not yet synced.''
          else ''No sync is in progress.'',
          if f64_gt (st_unscrubbed_percent s) (Fin 0)
          then fmt_f0 (st_unscrubbed_percent s) @ ''% of the array is not scrubbed.''
          else ''The array is fully scrubbed.'',
          if st_bad_blocks s > 0 then itoa (st_bad_blocks s) @ '' bad block(s) detected.''
          else ''No error detected.''])"

definition format_status_summary :: "int \<Rightarrow> status_report \<Rightarrow> string" where
  "format_status_summary now s =
     trim_right_nl (concat (map (\<lambda>l. l @ nl) (status_summary_parts now s)))"

definition max_notification_bytes :: int where
  "max_notification_bytes = 8 * 1024"

text \<open>The marker: a line feed, the ellipsis (E2 80 A6), and a text with a dash (E2 80 94).\<close>

definition trunc_marker :: string where
  "trunc_marker = [CHR 0x0A, CHR 0xE2, CHR 0x80, CHR 0xA6] @ '' (truncated '' @
     [CHR 0xE2, CHR 0x80, CHR 0x94] @ '' see agent logs for full status)''"

definition truncate_for_notification :: "string \<Rightarrow> int \<Rightarrow> string" where
  "truncate_for_notification s n =
     (if int (length s) \<le> n then s
      else let cut = max 0 (n - int (length trunc_marker));
               s1 = take (nat cut) s;
               s2 = (case last_index_byte s1 (CHR 0x0A) of
                       Some i \<Rightarrow> if i > 0 then take i s1 else s1
                     | None \<Rightarrow> s1)
           in s2 @ trunc_marker)"

section \<open>Properties\<close>

lemma marker_length [simp]: "length trunc_marker = 51"
  by (simp add: trunc_marker_def)

lemma last_index_byte_max: "last_index_byte s c = Some i \<Longrightarrow> c \<notin> set (drop (Suc i) s)"
  by (induction s c arbitrary: i rule: last_index_byte.induct)
    (auto split: option.splits if_splits simp: last_index_byte_None)

text \<open>A truncated notification fits: it is no longer than the cap (or than the marker,
  when the cap is smaller), a text within the cap is untouched, and otherwise the result is a
  prefix of the text followed by the marker, where the prefix ends at a line boundary unless the
  part that fits has no line break after its first byte.\<close>

lemma truncate_fits:
  "int (length (truncate_for_notification s n)) \<le> max n 51
   \<and> (if int (length s) \<le> n then truncate_for_notification s n = s
      else \<exists>p rest. s = p @ rest \<and> truncate_for_notification s n = p @ trunc_marker
        \<and> (hd rest = CHR 0x0A \<or> filter (\<lambda>c. c = CHR 0x0A) (tl p) = []))"
proof (cases "int (length s) \<le> n")
  case False
  define s1 where "s1 = take (nat (max 0 (n - 51))) s"
  define s2 where "s2 = (case last_index_byte s1 (CHR 0x0A) of
                       Some i \<Rightarrow> if i > 0 then take i s1 else s1 | None \<Rightarrow> s1)"
  have res: "truncate_for_notification s n = s2 @ trunc_marker"
    using False by (simp only: truncate_for_notification_def s2_def s1_def Let_def marker_length
      of_nat_numeral if_False)
  have len: "length s2 \<le> length s1" by (auto simp: s2_def split: option.splits)
  have "int (length s1) \<le> max 0 (n - 51)" by (simp add: s1_def)
  with len res have fits: "int (length (truncate_for_notification s n)) \<le> max n 51"
    by simp
  have whole: "s = s1 @ drop (nat (max 0 (n - 51))) s" by (simp add: s1_def)
  have "\<exists>rest. s = s2 @ rest \<and> (hd rest = CHR 0x0A \<or> CHR 0x0A \<notin> set (tl s2))"
  proof (cases "last_index_byte s1 (CHR 0x0A)")
    case None
    then have "CHR 0x0A \<notin> set s1" by (simp only: last_index_byte_None not_False_eq_True)
    then have "CHR 0x0A \<notin> set (tl s1)" by (cases s1) auto
    with None whole show ?thesis by (auto simp: s2_def)
  next
    case (Some i)
    note i = last_index_byte_lt [OF Some]
    show ?thesis
    proof (cases "i = 0")
      case True
      with last_index_byte_max [OF Some] have "CHR 0x0A \<notin> set (tl s1)"
        by (simp add: drop_Suc)
      with Some True whole show ?thesis by (auto simp: s2_def)
    next
      case False
      have "s1 = take i s1 @ drop i s1" by simp
      moreover have "hd (drop i s1 @ drop (nat (max 0 (n - 51))) s) = CHR 0x0A"
        using i by (simp add: hd_append hd_drop_conv_nth)
      moreover have "s2 = take i s1" using Some False by (simp add: s2_def)
      ultimately show ?thesis using whole by (metis append.assoc)
    qed
  qed
  then have "\<exists>rest. s = s2 @ rest \<and> (hd rest = CHR 0x0A \<or> filter (\<lambda>c. c = CHR 0x0A) (tl s2) = [])"
    by (auto simp: filter_empty_conv)
  with fits res False show ?thesis by auto
qed (simp add: truncate_for_notification_def)

lemma lines_no_nl:
  assumes "l \<in> set (map trim_space (split_output out))" shows "CHR 0x0A \<notin> set l"
proof -
  obtain x where x: "x \<in> set (split_output out)" "l = trim_space x" using assms by auto
  then have "CHR 0x0A \<notin> set x"
    using fields_func_no_sep [of x "\<lambda>c. c = CHR 0x0A \<or> c = CHR 0x0D" "[]" out]
    unfolding split_output_def by fastforce
  then show ?thesis using x(2) set_trim_space [of x] by blast
qed

lemma summary_lines_subseq:
  "join_with [CHR 0x0A] (filter P (map trim_space (split_output out))) = [] \<or>
   subseq (split_on (CHR 0x0A) (join_with [CHR 0x0A] (filter P (map trim_space (split_output out)))))
     (map trim_space (split_output out))"
proof -
  let ?ls = "map trim_space (split_output out)"
  show ?thesis
  proof (cases "filter P ?ls = []")
    case False
    have "split_on (CHR 0x0A) (join_with [CHR 0x0A] (filter P ?ls)) = filter P ?ls"
      by (rule split_join [OF False]) (metis lines_no_nl filter_is_subset subsetD)
    then show ?thesis by (metis subseq_filter_left)
  next
    case True
    then show ?thesis by (metis join_with.simps(1))
  qed
qed

text \<open>The summaries of status, diff, smart and touch invent nothing: a non-empty summary is,
  line by line, a subsequence of the command's output lines with their surrounding blanks
  trimmed.\<close>

lemma summary_from_output:
  assumes "jt \<notin> {''scrub'', ''sync'', ''fix''}"
  shows "format_command_summary jt out = [] \<or>
    subseq (split_on (CHR 0x0A) (format_command_summary jt out))
      (map trim_space (split_output out))"
  using assms summary_lines_subseq
  by (auto simp only: format_command_summary_def format_status_lines_def format_diff_lines_def
      format_smart_lines_def format_touch_lines_def simp_thms if_splits insert_iff empty_iff
      split: if_split)

lemma trim_right_nl_snoc: "c \<noteq> CHR 0x0A \<Longrightarrow> trim_right_nl (s @ [c, CHR 0x0A]) = s @ [c]"
  by (simp add: trim_right_nl_def)

end
