(* ===== verification/SnapDb.thy ===== *)
theory SnapDb
  imports Prelude "HOL-Library.Multiset"
begin

text \<open>
  The snapraid agent's database, \<^verbatim>\<open>snapraid/internal/db\<close>: the three SQLite tables as
  lists of rows in row-id order, each statement of history.go and cache.go as one
  operation on them. SQLite itself is not in the repository. What the code relies on is
  written into the operations (an AUTOINCREMENT id is never reused, an UPDATE or DELETE
  touches exactly the rows of its WHERE clause), a statement that fails is the driver's
  verdict \<open>drv = Some message\<close> and leaves the tables alone, and the order in which
  ORDER BY lists rows of equal key, which SQLite leaves open, is the parameter
  \<open>order\<close> of the queries (the interface \<open>desc_order\<close> below).

  Times are nanoseconds since the epoch; the columns hold whole seconds, because the code
  stores every time through the layout \<^verbatim>\<open>2006-01-02 15:04:05\<close>, whose text order is the
  order of the seconds.
\<close>

section \<open>Rows and tables\<close>

record job_record =
  jr_id :: int
  jr_type :: string
  jr_trigger :: string
  jr_started :: int
  jr_finished :: "int option"
  jr_exit :: "int option"
  jr_status :: string
  jr_log :: string

record queue_record =
  qr_id :: int
  qr_type :: string
  qr_payload :: string
  qr_created :: int

record cache_record =
  cr_key :: string
  cr_value :: string
  cr_updated :: int

record database =
  db_jobs :: "job_record list"
  db_seq :: int
  db_queue :: "queue_record list"
  db_cache :: "cache_record list"

definition empty_db :: database where
  "empty_db = \<lparr>db_jobs = [], db_seq = 0, db_queue = [], db_cache = []\<rparr>"

definition db_time :: "int \<Rightarrow> int" where
  "db_time ns = ns div 1000000000"

section \<open>The job history (history.go)\<close>

definition insert_job :: "string option \<Rightarrow> int \<Rightarrow> string \<Rightarrow> string \<Rightarrow> database \<Rightarrow>
    (string + int) \<times> database" where
  "insert_job drv now jt trig db =
     (case drv of
        Some e \<Rightarrow> (Inl (''insert job: '' @ e), db)
      | None \<Rightarrow>
          let i = db_seq db + 1;
              row = \<lparr>jr_id = i, jr_type = jt, jr_trigger = trig, jr_started = db_time now,
                     jr_finished = None, jr_exit = None, jr_status = ''running'', jr_log = []\<rparr>
          in (Inr i, db\<lparr>db_jobs := db_jobs db @ [row], db_seq := i\<rparr>))"

definition finish_row :: "int \<Rightarrow> int \<Rightarrow> string \<Rightarrow> string \<Rightarrow> job_record \<Rightarrow> job_record" where
  "finish_row now code st out j =
     j\<lparr>jr_finished := Some (db_time now), jr_exit := Some code, jr_status := st, jr_log := out\<rparr>"

definition complete_job :: "string option \<Rightarrow> int \<Rightarrow> int \<Rightarrow> int \<Rightarrow> string \<Rightarrow> string \<Rightarrow> database \<Rightarrow>
    (string + unit) \<times> database" where
  "complete_job drv now i code st out db =
     (case drv of
        Some e \<Rightarrow> (Inl (''complete job '' @ itoa i @ '': '' @ e), db)
      | None \<Rightarrow>
          (Inr (), db\<lparr>db_jobs := map (\<lambda>j. if jr_id j = i then finish_row now code st out j else j)
                                  (db_jobs db)\<rparr>))"

definition get_job_by_id :: "string option \<Rightarrow> int \<Rightarrow> database \<Rightarrow> string + job_record option" where
  "get_job_by_id drv i db =
     (case drv of
        Some e \<Rightarrow> Inl (''get job '' @ itoa i @ '': '' @ e)
      | None \<Rightarrow> Inr (List.find (\<lambda>j. jr_id j = i) (db_jobs db)))"

text \<open>SQLite reads a negative LIMIT as no limit.\<close>

definition sql_limit :: "int \<Rightarrow> 'a list \<Rightarrow> 'a list" where
  "sql_limit n xs = (if n < 0 then xs else take (nat n) xs)"

definition recent_jobs :: "(job_record list \<Rightarrow> job_record list) \<Rightarrow> string option \<Rightarrow> int \<Rightarrow> database \<Rightarrow>
    string + job_record list" where
  "recent_jobs order drv n db =
     (case drv of
        Some e \<Rightarrow> Inl (''query recent jobs: '' @ e)
      | None \<Rightarrow> Inr (sql_limit n (order (db_jobs db))))"

definition recent_jobs_since :: "(job_record list \<Rightarrow> job_record list) \<Rightarrow> string option \<Rightarrow> int \<Rightarrow> int \<Rightarrow>
    database \<Rightarrow> string + job_record list" where
  "recent_jobs_since order drv since n db =
     (case drv of
        Some e \<Rightarrow> Inl (''query jobs since: '' @ e)
      | None \<Rightarrow> Inr (sql_limit n (order (filter (\<lambda>j. db_time since \<le> jr_started j) (db_jobs db)))))"

definition prune_older_than :: "string option \<Rightarrow> int \<Rightarrow> int \<Rightarrow> database \<Rightarrow>
    (string + int) \<times> database" where
  "prune_older_than drv now retention db =
     (let cutoff = db_time (now - retention) in
      case drv of
        Some e \<Rightarrow> (Inl (''prune jobs: '' @ e), db)
      | None \<Rightarrow>
          let (old, kept) = partition (\<lambda>j. jr_started j < cutoff) (db_jobs db)
          in (Inr (int (length old)), db\<lparr>db_jobs := kept\<rparr>))"

definition prune_telemetry_queue :: "string option \<Rightarrow> int \<Rightarrow> int \<Rightarrow> database \<Rightarrow>
    (string + int) \<times> database" where
  "prune_telemetry_queue drv now retention db =
     (let cutoff = db_time (now - retention) in
      case drv of
        Some e \<Rightarrow> (Inl (''prune telemetry queue: '' @ e), db)
      | None \<Rightarrow>
          let (old, kept) = partition (\<lambda>q. qr_created q < cutoff) (db_queue db)
          in (Inr (int (length old)), db\<lparr>db_queue := kept\<rparr>))"

text \<open>One round of the prune loop: both deletes run, a failed one is only logged. The loop
  runs a round at start and one per tick (\<open>prune_loop\<close>, over the ticks that came before the
  context ended).\<close>

definition prune_round :: "string option \<times> string option \<Rightarrow> int \<Rightarrow> int \<Rightarrow> database \<Rightarrow> database" where
  "prune_round drv now retention db =
     (let (_, db1) = prune_older_than (fst drv) now retention db;
          (_, db2) = prune_telemetry_queue (snd drv) now retention db1
      in db2)"

fun prune_loop :: "(string option \<times> string option) list \<Rightarrow> int list \<Rightarrow> int \<Rightarrow> database \<Rightarrow> database" where
  "prune_loop (d # ds) (now # ticks) retention db =
     prune_loop ds ticks retention (prune_round d now retention db)"
| "prune_loop _ _ retention db = db"

section \<open>The configuration cache (cache.go)\<close>

fun upsert_cache :: "string \<Rightarrow> string \<Rightarrow> int \<Rightarrow> cache_record list \<Rightarrow> cache_record list" where
  "upsert_cache k v t [] = [\<lparr>cr_key = k, cr_value = v, cr_updated = t\<rparr>]"
| "upsert_cache k v t (r # rs) =
     (if cr_key r = k then r\<lparr>cr_value := v, cr_updated := t\<rparr> # rs else r # upsert_cache k v t rs)"

definition set_cache_value :: "string option \<Rightarrow> int \<Rightarrow> string \<Rightarrow> string \<Rightarrow> database \<Rightarrow>
    (string + unit) \<times> database" where
  "set_cache_value drv now k v db =
     (case drv of
        Some e \<Rightarrow> (Inl (''set cache '' @ k @ '': '' @ e), db)
      | None \<Rightarrow> (Inr (), db\<lparr>db_cache := upsert_cache k v (db_time now) (db_cache db)\<rparr>))"

definition get_cache_value :: "string option \<Rightarrow> string \<Rightarrow> database \<Rightarrow> string + string" where
  "get_cache_value drv k db =
     (case drv of
        Some e \<Rightarrow> Inl (''get cache '' @ k @ '': '' @ e)
      | None \<Rightarrow>
          (case List.find (\<lambda>r. cr_key r = k) (db_cache db) of
             None \<Rightarrow> Inr []
           | Some r \<Rightarrow> Inr (cr_value r)))"

definition get_all_cache_values :: "string option \<Rightarrow> database \<Rightarrow>
    string + (string \<rightharpoonup> string)" where
  "get_all_cache_values drv db =
     (case drv of
        Some e \<Rightarrow> Inl (''query config cache: '' @ e)
      | None \<Rightarrow> Inr (fold (\<lambda>r m. m(cr_key r \<mapsto> cr_value r)) (db_cache db) Map.empty))"

section \<open>The tables' invariant\<close>

text \<open>Row ids are distinct, positive and at most the sequence; a finished job has an exit
  code and an unfinished one has neither; cache keys are a primary key.\<close>

definition row_wf :: "job_record \<Rightarrow> bool" where
  "row_wf j = ((jr_finished j = None) = (jr_exit j = None))"

definition db_wf :: "database \<Rightarrow> bool" where
  "db_wf db =
     (sorted_wrt (<) (map jr_id (db_jobs db)) \<and>
      (\<forall>j \<in> set (db_jobs db). 0 < jr_id j \<and> jr_id j \<le> db_seq db \<and> row_wf j) \<and>
      0 \<le> db_seq db \<and> distinct (map cr_key (db_cache db)))"

lemma db_wf_empty: "db_wf empty_db"
  by (simp add: db_wf_def empty_db_def)

lemma db_wf_insert:
  assumes "db_wf db" shows "db_wf (snd (insert_job drv now jt trig db))"
  using assms
  by (auto simp: db_wf_def insert_job_def Let_def row_wf_def sorted_wrt_append split: option.splits)

lemma map_jr_id_update:
  "map jr_id (map (\<lambda>j. if jr_id j = i then finish_row now code st out j else j) js) = map jr_id js"
  by (induction js) (simp_all add: finish_row_def)

lemma db_wf_complete:
  assumes "db_wf db" shows "db_wf (snd (complete_job drv now i code st out db))"
  using assms map_jr_id_update [of i now code st out "db_jobs db"]
  by (auto simp: db_wf_def complete_job_def finish_row_def row_wf_def simp del: map_map
      split: option.splits)

lemma sorted_wrt_map_filter: "sorted_wrt (<) (map f xs) \<Longrightarrow> sorted_wrt (<) (map f (filter P xs))"
  by (induction xs) auto

lemma db_wf_prune_jobs: "db_wf db \<Longrightarrow> db_wf (snd (prune_older_than drv now r db))"
  by (auto simp: db_wf_def prune_older_than_def Let_def sorted_wrt_map_filter o_def
      split: option.splits)

lemma db_wf_prune_queue: "db_wf db \<Longrightarrow> db_wf (snd (prune_telemetry_queue drv now r db))"
  by (auto simp: db_wf_def prune_telemetry_queue_def Let_def split: option.splits)

lemma upsert_keys:
  "map cr_key (upsert_cache k v t rs) =
     (if k \<in> cr_key ` set rs then map cr_key rs else map cr_key rs @ [k])"
  by (induction rs) auto

lemma db_wf_set_cache: "db_wf db \<Longrightarrow> db_wf (snd (set_cache_value drv now k v db))"
  by (auto simp: db_wf_def set_cache_value_def upsert_keys split: option.splits)

text \<open>The statements the agent issues, as one datatype: the invariant is kept by every
  sequence of them.\<close>

datatype db_op =
    OpInsert "string option" int string string
  | OpComplete "string option" int int int string string
  | OpPrune "string option \<times> string option" int int
  | OpSetCache "string option" int string string

fun db_step :: "db_op \<Rightarrow> database \<Rightarrow> database" where
  "db_step (OpInsert drv now jt trig) db = snd (insert_job drv now jt trig db)"
| "db_step (OpComplete drv now i code st out) db = snd (complete_job drv now i code st out db)"
| "db_step (OpPrune drv now r) db = prune_round drv now r db"
| "db_step (OpSetCache drv now k v) db = snd (set_cache_value drv now k v db)"

lemma db_wf_prune_round: "db_wf db \<Longrightarrow> db_wf (prune_round drv now r db)"
  using db_wf_prune_queue [OF db_wf_prune_jobs]
  by (simp add: prune_round_def case_prod_beta)

lemma db_wf_step: "db_wf db \<Longrightarrow> db_wf (db_step oper db)"
  by (cases oper)
    (simp_all add: db_wf_insert db_wf_complete db_wf_prune_round db_wf_set_cache)

lemma db_wf_steps: "db_wf db \<Longrightarrow> db_wf (fold db_step ops db)"
  by (induction ops arbitrary: db) (simp_all add: db_wf_step)

section \<open>The tables as maps\<close>

definition job_map :: "database \<Rightarrow> int \<rightharpoonup> job_record" where
  "job_map db = (\<lambda>i. List.find (\<lambda>j. jr_id j = i) (db_jobs db))"

definition cache_map :: "database \<Rightarrow> string \<rightharpoonup> string" where
  "cache_map db = (\<lambda>k. map_option cr_value (List.find (\<lambda>r. cr_key r = k) (db_cache db)))"

lemma find_append: "List.find P (xs @ ys) =
    (case List.find P xs of None \<Rightarrow> List.find P ys | Some x \<Rightarrow> Some x)"
  by (induction xs) auto

lemma find_None_iff_all: "List.find P xs = None \<longleftrightarrow> (\<forall>x \<in> set xs. \<not> P x)"
  by (induction xs) auto

lemma find_map_same_key:
  assumes "\<And>x. key (f x) = key x"
  shows "List.find (\<lambda>x. key x = i) (map f xs) = map_option f (List.find (\<lambda>x. key x = i) xs)"
  using assms by (induction xs) auto

lemma find_filter_distinct:
  assumes "sorted_wrt (<) (map key xs :: int list)"
  shows "List.find (\<lambda>x. key x = i) (filter P xs) =
    (case List.find (\<lambda>x. key x = i) xs of
       None \<Rightarrow> None | Some x \<Rightarrow> if P x then Some x else None)"
  using assms
proof (induction xs)
  case (Cons x xs)
  have "key x = i \<Longrightarrow> List.find (\<lambda>y. key y = i) (filter P xs) = None"
    using Cons.prems by (auto simp: find_None_iff_all)
  then show ?case using Cons by auto
qed simp

lemma job_map_fresh: "db_wf db \<Longrightarrow> db_seq db < i \<Longrightarrow> job_map db i = None"
  by (auto simp: job_map_def find_None_iff_all db_wf_def)

lemma job_map_insert:
  assumes "db_wf db"
  shows "job_map (snd (insert_job None now jt trig db)) = (job_map db)(db_seq db + 1 \<mapsto>
    \<lparr>jr_id = db_seq db + 1, jr_type = jt, jr_trigger = trig, jr_started = db_time now,
     jr_finished = None, jr_exit = None, jr_status = ''running'', jr_log = []\<rparr>)"
  using job_map_fresh [OF assms, of "db_seq db + 1"]
  by (auto simp: job_map_def insert_job_def Let_def find_append fun_eq_iff split: option.splits)

lemma job_map_complete:
  "job_map (snd (complete_job None now i code st out db)) =
     (\<lambda>k. if k = i then map_option (finish_row now code st out) (job_map db k) else job_map db k)"
proof
  fix k
  let ?f = "\<lambda>j. if jr_id j = i then finish_row now code st out j else j"
  have "job_map (snd (complete_job None now i code st out db)) k = map_option ?f (job_map db k)"
    using find_map_same_key [of jr_id ?f k "db_jobs db"]
    by (simp add: job_map_def complete_job_def finish_row_def)
  moreover have "job_map db k = Some j \<Longrightarrow> jr_id j = k" for j
    by (auto simp: job_map_def find_Some_iff)
  ultimately show "job_map (snd (complete_job None now i code st out db)) k =
      (if k = i then map_option (finish_row now code st out) (job_map db k) else job_map db k)"
    by (cases "job_map db k") auto
qed

lemma job_map_prune:
  assumes "db_wf db"
  shows "job_map (snd (prune_older_than None now r db)) = (\<lambda>k. case job_map db k of
     None \<Rightarrow> None | Some j \<Rightarrow> if db_time (now - r) \<le> jr_started j then Some j else None)"
  using assms
  by (auto simp: job_map_def prune_older_than_def Let_def fun_eq_iff db_wf_def o_def not_less
      find_filter_distinct split: option.splits)

lemma cache_map_upsert:
  "map_option cr_value (List.find (\<lambda>r. cr_key r = k') (upsert_cache k v t rs)) =
     (if k' = k then Some v else map_option cr_value (List.find (\<lambda>r. cr_key r = k') rs))"
  by (induction rs) auto

lemma cache_map_set: "cache_map (snd (set_cache_value None now k v db)) = (cache_map db)(k \<mapsto> v)"
  by (auto simp: cache_map_def set_cache_value_def cache_map_upsert fun_eq_iff)

lemma fold_map_upd_distinct:
  assumes "distinct (map key rs)"
  shows "fold (\<lambda>r m. m(key r \<mapsto> val r)) rs m k =
    (case List.find (\<lambda>r. key r = k) rs of None \<Rightarrow> m k | Some r \<Rightarrow> Some (val r))"
  using assms
proof (induction rs arbitrary: m)
  case (Cons r rs)
  have "key r = k \<Longrightarrow> List.find (\<lambda>r. key r = k) rs = None"
    using Cons.prems by (simp add: find_None_iff_all) (metis imageI)
  then show ?case using Cons by (auto split: option.splits)
qed simp

lemma get_all_is_cache_map: "db_wf db \<Longrightarrow> get_all_cache_values None db = Inr (cache_map db)"
  by (auto simp: get_all_cache_values_def cache_map_def fun_eq_iff db_wf_def
      fold_map_upd_distinct split: option.splits)

lemma get_cache_is_cache_map:
  "get_cache_value None k db = Inr (case cache_map db k of None \<Rightarrow> [] | Some v \<Rightarrow> v)"
  by (auto simp: get_cache_value_def cache_map_def split: option.splits)

section \<open>The interface of ORDER BY ... DESC\<close>

locale desc_order =
  fixes key :: "'a \<Rightarrow> int" and order :: "'a list \<Rightarrow> 'a list"
  assumes order_mset: "mset (order xs) = mset xs"
    and order_desc: "sorted_wrt (\<lambda>a b. key b \<le> key a) (order xs)"
begin

lemma order_set: "set (order xs) = set xs"
  using order_mset [of xs] by (metis set_mset_mset)

lemma order_length: "length (order xs) = length xs"
  using order_mset [of xs] by (metis size_mset)

lemma limit_length: "0 \<le> n \<Longrightarrow> int (length (sql_limit n (order xs))) = min n (int (length xs))"
  by (auto simp: sql_limit_def order_length)

lemma limit_mset: "mset (sql_limit n (order xs)) \<subseteq># mset xs"
proof -
  have "mset (sql_limit n (order xs)) \<subseteq># mset (order xs)"
    unfolding sql_limit_def by (simp add: mset_subset_eq_exists_conv)
      (metis append_take_drop_id mset_append)
  then show ?thesis by (simp add: order_mset)
qed

lemma limit_desc: "sorted_wrt (\<lambda>a b. key b \<le> key a) (sql_limit n (order xs))"
  using order_desc [of xs] by (simp add: sql_limit_def sorted_wrt_take)

text \<open>What the limit cuts off is no newer than what it keeps.\<close>

lemma limit_newest:
  assumes "a \<in># mset (sql_limit n (order xs))"
    and "b \<in># mset xs - mset (sql_limit n (order xs))"
  shows "key b \<le> key a"
proof (cases "n < 0")
  case True
  then show ?thesis using assms by (simp add: sql_limit_def order_mset)
next
  case False
  have split: "order xs = take (nat n) (order xs) @ drop (nat n) (order xs)" by simp
  have "mset xs - mset (take (nat n) (order xs)) = mset (drop (nat n) (order xs))"
    using order_mset [of xs] split by (metis add_diff_cancel_left' mset_append)
  with assms False have "a \<in> set (take (nat n) (order xs))" "b \<in> set (drop (nat n) (order xs))"
    by (auto simp: sql_limit_def)
  moreover have "sorted_wrt (\<lambda>a b. key b \<le> key a)
      (take (nat n) (order xs) @ drop (nat n) (order xs))"
    using order_desc [of xs] by simp
  ultimately show ?thesis unfolding sorted_wrt_append by blast
qed

end

text \<open>A concrete order: newest first, rows of equal key in reverse row order.\<close>

definition newest_first :: "job_record list \<Rightarrow> job_record list" where
  "newest_first js = rev (sort_key jr_started js)"

interpretation newest: desc_order jr_started newest_first
proof
  fix xs
  show "mset (newest_first xs) = mset xs" by (simp add: newest_first_def)
  have "sorted_wrt (\<lambda>a b. jr_started a \<le> jr_started b) (sort_key jr_started xs)"
    using sorted_sort_key [of jr_started xs] by (simp add: sorted_map)
  then show "sorted_wrt (\<lambda>a b. jr_started b \<le> jr_started a) (newest_first xs)"
    by (simp add: newest_first_def sorted_wrt_rev)
qed

section \<open>What the history promises\<close>

text \<open>\<open>op_keeps i t oper\<close>: the statement does not complete row \<open>i\<close> and, if it prunes, its
  cutoff is not after \<open>t\<close>.\<close>

fun op_keeps :: "int \<Rightarrow> int \<Rightarrow> db_op \<Rightarrow> bool" where
  "op_keeps i t (OpComplete _ _ k _ _ _) = (k \<noteq> i)"
| "op_keeps i t (OpPrune _ now r) = (db_time (now - r) \<le> t)"
| "op_keeps i t _ = True"

lemma prune_round_jobs:
  "job_map (prune_round drv now r db) = job_map (snd (prune_older_than (fst drv) now r db))"
  by (simp add: prune_round_def case_prod_beta prune_telemetry_queue_def Let_def job_map_def
      split: option.splits)

lemma seq_step: "db_seq db \<le> db_seq (db_step oper db)"
  by (cases oper)
    (auto simp: insert_job_def complete_job_def prune_round_def prune_older_than_def
      prune_telemetry_queue_def set_cache_value_def Let_def split: option.splits)

lemma seq_steps: "db_seq db \<le> db_seq (fold db_step ops db)"
proof (induction ops arbitrary: db)
  case (Cons oper ops)
  show ?case using order_trans [OF seq_step [of db oper] Cons.IH [of "db_step oper db"]] by simp
qed simp

lemma job_map_step:
  assumes "db_wf db" and "job_map db i = Some j" and "op_keeps i (jr_started j) oper"
  shows "job_map (db_step oper db) i = Some j"
proof (cases oper)
  case (OpInsert drv now jt trig)
  then show ?thesis using assms job_map_fresh [OF assms(1)]
    by (cases drv) (auto simp: job_map_insert, simp add: insert_job_def)
next
  case (OpComplete drv now k code st out)
  then show ?thesis using assms
    by (cases drv) (auto simp: job_map_complete, simp add: complete_job_def)
next
  case (OpPrune drv now r)
  then show ?thesis using assms
    by (cases "fst drv")
      (auto simp: prune_round_jobs job_map_prune, simp add: prune_older_than_def Let_def)
next
  case (OpSetCache drv now k v)
  then show ?thesis using assms
    by (auto simp: set_cache_value_def job_map_def split: option.splits)
qed

lemma job_map_steps:
  assumes "db_wf db" and "job_map db i = Some j" and "\<forall>oper \<in> set ops. op_keeps i (jr_started j) oper"
  shows "job_map (fold db_step ops db) i = Some j"
  using assms by (induction ops arbitrary: db) (simp_all add: job_map_step db_wf_step)

lemma insert_job_id: "insert_job drv now jt trig db = (Inr i, db1) \<Longrightarrow>
    drv = None \<and> i = db_seq db + 1 \<and> db_seq db1 = i \<and> db1 = snd (insert_job None now jt trig db)"
  by (auto simp: insert_job_def Let_def split: option.splits)

text \<open>Row ids identify a job for good: the id InsertJob returns belonged to no row before,
  and after any further statements, pruning included, a later InsertJob returns a larger
  one.\<close>

lemma job_ids_never_reused:
  assumes "db_wf db" and "insert_job drv now jt trig db = (Inr i, db1)"
    and "insert_job drv' now' jt' trig' (fold db_step ops db1) = (Inr k, db2)"
  shows "get_job_by_id None i db = Inr None \<and> i < k"
proof -
  have i: "i = db_seq db + 1" "db_seq db1 = i" using insert_job_id [OF assms(2)] by auto
  have "k = db_seq (fold db_step ops db1) + 1" using insert_job_id [OF assms(3)] by auto
  then have "i < k" using seq_steps [of db1 ops] i by simp
  moreover have "job_map db i = None" using job_map_fresh assms(1) i by simp
  ultimately show ?thesis by (simp add: get_job_by_id_def job_map_def)
qed



text \<open>RecentJobs returns the newest rows: whatever order SQLite gives rows of equal
  start time, the result is \<open>min limit rows\<close> long, holds rows of the table only, each at
  most once, newest first, and no row left out is newer than one returned.\<close>

lemma recent_jobs_newest:
  assumes "\<And>js. mset (order js) = mset js"
    and "\<And>js. sorted_wrt (\<lambda>a b. jr_started b \<le> jr_started a) (order js)"
    and "recent_jobs order drv n db = Inr js" and "0 \<le> n"
  shows "int (length js) = min n (int (length (db_jobs db)))
    \<and> mset js \<subseteq># mset (db_jobs db)
    \<and> sorted_wrt (\<lambda>a b. jr_started b \<le> jr_started a) js
    \<and> (\<forall>a \<in># mset js. \<forall>b \<in># mset (db_jobs db) - mset js. jr_started b \<le> jr_started a)"
proof -
  have desc: "desc_order jr_started order" using assms(1,2) by unfold_locales
  have js: "js = sql_limit n (order (db_jobs db))"
    using assms(3) by (auto simp: recent_jobs_def split: option.splits)
  show ?thesis unfolding js
    using desc_order.limit_length [OF desc assms(4)] desc_order.limit_mset [OF desc]
      desc_order.limit_desc [OF desc] desc_order.limit_newest [OF desc] by blast
qed

text \<open>The cache is a map: SetCacheValue is the update of one key, GetCacheValue reads it
  (the empty string for a key never set) and GetAllCacheValues returns the whole map, after
  any sequence of statements on an empty database.\<close>

lemma cache_refines_map:
  shows "cache_map (snd (set_cache_value None now k v (fold db_step ops empty_db))) =
      (cache_map (fold db_step ops empty_db))(k \<mapsto> v)
    \<and> get_all_cache_values None (fold db_step ops empty_db) =
      Inr (cache_map (fold db_step ops empty_db))
    \<and> get_cache_value None k' (fold db_step ops empty_db) =
      Inr (case cache_map (fold db_step ops empty_db) k' of None \<Rightarrow> [] | Some w \<Rightarrow> w)"
  using db_wf_steps [OF db_wf_empty] by (simp add: cache_map_set get_all_is_cache_map get_cache_is_cache_map)

end
