(* ===== verification/SnapPipeline.thy ===== *)
theory SnapPipeline
  imports SnapGates SnapSummary SnapDb
begin

text \<open>
  The maintenance pipeline, \<^verbatim>\<open>snapraid/internal/scheduler/pipeline.go\<close>, with
  \<^verbatim>\<open>hooks.go\<close>, \<^verbatim>\<open>docker.go\<close>. The state of a run is the trace of
  its effects (events sent to the emitter and the tracker, commands given to the engine, hooks,
  docker commands, statements on the job history) and the database. What the outside answers
  (the engine's process, the shell, the driver, the clock, the files of gate 0) may depend on
  everything that has happened: the environment is a record of functions of the trace.

  The agent's manual commands (theory \<open>SnapAgent\<close>) add four more effects, on the collector.

  Docker's answers are only logged, so they are not part of it. The values a progress drain hands
  to the tracker during a streaming command are what the environment lists for it.
\<close>

section \<open>Effects and environment\<close>

datatype event =
    EvEmit string string string
  | EvTrack string string string
  | EvProgress int
  | EvClear
  | EvRun "string list"
  | EvHook string string
  | EvDocker string string
  | EvInsert string string
  | EvComplete int int string string
  | EvLogLine string string string
  | EvArrayStatus status_report
  | EvSmartStatus smart_report
  | EvDiffStatus diff_report

type_synonym trace = "event list"

record penv =
  pe_exec :: "trace \<Rightarrow> string list \<Rightarrow> engine_error + command_result"
  pe_progress :: "trace \<Rightarrow> int list"
  pe_insert :: "trace \<Rightarrow> string option"
  pe_complete :: "trace \<Rightarrow> string option"
  pe_hook :: "trace \<Rightarrow> string \<Rightarrow> (string \<times> string) option"
  pe_now :: "trace \<Rightarrow> int"
  pe_conf :: "trace \<Rightarrow> string + string"
  pe_stat :: "trace \<Rightarrow> string \<Rightarrow> string + int"
  pe_oor :: "float64 \<Rightarrow> int"

record pipeline =
  p_cfg :: agent_config
  p_emitter :: bool
  p_tracker :: bool

record pstate =
  ps_trace :: trace
  ps_db :: database

definition log_event :: "event \<Rightarrow> pstate \<Rightarrow> pstate" where
  "log_event e s = s\<lparr>ps_trace := ps_trace s @ [e]\<rparr>"

definition emit :: "pipeline \<Rightarrow> string \<Rightarrow> string \<Rightarrow> string \<Rightarrow> pstate \<Rightarrow> pstate" where
  "emit p ty sev msg s = (if p_emitter p then log_event (EvEmit ty sev msg) s else s)"

section \<open>Statements on the history\<close>

definition db_insert :: "penv \<Rightarrow> string \<Rightarrow> string \<Rightarrow> pstate \<Rightarrow> (string + int) \<times> pstate" where
  "db_insert env jt trig s =
     (let s1 = log_event (EvInsert jt trig) s; tr = ps_trace s1;
          (r, db) = insert_job (pe_insert env tr) (pe_now env tr) jt trig (ps_db s1)
      in (r, s1\<lparr>ps_db := db\<rparr>))"

definition db_complete :: "penv \<Rightarrow> int \<Rightarrow> int \<Rightarrow> string \<Rightarrow> string \<Rightarrow> pstate \<Rightarrow> pstate" where
  "db_complete env i code st out s =
     (let s1 = log_event (EvComplete i code st out) s; tr = ps_trace s1;
          (_, db) = complete_job (pe_complete env tr) (pe_now env tr) i code st out (ps_db s1)
      in s1\<lparr>ps_db := db\<rparr>)"

section \<open>Hooks and containers (hooks.go, docker.go)\<close>

definition run_hook :: "penv \<Rightarrow> string \<Rightarrow> string \<Rightarrow> pstate \<Rightarrow> string option \<times> pstate" where
  "run_hook env name command s =
     (if command = [] then (None, s)
      else let s1 = log_event (EvHook name command) s
           in case pe_hook env (ps_trace s1) command of
                Some (err, out) \<Rightarrow>
                  (Some (''hook '' @ name @ '' failed: '' @ err @ '' (output: '' @ out @ '')''), s1)
              | None \<Rightarrow> (None, s1))"

definition docker_batch :: "string \<Rightarrow> string list \<Rightarrow> pstate \<Rightarrow> pstate" where
  "docker_batch action names s = fold (\<lambda>n. log_event (EvDocker action n)) names s"

definition restore_containers :: "string list \<Rightarrow> string list \<Rightarrow> pstate \<Rightarrow> pstate" where
  "restore_containers pause stop s =
     docker_batch ''start'' stop (docker_batch ''unpause'' pause s)"

definition manage_containers :: "pipeline \<Rightarrow> pstate \<Rightarrow> (pstate \<Rightarrow> pstate) option \<times> pstate" where
  "manage_containers p s =
     (let pause = dk_pause_containers (ac_docker (p_cfg p));
          stop = dk_stop_containers (ac_docker (p_cfg p))
      in if pause = [] \<and> stop = [] then (None, s)
         else (Some (restore_containers pause stop),
               docker_batch ''stop'' stop (docker_batch ''pause'' pause s)))"

section \<open>One step (runStep)\<close>

text \<open>What a step's closure does: one engine command with its arguments, whose report becomes an
  exit code, an output and what the closure assigns outside; a streaming command reports its
  progress to the tracker meanwhile.\<close>

definition call_engine :: "penv \<Rightarrow> pipeline \<Rightarrow> string list \<Rightarrow> bool \<Rightarrow>
    (runner \<Rightarrow> op_error + (int \<times> string \<times> 'r)) \<Rightarrow> pstate \<Rightarrow>
    (op_error + (int \<times> string \<times> 'r)) \<times> pstate" where
  "call_engine env p args streams decode s =
     (let s1 = log_event (EvRun args) s; tr = ps_trace s1;
          s2 = (if streams \<and> p_tracker p
                then fold (\<lambda>pct. log_event (EvProgress pct)) (pe_progress env tr) s1 else s1)
      in (decode (pe_exec env tr), s2))"

text \<open>UTF-8 forms of the signs in the messages.\<close>

definition sign_play :: string where
  "sign_play = [CHR 0xE2, CHR 0x96, CHR 0xB6, CHR 0xEF, CHR 0xB8, CHR 0x8F, CHR '' '']"

definition sign_warn :: string where
  "sign_warn = [CHR 0xE2, CHR 0x9A, CHR 0xA0, CHR 0xEF, CHR 0xB8, CHR 0x8F, CHR '' '']"

definition sign_ok :: string where
  "sign_ok = [CHR 0xE2, CHR 0x9C, CHR 0x85, CHR '' '']"

definition sign_red :: string where
  "sign_red = [CHR 0xF0, CHR 0x9F, CHR 0x94, CHR 0xB4, CHR '' '']"

definition sign_cycle :: string where
  "sign_cycle = [CHR 0xF0, CHR 0x9F, CHR 0x94, CHR 0x84, CHR '' '']"

definition with_summary :: "string \<Rightarrow> string \<Rightarrow> string" where
  "with_summary msg summary = (if summary \<noteq> [] then msg @ nl @ nl @ summary else msg)"

text \<open>The part of \<open>runStep\<close> before the closure runs.\<close>

definition step_begin :: "penv \<Rightarrow> pipeline \<Rightarrow> string \<Rightarrow> string \<Rightarrow> pstate \<Rightarrow> int \<times> pstate" where
  "step_begin env p jt trig s =
     (let s1 = (if p_tracker p then log_event (EvTrack jt trig ''running'') s else s)
      in case db_insert env jt trig s1 of
           (Inl _, s2) \<Rightarrow> (0, s2)
         | (Inr i, s2) \<Rightarrow> (i, s2))"

definition exit_status :: "int \<Rightarrow> string" where
  "exit_status code = (if code = 0 then ''success'' else if code = 2 then ''warning'' else ''error'')"

text \<open>The part after it, when the closure failed and when it returned.\<close>

definition step_failed :: "penv \<Rightarrow> pipeline \<Rightarrow> string \<Rightarrow> string \<Rightarrow> int \<Rightarrow> op_error \<Rightarrow> pstate \<Rightarrow> pstate" where
  "step_failed env p jt trig jid err s =
     (let st = (if gr_passed (check_lock err) then ''error'' else ''aborted'');
          s1 = (if jid > 0 then db_complete env jid (- 1) st (op_error_text err) s else s)
      in if trig \<noteq> ''pre-flight''
         then emit p ''job_failed'' ''critical''
                (with_summary (sign_red @ ''SnapRAID '' @ jt @ '' ('' @ trig @ '') failed: '' @
                               op_error_text err) (format_command_summary jt [])) s1
         else s1)"

definition step_returned :: "penv \<Rightarrow> pipeline \<Rightarrow> string \<Rightarrow> string \<Rightarrow> int \<Rightarrow> int \<Rightarrow> string \<Rightarrow> pstate \<Rightarrow>
    bool \<times> pstate" where
  "step_returned env p jt trig jid code out s =
     (let st = exit_status code;
          s1 = (if jid > 0 then db_complete env jid code st out s else s);
          summary = format_command_summary jt out
      in if st = ''error''
         then (False,
               if trig \<noteq> ''pre-flight''
               then emit p ''job_failed'' ''critical''
                      (with_summary (sign_red @ ''SnapRAID '' @ jt @ '' ('' @ trig @
                                     '') failed: exit code '' @ itoa code) summary) s1
               else s1)
         else (True,
               emit p ''job_complete'' ''info''
                 (with_summary (sign_ok @ ''SnapRAID '' @ jt @ '' ('' @ trig @ '') completed'') summary)
                 s1))"

definition run_step :: "penv \<Rightarrow> pipeline \<Rightarrow> string \<Rightarrow> string \<Rightarrow> string list \<Rightarrow> bool \<Rightarrow>
    (runner \<Rightarrow> op_error + (int \<times> string \<times> 'r)) \<Rightarrow> pstate \<Rightarrow> bool \<times> 'r option \<times> pstate" where
  "run_step env p jt trig args streams decode s =
     (let (jid, s1) = step_begin env p jt trig s;
          (res, s2) = call_engine env p args streams decode s1;
          clear = (\<lambda>s. if p_tracker p then log_event EvClear s else s)
      in case res of
           Inl err \<Rightarrow> (False, None, clear (step_failed env p jt trig jid err s2))
         | Inr (code, out, r) \<Rightarrow>
             let s3 = (if p_tracker p then log_event (EvProgress 100) s2 else s2);
                 (ok, s4) = step_returned env p jt trig jid code out s3
             in (ok, Some r, clear s4))"

section \<open>The closures\<close>

definition op_result :: "op_error + op_report \<Rightarrow> op_error + (int \<times> string \<times> int)" where
  "op_result r = (case r of Inl e \<Rightarrow> Inl e
     | Inr rep \<Rightarrow> Inr (op_exit_code rep, op_output rep, op_exit_code rep))"

definition diff_result :: "op_error + diff_report \<Rightarrow> op_error + (int \<times> string \<times> diff_report)" where
  "diff_result r = (case r of Inl e \<Rightarrow> Inl e | Inr rep \<Rightarrow> Inr (0, df_output rep, rep))"

definition smart_result :: "op_error + smart_report \<Rightarrow> op_error + (int \<times> string \<times> smart_report)" where
  "smart_result r = (case r of Inl e \<Rightarrow> Inl e | Inr rep \<Rightarrow> Inr (0, ''smart check completed'', rep))"

definition status_result :: "op_error + status_report \<Rightarrow> op_error + (int \<times> string \<times> unit)" where
  "status_result r = (case r of Inl e \<Rightarrow> Inl e | Inr rep \<Rightarrow> Inr (0, st_output rep, ()))"

definition pipeline_sync_options :: "pipeline \<Rightarrow> sync_options" where
  "pipeline_sync_options p = \<lparr>so_pre_hash = ac_sync_pre_hash (p_cfg p), so_force_zero = False,
     so_force_empty = False, so_force_full = False\<rparr>"

definition pipeline_scrub_options :: "pipeline \<Rightarrow> scrub_options" where
  "pipeline_scrub_options p = \<lparr>sco_plan = scr_plan (ac_scrub (p_cfg p)),
     sco_older_than_days = scr_older_than_days (ac_scrub (p_cfg p))\<rparr>"

definition auto_fix_options :: fix_options where
  "auto_fix_options = \<lparr>fo_bad_blocks_only = True, fo_disk = [], fo_filter = []\<rparr>"

definition touch_step :: "penv \<Rightarrow> pipeline \<Rightarrow> pstate \<Rightarrow> bool \<times> int option \<times> pstate" where
  "touch_step env p = run_step env p ''touch'' ''maintenance'' [''touch''] False
     (\<lambda>run. op_result (engine_touch run))"

definition diff_step :: "penv \<Rightarrow> pipeline \<Rightarrow> pstate \<Rightarrow> bool \<times> diff_report option \<times> pstate" where
  "diff_step env p = run_step env p ''diff'' ''pre-flight'' [''diff''] False
     (\<lambda>run. diff_result (engine_diff run))"

definition smart_step :: "penv \<Rightarrow> pipeline \<Rightarrow> pstate \<Rightarrow> bool \<times> smart_report option \<times> pstate" where
  "smart_step env p = run_step env p ''smart'' ''pre-flight'' [''smart'', ''-v''] False
     (\<lambda>run. smart_result (engine_smart (pe_oor env) run))"

definition sync_step :: "penv \<Rightarrow> pipeline \<Rightarrow> pstate \<Rightarrow> bool \<times> int option \<times> pstate" where
  "sync_step env p = run_step env p ''sync'' ''maintenance'' (sync_args (pipeline_sync_options p)) True
     (\<lambda>run. op_result (engine_sync run (pipeline_sync_options p)))"

definition scrub_step :: "penv \<Rightarrow> pipeline \<Rightarrow> string \<Rightarrow> pstate \<Rightarrow> bool \<times> int option \<times> pstate" where
  "scrub_step env p trig = run_step env p ''scrub'' trig (scrub_args (pipeline_scrub_options p)) True
     (\<lambda>run. op_result (engine_scrub run (pipeline_scrub_options p)))"

definition fix_step :: "penv \<Rightarrow> pipeline \<Rightarrow> pstate \<Rightarrow> bool \<times> int option \<times> pstate" where
  "fix_step env p = run_step env p ''fix'' ''auto-fix'' (fix_args auto_fix_options) True
     (\<lambda>run. op_result (engine_fix run auto_fix_options))"

section \<open>The pipelines\<close>

definition record_gate_failure :: "penv \<Rightarrow> string \<Rightarrow> string \<Rightarrow> pstate \<Rightarrow> pstate" where
  "record_gate_failure env gate reason s =
     (case db_insert env gate ''pre-flight'' s of
        (Inl _, s1) \<Rightarrow> s1
      | (Inr i, s1) \<Rightarrow> db_complete env i (- 1) ''aborted'' reason s1)"

definition fetch_status_summary :: "penv \<Rightarrow> pstate \<Rightarrow> string \<times> pstate" where
  "fetch_status_summary env s =
     (let s1 = log_event (EvRun [''status'']) s; tr = ps_trace s1
      in case engine_status (pe_now env tr) (pe_exec env tr) of
           Inl _ \<Rightarrow> ([], s1)
         | Inr rep \<Rightarrow> (format_status_summary (pe_now env tr) rep, s1))"

definition abort_with_status :: "penv \<Rightarrow> pipeline \<Rightarrow> string \<Rightarrow> string \<Rightarrow> pstate \<Rightarrow> pstate" where
  "abort_with_status env p gate reason s =
     (let s1 = record_gate_failure env gate reason s;
          (summary, s2) = fetch_status_summary env s1;
          msg = sign_warn @ ''Maintenance aborted: '' @ reason
      in emit p ''gate_failed'' ''warning''
           (if summary \<noteq> []
            then msg @ nl @ nl @ truncate_for_notification summary max_notification_bytes
            else msg) s2)"

text \<open>\<open>RunMaintenance\<close> up to the pre-sync hook: the result is whether the sync may run.\<close>

definition preflight :: "penv \<Rightarrow> pipeline \<Rightarrow> pstate \<Rightarrow> bool \<times> pstate" where
  "preflight env p s0 =
     (let s1 = emit p ''maintenance_started'' ''info'' (sign_play @ ''Maintenance pipeline started'') s0;
          g0 = check_config_files (pe_conf env (ps_trace s1)) (pe_stat env (ps_trace s1))
      in if \<not> gr_passed g0 then (False, abort_with_status env p ''config_files_gate'' (gr_reason g0) s1)
      else case touch_step env p s1 of (touch_ok, _, s2) \<Rightarrow>
      if \<not> touch_ok then (False, s2)
      else case diff_step env p s2 of
        (True, Some dr, s3) \<Rightarrow>
          (case smart_step env p s3 of
             (True, Some sr, s4) \<Rightarrow>
               (let g1 = check_smart sr (ac_thresholds (p_cfg p));
                    g2 = check_diff_thresholds dr (ac_thresholds (p_cfg p))
                in if \<not> gr_passed g1 then (False, abort_with_status env p ''smart_gate'' (gr_reason g1) s4)
                   else if \<not> gr_passed g2 then (False, abort_with_status env p ''diff_gate'' (gr_reason g2) s4)
                   else case run_hook env ''pre_sync'' (hk_pre_sync (ac_hooks (p_cfg p))) s4 of
                     (Some e, s5) \<Rightarrow>
                       (False, emit p ''gate_failed'' ''warning''
                                 (sign_warn @ ''Pre-sync hook failed: '' @ e)
                                 (record_gate_failure env ''pre_sync_hook'' e s5))
                   | (None, s5) \<Rightarrow> (True, s5))
           | (_, _, s4) \<Rightarrow> (False, s4))
      | (_, _, s3) \<Rightarrow> (False, s3))"

text \<open>Containers, sync, containers again, post-sync hook.\<close>

definition sync_phase :: "penv \<Rightarrow> pipeline \<Rightarrow> pstate \<Rightarrow> bool \<times> pstate" where
  "sync_phase env p s5 =
     (let (restored, s6) = manage_containers p s5;
          (sync_ok, _, s7) = sync_step env p s6;
          s8 = (case restored of Some f \<Rightarrow> f s7 | None \<Rightarrow> s7);
          (_, s9) = run_hook env ''post_sync'' (hk_post_sync (ac_hooks (p_cfg p))) s8
      in (sync_ok, s9))"

text \<open>Scrub, and fix when the scrub's exit code was 2 and the configuration asks for it.\<close>

definition scrub_and_fix :: "penv \<Rightarrow> pipeline \<Rightarrow> string \<Rightarrow> pstate \<Rightarrow> pstate" where
  "scrub_and_fix env p trig s =
     (let (_, code, s1) = scrub_step env p trig s
      in if scr_auto_fix_bad_blocks (ac_scrub (p_cfg p)) \<and> code = Some 2
         then snd (snd (fix_step env p s1)) else s1)"

definition run_maintenance :: "penv \<Rightarrow> pipeline \<Rightarrow> pstate \<Rightarrow> pstate" where
  "run_maintenance env p s0 =
     (case preflight env p s0 of
        (False, s) \<Rightarrow> s
      | (True, s5) \<Rightarrow>
          (case sync_phase env p s5 of
             (False, s9) \<Rightarrow> s9
           | (True, s9) \<Rightarrow>
               let s10 = scrub_and_fix env p ''maintenance'' s9;
                   (summary, s11) = fetch_status_summary env s10
               in emit p ''maintenance_complete'' ''info''
                    (with_summary (sign_ok @ ''Maintenance pipeline completed successfully'') summary)
                    s11))"

definition run_scrub_only :: "penv \<Rightarrow> pipeline \<Rightarrow> pstate \<Rightarrow> pstate" where
  "run_scrub_only env p s =
     (let s1 = emit p ''scrub_started'' ''info'' (sign_play @ ''Standalone scrub started'') s
      in emit p ''scrub_complete'' ''info'' (sign_ok @ ''Standalone scrub completed'')
           (scrub_and_fix env p ''scheduled'' s1))"

definition run_status_refresh :: "penv \<Rightarrow> pipeline \<Rightarrow> pstate \<Rightarrow> pstate" where
  "run_status_refresh env p s =
     (let (_, _, s1) = run_step env p ''status'' ''scheduled'' [''status''] False
            (\<lambda>run. status_result (engine_status (pe_now env (ps_trace s)) run)) s
      in emit p ''status_refresh_complete'' ''info'' (sign_cycle @ ''Status refresh completed'') s1)"

section \<open>What an operation adds to the trace\<close>

fun is_run :: "event \<Rightarrow> bool" where
  "is_run (EvRun _) = True" | "is_run _ = False"

fun is_sync :: "event \<Rightarrow> bool" where
  "is_sync (EvRun (c # _)) = (c = ''sync'')" | "is_sync _ = False"

fun is_docker :: "event \<Rightarrow> bool" where
  "is_docker (EvDocker _ _) = True" | "is_docker _ = False"

fun is_job :: "event \<Rightarrow> bool" where
  "is_job (EvTrack _ _ _) = True" | "is_job EvClear = True" | "is_job _ = False"

text \<open>\<open>grows P es s s'\<close>: the run went on from \<open>s\<close> to \<open>s'\<close>, adding the events \<open>es\<close> as far as
  they satisfy \<open>P\<close>.\<close>

definition grows :: "(event \<Rightarrow> bool) \<Rightarrow> event list \<Rightarrow> pstate \<Rightarrow> pstate \<Rightarrow> bool" where
  "grows P es s s' \<longleftrightarrow> (\<exists>new. ps_trace s' = ps_trace s @ new \<and> filter P new = es)"

text \<open>A filter that looks at commands, docker, the tracker's jobs and hooks only.\<close>

definition quiet :: "(event \<Rightarrow> bool) \<Rightarrow> bool" where
  "quiet P \<longleftrightarrow> (\<forall>a b c. \<not> P (EvEmit a b c)) \<and> (\<forall>n. \<not> P (EvProgress n)) \<and>
     (\<forall>a b. \<not> P (EvInsert a b)) \<and> (\<forall>i n a b. \<not> P (EvComplete i n a b)) \<and> (\<forall>n c. \<not> P (EvHook n c))"

lemma quiet_filters [simp]: "quiet is_run" "quiet is_sync" "quiet is_docker" "quiet is_job"
  by (simp_all add: quiet_def)

lemma quietD:
  assumes "quiet P"
  shows "\<not> P (EvEmit a b c)" "\<not> P (EvProgress n)" "\<not> P (EvInsert a b)"
    "\<not> P (EvComplete i n a b)" "\<not> P (EvHook a b)"
  using assms by (simp_all add: quiet_def)

named_theorems grow

lemma grows_refl: "grows P [] s s"
  by (simp add: grows_def)

lemma grows_trans: "grows P es s s' \<Longrightarrow> grows P fs s' s'' \<Longrightarrow> grows P (es @ fs) s s''"
  by (auto simp: grows_def)

lemma grows_quiet_trans: "grows P es s s' \<Longrightarrow> grows P [] s' s'' \<Longrightarrow> grows P es s s''"
  using grows_trans by fastforce

lemma grows_then: "grows P [] s s' \<Longrightarrow> grows P es s' s'' \<Longrightarrow> grows P es s s''"
  using grows_trans by fastforce

lemma grows_log: "grows P (if P e then [e] else []) s (log_event e s)"
  by (simp add: grows_def log_event_def)

lemma grows_db [simp]: "grows P es s (s'\<lparr>ps_db := db\<rparr>) \<longleftrightarrow> grows P es s s'"
  by (simp add: grows_def)

lemma grows_logs: "grows P (filter P (map f xs)) s (fold (\<lambda>x. log_event (f x)) xs s)"
proof (induction xs arbitrary: s)
  case (Cons x xs)
  show ?case using grows_trans [OF grows_log [of P "f x" s] Cons.IH [of "log_event (f x) s"]]
    by (cases "P (f x)") simp_all
qed (simp add: grows_refl)

lemma grows_emit [grow]: "quiet P \<Longrightarrow> grows P [] s (emit p a b c s)"
  using grows_log [of P "EvEmit a b c" s] by (simp add: emit_def grows_refl quietD)

lemma grows_insert [grow]: "quiet P \<Longrightarrow> grows P [] s (snd (db_insert env jt trig s))"
  using grows_log [of P "EvInsert jt trig" s] by (simp add: db_insert_def Let_def case_prod_beta quietD)

lemma grows_complete [grow]: "quiet P \<Longrightarrow> grows P [] s (db_complete env i code st out s)"
  using grows_log [of P "EvComplete i code st out" s]
  by (simp add: db_complete_def Let_def case_prod_beta quietD)

lemma grows_hook [grow]: "quiet P \<Longrightarrow> grows P [] s (snd (run_hook env name c s))"
  using grows_log [of P "EvHook name c" s]
  by (auto simp: run_hook_def Let_def quietD grows_refl split: option.splits)

lemma grows_docker_batch: "grows P (filter P (map (EvDocker a) names)) s (docker_batch a names s)"
  using grows_logs [of P "EvDocker a" names s] by (simp add: docker_batch_def)

lemma grows_step_failed: "quiet P \<Longrightarrow> grows P [] s (step_failed env p jt trig jid err s)"
  unfolding step_failed_def Let_def
  by (auto intro: grows_emit grows_complete grows_refl grows_then)

lemma grows_step_returned: "quiet P \<Longrightarrow> grows P [] s (snd (step_returned env p jt trig jid code out s))"
  unfolding step_returned_def Let_def
  by (auto intro: grows_emit grows_complete grows_refl grows_then)

definition tracked :: "pipeline \<Rightarrow> event \<Rightarrow> event list" where
  "tracked p e = (if p_tracker p then [e] else [])"

lemma grows_tracked: "grows P (filter P (tracked p e)) s (if p_tracker p then log_event e s else s)"
  using grows_log [of P e s] by (auto simp: tracked_def grows_refl)

lemma grows_step_begin:
  "quiet P \<Longrightarrow> grows P (filter P (tracked p (EvTrack jt trig ''running''))) s
     (snd (step_begin env p jt trig s))"
  using grows_quiet_trans [OF grows_tracked [of P p "EvTrack jt trig ''running''" s] grows_insert]
  by (auto simp: step_begin_def Let_def split: sum.splits prod.splits) (metis snd_conv)+

lemma grows_call_engine:
  assumes "quiet P"
  shows "grows P (filter P [EvRun args]) s (snd (call_engine env p args streams decode s))"
proof -
  have 1: "grows P (filter P [EvRun args]) s (log_event (EvRun args) s)"
    using grows_log [of P "EvRun args" s] by (cases "P (EvRun args)") simp_all
  moreover have "grows P [] s' (fold (\<lambda>pct. log_event (EvProgress pct)) ns s')" for ns s'
    using grows_logs [of P EvProgress ns s'] quietD [OF assms] by (simp add: filter_empty_conv)
  ultimately show ?thesis
    by (simp add: call_engine_def Let_def grows_quiet_trans)
qed

text \<open>One step: it announces its job, runs its command, clears the job.\<close>

definition step_events :: "pipeline \<Rightarrow> string \<Rightarrow> string \<Rightarrow> string list \<Rightarrow> event list" where
  "step_events p jt trig args =
     tracked p (EvTrack jt trig ''running'') @ [EvRun args] @ tracked p EvClear"

definition step_state :: "bool \<times> 'r option \<times> pstate \<Rightarrow> pstate" where
  "step_state x = snd (snd x)"

lemma step_state_simp [simp]: "step_state (ok, r, s) = s"
  by (simp add: step_state_def)

lemma call_engine_result:
  "fst (call_engine env p args streams decode s) = decode (pe_exec env (ps_trace s @ [EvRun args]))"
  by (simp add: call_engine_def Let_def log_event_def)

lemma call_engine_progress:
  assumes "quiet P"
  shows "grows P [] (log_event (EvRun args) s) (snd (call_engine env p args streams decode s))"
proof -
  have "grows P [] s' (fold (\<lambda>pct. log_event (EvProgress pct)) ns s')" for ns s'
    using grows_logs [of P EvProgress ns s'] quietD [OF assms] by (simp add: filter_empty_conv)
  then show ?thesis by (simp add: call_engine_def Let_def grows_refl)
qed

text \<open>The end of a step: from the closure's result to the cleared job.\<close>

definition step_end :: "penv \<Rightarrow> pipeline \<Rightarrow> string \<Rightarrow> string \<Rightarrow> int \<Rightarrow>
    op_error + (int \<times> string \<times> 'r) \<Rightarrow> pstate \<Rightarrow> bool \<times> 'r option \<times> pstate" where
  "step_end env p jt trig jid res s2 =
     (let clear = (\<lambda>s. if p_tracker p then log_event EvClear s else s)
      in case res of
           Inl err \<Rightarrow> (False, None, clear (step_failed env p jt trig jid err s2))
         | Inr (code, out, r) \<Rightarrow>
             let s3 = (if p_tracker p then log_event (EvProgress 100) s2 else s2);
                 (ok, s4) = step_returned env p jt trig jid code out s3
             in (ok, Some r, clear s4))"

lemma run_step_end:
  "run_step env p jt trig args streams decode s =
     (let b = step_begin env p jt trig s; c = call_engine env p args streams decode (snd b)
      in step_end env p jt trig (fst b) (fst c) (snd c))"
  by (simp add: run_step_def step_end_def Let_def case_prod_beta)

lemma step_end_grows:
  assumes "quiet P"
  shows "grows P (filter P (tracked p EvClear)) s (step_state (step_end env p jt trig jid res s))"
proof (cases res)
  case (Inl err)
  then show ?thesis
    using grows_then [OF grows_step_failed [OF assms] grows_tracked [of P p EvClear]]
    by (simp add: step_end_def Let_def)
next
  case (Inr x)
  obtain code out r where x: "x = (code, out, r)" by (cases x)
  have 1: "grows P [] s (if p_tracker p then log_event (EvProgress 100) s else s)"
    using grows_log [of P "EvProgress 100" s] quietD [OF assms] by (simp add: grows_refl)
  show ?thesis
    using grows_then [OF grows_then [OF 1 grows_step_returned [OF assms]] grows_tracked [of P p EvClear]]
    by (simp add: Inr x step_end_def Let_def case_prod_beta)
qed

lemma exit_status_ok: "exit_status code \<noteq> ''error'' \<longleftrightarrow> code = 0 \<or> code = 2"
  by (simp add: exit_status_def)

lemma step_end_result:
  "fst (snd (step_end env p jt trig jid res s)) = (case res of Inl _ \<Rightarrow> None | Inr (_, _, r) \<Rightarrow> Some r)"
  "fst (step_end env p jt trig jid res s) \<longleftrightarrow>
     (case res of Inl _ \<Rightarrow> False | Inr (code, _, _) \<Rightarrow> code = 0 \<or> code = 2)"
  using exit_status_ok
  by (auto simp: step_end_def step_returned_def Let_def split: sum.splits prod.splits if_splits)

lemma run_step_shape:
  assumes "quiet P"
  shows "\<exists>t post. ps_trace (step_state (run_step env p jt trig args streams decode s)) =
      ps_trace s @ t @ EvRun args # post
    \<and> filter P t = filter P (tracked p (EvTrack jt trig ''running''))
    \<and> filter P post = filter P (tracked p EvClear)
    \<and> fst (snd (run_step env p jt trig args streams decode s)) =
        (case decode (pe_exec env ((ps_trace s @ t) @ [EvRun args])) of
           Inl _ \<Rightarrow> None | Inr (_, _, r) \<Rightarrow> Some r)
    \<and> (fst (run_step env p jt trig args streams decode s) \<longleftrightarrow>
        (case decode (pe_exec env ((ps_trace s @ t) @ [EvRun args])) of
           Inl _ \<Rightarrow> False | Inr (code, _, _) \<Rightarrow> code = 0 \<or> code = 2))"
proof -
  let ?b = "step_begin env p jt trig s"
  let ?c = "call_engine env p args streams decode (snd ?b)"
  let ?e = "step_end env p jt trig (fst ?b) (fst ?c) (snd ?c)"
  obtain t where t: "ps_trace (snd ?b) = ps_trace s @ t"
    "filter P t = filter P (tracked p (EvTrack jt trig ''running''))"
    using grows_step_begin [OF assms, of p jt trig s env] by (auto simp: grows_def)
  have "grows P (filter P (tracked p EvClear)) (log_event (EvRun args) (snd ?b)) (step_state ?e)"
    by (rule grows_then [OF call_engine_progress [OF assms] step_end_grows [OF assms]])
  then obtain post where post: "ps_trace (step_state ?e) = (ps_trace (snd ?b) @ [EvRun args]) @ post"
    "filter P post = filter P (tracked p EvClear)"
    by (auto simp: grows_def log_event_def)
  show ?thesis
    using t post step_end_result [of env p jt trig "fst ?b" "fst ?c" "snd ?c"]
    by (intro exI [of _ t] exI [of _ post]) (simp add: run_step_end Let_def call_engine_result)
qed

lemma run_step_grows:
  assumes "quiet P"
  shows "grows P (filter P (step_events p jt trig args)) s
    (step_state (run_step env p jt trig args streams decode s))"
  using run_step_shape [OF assms, of env p jt trig args streams decode s]
  by (auto simp: grows_def step_events_def)


section \<open>Relations kept by the pipelines\<close>

text \<open>The part of the preflight after the SMART step.\<close>

definition after_smart :: "penv \<Rightarrow> pipeline \<Rightarrow> diff_report \<Rightarrow> smart_report \<Rightarrow> pstate \<Rightarrow> bool \<times> pstate" where
  "after_smart env p dr sr s4 =
     (let g1 = check_smart sr (ac_thresholds (p_cfg p));
          g2 = check_diff_thresholds dr (ac_thresholds (p_cfg p))
      in if \<not> gr_passed g1 then (False, abort_with_status env p ''smart_gate'' (gr_reason g1) s4)
         else if \<not> gr_passed g2 then (False, abort_with_status env p ''diff_gate'' (gr_reason g2) s4)
         else case run_hook env ''pre_sync'' (hk_pre_sync (ac_hooks (p_cfg p))) s4 of
           (Some e, s5) \<Rightarrow>
             (False, emit p ''gate_failed'' ''warning'' (sign_warn @ ''Pre-sync hook failed: '' @ e)
                       (record_gate_failure env ''pre_sync_hook'' e s5))
         | (None, s5) \<Rightarrow> (True, s5))"

lemma preflight_eq:
  "preflight env p s0 =
     (let s1 = emit p ''maintenance_started'' ''info'' (sign_play @ ''Maintenance pipeline started'') s0;
          g0 = check_config_files (pe_conf env (ps_trace s1)) (pe_stat env (ps_trace s1))
      in if \<not> gr_passed g0 then (False, abort_with_status env p ''config_files_gate'' (gr_reason g0) s1)
      else case touch_step env p s1 of (touch_ok, _, s2) \<Rightarrow>
      if \<not> touch_ok then (False, s2)
      else case diff_step env p s2 of (diff_ok, dr, s3) \<Rightarrow>
      if \<not> diff_ok \<or> dr = None then (False, s3)
      else case smart_step env p s3 of (smart_ok, sr, s4) \<Rightarrow>
      if \<not> smart_ok \<or> sr = None then (False, s4)
      else after_smart env p (the dr) (the sr) s4)"
  unfolding preflight_def after_smart_def Let_def
  by (simp split: prod.splits option.splits bool.splits)

text \<open>The interface: a relation between the states before and after that every part a pipeline is
  made of, except the sync step and the containers, respects. The whole preflight and the
  scrub with its fix then respect it.\<close>

locale pipe_rel =
  fixes R :: "pstate \<Rightarrow> pstate \<Rightarrow> bool" and env :: penv and p :: pipeline
  assumes rel_refl: "R s s"
    and rel_trans: "R s s' \<Longrightarrow> R s' s'' \<Longrightarrow> R s s''"
    and rel_emit: "R s (emit p a b c s)"
    and rel_hook: "R s (snd (run_hook env name c s))"
    and rel_gate_failure: "R s (record_gate_failure env gate reason s)"
    and rel_fetch: "R s (snd (fetch_status_summary env s))"
    and rel_touch: "R s (step_state (touch_step env p s))"
    and rel_diff: "R s (step_state (diff_step env p s))"
    and rel_smart: "R s (step_state (smart_step env p s))"
    and rel_scrub: "R s (step_state (scrub_step env p trig s))"
    and rel_fix: "R s (step_state (fix_step env p s))"
begin

lemma rel_abort: "R s (abort_with_status env p gate reason s)"
proof -
  let ?s1 = "record_gate_failure env gate reason s"
  have "R s (snd (fetch_status_summary env ?s1))"
    by (rule rel_trans [OF rel_gate_failure rel_fetch])
  then show ?thesis
    unfolding abort_with_status_def Let_def case_prod_beta by (rule rel_trans [OF _ rel_emit])
qed

lemma rel_scrub_and_fix: "R s (scrub_and_fix env p trig s)"
proof (cases "scrub_step env p trig s")
  case (fields ok r s1)
  then have "R s s1" using rel_scrub [of s trig] by simp
  then show ?thesis using fields rel_trans [OF _ rel_fix]
    by (auto simp: scrub_and_fix_def step_state_def)
qed

lemma rel_after_smart:
  assumes "R s0 s4"
  shows "R s0 (snd (after_smart env p dr sr s4))"
proof (cases "run_hook env ''pre_sync'' (hk_pre_sync (ac_hooks (p_cfg p))) s4")
  case (Pair e s5)
  then have s5: "R s0 s5" using rel_trans [OF assms rel_hook] by (metis snd_conv)
  show ?thesis
    using rel_trans [OF assms rel_abort] rel_trans [OF rel_trans [OF s5 rel_gate_failure] rel_emit]
      s5 Pair by (auto simp: after_smart_def Let_def split: option.splits)
qed

lemma rel_preflight: "R s0 (snd (preflight env p s0))"
proof -
  let ?s1 = "emit p ''maintenance_started'' ''info'' (sign_play @ ''Maintenance pipeline started'') s0"
  obtain b2 r2 s2 where t: "touch_step env p ?s1 = (b2, r2, s2)" by (cases "touch_step env p ?s1")
  obtain b3 r3 s3 where d: "diff_step env p s2 = (b3, r3, s3)" by (cases "diff_step env p s2")
  obtain b4 r4 s4 where m: "smart_step env p s3 = (b4, r4, s4)" by (cases "smart_step env p s3")
  have 1: "R s0 ?s1" by (rule rel_emit)
  have 2: "R s0 s2" using rel_trans [OF 1 rel_touch [of ?s1]] t by simp
  have 3: "R s0 s3" using rel_trans [OF 2 rel_diff [of s2]] d by simp
  have 4: "R s0 s4" using rel_trans [OF 3 rel_smart [of s3]] m by simp
  have a: "R s0 (abort_with_status env p g why ?s1)" for g why
    by (rule rel_trans [OF 1 rel_abort])
  show ?thesis
    using a 2 3 4 rel_after_smart [OF 4] t d m
    by (auto simp: preflight_eq Let_def split: option.splits)
qed

lemma rel_maintenance_end: "R s (snd (fetch_status_summary env (scrub_and_fix env p trig s)))"
  by (rule rel_trans [OF rel_scrub_and_fix rel_fetch])

end

section \<open>Classes of added events\<close>

text \<open>\<open>adds P C s s'\<close>: the events added that satisfy \<open>P\<close> form a list of the class \<open>C\<close>.\<close>

definition adds :: "(event \<Rightarrow> bool) \<Rightarrow> (event list \<Rightarrow> bool) \<Rightarrow> pstate \<Rightarrow> pstate \<Rightarrow> bool" where
  "adds P C s s' \<longleftrightarrow> (\<exists>es. grows P es s s' \<and> C es)"

lemma addsI: "grows P es s s' \<Longrightarrow> C es \<Longrightarrow> adds P C s s'"
  by (auto simp: adds_def)

text \<open>The interface: a class of event lists closed under appending that holds what a step other
  than sync, or a single engine command other than sync, contributes. Then every part of the
  pipelines but the sync contributes a list of the class.\<close>

locale trace_class =
  fixes P :: "event \<Rightarrow> bool" and C :: "event list \<Rightarrow> bool"
  assumes quiet: "quiet P"
    and nil: "C []"
    and append: "C xs \<Longrightarrow> C ys \<Longrightarrow> C (xs @ ys)"
    and command: "hd args \<noteq> ''sync'' \<Longrightarrow> args \<noteq> [] \<Longrightarrow> C (filter P [EvRun args])"
    and step: "hd args \<noteq> ''sync'' \<Longrightarrow> args \<noteq> [] \<Longrightarrow> C (filter P (step_events p jt trig args))"
begin

lemma adds_refl: "adds P C s s"
  unfolding adds_def using grows_refl nil by blast

lemma adds_trans: "adds P C s s' \<Longrightarrow> adds P C s' s'' \<Longrightarrow> adds P C s s''"
  unfolding adds_def using grows_trans append by blast

lemma adds_quiet: "grows P [] s s' \<Longrightarrow> adds P C s s'"
  unfolding adds_def using nil by blast

lemma adds_emit: "adds P C s (emit p a b c s)"
  by (rule adds_quiet [OF grows_emit [OF quiet]])

lemma adds_insert: "adds P C s (snd (db_insert env jt trig s))"
  by (rule adds_quiet [OF grows_insert [OF quiet]])

lemma adds_complete: "adds P C s (db_complete env i code st out s)"
  by (rule adds_quiet [OF grows_complete [OF quiet]])

lemma adds_hook: "adds P C s (snd (run_hook env name c s))"
  by (rule adds_quiet [OF grows_hook [OF quiet]])

lemma adds_run_step:
  "hd args \<noteq> ''sync'' \<Longrightarrow> args \<noteq> [] \<Longrightarrow>
   adds P C s (step_state (run_step env p jt trig args streams decode s))"
  unfolding adds_def using run_step_grows [OF quiet] step by blast

lemma adds_steps:
  "adds P C s (step_state (touch_step env p s))" "adds P C s (step_state (diff_step env p s))"
  "adds P C s (step_state (smart_step env p s))" "adds P C s (step_state (scrub_step env p trig s))"
  "adds P C s (step_state (fix_step env p s))"
  unfolding touch_step_def diff_step_def smart_step_def scrub_step_def fix_step_def
  by (rule adds_run_step; simp add: scrub_args_def fix_args_def)+

lemma adds_gate_failure: "adds P C s (record_gate_failure env gate reason s)"
proof (cases "db_insert env gate ''pre-flight'' s")
  case (Pair r s1)
  then have "adds P C s s1" using adds_insert [of s env gate "''pre-flight''"] by simp
  then show ?thesis using Pair adds_trans adds_complete
    by (auto simp: record_gate_failure_def split: sum.splits)
qed

lemma adds_fetch: "adds P C s (snd (fetch_status_summary env s))"
proof -
  have "grows P (filter P [EvRun [''status'']]) s (log_event (EvRun [''status'']) s)"
    using grows_log [of P "EvRun [''status'']" s] by (cases "P (EvRun [''status''])") simp_all
  then have "adds P C s (log_event (EvRun [''status'']) s)"
    unfolding adds_def using command [of "[''status'']"] by auto
  then show ?thesis by (simp add: fetch_status_summary_def Let_def split: sum.splits)
qed

end

sublocale trace_class \<subseteq> rel: pipe_rel "adds P C" env p for env p
  by unfold_locales
    (rule adds_refl adds_emit adds_hook adds_gate_failure adds_fetch adds_steps | erule (1) adds_trans)+

text \<open>No sync is run, no container touched outside the sync phase; steps announce and clear
  their jobs in turn.\<close>

fun is_guard :: "event \<Rightarrow> bool" where
  "is_guard e = (is_docker e \<or> is_sync e)"

interpretation guarded: trace_class is_guard "\<lambda>es. es = []"
proof
  fix args jt trig p assume "hd args \<noteq> ''sync''" "args \<noteq> []"
  then obtain c r where "args = c # r" "c \<noteq> ''sync''" by (cases args) auto
  then show "filter is_guard [EvRun args] = []" "filter is_guard (step_events p jt trig args) = []"
    by (simp_all add: step_events_def tracked_def)
qed (simp_all add: quiet_def)

fun jobs_paired :: "event list \<Rightarrow> bool" where
  "jobs_paired [] = True"
| "jobs_paired (EvTrack _ _ _ # EvClear # es) = jobs_paired es"
| "jobs_paired _ = False"

lemma jobs_paired_append: "jobs_paired xs \<Longrightarrow> jobs_paired ys \<Longrightarrow> jobs_paired (xs @ ys)"
  by (induction xs rule: jobs_paired.induct) simp_all

lemma jobs_paired_step: "jobs_paired (filter is_job (step_events p jt trig args))"
  by (simp add: step_events_def tracked_def)

interpretation paired: trace_class is_job jobs_paired
  by unfold_locales (simp_all add: jobs_paired_append jobs_paired_step)

section \<open>The history's open jobs\<close>

text \<open>The jobs of the history that have not finished, and the relation of leaving them as they
  were; an insert followed by the completion of its row respects it.\<close>

definition open_jobs :: "database \<Rightarrow> int list" where
  "open_jobs db = map jr_id (filter (\<lambda>j. jr_finished j = None) (db_jobs db))"

definition keeps_open :: "pstate \<Rightarrow> pstate \<Rightarrow> bool" where
  "keeps_open s s' \<longleftrightarrow> (db_wf (ps_db s) \<longrightarrow>
     db_wf (ps_db s') \<and> open_jobs (ps_db s') = open_jobs (ps_db s))"

definition db_answers :: "penv \<Rightarrow> bool" where
  "db_answers env \<longleftrightarrow> (\<forall>tr. pe_insert env tr = None \<and> pe_complete env tr = None)"

lemma ps_db_log [simp]: "ps_db (log_event e s) = ps_db s"
  by (simp add: log_event_def)

lemma ps_db_logs [simp]: "ps_db (fold (\<lambda>x. log_event (f x)) xs s) = ps_db s"
  by (induction xs arbitrary: s) simp_all

lemma ps_db_emit [simp]: "ps_db (emit p a b c s) = ps_db s"
  by (simp add: emit_def)

lemma ps_db_hook [simp]: "ps_db (snd (run_hook env name c s)) = ps_db s"
  by (simp add: run_hook_def Let_def split: option.splits)

lemma ps_db_docker [simp]: "ps_db (docker_batch a names s) = ps_db s"
  by (simp add: docker_batch_def)

lemma ps_db_call [simp]: "ps_db (snd (call_engine env p args streams decode s)) = ps_db s"
  by (simp add: call_engine_def Let_def)

lemma ps_db_insert:
  assumes "db_answers env"
  shows "\<exists>now. db_insert env jt trig s = (Inr (db_seq (ps_db s) + 1), snd (db_insert env jt trig s))
    \<and> ps_db (snd (db_insert env jt trig s)) = snd (insert_job None now jt trig (ps_db s))"
  using assms
  by (auto simp: db_insert_def db_answers_def insert_job_def Let_def)

lemma ps_db_complete:
  assumes "db_answers env"
  shows "\<exists>now. ps_db (db_complete env i code st out s) = snd (complete_job None now i code st out (ps_db s))"
  using assms by (auto simp: db_complete_def db_answers_def complete_job_def Let_def)

lemma filter_id_none: "\<forall>j \<in> set js. jr_id j < i \<Longrightarrow>
    map (\<lambda>j. if jr_id j = i then f j else j) js = js"
  by (induction js) auto

lemma open_jobs_insert_complete:
  assumes "db_wf db"
  shows "open_jobs (snd (complete_job None t (db_seq db + 1) code st out
           (snd (insert_job None now jt trig db)))) = open_jobs db"
  using assms filter_id_none [of "db_jobs db" "db_seq db + 1"]
  by (auto simp: open_jobs_def complete_job_def insert_job_def Let_def db_wf_def finish_row_def)

lemma keeps_open_insert_complete:
  assumes "db_answers env" and "db_wf (ps_db s)"
    and "ps_db s1 = ps_db (snd (db_insert env jt trig s))"
  shows "db_wf (ps_db (db_complete env (db_seq (ps_db s) + 1) code st out s1))
    \<and> open_jobs (ps_db (db_complete env (db_seq (ps_db s) + 1) code st out s1)) = open_jobs (ps_db s)"
proof -
  obtain now where 1: "ps_db s1 = snd (insert_job None now jt trig (ps_db s))"
    using ps_db_insert [OF assms(1), of jt trig s] assms(3) by auto
  obtain t where 2: "ps_db (db_complete env (db_seq (ps_db s) + 1) code st out s1) =
      snd (complete_job None t (db_seq (ps_db s) + 1) code st out (ps_db s1))"
    using ps_db_complete [OF assms(1)] by blast
  show ?thesis
    unfolding 2 1 using db_wf_complete db_wf_insert assms(2) open_jobs_insert_complete by blast
qed

lemma keeps_open_same: "ps_db s' = ps_db s \<Longrightarrow> keeps_open s s'"
  by (simp add: keeps_open_def)

lemma keeps_open_trans: "keeps_open s s' \<Longrightarrow> keeps_open s' s'' \<Longrightarrow> keeps_open s s''"
  by (simp add: keeps_open_def)

lemma keeps_open_gate_failure:
  assumes "db_answers env" shows "keeps_open s (record_gate_failure env gate reason s)"
proof -
  have "db_insert env gate ''pre-flight'' s =
      (Inr (db_seq (ps_db s) + 1), snd (db_insert env gate ''pre-flight'' s))"
    using ps_db_insert [OF assms] by blast
  then have "record_gate_failure env gate reason s =
      db_complete env (db_seq (ps_db s) + 1) (- 1) ''aborted'' reason
        (snd (db_insert env gate ''pre-flight'' s))"
    unfolding record_gate_failure_def by (metis (no_types, lifting) old.prod.case sum.case(2))
  then show ?thesis
    using keeps_open_insert_complete [OF assms _ refl] by (simp add: keeps_open_def)
qed

lemma ps_db_clear [simp]: "ps_db (if b then log_event e s else s) = ps_db s"
  by simp

lemma ps_db_failed: "0 < jid \<Longrightarrow> ps_db (step_failed env p jt trig jid err s) =
    ps_db (db_complete env jid (- 1) (if gr_passed (check_lock err) then ''error'' else ''aborted'')
             (op_error_text err) s)"
  unfolding step_failed_def Let_def by (cases "trig = ''pre-flight''") simp_all

lemma ps_db_returned: "0 < jid \<Longrightarrow> ps_db (snd (step_returned env p jt trig jid code out s)) =
    ps_db (db_complete env jid code (exit_status code) out s)"
  unfolding step_returned_def Let_def
  by (cases "trig = ''pre-flight''"; cases "exit_status code = ''error''") simp_all

lemma step_end_db:
  assumes "0 < jid"
  shows "\<exists>s1 code st out. ps_db s1 = ps_db s
    \<and> ps_db (step_state (step_end env p jt trig jid res s)) = ps_db (db_complete env jid code st out s1)"
proof (cases res)
  case (Inl err)
  have "ps_db (step_state (step_end env p jt trig jid res s)) =
      ps_db (step_failed env p jt trig jid err s)"
    unfolding step_end_def Let_def Inl sum.case step_state_simp ps_db_clear ..
  then show ?thesis unfolding ps_db_failed [OF assms] by blast
next
  case (Inr x)
  obtain code out r where x: "x = (code, out, r)" by (cases x)
  let ?s1 = "if p_tracker p then log_event (EvProgress 100) s else s"
  have "ps_db (step_state (step_end env p jt trig jid res s)) =
      ps_db (snd (step_returned env p jt trig jid code out ?s1))"
    unfolding step_end_def Let_def Inr x sum.case prod.case case_prod_beta step_state_simp ps_db_clear
      fst_conv snd_conv ..
  then show ?thesis unfolding ps_db_returned [OF assms] using ps_db_clear by blast
qed

lemma keeps_open_run_step:
  assumes "db_answers env"
  shows "keeps_open s (step_state (run_step env p jt trig args streams decode s))"
proof -
  let ?s0 = "if p_tracker p then log_event (EvTrack jt trig ''running'') s else s"
  let ?b = "step_begin env p jt trig s"
  let ?c = "call_engine env p args streams decode (snd ?b)"
  have db0: "ps_db ?s0 = ps_db s" by simp
  have ins: "db_insert env jt trig ?s0 = (Inr (db_seq (ps_db s) + 1), snd (db_insert env jt trig ?s0))"
    using ps_db_insert [OF assms, of jt trig ?s0] db0 by metis
  have b: "?b = (db_seq (ps_db s) + 1, snd (db_insert env jt trig ?s0))"
    unfolding step_begin_def Let_def by (subst ins) (simp only: prod.case sum.case)
  show ?thesis
  proof (unfold keeps_open_def, intro impI)
    assume wf: "db_wf (ps_db s)"
    then have "0 < fst ?b" using b by (simp add: db_wf_def)
    then obtain s1 code st out where e: "ps_db s1 = ps_db (snd ?c)"
      "ps_db (step_state (step_end env p jt trig (fst ?b) (fst ?c) (snd ?c))) =
       ps_db (db_complete env (fst ?b) code st out s1)" using step_end_db by blast
    have "ps_db s1 = ps_db (snd (db_insert env jt trig ?s0))" using e(1) b by simp
    from keeps_open_insert_complete [OF assms _ this] wf db0 b e(2)
    show "db_wf (ps_db (step_state (run_step env p jt trig args streams decode s))) \<and>
        open_jobs (ps_db (step_state (run_step env p jt trig args streams decode s))) = open_jobs (ps_db s)"
      by (simp add: run_step_end Let_def)
  qed
qed

lemma ps_db_fetch [simp]: "ps_db (snd (fetch_status_summary env s)) = ps_db s"
  by (simp add: fetch_status_summary_def Let_def split: sum.splits)

lemma keeps_open_rel: "db_answers env \<Longrightarrow> pipe_rel keeps_open env p"
  by unfold_locales
    (auto simp: touch_step_def diff_step_def smart_step_def scrub_step_def fix_step_def
      intro: keeps_open_same keeps_open_gate_failure keeps_open_run_step elim: keeps_open_trans)

section \<open>The sync phase\<close>

definition pauses :: "pipeline \<Rightarrow> string list" where
  "pauses p = dk_pause_containers (ac_docker (p_cfg p))"

definition stops :: "pipeline \<Rightarrow> string list" where
  "stops p = dk_stop_containers (ac_docker (p_cfg p))"

text \<open>What must surround a sync: every configured container is paused or stopped before and
  unpaused or started after it.\<close>

definition sync_bracket :: "pipeline \<Rightarrow> event list" where
  "sync_bracket p =
     map (EvDocker ''pause'') (pauses p) @ map (EvDocker ''stop'') (stops p) @
     [EvRun (sync_args (pipeline_sync_options p))] @
     map (EvDocker ''unpause'') (pauses p) @ map (EvDocker ''start'') (stops p)"

lemma quiet_guard [simp]: "quiet is_guard"
  by (simp add: quiet_def)

lemma guard_sync [simp]: "is_guard (EvRun (sync_args o'))"
  by (simp add: sync_args_def)

lemma filter_guard_docker [simp]: "filter is_guard (map (EvDocker a) xs) = map (EvDocker a) xs"
  by (induction xs) simp_all

lemma guard_sync_events: "filter is_guard (step_events p jt trig (sync_args o')) = [EvRun (sync_args o')]"
  by (simp add: step_events_def tracked_def del: is_guard.simps) (simp add: is_guard.simps)

definition restore_opt :: "(pstate \<Rightarrow> pstate) option \<Rightarrow> pstate \<Rightarrow> pstate" where
  "restore_opt f s = (case f of Some g \<Rightarrow> g s | None \<Rightarrow> s)"

lemma grows_manage:
  "grows is_guard (map (EvDocker ''pause'') (pauses p) @ map (EvDocker ''stop'') (stops p)) s
     (snd (manage_containers p s))"
  using grows_trans [OF grows_docker_batch [of is_guard "''pause''" "pauses p" s]
      grows_docker_batch [of is_guard "''stop''" "stops p"]]
  by (auto simp: manage_containers_def pauses_def stops_def Let_def grows_refl)

lemma grows_restore:
  "grows is_guard (map (EvDocker ''unpause'') (pauses p) @ map (EvDocker ''start'') (stops p)) s
     (restore_opt (fst (manage_containers p s')) s)"
  using grows_trans [OF grows_docker_batch [of is_guard "''unpause''" "pauses p" s]
      grows_docker_batch [of is_guard "''start''" "stops p"]]
  by (auto simp: manage_containers_def pauses_def stops_def Let_def grows_refl restore_opt_def
      restore_containers_def)

lemma sync_phase_eq:
  "sync_phase env p s5 =
     (let m = manage_containers p s5; y = sync_step env p (snd m)
      in (fst y, snd (run_hook env ''post_sync'' (hk_post_sync (ac_hooks (p_cfg p)))
                   (restore_opt (fst m) (step_state y)))))"
  by (simp add: sync_phase_def Let_def case_prod_beta restore_opt_def step_state_def)

lemma sync_phase_bracket: "grows is_guard (sync_bracket p) s (snd (sync_phase env p s))"
proof -
  let ?m = "manage_containers p s" let ?y = "sync_step env p (snd ?m)"
  have "grows is_guard [EvRun (sync_args (pipeline_sync_options p))] (snd ?m) (step_state ?y)"
    using run_step_grows [OF quiet_guard] unfolding sync_step_def
    by (metis guard_sync_events)
  from grows_quiet_trans [OF grows_trans [OF grows_trans [OF grows_manage this] grows_restore]
      grows_hook [OF quiet_guard]]
  show ?thesis by (simp add: sync_phase_eq Let_def sync_bracket_def)
qed

section \<open>Properties of the maintenance run\<close>

lemma grows_nil: "adds P (\<lambda>es. es = []) s s' \<Longrightarrow> grows P [] s s'"
  by (auto simp: adds_def)

lemma maintenance_cases:
  "(fst (preflight env p s0) = False \<and> run_maintenance env p s0 = snd (preflight env p s0))
   \<or> (fst (preflight env p s0) = True \<and>
       (run_maintenance env p s0 = snd (sync_phase env p (snd (preflight env p s0)))
        \<or> (\<exists>msg. run_maintenance env p s0 = emit p ''maintenance_complete'' ''info'' msg
              (snd (fetch_status_summary env (scrub_and_fix env p ''maintenance''
                 (snd (sync_phase env p (snd (preflight env p s0)))))))))) "
  by (auto simp: run_maintenance_def Let_def case_prod_beta split: prod.splits bool.splits)

lemma maintenance_guarded:
  "if fst (preflight env p s0) then grows is_guard (sync_bracket p) s0 (run_maintenance env p s0)
   else grows is_guard [] s0 (run_maintenance env p s0)"
proof -
  let ?s5 = "snd (preflight env p s0)" let ?s9 = "snd (sync_phase env p ?s5)"
  have pre: "grows is_guard [] s0 ?s5" by (rule grows_nil [OF guarded.rel.rel_preflight])
  have syn: "grows is_guard (sync_bracket p) s0 ?s9" by (rule grows_then [OF pre sync_phase_bracket])
  have "grows is_guard [] ?s9 (snd (fetch_status_summary env (scrub_and_fix env p ''maintenance'' ?s9)))"
    by (rule grows_nil [OF guarded.rel.rel_maintenance_end])
  from grows_quiet_trans [OF grows_quiet_trans [OF syn this] grows_emit [OF quiet_guard]]
  have "grows is_guard (sync_bracket p) s0 (emit p ''maintenance_complete'' ''info'' msg
          (snd (fetch_status_summary env (scrub_and_fix env p ''maintenance'' ?s9))))" for msg .
  with pre syn maintenance_cases [of env p s0] show ?thesis by auto
qed


lemma keeps_open_sync_phase:
  assumes "db_answers env" shows "keeps_open s (snd (sync_phase env p s))"
proof -
  have r: "ps_db (restore_opt (fst (manage_containers p s)) s') = ps_db s'" for s'
    by (simp add: restore_opt_def manage_containers_def restore_containers_def Let_def)
  have m: "ps_db (snd (manage_containers p s)) = ps_db s"
    by (simp add: manage_containers_def Let_def)
  have "keeps_open (snd (manage_containers p s)) (step_state (sync_step env p (snd (manage_containers p s))))"
    unfolding sync_step_def by (rule keeps_open_run_step [OF assms])
  then show ?thesis by (simp add: keeps_open_def sync_phase_eq Let_def r m)
qed

lemma keeps_open_maintenance:
  assumes "db_answers env" shows "keeps_open s (run_maintenance env p s)"
proof -
  note rel = keeps_open_rel [OF assms, of p]
  let ?s5 = "snd (preflight env p s)" let ?s9 = "snd (sync_phase env p ?s5)"
  have 5: "keeps_open s ?s5" by (rule pipe_rel.rel_preflight [OF rel])
  have 9: "keeps_open s ?s9" by (rule keeps_open_trans [OF 5 keeps_open_sync_phase [OF assms]])
  have "keeps_open s (snd (fetch_status_summary env (scrub_and_fix env p ''maintenance'' ?s9)))"
    by (rule keeps_open_trans [OF 9 pipe_rel.rel_maintenance_end [OF rel]])
  then have "keeps_open s (emit p ''maintenance_complete'' ''info'' msg
      (snd (fetch_status_summary env (scrub_and_fix env p ''maintenance'' ?s9))))" for msg
    by (simp add: keeps_open_def)
  with 5 9 maintenance_cases [of env p s] show ?thesis by auto
qed

lemma keeps_open_scrub_only:
  assumes "db_answers env" shows "keeps_open s (run_scrub_only env p s)"
  using pipe_rel.rel_scrub_and_fix [OF keeps_open_rel [OF assms],
      of "emit p ''scrub_started'' ''info'' (sign_play @ ''Standalone scrub started'') s" p "''scheduled''"]
  by (simp add: run_scrub_only_def Let_def keeps_open_def)

lemma keeps_open_status_refresh:
  assumes "db_answers env" shows "keeps_open s (run_status_refresh env p s)"
  using keeps_open_run_step [OF assms, of s p "''status''" "''scheduled''" "[''status'']" False
      "\<lambda>run. status_result (engine_status (pe_now env (ps_trace s)) run)"]
  by (simp add: run_status_refresh_def Let_def keeps_open_def case_prod_beta step_state_def)

text \<open>C11. Every run closes its history: with a database that answers, a maintenance run, a
  scrub run and a status refresh leave exactly the unfinished rows that were there before, so
  each row they inserted has been completed, on every path through gates, errors and hooks.\<close>

theorem runs_close_history:
  assumes "db_answers env" and "db_wf (ps_db s)"
  shows "open_jobs (ps_db (run_maintenance env p s)) = open_jobs (ps_db s)
    \<and> open_jobs (ps_db (run_scrub_only env p s)) = open_jobs (ps_db s)
    \<and> open_jobs (ps_db (run_status_refresh env p s)) = open_jobs (ps_db s)"
  using keeps_open_maintenance [OF assms(1), of s p] keeps_open_scrub_only [OF assms(1), of s p]
    keeps_open_status_refresh [OF assms(1), of s p] assms(2)
  by (simp add: keeps_open_def)

text \<open>An environment to evaluate runs in: the binary prints nothing and exits with the code
  given for each command, the database answers, the hooks succeed, gate 0 finds an empty
  configuration.\<close>

definition sample_env :: "(string \<Rightarrow> int) \<Rightarrow> penv" where
  "sample_env code = \<lparr>pe_exec = (\<lambda>tr args. Inr \<lparr>cr_stdout = [], cr_stderr = [], cr_exit_code = code (hd args)\<rparr>),
     pe_progress = (\<lambda>tr. [50]), pe_insert = (\<lambda>tr. None), pe_complete = (\<lambda>tr. None),
     pe_hook = (\<lambda>tr c. None), pe_now = (\<lambda>tr. 0), pe_conf = (\<lambda>tr. Inr []),
     pe_stat = (\<lambda>tr path. Inr 1), pe_oor = (\<lambda>x. 0)\<rparr>"

definition sample_pipeline :: pipeline where
  "sample_pipeline = \<lparr>p_cfg = default_agent_config
       \<lparr>ac_docker := \<lparr>dk_pause_containers = [''db''], dk_stop_containers = [''web'']\<rparr>\<rparr>,
     p_emitter = True, p_tracker = True\<rparr>"

definition sample_start :: pstate where
  "sample_start = \<lparr>ps_trace = [], ps_db = empty_db\<rparr>"

lemma runs_close_history_witness:
  "open_jobs (ps_db (run_maintenance (sample_env (\<lambda>c. 0)) sample_pipeline sample_start)) = []
   \<and> open_jobs (ps_db (run_scrub_only (sample_env (\<lambda>c. 0)) sample_pipeline sample_start)) = []"
  using runs_close_history [of "sample_env (\<lambda>c. 0)" sample_start sample_pipeline] db_wf_empty
  by (simp add: db_answers_def sample_env_def sample_start_def open_jobs_def empty_db_def)

text \<open>The tracker's view is consistent: along a maintenance run every job the dashboard is
  told about is cleared before the next one is announced, and none is left when the run
  returns.\<close>

lemma tracker_paired:
  "\<exists>new. ps_trace (run_maintenance env p s0) = ps_trace s0 @ new \<and> jobs_paired (filter is_job new)"
proof -
  let ?s5 = "snd (preflight env p s0)" let ?m = "manage_containers p ?s5"
  let ?y = "sync_step env p (snd ?m)" let ?s9 = "snd (sync_phase env p ?s5)"
  have d: "grows is_job [] s (docker_batch a ns s)" for s a ns
    using grows_docker_batch [of is_job a ns s] by (simp add: filter_empty_conv)
  have man: "adds is_job jobs_paired s (snd (manage_containers p s))" for s
    by (rule paired.adds_quiet)
      (auto simp: manage_containers_def Let_def grows_refl intro: grows_then [OF d d])
  have res: "adds is_job jobs_paired s (restore_opt (fst (manage_containers p s')) s)" for s s'
    by (rule paired.adds_quiet)
      (auto simp: manage_containers_def restore_opt_def restore_containers_def Let_def grows_refl
        intro: grows_then [OF d d])
  have sync: "adds is_job jobs_paired s (step_state (sync_step env p s))" for s
    unfolding sync_step_def adds_def using run_step_grows [OF quiet_filters(4)] jobs_paired_step by blast
  have 5: "adds is_job jobs_paired s0 ?s5" by (rule paired.rel.rel_preflight)
  have 9: "adds is_job jobs_paired s0 ?s9"
    unfolding sync_phase_eq Let_def snd_conv
    by (rule paired.adds_trans [OF paired.adds_trans [OF paired.adds_trans
          [OF paired.adds_trans [OF 5 man] sync] res] paired.adds_hook])
  have "adds is_job jobs_paired s0 (emit p a b c (snd (fetch_status_summary env (scrub_and_fix env p t ?s9))))"
    for a b c t
    by (rule paired.adds_trans [OF paired.adds_trans [OF 9 paired.rel.rel_maintenance_end] paired.adds_emit])
  with 5 9 maintenance_cases [of env p s0] have "adds is_job jobs_paired s0 (run_maintenance env p s0)"
    by auto
  then show ?thesis by (auto simp: adds_def grows_def)
qed

section \<open>No sync without its gates\<close>

lemma grows_prefix: "grows P es s s' \<Longrightarrow> prefix (ps_trace s) (ps_trace s')"
  by (auto simp: grows_def)

lemma run_step_value:
  assumes "run_step env p jt trig args streams decode s = (ok, Some r, s')"
  shows "\<exists>t code out. prefix (ps_trace s) t \<and> prefix (t @ [EvRun args]) (ps_trace s')
    \<and> decode (pe_exec env (t @ [EvRun args])) = Inr (code, out, r)"
proof -
  obtain t post where "ps_trace s' = ps_trace s @ t @ EvRun args # post"
    "Some r = (case decode (pe_exec env ((ps_trace s @ t) @ [EvRun args])) of
           Inl _ \<Rightarrow> None | Inr (_, _, r) \<Rightarrow> Some r)"
    using run_step_shape [OF quiet_filters(1), of env p jt trig args streams decode s]
    unfolding assms by auto
  then show ?thesis
    by (intro exI [of _ "ps_trace s @ t"]) (auto split: sum.splits)
qed

lemma diff_result_Inr: "diff_result x = Inr (code, out, r) \<Longrightarrow> x = Inr r"
  by (simp add: diff_result_def split: sum.split_asm)

lemma smart_result_Inr: "smart_result x = Inr (code, out, r) \<Longrightarrow> x = Inr r"
  by (simp add: smart_result_def split: sum.split_asm)

lemma diff_step_value:
  assumes "diff_step env p s = (ok, Some dr, s')"
  shows "\<exists>t. prefix (ps_trace s) t \<and> prefix (t @ [EvRun [''diff'']]) (ps_trace s')
    \<and> engine_diff (pe_exec env (t @ [EvRun [''diff'']])) = Inr dr"
  using run_step_value [OF assms [unfolded diff_step_def]] diff_result_Inr by blast

lemma smart_step_value:
  assumes "smart_step env p s = (ok, Some sr, s')"
  shows "\<exists>t. prefix (ps_trace s) t \<and> prefix (t @ [EvRun [''smart'', ''-v'']]) (ps_trace s')
    \<and> engine_smart (pe_oor env) (pe_exec env (t @ [EvRun [''smart'', ''-v'']])) = Inr sr"
  using run_step_value [OF assms [unfolded smart_step_def]] smart_result_Inr by blast

lemma touch_step_prefix: "touch_step env p s = (ok, r, s') \<Longrightarrow> prefix (ps_trace s) (ps_trace s')"
  using run_step_grows [OF quiet_filters(1)] grows_prefix unfolding touch_step_def
  by (metis step_state_simp)

lemma emit_prefix: "prefix (ps_trace s) (ps_trace (emit p a b c s))"
  by (rule grows_prefix [OF grows_emit [OF quiet_filters(1)]])

lemma hook_value:
  assumes "run_hook env name c s = (None, s')"
  shows "prefix (ps_trace s) (ps_trace s') \<and>
    (c = [] \<or> (ps_trace s' = ps_trace s @ [EvHook name c] \<and> pe_hook env (ps_trace s') c = None))"
  using assms by (auto simp: run_hook_def Let_def log_event_def split: if_splits option.splits)

text \<open>What a trace \<open>tr\<close> that goes on from \<open>tr0\<close> shows about the gates, in the order they
  were passed: gate 0 on the files as they were, the diff's report within its thresholds, the
  SMART report within its limits, and the pre-sync hook, if one is configured, run with
  success.\<close>

definition gates_passed :: "penv \<Rightarrow> pipeline \<Rightarrow> trace \<Rightarrow> trace \<Rightarrow> bool" where
  "gates_passed env p tr0 tr \<longleftrightarrow>
     (\<exists>t0 t1 t2 dr sr.
        prefix tr0 t0 \<and> prefix t0 t1 \<and> prefix (t1 @ [EvRun [''diff'']]) t2 \<and>
        prefix (t2 @ [EvRun [''smart'', ''-v'']]) tr \<and>
        validate_config_files (pe_conf env t0) (pe_stat env t0) = None \<and>
        engine_diff (pe_exec env (t1 @ [EvRun [''diff'']])) = Inr dr \<and>
        gr_passed (check_diff_thresholds dr (ac_thresholds (p_cfg p))) \<and>
        engine_smart (pe_oor env) (pe_exec env (t2 @ [EvRun [''smart'', ''-v'']])) = Inr sr \<and>
        gr_passed (check_smart sr (ac_thresholds (p_cfg p))) \<and>
        (hk_pre_sync (ac_hooks (p_cfg p)) = [] \<or>
         (\<exists>t3. tr = t3 @ [EvHook ''pre_sync'' (hk_pre_sync (ac_hooks (p_cfg p)))] \<and>
            prefix (t2 @ [EvRun [''smart'', ''-v'']]) t3 \<and>
            pe_hook env tr (hk_pre_sync (ac_hooks (p_cfg p))) = None)))"

lemma after_smart_True:
  assumes "after_smart env p dr sr s4 = (True, s5)"
  shows "gr_passed (check_smart sr (ac_thresholds (p_cfg p)))
    \<and> gr_passed (check_diff_thresholds dr (ac_thresholds (p_cfg p)))
    \<and> run_hook env ''pre_sync'' (hk_pre_sync (ac_hooks (p_cfg p))) s4 = (None, s5)"
  using assms by (auto simp: after_smart_def Let_def split: if_splits prod.splits option.splits)

lemma preflight_gates:
  assumes "preflight env p s0 = (True, s5)"
  shows "gates_passed env p (ps_trace s0) (ps_trace s5)"
proof -
  let ?s1 = "emit p ''maintenance_started'' ''info'' (sign_play @ ''Maintenance pipeline started'') s0"
  obtain b2 r2 s2 where t: "touch_step env p ?s1 = (b2, r2, s2)" by (cases "touch_step env p ?s1")
  obtain b3 r3 s3 where d: "diff_step env p s2 = (b3, r3, s3)" by (cases "diff_step env p s2")
  obtain b4 r4 s4 where m: "smart_step env p s3 = (b4, r4, s4)" by (cases "smart_step env p s3")
  obtain dr sr where g0: "validate_config_files (pe_conf env (ps_trace ?s1)) (pe_stat env (ps_trace ?s1)) = None"
    and dr: "r3 = Some dr" and sr: "r4 = Some sr" and af: "after_smart env p dr sr s4 = (True, s5)"
    using assms unfolding preflight_eq Let_def by (auto simp: t d m split: if_splits)
  obtain t1 where t1: "prefix (ps_trace s2) t1" "prefix (t1 @ [EvRun [''diff'']]) (ps_trace s3)"
    "engine_diff (pe_exec env (t1 @ [EvRun [''diff'']])) = Inr dr" using diff_step_value d dr by blast
  obtain t2 where t2: "prefix (ps_trace s3) t2" "prefix (t2 @ [EvRun [''smart'', ''-v'']]) (ps_trace s4)"
    "engine_smart (pe_oor env) (pe_exec env (t2 @ [EvRun [''smart'', ''-v'']])) = Inr sr"
    using smart_step_value m sr by blast
  note g = after_smart_True [OF af] note h = hook_value [of env _ _ s4 s5]
  have "prefix (ps_trace ?s1) t1" using touch_step_prefix [OF t] t1(1) by (rule prefix_order.trans)
  moreover have "prefix (t1 @ [EvRun [''diff'']]) t2" using t1(2) t2(1) by (rule prefix_order.trans)
  moreover have "prefix (t2 @ [EvRun [''smart'', ''-v'']]) (ps_trace s5)"
    using t2(2) h g by (meson prefix_order.trans)
  ultimately show ?thesis
    unfolding gates_passed_def using emit_prefix g0 t1(3) t2(2,3) g h by blast
qed

text \<open>C1. No sync without its gates: a maintenance run issues at most one sync, and when it
  issues one, the trace before it, up to the commands that stop containers, shows that gate 0
  passed, that the diff taken in this run is within the thresholds, that the SMART report taken
  after it is within the limits and that the configured pre-sync hook succeeded.\<close>

theorem sync_only_after_gates:
  "\<exists>new. ps_trace (run_maintenance env p s0) = ps_trace s0 @ new
     \<and> (filter is_sync new = []
        \<or> (\<exists>pre rest. new = pre @ rest
             \<and> filter is_guard pre = [] \<and> filter is_guard rest = sync_bracket p
             \<and> gates_passed env p (ps_trace s0) (ps_trace s0 @ pre)))"
proof (cases "preflight env p s0")
  case (Pair ok s5)
  obtain new where new: "ps_trace (run_maintenance env p s0) = ps_trace s0 @ new"
    "filter is_guard new = (if ok then sync_bracket p else [])"
    using maintenance_guarded [of env p s0] Pair by (cases ok) (auto simp: grows_def)
  show ?thesis
  proof (cases ok)
    case False
    then have "filter is_sync new = []" using new(2) by (auto simp: filter_empty_conv)
    with new(1) show ?thesis by blast
  next
    case True
    let ?s9 = "snd (sync_phase env p s5)"
    have g: "gates_passed env p (ps_trace s0) (ps_trace s5)"
      using Pair True by (intro preflight_gates) simp
    obtain pre where pre: "ps_trace s5 = ps_trace s0 @ pre" "filter is_guard pre = []"
      using grows_nil [OF guarded.rel.rel_preflight, of s0 env p] Pair by (auto simp: grows_def)
    have 9: "prefix (ps_trace s5) (ps_trace ?s9)" by (rule grows_prefix [OF sync_phase_bracket])
    have "prefix (ps_trace ?s9)
        (ps_trace (snd (fetch_status_summary env (scrub_and_fix env p ''maintenance'' ?s9))))"
      by (rule grows_prefix [OF grows_nil [OF guarded.rel.rel_maintenance_end]])
    then have "prefix (ps_trace s5) (ps_trace (emit p ''maintenance_complete'' ''info'' msg
        (snd (fetch_status_summary env (scrub_and_fix env p ''maintenance'' ?s9)))))" for msg
      using 9 emit_prefix prefix_order.trans by blast
    then have "prefix (ps_trace s5) (ps_trace (run_maintenance env p s0))"
      using maintenance_cases [of env p s0] 9 Pair True by auto
    then obtain rest where "new = pre @ rest" using new(1) pre(1) by (auto elim: prefixE)
    then show ?thesis using new pre g True by auto
  qed
qed

text \<open>A run whose preflight and sync succeed ends with the message that maintenance completed
  successfully: the scrub, and the fix after it, have no part in the decision.\<close>

lemma maintenance_success_message:
  assumes "fst (preflight env p s0)" and "fst (sync_phase env p (snd (preflight env p s0)))"
    and "p_emitter p"
  shows "\<exists>summary. last (ps_trace (run_maintenance env p s0)) =
    EvEmit ''maintenance_complete'' ''info''
      (with_summary (sign_ok @ ''Maintenance pipeline completed successfully'') summary)"
  using assms
  by (auto simp: run_maintenance_def Let_def case_prod_beta emit_def log_event_def split: prod.splits)

end
