(* ===== verification/SnapScheduler.thy ===== *)
theory SnapScheduler
  imports SnapPipeline
begin

text \<open>
  When the pipelines run: \<^verbatim>\<open>snapraid/internal/scheduler/scheduler.go\<close> (registration,
  rescheduling, the job mutex), the handler that changes the configuration
  (\<^verbatim>\<open>handleConfig\<close> in agent/server.go) and the replay of cached settings at start
  (agent/config_hydrate.go). The cron library is third-party: \<open>cron_err expr\<close> is the error
  its parser returns for a six-field expression, if it does.
\<close>

section \<open>The cron runner\<close>

record scheduler =
  sd_cfg :: agent_config
  sd_entries :: "(string \<times> string) list"
  sd_running :: bool

definition schedules :: "agent_config \<Rightarrow> (string \<times> string) list" where
  "schedules cfg =
     [(sc_maintenance_cron (ac_scheduler cfg), ''maintenance''),
      (sc_scrub_cron (ac_scheduler cfg), ''scrub_only''),
      (sc_status_cron (ac_scheduler cfg), ''status_refresh'')]"

datatype cron_registration_error = CronRegistrationError string string string

fun cron_error_text :: "cron_registration_error \<Rightarrow> string" where
  "cron_error_text (CronRegistrationError job expr err) =
     ''failed to register cron for '' @ job @ '' ('' @ expr @ ''): '' @ err"

text \<open>The loop of \<open>Start\<close>: an unset schedule is skipped, the first expression the parser
  rejects ends it.\<close>

fun register_all :: "(string \<Rightarrow> string option) \<Rightarrow> (string \<times> string) list \<Rightarrow> (string \<times> string) list \<Rightarrow>
    cron_registration_error option \<times> (string \<times> string) list" where
  "register_all cron_err [] entries = (None, entries)"
| "register_all cron_err ((expr, name) # rest) entries =
     (if expr = [] then register_all cron_err rest entries
      else case cron_err (''0 '' @ expr) of
             Some e \<Rightarrow> (Some (CronRegistrationError name expr e), entries)
           | None \<Rightarrow> register_all cron_err rest (entries @ [(name, ''0 '' @ expr)]))"

definition sched_start :: "(string \<Rightarrow> string option) \<Rightarrow> scheduler \<Rightarrow>
    cron_registration_error option \<times> scheduler" where
  "sched_start cron_err sd =
     (case register_all cron_err (schedules (sd_cfg sd)) (sd_entries sd) of
        (Some e, entries) \<Rightarrow> (Some e, sd\<lparr>sd_entries := entries\<rparr>)
      | (None, entries) \<Rightarrow> (None, sd\<lparr>sd_entries := entries, sd_running := True\<rparr>))"

definition sched_stop :: "scheduler \<Rightarrow> scheduler" where
  "sched_stop sd = sd\<lparr>sd_running := False\<rparr>"

definition reschedule :: "(string \<Rightarrow> string option) \<Rightarrow> scheduler \<Rightarrow>
    cron_registration_error option \<times> scheduler" where
  "reschedule cron_err sd = sched_start cron_err ((sched_stop sd)\<lparr>sd_entries := []\<rparr>)"

text \<open>The jobs the runner fires: none unless it was started.\<close>

definition fires :: "scheduler \<Rightarrow> (string \<times> string) list" where
  "fires sd = (if sd_running sd then sd_entries sd else [])"

text \<open>A fired job under the job mutex: skipped when the mutex is held.\<close>

definition run_scheduled :: "bool \<Rightarrow> (pstate \<Rightarrow> pstate) \<Rightarrow> pstate \<Rightarrow> pstate" where
  "run_scheduled held fn s = (if held then s else fn s)"

definition run_entry :: "penv \<Rightarrow> pipeline \<Rightarrow> bool \<Rightarrow> string \<Rightarrow> pstate \<Rightarrow> pstate" where
  "run_entry env p held name =
     run_scheduled held
       (if name = ''maintenance'' then run_maintenance env p
        else if name = ''scrub_only'' then run_scrub_only env p
        else run_status_refresh env p)"

section \<open>Changing the configuration (handleConfig)\<close>

text \<open>The loop over the posted values, in the order in which the map is iterated: each is stored
  in the cache, and the three cron settings take effect in the live configuration. A failed
  statement ends the handler with status 500.\<close>

definition set_cron_key :: "string \<Rightarrow> string \<Rightarrow> agent_config \<Rightarrow> agent_config" where
  "set_cron_key k v cfg =
     (if k = ''maintenance_cron'' then cfg\<lparr>ac_scheduler := (ac_scheduler cfg)\<lparr>sc_maintenance_cron := v\<rparr>\<rparr>
      else if k = ''scrub_cron'' then cfg\<lparr>ac_scheduler := (ac_scheduler cfg)\<lparr>sc_scrub_cron := v\<rparr>\<rparr>
      else if k = ''status_cron'' then cfg\<lparr>ac_scheduler := (ac_scheduler cfg)\<lparr>sc_status_cron := v\<rparr>\<rparr>
      else cfg)"

definition is_cron_key :: "string \<Rightarrow> bool" where
  "is_cron_key k \<longleftrightarrow> k = ''maintenance_cron'' \<or> k = ''scrub_cron'' \<or> k = ''status_cron''"

fun config_values :: "(string \<Rightarrow> string option) \<Rightarrow> int \<Rightarrow> (string \<times> string) list \<Rightarrow>
    agent_config \<times> database \<times> bool \<Rightarrow> bool \<times> agent_config \<times> database \<times> bool" where
  "config_values drv now [] (cfg, db, need) = (True, cfg, db, need)"
| "config_values drv now ((k, v) # rest) (cfg, db, need) =
     (case set_cache_value (drv k) now k v db of
        (Inl _, db1) \<Rightarrow> (False, cfg, db1, need)
      | (Inr _, db1) \<Rightarrow>
          config_values drv now rest (set_cron_key k v cfg, db1, need \<or> is_cron_key k))"

definition handle_config :: "(string \<Rightarrow> string option) \<Rightarrow> (string \<Rightarrow> string option) \<Rightarrow> int \<Rightarrow>
    (string \<times> string) list \<Rightarrow> scheduler \<Rightarrow> database \<Rightarrow> int \<times> scheduler \<times> database" where
  "handle_config cron_err drv now values sd db =
     (case config_values drv now values (sd_cfg sd, db, False) of
        (False, cfg, db1, _) \<Rightarrow> (500, sd\<lparr>sd_cfg := cfg\<rparr>, db1)
      | (True, cfg, db1, need) \<Rightarrow>
          (200, if need then snd (reschedule cron_err (sd\<lparr>sd_cfg := cfg\<rparr>)) else sd\<lparr>sd_cfg := cfg\<rparr>, db1))"

section \<open>Cached settings at start (config_hydrate.go)\<close>

definition split_csv :: "string \<Rightarrow> string list" where
  "split_csv s =
     (if s = [] then [] else filter (\<lambda>t. t \<noteq> []) (map trim_space (split_on (CHR '','') s)))"

text \<open>One function per key; a key outside the table changes nothing.\<close>

definition cache_setters :: "(string \<Rightarrow> float64 option) \<Rightarrow>
    (string \<times> (string \<Rightarrow> agent_config \<Rightarrow> agent_config)) list" where
  "cache_setters pfloat =
     [(''maintenance_cron'', \<lambda>v c. c\<lparr>ac_scheduler := (ac_scheduler c)\<lparr>sc_maintenance_cron := v\<rparr>\<rparr>),
      (''scrub_cron'', \<lambda>v c. c\<lparr>ac_scheduler := (ac_scheduler c)\<lparr>sc_scrub_cron := v\<rparr>\<rparr>),
      (''status_cron'', \<lambda>v c. c\<lparr>ac_scheduler := (ac_scheduler c)\<lparr>sc_status_cron := v\<rparr>\<rparr>),
      (''max_deleted'', \<lambda>v c. c\<lparr>ac_thresholds := (ac_thresholds c)
         \<lparr>th_max_deleted := set_int v (th_max_deleted (ac_thresholds c))\<rparr>\<rparr>),
      (''max_updated'', \<lambda>v c. c\<lparr>ac_thresholds := (ac_thresholds c)
         \<lparr>th_max_updated := set_int v (th_max_updated (ac_thresholds c))\<rparr>\<rparr>),
      (''add_del_ratio'', \<lambda>v c. c\<lparr>ac_thresholds := (ac_thresholds c)
         \<lparr>th_add_del_ratio := set_float pfloat v (th_add_del_ratio (ac_thresholds c))\<rparr>\<rparr>),
      (''smart_fail_probability'', \<lambda>v c. c\<lparr>ac_thresholds := (ac_thresholds c)
         \<lparr>th_smart_fail_probability := set_int v (th_smart_fail_probability (ac_thresholds c))\<rparr>\<rparr>),
      (''scrub_plan'', \<lambda>v c. c\<lparr>ac_scrub := (ac_scrub c)\<lparr>scr_plan := v\<rparr>\<rparr>),
      (''older_than_days'', \<lambda>v c. c\<lparr>ac_scrub := (ac_scrub c)
         \<lparr>scr_older_than_days := set_int v (scr_older_than_days (ac_scrub c))\<rparr>\<rparr>),
      (''auto_fix_bad_blocks'', \<lambda>v c. c\<lparr>ac_scrub := (ac_scrub c)\<lparr>scr_auto_fix_bad_blocks := parse_bool v\<rparr>\<rparr>),
      (''pre_hash'', \<lambda>v c. c\<lparr>ac_sync_pre_hash := parse_bool v\<rparr>),
      (''pre_sync'', \<lambda>v c. c\<lparr>ac_hooks := (ac_hooks c)\<lparr>hk_pre_sync := v\<rparr>\<rparr>),
      (''post_sync'', \<lambda>v c. c\<lparr>ac_hooks := (ac_hooks c)\<lparr>hk_post_sync := v\<rparr>\<rparr>),
      (''pause_containers'', \<lambda>v c. c\<lparr>ac_docker := (ac_docker c)\<lparr>dk_pause_containers := split_csv v\<rparr>\<rparr>),
      (''stop_containers'', \<lambda>v c. c\<lparr>ac_docker := (ac_docker c)\<lparr>dk_stop_containers := split_csv v\<rparr>\<rparr>),
      (''logging_level'', \<lambda>v c. c\<lparr>ac_logging := (ac_logging c)\<lparr>lg_level := v\<rparr>\<rparr>),
      (''logging_file'', \<lambda>v c. c\<lparr>ac_logging := (ac_logging c)\<lparr>lg_file := v\<rparr>\<rparr>),
      (''logging_max_size_mb'', \<lambda>v c. c\<lparr>ac_logging := (ac_logging c)
         \<lparr>lg_max_size_mb := set_int v (lg_max_size_mb (ac_logging c))\<rparr>\<rparr>),
      (''logging_max_backups'', \<lambda>v c. c\<lparr>ac_logging := (ac_logging c)
         \<lparr>lg_max_backups := set_int v (lg_max_backups (ac_logging c))\<rparr>\<rparr>)]"

definition apply_cache_value :: "(string \<Rightarrow> float64 option) \<Rightarrow> string \<Rightarrow> string \<Rightarrow> agent_config \<Rightarrow>
    bool \<times> agent_config" where
  "apply_cache_value pfloat k v c =
     (case map_of (cache_setters pfloat) k of Some f \<Rightarrow> (True, f v c) | None \<Rightarrow> (False, c))"

text \<open>The cache is replayed in the order in which its map is iterated, which Go leaves open:
  \<open>pairs\<close> is some enumeration of it.\<close>

definition hydrate_pairs :: "(string \<Rightarrow> float64 option) \<Rightarrow> (string \<times> string) list \<Rightarrow> agent_config \<Rightarrow>
    agent_config" where
  "hydrate_pairs pfloat pairs c = fold (\<lambda>(k, v) c. snd (apply_cache_value pfloat k v c)) pairs c"

section \<open>Registration\<close>

definition bad_cron :: "(string \<Rightarrow> string option) \<Rightarrow> string \<Rightarrow> bool" where
  "bad_cron cron_err expr \<longleftrightarrow> expr \<noteq> [] \<and> cron_err (''0 '' @ expr) \<noteq> None"

definition cron_entries :: "agent_config \<Rightarrow> (string \<times> string) list" where
  "cron_entries cfg = [(name, ''0 '' @ expr). (expr, name) \<leftarrow> schedules cfg, expr \<noteq> []]"

lemma register_all_ok:
  "list_all (\<lambda>x. \<not> bad_cron cron_err (fst x)) ss \<Longrightarrow>
   register_all cron_err ss es = (None, es @ [(name, ''0 '' @ expr). (expr, name) \<leftarrow> ss, expr \<noteq> []])"
  by (induction cron_err ss es rule: register_all.induct) (auto simp: bad_cron_def)

lemma register_all_bad:
  "\<not> list_all (\<lambda>x. \<not> bad_cron cron_err (fst x)) ss \<Longrightarrow> fst (register_all cron_err ss es) \<noteq> None"
  by (induction cron_err ss es rule: register_all.induct) (auto simp: bad_cron_def split: option.splits)

lemma fires_reschedule:
  "fires (snd (reschedule cron_err sd)) =
     (if list_all (\<lambda>x. \<not> bad_cron cron_err (fst x)) (schedules (sd_cfg sd))
      then cron_entries (sd_cfg sd) else [])"
proof (cases "list_all (\<lambda>x. \<not> bad_cron cron_err (fst x)) (schedules (sd_cfg sd))")
  case True
  then show ?thesis using register_all_ok [OF True, of "[]"]
    by (simp add: reschedule_def sched_start_def sched_stop_def fires_def cron_entries_def)
next
  case False
  then show ?thesis using register_all_bad [OF False, of "[]"]
    by (auto simp: reschedule_def sched_start_def sched_stop_def fires_def split: prod.splits option.splits)
qed

text \<open>Rescheduling is all or nothing: when every configured expression parses, the runner
  fires exactly the configured jobs with their expressions, and otherwise, whichever expression
  is at fault and whatever ran before, it fires no job at all.\<close>

lemma reschedule_all_or_nothing:
  "fires (snd (reschedule cron_err sd)) =
     (if list_all (\<lambda>x. \<not> bad_cron cron_err (fst x)) (schedules (sd_cfg sd))
      then cron_entries (sd_cfg sd) else [])
   \<and> (fst (reschedule cron_err sd) = None \<longleftrightarrow>
        list_all (\<lambda>x. \<not> bad_cron cron_err (fst x)) (schedules (sd_cfg sd)))"
proof -
  have "fst (reschedule cron_err sd) = fst (register_all cron_err (schedules (sd_cfg sd)) [])"
    by (simp add: reschedule_def sched_start_def sched_stop_def split: prod.splits option.splits)
  moreover have "fst (register_all cron_err (schedules (sd_cfg sd)) []) = None \<longleftrightarrow>
      list_all (\<lambda>x. \<not> bad_cron cron_err (fst x)) (schedules (sd_cfg sd))"
    by (cases "list_all (\<lambda>x. \<not> bad_cron cron_err (fst x)) (schedules (sd_cfg sd))")
      (simp_all only: register_all_ok register_all_bad fst_conv simp_thms)
  ultimately show ?thesis unfolding fires_reschedule by simp
qed

text \<open>C12. The configuration handler does not look at the outcome: a scrub expression the cron
  parser rejects is stored, the request is answered with 200, and from then on no job is
  fired, the maintenance job and the status job included.\<close>

theorem config_bad_cron_stops_all:
  assumes "v \<noteq> []" and "cron_err (''0 '' @ v) = Some e" and "drv ''scrub_cron'' = None"
    and "handle_config cron_err drv now [(''scrub_cron'', v)] sd db = (code, sd', db')"
  shows "code = 200 \<and> fires sd' = [] \<and> cache_map db' ''scrub_cron'' = Some v"
proof -
  let ?sd = "sd\<lparr>sd_cfg := set_cron_key ''scrub_cron'' v (sd_cfg sd)\<rparr>"
  have "sc_scrub_cron (ac_scheduler (sd_cfg ?sd)) = v" by (simp add: set_cron_key_def)
  then have bad: "\<not> list_all (\<lambda>x. \<not> bad_cron cron_err (fst x)) (schedules (sd_cfg ?sd))"
    using assms(1,2) by (simp add: schedules_def bad_cron_def)
  have "handle_config cron_err drv now [(''scrub_cron'', v)] sd db =
      (200, snd (reschedule cron_err ?sd), snd (set_cache_value None now ''scrub_cron'' v db))"
    using assms(3) by (simp add: handle_config_def is_cron_key_def set_cache_value_def)
  then have "code = 200" "sd' = snd (reschedule cron_err ?sd)"
    "db' = snd (set_cache_value None now ''scrub_cron'' v db)" using assms(4) by simp_all
  then show ?thesis using bad fires_reschedule [of cron_err ?sd] by (simp only: if_False cache_map_set) simp
qed

definition sample_scheduler :: scheduler where
  "sample_scheduler = snd (sched_start (\<lambda>e. None)
     \<lparr>sd_cfg = default_agent_config, sd_entries = [], sd_running = False\<rparr>)"

lemma config_bad_cron_stops_all_witness:
  "fires sample_scheduler \<noteq> [] \<and>
   fires (fst (snd (handle_config (\<lambda>e. if e = ''0 x'' then Some ''bad'' else None) (\<lambda>k. None) 0
     [(''scrub_cron'', ''x'')] sample_scheduler empty_db))) = []"
proof -
  obtain code sd' db' where h: "handle_config (\<lambda>e. if e = ''0 x'' then Some ''bad'' else None)
      (\<lambda>k. None) 0 [(''scrub_cron'', ''x'')] sample_scheduler empty_db = (code, sd', db')"
    by (metis prod_cases3)
  have "fires sd' = []" using config_bad_cron_stops_all [OF _ _ _ h, of "''bad''"] by simp
  moreover have "fires sample_scheduler \<noteq> []"
    by (simp add: sample_scheduler_def sched_start_def schedules_def default_agent_config_def fires_def)
  ultimately show ?thesis using h by simp
qed

section \<open>Hydration\<close>

definition commute :: "('v \<Rightarrow> 'c \<Rightarrow> 'c) \<Rightarrow> ('v \<Rightarrow> 'c \<Rightarrow> 'c) \<Rightarrow> bool" where
  "commute f g \<longleftrightarrow> (\<forall>v w c. f v (g w c) = g w (f v c))"

text \<open>Setters of different keys commute, because they set different fields.\<close>

fun pairwise_commute :: "('v \<Rightarrow> 'c \<Rightarrow> 'c) list \<Rightarrow> bool" where
  "pairwise_commute [] = True"
| "pairwise_commute (f # fs) = (list_all (commute f) fs \<and> pairwise_commute fs)"

lemma setters_commute: "pairwise_commute (map snd (cache_setters pf))"
  unfolding cache_setters_def list.map snd_conv pairwise_commute.simps list.pred_inject commute_def
  by (intro conjI TrueI allI) simp_all

lemma pairwise_commute_nth:
  "pairwise_commute fs \<Longrightarrow> i < length fs \<Longrightarrow> j < length fs \<Longrightarrow> i \<noteq> j \<Longrightarrow> commute (fs ! i) (fs ! j)"
proof (induction fs arbitrary: i j)
  case (Cons f fs)
  have "list_all (commute f) fs" using Cons.prems by simp
  then have c: "k < length fs \<Longrightarrow> commute f (fs ! k)" for k by (simp add: list_all_length)
  then have d: "k < length fs \<Longrightarrow> commute (fs ! k) f" for k by (simp add: commute_def)
  show ?case using Cons c d by (cases i; cases j) auto
qed simp

lemma setters_commute_keys:
  assumes "map_of (cache_setters pf) k = Some f" "map_of (cache_setters pf) k' = Some g" "k \<noteq> k'"
  shows "f v (g w c) = g w (f v c)"
proof -
  let ?cs = "cache_setters pf"
  obtain i j where ij: "i < length ?cs" "?cs ! i = (k, f)" "j < length ?cs" "?cs ! j = (k', g)"
    using assms(1,2) map_of_SomeD in_set_conv_nth by metis
  then have "commute (map snd ?cs ! i) (map snd ?cs ! j)"
    using assms(3) by (intro pairwise_commute_nth [OF setters_commute]) auto
  then show ?thesis using ij by (simp add: commute_def)
qed

lemma apply_commute:
  assumes "k \<noteq> k'"
  shows "snd (apply_cache_value pf k v (snd (apply_cache_value pf k' w c))) =
    snd (apply_cache_value pf k' w (snd (apply_cache_value pf k v c)))"
  using setters_commute_keys [OF _ _ assms]
  by (auto simp: apply_cache_value_def split: option.splits)

lemma hydrate_order:
  assumes "distinct (map fst pairs)" and "mset pairs' = mset pairs"
  shows "hydrate_pairs pf pairs' c = hydrate_pairs pf pairs c"
proof -
  let ?f = "\<lambda>(k, v) c. snd (apply_cache_value pf k v c)"
  have "?f x \<circ> ?f y = ?f y \<circ> ?f x" if "x \<in> set pairs" "y \<in> set pairs" for x y
  proof (cases "x = y")
    case False
    then have "fst x \<noteq> fst y" using assms(1) that by (metis distinct_map inj_on_def)
    then show ?thesis using apply_commute by (auto simp: fun_eq_iff split: prod.splits)
  qed simp
  then have "fold ?f pairs = fold ?f pairs'"
    using assms(2) by (intro fold_multiset_equiv) auto
  then show ?thesis by (simp add: hydrate_pairs_def)
qed

lemma cron_setter:
  "map_of (cache_setters pf) ''maintenance_cron'' =
     Some (\<lambda>v c. c\<lparr>ac_scheduler := (ac_scheduler c)\<lparr>sc_maintenance_cron := v\<rparr>\<rparr>)"
  by (simp add: cache_setters_def)

lemma hydrate_maintenance_cron:
  assumes "distinct (map fst pairs)" and "(''maintenance_cron'', v) \<in> set pairs"
  shows "sc_maintenance_cron (ac_scheduler (hydrate_pairs pf pairs c)) = v"
proof -
  let ?x = "(''maintenance_cron'', v)"
  have "mset (remove1 ?x pairs @ [?x]) = mset pairs" using assms(2) by simp
  from hydrate_order [OF assms(1) this, of pf c]
  have "hydrate_pairs pf pairs c = snd (apply_cache_value pf ''maintenance_cron'' v
      (hydrate_pairs pf (remove1 ?x pairs) c))"
    by (simp add: hydrate_pairs_def)
  then show ?thesis by (simp add: apply_cache_value_def cron_setter)
qed

lemma config_values_other:
  assumes "config_values drv now vals (cfg, db, need) = (True, cfg', db', need')"
    and "k \<notin> fst ` set vals"
  shows "cache_map db' k = cache_map db k"
  using assms
proof (induction drv now vals "(cfg, db, need)" arbitrary: cfg db need rule: config_values.induct)
  case (2 drv t k' v rest cfg db need)
  show ?case
  proof (cases "drv k'")
    case None
    then have s: "set_cache_value (drv k') t k' v db = (Inr (), snd (set_cache_value None t k' v db))"
      by (simp add: set_cache_value_def)
    show ?thesis
      using "2.hyps" [OF s [symmetric] refl] "2.prems" by (simp add: s cache_map_set)
  next
    case (Some e)
    then show ?thesis using "2.prems" by (simp add: set_cache_value_def)
  qed
qed simp

lemma config_values_stored:
  assumes "config_values drv now vals (cfg, db, need) = (True, cfg', db', need')"
    and "distinct (map fst vals)" and "(k, v) \<in> set vals"
  shows "cache_map db' k = Some v"
  using assms
proof (induction drv now vals "(cfg, db, need)" arbitrary: cfg db need rule: config_values.induct)
  case (2 drv t k' v' rest cfg db need)
  show ?case
  proof (cases "drv k'")
    case None
    then have s: "set_cache_value (drv k') t k' v' db = (Inr (), snd (set_cache_value None t k' v' db))"
      by (simp add: set_cache_value_def)
    have rest: "config_values drv t rest (set_cron_key k' v' cfg, snd (set_cache_value None t k' v' db),
        need \<or> is_cron_key k') = (True, cfg', db', need')" using "2.prems"(1) s by simp
    show ?thesis
    proof (cases "(k, v) = (k', v')")
      case True
      then have "k \<notin> fst ` set rest" using "2.prems"(2) by simp
      then show ?thesis using config_values_other [OF rest] True by (simp add: cache_map_set)
    next
      case False
      then show ?thesis using "2.hyps" [OF s [symmetric] refl] "2.prems" s by auto
    qed
  next
    case (Some e)
    then show ?thesis using "2.prems" by (simp add: set_cache_value_def)
  qed
qed simp

text \<open>A saved schedule survives a restart: once the configuration handler has answered 200
  to a request that sets the maintenance schedule, replaying the cache over any configuration,
  in whatever order its map is enumerated, yields that schedule; and the order of the replay
  does not matter for any other setting either.\<close>

lemma saved_cron_survives_restart:
  assumes "handle_config cron_err drv now vals sd db = (200, sd', db')"
    and "distinct (map fst vals)" and "(''maintenance_cron'', v) \<in> set vals"
    and "distinct (map fst pairs)" and "map_of pairs = cache_map db'"
  shows "sc_maintenance_cron (ac_scheduler (hydrate_pairs pf pairs c)) = v
    \<and> (\<forall>pairs'. mset pairs' = mset pairs \<longrightarrow> hydrate_pairs pf pairs' c = hydrate_pairs pf pairs c)"
proof -
  obtain cfg need where "config_values drv now vals (sd_cfg sd, db, False) = (True, cfg, db', need)"
    using assms(1) by (auto simp: handle_config_def split: prod.splits bool.splits)
  then have "map_of pairs ''maintenance_cron'' = Some v"
    using config_values_stored assms(2,3,5) by metis
  then have "(''maintenance_cron'', v) \<in> set pairs" by (rule map_of_SomeD)
  then show ?thesis using hydrate_maintenance_cron hydrate_order assms(4) by blast
qed

end
