(* ===== verification/SnapAgent.thy ===== *)
theory SnapAgent
  imports SnapPipeline
begin

text \<open>
  The agent around the pipeline: the telemetry collector with its one event slot
  (\<^verbatim>\<open>snapraid/internal/agent/telemetry.go\<close>), the forwarder that sends frames to
  the hub (\<^verbatim>\<open>hub_forwarder.go\<close>), the manual commands of the API
  (\<^verbatim>\<open>handleExecute\<close> and \<^verbatim>\<open>runCommand\<close> in \<^verbatim>\<open>server.go\<close>)
  and the identifier of a pre-shared key that may be logged (\<^verbatim>\<open>register.go\<close>).
\<close>

section \<open>The collector (telemetry.go)\<close>

record agent_event =
  aev_id :: string
  aev_type :: string
  aev_severity :: string
  aev_message :: string
  aev_time :: int

record active_job =
  aj_type :: string
  aj_trigger :: string
  aj_started :: "int option"
  aj_progress :: int
  aj_phase :: string

record collector =
  co_agent_id :: string
  co_hostname :: string
  co_start :: int
  co_version :: string
  co_hub_connected :: bool
  co_array :: "status_report option"
  co_smart :: "smart_report option"
  co_diff :: "diff_report option"
  co_storage :: "disk_storage_info list option"
  co_job :: "active_job option"
  co_event :: "agent_event option"
  co_snapraid_version :: string
  co_flush :: bool

record telemetry_payload =
  tp_agent_id :: string
  tp_hostname :: string
  tp_time :: int
  tp_array :: "status_report option"
  tp_smart :: "smart_report option"
  tp_diff :: "diff_report option"
  tp_storage :: "disk_storage_info list option"
  tp_job :: "active_job option"
  tp_event :: "agent_event option"
  tp_version :: string
  tp_uptime :: int
  tp_hub_connected :: bool
  tp_snapraid_version :: string

definition new_collector :: "string \<Rightarrow> string \<Rightarrow> string \<Rightarrow> int \<Rightarrow> collector" where
  "new_collector i host ver now =
     \<lparr>co_agent_id = i, co_hostname = host, co_start = now, co_version = ver, co_hub_connected = False,
      co_array = None, co_smart = None, co_diff = None, co_storage = None, co_job = None,
      co_event = None, co_snapraid_version = [], co_flush = False\<rparr>"

text \<open>The flush channel has one slot: a request on a full one is dropped.\<close>

definition request_flush :: "collector \<Rightarrow> collector" where
  "request_flush c = c\<lparr>co_flush := True\<rparr>"

definition set_array_status :: "status_report \<Rightarrow> collector \<Rightarrow> collector" where
  "set_array_status r c = c\<lparr>co_array := Some (r\<lparr>st_output := []\<rparr>)\<rparr>"

definition set_smart_status :: "smart_report \<Rightarrow> collector \<Rightarrow> collector" where
  "set_smart_status r c = c\<lparr>co_smart := Some (r\<lparr>sm_output := []\<rparr>)\<rparr>"

definition set_diff_status :: "diff_report \<Rightarrow> collector \<Rightarrow> collector" where
  "set_diff_status r c = c\<lparr>co_diff := Some (r\<lparr>df_output := []\<rparr>)\<rparr>"

definition track_job :: "int \<Rightarrow> string \<Rightarrow> string \<Rightarrow> string \<Rightarrow> collector \<Rightarrow> collector" where
  "track_job now jt trig phase c =
     request_flush (c\<lparr>co_job := Some \<lparr>aj_type = jt, aj_trigger = trig, aj_started = Some now,
       aj_progress = 0, aj_phase = phase\<rparr>\<rparr>)"

definition update_progress :: "int \<Rightarrow> collector \<Rightarrow> collector" where
  "update_progress pct c =
     (case co_job c of None \<Rightarrow> c | Some j \<Rightarrow> c\<lparr>co_job := Some (j\<lparr>aj_progress := pct\<rparr>)\<rparr>)"

definition clear_job :: "collector \<Rightarrow> collector" where
  "clear_job c = request_flush (c\<lparr>co_job := None\<rparr>)"

definition emit_event :: "int \<Rightarrow> string \<Rightarrow> string \<Rightarrow> string \<Rightarrow> collector \<Rightarrow> collector" where
  "emit_event now ty sev msg c =
     c\<lparr>co_event := Some \<lparr>aev_id = itoa now, aev_type = ty, aev_severity = sev, aev_message = msg,
       aev_time = now\<rparr>\<rparr>"

definition build :: "int \<Rightarrow> collector \<Rightarrow> telemetry_payload \<times> collector" where
  "build now c =
     (\<lparr>tp_agent_id = co_agent_id c, tp_hostname = co_hostname c, tp_time = now, tp_array = co_array c,
       tp_smart = co_smart c, tp_diff = co_diff c, tp_storage = co_storage c, tp_job = co_job c,
       tp_event = co_event c, tp_version = co_version c,
       tp_uptime = (now - co_start c) div 1000000000, tp_hub_connected = co_hub_connected c,
       tp_snapraid_version = co_snapraid_version c\<rparr>,
      c\<lparr>co_event := None\<rparr>)"

text \<open>What happens to a collector: the calls of the pipeline and the sends of the forwarder,
  whose argument is whether the request reached the hub. A failed send is not repeated.\<close>

datatype co_op =
    CoEmit int string string string
  | CoTrack int string string string
  | CoProgress int
  | CoClear
  | CoSend int bool

fun co_step :: "co_op \<Rightarrow> collector \<Rightarrow> telemetry_payload list \<times> collector" where
  "co_step (CoEmit now ty sev msg) c = ([], emit_event now ty sev msg c)"
| "co_step (CoTrack now jt trig phase) c = ([], track_job now jt trig phase c)"
| "co_step (CoProgress pct) c = ([], update_progress pct c)"
| "co_step CoClear c = ([], clear_job c)"
| "co_step (CoSend now ok) c =
     (let (p, c') = build now c in (if ok then [p] else [], c'\<lparr>co_flush := False\<rparr>))"

fun co_run :: "co_op list \<Rightarrow> collector \<Rightarrow> telemetry_payload list \<times> collector" where
  "co_run [] c = ([], c)"
| "co_run (oper # ops) c =
     (let (ps, c1) = co_step oper c; (qs, c2) = co_run ops c1 in (ps @ qs, c2))"

section \<open>What reaches the hub\<close>

definition delivered_events :: "telemetry_payload list \<Rightarrow> agent_event list" where
  "delivered_events ps = List.map_filter tp_event ps"

fun emitted_events :: "co_op list \<Rightarrow> agent_event list" where
  "emitted_events [] = []"
| "emitted_events (CoEmit now ty sev msg # ops) =
     \<lparr>aev_id = itoa now, aev_type = ty, aev_severity = sev, aev_message = msg, aev_time = now\<rparr>
       # emitted_events ops"
| "emitted_events (_ # ops) = emitted_events ops"

definition slot :: "collector \<Rightarrow> agent_event list" where
  "slot c = (case co_event c of None \<Rightarrow> [] | Some e \<Rightarrow> [e])"

lemma delivered_append [simp]:
  "delivered_events (ps @ qs) = delivered_events ps @ delivered_events qs"
  by (simp add: delivered_events_def map_filter_def)

lemma delivered_single [simp]:
  "delivered_events [] = []"
  "delivered_events [p] = (case tp_event p of None \<Rightarrow> [] | Some e \<Rightarrow> [e])"
  by (auto simp: delivered_events_def map_filter_def split: option.splits)

lemma slot_simps [simp]:
  "slot (track_job now jt trig ph c) = slot c" "slot (update_progress pct c) = slot c"
  "slot (clear_job c) = slot c"
  by (simp_all add: slot_def track_job_def update_progress_def clear_job_def request_flush_def
      split: option.splits)

lemma slot_emit [simp]: "slot (emit_event now ty sev msg c) =
    [\<lparr>aev_id = itoa now, aev_type = ty, aev_severity = sev, aev_message = msg, aev_time = now\<rparr>]"
  by (simp add: slot_def emit_event_def)

lemma delivered_subseq:
  "subseq (delivered_events (fst (co_run ops c))) (slot c @ emitted_events ops)"
proof (induction ops arbitrary: c)
  case (Cons oper ops)
  show ?case
  proof (cases oper)
    case (CoEmit now ty sev msg)
    have "subseq (delivered_events (fst (co_run ops (emit_event now ty sev msg c))))
        (emitted_events (oper # ops))"
      using Cons.IH [of "emit_event now ty sev msg c"] by (simp add: CoEmit)
    then show ?thesis
      by (simp add: CoEmit Let_def case_prod_beta subseq_drop_many)
  next
    case (CoSend now ok)
    let ?c = "(snd (build now c))\<lparr>co_flush := False\<rparr>"
    have "slot ?c = []" by (simp add: slot_def build_def)
    then have "subseq (delivered_events (fst (co_run ops ?c))) (emitted_events ops)"
      using Cons.IH [of ?c] by simp
    moreover have "subseq (delivered_events (if ok then [fst (build now c)] else [])) (slot c)"
      by (simp add: slot_def build_def split: option.splits)
    ultimately show ?thesis
      by (simp add: CoSend Let_def case_prod_beta list_emb_append_mono)
  next
    case (CoTrack now jt trig ph)
    then show ?thesis using Cons.IH [of "track_job now jt trig ph c"] by (simp add: Let_def case_prod_beta)
  next
    case (CoProgress pct)
    then show ?thesis using Cons.IH [of "update_progress pct c"] by (simp add: Let_def case_prod_beta)
  next
    case CoClear
    then show ?thesis using Cons.IH [of "clear_job c"] by (simp add: Let_def case_prod_beta)
  qed
qed (simp add: slot_def)

lemma subseq_set: "subseq xs ys \<Longrightarrow> x \<in> set xs \<Longrightarrow> x \<in> set ys"
  by (metis notin_set_nthsI subseq_conv_nths)

lemma events_delivered_sub:
  "x \<in> set (delivered_events (fst (co_run ops (new_collector i host ver now)))) \<Longrightarrow>
   x \<in> set (emitted_events ops)"
  using delivered_subseq [of ops "new_collector i host ver now"] subseq_set
  by (fastforce simp: slot_def new_collector_def)

text \<open>C20. An event is delivered at most once, in order, and never invented: the events in the
  frames that reach the hub are, in their order, a subsequence of the events emitted.\<close>

theorem events_delivered_once:
  "subseq (delivered_events (fst (co_run ops (new_collector i host ver now)))) (emitted_events ops)"
  using delivered_subseq [of ops "new_collector i host ver now"]
  by (simp add: slot_def new_collector_def)

fun keeps_slot :: "co_op \<Rightarrow> bool" where
  "keeps_slot (CoEmit _ _ _ _) = False" | "keeps_slot (CoSend _ _) = False" | "keeps_slot _ = True"

lemma co_run_append:
  "co_run (xs @ ys) c =
     (let (ps, c1) = co_run xs c; (qs, c2) = co_run ys c1 in (ps @ qs, c2))"
  by (induction xs arbitrary: c) (auto simp: Let_def case_prod_beta)

lemma keeps_slot_run:
  assumes "list_all keeps_slot ops" shows "co_event (snd (co_run ops c)) = co_event c"
  using assms
proof (induction ops arbitrary: c)
  case (Cons oper ops)
  then have "co_event (snd (co_step oper c)) = co_event c"
    by (cases oper) (auto simp: track_job_def update_progress_def clear_job_def request_flush_def
        split: option.splits)
  with Cons show ?case by (simp add: Let_def case_prod_beta)
qed simp

text \<open>The slot holds one event: of two events emitted without a send between them, the
  first never reaches the hub, whatever happens before and after, as long as it is not emitted
  again; the one that is in the slot when a send succeeds is in that frame.\<close>

lemma event_overwritten:
  assumes "list_all keeps_slot mid"
    and "e = \<lparr>aev_id = itoa t1, aev_type = ty1, aev_severity = s1, aev_message = m1, aev_time = t1\<rparr>"
    and "e \<notin> set (emitted_events pre)" and "e \<notin> set (emitted_events (CoEmit t2 ty2 s2 m2 # rest))"
    and "fresh = new_collector i host ver now"
  shows "e \<notin> set (delivered_events (fst (co_run
      (pre @ CoEmit t1 ty1 s1 m1 # mid @ CoEmit t2 ty2 s2 m2 # rest) fresh)))"
    (is "e \<notin> set (delivered_events (fst (co_run (pre @ _ # mid @ ?rest) fresh)))")
proof -
  let ?c1 = "snd (co_run pre fresh)"
  let ?c2 = "snd (co_run mid (emit_event t1 ty1 s1 m1 ?c1))"
  have mid: "delivered_events (fst (co_run ops c)) = []" if "list_all keeps_slot ops" for ops c
    using that
  proof (induction ops arbitrary: c)
    case (Cons oper ops)
    then show ?case by (cases oper) (simp_all add: Let_def case_prod_beta)
  qed simp
  have "delivered_events (fst (co_run (pre @ CoEmit t1 ty1 s1 m1 # mid @ ?rest) fresh)) =
      delivered_events (fst (co_run pre fresh)) @ delivered_events (fst (co_run ?rest ?c2))"
    using mid [OF assms(1)] by (simp add: co_run_append Let_def case_prod_beta)
  moreover have "e \<notin> set (delivered_events (fst (co_run pre fresh)))"
    using events_delivered_sub [of e pre i host ver now] assms(3,5) by auto
  moreover have "e \<notin> set (delivered_events (fst (co_run ?rest ?c2)))"
  proof -
    have "delivered_events (fst (co_run ?rest ?c2)) =
        delivered_events (fst (co_run rest (emit_event t2 ty2 s2 m2 ?c2)))"
      by (simp add: Let_def case_prod_beta)
    then show ?thesis
      using delivered_subseq [of rest "emit_event t2 ty2 s2 m2 ?c2"] assms(4)
      by (auto dest: subseq_set)
  qed
  ultimately show ?thesis by simp
qed

section \<open>Manual commands (server.go)\<close>

record execute_request =
  er_command :: string
  er_bad_blocks_only :: bool
  er_disk :: string
  er_filter :: string
  er_plan :: string
  er_older_than_days :: int
  er_force_zero :: bool
  er_pre_hash :: bool

definition known_command :: "string \<Rightarrow> bool" where
  "known_command c \<longleftrightarrow> c \<in> {''sync'', ''scrub'', ''fix'', ''status'', ''smart'', ''diff'', ''touch''}"

datatype execute_response = ExBadRequest string | ExConflict string | ExAccepted

text \<open>\<open>handleExecute\<close> on a decoded request (\<open>None\<close> when decoding failed) and the answer of the
  busy probe.\<close>

definition handle_execute :: "execute_request option \<Rightarrow> bool \<Rightarrow> execute_response" where
  "handle_execute req busy =
     (case req of
        None \<Rightarrow> ExBadRequest ''invalid request body''
      | Some r \<Rightarrow>
          if \<not> known_command (er_command r) then ExBadRequest (''unknown command: '' @ er_command r)
          else if busy then ExConflict (engine_error_text EngineLocked)
          else ExAccepted)"

definition manual_sync_options :: "execute_request \<Rightarrow> sync_options" where
  "manual_sync_options r = \<lparr>so_pre_hash = er_pre_hash r, so_force_zero = er_force_zero r,
     so_force_empty = False, so_force_full = False\<rparr>"

definition manual_scrub_options :: "agent_config \<Rightarrow> execute_request \<Rightarrow> scrub_options" where
  "manual_scrub_options cfg r =
     \<lparr>sco_plan = (if er_plan r = [] then scr_plan (ac_scrub cfg) else er_plan r),
      sco_older_than_days = (if er_older_than_days r = 0 then scr_older_than_days (ac_scrub cfg)
                             else er_older_than_days r)\<rparr>"

definition manual_fix_options :: "execute_request \<Rightarrow> fix_options" where
  "manual_fix_options r = \<lparr>fo_bad_blocks_only = er_bad_blocks_only r, fo_disk = er_disk r,
     fo_filter = er_filter r\<rparr>"

definition manual_args :: "agent_config \<Rightarrow> execute_request \<Rightarrow> string list" where
  "manual_args cfg r =
     (if er_command r = ''sync'' then sync_args (manual_sync_options r)
      else if er_command r = ''scrub'' then scrub_args (manual_scrub_options cfg r)
      else if er_command r = ''fix'' then fix_args (manual_fix_options r)
      else if er_command r = ''smart'' then [''smart'', ''-v'']
      else [er_command r])"

definition manual_streams :: "execute_request \<Rightarrow> bool" where
  "manual_streams r \<longleftrightarrow> er_command r \<in> {''sync'', ''scrub'', ''fix''}"

text \<open>What a command returns: exit code, output, and the report the collector caches.\<close>

definition manual_decode :: "penv \<Rightarrow> int \<Rightarrow> agent_config \<Rightarrow> execute_request \<Rightarrow> runner \<Rightarrow>
    op_error + (int \<times> string \<times> event list)" where
  "manual_decode env now cfg r run =
     (let plain = (\<lambda>res. case res of Inl e \<Rightarrow> Inl e
                     | Inr rep \<Rightarrow> Inr (op_exit_code rep, op_output rep, []))
      in if er_command r = ''sync'' then plain (engine_sync run (manual_sync_options r))
         else if er_command r = ''scrub'' then plain (engine_scrub run (manual_scrub_options cfg r))
         else if er_command r = ''fix'' then plain (engine_fix run (manual_fix_options r))
         else if er_command r = ''status'' then
           (case engine_status now run of Inl e \<Rightarrow> Inl e
            | Inr rep \<Rightarrow> Inr (0, st_output rep, [EvArrayStatus rep]))
         else if er_command r = ''smart'' then
           (case engine_smart (pe_oor env) run of Inl e \<Rightarrow> Inl e
            | Inr rep \<Rightarrow> Inr (0, sm_output rep, [EvSmartStatus rep]))
         else if er_command r = ''diff'' then
           (case engine_diff run of Inl e \<Rightarrow> Inl e
            | Inr rep \<Rightarrow> Inr (0, df_output rep, [EvDiffStatus rep]))
         else plain (engine_touch run))"

definition agent_pipeline :: "agent_config \<Rightarrow> pipeline" where
  "agent_pipeline cfg = \<lparr>p_cfg = cfg, p_emitter = True, p_tracker = True\<rparr>"

text \<open>The end of \<open>runCommand\<close>: the engine refused or failed, or the command ran.\<close>

definition manual_failed :: "penv \<Rightarrow> pipeline \<Rightarrow> string \<Rightarrow> int \<Rightarrow> op_error \<Rightarrow> pstate \<Rightarrow> pstate" where
  "manual_failed env p cmd jid err s =
     (let s1 = (if jid > 0 then db_complete env jid (- 1) ''error'' (op_error_text err) s else s);
          s2 = log_event (EvLogLine cmd ''error'' (cmd @ '' failed: '' @ op_error_text err)) s1
      in emit p ''job_failed'' ''critical''
           (sign_red @ ''SnapRAID '' @ cmd @ '' (manual) failed: '' @ op_error_text err) s2)"

definition manual_returned :: "penv \<Rightarrow> pipeline \<Rightarrow> string \<Rightarrow> int \<Rightarrow> int \<Rightarrow> string \<Rightarrow> event list \<Rightarrow>
    pstate \<Rightarrow> pstate" where
  "manual_returned env p cmd jid code out cached s =
     (let s0 = fold log_event cached s;
          s1 = (if out \<noteq> [] then log_event (EvLogLine cmd ''info'' out) s0 else s0);
          s2 = (if jid > 0 then db_complete env jid code (exit_status code) out s1 else s1);
          msg = with_summary (sign_ok @ ''SnapRAID '' @ cmd @ '' (manual) completed'')
                  (format_command_summary cmd out)
      in if cmd = ''sync'' \<or> cmd = ''scrub''
         then let (summary, s3) = fetch_status_summary env s2
              in emit p ''job_complete'' ''info'' (with_summary msg summary) s3
         else emit p ''job_complete'' ''info'' msg s2)"

definition manual_begin :: "penv \<Rightarrow> string \<Rightarrow> pstate \<Rightarrow> int \<times> pstate" where
  "manual_begin env cmd s =
     (let (ins, s1) = db_insert env cmd ''manual'' s;
          jid = (case ins of Inl _ \<Rightarrow> 0 | Inr i \<Rightarrow> i);
          s2 = log_event (EvTrack cmd ''manual'' ''running'') s1
      in (jid, log_event (EvLogLine cmd ''info'' (cmd @ '' started (manual)'')) s2))"

definition manual_finish :: "penv \<Rightarrow> pipeline \<Rightarrow> string \<Rightarrow> int \<Rightarrow>
    op_error + (int \<times> string \<times> event list) \<Rightarrow> pstate \<Rightarrow> pstate" where
  "manual_finish env p cmd jid res s =
     (case res of
        Inl err \<Rightarrow> manual_failed env p cmd jid err s
      | Inr (code, out, cached) \<Rightarrow> manual_returned env p cmd jid code out cached s)"

definition run_command :: "penv \<Rightarrow> agent_config \<Rightarrow> execute_request \<Rightarrow> pstate \<Rightarrow> pstate" where
  "run_command env cfg r s =
     (let p = agent_pipeline cfg; cmd = er_command r;
          (jid, s1) = manual_begin env cmd s;
          (res, s2) = call_engine env p (manual_args cfg r) (manual_streams r)
                        (manual_decode env (pe_now env (ps_trace s1)) cfg r) s1
      in log_event EvClear (manual_finish env p cmd jid res s2))"

section \<open>Properties of manual commands\<close>

lemma ps_db_manual_failed: "0 < jid \<Longrightarrow> ps_db (manual_failed env p cmd jid err s) =
    ps_db (db_complete env jid (- 1) ''error'' (op_error_text err) s)"
  by (simp add: manual_failed_def)

lemma ps_db_fold_log [simp]: "ps_db (fold log_event es s) = ps_db s"
  by (induction es arbitrary: s) simp_all

lemma ps_db_manual_returned:
  assumes "0 < jid"
  shows "\<exists>s1. ps_db s1 = ps_db s \<and> ps_db (manual_returned env p cmd jid code out cached s) =
    ps_db (db_complete env jid code (exit_status code) out s1)"
proof -
  let ?s0 = "fold log_event cached s"
  let ?s1 = "if out \<noteq> [] then log_event (EvLogLine cmd ''info'' out) ?s0 else ?s0"
  have "ps_db (manual_returned env p cmd jid code out cached s) =
      ps_db (db_complete env jid code (exit_status code) out ?s1)"
    using assms ps_db_fetch by (cases "cmd = ''sync'' \<or> cmd = ''scrub''")
      (simp_all only: manual_returned_def Let_def if_True if_False case_prod_beta ps_db_emit)
  then show ?thesis by (intro exI [of _ ?s1]) simp
qed

lemma manual_begin_db:
  assumes "db_answers env"
  shows "fst (manual_begin env cmd s) = db_seq (ps_db s) + 1
    \<and> ps_db (snd (manual_begin env cmd s)) = ps_db (snd (db_insert env cmd ''manual'' s))"
proof -
  have "db_insert env cmd ''manual'' s = (Inr (db_seq (ps_db s) + 1), snd (db_insert env cmd ''manual'' s))"
    using ps_db_insert [OF assms] by blast
  then have "fst (db_insert env cmd ''manual'' s) = Inr (db_seq (ps_db s) + 1)" by (metis fst_conv)
  then show ?thesis by (simp add: manual_begin_def Let_def case_prod_beta)
qed

lemma manual_finish_db:
  assumes "0 < jid"
  shows "\<exists>s1 code st out. ps_db s1 = ps_db s
    \<and> ps_db (manual_finish env p cmd jid res s) = ps_db (db_complete env jid code st out s1)"
proof (cases res)
  case (Inl err)
  then show ?thesis using ps_db_manual_failed [OF assms] unfolding manual_finish_def by auto
next
  case (Inr x)
  then show ?thesis using ps_db_manual_returned [OF assms] unfolding manual_finish_def
    by (cases x) fastforce
qed



lemma last_log [simp]: "ps_trace (log_event e s) = ps_trace s @ [e]"
  by (simp add: log_event_def)

lemma grows_any: "quiet (\<lambda>_. False)"
  by (simp add: quiet_def)

lemma log_grows: "grows (\<lambda>_. False) [] s (log_event e s)"
  using grows_log [of "\<lambda>_. False" e s] by simp

lemma logs_grow: "grows (\<lambda>_. False) [] s (fold log_event es s)"
  using grows_logs [of "\<lambda>_. False" "\<lambda>e. e" es s] by simp

lemma fetch_grows: "grows (\<lambda>_. False) [] s (snd (fetch_status_summary env s))"
  using log_grows by (simp add: fetch_status_summary_def Let_def split: sum.splits)

lemma manual_finish_grows: "grows (\<lambda>_. False) [] s (manual_finish env p cmd jid res s)"
proof (cases res)
  case (Inl err)
  show ?thesis unfolding manual_finish_def Inl sum.case manual_failed_def Let_def
    by (rule grows_then [OF grows_then [OF _ log_grows] grows_emit [OF grows_any]])
      (simp add: grows_refl grows_complete [OF grows_any])
next
  case (Inr x)
  obtain code out cached where x: "x = (code, out, cached)" by (cases x)
  let ?s0 = "fold log_event cached s"
  let ?s1 = "if out \<noteq> [] then log_event (EvLogLine cmd ''info'' out) ?s0 else ?s0"
  let ?s2 = "if jid > 0 then db_complete env jid code (exit_status code) out ?s1 else ?s1"
  have 1: "grows (\<lambda>_. False) [] s ?s1" using grows_then [OF logs_grow log_grows] logs_grow by simp
  have 2: "grows (\<lambda>_. False) [] s ?s2" using grows_then [OF 1 grows_complete [OF grows_any]] 1 by simp
  have eq: "manual_finish env p cmd jid res s = manual_returned env p cmd jid code out cached s"
    by (simp add: manual_finish_def Inr x)
  show ?thesis
  proof (cases "cmd = ''sync'' \<or> cmd = ''scrub''")
    case True
    show ?thesis unfolding eq manual_returned_def Let_def case_prod_beta if_P [OF True]
      by (rule grows_then [OF grows_then [OF 2 fetch_grows] grows_emit [OF grows_any]])
  next
    case False
    show ?thesis unfolding eq manual_returned_def Let_def case_prod_beta if_not_P [OF False]
      by (rule grows_then [OF 2 grows_emit [OF grows_any]])
  qed
qed

lemma emit_last: "\<exists>before. ps_trace (emit (agent_pipeline cfg) ty sev msg s) = before @ [EvEmit ty sev msg]"
  by (simp add: emit_def agent_pipeline_def)

lemma manual_returned_message:
  "\<exists>before msg. ps_trace (manual_returned env (agent_pipeline cfg) cmd jid code out cached s) =
     before @ [EvEmit ''job_complete'' ''info'' msg]"
proof (cases "cmd = ''sync'' \<or> cmd = ''scrub''")
  case True
  show ?thesis unfolding manual_returned_def Let_def case_prod_beta if_P [OF True]
    using emit_last by blast
next
  case False
  show ?thesis unfolding manual_returned_def Let_def case_prod_beta if_not_P [OF False]
    using emit_last by blast
qed

lemma manual_failed_message:
  "\<exists>before msg. ps_trace (manual_failed env (agent_pipeline cfg) cmd jid err s) =
     before @ [EvEmit ''job_failed'' ''critical'' msg]"
  unfolding manual_failed_def Let_def using emit_last by blast

lemma manual_finish_message:
  "\<exists>before ty sev msg. ps_trace (manual_finish env (agent_pipeline cfg) cmd jid res s) =
      before @ [EvEmit ty sev msg]
    \<and> (case res of Inl _ \<Rightarrow> ty = ''job_failed'' \<and> sev = ''critical''
       | Inr _ \<Rightarrow> ty = ''job_complete'' \<and> sev = ''info'')"
proof (cases res)
  case (Inl err)
  then show ?thesis using manual_failed_message [of env cfg cmd jid err s]
    by (auto simp: manual_finish_def)
next
  case (Inr x)
  obtain code out cached where x: "x = (code, out, cached)" by (cases x)
  show ?thesis using manual_returned_message [of env cfg cmd jid code out cached s]
    by (auto simp: manual_finish_def Inr x)
qed

text \<open>The notification of a manual command does not depend on its exit code: whenever the
  binary ran, whatever it returned, the last notification says that the command completed, as
  information; only a command the engine refused or could not run is reported as failed.\<close>

lemma manual_outcome_message:
  "\<exists>before ty sev msg. ps_trace (run_command env cfg r s) = before @ [EvEmit ty sev msg, EvClear]
     \<and> (\<exists>t now. prefix (t @ [EvRun (manual_args cfg r)]) before \<and>
         (case manual_decode env now cfg r (pe_exec env (t @ [EvRun (manual_args cfg r)])) of
            Inl _ \<Rightarrow> ty = ''job_failed'' \<and> sev = ''critical''
          | Inr _ \<Rightarrow> ty = ''job_complete'' \<and> sev = ''info''))"
proof -
  let ?p = "agent_pipeline cfg" let ?cmd = "er_command r"
  let ?b = "manual_begin env ?cmd s" let ?now = "pe_now env (ps_trace (snd ?b))"
  let ?c = "call_engine env ?p (manual_args cfg r) (manual_streams r) (manual_decode env ?now cfg r) (snd ?b)"
  obtain before ty sev msg where
    fin: "ps_trace (manual_finish env ?p ?cmd (fst ?b) (fst ?c) (snd ?c)) = before @ [EvEmit ty sev msg]"
    and out: "case fst ?c of Inl _ \<Rightarrow> ty = ''job_failed'' \<and> sev = ''critical''
                | Inr _ \<Rightarrow> ty = ''job_complete'' \<and> sev = ''info''"
    using manual_finish_message [of env cfg ?cmd "fst ?b" "fst ?c" "snd ?c"] by blast
  then have "ps_trace (run_command env cfg r s) = before @ [EvEmit ty sev msg, EvClear]"
    by (simp add: run_command_def Let_def case_prod_beta)
  moreover have "fst ?c = manual_decode env ?now cfg r (pe_exec env (ps_trace (snd ?b) @ [EvRun (manual_args cfg r)]))"
    by (rule call_engine_result)
  moreover have "prefix (ps_trace (snd ?b) @ [EvRun (manual_args cfg r)]) before"
  proof -
    let ?n = "\<lambda>_ :: event. False"
    have "grows ?n [] (log_event (EvRun (manual_args cfg r)) (snd ?b))
        (manual_finish env ?p ?cmd (fst ?b) (fst ?c) (snd ?c))"
      by (rule grows_then [OF call_engine_progress manual_finish_grows]) (simp add: quiet_def)
    then have "prefix (ps_trace (snd ?b) @ [EvRun (manual_args cfg r)]) (before @ [EvEmit ty sev msg])"
      using fin grows_prefix by fastforce
    then show ?thesis by (auto simp: prefix_snoc)
  qed
  ultimately show ?thesis using out
    by (intro exI [of _ before] exI [of _ ty] exI [of _ sev] exI [of _ msg] conjI
        exI [of _ "ps_trace (snd ?b)"] exI [of _ ?now]) simp_all
qed

section \<open>Logging a pre-shared key (register.go)\<close>

definition psk_hint :: "string \<Rightarrow> string" where
  "psk_hint psk =
     (if length psk < 8 then ''<empty or too short>''
      else take 4 psk @ [CHR 0xE2, CHR 0x80, CHR 0xA6] @ drop (length psk - 4) psk)"

text \<open>The wait of \<open>RegisterWithHub\<close> before its attempt number \<open>n\<close>, in seconds.\<close>

fun register_backoff :: "nat \<Rightarrow> int" where
  "register_backoff 0 = 2"
| "register_backoff (Suc n) = min 60 (2 * register_backoff n)"

lemma register_backoff_bounds: "2 \<le> register_backoff n \<and> register_backoff n \<le> 60"
  by (induction n) auto

end
