(* ===== verification/KeyedStore.thy ===== *)
theory KeyedStore
  imports Prelude
begin

text \<open>
  The hubs keep their agents in a Go map from an id to a record that holds the same id. Here such
  a map is the list of its records in the order in which the map is enumerated, with distinct
  ids; \<open>keyed_store\<close> is the interface the hubs rely on, with what registering, touching and
  deleting an entry do to every lookup.
\<close>

definition ks_find :: "('e \<Rightarrow> string) \<Rightarrow> string \<Rightarrow> 'e list \<Rightarrow> 'e option" where
  "ks_find key k es = List.find (\<lambda>e. key e = k) es"

definition ks_modify :: "('e \<Rightarrow> string) \<Rightarrow> string \<Rightarrow> ('e \<Rightarrow> 'e) \<Rightarrow> 'e list \<Rightarrow> 'e list" where
  "ks_modify key k f es = map (\<lambda>e. if key e = k then f e else e) es"

definition ks_delete :: "('e \<Rightarrow> string) \<Rightarrow> string \<Rightarrow> 'e list \<Rightarrow> 'e list" where
  "ks_delete key k es = filter (\<lambda>e. key e \<noteq> k) es"

definition ks_upsert :: "('e \<Rightarrow> string) \<Rightarrow> string \<Rightarrow> ('e \<Rightarrow> 'e) \<Rightarrow> 'e \<Rightarrow> 'e list \<Rightarrow> 'e list" where
  "ks_upsert key k f e es = (if ks_find key k es = None then es @ [e] else ks_modify key k f es)"

definition ks_put :: "('e \<Rightarrow> string) \<Rightarrow> 'e \<Rightarrow> 'e list \<Rightarrow> 'e list" where
  "ks_put key e es = ks_upsert key (key e) (\<lambda>_. e) e es"

definition ks_ok :: "('e \<Rightarrow> string) \<Rightarrow> 'e list \<Rightarrow> bool" where
  "ks_ok key es \<longleftrightarrow> distinct (map key es)"

lemma ks_find_None: "ks_find key k es = None \<longleftrightarrow> k \<notin> key ` set es"
  unfolding ks_find_def by (induction es) auto

lemma ks_find_Some: "ks_find key k es = Some e \<Longrightarrow> e \<in> set es \<and> key e = k"
  unfolding ks_find_def by (induction es) (auto split: if_splits)

lemma ks_find_in:
  "ks_ok key es \<Longrightarrow> e \<in> set es \<Longrightarrow> ks_find key (key e) es = Some e"
  unfolding ks_find_def ks_ok_def by (induction es) (auto simp: rev_image_eqI)

lemma ks_find_append:
  "ks_find key k (es @ fs) = (case ks_find key k es of None \<Rightarrow> ks_find key k fs | Some e \<Rightarrow> Some e)"
  unfolding ks_find_def by (induction es) auto

lemma ks_find_modify:
  assumes "\<And>e. key (f e) = key e"
  shows "ks_find key k' (ks_modify key k f es) =
    (if k' = k then map_option f (ks_find key k es) else ks_find key k' es)"
  unfolding ks_find_def ks_modify_def by (induction es) (auto simp: assms)

lemma ks_find_delete:
  "ks_find key k' (ks_delete key k es) = (if k' = k then None else ks_find key k' es)"
  unfolding ks_find_def ks_delete_def by (induction es) auto

lemma ks_find_upsert:
  assumes "\<And>e. key (f e) = key e" and "key e = k"
  shows "ks_find key k' (ks_upsert key k f e es) =
    (if k' = k then Some (case ks_find key k es of None \<Rightarrow> e | Some x \<Rightarrow> f x) else ks_find key k' es)"
proof (cases "ks_find key k es")
  case None
  then show ?thesis using assms(2)
    by (auto simp: ks_upsert_def ks_find_append split: option.splits) (simp add: ks_find_def)+
next
  case (Some x)
  then show ?thesis using assms(1) by (auto simp: ks_upsert_def ks_find_modify)
qed

lemma ks_keys_modify:
  "(\<And>e. key (f e) = key e) \<Longrightarrow> map key (ks_modify key k f es) = map key es"
  unfolding ks_modify_def by (induction es) auto

lemma ks_ok_modify: "(\<And>e. key (f e) = key e) \<Longrightarrow> ks_ok key (ks_modify key k f es) = ks_ok key es"
  by (simp add: ks_ok_def ks_keys_modify)

lemma ks_ok_delete: "ks_ok key es \<Longrightarrow> ks_ok key (ks_delete key k es)"
  by (simp add: ks_ok_def ks_delete_def distinct_map inj_on_def)

lemma ks_ok_upsert:
  "ks_ok key es \<Longrightarrow> (\<And>e. key (f e) = key e) \<Longrightarrow> key e = k \<Longrightarrow> ks_ok key (ks_upsert key k f e es)"
  by (auto simp: ks_upsert_def ks_ok_modify ks_find_None) (auto simp: ks_ok_def)

lemma ks_find_ext:
  assumes "ks_ok key es" "ks_ok key fs" "set es = set fs"
  shows "ks_find key k es = ks_find key k fs"
proof (cases "ks_find key k es")
  case None
  then show ?thesis using assms(3) by (simp add: ks_find_None) (metis ks_find_None)
next
  case (Some e)
  then show ?thesis using ks_find_Some [OF Some] ks_find_in [OF assms(2)] assms(3) by auto
qed

section \<open>The interface of a registry\<close>

text \<open>\<open>stamp now\<close> is what a heartbeat does to an entry.\<close>

locale keyed_store =
  fixes find :: "string \<Rightarrow> 'st \<Rightarrow> 'e option"
    and touch :: "int \<Rightarrow> string \<Rightarrow> 'st \<Rightarrow> 'st"
    and delete :: "string \<Rightarrow> 'st \<Rightarrow> 'st"
    and stamp :: "int \<Rightarrow> 'e \<Rightarrow> 'e"
    and ident :: "'e \<Rightarrow> string"
    and invar :: "'st \<Rightarrow> bool"
  assumes find_touch: "find k' (touch t k s) =
      (if k' = k then map_option (stamp t) (find k s) else find k' s)"
    and find_delete: "find k' (delete k s) = (if k' = k then None else find k' s)"
    and find_ident: "find k s = Some e \<Longrightarrow> ident e = k"
    and invar_touch: "invar s \<Longrightarrow> invar (touch t k s)"
    and invar_delete: "invar s \<Longrightarrow> invar (delete k s)"
begin

text \<open>A heartbeat never makes an agent known, a deletion never leaves it known, and neither
  concerns another agent.\<close>

lemma touch_known: "find k' (touch t k s) = None \<longleftrightarrow> find k' s = None"
  by (simp add: find_touch)

lemma touches_known: "find k (fold (\<lambda>(t, i). touch t i) ts s) = None \<longleftrightarrow> find k s = None"
proof (induction ts arbitrary: s)
  case (Cons x ts)
  then show ?case by (cases x) (simp only: fold_simps comp_apply prod.case touch_known)
qed simp

lemma delete_touch_gone: "find k (fold (\<lambda>(t, i). touch t i) ts (delete k s)) = None"
  by (simp only: touches_known find_delete refl if_True)

lemma touches_other:
  "\<forall>(t, i) \<in> set ts. i \<noteq> k \<Longrightarrow> find k (fold (\<lambda>(t, i). touch t i) ts s) = find k s"
proof (induction ts arbitrary: s)
  case (Cons x ts)
  obtain t i where x: "x = (t, i)" by (cases x)
  with Cons.prems have "k \<noteq> i" by auto
  then have "find k (touch t i s) = find k s" by (simp only: find_touch if_False)
  then show ?case using Cons x by (simp del: split_paired_All)
qed simp

lemma touches_invar: "invar s \<Longrightarrow> invar (fold (\<lambda>(t, i). touch t i) ts s)"
proof (induction ts arbitrary: s)
  case (Cons x ts)
  then show ?case using invar_touch by (cases x) simp
qed simp

end

end
