(* ===== verification/SnapHub.thy ===== *)
theory SnapHub
  imports KeyedStore SnapEngine
begin

text \<open>
  The SnapRAID hub (\<^verbatim>\<open>snapraid/internal/hub\<close>): the agent registry and its file
  (\<^verbatim>\<open>registry.go\<close>), the aggregator that turns telemetry frames into notifications
  (\<^verbatim>\<open>aggregator.go\<close>), the liveness monitor (\<^verbatim>\<open>liveness.go\<close>) and
  the pre-shared key and token files (\<^verbatim>\<open>token.go\<close>). JSON encoding and decoding
  are parameters; a map is the list of its entries in the order of its enumeration, and what is
  proved holds for every order. Notifications are recorded with the id of the agent they are
  about, in the order in which they are handed to the telemetry client.
\<close>

section \<open>The registry (registry.go)\<close>

record agent_entry =
  ae_id :: string
  ae_hostname :: string
  ae_address :: string
  ae_version :: string
  ae_snapraid_version :: string
  ae_registered :: "int option"
  ae_seen :: "int option"

record registry =
  rg_agents :: "agent_entry list"
  rg_file :: "string option"

definition reg_get :: "string \<Rightarrow> registry \<Rightarrow> agent_entry option" where
  "reg_get i r = ks_find ae_id i (rg_agents r)"

text \<open>\<open>save\<close> with the encoder \<open>enc\<close> and the error of writing the file, if there is one.\<close>

definition reg_save :: "(agent_entry list \<Rightarrow> string) \<Rightarrow> string option \<Rightarrow> registry \<Rightarrow>
    string option \<times> registry" where
  "reg_save enc werr r =
     (case werr of Some e \<Rightarrow> (Some e, r) | None \<Rightarrow> (None, r\<lparr>rg_file := Some (enc (rg_agents r))\<rparr>))"

definition reg_register :: "(agent_entry list \<Rightarrow> string) \<Rightarrow> string option \<Rightarrow> int \<Rightarrow> agent_entry \<Rightarrow>
    registry \<Rightarrow> string option \<times> registry" where
  "reg_register enc werr now e r =
     reg_save enc werr (r\<lparr>rg_agents := ks_upsert ae_id (ae_id e)
       (\<lambda>x. x\<lparr>ae_address := ae_address e, ae_version := ae_version e, ae_hostname := ae_hostname e,
             ae_seen := Some now\<rparr>)
       (e\<lparr>ae_registered := Some now, ae_seen := Some now\<rparr>) (rg_agents r)\<rparr>)"

definition reg_delete :: "(agent_entry list \<Rightarrow> string) \<Rightarrow> string option \<Rightarrow> string \<Rightarrow> registry \<Rightarrow>
    bool \<times> registry" where
  "reg_delete enc werr i r =
     (if reg_get i r = None then (False, r)
      else (True, snd (reg_save enc werr (r\<lparr>rg_agents := ks_delete ae_id i (rg_agents r)\<rparr>))))"

definition stamp_seen :: "int \<Rightarrow> agent_entry \<Rightarrow> agent_entry" where
  "stamp_seen now e = e\<lparr>ae_seen := Some now\<rparr>"

definition reg_touch :: "int \<Rightarrow> string \<Rightarrow> registry \<Rightarrow> registry" where
  "reg_touch now i r = r\<lparr>rg_agents := ks_modify ae_id i (stamp_seen now) (rg_agents r)\<rparr>"

definition reg_set_snapraid_version :: "string \<Rightarrow> string \<Rightarrow> registry \<Rightarrow> registry" where
  "reg_set_snapraid_version i v r =
     (if v = [] then r
      else r\<lparr>rg_agents := ks_modify ae_id i (\<lambda>e. e\<lparr>ae_snapraid_version := v\<rparr>) (rg_agents r)\<rparr>)"

text \<open>\<open>load\<close>: entries without an id are skipped, a later entry replaces an earlier one of its
  id.\<close>

definition load_entries :: "agent_entry list \<Rightarrow> agent_entry list" where
  "load_entries es = fold (\<lambda>e as. if ae_id e = [] then as else ks_put ae_id e as) es []"

definition new_registry :: "(string \<Rightarrow> string + agent_entry list) \<Rightarrow> string option \<Rightarrow> string + registry" where
  "new_registry dec file =
     (case file of
        None \<Rightarrow> Inr \<lparr>rg_agents = [], rg_file = None\<rparr>
      | Some data \<Rightarrow>
          (case dec data of
             Inl e \<Rightarrow> Inl (''load registry: parse registry: '' @ e)
           | Inr es \<Rightarrow> Inr \<lparr>rg_agents = load_entries es, rg_file = Some data\<rparr>))"

definition agent_online_threshold :: int where
  "agent_online_threshold = 120000000000"

definition entry_online :: "int \<Rightarrow> agent_entry \<Rightarrow> bool" where
  "entry_online now e =
     (case ae_seen e of None \<Rightarrow> False | Some t \<Rightarrow> now - t < agent_online_threshold)"

definition list_views :: "int \<Rightarrow> registry \<Rightarrow> (agent_entry \<times> string) list" where
  "list_views now r =
     map (\<lambda>e. (e, if entry_online now e then ''online'' else ''offline'')) (rg_agents r)"

section \<open>The aggregator's state (aggregator.go)\<close>

record tracked_job =
  tj_type :: string
  tj_phase :: string
  tj_trigger :: string

record hub_event =
  he_id :: string
  he_type :: string
  he_severity :: string
  he_message :: string

record hub_smart_disk =
  hd_disk_name :: string
  hd_device :: string
  hd_status :: string

record agent_frame =
  fr_job :: "tracked_job option"
  fr_smart :: "hub_smart_disk list option"
  fr_event :: "hub_event option"
  fr_version :: "string option"

record notification =
  nt_type :: string
  nt_severity :: string
  nt_source :: string
  nt_host :: string
  nt_message :: string
  nt_time :: string

record hub =
  hb_registry :: registry
  hb_telemetry :: bool
  hb_jobs :: "string \<rightharpoonup> tracked_job"
  hb_events :: "string \<rightharpoonup> string"
  hb_gates :: "string \<rightharpoonup> string"
  hb_smart :: "string set"
  hb_online :: "string \<rightharpoonup> bool"
  hb_payloads :: "string \<rightharpoonup> string"
  hb_sent :: "(string \<times> notification) list"
  hb_upstream :: "(string \<times> string \<times> string) list"

definition emit_notification :: "int \<Rightarrow> string \<Rightarrow> string \<Rightarrow> string \<Rightarrow> string \<Rightarrow> hub \<Rightarrow> hub" where
  "emit_notification now agent ty sev msg h =
     (let host = (case reg_get agent (hb_registry h) of
                    None \<Rightarrow> agent
                  | Some e \<Rightarrow> if ae_hostname e = [] then agent else ae_hostname e)
      in h\<lparr>hb_sent := hb_sent h @ [(agent, \<lparr>nt_type = ty, nt_severity = sev,
            nt_source = ''snapraid-hub'', nt_host = host, nt_message = msg, nt_time = rfc3339 now\<rparr>)]\<rparr>)"

definition sign_hub_play :: string where
  "sign_hub_play = [CHR 0xE2, CHR 0x96, CHR 0xB6, CHR 0xEF, CHR 0xB8, CHR 0x8F, CHR '' '']"

definition sign_hub_ok :: string where
  "sign_hub_ok = [CHR 0xE2, CHR 0x9C, CHR 0x85, CHR '' '']"

definition sign_hub_cycle :: string where
  "sign_hub_cycle = [CHR 0xF0, CHR 0x9F, CHR 0x94, CHR 0x84, CHR '' '']"

definition sign_hub_warn :: string where
  "sign_hub_warn = [CHR 0xE2, CHR 0x9A, CHR 0xA0, CHR 0xEF, CHR 0xB8, CHR 0x8F]"

definition sign_hub_red :: string where
  "sign_hub_red = [CHR 0xF0, CHR 0x9F, CHR 0x94, CHR 0xB4]"

section \<open>Job transitions, SMART reports and agent events\<close>

definition started_type :: "string \<Rightarrow> string" where
  "started_type trig = (if trig = ''manual'' then ''manual_job_started''
     else if trig = ''scheduled'' then ''scheduled_job_started'' else ''job_started'')"

definition complete_type :: "string \<Rightarrow> string" where
  "complete_type trig = (if trig = ''manual'' then ''manual_job_complete''
     else if trig = ''scheduled'' then ''scheduled_job_complete'' else ''job_complete'')"

definition evaluate_job :: "int \<Rightarrow> string \<Rightarrow> tracked_job option \<Rightarrow> hub \<Rightarrow> hub" where
  "evaluate_job now agent job h =
     (case (job, hb_jobs h agent) of
        (Some j, None) \<Rightarrow>
          emit_notification now agent (started_type (tj_trigger j)) ''info''
            (sign_hub_play @ ''SnapRAID '' @ tj_type j @ '' started ('' @ tj_trigger j @ '') on '' @ agent)
            (h\<lparr>hb_jobs := (hb_jobs h)(agent \<mapsto> j)\<rparr>)
      | (None, Some prev) \<Rightarrow>
          emit_notification now agent (complete_type (tj_trigger prev)) ''info''
            (sign_hub_ok @ ''SnapRAID '' @ tj_type prev @ '' completed ('' @ tj_trigger prev @ '') on '' @ agent)
            (h\<lparr>hb_jobs := (hb_jobs h)(agent := None)\<rparr>)
      | (Some j, Some prev) \<Rightarrow>
          (let h1 = h\<lparr>hb_jobs := (hb_jobs h)(agent \<mapsto>
                      \<lparr>tj_type = tj_type j, tj_phase = tj_phase j, tj_trigger = []\<rparr>)\<rparr>
           in if tj_phase prev \<noteq> [] \<and> tj_phase j \<noteq> [] \<and> tj_phase prev \<noteq> tj_phase j
              then emit_notification now agent ''phase_complete'' ''info''
                     (sign_hub_cycle @ ''SnapRAID '' @ tj_phase prev @
                      '' '' @ [CHR 0xE2, CHR 0x86, CHR 0x92] @ '' '' @ tj_phase j @ '' on '' @ agent) h1
              else h1)
      | (None, None) \<Rightarrow> h)"

definition evaluate_disk :: "int \<Rightarrow> string \<Rightarrow> hub_smart_disk \<Rightarrow> hub \<Rightarrow> hub" where
  "evaluate_disk now agent d h =
     (let key = agent @ '':'' @ hd_device d in
      if hd_status d \<noteq> ''FAIL'' \<and> hd_status d \<noteq> ''PREFAIL'' then h
      else if key \<in> hb_smart h then h
      else let fail = (hd_status d = ''FAIL'')
           in emit_notification now agent ''smart_warning'' (if fail then ''critical'' else ''warning'')
                ((if fail then sign_hub_red else sign_hub_warn) @ '' SMART '' @ hd_status d @ '': '' @
                 hd_disk_name d @ '' ('' @ hd_device d @ '') on '' @ agent)
                (h\<lparr>hb_smart := insert key (hb_smart h)\<rparr>))"

definition evaluate_smart :: "int \<Rightarrow> string \<Rightarrow> hub_smart_disk list option \<Rightarrow> hub \<Rightarrow> hub" where
  "evaluate_smart now agent smart h =
     (case smart of None \<Rightarrow> h | Some ds \<Rightarrow> fold (evaluate_disk now agent) ds h)"

definition evaluate_event :: "int \<Rightarrow> string \<Rightarrow> hub_event option \<Rightarrow> hub \<Rightarrow> hub" where
  "evaluate_event now agent evt h =
     (case evt of None \<Rightarrow> h
      | Some e \<Rightarrow>
          if he_id e = [] then h
          else if (case hb_events h agent of None \<Rightarrow> [] | Some i \<Rightarrow> i) = he_id e then h
          else
            let h1 = h\<lparr>hb_events := (hb_events h)(agent \<mapsto> he_id e)\<rparr>;
                gate = (case hb_gates h1 agent of None \<Rightarrow> [] | Some m \<Rightarrow> m)
            in if he_type e = ''gate_failed'' \<and> gate = he_message e then h1
               else
                 let h2 = (if he_type e = ''gate_failed''
                           then h1\<lparr>hb_gates := (hb_gates h1)(agent \<mapsto> he_message e)\<rparr> else h1);
                     h3 = (if he_type e = ''maintenance_started'' \<or> he_type e = ''maintenance_complete''
                           then h2\<lparr>hb_gates := (hb_gates h2)(agent := None)\<rparr> else h2)
                 in emit_notification now agent (he_type e) (he_severity e)
                      (he_message e @ '' on '' @ agent) h3)"

text \<open>\<open>evaluateTelemetry\<close> and \<open>IngestAgentFrame\<close>: \<open>dec\<close> decodes the frame, \<open>enc\<close> encodes the
  frame for upstream, whose channel has room or not.\<close>

definition evaluate_telemetry :: "(string \<Rightarrow> agent_frame option) \<Rightarrow> int \<Rightarrow> string \<Rightarrow> string \<Rightarrow> hub \<Rightarrow> hub" where
  "evaluate_telemetry dec now agent raw h =
     (if \<not> hb_telemetry h then h
      else case dec raw of None \<Rightarrow> h
        | Some fr \<Rightarrow>
            let h1 = (case fr_version fr of None \<Rightarrow> h
                      | Some v \<Rightarrow> h\<lparr>hb_registry := reg_set_snapraid_version agent v (hb_registry h)\<rparr>)
            in evaluate_event now agent (fr_event fr)
                 (evaluate_smart now agent (fr_smart fr)
                   (evaluate_job now agent (fr_job fr) h1)))"

definition ingest_agent_frame :: "(string \<Rightarrow> agent_frame option) \<Rightarrow> int \<Rightarrow> bool \<Rightarrow> string \<Rightarrow> string \<Rightarrow>
    hub \<Rightarrow> hub" where
  "ingest_agent_frame dec now room agent raw h =
     (case reg_get agent (hb_registry h) of
        None \<Rightarrow> h
      | Some entry \<Rightarrow>
          let h1 = h\<lparr>hb_registry := reg_touch now agent (hb_registry h),
                     hb_payloads := (hb_payloads h)(agent \<mapsto> raw)\<rparr>;
              h2 = evaluate_telemetry dec now agent raw h1
          in if room then h2\<lparr>hb_upstream := hb_upstream h2 @ [(agent, ae_hostname entry, raw)]\<rparr> else h2)"

definition emit_command_failure :: "int \<Rightarrow> string \<Rightarrow> string \<Rightarrow> string \<Rightarrow> hub \<Rightarrow> hub" where
  "emit_command_failure now agent action err h =
     (if \<not> hb_telemetry h then h
      else emit_notification now agent ''job_failed'' ''critical''
             (sign_hub_red @ '' SnapRAID '' @ action @ '' failed on '' @ agent @ '': '' @ err) h)"

section \<open>The liveness monitor (liveness.go)\<close>

definition seed_liveness :: "int \<Rightarrow> hub \<Rightarrow> hub" where
  "seed_liveness now h =
     fold (\<lambda>(e, st) h. h\<lparr>hb_online := (hb_online h)(ae_id e \<mapsto> (st = ''online''))\<rparr>)
       (list_views now (hb_registry h)) h"

definition check_view :: "int \<Rightarrow> agent_entry \<times> string \<Rightarrow> hub \<Rightarrow> hub" where
  "check_view now v h =
     (let e = fst v; online = (snd v = ''online''); prev = hb_online h (ae_id e);
          h1 = h\<lparr>hb_online := (hb_online h)(ae_id e \<mapsto> online)\<rparr>;
          name = (if ae_hostname e \<noteq> [] then ae_hostname e else ae_id e)
      in if prev = None \<or> prev = Some online then h1
         else if online
         then emit_notification now (ae_id e) ''snapraid_agent_online'' ''info''
                (''SnapRAID agent '' @ go_quote name @ '' is back online'') h1
         else emit_notification now (ae_id e) ''snapraid_agent_offline'' ''warning''
                (''SnapRAID agent '' @ go_quote name @ '' is offline (last seen '' @
                 (case ae_seen e of None \<Rightarrow> ''never'' | Some t \<Rightarrow> rfc3339 t) @ '')'') h1)"

definition check_liveness :: "int \<Rightarrow> hub \<Rightarrow> hub" where
  "check_liveness now h =
     (if \<not> hb_telemetry h then h
      else fold (check_view now) (list_views now (hb_registry h)) h)"

section \<open>Key and token files (token.go)\<close>

text \<open>\<open>rand\<close> are the random bytes or the error of reading them, \<open>file\<close> is the key file or the
  error of reading it (\<open>Inl None\<close> when it does not exist), \<open>werr\<close> the error of writing it. The
  result is the key and the file afterwards.\<close>

definition hex_encode :: "string \<Rightarrow> string" where
  "hex_encode bs = concat (map (\<lambda>b. [hex_digit (of_char b div 16), hex_digit (of_char b mod 16)]) bs)"

definition generate_random :: "string + string \<Rightarrow> string + string" where
  "generate_random rand =
     (case rand of Inl e \<Rightarrow> Inl (''generating random bytes: '' @ e) | Inr bs \<Rightarrow> Inr (hex_encode bs))"

definition load_or_generate_psk :: "string + string \<Rightarrow> string option + string \<Rightarrow> string option \<Rightarrow>
    (string + string) \<times> string option" where
  "load_or_generate_psk rand file werr =
     (let old = (case file of Inl _ \<Rightarrow> None | Inr data \<Rightarrow> Some data);
          fresh = (case generate_random rand of
                     Inl e \<Rightarrow> (Inl e, old)
                   | Inr psk \<Rightarrow> (case werr of Some e \<Rightarrow> (Inl e, old)
                                 | None \<Rightarrow> (Inr psk, Some (psk @ [CHR 0x0A]))))
      in case file of
           Inl (Some e) \<Rightarrow> (Inl (''reading PSK file: '' @ e), old)
         | Inl None \<Rightarrow> fresh
         | Inr data \<Rightarrow> if trim_space data \<noteq> [] then (Inr (trim_space data), old) else fresh)"

section \<open>The registry as a keyed store\<close>

lemma reg_get_touch:
  "reg_get k' (reg_touch t k r) = (if k' = k then map_option (stamp_seen t) (reg_get k r) else reg_get k' r)"
  by (simp add: reg_get_def reg_touch_def ks_find_modify stamp_seen_def)

lemma reg_save_agents [simp]: "rg_agents (snd (reg_save enc werr r)) = rg_agents r"
  by (simp add: reg_save_def split: option.splits)

lemma reg_delete_agents: "rg_agents (snd (reg_delete enc werr i r)) = ks_delete ae_id i (rg_agents r)"
  by (auto simp: reg_delete_def reg_get_def ks_find_None ks_delete_def intro!: filter_True [symmetric])

lemma reg_get_delete:
  "reg_get k' (snd (reg_delete enc werr k r)) = (if k' = k then None else reg_get k' r)"
  by (simp add: reg_get_def reg_delete_agents ks_find_delete)

definition reg_ok :: "registry \<Rightarrow> bool" where
  "reg_ok r \<longleftrightarrow> ks_ok ae_id (rg_agents r)"

interpretation snap_registry: keyed_store reg_get reg_touch
  "\<lambda>i r. snd (reg_delete enc werr i r)" stamp_seen ae_id reg_ok for enc werr
proof
  show "reg_get k s = Some e \<Longrightarrow> ae_id e = k" for k s e
    using ks_find_Some unfolding reg_get_def by metis
  show "reg_ok s \<Longrightarrow> reg_ok (reg_touch t k s)" for s t k
    by (simp add: reg_ok_def reg_touch_def ks_ok_modify stamp_seen_def)
  show "reg_ok s \<Longrightarrow> reg_ok (snd (reg_delete enc werr k s))" for s k
    by (simp add: reg_ok_def reg_delete_agents ks_ok_delete)
qed (simp_all add: reg_get_touch reg_get_delete)

lemma load_entries_id:
  assumes "ks_ok ae_id es" and "list_all (\<lambda>e. ae_id e \<noteq> []) es"
  shows "load_entries es = es"
proof -
  have "fold (\<lambda>e as. if ae_id e = [] then as else ks_put ae_id e as) es as = as @ es"
    if "distinct (map ae_id (as @ es))" "list_all (\<lambda>e. ae_id e \<noteq> []) es" for as
    using that
  proof (induction es arbitrary: as)
    case (Cons e es)
    then have "ks_find ae_id (ae_id e) as = None" by (auto simp: ks_find_None)
    with Cons show ?case by (simp add: ks_put_def ks_upsert_def)
  qed simp
  from this [of "[]"] show ?thesis using assms by (simp add: load_entries_def ks_ok_def)
qed

lemma reg_ok_register:
  "reg_ok r \<Longrightarrow> reg_ok (snd (reg_register enc werr now e r))"
  by (simp add: reg_register_def reg_ok_def ks_ok_upsert)

text \<open>A registration survives a restart of the hub: when Register reports no error, opening
  the registry from the file it wrote gives exactly the agents it holds, the registered one
  among them with the address, host name and version it announced, for every JSON codec that
  decodes the list it has encoded.\<close>

lemma registration_survives_restart:
  assumes "dec (enc (rg_agents r1)) = Inr (rg_agents r1)"
    and "reg_ok r" and "list_all (\<lambda>x. ae_id x \<noteq> []) (rg_agents r)" and "ae_id e \<noteq> []"
    and "reg_register enc werr now e r = (None, r1)"
  shows "\<exists>r2. new_registry dec (rg_file r1) = Inr r2 \<and> rg_agents r2 = rg_agents r1
    \<and> map_option (\<lambda>x. (ae_address x, ae_hostname x, ae_version x, ae_seen x)) (reg_get (ae_id e) r2) =
        Some (ae_address e, ae_hostname e, ae_version e, Some now)"
proof -
  have stored: "rg_file r1 = Some (enc (rg_agents r1))"
    using assms(5) by (auto simp: reg_register_def reg_save_def split: option.splits)
  have r1: "r1 = snd (reg_register enc werr now e r)" using assms(5) by simp
  have ok: "ks_ok ae_id (rg_agents r1)" using reg_ok_register [OF assms(2)] by (simp add: r1 reg_ok_def)
  have "list_all (\<lambda>x. ae_id x \<noteq> []) (rg_agents r1)"
    using assms(3,4) by (auto simp: r1 reg_register_def ks_upsert_def ks_modify_def list_all_iff)
  then have "new_registry dec (rg_file r1) = Inr \<lparr>rg_agents = rg_agents r1, rg_file = rg_file r1\<rparr>"
    using load_entries_id [OF ok] by (simp add: new_registry_def stored assms(1))
  moreover have "map_option (\<lambda>x. (ae_address x, ae_hostname x, ae_version x, ae_seen x))
      (ks_find ae_id (ae_id e) (rg_agents r1)) = Some (ae_address e, ae_hostname e, ae_version e, Some now)"
    by (simp add: r1 reg_register_def ks_find_upsert split: option.splits)
  ultimately show ?thesis by (simp add: reg_get_def)
qed

definition sample_entry :: agent_entry where
  "sample_entry = \<lparr>ae_id = ''nas'', ae_hostname = ''nas1'', ae_address = ''10.0.0.2'', ae_version = ''1'',
     ae_snapraid_version = [], ae_registered = None, ae_seen = None\<rparr>"

section \<open>Liveness\<close>

lemma emit_online [simp]: "hb_online (emit_notification now a ty sev msg h) = hb_online h"
  and emit_telemetry [simp]: "hb_telemetry (emit_notification now a ty sev msg h) = hb_telemetry h"
  and emit_registry [simp]: "hb_registry (emit_notification now a ty sev msg h) = hb_registry h"
  and emit_jobs [simp]: "hb_jobs (emit_notification now a ty sev msg h) = hb_jobs h"
  and emit_gates [simp]: "hb_gates (emit_notification now a ty sev msg h) = hb_gates h"
  and emit_events [simp]: "hb_events (emit_notification now a ty sev msg h) = hb_events h"
  and emit_smart [simp]: "hb_smart (emit_notification now a ty sev msg h) = hb_smart h"
  by (simp_all add: emit_notification_def Let_def)

text \<open>The types of the notifications about one agent.\<close>

definition types_about :: "string \<Rightarrow> hub \<Rightarrow> string list" where
  "types_about i h = [nt_type n. (a, n) \<leftarrow> hb_sent h, a = i]"

lemma types_emit [simp]: "types_about i (emit_notification now a ty sev msg h) =
    types_about i h @ (if a = i then [ty] else [])"
  by (simp add: types_about_def emit_notification_def Let_def)

lemma types_update [simp]:
  "types_about i (h\<lparr>hb_online := x\<rparr>) = types_about i h"
  "types_about i (h\<lparr>hb_jobs := j\<rparr>) = types_about i h"
  "types_about i (h\<lparr>hb_registry := r\<rparr>) = types_about i h"
  "types_about i (h\<lparr>hb_events := ev\<rparr>) = types_about i h"
  "types_about i (h\<lparr>hb_gates := g\<rparr>) = types_about i h"
  by (simp_all add: types_about_def)

text \<open>The specification: a change of the observed state is announced once, the first observation
  of an agent is not announced.\<close>

fun edges :: "bool option \<Rightarrow> bool list \<Rightarrow> string list" where
  "edges k [] = []"
| "edges None (b # bs) = edges (Some b) bs"
| "edges (Some a) (b # bs) =
     (if a = b then [] else [if b then ''snapraid_agent_online'' else ''snapraid_agent_offline'']) @
     edges (Some b) bs"

fun last_known :: "bool option \<Rightarrow> bool list \<Rightarrow> bool option" where
  "last_known k [] = k"
| "last_known k (b # bs) = last_known (Some b) bs"

lemma last_known_append: "last_known k (xs @ ys) = last_known (last_known k xs) ys"
  by (induction xs arbitrary: k) simp_all

lemma edges_append: "edges k (xs @ ys) = edges k xs @ edges (last_known k xs) ys"
  by (induction k xs rule: edges.induct) simp_all

definition observed :: "string \<Rightarrow> (agent_entry \<times> string) list \<Rightarrow> bool list" where
  "observed i vs = [st = ''online''. (e, st) \<leftarrow> vs, ae_id e = i]"

lemma check_view_other:
  "ae_id (fst v) \<noteq> i \<Longrightarrow> hb_online (check_view now v h) i = hb_online h i \<and>
     types_about i (check_view now v h) = types_about i h"
  by (simp add: check_view_def Let_def)

lemma check_view_same:
  "ae_id (fst v) = i \<Longrightarrow> hb_online (check_view now v h) i = Some (snd v = ''online'') \<and>
     types_about i (check_view now v h) = types_about i h @ edges (hb_online h i) [snd v = ''online'']"
  by (cases "hb_online h i") (auto simp: check_view_def Let_def)

lemma check_views:
  "hb_online (fold (check_view now) vs h) i = last_known (hb_online h i) (observed i vs) \<and>
   types_about i (fold (check_view now) vs h) = types_about i h @ edges (hb_online h i) (observed i vs)"
proof (induction vs arbitrary: h)
  case (Cons v vs)
  show ?case
  proof (cases "ae_id (fst v) = i")
    case True
    then have "observed i (v # vs) = [snd v = ''online''] @ observed i vs"
      by (simp add: observed_def case_prod_beta)
    then show ?thesis
      using Cons.IH [of "check_view now v h"] check_view_same [OF True, of now h]
        edges_append [of "hb_online h i" "[snd v = ''online'']" "observed i vs"]
      by simp
  next
    case False
    then have "observed i (v # vs) = observed i vs" by (simp add: observed_def case_prod_beta)
    then show ?thesis
      using Cons.IH [of "check_view now v h"] check_view_other [OF False, of now h] by simp
  qed
qed (simp add: observed_def)

text \<open>A run of the monitor: at each tick the registry is what heartbeats and registrations have
  made of it.\<close>

fun monitor :: "(int \<times> registry) list \<Rightarrow> hub \<Rightarrow> hub" where
  "monitor [] h = h"
| "monitor ((now, r) # ticks) h = monitor ticks (check_liveness now (h\<lparr>hb_registry := r\<rparr>))"

lemma check_views_telemetry: "hb_telemetry (fold (check_view now) vs h) = hb_telemetry h"
proof (induction vs arbitrary: h)
  case (Cons v vs)
  have "hb_telemetry (check_view now v h) = hb_telemetry h" by (simp add: check_view_def Let_def)
  then show ?case using Cons by simp
qed simp

text \<open>The liveness monitor is an edge detector: over any run of ticks, with whatever registry
  each of them finds, the liveness notifications about an agent are exactly the changes of its
  observed online state, each announced once, and none for the first observation.\<close>

lemma monitor_announces_edges:
  "types_about i (monitor ticks (h\<lparr>hb_telemetry := True\<rparr>)) =
     types_about i h @ edges (hb_online h i) (concat (map (\<lambda>(now, r). observed i (list_views now r)) ticks))"
proof -
  have "types_about i (monitor ticks h') =
      types_about i h' @ edges (hb_online h' i) (concat (map (\<lambda>(now, r). observed i (list_views now r)) ticks))"
    if "hb_telemetry h'" for h'
    using that
  proof (induction ticks arbitrary: h')
    case (Cons t ticks)
    obtain now r where t: "t = (now, r)" by (cases t)
    let ?h = "fold (check_view now) (list_views now r) (h'\<lparr>hb_registry := r\<rparr>)"
    have "monitor (t # ticks) h' = monitor ticks ?h"
      using Cons.prems by (simp add: t check_liveness_def)
    moreover have "hb_telemetry ?h" using Cons.prems by (simp add: check_views_telemetry)
    ultimately show ?case
      using Cons.IH [of ?h] check_views [of now "list_views now r" "h'\<lparr>hb_registry := r\<rparr>" i]
      by (simp add: t edges_append)
  qed simp
  from this [of "h\<lparr>hb_telemetry := True\<rparr>"] show ?thesis by (simp add: types_about_def)
qed

section \<open>Job and gate notifications\<close>

text \<open>The trigger of a job is lost after its second frame: an agent without a tracked job that
  reports the same job in two frames and then none produces a completion of the generic type,
  with an empty trigger in its text, whether the job was manual or scheduled.\<close>

lemma completion_loses_trigger:
  "last (hb_sent (evaluate_job t3 a None (evaluate_job t2 a (Some j) (evaluate_job t1 a (Some j)
      (h\<lparr>hb_jobs := (hb_jobs h)(a := None)\<rparr>))))) =
   (a, \<lparr>nt_type = ''job_complete'', nt_severity = ''info'', nt_source = ''snapraid-hub'',
       nt_host = (case reg_get a (hb_registry h) of None \<Rightarrow> a
                  | Some e \<Rightarrow> if ae_hostname e = [] then a else ae_hostname e),
       nt_message = sign_hub_ok @ ''SnapRAID '' @ tj_type j @ '' completed () on '' @ a,
       nt_time = rfc3339 t3\<rparr>)"
  by (simp add: evaluate_job_def complete_type_def emit_notification_def Let_def)

definition gate_event :: "string \<Rightarrow> string \<Rightarrow> hub_event" where
  "gate_event i msg = \<lparr>he_id = i, he_type = ''gate_failed'', he_severity = ''warning'', he_message = msg\<rparr>"

definition start_event :: "string \<Rightarrow> hub_event" where
  "start_event i = \<lparr>he_id = i, he_type = ''maintenance_started'', he_severity = ''info'',
     he_message = ''started''\<rparr>"

definition sample_hub :: "agent_entry list \<Rightarrow> hub" where
  "sample_hub es = \<lparr>hb_registry = \<lparr>rg_agents = es, rg_file = None\<rparr>, hb_telemetry = True,
     hb_jobs = Map.empty, hb_events = Map.empty, hb_gates = Map.empty, hb_smart = {},
     hb_online = Map.empty, hb_payloads = Map.empty, hb_sent = [], hb_upstream = []\<rparr>"

definition known_or :: "string option \<Rightarrow> string" where
  "known_or x = (case x of None \<Rightarrow> [] | Some s \<Rightarrow> s)"

lemma gate_event_new:
  assumes "known_or (hb_events h a) = i" and "j \<noteq> []" and "i \<noteq> j" and "hb_gates h a = None" and "msg \<noteq> []"
  shows "types_about a (evaluate_event t a (Some (gate_event j msg)) h) = types_about a h @ [''gate_failed''] \<and>
    hb_gates (evaluate_event t a (Some (gate_event j msg)) h) a = Some msg \<and>
    hb_events (evaluate_event t a (Some (gate_event j msg)) h) a = Some j"
proof -
  have "evaluate_event t a (Some (gate_event j msg)) h =
      emit_notification t a ''gate_failed'' ''warning'' (msg @ '' on '' @ a)
        (h\<lparr>hb_events := (hb_events h)(a \<mapsto> j), hb_gates := (hb_gates h)(a \<mapsto> msg)\<rparr>)"
    using assms by (simp add: evaluate_event_def gate_event_def Let_def known_or_def)
  then show ?thesis by simp
qed

lemma gate_event_again:
  assumes "known_or (hb_events h a) = i" and "j \<noteq> []" and "i \<noteq> j" and "hb_gates h a = Some msg"
  shows "types_about a (evaluate_event t a (Some (gate_event j msg)) h) = types_about a h"
proof -
  have "evaluate_event t a (Some (gate_event j msg)) h = h\<lparr>hb_events := (hb_events h)(a \<mapsto> j)\<rparr>"
    using assms by (simp add: evaluate_event_def gate_event_def Let_def known_or_def)
  then show ?thesis by simp
qed

lemma start_event_new:
  assumes "known_or (hb_events h a) = i" and "j \<noteq> []" and "i \<noteq> j"
  shows "types_about a (evaluate_event t a (Some (start_event j)) h) =
      types_about a h @ [''maintenance_started''] \<and>
    hb_gates (evaluate_event t a (Some (start_event j)) h) a = None \<and>
    hb_events (evaluate_event t a (Some (start_event j)) h) a = Some j"
proof -
  have "evaluate_event t a (Some (start_event j)) h =
      emit_notification t a ''maintenance_started'' ''info'' (''started on '' @ a)
        (h\<lparr>hb_events := (hb_events h)(a \<mapsto> j), hb_gates := (hb_gates h)(a := None)\<rparr>)"
    using assms by (simp add: evaluate_event_def start_event_def Let_def known_or_def)
  then show ?thesis by simp
qed

text \<open>Repeated gate failures: the same failure reported again is suppressed when nothing but
  it was reported in between, and is announced again when the start of the maintenance run
  was; a scheduled run announces its start each time, so the same failure notifies in every run
  whose start event the hub receives.\<close>

lemma gate_failures_deduplicated:
  assumes "distinct [i1, i2, i3, []]" and "msg \<noteq> []" and "hb_gates h a = None" and "hb_events h a = None"
  shows "types_about a (evaluate_event t2 a (Some (gate_event i2 msg))
      (evaluate_event t1 a (Some (gate_event i1 msg)) h)) = types_about a h @ [''gate_failed''] \<and>
    types_about a (evaluate_event t3 a (Some (gate_event i3 msg))
      (evaluate_event t2 a (Some (start_event i2)) (evaluate_event t1 a (Some (gate_event i1 msg)) h))) =
      types_about a h @ [''gate_failed'', ''maintenance_started'', ''gate_failed'']"
proof -
  let ?h1 = "evaluate_event t1 a (Some (gate_event i1 msg)) h"
  let ?h2 = "evaluate_event t2 a (Some (start_event i2)) ?h1"
  have h1: "types_about a ?h1 = types_about a h @ [''gate_failed'']" "hb_gates ?h1 a = Some msg"
    "hb_events ?h1 a = Some i1"
    using gate_event_new [of h a "[]" i1 msg t1] assms by (simp_all add: known_or_def eq_commute [of "[]"])
  have h2: "types_about a ?h2 = types_about a ?h1 @ [''maintenance_started'']" "hb_gates ?h2 a = None"
    "hb_events ?h2 a = Some i2"
    using start_event_new [of ?h1 a i1 i2 t2] assms h1 by (simp_all add: known_or_def)
  show ?thesis
    using gate_event_again [of ?h1 a i1 i2 msg t2] gate_event_new [of ?h2 a i2 i3 msg t3] assms h1 h2
    by (simp add: known_or_def)
qed

end
