(* ===== verification/GoExec.thy ===== *)
theory GoExec
  imports Prelude
begin

text \<open>
  Programs of the host and paths, as the engines use them: Go errors as trees of wrapped errors,
  the answers of processes, the log of the calls made so far, and the functions of
  \<^verbatim>\<open>path/filepath\<close>. The programs are outside the repository: a \<open>zx_host\<close> answers every call from
  what was called before.
\<close>

section \<open>Errors and calls\<close>

datatype go_error =
    ExitError int string
  | PlainError string
  | WrappedError string go_error string

fun error_text :: "go_error \<Rightarrow> string" where
  "error_text (ExitError code text) = text"
| "error_text (PlainError text) = text"
| "error_text (WrappedError before e after) = before @ error_text e @ after"

datatype zx_answer = Exited string | Broke string string go_error

datatype stage_answer = NotStarted go_error | Finished "go_error option" string

datatype zx_call = Cmd string "string list" | Pipe "(string \<times> string list) list"

type_synonym zx_log = "zx_call list"

record zx_host =
  zh_run :: "zx_log \<Rightarrow> string \<Rightarrow> string list \<Rightarrow> zx_answer"
  zh_pipe :: "zx_log \<Rightarrow> (string \<times> string list) list \<Rightarrow> stage_answer list"

text \<open>A result of a function that may fail, or panic.\<close>

datatype 'a go_result = Ret 'a | Fails go_error | Panics

section \<open>Paths\<close>

text \<open>\<open>filepath.Clean\<close> and \<open>filepath.Join\<close> of two elements.\<close>

fun clean_steps :: "bool \<Rightarrow> string list \<Rightarrow> string list \<Rightarrow> string list" where
  "clean_steps rooted acc [] = acc"
| "clean_steps rooted acc (c # cs) =
     (if c = [] \<or> c = ''.'' then clean_steps rooted acc cs
      else if c = ''..'' then
        (if acc \<noteq> [] \<and> last acc \<noteq> ''..'' then clean_steps rooted (butlast acc) cs
         else if rooted then clean_steps rooted acc cs
         else clean_steps rooted (acc @ [c]) cs)
      else clean_steps rooted (acc @ [c]) cs)"

definition path_clean :: "string \<Rightarrow> string" where
  "path_clean p =
     (let rooted = has_prefix p ''/'';
          out = (if rooted then ''/'' else []) @ join_with ''/'' (clean_steps rooted [] (split_on (CHR ''/'') p))
      in if out = [] then ''.'' else out)"

definition path_join :: "string \<Rightarrow> string \<Rightarrow> string" where
  "path_join a b =
     (let es = filter (\<lambda>e. e \<noteq> []) [a, b] in if es = [] then [] else path_clean (join_with ''/'' es))"

text \<open>\<open>filepath.Base\<close>.\<close>

definition path_base :: "string \<Rightarrow> string" where
  "path_base p =
     (if p = [] then ''.''
      else let q = rev (dropWhile (\<lambda>c. c = CHR ''/'') (rev p))
           in if q = [] then ''/'' else last (split_on (CHR ''/'') q))"

end
