(* ===== verification/ZfsEngine.thy ===== *)
theory ZfsEngine
  imports GoExec
begin

text \<open>
  The ZFS engine's commands (\<^verbatim>\<open>zfs-manager/internal/agent/engine.go\<close>). The programs it runs
  are outside the repository: a \<open>zx_host\<close> answers each call, from what was called before and
  the call itself, and a run threads the list of the calls made. What is proved holds for every
  host. A Go error is a tree of wrapped errors, so that what \<open>exitCode\<close> sees is in the model.
\<close>

section \<open>The engine and its host\<close>

record zfs_engine =
  en_zpool :: string
  en_zfs :: string
  en_ledctl :: string
  en_ssh :: string
  en_keygen :: string
  en_pv :: string
  en_keydir :: string

text \<open>\<open>NewEngine\<close>: \<open>look\<close> is \<open>exec.LookPath\<close> with the empty string for a missing program.\<close>

definition new_zfs_engine :: "(string \<Rightarrow> string) \<Rightarrow> string \<Rightarrow> string \<Rightarrow> string \<Rightarrow> zfs_engine" where
  "new_zfs_engine look zpool zfs keydir =
     \<lparr>en_zpool = (if zpool = [] then ''zpool'' else zpool),
      en_zfs = (if zfs = [] then ''zfs'' else zfs),
      en_ledctl = look ''ledctl'', en_ssh = look ''ssh'', en_keygen = look ''ssh-keygen'',
      en_pv = look ''pv'', en_keydir = keydir\<rparr>"

record capabilities =
  cp_led :: bool
  cp_remote :: bool
  cp_bandwidth :: bool
  cp_arc :: bool

definition engine_capabilities :: "bool \<Rightarrow> zfs_engine \<Rightarrow> capabilities" where
  "engine_capabilities arc e =
     \<lparr>cp_led = (en_ledctl e \<noteq> []),
      cp_remote = (en_ssh e \<noteq> [] \<and> en_keygen e \<noteq> [] \<and> en_keydir e \<noteq> []),
      cp_bandwidth = (en_pv e \<noteq> []), cp_arc = arc\<rparr>"

definition zx_run :: "zx_host \<Rightarrow> string \<Rightarrow> string list \<Rightarrow> zx_log \<Rightarrow>
    (string \<times> go_error option) \<times> zx_log" where
  "zx_run h bin args tr =
     (case zh_run h tr bin args of
        Exited out \<Rightarrow> ((trim_space out, None), tr @ [Cmd bin args])
      | Broke out err e \<Rightarrow>
          (let combined = trim_space (out @ [CHR 0x0A] @ err)
           in ((combined, Some (WrappedError (bin @ '' '' @ join_with '' '' args @ '': '') e ('': '' @ combined))),
               tr @ [Cmd bin args])))"

definition run_zpool :: "zx_host \<Rightarrow> zfs_engine \<Rightarrow> string list \<Rightarrow> zx_log \<Rightarrow>
    (string \<times> go_error option) \<times> zx_log" where
  "run_zpool h e args = zx_run h (en_zpool e) args"

definition run_zfs :: "zx_host \<Rightarrow> zfs_engine \<Rightarrow> string list \<Rightarrow> zx_log \<Rightarrow>
    (string \<times> go_error option) \<times> zx_log" where
  "run_zfs h e args = zx_run h (en_zfs e) args"

fun go_exit_code :: "go_error \<Rightarrow> int" where
  "go_exit_code (ExitError code text) = code"
| "go_exit_code _ = - 1"

section \<open>Write operations\<close>

record zfs_result =
  zr_command :: string
  zr_exit :: int
  zr_output :: string
  zr_error :: string

text \<open>The body the operations share: the command line, the run, and the result with or without
  an error.\<close>

definition command_outcome :: "string \<Rightarrow> (string \<times> go_error option) \<times> zx_log \<Rightarrow>
    (zfs_result \<times> go_error option) \<times> zx_log" where
  "command_outcome cmd r =
     (case r of
        ((out, None), tr) \<Rightarrow> ((\<lparr>zr_command = cmd, zr_exit = 0, zr_output = out, zr_error = []\<rparr>, None), tr)
      | ((out, Some e), tr) \<Rightarrow>
          ((\<lparr>zr_command = cmd, zr_exit = go_exit_code e, zr_output = out, zr_error = error_text e\<rparr>, Some e),
           tr))"

type_synonym zfs_op = "zx_log \<Rightarrow> (zfs_result \<times> go_error option) \<times> zx_log"

definition zfs_command :: "zx_host \<Rightarrow> zfs_engine \<Rightarrow> string list \<Rightarrow> zfs_op" where
  "zfs_command h e args tr =
     command_outcome (en_zfs e @ '' '' @ join_with '' '' args) (run_zfs h e args tr)"

definition zpool_command :: "zx_host \<Rightarrow> zfs_engine \<Rightarrow> string list \<Rightarrow> zfs_op" where
  "zpool_command h e args tr =
     command_outcome (en_zpool e @ '' '' @ join_with '' '' args) (run_zpool h e args tr)"

record dataset_preset =
  dp_name :: string
  dp_recordsize :: string
  dp_compression :: string
  dp_atime :: string
  dp_sync :: string

definition dataset_presets :: "string \<rightharpoonup> dataset_preset" where
  "dataset_presets k =
     (if k = ''general'' then Some \<lparr>dp_name = ''General Purpose'', dp_recordsize = ''128K'',
        dp_compression = ''lz4'', dp_atime = ''off'', dp_sync = ''standard''\<rparr>
      else if k = ''media'' then Some \<lparr>dp_name = ''Media Storage'', dp_recordsize = ''1M'',
        dp_compression = ''lz4'', dp_atime = ''off'', dp_sync = ''disabled''\<rparr>
      else if k = ''vm'' then Some \<lparr>dp_name = ''VM/App Storage'', dp_recordsize = ''64K'',
        dp_compression = ''lz4'', dp_atime = ''off'', dp_sync = ''standard''\<rparr>
      else if k = ''db'' then Some \<lparr>dp_name = ''Database'', dp_recordsize = ''16K'',
        dp_compression = ''lz4'', dp_atime = ''off'', dp_sync = ''always''\<rparr>
      else None)"

text \<open>A map of properties is the list of its pairs in the order of its enumeration.\<close>

definition property_flags :: "(string \<times> string) list \<Rightarrow> string list" where
  "property_flags props = concat (map (\<lambda>(k, v). [''-o'', k @ ''='' @ v]) props)"

definition create_dataset :: "zx_host \<Rightarrow> zfs_engine \<Rightarrow> string \<Rightarrow> (string \<times> string) list \<Rightarrow> zfs_op" where
  "create_dataset h e name props = zfs_command h e ([''create''] @ property_flags props @ [name])"

text \<open>The loop of \<open>SetDatasetProperties\<close>, with the outputs and the command line so far: the
  first failure ends it and leaves the earlier properties set.\<close>

fun set_properties_loop :: "zx_host \<Rightarrow> zfs_engine \<Rightarrow> string \<Rightarrow> string list \<Rightarrow> string \<Rightarrow>
    (string \<times> string) list \<Rightarrow> zfs_op" where
  "set_properties_loop h e name outs lastcmd [] tr =
     ((\<lparr>zr_command = lastcmd, zr_exit = 0, zr_output = join_with [CHR 0x0A] outs, zr_error = []\<rparr>, None), tr)"
| "set_properties_loop h e name outs lastcmd ((k, v) # props) tr =
     (let args = [''set'', k @ ''='' @ v, name]; cmd = en_zfs e @ '' '' @ join_with '' '' args
      in case run_zfs h e args tr of
           ((out, Some err), tr') \<Rightarrow>
             ((\<lparr>zr_command = cmd, zr_exit = go_exit_code err, zr_output = out, zr_error = error_text err\<rparr>,
               Some err), tr')
         | ((out, None), tr') \<Rightarrow> set_properties_loop h e name (outs @ [out]) cmd props tr')"

definition set_dataset_properties :: "zx_host \<Rightarrow> zfs_engine \<Rightarrow> string \<Rightarrow> (string \<times> string) list \<Rightarrow> zfs_op" where
  "set_dataset_properties h e name props = set_properties_loop h e name [] [] props"

definition destroy_dataset :: "zx_host \<Rightarrow> zfs_engine \<Rightarrow> string \<Rightarrow> bool \<Rightarrow> zfs_op" where
  "destroy_dataset h e name recursive =
     zfs_command h e ([''destroy''] @ (if recursive then [''-r''] else []) @ [name])"

definition create_snapshot :: "zx_host \<Rightarrow> zfs_engine \<Rightarrow> string \<Rightarrow> string \<Rightarrow> bool \<Rightarrow> zfs_op" where
  "create_snapshot h e dataset snap recursive =
     zfs_command h e ([''snapshot''] @ (if recursive then [''-r''] else []) @ [dataset @ ''@'' @ snap])"

definition destroy_snapshot :: "zx_host \<Rightarrow> zfs_engine \<Rightarrow> string \<Rightarrow> zfs_op" where
  "destroy_snapshot h e full = zfs_command h e [''destroy'', full]"

definition rollback_flags :: "string \<Rightarrow> string list" where
  "rollback_flags depth =
     (if depth = ''intermediate'' then [''-r''] else if depth = ''all'' then [''-R''] else [])"

definition rollback_snapshot :: "zx_host \<Rightarrow> zfs_engine \<Rightarrow> string \<Rightarrow> string \<Rightarrow> zfs_op" where
  "rollback_snapshot h e full depth = zfs_command h e ([''rollback''] @ rollback_flags depth @ [full])"

definition start_scrub :: "zx_host \<Rightarrow> zfs_engine \<Rightarrow> string \<Rightarrow> zfs_op" where
  "start_scrub h e pool = zpool_command h e [''scrub'', pool]"

definition pause_scrub :: "zx_host \<Rightarrow> zfs_engine \<Rightarrow> string \<Rightarrow> zfs_op" where
  "pause_scrub h e pool = zpool_command h e [''scrub'', ''-p'', pool]"

definition cancel_scrub :: "zx_host \<Rightarrow> zfs_engine \<Rightarrow> string \<Rightarrow> zfs_op" where
  "cancel_scrub h e pool = zpool_command h e [''scrub'', ''-s'', pool]"

definition replace_device :: "zx_host \<Rightarrow> zfs_engine \<Rightarrow> string \<Rightarrow> string \<Rightarrow> string \<Rightarrow> zfs_op" where
  "replace_device h e pool old new = zpool_command h e [''replace'', pool, old, new]"

definition vdev_words :: "string \<Rightarrow> string list" where
  "vdev_words ty = (if ty \<noteq> [] \<and> ty \<noteq> ''stripe'' then [ty] else [])"

definition add_vdev :: "zx_host \<Rightarrow> zfs_engine \<Rightarrow> string \<Rightarrow> string \<Rightarrow> string list \<Rightarrow> zfs_op" where
  "add_vdev h e pool ty devices = zpool_command h e ([''add'', pool] @ vdev_words ty @ devices)"

definition offline_device :: "zx_host \<Rightarrow> zfs_engine \<Rightarrow> string \<Rightarrow> string \<Rightarrow> zfs_op" where
  "offline_device h e pool dev = zpool_command h e [''offline'', pool, dev]"

definition online_device :: "zx_host \<Rightarrow> zfs_engine \<Rightarrow> string \<Rightarrow> string \<Rightarrow> zfs_op" where
  "online_device h e pool dev = zpool_command h e [''online'', pool, dev]"

definition clear_errors :: "zx_host \<Rightarrow> zfs_engine \<Rightarrow> string \<Rightarrow> string \<Rightarrow> zfs_op" where
  "clear_errors h e pool dev = zpool_command h e ([''clear'', pool] @ (if dev \<noteq> [] then [dev] else []))"

definition ledctl_arg :: "string \<Rightarrow> string \<Rightarrow> string" where
  "ledctl_arg dev mode =
     (if mode = ''off'' then ''normal'' else ''locate'') @ ''='' @
     (if has_prefix dev ''/'' then dev else ''/dev/'' @ dev)"

definition capability_unavailable :: go_error where
  "capability_unavailable = PlainError ''capability not available on this host''"

definition identify_device :: "zx_host \<Rightarrow> zfs_engine \<Rightarrow> string \<Rightarrow> string \<Rightarrow> zx_log \<Rightarrow>
    (zfs_result option \<times> go_error option) \<times> zx_log" where
  "identify_device h e dev mode tr =
     (if en_ledctl e = [] then ((None, Some capability_unavailable), tr)
      else case command_outcome (en_ledctl e @ '' '' @ ledctl_arg dev mode)
                  (zx_run h (en_ledctl e) [ledctl_arg dev mode] tr) of
             ((r, err), tr') \<Rightarrow> ((Some r, err), tr'))"

section \<open>Previews\<close>

definition build_create_dataset :: "string \<Rightarrow> string \<Rightarrow> (string \<times> string) list \<Rightarrow> string" where
  "build_create_dataset zfs name props = join_with '' '' ([zfs, ''create''] @ property_flags props @ [name])"

definition build_destroy_dataset :: "string \<Rightarrow> string \<Rightarrow> bool \<Rightarrow> string" where
  "build_destroy_dataset zfs name recursive =
     join_with '' '' ([zfs, ''destroy''] @ (if recursive then [''-r''] else []) @ [name])"

definition build_snapshot :: "string \<Rightarrow> string \<Rightarrow> string \<Rightarrow> bool \<Rightarrow> string" where
  "build_snapshot zfs dataset snap recursive =
     join_with '' '' ([zfs, ''snapshot''] @ (if recursive then [''-r''] else []) @ [dataset @ ''@'' @ snap])"

definition build_rollback :: "string \<Rightarrow> string \<Rightarrow> string \<Rightarrow> string" where
  "build_rollback zfs full depth = join_with '' '' ([zfs, ''rollback''] @ rollback_flags depth @ [full])"

definition build_scrub :: "string \<Rightarrow> string \<Rightarrow> string \<Rightarrow> string" where
  "build_scrub zpool pool act =
     join_with '' '' ([zpool, ''scrub''] @
       (if act = ''pause'' then [''-p''] else if act = ''cancel'' then [''-s''] else []) @ [pool])"

definition build_replace :: "string \<Rightarrow> string \<Rightarrow> string \<Rightarrow> string \<Rightarrow> string" where
  "build_replace zpool pool old new = zpool @ '' replace '' @ pool @ '' '' @ old @ '' '' @ new"

definition build_add_vdev :: "string \<Rightarrow> string \<Rightarrow> string \<Rightarrow> string list \<Rightarrow> string" where
  "build_add_vdev zpool pool ty devices = join_with '' '' ([zpool, ''add'', pool] @ vdev_words ty @ devices)"

definition build_offline :: "string \<Rightarrow> string \<Rightarrow> string \<Rightarrow> string" where
  "build_offline zpool pool dev = zpool @ '' offline '' @ pool @ '' '' @ dev"

definition build_online :: "string \<Rightarrow> string \<Rightarrow> string \<Rightarrow> string" where
  "build_online zpool pool dev = zpool @ '' online '' @ pool @ '' '' @ dev"

definition build_clear :: "string \<Rightarrow> string \<Rightarrow> string \<Rightarrow> string" where
  "build_clear zpool pool dev = zpool @ '' clear '' @ pool @ (if dev \<noteq> [] then '' '' @ dev else [])"

definition build_identify :: "string \<Rightarrow> string \<Rightarrow> string \<Rightarrow> string" where
  "build_identify ledctl dev mode = ledctl @ '' '' @ ledctl_arg dev mode"

section \<open>What a preview shows is what runs\<close>

fun call_text :: "zx_call \<Rightarrow> string" where
  "call_text (Cmd bin args) = bin @ '' '' @ join_with '' '' args"
| "call_text (Pipe stages) = join_with '' | '' (map (\<lambda>(bin, args). bin @ '' '' @ join_with '' '' args) stages)"

text \<open>An operation runs one call, whose command line is \<open>p\<close>, and reports \<open>p\<close> as its command.\<close>

definition runs_as :: "zfs_op \<Rightarrow> string \<Rightarrow> bool" where
  "runs_as op p \<longleftrightarrow>
     (\<forall>tr. (\<exists>c. snd (op tr) = tr @ [c] \<and> call_text c = p) \<and> zr_command (fst (fst (op tr))) = p)"

lemma zx_run_log: "snd (zx_run h bin args tr) = tr @ [Cmd bin args]"
  by (simp add: zx_run_def Let_def split: zx_answer.splits)

lemma command_outcome_log [simp]: "snd (command_outcome cmd r) = snd r"
  by (auto simp: command_outcome_def split: prod.splits option.splits)

lemma command_outcome_command [simp]: "zr_command (fst (fst (command_outcome cmd r))) = cmd"
  by (auto simp: command_outcome_def split: prod.splits option.splits)

lemma zfs_command_runs_as: "runs_as (zfs_command h e args) (en_zfs e @ '' '' @ join_with '' '' args)"
  by (simp add: runs_as_def zfs_command_def run_zfs_def zx_run_log)

lemma zpool_command_runs_as: "runs_as (zpool_command h e args) (en_zpool e @ '' '' @ join_with '' '' args)"
  by (simp add: runs_as_def zpool_command_def run_zpool_def zx_run_log)

lemma join_with_two: "join_with sep (x # y # xs) = x @ sep @ join_with sep (y # xs)"
  by simp

lemma join_with_append: "xs \<noteq> [] \<Longrightarrow> join_with '' '' (b # xs) = b @ '' '' @ join_with '' '' xs"
  by (cases xs) simp_all

lemmas preview_defs =
  create_dataset_def build_create_dataset_def destroy_dataset_def build_destroy_dataset_def
  create_snapshot_def build_snapshot_def rollback_snapshot_def build_rollback_def
  start_scrub_def pause_scrub_def cancel_scrub_def build_scrub_def
  replace_device_def build_replace_def add_vdev_def build_add_vdev_def
  offline_device_def build_offline_def online_device_def build_online_def
  clear_errors_def build_clear_def

lemma zfs_runs_as: "en_zfs e @ '' '' @ join_with '' '' args = p \<Longrightarrow> runs_as (zfs_command h e args) p"
  using zfs_command_runs_as by metis

lemma zpool_runs_as: "en_zpool e @ '' '' @ join_with '' '' args = p \<Longrightarrow> runs_as (zpool_command h e args) p"
  using zpool_command_runs_as by metis

text \<open>The command shown before the user confirms is the command that runs: for every dataset,
  snapshot, scrub and device operation the preview builder gives exactly the command line of the
  one call the engine makes and the command the result reports, whatever the host answers and
  whatever the arguments are.\<close>

lemma preview_is_executed:
  "runs_as (create_dataset h e name props) (build_create_dataset (en_zfs e) name props) \<and>
   runs_as (destroy_dataset h e name recursive) (build_destroy_dataset (en_zfs e) name recursive) \<and>
   runs_as (create_snapshot h e name snap recursive) (build_snapshot (en_zfs e) name snap recursive) \<and>
   runs_as (rollback_snapshot h e full depth) (build_rollback (en_zfs e) full depth) \<and>
   runs_as (start_scrub h e pool) (build_scrub (en_zpool e) pool ''start'') \<and>
   runs_as (pause_scrub h e pool) (build_scrub (en_zpool e) pool ''pause'') \<and>
   runs_as (cancel_scrub h e pool) (build_scrub (en_zpool e) pool ''cancel'') \<and>
   runs_as (replace_device h e pool old new) (build_replace (en_zpool e) pool old new) \<and>
   runs_as (add_vdev h e pool ty devices) (build_add_vdev (en_zpool e) pool ty devices) \<and>
   runs_as (offline_device h e pool dev) (build_offline (en_zpool e) pool dev) \<and>
   runs_as (online_device h e pool dev) (build_online (en_zpool e) pool dev) \<and>
   runs_as (clear_errors h e pool dev) (build_clear (en_zpool e) pool dev)"
  by (intro conjI; unfold preview_defs; (rule zfs_runs_as | rule zpool_runs_as); simp add: join_with_append)

section \<open>The exit code of a failed command\<close>

lemma zx_run_error:
  "snd (fst (zx_run h bin args tr)) = Some err \<Longrightarrow> go_exit_code err = - 1"
  by (auto simp: zx_run_def Let_def split: zx_answer.splits)

text \<open>The exit code of a failed command never reaches its result: \<open>run\<close> wraps the error of the
  process, \<open>exitCode\<close> looks only at the outermost error, so a result with an error has exit
  code -1 whatever the program exited with, and one without has 0.\<close>

lemma exit_code_lost:
  "zr_exit (fst (fst (zfs_command h e args tr))) =
     (if snd (fst (zfs_command h e args tr)) = None then 0 else - 1) \<and>
   zr_exit (fst (fst (zpool_command h e args tr))) =
     (if snd (fst (zpool_command h e args tr)) = None then 0 else - 1)"
proof -
  have "zr_exit (fst (fst (command_outcome cmd (zx_run h bin args tr)))) =
      (if snd (fst (command_outcome cmd (zx_run h bin args tr))) = None then 0 else - 1)" for cmd bin
    by (auto simp: command_outcome_def zx_run_def Let_def split: zx_answer.splits)
  then show ?thesis by (simp add: zfs_command_def run_zfs_def zpool_command_def run_zpool_def)
qed

end
