(* ===== verification/GoText.thy ===== *)
theory GoText
  imports Prelude
begin

text \<open>
  What trimming and splitting do to lines of printable ASCII words: the facts the parsers of the
  columns printed by external programs share.
\<close>

definition plain_char :: "char \<Rightarrow> bool" where
  "plain_char c \<longleftrightarrow> 33 \<le> (of_char c :: nat) \<and> (of_char c :: nat) < 127"

definition blank_char :: "char \<Rightarrow> bool" where
  "blank_char c \<longleftrightarrow> c = CHR 0x20 \<or> c = CHR 0x09"

definition word_ok :: "string \<Rightarrow> bool" where
  "word_ok w \<longleftrightarrow> w \<noteq> [] \<and> list_all plain_char w"

lemma not_plain [simp]:
  "\<not> plain_char (CHR 0x20)"
  "\<not> plain_char (CHR 0x09)"
  "\<not> plain_char (CHR 0x0A)"
  "\<not> plain_char (CHR 0x0B)"
  "\<not> plain_char (CHR 0x0C)"
  "\<not> plain_char (CHR 0x0D)"
  "\<not> plain_char (CHR 0xC2)"
  "\<not> plain_char (CHR 0x85)"
  "\<not> plain_char (CHR 0xA0)"
  "\<not> plain_char (CHR 0xE1)"
  "\<not> plain_char (CHR 0x9A)"
  "\<not> plain_char (CHR 0x80)"
  "\<not> plain_char (CHR 0xE2)"
  "\<not> plain_char (CHR 0x81)"
  "\<not> plain_char (CHR 0x82)"
  "\<not> plain_char (CHR 0x83)"
  "\<not> plain_char (CHR 0x84)"
  "\<not> plain_char (CHR 0x86)"
  "\<not> plain_char (CHR 0x87)"
  "\<not> plain_char (CHR 0x88)"
  "\<not> plain_char (CHR 0x89)"
  "\<not> plain_char (CHR 0x8A)"
  "\<not> plain_char (CHR 0xA8)"
  "\<not> plain_char (CHR 0xA9)"
  "\<not> plain_char (CHR 0xAF)"
  "\<not> plain_char (CHR 0x9F)"
  "\<not> plain_char (CHR 0xE3)"
  by (simp_all add: plain_char_def)

lemma plain_not_space: "plain_char c \<Longrightarrow> \<not> ascii_space c"
  unfolding ascii_space_def by (metis not_plain)

lemma space2_not_plain: "space2 a b \<Longrightarrow> \<not> plain_char a \<and> \<not> plain_char b"
  unfolding space2_def by (elim conjE disjE) simp_all

lemma space3_not_plain: "space3 a b c \<Longrightarrow> \<not> plain_char a \<and> \<not> plain_char c"
  unfolding space3_def by (elim conjE disjE) (auto simp del: set_simps simp: set_simps(1) insert_iff list.set)

lemma space_len_plain [simp]: "plain_char c \<Longrightarrow> space_len (c # s) = 0"
  using plain_not_space space2_not_plain space3_not_plain
  by (cases "c # s" rule: space_len.cases) auto

lemma space_len_rev_plain [simp]: "plain_char c \<Longrightarrow> space_len_rev (c # s) = 0"
  using plain_not_space space2_not_plain space3_not_plain
  by (cases "c # s" rule: space_len_rev.cases) auto

lemma space_len_blank [simp]: "blank_char c \<Longrightarrow> space_len (c # s) = 1"
  unfolding blank_char_def by (cases "c # s" rule: space_len.cases) (elim disjE; simp add: ascii_space_def)+

lemma trim_front_blank:
  "list_all blank_char bs \<Longrightarrow> trim_front space_len 0 (bs @ s) = trim_front space_len 0 s"
  by (induction bs) simp_all

lemma trim_front_plain:
  "plain_char c \<Longrightarrow> trim_front space_len 0 (c # s) = c # s"
  "plain_char c \<Longrightarrow> trim_front space_len_rev 0 (c # s) = c # s"
  by simp_all

lemma trim_space_line:
  assumes "list_all blank_char bs" and "s \<noteq> []" and "plain_char (hd s)" and "plain_char (last s)"
  shows "trim_space (bs @ s) = s"
proof -
  have "trim_front space_len 0 s = s" using assms(2,3) by (cases s) simp_all
  moreover have "trim_front space_len_rev 0 (rev s) = rev s"
    using assms(2,4) by (cases "rev s") (auto simp: hd_rev [symmetric])
  ultimately show ?thesis by (simp add: trim_space_def trim_front_blank assms(1))
qed

lemma fields_from_word: "list_all plain_char u \<Longrightarrow> fields_from 0 w (u @ s) = fields_from 0 (w @ u) s"
  by (induction u arbitrary: w) simp_all

lemma fields_from_blank: "blank_char c \<Longrightarrow> fields_from 0 w (c # s) = flush_word w @ fields_from 0 [] s"
  by simp

lemma str_fields_join: "list_all word_ok ws \<Longrightarrow> str_fields (join_with '' '' ws) = ws"
proof (induction ws rule: induct_list012)
  case (2 w)
  then show ?case using fields_from_word [of w "[]" "[]"] by (simp add: str_fields_def word_ok_def flush_word_def)
next
  case (3 w v ws)
  then have "fields_from 0 [] (w @ '' '' @ join_with '' '' (v # ws)) = w # fields_from 0 [] (join_with '' '' (v # ws))"
    using fields_from_word [of w "[]"] by (simp add: word_ok_def flush_word_def blank_char_def)
  with 3 show ?case by (simp add: str_fields_def)
qed (simp add: str_fields_def flush_word_def)

lemma join_words_ends:
  "list_all word_ok ws \<Longrightarrow> ws \<noteq> [] \<Longrightarrow>
     join_with '' '' ws \<noteq> [] \<and> plain_char (hd (join_with '' '' ws)) \<and> plain_char (last (join_with '' '' ws))"
proof (induction ws rule: induct_list012)
  case (2 w)
  then show ?case by (cases w) (auto simp: word_ok_def list_all_iff)
next
  case (3 w v ws)
  then show ?case by (cases w) (auto simp: word_ok_def list_all_iff)
qed simp

lemma trim_words: "list_all blank_char bs \<Longrightarrow> list_all word_ok ws \<Longrightarrow> ws \<noteq> [] \<Longrightarrow>
    trim_space (bs @ join_with '' '' ws) = join_with '' '' ws"
  using join_words_ends trim_space_line by blast

lemma word_ok_append [simp]: "word_ok u \<Longrightarrow> list_all plain_char v \<Longrightarrow> word_ok (u @ v)"
  by (simp add: word_ok_def)

lemma digit_plain: "is_digit c \<Longrightarrow> plain_char c"
proof -
  assume "is_digit c"
  moreover have "(of_char c :: int) = int (of_char c)" by (simp add: of_nat_of_char)
  ultimately show ?thesis unfolding is_digit_def plain_char_def by linarith
qed

lemma word_ok_digits [simp]: "0 \<le> n \<Longrightarrow> word_ok (dec_digits n)"
  using all_digits_dec_digits [of n] by (auto simp: word_ok_def all_digits_def list_all_iff digit_plain)

lemma plain_no_newline: "list_all plain_char w \<Longrightarrow> CHR 0x0A \<notin> set w \<and> CHR 0x09 \<notin> set w \<and> CHR 0x20 \<notin> set w"
  by (induction w) auto

lemma blank_not_plain: "blank_char c \<Longrightarrow> \<not> plain_char c"
  by (auto simp: blank_char_def)

lemma takeWhile_blank_line:
  "list_all blank_char bs \<Longrightarrow> plain_char (hd s) \<Longrightarrow> s \<noteq> [] \<Longrightarrow> takeWhile blank_char (bs @ s) = bs"
  using blank_not_plain by (induction bs) (auto simp: neq_Nil_conv)

lemma no_newline_words:
  "list_all word_ok ws \<Longrightarrow> CHR 0x0A \<notin> set (join_with '' '' ws)"
  by (induction ws rule: induct_list012) (auto simp: word_ok_def plain_no_newline)

lemma blank_no_newline: "list_all blank_char bs \<Longrightarrow> CHR 0x0A \<notin> set bs"
proof (induction bs)
  case (Cons b bs)
  have "\<not> blank_char (CHR 0x0A)" by (simp add: blank_char_def)
  with Cons show ?case by auto
qed simp

section \<open>Rows of columns\<close>

text \<open>Words with any number of blanks between them, as columns are padded; \<open>ks\<close> are the extra
  blanks.\<close>

fun row_text :: "nat list \<Rightarrow> string list \<Rightarrow> string" where
  "row_text ks [] = []"
| "row_text ks [w] = w"
| "row_text [] (w # v # ws) = w @ '' '' @ row_text [] (v # ws)"
| "row_text (k # ks) (w # v # ws) = w @ replicate (Suc k) (CHR '' '') @ row_text ks (v # ws)"

lemma fields_from_blanks: "list_all blank_char bs \<Longrightarrow> fields_from 0 [] (bs @ s) = fields_from 0 [] s"
  by (induction bs) (simp_all add: flush_word_def)

lemma blanks_replicate [simp]: "list_all blank_char (replicate n (CHR '' ''))"
  by (simp add: list_all_iff blank_char_def)

lemma fields_word_blanks:
  assumes "word_ok w" and "list_all blank_char (b # bs)"
  shows "fields_from 0 [] (w @ b # bs @ s) = w # fields_from 0 [] s"
  using assms fields_from_word [of w "[]" "b # bs @ s"] fields_from_blanks [of bs s]
  by (simp add: word_ok_def flush_word_def)

lemma str_fields_row: "list_all word_ok ws \<Longrightarrow> str_fields (row_text ks ws) = ws"
proof (induction ks ws rule: row_text.induct)
  case (2 ks w)
  then show ?case using fields_from_word [of w "[]" "[]"] by (simp add: str_fields_def word_ok_def flush_word_def)
next
  case (3 w v ws)
  then show ?case using fields_word_blanks [of w "CHR '' ''" "[]"] by (simp add: str_fields_def blank_char_def)
next
  case (4 k ks w v ws)
  then show ?case using fields_word_blanks [of w "CHR '' ''" "replicate k (CHR '' '')"]
    by (simp add: str_fields_def blank_char_def)
qed (simp add: str_fields_def flush_word_def)

lemma row_text_ends:
  "list_all word_ok ws \<Longrightarrow> ws \<noteq> [] \<Longrightarrow>
     row_text ks ws \<noteq> [] \<and> plain_char (hd (row_text ks ws)) \<and> plain_char (last (row_text ks ws))"
  by (induction ks ws rule: row_text.induct)
    (auto simp: word_ok_def list_all_iff neq_Nil_conv last_append)

lemma trim_row: "list_all blank_char bs \<Longrightarrow> list_all word_ok ws \<Longrightarrow> ws \<noteq> [] \<Longrightarrow>
    trim_space (bs @ row_text ks ws) = row_text ks ws"
  using row_text_ends trim_space_line by blast

lemma row_no_newline: "list_all word_ok ws \<Longrightarrow> CHR 0x0A \<notin> set (row_text ks ws)"
  by (induction ks ws rule: row_text.induct) (auto simp: word_ok_def plain_no_newline)

lemma has_prefix_word:
  "CHR '' '' \<notin> set p \<Longrightarrow> has_prefix (w @ CHR '' '' # s) p \<longleftrightarrow> has_prefix w p"
  by (induction w arbitrary: p) (case_tac p; auto)+

lemma has_prefix_row:
  "CHR '' '' \<notin> set p \<Longrightarrow> has_prefix (row_text ks (w # ws)) p \<longleftrightarrow> has_prefix w p"
  by (cases ks; cases ws) (simp_all add: has_prefix_word)

end
