(* ===== verification/GoTime.thy ===== *)
theory GoTime
  imports GoText GoFloat "HOL-Library.Monad_Syntax"
begin

text \<open>
  Times of package \<^verbatim>\<open>time\<close>: parsing of dates as \<^verbatim>\<open>zpool\<close> prints them and of RFC 3339, in
  nanoseconds since 1970, and the seconds of a duration.
\<close>

section \<open>Dates as zpool prints them\<close>

text \<open>\<open>time.Parse\<close> with the layout \<^verbatim>\<open>Mon Jan 2 15:04:05 2006\<close>; a blank of the layout takes any
  number of blanks, so the layout with two blanks accepts the same texts. The day of the week is
  recognised and not compared with the date. The result is the instant in nanoseconds.\<close>

definition month_names :: "string list" where
  "month_names = [''jan'', ''feb'', ''mar'', ''apr'', ''may'', ''jun'', ''jul'', ''aug'', ''sep'',
     ''oct'', ''nov'', ''dec'']"

definition day_names :: "string list" where
  "day_names = [''sun'', ''mon'', ''tue'', ''wed'', ''thu'', ''fri'', ''sat'']"

fun position_of :: "string \<Rightarrow> string list \<Rightarrow> nat option" where
  "position_of x [] = None"
| "position_of x (y # ys) = (if x = y then Some 0 else map_option Suc (position_of x ys))"

definition lookup_name :: "string list \<Rightarrow> string \<Rightarrow> (nat \<times> string) option" where
  "lookup_name names s =
     map_option (\<lambda>i. (i, drop 3 s)) (position_of (map ascii_lower (take 3 s)) names)"

definition skip_blanks :: "string \<Rightarrow> string option" where
  "skip_blanks s = (if s \<noteq> [] \<and> hd s \<noteq> CHR '' '' then None else Some (dropWhile (\<lambda>c. c = CHR '' '') s))"

definition skip_char :: "char \<Rightarrow> string \<Rightarrow> string option" where
  "skip_char c s = (if s \<noteq> [] \<and> hd s = c then Some (tl s) else None)"

definition get_num :: "bool \<Rightarrow> string \<Rightarrow> (int \<times> string) option" where
  "get_num fixed s =
     (case s of
        a # b # r \<Rightarrow>
          if \<not> is_digit a then None
          else if is_digit b then Some (10 * digit_val a + digit_val b, r)
          else if fixed then None else Some (digit_val a, b # r)
      | [a] \<Rightarrow> if is_digit a \<and> \<not> fixed then Some (digit_val a, []) else None
      | [] \<Rightarrow> None)"

definition skip_fraction :: "string \<Rightarrow> string" where
  "skip_fraction s =
     (case s of
        p # d # r \<Rightarrow> if (p = CHR ''.'' \<or> p = CHR '','') \<and> is_digit d then dropWhile is_digit r else s
      | _ \<Rightarrow> s)"

definition fraction_ns :: "string \<Rightarrow> int" where
  "fraction_ns s =
     (if skip_fraction s = s then 0
      else let ds = take 9 (takeWhile is_digit (tl s)) in dec_val ds * 10 ^ (9 - length ds))"

definition leap_year :: "int \<Rightarrow> bool" where
  "leap_year y \<longleftrightarrow> y mod 4 = 0 \<and> (y mod 100 \<noteq> 0 \<or> y mod 400 = 0)"

definition days_in :: "int \<Rightarrow> int \<Rightarrow> int" where
  "days_in m y = (if m = 2 then (if leap_year y then 29 else 28)
     else if m \<in> {4, 6, 9, 11} then 30 else 31)"

definition days_from_civil :: "int \<Rightarrow> int \<Rightarrow> int \<Rightarrow> int" where
  "days_from_civil y m d =
     (let y' = (if m \<le> 2 then y - 1 else y); era = y' div 400; yoe = y' mod 400;
          mp = (if m > 2 then m - 3 else m + 9);
          doy = (153 * mp + 2) div 5 + d - 1;
          doe = yoe * 365 + yoe div 4 - yoe div 100 + doy
      in era * 146097 + doe - 719468)"

definition parse_ctime :: "string \<Rightarrow> int option" where
  "parse_ctime s =
     do {
       (_, s) \<leftarrow> lookup_name day_names s;
       s \<leftarrow> skip_blanks s;
       (mon, s) \<leftarrow> lookup_name month_names s;
       s \<leftarrow> skip_blanks s;
       (day, s) \<leftarrow> get_num False s;
       s \<leftarrow> skip_blanks s;
       (hour, s) \<leftarrow> get_num False s;
       s \<leftarrow> skip_char (CHR '':'') s;
       (minute, s) \<leftarrow> get_num True s;
       s \<leftarrow> skip_char (CHR '':'') s;
       (second, s) \<leftarrow> get_num True s;
       let frac = fraction_ns s;
       s \<leftarrow> skip_blanks (skip_fraction s);
       let year = atoi (take 4 s);
       let month = int mon + 1;
       if hour < 24 \<and> minute < 60 \<and> second < 60 \<and> length s = 4 \<and> all_digits (take 4 s)
          \<and> 1 \<le> day \<and> day \<le> days_in month year
       then Some ((((days_from_civil year month day * 24 + hour) * 60 + minute) * 60 + second) * 1000000000 + frac)
       else None
     }"

section \<open>Times in RFC 3339 (package time)\<close>

definition zone_offset :: "string \<Rightarrow> int option" where
  "zone_offset s =
     (if s = ''Z'' then Some 0
      else if length s \<noteq> 6 \<or> s ! 3 \<noteq> CHR '':'' then None
      else case (get_num True (take 2 (drop 1 s)), get_num True (drop 4 s)) of
        (Some (h, _), Some (m, _)) \<Rightarrow>
          if h > 24 \<or> m > 60 then None
          else if s ! 0 = CHR ''+'' then Some ((h * 60 + m) * 60)
          else if s ! 0 = CHR ''-'' then Some (- ((h * 60 + m) * 60)) else None
      | _ \<Rightarrow> None)"

definition parse_rfc3339 :: "string \<Rightarrow> int option" where
  "parse_rfc3339 s =
     (if length s < 4 \<or> \<not> all_digits (take 4 s) then None
      else do {
        let year = dec_val (take 4 s);
        s \<leftarrow> skip_char (CHR ''-'') (drop 4 s);
        (month, s) \<leftarrow> get_num True s;
        s \<leftarrow> skip_char (CHR ''-'') s;
        (day, s) \<leftarrow> get_num True s;
        s \<leftarrow> skip_char (CHR ''T'') s;
        (hour, s) \<leftarrow> get_num False s;
        s \<leftarrow> skip_char (CHR '':'') s;
        (minute, s) \<leftarrow> get_num True s;
        s \<leftarrow> skip_char (CHR '':'') s;
        (second, s) \<leftarrow> get_num True s;
        off \<leftarrow> zone_offset (skip_fraction s);
        if 1 \<le> month \<and> month \<le> 12 \<and> hour < 24 \<and> minute < 60 \<and> second < 60 \<and> 1 \<le> day \<and> day \<le> days_in month year
        then Some ((((days_from_civil year month day * 24 + hour) * 60 + minute) * 60 + second - off) * 1000000000 + fraction_ns s)
        else None
      })"

fun f64_add :: "float64 \<Rightarrow> float64 \<Rightarrow> float64" where
  "f64_add (Fin a) (Fin b) = round64 (a + b)"
| "f64_add NaN y = NaN"
| "f64_add x NaN = NaN"
| "f64_add PInf NInf = NaN"
| "f64_add NInf PInf = NaN"
| "f64_add PInf y = PInf"
| "f64_add x PInf = PInf"
| "f64_add NInf y = NInf"
| "f64_add x NInf = NInf"

text \<open>\<open>Duration.Seconds\<close> of a duration that is not negative.\<close>

definition duration_seconds :: "int \<Rightarrow> float64" where
  "duration_seconds d =
     f64_add (f64_of_int (d div 1000000000)) (f64_div (f64_of_int (d mod 1000000000)) (f64_of_int 1000000000))"

end
