(* ===== verification/ZfsStatus.thy ===== *)
theory ZfsStatus
  imports ZfsEngine GoTime
begin

text \<open>
  What the engine reads from the output of \<^verbatim>\<open>zpool\<close> and \<^verbatim>\<open>zfs\<close>
  (\<^verbatim>\<open>zfs-manager/internal/agent/engine.go\<close>): numbers, scrub state, the tree of vdevs, pools,
  datasets and snapshots, and the disks offered for a new pool.
\<close>

section \<open>Lines and numbers\<close>

definition zfs_lines :: "string \<Rightarrow> string list" where
  "zfs_lines s = (let t = trim_space s in if t = [] then [] else split_on (CHR 0x0A) t)"

definition parse_u64 :: "string \<Rightarrow> int" where
  "parse_u64 s = (let t = trim_space s in if t = ''-'' \<or> t = [] then 0 else atou64 t)"

definition parse_count :: "string \<Rightarrow> int" where
  "parse_count s = (let t = trim_space s in if t = ''-'' \<or> t = [] then 0 else atoi t)"

definition parse_ratio :: "string \<Rightarrow> float64" where
  "parse_ratio s = (let t = trim_space s in if t = ''-'' \<or> t = [] then Fin 1 else parse_float t)"

section \<open>Scrub state\<close>

text \<open>The result of \<open>parseScrubResult\<close>: what was repaired, and the errors if their number could
  be read.\<close>

fun parse_scrub_lines :: "string list \<Rightarrow> string \<times> int option" where
  "parse_scrub_lines [] = ([], None)"
| "parse_scrub_lines (line # lines) =
     (let f = str_fields (trim_space line) in
      if length f < 9 \<or> f ! 0 \<noteq> ''scan:'' \<or> f ! 1 \<noteq> ''scrub'' \<or> f ! 2 \<noteq> ''repaired'' \<or>
         f ! 4 \<noteq> ''in'' \<or> f ! 6 \<noteq> ''with'' \<or> f ! 8 \<noteq> ''errors''
      then parse_scrub_lines lines
      else case atoi_full (f ! 7) of (n, None) \<Rightarrow> (f ! 3, Some n) | (_, Some _) \<Rightarrow> (f ! 3, None))"

definition parse_scrub_result :: "string \<Rightarrow> string \<times> int option" where
  "parse_scrub_result out = parse_scrub_lines (split_on (CHR 0x0A) out)"

definition scan_date :: "string \<Rightarrow> string \<Rightarrow> string" where
  "scan_date s old =
     (case str_index s '' on '' of
        None \<Rightarrow> old
      | Some i \<Rightarrow>
          (let d = trim_space (drop (i + 4) s)
           in case parse_ctime d of Some t \<Rightarrow> rfc3339 t | None \<Rightarrow> d))"

definition scan_progress :: "string \<Rightarrow> string" where
  "scan_progress s =
     (case str_index s ''done'' of
        None \<Rightarrow> ''in_progress''
      | Some i \<Rightarrow>
          (let parts = str_fields (take i s)
           in if parts = [] then ''in_progress'' else ''in_progress ('' @ last parts @ '' done)''))"

definition scan_line :: "string \<Rightarrow> string \<times> string \<Rightarrow> string \<times> string" where
  "scan_line line st =
     (let l = trim_space line; s = trim_space (trim_prefix l ''scan:'') in
      if \<not> has_prefix l ''scan:'' then st
      else if str_contains s ''scrub repaired'' then (scan_date s (fst st), ''completed'')
      else if str_contains s ''scrub in progress'' then (fst st, scan_progress s)
      else if str_contains s ''scrub canceled'' then (fst st, ''canceled'')
      else if str_contains s ''scrub paused'' then (fst st, ''paused'')
      else if str_contains s ''resilver in progress'' then (fst st, ''resilvering'')
      else if str_contains s ''resilvered'' then (scan_date s (fst st), ''completed'')
      else if str_contains s ''none requested'' then (fst st, ''none'')
      else st)"

definition parse_scrub_info :: "string \<Rightarrow> string \<times> string" where
  "parse_scrub_info out = fold scan_line (split_on (CHR 0x0A) out) (''none'', ''none'')"

section \<open>The tree of vdevs\<close>

record zfs_disk =
  zd_name :: string
  zd_health :: string
  zd_read :: int
  zd_write :: int
  zd_cksum :: int

record zfs_vdev =
  zv_name :: string
  zv_type :: string
  zv_health :: string
  zv_read :: int
  zv_write :: int
  zv_cksum :: int
  zv_disks :: "zfs_disk list"

definition is_vdev_type :: "string \<Rightarrow> bool" where
  "is_vdev_type name =
     list_ex (has_prefix name) [''mirror'', ''raidz'', ''spare'', ''cache'', ''log'', ''special'']"

text \<open>\<open>None\<close>: the slice of a name that starts with \<^verbatim>\<open>raidz\<close> and has no dash panics.\<close>

definition vdev_type_of :: "string \<Rightarrow> string option" where
  "vdev_type_of name =
     (if has_prefix name ''mirror'' then Some ''mirror''
      else if has_prefix name ''raidz'' then
        (if CHR ''-'' \<in> set name then Some (takeWhile (\<lambda>c. c \<noteq> CHR ''-'') name) else None)
      else if has_prefix name ''spare'' then Some ''spare''
      else if has_prefix name ''cache'' then Some ''cache''
      else if has_prefix name ''log'' then Some ''log''
      else Some ''disk'')"

definition row_counters :: "string list \<Rightarrow> int \<times> int \<times> int" where
  "row_counters f = (if length f \<ge> 5 then (parse_u64 (f ! 2), parse_u64 (f ! 3), parse_u64 (f ! 4)) else (0, 0, 0))"

definition row_disk :: "string list \<Rightarrow> zfs_disk" where
  "row_disk f = (case row_counters f of (r, w, c) \<Rightarrow>
     \<lparr>zd_name = f ! 0, zd_health = f ! 1, zd_read = r, zd_write = w, zd_cksum = c\<rparr>)"

definition row_vdev :: "string \<Rightarrow> string list \<Rightarrow> zfs_vdev" where
  "row_vdev ty f = (case row_counters f of (r, w, c) \<Rightarrow>
     \<lparr>zv_name = f ! 0, zv_type = ty, zv_health = f ! 1, zv_read = r, zv_write = w, zv_cksum = c,
      zv_disks = []\<rparr>)"

definition add_disk :: "zfs_disk \<Rightarrow> zfs_vdev \<Rightarrow> zfs_vdev" where
  "add_disk d v = v\<lparr>zv_disks := zv_disks v @ [d]\<rparr>"

fun close_vdev :: "zfs_vdev option \<Rightarrow> zfs_vdev list" where
  "close_vdev None = []"
| "close_vdev (Some v) = [v]"

text \<open>The loop over the rows, with the vdevs closed so far and the open one; \<open>None\<close> is the panic.\<close>

fun vdev_rows :: "string list \<Rightarrow> zfs_vdev list \<Rightarrow> zfs_vdev option \<Rightarrow> zfs_vdev list option" where
  "vdev_rows [] vs cur = Some (vs @ close_vdev cur)"
| "vdev_rows (line # lines) vs cur =
     (let trimmed = trim_space line; f = str_fields trimmed;
          indent = length (takeWhile blank_char line) in
      if trimmed = [] \<or> has_prefix trimmed ''errors:'' then Some (vs @ close_vdev cur)
      else if length f < 2 then vdev_rows lines vs cur
      else if indent \<le> 4 \<and> cur = None \<and> \<not> is_vdev_type (f ! 0) then vdev_rows lines vs cur
      else if is_vdev_type (f ! 0) \<or> (indent \<le> 8 \<and> cur = None) then
        (case vdev_type_of (f ! 0) of
           None \<Rightarrow> None
         | Some ty \<Rightarrow> vdev_rows lines (vs @ close_vdev cur) (Some (row_vdev ty f)))
      else (case cur of
              Some v \<Rightarrow> vdev_rows lines vs (Some (add_disk (row_disk f) v))
            | None \<Rightarrow> vdev_rows lines (vs @ [row_vdev ''disk'' f]) None))"

definition parse_vdev_topology :: "string \<Rightarrow> zfs_vdev list option" where
  "parse_vdev_topology out =
     (case dropWhile (\<lambda>l. trim_space l \<noteq> ''config:'') (split_on (CHR 0x0A) out) of
        [] \<Rightarrow> Some []
      | _ # lines \<Rightarrow>
          (case dropWhile (\<lambda>l. \<not> has_prefix (trim_space l) ''NAME'') lines of
             [] \<Rightarrow> Some []
           | _ # rows \<Rightarrow> vdev_rows rows [] None))"

section \<open>Pools, datasets and snapshots\<close>

record zfs_pool =
  zp_name :: string
  zp_health :: string
  zp_size :: int
  zp_alloc :: int
  zp_free :: int
  zp_frag :: int
  zp_dedup :: float64
  zp_last_scrub :: string
  zp_scrub_status :: string
  zp_repaired :: string
  zp_errors :: "int option"
  zp_vdevs :: "zfs_vdev list"

definition pool_of_row :: "string list \<Rightarrow> zfs_pool" where
  "pool_of_row f =
     \<lparr>zp_name = f ! 0, zp_health = f ! 1, zp_size = parse_u64 (f ! 2), zp_alloc = parse_u64 (f ! 3),
      zp_free = parse_u64 (f ! 4), zp_frag = parse_count (trim_suffix (f ! 5) ''%''),
      zp_dedup = parse_ratio (trim_suffix (f ! 6) ''x''), zp_last_scrub = [], zp_scrub_status = [],
      zp_repaired = [], zp_errors = None, zp_vdevs = []\<rparr>"

definition pool_with_status :: "string \<Rightarrow> zfs_pool \<Rightarrow> zfs_pool option" where
  "pool_with_status out p =
     map_option (\<lambda>vs. p\<lparr>zp_last_scrub := fst (parse_scrub_info out), zp_scrub_status := snd (parse_scrub_info out),
        zp_repaired := fst (parse_scrub_result out), zp_errors := snd (parse_scrub_result out), zp_vdevs := vs\<rparr>)
       (parse_vdev_topology out)"

text \<open>\<open>ListPools\<close>: one \<^verbatim>\<open>zpool status -p\<close> for each row; a pool whose status fails is listed
  without its topology. \<open>None\<close> is the panic of the topology parser.\<close>

fun pool_rows :: "zx_host \<Rightarrow> zfs_engine \<Rightarrow> string list \<Rightarrow> zfs_pool list \<Rightarrow> zx_log \<Rightarrow> zfs_pool list option \<times> zx_log" where
  "pool_rows h e [] ps tr = (Some ps, tr)"
| "pool_rows h e (line # lines) ps tr =
     (let f = split_on (CHR 0x09) line in
      if length f < 7 then pool_rows h e lines ps tr
      else (case run_zpool h e [''status'', ''-p'', f ! 0] tr of
              ((out, Some err), tr') \<Rightarrow> pool_rows h e lines (ps @ [pool_of_row f]) tr'
            | ((out, None), tr') \<Rightarrow>
                (case pool_with_status out (pool_of_row f) of
                   None \<Rightarrow> (None, tr')
                 | Some p \<Rightarrow> pool_rows h e lines (ps @ [p]) tr')))"

definition list_pools :: "zx_host \<Rightarrow> zfs_engine \<Rightarrow> zx_log \<Rightarrow> (go_error + zfs_pool list) option \<times> zx_log" where
  "list_pools h e tr =
     (case run_zpool h e [''list'', ''-Hp'', ''-o'', ''name,health,size,alloc,free,frag,dedup''] tr of
        ((out, Some err), tr') \<Rightarrow> (Some (Inl (WrappedError ''zpool list: '' err [])), tr')
      | ((out, None), tr') \<Rightarrow>
          (case pool_rows h e (zfs_lines out) [] tr' of (r, tr'') \<Rightarrow> (map_option Inr r, tr'')))"

record zfs_dataset =
  ds_name :: string
  ds_used :: int
  ds_avail :: int
  ds_refer :: int
  ds_compress :: string
  ds_recordsize :: int
  ds_mountpoint :: string
  ds_atime :: string
  ds_sync :: string
  ds_quota :: string
  ds_reserv :: string

definition set_property :: "string \<Rightarrow> string" where
  "set_property v = (if v \<noteq> ''0'' \<and> v \<noteq> ''none'' then v else [])"

definition dataset_of_row :: "string list \<Rightarrow> string list \<Rightarrow> zfs_dataset" where
  "dataset_of_row f props =
     \<lparr>ds_name = f ! 0, ds_used = parse_u64 (f ! 1), ds_avail = parse_u64 (f ! 2), ds_refer = parse_u64 (f ! 3),
      ds_compress = f ! 4, ds_recordsize = parse_u64 (f ! 5), ds_mountpoint = f ! 6, ds_atime = f ! 7,
      ds_sync = f ! 8,
      ds_quota = (if length props \<ge> 2 then set_property (props ! 0) else []),
      ds_reserv = (if length props \<ge> 2 then set_property (props ! 1) else [])\<rparr>"

fun dataset_rows :: "zx_host \<Rightarrow> zfs_engine \<Rightarrow> string list \<Rightarrow> zx_log \<Rightarrow> zfs_dataset list \<times> zx_log" where
  "dataset_rows h e [] tr = ([], tr)"
| "dataset_rows h e (line # lines) tr =
     (let f = split_on (CHR 0x09) line in
      if length f < 9 then dataset_rows h e lines tr
      else (case run_zfs h e [''get'', ''-Hp'', ''-o'', ''value'', ''quota,reservation'', f ! 0] tr of
              ((out, err), tr') \<Rightarrow>
                (let props = (if err = None then zfs_lines out else []);
                     (ds, tr'') = dataset_rows h e lines tr'
                 in (dataset_of_row f props # ds, tr''))))"

definition list_datasets :: "zx_host \<Rightarrow> zfs_engine \<Rightarrow> zx_log \<Rightarrow> (go_error + zfs_dataset list) \<times> zx_log" where
  "list_datasets h e tr =
     (case run_zfs h e [''list'', ''-Hp'', ''-o'',
             ''name,used,avail,refer,compression,recordsize,mountpoint,atime,sync'', ''-t'', ''filesystem,volume''] tr of
        ((out, Some err), tr') \<Rightarrow> (Inl (WrappedError ''zfs list: '' err []), tr')
      | ((out, None), tr') \<Rightarrow> (case dataset_rows h e (zfs_lines out) tr' of (ds, tr'') \<Rightarrow> (Inr ds, tr'')))"

record zfs_snapshot =
  sn_dataset :: string
  sn_name :: string
  sn_full :: string
  sn_creation :: string
  sn_used :: int
  sn_referenced :: int

text \<open>A row of \<^verbatim>\<open>zfs list -t snapshot\<close>; short rows and names without \<^verbatim>\<open>@\<close> are skipped.\<close>

definition snapshot_row :: "string \<Rightarrow> zfs_snapshot list" where
  "snapshot_row line =
     (let f = split_on (CHR 0x09) line in
      if length f < 4 then []
      else (case split_n2 (CHR ''@'') (f ! 0) of
              [d, n] \<Rightarrow> [\<lparr>sn_dataset = d, sn_name = n, sn_full = f ! 0, sn_creation = f ! 1,
                         sn_used = parse_u64 (f ! 2), sn_referenced = parse_u64 (f ! 3)\<rparr>]
            | _ \<Rightarrow> []))"

definition snapshot_rows :: "string \<Rightarrow> zfs_snapshot list" where
  "snapshot_rows out = concat (map snapshot_row (zfs_lines out))"

definition list_snapshots :: "zx_host \<Rightarrow> zfs_engine \<Rightarrow> zx_log \<Rightarrow> (go_error + zfs_snapshot list) \<times> zx_log" where
  "list_snapshots h e tr =
     (case run_zfs h e [''list'', ''-Hp'', ''-o'', ''name,creation,used,referenced'', ''-t'', ''snapshot'',
             ''-s'', ''creation''] tr of
        ((out, Some err), tr') \<Rightarrow> (Inl (WrappedError ''zfs list snapshots: '' err []), tr')
      | ((out, None), tr') \<Rightarrow> (Inr (snapshot_rows out), tr'))"

section \<open>Disks that are offered for a new pool\<close>

definition parent_disk_name :: "string \<Rightarrow> string" where
  "parent_disk_name name =
     (if has_prefix name ''nvme'' \<or> has_prefix name ''mmcblk'' \<or> has_prefix name ''loop'' then
        (case last_index_byte name (CHR ''p'') of
           Some i \<Rightarrow>
             (case drop (Suc i) name of
                c # _ \<Rightarrow> if i > 0 \<and> is_digit c then take i name else name
              | [] \<Rightarrow> name)
         | None \<Rightarrow> name)
      else rev (dropWhile is_digit (rev name)))"

definition dev_path_to_name :: "string \<Rightarrow> string" where
  "dev_path_to_name s = trim_prefix s ''/dev/''"

definition add_pool_member :: "string \<Rightarrow> string set \<Rightarrow> string set" where
  "add_pool_member name ns =
     (if name = [] then ns
      else let parent = parent_disk_name name
           in if parent \<noteq> [] \<and> parent \<noteq> name then insert parent (insert name ns) else insert name ns)"

definition vdev_members :: "zfs_vdev \<Rightarrow> string list" where
  "vdev_members v = map zd_name (zv_disks v) @ (if zv_type v = ''disk'' then [zv_name v] else [])"

definition pool_names :: "zx_host \<Rightarrow> zfs_engine \<Rightarrow> zx_log \<Rightarrow> string list \<times> zx_log" where
  "pool_names h e tr =
     (case run_zpool h e [''list'', ''-Hp'', ''-o'', ''name''] tr of
        ((out, Some err), tr') \<Rightarrow> ([], tr')
      | ((out, None), tr') \<Rightarrow> (zfs_lines out, tr'))"

fun members_of_pools :: "zx_host \<Rightarrow> zfs_engine \<Rightarrow> string list \<Rightarrow> zx_log \<Rightarrow> string list option \<times> zx_log" where
  "members_of_pools h e [] tr = (Some [], tr)"
| "members_of_pools h e (pool # pools) tr =
     (case run_zpool h e [''status'', ''-LP'', pool] tr of
        ((out, Some err), tr') \<Rightarrow> members_of_pools h e pools tr'
      | ((out, None), tr') \<Rightarrow>
          (case parse_vdev_topology out of
             None \<Rightarrow> (None, tr')
           | Some vs \<Rightarrow>
               (case members_of_pools h e pools tr' of
                  (ms, tr'') \<Rightarrow>
                    (map_option (append (map dev_path_to_name (concat (map vdev_members vs)))) ms, tr''))))"

definition pool_members_by_path :: "zx_host \<Rightarrow> zfs_engine \<Rightarrow> zx_log \<Rightarrow> string list option \<times> zx_log" where
  "pool_members_by_path h e tr =
     (case pool_names h e tr of (pools, tr') \<Rightarrow> members_of_pools h e pools tr')"

datatype lsblk_size = SizeNumber float64 | SizeText string | SizeOther

record lsblk_device =
  lb_name :: string
  lb_path :: string
  lb_size :: lsblk_size
  lb_model :: string
  lb_serial :: string
  lb_type :: string

record available_disk =
  ad_name :: string
  ad_path :: string
  ad_size :: int
  ad_model :: string
  ad_serial :: string
  ad_type :: string

definition disk_in_use :: "string set \<Rightarrow> lsblk_device \<Rightarrow> bool" where
  "disk_in_use used d \<longleftrightarrow>
     lb_name d \<in> used \<or>
     (lb_type d = ''part'' \<and> parent_disk_name (lb_name d) \<noteq> lb_name d \<and>
      parent_disk_name (lb_name d) \<in> used)"

definition available_of :: "(float64 \<Rightarrow> int) \<Rightarrow> lsblk_device \<Rightarrow> available_disk" where
  "available_of conv d =
     \<lparr>ad_name = lb_name d, ad_path = lb_path d,
      ad_size = (case lb_size d of SizeNumber x \<Rightarrow> f64_to_u64 conv x | SizeText s \<Rightarrow> parse_u64 s | SizeOther \<Rightarrow> 0),
      ad_model = trim_space (lb_model d), ad_serial = trim_space (lb_serial d), ad_type = lb_type d\<rparr>"

definition offered_disks :: "(float64 \<Rightarrow> int) \<Rightarrow> string set \<Rightarrow> lsblk_device list \<Rightarrow> available_disk list" where
  "offered_disks conv used devs =
     map (available_of conv)
       (filter (\<lambda>d. (lb_type d = ''disk'' \<or> lb_type d = ''part'') \<and> \<not> disk_in_use used d) devs)"

text \<open>\<open>ListAvailableDisks\<close> with the JSON decoder \<open>dec\<close> and the conversion \<open>conv\<close> of the sizes that
  do not fit into 64 bits; the members are those of the topologies of \<open>ListPools\<close> and those that
  \<^verbatim>\<open>zpool status -LP\<close> names. \<open>None\<close> is the panic of the topology parser.\<close>

definition list_available_disks :: "(string \<Rightarrow> string + lsblk_device list) \<Rightarrow> (float64 \<Rightarrow> int) \<Rightarrow> zx_host \<Rightarrow>
    zfs_engine \<Rightarrow> zx_log \<Rightarrow> (go_error + available_disk list) option \<times> zx_log" where
  "list_available_disks dec conv h e tr =
     (case list_pools h e tr of
        (None, tr1) \<Rightarrow> (None, tr1)
      | (Some pools, tr1) \<Rightarrow>
          (let used1 = (case pools of Inl err \<Rightarrow> {}
                        | Inr ps \<Rightarrow> fold add_pool_member (concat (map vdev_members (concat (map zp_vdevs ps)))) {})
           in case pool_members_by_path h e tr1 of
                (None, tr2) \<Rightarrow> (None, tr2)
              | (Some ms, tr2) \<Rightarrow>
                  (case zx_run h ''lsblk'' [''-Jbno'', ''NAME,PATH,SIZE,MODEL,SERIAL,TYPE''] tr2 of
                     ((out, Some err), tr3) \<Rightarrow> (Some (Inl (WrappedError ''lsblk: '' err [])), tr3)
                   | ((out, None), tr3) \<Rightarrow>
                       (case dec out of
                          Inl msg \<Rightarrow> (Some (Inl (PlainError (''parse lsblk: '' @ msg))), tr3)
                        | Inr devs \<Rightarrow>
                            (Some (Inr (offered_disks conv (fold add_pool_member ms used1) devs)), tr3)))))"

end
