(* ===== verification/ZfsTopology.thy ===== *)
theory ZfsTopology
  imports ZfsStatus
begin

text \<open>
  The topology parser against the text \<^verbatim>\<open>zpool status\<close> prints: \<open>status_text\<close> prints a pool with its
  vdevs and disks indented under it and its columns padded in any way, and the parser is compared
  with what was printed.
\<close>

section \<open>The printed status\<close>

definition disk_words :: "zfs_disk \<Rightarrow> string list" where
  "disk_words d = [zd_name d, zd_health d, dec_digits (zd_read d), dec_digits (zd_write d), dec_digits (zd_cksum d)]"

definition vdev_words5 :: "zfs_vdev \<Rightarrow> string list" where
  "vdev_words5 v = [zv_name v, zv_health v, dec_digits (zv_read v), dec_digits (zv_write v), dec_digits (zv_cksum v)]"

definition status_row :: "(string list \<Rightarrow> nat list) \<Rightarrow> nat \<Rightarrow> string list \<Rightarrow> string" where
  "status_row gap ind ws = (CHR 0x09 # replicate ind (CHR '' '')) @ row_text (gap ws) ws"

definition vdev_lines :: "(string list \<Rightarrow> nat list) \<Rightarrow> zfs_vdev \<Rightarrow> string list" where
  "vdev_lines gap v =
     status_row gap 2 (vdev_words5 v) # map (\<lambda>d. status_row gap 4 (disk_words d)) (zv_disks v)"

definition status_lines :: "string list \<Rightarrow> (string list \<Rightarrow> nat list) \<Rightarrow> string \<Rightarrow> string list \<Rightarrow> string list" where
  "status_lines pre gap pool rows =
     pre @ [''config:'', [], CHR 0x09 # ''NAME STATE READ WRITE CKSUM'',
      status_row gap 0 [pool, ''ONLINE'', ''0'', ''0'', ''0'']] @ rows @ [[], ''errors: No known data errors'']"

definition status_text :: "string list \<Rightarrow> (string list \<Rightarrow> nat list) \<Rightarrow> string \<Rightarrow> string list \<Rightarrow> string" where
  "status_text pre gap pool rows = join_with [CHR 0x0A] (status_lines pre gap pool rows)"

definition counter_ok :: "int \<Rightarrow> bool" where
  "counter_ok n \<longleftrightarrow> 0 \<le> n \<and> n \<le> uint64_max"

definition disk_row_ok :: "zfs_disk \<Rightarrow> bool" where
  "disk_row_ok d \<longleftrightarrow>
     word_ok (zd_name d) \<and> word_ok (zd_health d) \<and> \<not> is_vdev_type (zd_name d) \<and>
     \<not> has_prefix (zd_name d) ''errors:'' \<and>
     counter_ok (zd_read d) \<and> counter_ok (zd_write d) \<and> counter_ok (zd_cksum d)"

definition vdev_row_ok :: "zfs_vdev \<Rightarrow> bool" where
  "vdev_row_ok v \<longleftrightarrow>
     word_ok (zv_name v) \<and> word_ok (zv_health v) \<and> is_vdev_type (zv_name v) \<and>
     vdev_type_of (zv_name v) = Some (zv_type v) \<and>
     counter_ok (zv_read v) \<and> counter_ok (zv_write v) \<and> counter_ok (zv_cksum v) \<and>
     list_all disk_row_ok (zv_disks v)"

definition pool_name_ok :: "string \<Rightarrow> bool" where
  "pool_name_ok p \<longleftrightarrow> word_ok p \<and> \<not> is_vdev_type p \<and> \<not> has_prefix p ''errors:''"

definition preamble_ok :: "string list \<Rightarrow> bool" where
  "preamble_ok pre \<longleftrightarrow> list_all (\<lambda>l. CHR 0x0A \<notin> set l \<and> trim_space l \<noteq> ''config:'') pre"

section \<open>One row\<close>

lemma vdev_not_errors: "is_vdev_type name \<Longrightarrow> \<not> has_prefix name ''errors:''"
  by (cases name) (auto simp: is_vdev_type_def)

lemma status_row_blank: "list_all blank_char (CHR 0x09 # replicate n (CHR '' ''))"
  by (simp add: blank_char_def list_all_iff)

lemma status_row_trim:
  "list_all word_ok ws \<Longrightarrow> ws \<noteq> [] \<Longrightarrow> trim_space (status_row gap n ws) = row_text (gap ws) ws"
  using trim_row [OF status_row_blank] unfolding status_row_def by blast

lemma status_row_indent:
  assumes "list_all word_ok ws" and "ws \<noteq> []"
  shows "length (takeWhile blank_char (status_row gap n ws)) = Suc n"
proof -
  have "takeWhile blank_char (status_row gap n ws) = CHR 0x09 # replicate n (CHR '' '')"
    unfolding status_row_def
    using row_text_ends [OF assms] by (intro takeWhile_blank_line status_row_blank) auto
  then show ?thesis by simp
qed

lemma status_row_no_newline: "list_all word_ok ws \<Longrightarrow> CHR 0x0A \<notin> set (status_row gap n ws)"
  using row_no_newline by (auto simp: status_row_def)

declare vdev_rows.simps(2) [simp del]

lemma vdev_rows_end [simp]: "vdev_rows ([] # lines) vs cur = Some (vs @ close_vdev cur)"
  by (simp add: vdev_rows.simps(2))

text \<open>The three ways a row of five words is read.\<close>

lemma vdev_rows_step:
  assumes "list_all word_ok (w # v # ws)" and "\<not> has_prefix w ''errors:''"
  shows "vdev_rows (status_row gap n (w # v # ws) # lines) vs cur =
    (if n \<le> 3 \<and> cur = None \<and> \<not> is_vdev_type w then vdev_rows lines vs cur
     else if is_vdev_type w \<or> (n \<le> 7 \<and> cur = None) then
       (case vdev_type_of w of
          None \<Rightarrow> None
        | Some ty \<Rightarrow> vdev_rows lines (vs @ close_vdev cur) (Some (row_vdev ty (w # v # ws))))
     else (case cur of
             Some x \<Rightarrow> vdev_rows lines vs (Some (add_disk (row_disk (w # v # ws)) x))
           | None \<Rightarrow> vdev_rows lines (vs @ [row_vdev ''disk'' (w # v # ws)]) None))"
proof -
  let ?ws = "w # v # ws" and ?l = "status_row gap n (w # v # ws)"
  have t: "trim_space ?l = row_text (gap ?ws) ?ws" using assms(1) by (intro status_row_trim) auto
  have ne: "row_text (gap ?ws) ?ws \<noteq> []" using row_text_ends [OF assms(1)] by blast
  have f: "str_fields (row_text (gap ?ws) ?ws) = ?ws" using assms(1) by (rule str_fields_row)
  have p: "\<not> has_prefix (row_text (gap ?ws) ?ws) ''errors:''" using assms(2) by (simp add: has_prefix_row)
  have i: "length (takeWhile blank_char ?l) = Suc n" using assms(1) by (intro status_row_indent) auto
  show ?thesis
    by (simp only: vdev_rows.simps(2) Let_def t f i ne p) simp
qed

lemma digits_trim [simp]: "0 \<le> n \<Longrightarrow> trim_space (dec_digits n) = dec_digits n"
  using trim_row [of "[]" "[dec_digits n]" "[]"] by simp

lemma parse_u64_digits: "counter_ok n \<Longrightarrow> parse_u64 (dec_digits n) = n"
proof -
  assume n: "counter_ok n"
  then have "list_all is_digit (dec_digits n)"
    using all_digits_dec_digits [of n] by (simp add: counter_ok_def all_digits_def)
  then have "dec_digits n \<noteq> ''-''" by (auto simp: is_digit_def)
  with n show ?thesis by (simp add: parse_u64_def Let_def counter_ok_def atou64_dec_digits)
qed

lemma row_disk_words: "disk_row_ok d \<Longrightarrow> row_disk (disk_words d) = d"
  by (simp add: row_disk_def row_counters_def disk_words_def disk_row_ok_def parse_u64_digits)

lemma row_vdev_words:
  "vdev_row_ok v \<Longrightarrow> row_vdev (zv_type v) (vdev_words5 v) = v\<lparr>zv_disks := []\<rparr>"
  by (simp add: row_vdev_def row_counters_def vdev_words5_def vdev_row_ok_def parse_u64_digits)

section \<open>All rows\<close>

lemma disk_words_ok: "disk_row_ok d \<Longrightarrow> list_all word_ok (disk_words d)"
  by (simp add: disk_words_def disk_row_ok_def counter_ok_def)

lemma vdev_words_ok: "vdev_row_ok v \<Longrightarrow> list_all word_ok (vdev_words5 v)"
  by (simp add: vdev_words5_def vdev_row_ok_def counter_ok_def)

lemma disk_row_step:
  assumes "disk_row_ok d"
  shows "vdev_rows (status_row gap 4 (disk_words d) # lines) vs (Some v) =
    vdev_rows lines vs (Some (add_disk d v))"
proof -
  have "row_disk (disk_words d) = d" using assms by (rule row_disk_words)
  with assms disk_words_ok [OF assms] show ?thesis
    unfolding disk_words_def by (subst vdev_rows_step) (simp_all add: disk_row_ok_def)
qed

lemma disk_rows_steps:
  "list_all disk_row_ok ds \<Longrightarrow>
     vdev_rows (map (\<lambda>d. status_row gap 4 (disk_words d)) ds @ lines) vs (Some v) =
     vdev_rows lines vs (Some (v\<lparr>zv_disks := zv_disks v @ ds\<rparr>))"
  by (induction ds arbitrary: v) (simp_all add: disk_row_step add_disk_def)

lemma vdev_row_step:
  assumes "vdev_row_ok v"
  shows "vdev_rows (vdev_lines gap v @ lines) vs cur = vdev_rows lines (vs @ close_vdev cur) (Some v)"
proof -
  have "vdev_rows (status_row gap 2 (vdev_words5 v) # ls) vs cur =
      vdev_rows ls (vs @ close_vdev cur) (Some (row_vdev (zv_type v) (vdev_words5 v)))" for ls
    using assms vdev_words_ok [OF assms] vdev_not_errors
    unfolding vdev_words5_def by (subst vdev_rows_step) (simp_all add: vdev_row_ok_def)
  with assms show ?thesis
    by (simp add: vdev_lines_def disk_rows_steps row_vdev_words vdev_row_ok_def)
qed

lemma vdevs_rows_steps:
  "list_all vdev_row_ok ws \<Longrightarrow>
     vdev_rows (concat (map (vdev_lines gap) ws) @ [] # lines) vs cur =
     Some (vs @ close_vdev cur @ ws)"
  by (induction ws arbitrary: vs cur) (simp_all add: vdev_row_step)

lemma pool_row_skipped:
  assumes "pool_name_ok pool"
  shows "vdev_rows (status_row gap 0 [pool, ''ONLINE'', ''0'', ''0'', ''0''] # lines) vs None = vdev_rows lines vs None"
  using assms by (subst vdev_rows_step) (simp_all add: pool_name_ok_def word_ok_def plain_char_def)

lemma parse_status_text:
  assumes "preamble_ok pre" and "pool_name_ok pool" and "list_all (\<lambda>l. CHR 0x0A \<notin> set l) rows"
  shows "parse_vdev_topology (status_text pre gap pool rows) =
    vdev_rows (rows @ [[], ''errors: No known data errors'']) [] None"
proof -
  let ?tail = "rows @ [[], ''errors: No known data errors'']"
  let ?pool = "status_row gap 0 [pool, ''ONLINE'', ''0'', ''0'', ''0'']"
  let ?header = "CHR 0x09 # ''NAME STATE READ WRITE CKSUM''"
  have pool: "CHR 0x0A \<notin> set ?pool"
    using assms(2) by (intro status_row_no_newline) (simp add: pool_name_ok_def word_ok_def plain_char_def)
  have "split_on (CHR 0x0A) (status_text pre gap pool rows) = status_lines pre gap pool rows"
    unfolding status_text_def using assms(1,3) pool
    by (intro split_join) (auto simp: status_lines_def preamble_ok_def list_all_iff)
  moreover have "dropWhile (\<lambda>l. trim_space l \<noteq> ''config:'') (status_lines pre gap pool rows) =
      ''config:'' # [] # ?header # ?pool # ?tail"
  proof -
    have "trim_space ''config:'' = ''config:''"
      using trim_row [of "[]" "[''config:'']" "[]"] by (simp add: word_ok_def plain_char_def)
    moreover have "list_all (\<lambda>l. trim_space l \<noteq> ''config:'') pre"
      using assms(1) by (simp add: preamble_ok_def list_all_iff)
    ultimately show ?thesis
      unfolding status_lines_def by (subst dropWhile_append2) (auto simp: list_all_iff)
  qed
  moreover have "has_prefix (trim_space ?header) ''NAME''"
  proof -
    have "trim_space ([CHR 0x09] @ ''NAME STATE READ WRITE CKSUM'') = ''NAME STATE READ WRITE CKSUM''"
      by (rule trim_space_line) (simp_all add: blank_char_def plain_char_def)
    then show ?thesis by simp
  qed
  ultimately have "parse_vdev_topology (status_text pre gap pool rows) = vdev_rows (?pool # ?tail) [] None"
    by (simp add: parse_vdev_topology_def)
  then show ?thesis using assms(2) by (simp add: pool_row_skipped)
qed

lemma disk_rows_no_newline:
  "list_all disk_row_ok ds \<Longrightarrow>
     list_all (\<lambda>l. CHR 0x0A \<notin> set l) (map (\<lambda>d. status_row gap n (disk_words d)) ds)"
  by (induction ds) (simp_all add: disk_words_ok status_row_no_newline)

lemma vdev_lines_no_newline:
  "vdev_row_ok v \<Longrightarrow> list_all (\<lambda>l. CHR 0x0A \<notin> set l) (vdev_lines gap v)"
  using disk_rows_no_newline [of "zv_disks v"]
  by (simp add: vdev_lines_def status_row_no_newline vdev_words_ok vdev_row_ok_def)

lemma topology_printed:
  assumes "preamble_ok pre" and "pool_name_ok pool" and "list_all vdev_row_ok vs"
  shows "parse_vdev_topology (status_text pre gap pool (concat (map (vdev_lines gap) vs))) = Some vs"
proof -
  have "list_all (\<lambda>l. CHR 0x0A \<notin> set l) (concat (map (vdev_lines gap) vs))"
    using assms(3) by (induction vs) (simp_all add: vdev_lines_no_newline)
  then show ?thesis
    using parse_status_text [OF assms(1,2)] vdevs_rows_steps [OF assms(3), of gap _ "[]" None] by simp
qed

text \<open>C28. The topology survives printing and parsing: for a pool whose vdevs are all redundant
  (mirror, raidz) or of another named kind, parsing the status that lists them, with any text in
  front and any padding of the columns, gives back exactly these vdevs with their disks, states
  and counters.\<close>

theorem topology_roundtrip:
  assumes "preamble_ok pre" and "pool_name_ok pool" and "list_all vdev_row_ok vs"
  shows "parse_vdev_topology (status_text pre gap pool (concat (map (vdev_lines gap) vs))) = Some vs"
  using assms by (rule topology_printed)

definition sample_vdev :: zfs_vdev where
  "sample_vdev = \<lparr>zv_name = ''mirror-0'', zv_type = ''mirror'', zv_health = ''ONLINE'', zv_read = 0,
     zv_write = 0, zv_cksum = 3,
     zv_disks = [\<lparr>zd_name = ''sda'', zd_health = ''ONLINE'', zd_read = 0, zd_write = 0, zd_cksum = 3\<rparr>,
                 \<lparr>zd_name = ''sdb'', zd_health = ''ONLINE'', zd_read = 0, zd_write = 0, zd_cksum = 0\<rparr>]\<rparr>"

lemma topology_roundtrip_witness:
  "parse_vdev_topology (status_text [''state: ONLINE''] (\<lambda>_. [2, 1]) ''tank''
     (concat (map (vdev_lines (\<lambda>_. [2, 1])) [sample_vdev]))) = Some [sample_vdev]"
proof (rule topology_roundtrip)
  have "trim_space ''state: ONLINE'' = ''state: ONLINE''"
    using trim_row [of "[]" "[''state:'', ''ONLINE'']" "[]"] by (simp add: word_ok_def plain_char_def)
  then show "preamble_ok [''state: ONLINE'']" by (simp add: preamble_ok_def)
  show "pool_name_ok ''tank''" by (simp add: pool_name_ok_def word_ok_def plain_char_def is_vdev_type_def)
  show "list_all vdev_row_ok [sample_vdev]"
    by (simp add: sample_vdev_def vdev_row_ok_def disk_row_ok_def word_ok_def plain_char_def is_vdev_type_def
        vdev_type_of_def counter_ok_def uint64_max_def)
qed

section \<open>Pools without redundancy\<close>

text \<open>A member of a stripe is printed directly under its pool, at the indentation of a vdev.\<close>

definition stripe_lines :: "(string list \<Rightarrow> nat list) \<Rightarrow> zfs_disk list \<Rightarrow> string list" where
  "stripe_lines gap ds = map (\<lambda>d. status_row gap 2 (disk_words d)) ds"

lemma stripe_rows_skipped:
  "list_all disk_row_ok ds \<Longrightarrow> vdev_rows (stripe_lines gap ds @ [] # lines) vs None = Some vs"
proof (induction ds)
  case (Cons d ds)
  then have "disk_row_ok d" by simp
  then have "vdev_rows (status_row gap 2 (disk_words d) # ls) vs None = vdev_rows ls vs None" for ls
    using disk_words_ok [of d] unfolding disk_words_def
    by (subst vdev_rows_step) (simp_all add: disk_row_ok_def)
  with Cons show ?case by (simp add: stripe_lines_def)
qed (simp add: stripe_lines_def)

lemma stripe_topology_empty:
  assumes "preamble_ok pre" and "pool_name_ok pool" and "list_all disk_row_ok ds"
  shows "parse_vdev_topology (status_text pre gap pool (stripe_lines gap ds)) = Some []"
proof -
  have "list_all (\<lambda>l. CHR 0x0A \<notin> set l) (stripe_lines gap ds)"
    using assms(3) unfolding stripe_lines_def by (rule disk_rows_no_newline)
  then show ?thesis
    using parse_status_text [OF assms(1,2)] stripe_rows_skipped [OF assms(3), of gap _ "[]"] by simp
qed

section \<open>What is offered for a new pool\<close>

lemma offered_not_used:
  "ad \<in> set (offered_disks conv used devs) \<Longrightarrow> ad_name ad \<notin> used"
  by (auto simp: offered_disks_def disk_in_use_def available_of_def)

lemma add_pool_members:
  "n \<in> fold add_pool_member ms used \<longleftrightarrow>
     n \<in> used \<or> (n \<noteq> [] \<and> n \<in> set ms) \<or> (n \<noteq> [] \<and> (\<exists>m \<in> set ms. m \<noteq> [] \<and> parent_disk_name m = n))"
proof (induction ms arbitrary: used)
  case (Cons m ms)
  have "n \<in> add_pool_member m used \<longleftrightarrow>
      n \<in> used \<or> (n \<noteq> [] \<and> n = m) \<or> (n \<noteq> [] \<and> m \<noteq> [] \<and> parent_disk_name m = n)"
    by (auto simp: add_pool_member_def Let_def)
  then show ?case using Cons by auto
qed simp

text \<open>What the engine reads of a host: one pool, whose two forms of status are given.\<close>

definition one_pool_host :: "zx_host \<Rightarrow> zfs_engine \<Rightarrow> string list \<Rightarrow> string \<Rightarrow> string \<Rightarrow> string \<Rightarrow> bool" where
  "one_pool_host h e row status status_lp lsblk \<longleftrightarrow>
     (\<forall>tr. zh_run h tr (en_zpool e) [''list'', ''-Hp'', ''-o'', ''name,health,size,alloc,free,frag,dedup''] =
        Exited (join_with [CHR 0x09] row)) \<and>
     (\<forall>tr. zh_run h tr (en_zpool e) [''list'', ''-Hp'', ''-o'', ''name''] = Exited (hd row)) \<and>
     (\<forall>tr. zh_run h tr (en_zpool e) [''status'', ''-p'', hd row] = Exited status) \<and>
     (\<forall>tr. zh_run h tr (en_zpool e) [''status'', ''-LP'', hd row] = Exited status_lp) \<and>
     (\<forall>tr. zh_run h tr ''lsblk'' [''-Jbno'', ''NAME,PATH,SIZE,MODEL,SERIAL,TYPE''] = Exited lsblk)"

lemma join_tab_ends:
  "list_all word_ok ws \<Longrightarrow> ws \<noteq> [] \<Longrightarrow> join_with [CHR 0x09] ws \<noteq> [] \<and>
     plain_char (hd (join_with [CHR 0x09] ws)) \<and> plain_char (last (join_with [CHR 0x09] ws)) \<and>
     CHR 0x0A \<notin> set (join_with [CHR 0x09] ws)"
proof (induction ws rule: induct_list012)
  case (2 w)
  then show ?case by (cases w) (auto simp: word_ok_def list_all_iff plain_no_newline)
next
  case (3 w v ws)
  then show ?case by (cases w) (auto simp: word_ok_def list_all_iff plain_no_newline)
qed simp

lemma zfs_lines_one: "s \<noteq> [] \<Longrightarrow> plain_char (hd s) \<Longrightarrow> plain_char (last s) \<Longrightarrow> CHR 0x0A \<notin> set s \<Longrightarrow>
    trim_space s = s \<and> zfs_lines s = [s]"
  using trim_space_line [of "[]" s] by (simp add: zfs_lines_def Let_def split_on_none)

lemma run_exited: "zh_run h tr bin args = Exited out \<Longrightarrow> zx_run h bin args tr = ((trim_space out, None), tr @ [Cmd bin args])"
  by (simp add: zx_run_def)

lemma one_pool_members:
  assumes host: "one_pool_host h e row status status_lp lsblk"
    and row: "list_all word_ok row" "length row = 7"
    and vs: "parse_vdev_topology (trim_space status) = Some vs"
    and vs_lp: "parse_vdev_topology (trim_space status_lp) = Some vs'"
    and dec: "dec (trim_space lsblk) = Inr devs"
  shows "fst (list_available_disks dec conv h e tr) = Some (Inr (offered_disks conv
    (fold add_pool_member (map dev_path_to_name (concat (map vdev_members vs')))
      (fold add_pool_member (concat (map vdev_members vs)) {})) devs))"
proof -
  have ne: "row \<noteq> []" using row(2) by auto
  have line: "trim_space (join_with [CHR 0x09] row) = join_with [CHR 0x09] row \<and>
      zfs_lines (join_with [CHR 0x09] row) = [join_with [CHR 0x09] row]"
    using join_tab_ends [OF row(1) ne] by (intro zfs_lines_one) auto
  have split: "split_on (CHR 0x09) (join_with [CHR 0x09] row) = row"
    using row(1) ne by (intro split_join) (auto simp: list_all_iff word_ok_def plain_no_newline)
  have hd: "word_ok (hd row)" using row(1) ne by (cases row) auto
  then have name: "trim_space (hd row) = hd row \<and> zfs_lines (hd row) = [hd row]"
    by (intro zfs_lines_one) (auto simp: word_ok_def list_all_iff plain_no_newline)
  have nth: "row ! 0 = hd row" using ne by (cases row) auto
  have pools: "list_pools h e tr =
      (Some (Inr [the (pool_with_status (trim_space status) (pool_of_row row))]),
       tr @ [Cmd (en_zpool e) [''list'', ''-Hp'', ''-o'', ''name,health,size,alloc,free,frag,dedup''],
             Cmd (en_zpool e) [''status'', ''-p'', hd row]])" for tr
    using host line split row(2) vs
    by (simp add: list_pools_def run_zpool_def one_pool_host_def run_exited nth pool_with_status_def)
  have vdevs: "zp_vdevs (the (pool_with_status (trim_space status) (pool_of_row row))) = vs"
    by (simp add: pool_with_status_def vs)
  have members: "fst (pool_members_by_path h e tr) = Some (map dev_path_to_name (concat (map vdev_members vs')))" for tr
    using host name vs_lp
    by (simp add: pool_members_by_path_def pool_names_def run_zpool_def one_pool_host_def run_exited)
  define rest where "rest tr = snd (pool_members_by_path h e tr)" for tr
  have m: "pool_members_by_path h e tr = (Some (map dev_path_to_name (concat (map vdev_members vs'))), rest tr)" for tr
    using members [of tr] by (simp add: rest_def prod_eq_iff)
  show ?thesis
    using host dec by (simp add: list_available_disks_def pools vdevs m one_pool_host_def run_exited Let_def)
qed

text \<open>The status as a host prints it: the line of the pool first, indented.\<close>

definition printed_status :: "string list \<Rightarrow> (string list \<Rightarrow> nat list) \<Rightarrow> string \<Rightarrow> string list \<Rightarrow> string" where
  "printed_status pre gap pool rows = ''  '' @ status_text ((''pool: '' @ pool) # pre) gap pool rows"

lemma hd_join: "x \<noteq> [] \<Longrightarrow> join_with sep (x # xs) \<noteq> [] \<and> hd (join_with sep (x # xs)) = hd x"
  by (cases xs) simp_all

lemma last_join: "y \<noteq> [] \<Longrightarrow> join_with sep (xs @ [y]) \<noteq> [] \<and> last (join_with sep (xs @ [y])) = last y"
  by (induction xs) (simp_all add: join_with_Cons)

lemma printed_status_trim: "trim_space (printed_status pre gap pool rows) = status_text ((''pool: '' @ pool) # pre) gap pool rows"
proof -
  define l where "l = status_lines ((''pool: '' @ pool) # pre) gap pool rows"
  define m where "m = [''config:'', [], CHR 0x09 # ''NAME STATE READ WRITE CKSUM'',
      status_row gap 0 [pool, ''ONLINE'', ''0'', ''0'', ''0'']] @ rows"
  have front: "l = (''pool: '' @ pool) # (pre @ m @ [[], ''errors: No known data errors''])"
    by (simp only: l_def m_def status_lines_def append.simps append_assoc)
  have "join_with [CHR 0x0A] l \<noteq> [] \<and> hd (join_with [CHR 0x0A] l) = hd (''pool: '' @ pool)"
    unfolding front by (rule hd_join) simp
  then have h: "join_with [CHR 0x0A] l \<noteq> []" "plain_char (hd (join_with [CHR 0x0A] l))"
    by (simp_all add: plain_char_def)
  have behind: "l = (((''pool: '' @ pool) # pre) @ m @ [[]]) @ [''errors: No known data errors'']"
    by (simp only: front append.simps append_assoc)
  have "join_with [CHR 0x0A] l \<noteq> [] \<and> last (join_with [CHR 0x0A] l) = last ''errors: No known data errors''"
    unfolding behind by (rule last_join) simp
  then have "plain_char (last (join_with [CHR 0x0A] l))" by (simp add: plain_char_def)
  with h show ?thesis
    unfolding printed_status_def status_text_def l_def [symmetric]
    by (intro trim_space_line) (simp_all add: blank_char_def)
qed

lemma preamble_pool:
  assumes "pool_name_ok pool" and "preamble_ok pre"
  shows "preamble_ok ((''pool: '' @ pool) # pre)"
proof -
  have p: "word_ok pool" using assms(1) by (simp add: pool_name_ok_def)
  then have "last pool \<in> set pool" "list_all plain_char pool" by (auto simp: word_ok_def)
  then have "trim_space ([] @ (''pool: '' @ pool)) = ''pool: '' @ pool"
    using p by (intro trim_space_line) (auto simp: word_ok_def list_all_iff plain_char_def)
  then show ?thesis
    using assms(2) p by (simp add: preamble_ok_def word_ok_def plain_no_newline)
qed

lemma printed_topology:
  assumes "pool_name_ok pool" and "preamble_ok pre" and "list_all vdev_row_ok vs"
  shows "parse_vdev_topology (trim_space (printed_status pre gap pool (concat (map (vdev_lines gap) vs)))) = Some vs"
  unfolding printed_status_trim using preamble_pool assms by (intro topology_printed)

lemma printed_stripe:
  assumes "pool_name_ok pool" and "preamble_ok pre" and "list_all disk_row_ok ds"
  shows "parse_vdev_topology (trim_space (printed_status pre gap pool (stripe_lines gap ds))) = Some []"
  unfolding printed_status_trim using preamble_pool assms by (intro stripe_topology_empty)


text \<open>A pool without redundancy is invisible: its members are printed at the indentation at
  which the parser skips rows until the first vdev, so its topology is empty and every disk and
  partition of the host is offered for a new pool, the members of the pool included.\<close>

lemma stripe_members_offered:
  assumes "one_pool_host h e row (printed_status pre gap (hd row) (stripe_lines gap ds))
      (printed_status pre gap (hd row) (stripe_lines gap ds_lp)) lsblk"
    and "list_all word_ok row" and "length row = 7" and "pool_name_ok (hd row)" and "preamble_ok pre"
    and "list_all disk_row_ok ds" and "list_all disk_row_ok ds_lp" and "dec (trim_space lsblk) = Inr devs"
  shows "fst (list_available_disks dec conv h e tr) =
    Some (Inr (map (available_of conv) (filter (\<lambda>d. lb_type d = ''disk'' \<or> lb_type d = ''part'') devs)))"
  using one_pool_members [where dec = dec and lsblk = lsblk, OF assms(1-3) printed_stripe [where gap = gap, OF assms(4,5,6)] printed_stripe [where gap = gap, OF assms(4,5,7)] assms(8)]
  by (simp add: offered_disks_def disk_in_use_def)

section \<open>Sample hosts\<close>

definition status_host :: "string \<Rightarrow> string \<Rightarrow> zx_host" where
  "status_host status status_lp =
     \<lparr>zh_run = (\<lambda>_ bin args. Exited (
        if args = [''status'', ''-p'', ''tank''] then status
        else if args = [''status'', ''-LP'', ''tank''] then status_lp
        else if args = [''list'', ''-Hp'', ''-o'', ''name''] then ''tank''
        else if bin = ''lsblk'' then ''lsblk''
        else join_with [CHR 0x09] [''tank'', ''ONLINE'', ''9'', ''4'', ''5'', ''0'', ''1'']))
      , zh_pipe = (\<lambda>_ _. [])\<rparr>"

definition sample_engine :: zfs_engine where
  "sample_engine = new_zfs_engine (\<lambda>_. []) [] [] []"

definition sample_part :: "string \<Rightarrow> string \<Rightarrow> lsblk_device" where
  "sample_part name ty = \<lparr>lb_name = name, lb_path = ''/dev/'' @ name, lb_size = SizeText ''9'', lb_model = [],
     lb_serial = [], lb_type = ty\<rparr>"

definition sample_disk :: "string \<Rightarrow> zfs_disk" where
  "sample_disk name = \<lparr>zd_name = name, zd_health = ''ONLINE'', zd_read = 0, zd_write = 0, zd_cksum = 0\<rparr>"

lemma status_host_one_pool:
  "one_pool_host (status_host status status_lp) sample_engine [''tank'', ''ONLINE'', ''9'', ''4'', ''5'', ''0'', ''1'']
     status status_lp ''lsblk''"
  by (simp add: one_pool_host_def status_host_def sample_engine_def new_zfs_engine_def)

lemma sample_disk_ok: "disk_row_ok (sample_disk ''/dev/sda2'')" "disk_row_ok (sample_disk ''sda2'')"
  by (simp_all add: sample_disk_def disk_row_ok_def word_ok_def plain_char_def is_vdev_type_def counter_ok_def
      uint64_max_def)

definition sample_row :: "string list" where
  "sample_row = [''tank'', ''ONLINE'', ''9'', ''4'', ''5'', ''0'', ''1'']"

lemma sample_row_ok: "list_all word_ok sample_row" "pool_name_ok (hd sample_row)" "pool_name_ok ''tank''" "length sample_row = 7"
    "hd sample_row = ''tank''" "preamble_ok []"
  by (simp_all add: sample_row_def word_ok_def plain_char_def pool_name_ok_def is_vdev_type_def preamble_ok_def)

definition sample_stripe :: "string \<Rightarrow> string" where
  "sample_stripe dev = printed_status [] (\<lambda>_. []) (hd sample_row) (stripe_lines (\<lambda>_. []) [sample_disk dev])"

definition sample_mirror :: "string \<Rightarrow> zfs_vdev" where
  "sample_mirror dev = \<lparr>zv_name = ''mirror-0'', zv_type = ''mirror'', zv_health = ''ONLINE'', zv_read = 0,
     zv_write = 0, zv_cksum = 0, zv_disks = [sample_disk dev]\<rparr>"

lemma sample_mirror_ok: "disk_row_ok (sample_disk dev) \<Longrightarrow> vdev_row_ok (sample_mirror dev)"
  by (simp add: sample_mirror_def vdev_row_ok_def word_ok_def plain_char_def is_vdev_type_def vdev_type_of_def
      counter_ok_def uint64_max_def)

definition sample_status :: "string \<Rightarrow> string" where
  "sample_status dev = printed_status [] (\<lambda>_. []) (hd sample_row)
     (concat (map (vdev_lines (\<lambda>_. [])) [sample_mirror dev]))"


end
