(* ===== verification/ZfsReplication.thy ===== *)
theory ZfsReplication
  imports ZfsStatus
begin

text \<open>
  Replication (\<^verbatim>\<open>zfs-manager/internal/agent/replication.go\<close>, \<^verbatim>\<open>sshkeys.go\<close>): the command lines,
  the choice of the incremental base, the send and receive pipelines and the operations over SSH.
  A pipeline is one entry of the log with all its stages; the host answers for each stage whether
  it started and how it ended. Durations are left out.
\<close>

section \<open>Paths and keys (sshkeys.go)\<close>

definition key_char :: "char \<Rightarrow> bool" where
  "key_char c \<longleftrightarrow> (let n = (of_char c :: int) in
     (97 \<le> n \<and> n \<le> 122) \<or> (65 \<le> n \<and> n \<le> 90) \<or> (48 \<le> n \<and> n \<le> 57) \<or> c = CHR ''-'' \<or> c = CHR ''_'')"

definition ssh_key_name_valid :: "string \<Rightarrow> bool" where
  "ssh_key_name_valid name \<longleftrightarrow> name \<noteq> [] \<and> length name \<le> 64 \<and> list_all key_char name"

definition private_key_path :: "string \<Rightarrow> string \<Rightarrow> string" where
  "private_key_path dir name = path_join dir name"

definition public_key_path :: "string \<Rightarrow> string \<Rightarrow> string" where
  "public_key_path dir name = path_join dir (name @ ''.pub'')"

definition known_hosts_path :: "string \<Rightarrow> string" where
  "known_hosts_path dir = path_join dir ''known_hosts''"

text \<open>The key directory as a map from paths to contents. \<open>ki_gen\<close> is what \<^verbatim>\<open>ssh-keygen\<close> does
  for a path: an error, or the two files it writes; the other fields are the errors of the file
  system (\<open>ki_stat\<close> is one other than a missing file).\<close>

type_synonym key_files = "string \<rightharpoonup> string"

record key_io =
  ki_gen :: "string \<Rightarrow> string + string \<times> string"
  ki_mkdir :: "string option"
  ki_stat :: "string option"
  ki_remove :: "string option"
  ki_missing :: "string \<Rightarrow> string"

definition read_public_key :: "key_io \<Rightarrow> string \<Rightarrow> key_files \<Rightarrow> string + string" where
  "read_public_key io pub fs =
     (case fs pub of
        Some t \<Rightarrow> Inr (trim_space t)
      | None \<Rightarrow> Inl (''read public key: '' @ ki_missing io pub))"

definition ensure_ssh_key :: "key_io \<Rightarrow> zfs_engine \<Rightarrow> string \<Rightarrow> key_files \<Rightarrow> (string + string) \<times> key_files" where
  "ensure_ssh_key io e name fs =
     (let priv = private_key_path (en_keydir e) name; pub = public_key_path (en_keydir e) name
      in if \<not> ssh_key_name_valid name
         then (Inl (''invalid ssh key name '' @ go_quote name @ '': use letters, digits, '' @ [CHR 0x27, CHR ''-'', CHR 0x27] @ '', '' @ [CHR 0x27, CHR ''_'', CHR 0x27] @ '' only''), fs)
         else if en_keydir e = [] then (Inl ''ssh key directory not configured'', fs)
         else if en_keygen e = []
         then (Inl (error_text capability_unavailable @ '': ssh-keygen not found on host '' @
                 [CHR 0xE2, CHR 0x80, CHR 0x94] @ '' install openssh-client''), fs)
         else (case ki_mkdir io of
                 Some msg \<Rightarrow> (Inl (''create ssh key dir: '' @ msg), fs)
               | None \<Rightarrow>
                   (case ki_stat io of
                      Some msg \<Rightarrow> (Inl (''stat key: '' @ msg), fs)
                    | None \<Rightarrow>
                        if fs priv \<noteq> None then (read_public_key io pub fs, fs)
                        else (case ki_gen io priv of
                                Inl msg \<Rightarrow> (Inl (''ssh-keygen: '' @ msg), fs)
                              | Inr (k, p) \<Rightarrow>
                                  (read_public_key io pub (fs(priv \<mapsto> k, pub \<mapsto> p)), fs(priv \<mapsto> k, pub \<mapsto> p))))))"

definition missing_key :: "string \<Rightarrow> string" where
  "missing_key name =
     ''ssh key '' @ go_quote name @ '' does not exist '' @ [CHR 0xE2, CHR 0x80, CHR 0x94] @ '' create it first''"

definition rotate_ssh_key :: "key_io \<Rightarrow> zfs_engine \<Rightarrow> string \<Rightarrow> key_files \<Rightarrow> (string + string) \<times> key_files" where
  "rotate_ssh_key io e name fs =
     (let priv = private_key_path (en_keydir e) name; pub = public_key_path (en_keydir e) name
      in if \<not> ssh_key_name_valid name then (Inl (''invalid ssh key name '' @ go_quote name), fs)
         else if en_keydir e = [] then (Inl ''ssh key directory not configured'', fs)
         else (case ki_stat io of
                 Some msg \<Rightarrow> (Inl (''stat key: '' @ msg), fs)
               | None \<Rightarrow>
                   if fs priv = None then (Inl (missing_key name), fs)
                   else (case ki_remove io of
                           Some msg \<Rightarrow> (Inl (''remove old private key: '' @ msg), fs)
                         | None \<Rightarrow> ensure_ssh_key io e name (fs(priv := None, pub := None)))))"

section \<open>Command lines (replication.go)\<close>

record remote_target =
  rt_host :: string
  rt_port :: int
  rt_user :: string
  rt_key :: string
  rt_known :: string
  rt_dest :: string
  rt_bandwidth :: int
  rt_pv :: string

definition ssh_port :: "remote_target \<Rightarrow> int" where
  "ssh_port t = (if rt_port t = 0 then 22 else rt_port t)"

definition send_args :: "string \<Rightarrow> string \<Rightarrow> string list" where
  "send_args snap base = [''send''] @ (if base \<noteq> [] then [''-i'', base] else []) @ [snap]"

definition build_send :: "string \<Rightarrow> string \<Rightarrow> string \<Rightarrow> string" where
  "build_send zfs snap base =
     join_with '' '' ([zfs, ''send''] @ (if base \<noteq> [] then [''-i'', base] else []) @ [snap])"

definition build_recv :: "string \<Rightarrow> string \<Rightarrow> bool \<Rightarrow> string" where
  "build_recv zfs target force =
     join_with '' '' ([zfs, ''receive''] @ (if force then [''-F''] else []) @ [target])"

definition build_pipeline :: "string \<Rightarrow> string \<Rightarrow> string \<Rightarrow> string \<Rightarrow> string" where
  "build_pipeline zfs snap base dest = build_send zfs snap base @ '' | '' @ build_recv zfs dest True"

definition build_ssh_args :: "remote_target \<Rightarrow> string list" where
  "build_ssh_args t =
     [''-i'', rt_key t, ''-o'', ''UserKnownHostsFile='' @ rt_known t, ''-o'', ''StrictHostKeyChecking=accept-new'',
      ''-o'', ''BatchMode=yes'', ''-p'', itoa (ssh_port t), rt_user t @ ''@'' @ rt_host t]"

definition build_pv_args :: "int \<Rightarrow> string list" where
  "build_pv_args kbps = (if kbps \<le> 0 then [] else [''-q'', ''-L'', itoa kbps @ ''k''])"

definition rate_limited :: "remote_target \<Rightarrow> bool" where
  "rate_limited t \<longleftrightarrow> rt_bandwidth t > 0 \<and> rt_pv t \<noteq> []"

definition build_remote_pipeline :: "string \<Rightarrow> string \<Rightarrow> string \<Rightarrow> string \<Rightarrow> remote_target \<Rightarrow> string" where
  "build_remote_pipeline zfs ssh snap base t =
     (let send = build_send zfs snap base;
          remote = ''zfs receive -F '' @ rt_dest t;
          sshline = ssh @ '' '' @ join_with '' '' (build_ssh_args t) @ '' '' @ remote
      in if rate_limited t
         then send @ '' | '' @ rt_pv t @ '' '' @ join_with '' '' (build_pv_args (rt_bandwidth t)) @ '' | '' @ sshline
         else send @ '' | '' @ sshline)"

definition find_common_snapshot :: "zfs_snapshot list \<Rightarrow> zfs_snapshot list \<Rightarrow> string" where
  "find_common_snapshot src dst =
     (case List.find (\<lambda>s. sn_name s \<in> set (map sn_name dst)) (rev src) of
        Some s \<Rightarrow> sn_full s
      | None \<Rightarrow> [])"

section \<open>Pipelines\<close>

record replication_result =
  rr_command :: string
  rr_incremental :: bool
  rr_snapshot :: string

definition stage_of :: "stage_answer list \<Rightarrow> nat \<Rightarrow> stage_answer" where
  "stage_of answers i = (if i < length answers then answers ! i else Finished None [])"

text \<open>The outcome of a stage: what the error of starting it and of waiting for it are, if any.\<close>

fun start_error :: "string \<Rightarrow> stage_answer \<Rightarrow> go_error option" where
  "start_error what (NotStarted e) = Some (WrappedError (''start '' @ what @ '': '') e [])"
| "start_error what (Finished w err) = None"

fun wait_error :: "string \<Rightarrow> stage_answer \<Rightarrow> go_error option" where
  "wait_error what (Finished (Some e) err) = Some (WrappedError (what @ '' failed: '') e ('': '' @ trim_space err))"
| "wait_error what _ = None"

fun first_error :: "go_error option list \<Rightarrow> go_error option" where
  "first_error [] = None"
| "first_error (Some e # es) = Some e"
| "first_error (None # es) = first_error es"

definition send_receive_local :: "zx_host \<Rightarrow> zfs_engine \<Rightarrow> string \<Rightarrow> string \<Rightarrow> string \<Rightarrow> zx_log \<Rightarrow>
    (go_error + replication_result) \<times> zx_log" where
  "send_receive_local h e snap base dest tr =
     (let stages = [(en_zfs e, send_args snap base), (en_zfs e, [''receive'', ''-F'', dest])];
          answers = zh_pipe h tr stages; send = stage_of answers 0; recv = stage_of answers 1
      in (case first_error [start_error ''zfs receive'' recv, start_error ''zfs send'' send,
                            wait_error ''zfs send'' send, wait_error ''zfs receive'' recv] of
            Some err \<Rightarrow> Inl err
          | None \<Rightarrow> Inr \<lparr>rr_command = build_pipeline (en_zfs e) snap base dest, rr_incremental = (base \<noteq> []),
                        rr_snapshot = snap\<rparr>,
          tr @ [Pipe stages]))"

definition remote_target_from_task :: "zfs_engine \<Rightarrow> string \<Rightarrow> string \<Rightarrow> string \<Rightarrow> int \<Rightarrow> string \<Rightarrow> int \<Rightarrow>
    go_error + remote_target" where
  "remote_target_from_task e dest host user port key kbps =
     (if en_keydir e = [] then Inl (PlainError ''ssh key directory not configured on agent'')
      else if \<not> ssh_key_name_valid key then Inl (PlainError (''invalid ssh key name '' @ go_quote key))
      else Inr \<lparr>rt_host = host, rt_port = port, rt_user = user, rt_key = private_key_path (en_keydir e) key,
              rt_known = known_hosts_path (en_keydir e), rt_dest = dest, rt_bandwidth = kbps, rt_pv = en_pv e\<rparr>)"

definition ssh_missing :: "string \<Rightarrow> go_error" where
  "ssh_missing text = WrappedError [] capability_unavailable ('': '' @ text)"

definition target_error :: "string \<Rightarrow> remote_target \<Rightarrow> go_error option" where
  "target_error what t =
     (if rt_key t = [] \<or> rt_known t = [] then Some (PlainError (what @ '' missing key_path or known_hosts''))
      else if rt_host t = [] \<or> rt_user t = [] \<or> rt_dest t = []
      then Some (PlainError (what @ '' missing host, user, or dest_dataset''))
      else None)"

definition remote_stages :: "zfs_engine \<Rightarrow> string \<Rightarrow> string \<Rightarrow> remote_target \<Rightarrow> (string \<times> string list) list" where
  "remote_stages e snap base t =
     [(en_zfs e, send_args snap base)] @
     (if rate_limited t then [(rt_pv t, build_pv_args (rt_bandwidth t))] else []) @
     [(en_ssh e, build_ssh_args t @ [''zfs'', ''receive'', ''-F'', rt_dest t])]"

definition send_receive_remote :: "zx_host \<Rightarrow> zfs_engine \<Rightarrow> string \<Rightarrow> string \<Rightarrow> remote_target \<Rightarrow> zx_log \<Rightarrow>
    (go_error + replication_result) \<times> zx_log" where
  "send_receive_remote h e snap base t tr =
     (if en_ssh e = [] then (Inl (ssh_missing ''ssh not found on host''), tr)
      else case target_error ''remote target'' t of
        Some err \<Rightarrow> (Inl err, tr)
      | None \<Rightarrow>
          (let stages = remote_stages e snap base t; answers = zh_pipe h tr stages;
               send = stage_of answers 0;
               pv = (if rate_limited t then stage_of answers 1 else Finished None []);
               ssh = stage_of answers (if rate_limited t then 2 else 1)
           in (case first_error [start_error ''ssh'' ssh, start_error ''pv'' pv, start_error ''zfs send'' send,
                                 wait_error ''zfs send'' send, wait_error ''pv'' pv,
                                 wait_error ''ssh/zfs receive'' ssh] of
                 Some err \<Rightarrow> Inl err
               | None \<Rightarrow> Inr \<lparr>rr_command = build_remote_pipeline (en_zfs e) (en_ssh e) snap base t,
                            rr_incremental = (base \<noteq> []), rr_snapshot = snap\<rparr>,
               tr @ [Pipe stages])))"

definition send_receive_resume :: "zx_host \<Rightarrow> zfs_engine \<Rightarrow> string \<Rightarrow> remote_target \<Rightarrow> zx_log \<Rightarrow>
    (go_error + replication_result) \<times> zx_log" where
  "send_receive_resume h e token t tr =
     (if en_ssh e = [] then (Inl (ssh_missing ''ssh not found on host''), tr)
      else if token = [] then (Inl (PlainError ''resume: token is empty''), tr)
      else
        (let stages = [(en_zfs e, [''send'', ''-t'', token]),
                       (en_ssh e, build_ssh_args t @ [''zfs'', ''receive'', ''-s'', rt_dest t])];
             answers = zh_pipe h tr stages; send = stage_of answers 0; ssh = stage_of answers 1
         in (case first_error [start_error ''ssh'' ssh, start_error ''zfs send -t'' send,
                               wait_error ''resume send'' send, wait_error ''resume recv'' ssh] of
               Some err \<Rightarrow> Inl err
             | None \<Rightarrow> Inr \<lparr>rr_command = en_zfs e @ '' send -t <token> | ssh '' @ rt_user t @ ''@'' @ rt_host t @
                              '' zfs receive -s '' @ rt_dest t,
                          rr_incremental = True, rr_snapshot = ''(resume)''\<rparr>,
             tr @ [Pipe stages])))"

section \<open>Listing and destroying\<close>

definition run_ssh :: "zx_host \<Rightarrow> zfs_engine \<Rightarrow> remote_target \<Rightarrow> string list \<Rightarrow> zx_log \<Rightarrow> zx_answer \<times> zx_log" where
  "run_ssh h e t args tr =
     (zh_run h tr (en_ssh e) (build_ssh_args t @ args), tr @ [Cmd (en_ssh e) (build_ssh_args t @ args)])"

definition snapshots_of :: "string \<Rightarrow> string \<Rightarrow> zfs_snapshot list" where
  "snapshots_of dataset out = filter (\<lambda>s. sn_dataset s = dataset) (snapshot_rows out)"

definition list_snapshots_for :: "zx_host \<Rightarrow> zfs_engine \<Rightarrow> string \<Rightarrow> zx_log \<Rightarrow>
    (go_error + zfs_snapshot list) \<times> zx_log" where
  "list_snapshots_for h e dataset tr =
     (case run_zfs h e [''list'', ''-Hp'', ''-o'', ''name,creation,used,referenced'', ''-t'', ''snapshot'',
             ''-s'', ''creation'', ''-r'', dataset] tr of
        ((out, Some err), tr') \<Rightarrow>
          (if str_contains (error_text err) ''does not exist'' then Inr []
           else Inl (WrappedError (''list snapshots for '' @ dataset @ '': '') err []), tr')
      | ((out, None), tr') \<Rightarrow> (Inr (snapshots_of dataset out), tr'))"

definition list_remote_snapshots :: "zx_host \<Rightarrow> zfs_engine \<Rightarrow> remote_target \<Rightarrow> zx_log \<Rightarrow>
    (go_error + zfs_snapshot list) \<times> zx_log" where
  "list_remote_snapshots h e t tr =
     (if en_ssh e = [] then (Inl (ssh_missing ''ssh not found''), tr)
      else case run_ssh h e t [''zfs'', ''list'', ''-Hp'', ''-o'', ''name,creation,used,referenced'', ''-t'',
                  ''snapshot'', ''-s'', ''creation'', ''-r'', rt_dest t] tr of
        (Broke out msg err, tr') \<Rightarrow>
          (if str_contains msg ''dataset does not exist'' then Inr []
           else Inl (WrappedError ''list remote snapshots: '' err ('': '' @ trim_space msg)), tr')
      | (Exited out, tr') \<Rightarrow> (Inr (snapshots_of (rt_dest t) out), tr'))"

definition resume_token :: "string \<Rightarrow> string" where
  "resume_token out = (let t = trim_space out in if t = ''-'' then [] else t)"

definition get_resume_token :: "zx_host \<Rightarrow> zfs_engine \<Rightarrow> string \<Rightarrow> zx_log \<Rightarrow> (go_error + string) \<times> zx_log" where
  "get_resume_token h e dataset tr =
     (case run_zfs h e [''get'', ''-H'', ''-o'', ''value'', ''receive_resume_token'', dataset] tr of
        ((out, Some err), tr') \<Rightarrow>
          (if str_contains (error_text err) ''does not exist'' then Inr []
           else Inl (WrappedError (''get receive_resume_token for '' @ dataset @ '': '') err []), tr')
      | ((out, None), tr') \<Rightarrow> (Inr (resume_token out), tr'))"

definition get_remote_resume_token :: "zx_host \<Rightarrow> zfs_engine \<Rightarrow> remote_target \<Rightarrow> zx_log \<Rightarrow>
    (go_error + string) \<times> zx_log" where
  "get_remote_resume_token h e t tr =
     (if en_ssh e = [] then (Inl (ssh_missing ''ssh not found''), tr)
      else case run_ssh h e t [''zfs'', ''get'', ''-H'', ''-o'', ''value'', ''receive_resume_token'', rt_dest t] tr of
        (Broke out msg err, tr') \<Rightarrow>
          (if str_contains msg ''dataset does not exist'' then Inr []
           else Inl (WrappedError ''get remote receive_resume_token: '' err ('': '' @ trim_space msg)), tr')
      | (Exited out, tr') \<Rightarrow> (Inr (resume_token out), tr'))"

definition destroy_remote_snapshot :: "zx_host \<Rightarrow> zfs_engine \<Rightarrow> remote_target \<Rightarrow> string \<Rightarrow> zx_log \<Rightarrow>
    go_error option \<times> zx_log" where
  "destroy_remote_snapshot h e t full tr =
     (if en_ssh e = [] then (Some (ssh_missing ''ssh not found''), tr)
      else if \<not> str_contains full ''@''
      then (Some (PlainError (''destroy-remote: '' @ go_quote full @ '' is not a snapshot (expected dataset@name)'')), tr)
      else case run_ssh h e t [''zfs'', ''destroy'', full] tr of
        (Broke out msg err, tr') \<Rightarrow>
          (Some (WrappedError (''destroy remote snapshot '' @ full @ '': '') err ('': '' @ trim_space msg)), tr')
      | (Exited out, tr') \<Rightarrow> (None, tr'))"

definition create_bookmark :: "zx_host \<Rightarrow> zfs_engine \<Rightarrow> string \<Rightarrow> string \<Rightarrow> zx_log \<Rightarrow>
    (go_error + string) \<times> zx_log" where
  "create_bookmark h e full name tr =
     (if \<not> str_contains full ''@'' then (Inl (PlainError (''bookmark: '' @ go_quote full @ '' is not a snapshot'')), tr)
      else let bm = hd (split_n2 (CHR ''@'') full) @ ''#'' @ name
           in case run_zfs h e [''bookmark'', full, bm] tr of
                ((out, Some err), tr') \<Rightarrow> (Inl (WrappedError (''zfs bookmark '' @ full @ '' '' @ bm @ '': '') err []), tr')
              | ((out, None), tr') \<Rightarrow> (Inr bm, tr'))"

definition list_bookmarks :: "zx_host \<Rightarrow> zfs_engine \<Rightarrow> string \<Rightarrow> zx_log \<Rightarrow> (go_error + string list) \<times> zx_log" where
  "list_bookmarks h e dataset tr =
     (case run_zfs h e [''list'', ''-Hp'', ''-o'', ''name'', ''-t'', ''bookmark'', ''-r'', dataset] tr of
        ((out, Some err), tr') \<Rightarrow>
          (if str_contains (error_text err) ''does not exist'' then Inr []
           else Inl (WrappedError (''list bookmarks for '' @ dataset @ '': '') err []), tr')
      | ((out, None), tr') \<Rightarrow> (Inr (filter (\<lambda>l. has_prefix l (dataset @ ''#'')) (zfs_lines out)), tr'))"

definition destroy_bookmark :: "zx_host \<Rightarrow> zfs_engine \<Rightarrow> string \<Rightarrow> zx_log \<Rightarrow> go_error option \<times> zx_log" where
  "destroy_bookmark h e full tr =
     (if \<not> str_contains full ''#''
      then (Some (PlainError (''destroy-bookmark: '' @ go_quote full @ '' is not a bookmark'')), tr)
      else case run_zfs h e [''destroy'', full] tr of
        ((out, Some err), tr') \<Rightarrow> (Some (WrappedError (''destroy bookmark '' @ full @ '': '') err []), tr')
      | ((out, None), tr') \<Rightarrow> (None, tr'))"

definition test_remote_connection :: "zx_host \<Rightarrow> zfs_engine \<Rightarrow> remote_target \<Rightarrow> zx_log \<Rightarrow>
    (go_error + string) \<times> zx_log" where
  "test_remote_connection h e t tr =
     (if en_ssh e = [] then (Inl (ssh_missing ''ssh not found''), tr)
      else case target_error ''test-connection'' t of
        Some err \<Rightarrow> (Inl err, tr)
      | None \<Rightarrow>
          (case run_ssh h e t [''zfs'', ''list'', ''-H'', ''-o'', ''name'', ''-t'', ''filesystem'', rt_dest t] tr of
             (Broke out msg err, tr') \<Rightarrow> (Inl (WrappedError [] err ('': '' @ trim_space msg)), tr')
           | (Exited out, tr') \<Rightarrow> (Inr (trim_space out), tr')))"

section \<open>The incremental base\<close>

text \<open>The incremental base is the newest common snapshot: it is the full name of a source
  snapshot whose name exists on the destination, no later source snapshot does, and an empty base
  (a full send) is chosen exactly when there is no common snapshot at all.\<close>

lemma common_snapshot_newest:
  assumes "list_all (\<lambda>s. sn_full s \<noteq> []) src"
  shows "if set (map sn_name src) \<inter> set (map sn_name dst) = {} then find_common_snapshot src dst = []
    else (\<exists>old s new. src = old @ s # new \<and> find_common_snapshot src dst = sn_full s \<and> sn_full s \<noteq> [] \<and>
      sn_name s \<in> set (map sn_name dst) \<and> set (map sn_name new) \<inter> set (map sn_name dst) = {})"
proof (cases "List.find (\<lambda>s. sn_name s \<in> set (map sn_name dst)) (rev src)")
  case None
  then have "set (map sn_name src) \<inter> set (map sn_name dst) = {}"
    by (auto simp: find_None_iff)
  then show ?thesis using None by (simp add: find_common_snapshot_def)
next
  case (Some s)
  then obtain i where i: "i < length src" "s = rev src ! i" "sn_name s \<in> set (map sn_name dst)"
    "\<And>j. j < i \<Longrightarrow> sn_name (rev src ! j) \<notin> set (map sn_name dst)"
    by (auto simp: find_Some_iff)
  have "rev src = take i (rev src) @ s # drop (Suc i) (rev src)"
    using i(1,2) by (simp add: id_take_nth_drop)
  then have src: "src = rev (drop (Suc i) (rev src)) @ s # rev (take i (rev src))"
    by (metis append.assoc append_Cons append_Nil rev.simps(2) rev_append rev_rev_ident)
  have new: "set (map sn_name (rev (take i (rev src)))) \<inter> set (map sn_name dst) = {}"
  proof -
    have "sn_name x \<notin> set (map sn_name dst)" if "x \<in> set (take i (rev src))" for x
      using that i(1,4) by (auto simp: in_set_conv_nth simp del: set_map)
    then show ?thesis by auto
  qed
  have "s \<in> set src" using src by (metis in_set_conv_decomp)
  then have "sn_full s \<noteq> []" and common: "set (map sn_name src) \<inter> set (map sn_name dst) \<noteq> {}"
    using assms i(3) by (auto simp: list_all_iff)
  moreover have "find_common_snapshot src dst = sn_full s" using Some by (simp add: find_common_snapshot_def)
  ultimately have "\<exists>old s new. src = old @ s # new \<and> find_common_snapshot src dst = sn_full s \<and> sn_full s \<noteq> [] \<and>
      sn_name s \<in> set (map sn_name dst) \<and> set (map sn_name new) \<inter> set (map sn_name dst) = {}"
    using src new i(3) by blast
  with common show ?thesis by (simp only: if_False)
qed

section \<open>Previews of pipelines\<close>

lemma build_ssh_line:
  "join_with '' '' (build_ssh_args t @ [''zfs'', ''receive'', ''-F'', rt_dest t]) =
     join_with '' '' (build_ssh_args t) @ '' zfs receive -F '' @ rt_dest t"
  by (simp add: build_ssh_args_def)

lemma build_send_line: "build_send zfs snap base = zfs @ '' '' @ join_with '' '' (send_args snap base)"
  by (simp add: build_send_def send_args_def)

text \<open>The pipeline shown before a replication is the one that runs: the local and the remote
  preview are the text of the stages the engine starts, rate limiter included, and the command
  the result reports.\<close>

lemma pipeline_preview_executed:
  "(\<exists>stages. snd (send_receive_local h e snap base dest tr) = tr @ [Pipe stages] \<and>
      call_text (Pipe stages) = build_pipeline (en_zfs e) snap base dest) \<and>
   (snd (send_receive_remote h e snap base t tr) = tr \<or>
    (\<exists>stages. snd (send_receive_remote h e snap base t tr) = tr @ [Pipe stages] \<and>
      call_text (Pipe stages) = build_remote_pipeline (en_zfs e) (en_ssh e) snap base t)) \<and>
   (case fst (send_receive_remote h e snap base t tr) of
      Inr r \<Rightarrow> rr_command r = build_remote_pipeline (en_zfs e) (en_ssh e) snap base t
    | Inl err \<Rightarrow> True)"
proof -
  have "call_text (Pipe [(en_zfs e, send_args snap base), (en_zfs e, [''receive'', ''-F'', dest])]) =
      build_pipeline (en_zfs e) snap base dest"
    by (simp add: build_pipeline_def build_send_line build_recv_def)
  then have "\<exists>stages. snd (send_receive_local h e snap base dest tr) = tr @ [Pipe stages] \<and>
      call_text (Pipe stages) = build_pipeline (en_zfs e) snap base dest"
    by (simp add: send_receive_local_def Let_def)
  moreover have "call_text (Pipe (remote_stages e snap base t)) =
      build_remote_pipeline (en_zfs e) (en_ssh e) snap base t"
    by (simp add: remote_stages_def build_remote_pipeline_def build_send_line build_ssh_line Let_def)
  then have "snd (send_receive_remote h e snap base t tr) = tr \<or>
    (\<exists>stages. snd (send_receive_remote h e snap base t tr) = tr @ [Pipe stages] \<and>
      call_text (Pipe stages) = build_remote_pipeline (en_zfs e) (en_ssh e) snap base t)"
    by (auto simp: send_receive_remote_def Let_def split: option.splits)
  moreover have "case fst (send_receive_remote h e snap base t tr) of
      Inr r \<Rightarrow> rr_command r = build_remote_pipeline (en_zfs e) (en_ssh e) snap base t
    | Inl err \<Rightarrow> True"
    by (simp add: send_receive_remote_def Let_def split: option.split)
  ultimately show ?thesis by (intro conjI)
qed

section \<open>Keys\<close>

lemma split_on_mid: "split_on c (s @ c # t) = split_on c s @ split_on c t"
  by (induction s) (auto split: list.splits)

lemma clean_steps_snoc:
  "x \<noteq> [] \<Longrightarrow> x \<noteq> ''.'' \<Longrightarrow> x \<noteq> ''..'' \<Longrightarrow> clean_steps r acc (cs @ [x]) = clean_steps r acc cs @ [x]"
proof (induction r acc cs rule: clean_steps.induct)
  case (2 rooted acc c cs)
  show ?case
    by (cases "c = [] \<or> c = ''.''"; cases "c = ''..''"; cases "acc = [] \<or> last acc = ''..''"; cases rooted)
      (use 2 in auto)
qed simp

lemma join_snoc: "join_with sep (xs @ [x]) = (if xs = [] then [] else join_with sep xs @ sep) @ x"
  by (induction xs) (simp_all add: join_with_Cons)

text \<open>The path of a plain name in a directory: the cleaned directory, then the name.\<close>

lemma path_join_name:
  "dir \<noteq> [] \<Longrightarrow> \<exists>front. \<forall>x. x \<noteq> [] \<and> x \<noteq> ''.'' \<and> x \<noteq> ''..'' \<and> CHR ''/'' \<notin> set x \<longrightarrow> path_join dir x = front @ x"
proof -
  assume dir: "dir \<noteq> []"
  let ?ys = "clean_steps (has_prefix (dir @ ''/'') ''/'') [] (split_on (CHR ''/'') dir)"
  let ?front = "(if has_prefix (dir @ ''/'') ''/'' then ''/'' else []) @ (if ?ys = [] then [] else join_with ''/'' ?ys @ ''/'')"
  have "path_join dir x = ?front @ x" if "x \<noteq> []" "x \<noteq> ''.''" "x \<noteq> ''..''" "CHR ''/'' \<notin> set x" for x
  proof -
    have "has_prefix (dir @ ''/'' @ x) ''/'' = has_prefix (dir @ ''/'') ''/''" using dir by (cases dir) simp_all
    moreover have "split_on (CHR ''/'') (dir @ ''/'' @ x) = split_on (CHR ''/'') dir @ [x]"
      using that(4) by (simp add: split_on_mid split_on_none)
    ultimately show ?thesis
      using dir that by (simp add: path_join_def path_clean_def Let_def clean_steps_snoc join_snoc)
  qed
  then show ?thesis by blast
qed

text \<open>The name \<^verbatim>\<open>known_hosts\<close> passes as a key name, and the private key of that name is the file
  in which the host keys of every replication target are pinned: rotating it replaces the pins by
  a new private key.\<close>

lemma rotation_replaces_pins:
  assumes "en_keydir e \<noteq> []" and "en_keygen e \<noteq> []" and "fs (known_hosts_path (en_keydir e)) = Some pins"
    and "ki_gen io (known_hosts_path (en_keydir e)) = Inr (key, pub)"
    and "ki_mkdir io = None" and "ki_stat io = None" and "ki_remove io = None"
  shows "\<exists>line fs'. rotate_ssh_key io e ''known_hosts'' fs = (Inr line, fs') \<and>
    fs' (known_hosts_path (en_keydir e)) = Some key"
proof -
  obtain front where front: "\<And>x. x \<noteq> [] \<Longrightarrow> x \<noteq> ''.'' \<Longrightarrow> x \<noteq> ''..'' \<Longrightarrow> CHR ''/'' \<notin> set x \<Longrightarrow>
      path_join (en_keydir e) x = front @ x"
    using path_join_name [OF assms(1)] by blast
  have "ssh_key_name_valid ''known_hosts''" by (simp add: ssh_key_name_valid_def key_char_def)
  moreover have priv: "private_key_path (en_keydir e) ''known_hosts'' = known_hosts_path (en_keydir e)"
    by (simp add: private_key_path_def known_hosts_path_def)
  moreover have "public_key_path (en_keydir e) ''known_hosts'' \<noteq> known_hosts_path (en_keydir e)"
    by (simp add: public_key_path_def known_hosts_path_def front)
  ultimately show ?thesis
    using assms by (simp add: rotate_ssh_key_def ensure_ssh_key_def read_public_key_def Let_def)
qed

end
