(* ===== verification/ZfsDb.thy ===== *)
theory ZfsDb
  imports SnapDb
begin

text \<open>
  The ZFS agent's database (\<^verbatim>\<open>zfs-manager/internal/db/db.go\<close>): the scheduled tasks with their
  nullable columns and the job history, in the same form as the tables of \<^verbatim>\<open>SnapDb\<close>: rows in
  row-id order, \<open>drv\<close> the driver's verdict on a statement, \<open>order\<close> the order of rows of equal
  start time.
\<close>

section \<open>Rows\<close>

record zfs_task =
  tk_id :: int
  tk_type :: string
  tk_target :: string
  tk_schedule :: string
  tk_recursive :: bool
  tk_enabled :: bool
  tk_prefix :: string
  tk_retention :: int
  tk_created :: int
  tk_updated :: int
  tk_dest :: "string option"
  tk_mode :: "string option"
  tk_last :: "string option"
  tk_host :: "string option"
  tk_port :: "int option"
  tk_user :: "string option"
  tk_key :: "string option"
  tk_bandwidth :: "int option"
  tk_manage :: bool
  tk_bookmarks :: bool

record zfs_job =
  zj_id :: int
  zj_task :: "int option"
  zj_type :: string
  zj_trigger :: string
  zj_started :: int
  zj_finished :: "int option"
  zj_status :: string
  zj_message :: string
  zj_duration :: int

record zfs_db =
  zb_tasks :: "zfs_task list"
  zb_task_seq :: int
  zb_jobs :: "zfs_job list"
  zb_job_seq :: int

definition empty_zfs_db :: zfs_db where
  "empty_zfs_db = \<lparr>zb_tasks = [], zb_task_seq = 0, zb_jobs = [], zb_job_seq = 0\<rparr>"

section \<open>Scheduled tasks\<close>

definition insert_task :: "string option \<Rightarrow> int \<Rightarrow> zfs_task \<Rightarrow> zfs_db \<Rightarrow> (string + int) \<times> zfs_db" where
  "insert_task drv now t db =
     (case drv of
        Some e \<Rightarrow> (Inl (''insert task: '' @ e), db)
      | None \<Rightarrow>
          (let i = zb_task_seq db + 1
           in (Inr i, db\<lparr>zb_tasks := zb_tasks db @ [t\<lparr>tk_id := i, tk_created := db_time now, tk_updated := db_time now\<rparr>],
                         zb_task_seq := i\<rparr>)))"

definition updated_task :: "int \<Rightarrow> zfs_task \<Rightarrow> zfs_task \<Rightarrow> zfs_task" where
  "updated_task now t row =
     t\<lparr>tk_id := tk_id row, tk_type := tk_type row, tk_created := tk_created row, tk_updated := db_time now\<rparr>"

definition update_task :: "string option \<Rightarrow> int \<Rightarrow> zfs_task \<Rightarrow> zfs_db \<Rightarrow> (string + unit) \<times> zfs_db" where
  "update_task drv now t db =
     (case drv of
        Some e \<Rightarrow> (Inl (''update task '' @ itoa (tk_id t) @ '': '' @ e), db)
      | None \<Rightarrow>
          (Inr (), db\<lparr>zb_tasks := map (\<lambda>r. if tk_id r = tk_id t then updated_task now t r else r) (zb_tasks db)\<rparr>))"

definition set_last_sent :: "string option \<Rightarrow> int \<Rightarrow> string \<Rightarrow> zfs_db \<Rightarrow> (string + unit) \<times> zfs_db" where
  "set_last_sent drv i snap db =
     (case drv of
        Some e \<Rightarrow> (Inl e, db)
      | None \<Rightarrow>
          (Inr (), db\<lparr>zb_tasks := map (\<lambda>r. if tk_id r = i then r\<lparr>tk_last := Some snap\<rparr> else r) (zb_tasks db)\<rparr>))"

text \<open>Deleting a task sets the reference of its jobs to NULL (the schema's ON DELETE clause).\<close>

definition delete_task :: "string option \<Rightarrow> int \<Rightarrow> zfs_db \<Rightarrow> (string + unit) \<times> zfs_db" where
  "delete_task drv i db =
     (case drv of
        Some e \<Rightarrow> (Inl (''delete task '' @ itoa i @ '': '' @ e), db)
      | None \<Rightarrow>
          (Inr (), db\<lparr>zb_tasks := filter (\<lambda>r. tk_id r \<noteq> i) (zb_tasks db),
                     zb_jobs := map (\<lambda>j. if zj_task j = Some i then j\<lparr>zj_task := None\<rparr> else j) (zb_jobs db)\<rparr>))"

text \<open>\<open>scanTaskFields\<close>: a NULL, an empty text and a zero number are all read as absent.\<close>

definition nonempty :: "string option \<Rightarrow> string option" where
  "nonempty x = (if x = Some [] then None else x)"

definition nonzero :: "int option \<Rightarrow> int option" where
  "nonzero x = (if x = Some 0 then None else x)"

definition scan_task :: "zfs_task \<Rightarrow> zfs_task" where
  "scan_task t = t\<lparr>tk_dest := nonempty (tk_dest t), tk_mode := nonempty (tk_mode t), tk_last := nonempty (tk_last t),
     tk_host := nonempty (tk_host t), tk_port := nonzero (tk_port t), tk_user := nonempty (tk_user t),
     tk_key := nonempty (tk_key t), tk_bandwidth := nonzero (tk_bandwidth t)\<rparr>"

definition get_task :: "string option \<Rightarrow> int \<Rightarrow> zfs_db \<Rightarrow> string + zfs_task option" where
  "get_task drv i db =
     (case drv of
        Some e \<Rightarrow> Inl (''scan task: '' @ e)
      | None \<Rightarrow> Inr (map_option scan_task (List.find (\<lambda>r. tk_id r = i) (zb_tasks db))))"

definition list_tasks :: "string option \<Rightarrow> zfs_db \<Rightarrow> string + zfs_task list" where
  "list_tasks drv db =
     (case drv of
        Some e \<Rightarrow> Inl (''query tasks: '' @ e)
      | None \<Rightarrow> Inr (map scan_task (zb_tasks db)))"

definition list_enabled_tasks :: "string option \<Rightarrow> zfs_db \<Rightarrow> string + zfs_task list" where
  "list_enabled_tasks drv db =
     (case drv of
        Some e \<Rightarrow> Inl (''query enabled tasks: '' @ e)
      | None \<Rightarrow> Inr (map scan_task (filter tk_enabled (zb_tasks db))))"

section \<open>Job history\<close>

definition insert_zfs_job :: "string option \<Rightarrow> int \<Rightarrow> int option \<Rightarrow> string \<Rightarrow> string \<Rightarrow> zfs_db \<Rightarrow>
    (string + int) \<times> zfs_db" where
  "insert_zfs_job drv now task jt trig db =
     (case drv of
        Some e \<Rightarrow> (Inl (''insert job: '' @ e), db)
      | None \<Rightarrow>
          (let i = zb_job_seq db + 1;
               row = \<lparr>zj_id = i, zj_task = task, zj_type = jt, zj_trigger = trig, zj_started = db_time now,
                      zj_finished = None, zj_status = ''running'', zj_message = [], zj_duration = 0\<rparr>
           in (Inr i, db\<lparr>zb_jobs := zb_jobs db @ [row], zb_job_seq := i\<rparr>)))"

definition finish_zfs_row :: "int \<Rightarrow> string \<Rightarrow> string \<Rightarrow> zfs_job \<Rightarrow> zfs_job" where
  "finish_zfs_row now st msg j = j\<lparr>zj_finished := Some (db_time now), zj_status := st, zj_message := msg\<rparr>"

definition complete_zfs_job :: "string option \<Rightarrow> int \<Rightarrow> int \<Rightarrow> string \<Rightarrow> string \<Rightarrow> zfs_db \<Rightarrow>
    (string + unit) \<times> zfs_db" where
  "complete_zfs_job drv now i st msg db =
     (case drv of
        Some e \<Rightarrow> (Inl (''complete job '' @ itoa i @ '': '' @ e), db)
      | None \<Rightarrow>
          (Inr (), db\<lparr>zb_jobs := map (\<lambda>j. if zj_id j = i then finish_zfs_row now st msg j else j) (zb_jobs db)\<rparr>))"

text \<open>\<open>scanJobs\<close> computes the duration in whole seconds, zero for a job that has not finished or
  that finished before it started.\<close>

definition scan_job :: "zfs_job \<Rightarrow> zfs_job" where
  "scan_job j = j\<lparr>zj_duration :=
     (case zj_finished j of None \<Rightarrow> 0 | Some t \<Rightarrow> if t - zj_started j > 0 then t - zj_started j else 0)\<rparr>"

definition recent_zfs_jobs :: "(zfs_job list \<Rightarrow> zfs_job list) \<Rightarrow> string option \<Rightarrow> int \<Rightarrow> zfs_db \<Rightarrow>
    string + zfs_job list" where
  "recent_zfs_jobs order drv n db =
     (case drv of
        Some e \<Rightarrow> Inl (''query recent jobs: '' @ e)
      | None \<Rightarrow> Inr (map scan_job (sql_limit n (order (zb_jobs db)))))"

definition jobs_for_task :: "(zfs_job list \<Rightarrow> zfs_job list) \<Rightarrow> string option \<Rightarrow> int \<Rightarrow> int \<Rightarrow> zfs_db \<Rightarrow>
    string + zfs_job list" where
  "jobs_for_task order drv task n db =
     (case drv of
        Some e \<Rightarrow> Inl (''query jobs for task '' @ itoa task @ '': '' @ e)
      | None \<Rightarrow> Inr (map scan_job (sql_limit n (order (filter (\<lambda>j. zj_task j = Some task) (zb_jobs db))))))"

definition prune_zfs_jobs :: "string option \<Rightarrow> int \<Rightarrow> int \<Rightarrow> zfs_db \<Rightarrow> (string + int) \<times> zfs_db" where
  "prune_zfs_jobs drv now retention db =
     (let cutoff = db_time (now - retention) in
      case drv of
        Some e \<Rightarrow> (Inl (''prune jobs: '' @ e), db)
      | None \<Rightarrow>
          (Inr (int (length (filter (\<lambda>j. zj_started j < cutoff) (zb_jobs db)))),
           db\<lparr>zb_jobs := filter (\<lambda>j. \<not> zj_started j < cutoff) (zb_jobs db)\<rparr>))"

section \<open>The tables' invariant\<close>

definition keys_ok :: "int \<Rightarrow> int list \<Rightarrow> bool" where
  "keys_ok seq ks \<longleftrightarrow> sorted_wrt (<) ks \<and> list_all (\<lambda>k. 0 < k \<and> k \<le> seq) ks \<and> 0 \<le> seq"

definition zfs_db_wf :: "zfs_db \<Rightarrow> bool" where
  "zfs_db_wf db \<longleftrightarrow>
     keys_ok (zb_task_seq db) (map tk_id (zb_tasks db)) \<and> keys_ok (zb_job_seq db) (map zj_id (zb_jobs db))"

lemma keys_ok_snoc: "keys_ok seq ks \<Longrightarrow> keys_ok (seq + 1) (ks @ [seq + 1])"
  by (auto simp: keys_ok_def sorted_wrt_append list_all_iff)

lemma keys_ok_filter: "keys_ok seq (map key xs) \<Longrightarrow> keys_ok seq (map key (filter P xs))"
  by (simp add: keys_ok_def sorted_wrt_map_filter list_all_iff)

lemma keys_ok_fresh: "keys_ok seq (map key xs) \<Longrightarrow> List.find (\<lambda>x. key x = seq + 1) xs = None"
  by (auto simp: keys_ok_def find_None_iff_all list_all_iff)

datatype zfs_db_op =
    ZInsertTask "string option" int zfs_task
  | ZUpdateTask "string option" int zfs_task
  | ZLastSent "string option" int string
  | ZDeleteTask "string option" int
  | ZInsertJob "string option" int "int option" string string
  | ZCompleteJob "string option" int int string string
  | ZPrune "string option" int int

fun zfs_db_step :: "zfs_db_op \<Rightarrow> zfs_db \<Rightarrow> zfs_db" where
  "zfs_db_step (ZInsertTask drv now t) db = snd (insert_task drv now t db)"
| "zfs_db_step (ZUpdateTask drv now t) db = snd (update_task drv now t db)"
| "zfs_db_step (ZLastSent drv i snap) db = snd (set_last_sent drv i snap db)"
| "zfs_db_step (ZDeleteTask drv i) db = snd (delete_task drv i db)"
| "zfs_db_step (ZInsertJob drv now task jt trig) db = snd (insert_zfs_job drv now task jt trig db)"
| "zfs_db_step (ZCompleteJob drv now i st msg) db = snd (complete_zfs_job drv now i st msg db)"
| "zfs_db_step (ZPrune drv now r) db = snd (prune_zfs_jobs drv now r db)"

lemma map_key_update: "(\<And>x. key (f x) = key x) \<Longrightarrow> map key (map (\<lambda>x. if P x then f x else x) xs) = map key xs"
  by (induction xs) auto

lemma zfs_db_wf_step: "zfs_db_wf db \<Longrightarrow> zfs_db_wf (zfs_db_step oper db)"
proof (cases oper)
  case (ZInsertTask drv now t)
  then show "zfs_db_wf db \<Longrightarrow> ?thesis"
    by (cases drv) (simp_all add: zfs_db_wf_def insert_task_def Let_def keys_ok_snoc)
next
  case (ZUpdateTask drv now t)
  then show "zfs_db_wf db \<Longrightarrow> ?thesis"
    by (cases drv) (simp_all add: zfs_db_wf_def update_task_def updated_task_def map_key_update del: map_map)
next
  case (ZLastSent drv i snap)
  then show "zfs_db_wf db \<Longrightarrow> ?thesis"
    by (cases drv) (simp_all add: zfs_db_wf_def set_last_sent_def map_key_update del: map_map)
next
  case (ZDeleteTask drv i)
  then show "zfs_db_wf db \<Longrightarrow> ?thesis"
    by (cases drv) (simp_all add: zfs_db_wf_def delete_task_def keys_ok_filter map_key_update del: map_map)
next
  case (ZInsertJob drv now task jt trig)
  then show "zfs_db_wf db \<Longrightarrow> ?thesis"
    by (cases drv) (simp_all add: zfs_db_wf_def insert_zfs_job_def Let_def keys_ok_snoc)
next
  case (ZCompleteJob drv now i st msg)
  then show "zfs_db_wf db \<Longrightarrow> ?thesis"
    by (cases drv)
      (simp_all add: zfs_db_wf_def complete_zfs_job_def finish_zfs_row_def map_key_update del: map_map)
next
  case (ZPrune drv now r)
  then show "zfs_db_wf db \<Longrightarrow> ?thesis"
    by (cases drv) (simp_all add: zfs_db_wf_def prune_zfs_jobs_def Let_def keys_ok_filter)
qed

lemma zfs_db_wf_empty: "zfs_db_wf empty_zfs_db"
  by (simp add: zfs_db_wf_def empty_zfs_db_def keys_ok_def)

lemma zfs_db_wf_steps: "zfs_db_wf db \<Longrightarrow> zfs_db_wf (fold zfs_db_step ops db)"
  by (induction ops arbitrary: db) (simp_all add: zfs_db_wf_step)

section \<open>The tasks as a map\<close>

definition task_map :: "zfs_db \<Rightarrow> int \<rightharpoonup> zfs_task" where
  "task_map db i = List.find (\<lambda>r. tk_id r = i) (zb_tasks db)"

lemma task_map_insert:
  assumes "zfs_db_wf db"
  shows "task_map (snd (insert_task None now t db)) = (task_map db)(zb_task_seq db + 1 \<mapsto>
    t\<lparr>tk_id := zb_task_seq db + 1, tk_created := db_time now, tk_updated := db_time now\<rparr>)"
proof
  fix k
  have "List.find (\<lambda>r. tk_id r = zb_task_seq db + 1) (zb_tasks db) = None"
    using assms keys_ok_fresh unfolding zfs_db_wf_def by blast
  then show "task_map (snd (insert_task None now t db)) k = ((task_map db)(zb_task_seq db + 1 \<mapsto>
      t\<lparr>tk_id := zb_task_seq db + 1, tk_created := db_time now, tk_updated := db_time now\<rparr>)) k"
    by (auto simp: task_map_def insert_task_def Let_def find_append split: option.splits)
qed

lemma find_map_update:
  assumes "\<And>x. key (f x) = key x"
  shows "List.find (\<lambda>x. key x = k) (map (\<lambda>x. if key x = i then f x else x) xs) =
    (if k = i then map_option f (List.find (\<lambda>x. key x = k) xs) else List.find (\<lambda>x. key x = k) xs)"
  using assms by (induction xs) auto

lemma find_filter_key:
  "List.find (\<lambda>x. key x = k) (filter (\<lambda>x. key x \<noteq> i) xs) = (if k = i then None else List.find (\<lambda>x. key x = k) xs)"
  by (induction xs) auto


section \<open>Recent jobs\<close>

definition newest_zfs_first :: "zfs_job list \<Rightarrow> zfs_job list" where
  "newest_zfs_first js = rev (sort_key zj_started js)"

interpretation newest_zfs: desc_order zj_started newest_zfs_first
proof
  fix xs
  show "mset (newest_zfs_first xs) = mset xs" by (simp add: newest_zfs_first_def)
  have "sorted_wrt (\<lambda>a b. zj_started a \<le> zj_started b) (sort_key zj_started xs)"
    using sorted_sort_key [of zj_started xs] by (simp add: sorted_map)
  then show "sorted_wrt (\<lambda>a b. zj_started b \<le> zj_started a) (newest_zfs_first xs)"
    by (simp add: newest_zfs_first_def sorted_wrt_rev)
qed

end
