(* ===== verification/ZfsScheduler.thy ===== *)
theory ZfsScheduler
  imports ZfsReplication ZfsDb "HOL-Library.List_Lexorder" "HOL-Library.Char_ord"
begin

text \<open>
  The ZFS scheduler (\<^verbatim>\<open>zfs-manager/internal/scheduler/scheduler.go\<close>): snapshot, scrub and
  replication tasks with retention, the record of each run in the job history and its events, and
  the registration of the tasks with the cron library, which is a parameter. The clock answers
  each reading, the database driver each statement; \<^verbatim>\<open>sort.Slice\<close> is the parameter
  \<open>zn_sort\<close>, because the order of equal elements is left open. Requests for a flush that
  run in their own goroutine are left out.
\<close>

section \<open>Environment and state\<close>

record zfs_event =
  zev_id :: string
  zev_type :: string
  zev_severity :: string
  zev_message :: string
  zev_time :: string

datatype zs_item = ZEvent zfs_event | ZLog string string string | ZFlush

record zsched_env =
  zn_host :: zx_host
  zn_engine :: zfs_engine
  zn_clock :: "nat \<Rightarrow> int"
  zn_drv :: "nat \<Rightarrow> string option"
  zn_sort :: "zfs_snapshot list \<Rightarrow> zfs_snapshot list"
  zn_duration :: "zx_log \<Rightarrow> string"

record zsched_state =
  zs_tr :: zx_log
  zs_db :: zfs_db
  zs_out :: "zs_item list"
  zs_reads :: nat
  zs_stmts :: nat

definition read_clock :: "zsched_env \<Rightarrow> zsched_state \<Rightarrow> int \<times> zsched_state" where
  "read_clock env s = (zn_clock env (zs_reads s), s\<lparr>zs_reads := Suc (zs_reads s)\<rparr>)"

definition zcall :: "(zx_log \<Rightarrow> 'r \<times> zx_log) \<Rightarrow> zsched_state \<Rightarrow> 'r \<times> zsched_state" where
  "zcall f s = (case f (zs_tr s) of (r, tr) \<Rightarrow> (r, s\<lparr>zs_tr := tr\<rparr>))"

definition zstmt :: "zsched_env \<Rightarrow> (string option \<Rightarrow> zfs_db \<Rightarrow> 'r \<times> zfs_db) \<Rightarrow> zsched_state \<Rightarrow> 'r \<times> zsched_state" where
  "zstmt env f s =
     (case f (zn_drv env (zs_stmts s)) (zs_db s) of (r, db) \<Rightarrow> (r, s\<lparr>zs_db := db, zs_stmts := Suc (zs_stmts s)\<rparr>))"

definition zput :: "zs_item \<Rightarrow> zsched_state \<Rightarrow> zsched_state" where
  "zput i s = s\<lparr>zs_out := zs_out s @ [i]\<rparr>"

definition unix_milli :: "int \<Rightarrow> int" where
  "unix_milli ns = ns div 1000000"

definition event_id :: "string \<Rightarrow> int \<Rightarrow> int \<Rightarrow> string" where
  "event_id what task ns = what @ ''-'' @ itoa task @ ''-'' @ itoa (unix_milli ns)"

definition zevent :: "string \<Rightarrow> string \<Rightarrow> string \<Rightarrow> string \<Rightarrow> int \<Rightarrow> zs_item" where
  "zevent i ty sev msg ns =
     ZEvent \<lparr>zev_id = i, zev_type = ty, zev_severity = sev, zev_message = msg, zev_time = rfc3339 ns\<rparr>"

text \<open>The layout \<^verbatim>\<open>2006-01-02-150405\<close> of the snapshot names.\<close>

definition snap_stamp :: "int \<Rightarrow> string" where
  "snap_stamp ns =
     (let secs = ns div 1000000000; (y, m, d) = civil (secs div 86400); t = secs mod 86400
      in pad_num 4 y @ ''-'' @ pad_num 2 m @ ''-'' @ pad_num 2 d @ ''-'' @ pad_num 2 (t div 3600) @
         pad_num 2 (t div 60 mod 60) @ pad_num 2 (t mod 60))"

definition arrow :: string where
  "arrow = [CHR '' '', CHR 0xE2, CHR 0x86, CHR 0x92, CHR '' '']"

section \<open>Retention\<close>

definition prefix_matches :: "string \<Rightarrow> zfs_snapshot \<Rightarrow> bool" where
  "prefix_matches prefix sn \<longleftrightarrow> has_prefix (sn_name sn) (prefix @ ''-'')"

definition surplus :: "int \<Rightarrow> zfs_snapshot list \<Rightarrow> zfs_snapshot list" where
  "surplus keep sns = (if int (length sns) \<le> keep then [] else take (nat (int (length sns) - keep)) sns)"

text \<open>The loop over the snapshots to delete: a failure is logged and the loop goes on. The result
  is the number destroyed.\<close>

fun destroy_each :: "zx_host \<Rightarrow> zfs_engine \<Rightarrow> zfs_snapshot list \<Rightarrow> zx_log \<Rightarrow> nat \<times> zx_log" where
  "destroy_each h e [] tr = (0, tr)"
| "destroy_each h e (sn # sns) tr =
     (case destroy_snapshot h e (sn_full sn) tr of
        ((r, err), tr') \<Rightarrow>
          (case destroy_each h e sns tr' of (n, tr'') \<Rightarrow> ((if err = None then Suc n else n), tr'')))"

definition apply_retention :: "zsched_env \<Rightarrow> zfs_task \<Rightarrow> zx_log \<Rightarrow> (go_error + nat) \<times> zx_log" where
  "apply_retention env t tr =
     (case list_snapshots (zn_host env) (zn_engine env) tr of
        (Inl err, tr') \<Rightarrow> (Inl (WrappedError ''list snapshots for retention: '' err []), tr')
      | (Inr sns, tr') \<Rightarrow>
          (let matching = filter (\<lambda>sn. sn_dataset sn = tk_target t \<and> prefix_matches (tk_prefix t) sn) sns
           in if int (length matching) \<le> tk_retention t then (Inr 0, tr')
              else (case destroy_each (zn_host env) (zn_engine env) (surplus (tk_retention t) (zn_sort env matching)) tr' of
                      (n, tr'') \<Rightarrow> (Inr n, tr''))))"

definition apply_retention_on :: "zsched_env \<Rightarrow> string \<Rightarrow> string \<Rightarrow> int \<Rightarrow> zx_log \<Rightarrow> go_error option \<times> zx_log" where
  "apply_retention_on env dataset prefix keep tr =
     (case list_snapshots_for (zn_host env) (zn_engine env) dataset tr of
        (Inl err, tr') \<Rightarrow> (Some (WrappedError (''list snapshots for retention on '' @ dataset @ '': '') err []), tr')
      | (Inr sns, tr') \<Rightarrow>
          (None, snd (destroy_each (zn_host env) (zn_engine env) (surplus keep (filter (prefix_matches prefix) sns)) tr')))"

fun destroy_each_remote :: "zx_host \<Rightarrow> zfs_engine \<Rightarrow> remote_target \<Rightarrow> zfs_snapshot list \<Rightarrow> zx_log \<Rightarrow> zx_log" where
  "destroy_each_remote h e tgt [] tr = tr"
| "destroy_each_remote h e tgt (sn # sns) tr =
     destroy_each_remote h e tgt sns (snd (destroy_remote_snapshot h e tgt (sn_full sn) tr))"

definition apply_remote_retention :: "zsched_env \<Rightarrow> remote_target \<Rightarrow> string \<Rightarrow> int \<Rightarrow> zx_log \<Rightarrow>
    go_error option \<times> zx_log" where
  "apply_remote_retention env tgt prefix keep tr =
     (case list_remote_snapshots (zn_host env) (zn_engine env) tgt tr of
        (Inl err, tr') \<Rightarrow> (Some (WrappedError ''list remote snapshots for retention: '' err []), tr')
      | (Inr sns, tr') \<Rightarrow>
          (None, destroy_each_remote (zn_host env) (zn_engine env) tgt
             (surplus keep (filter (prefix_matches prefix) sns)) tr'))"

section \<open>Snapshot and scrub tasks\<close>

definition run_snapshot_task :: "zsched_env \<Rightarrow> zfs_task \<Rightarrow> zsched_state \<Rightarrow> go_error option \<times> zsched_state" where
  "run_snapshot_task env t s0 =
     (let (now, s1) = read_clock env s0; snap = tk_prefix t @ ''-'' @ snap_stamp now in
      case zcall (create_snapshot (zn_host env) (zn_engine env) (tk_target t) snap (tk_recursive t)) s1 of
        ((r, Some err), s2) \<Rightarrow>
          (Some (WrappedError (''create snapshot '' @ tk_target t @ ''@'' @ snap @ '': '') err
             ('' (output: '' @ zr_output r @ '')'')), s2)
      | ((r, None), s2) \<Rightarrow>
          (let (deleted, s3) =
                 (if tk_retention t > 0
                  then (case zcall (apply_retention env t) s2 of
                          (Inl err, s') \<Rightarrow> (0, s') | (Inr n, s') \<Rightarrow> (n, s'))
                  else (0, s2));
               (now2, s4) = read_clock env s3;
               s5 = zput (zevent (event_id ''snap-ok'' (tk_id t) now2) ''snapshot_task_succeeded'' ''info''
                            (''snapshot '' @ tk_target t @ ''@'' @ snap @ '' created'') now2) s4
           in (None,
               if deleted > 0
               then zput (zevent (event_id ''ret'' (tk_id t) now2) ''retention_cleanup_completed'' ''info''
                            (''retention on '' @ tk_target t @ '' (prefix '' @ go_quote (tk_prefix t) @ ''): deleted '' @
                             itoa (int deleted) @ '' '' @ (if deleted = 1 then ''snapshot'' else ''snapshots'')) now2) s5
               else s5)))"

definition run_scrub_task :: "zsched_env \<Rightarrow> zfs_task \<Rightarrow> zsched_state \<Rightarrow> go_error option \<times> zsched_state" where
  "run_scrub_task env t s =
     (case zcall (start_scrub (zn_host env) (zn_engine env) (tk_target t)) s of
        ((r, Some err), s1) \<Rightarrow>
          (Some (WrappedError (''scrub '' @ tk_target t @ '': '') err ('' (output: '' @ zr_output r @ '')'')), s1)
      | ((r, None), s1) \<Rightarrow>
          (let (now, s2) = read_clock env s1
           in (None, zput (zevent (event_id ''scrub-start'' (tk_id t) now) ''scrub_task_started'' ''info''
                       (''scrub started on pool '' @ tk_target t) now) s2)))"

section \<open>Replication tasks\<close>

definition absent :: "string option \<Rightarrow> bool" where
  "absent x \<longleftrightarrow> (case x of None \<Rightarrow> True | Some v \<Rightarrow> v = [])"

definition target_of_task :: "zfs_engine \<Rightarrow> zfs_task \<Rightarrow> go_error + remote_target" where
  "target_of_task e t =
     (let missing = (if absent (tk_host t) then [''dest_host''] else []) @
                    (if absent (tk_user t) then [''dest_user''] else []) @
                    (if absent (tk_key t) then [''ssh_key_name''] else []) @
                    (if absent (tk_dest t) then [''dest_target''] else [])
      in if missing \<noteq> []
         then Inl (PlainError (''remote replication task '' @ itoa (tk_id t) @ '' missing: '' @ join_with '', '' missing))
         else remote_target_from_task e (the (tk_dest t)) (the (tk_host t)) (the (tk_user t))
                (case tk_port t of Some p \<Rightarrow> if p > 0 then p else 22 | None \<Rightarrow> 22) (the (tk_key t))
                (case tk_bandwidth t of Some b \<Rightarrow> b | None \<Rightarrow> 0))"

definition pick_bookmark_base :: "zx_host \<Rightarrow> zfs_engine \<Rightarrow> string \<Rightarrow> string \<Rightarrow> zx_log \<Rightarrow> string \<times> zx_log" where
  "pick_bookmark_base h e dataset common tr =
     (case split_n2 (CHR ''@'') common of
        [d, n] \<Rightarrow>
          (case list_bookmarks h e dataset tr of
             (Inl err, tr') \<Rightarrow> ([], tr')
           | (Inr bms, tr') \<Rightarrow> (if dataset @ ''#'' @ n \<in> set bms then dataset @ ''#'' @ n else [], tr'))
      | _ \<Rightarrow> ([], tr))"

text \<open>An interrupted receive is resumed first; whatever comes of it is only logged.\<close>

definition resume_step :: "zx_host \<Rightarrow> zfs_engine \<Rightarrow> remote_target \<Rightarrow> zx_log \<Rightarrow> zx_log" where
  "resume_step h e tgt tr =
     (case get_remote_resume_token h e tgt tr of
        (Inr token, tr') \<Rightarrow> if token \<noteq> [] then snd (send_receive_resume h e token tgt tr') else tr'
      | (Inl err, tr') \<Rightarrow> tr')"

definition send_remote :: "zsched_env \<Rightarrow> zfs_task \<Rightarrow> string \<Rightarrow> zfs_snapshot list \<Rightarrow> remote_target \<Rightarrow> zx_log \<Rightarrow>
    (go_error + replication_result) \<times> zx_log" where
  "send_remote env t snap src tgt tr =
     (let h = zn_host env; e = zn_engine env;
          (dst, tr1) = list_remote_snapshots h e tgt (resume_step h e tgt tr);
          common = find_common_snapshot src (case dst of Inl err \<Rightarrow> [] | Inr sns \<Rightarrow> sns);
          (bm, tr2) = (if common \<noteq> [] \<and> tk_bookmarks t then pick_bookmark_base h e (tk_target t) common tr1
                       else ([], tr1));
          base = (if bm \<noteq> [] then bm else common)
      in case send_receive_remote h e snap base tgt tr2 of
           (Inl err, tr3) \<Rightarrow> (Inl (WrappedError ''remote send|receive: '' err []), tr3)
         | (Inr r, tr3) \<Rightarrow> (Inr r, tr3))"

definition send_local :: "zsched_env \<Rightarrow> string \<Rightarrow> string \<Rightarrow> zfs_snapshot list \<Rightarrow> zx_log \<Rightarrow>
    (go_error + replication_result) \<times> zx_log" where
  "send_local env dest snap src tr =
     (let (dst, tr1) = list_snapshots_for (zn_host env) (zn_engine env) dest tr;
          base = find_common_snapshot src (case dst of Inl err \<Rightarrow> [] | Inr sns \<Rightarrow> sns)
      in case send_receive_local (zn_host env) (zn_engine env) snap base dest tr1 of
           (Inl err, tr2) \<Rightarrow> (Inl (WrappedError ''local send|receive: '' err []), tr2)
         | (Inr r, tr2) \<Rightarrow> (Inr r, tr2))"

definition retain_source :: "zsched_env \<Rightarrow> zfs_task \<Rightarrow> zsched_state \<Rightarrow> zsched_state" where
  "retain_source env t s = (if tk_retention t > 0 then snd (zcall (apply_retention env t) s) else s)"

definition retain_dest :: "zsched_env \<Rightarrow> zfs_task \<Rightarrow> string \<Rightarrow> string \<Rightarrow> remote_target option \<Rightarrow> zsched_state \<Rightarrow>
    zsched_state" where
  "retain_dest env t dest mode tgt s =
     (if mode = ''local'' \<and> tk_retention t > 0
      then snd (zcall (apply_retention_on env dest (tk_prefix t) (tk_retention t)) s)
      else case tgt of
             Some r \<Rightarrow> if mode = ''remote'' \<and> tk_retention t > 0 \<and> tk_manage t
                       then snd (zcall (apply_remote_retention env r (tk_prefix t) (tk_retention t)) s) else s
           | None \<Rightarrow> s)"

text \<open>What follows a successful send: the event, the bookkeeping, the retention of both sides and
  the bookmark.\<close>

definition after_send :: "zsched_env \<Rightarrow> zfs_task \<Rightarrow> string \<Rightarrow> string \<Rightarrow> string \<Rightarrow> remote_target option \<Rightarrow>
    zsched_state \<Rightarrow> zsched_state" where
  "after_send env t dest mode snap tgt s0 =
     (let full = tk_target t @ ''@'' @ snap;
          (now, s1) = read_clock env s0; (now2, s2) = read_clock env s1;
          s3 = zput (zevent (''repl-'' @ tk_target t @ ''-'' @ itoa (unix_milli now)) ''replication_succeeded'' ''info''
                       (''replicated '' @ tk_target t @ arrow @ dest @ '' ('' @ mode @ '', '' @
                        zn_duration env (zs_tr s0) @ '')'') now2) s2;
          (_, s4) = zstmt env (\<lambda>drv. set_last_sent drv (tk_id t) full) s3;
          s5 = retain_dest env t dest mode tgt (retain_source env t s4)
      in if mode = ''remote'' \<and> tk_bookmarks t
         then snd (zcall (create_bookmark (zn_host env) (zn_engine env) full snap) s5) else s5)"

definition run_replication_task :: "zsched_env \<Rightarrow> zfs_task \<Rightarrow> zsched_state \<Rightarrow> go_error option \<times> zsched_state" where
  "run_replication_task env t s0 =
     (if absent (tk_dest t)
      then (Some (PlainError (''replication task '' @ itoa (tk_id t) @ '' has no dest_target'')), s0)
      else
        let h = zn_host env; e = zn_engine env; dest = the (tk_dest t);
            mode = (case tk_mode t of Some m \<Rightarrow> m | None \<Rightarrow> ''local'');
            (now, s1) = read_clock env s0; snap = tk_prefix t @ ''-'' @ snap_stamp now;
            full = tk_target t @ ''@'' @ snap
        in case zcall (create_snapshot h e (tk_target t) snap (tk_recursive t)) s1 of
             ((r, Some err), s2) \<Rightarrow> (Some (WrappedError (''create source snapshot '' @ full @ '': '') err []), s2)
           | ((r, None), s2) \<Rightarrow>
               (case zcall (list_snapshots_for h e (tk_target t)) s2 of
                  (Inl err, s3) \<Rightarrow> (Some (WrappedError ''list source snapshots: '' err []), s3)
                | (Inr src, s3) \<Rightarrow>
                    if mode = ''remote''
                    then (case target_of_task e t of
                            Inl err \<Rightarrow> (Some err, s3)
                          | Inr tgt \<Rightarrow>
                              (case zcall (send_remote env t full src tgt) s3 of
                                 (Inl err, s4) \<Rightarrow> (Some err, s4)
                               | (Inr res, s4) \<Rightarrow> (None, after_send env t dest mode snap (Some tgt) s4)))
                    else (case zcall (send_local env dest full src) s3 of
                            (Inl err, s4) \<Rightarrow> (Some err, s4)
                          | (Inr res, s4) \<Rightarrow> (None, after_send env t dest mode snap None s4))))"

section \<open>A run\<close>

definition job_started_type :: "string \<Rightarrow> string" where
  "job_started_type trig = (if trig = ''manual'' then ''manual_job_started''
     else if trig = ''scheduled'' then ''scheduled_job_started'' else ''job_started'')"

definition job_complete_type :: "string \<Rightarrow> string" where
  "job_complete_type trig = (if trig = ''manual'' then ''manual_job_complete''
     else if trig = ''scheduled'' then ''scheduled_job_complete'' else ''job_complete'')"

definition failure_message :: "zfs_task \<Rightarrow> string \<Rightarrow> string" where
  "failure_message t err =
     (if tk_type t = ''snapshot'' then ''snapshot of '' @ tk_target t @ '' failed: '' @ err
      else if tk_type t = ''scrub'' then ''scrub of '' @ tk_target t @ '' failed: '' @ err
      else if tk_type t = ''replication''
      then ''replication '' @ tk_target t @ arrow @ (case tk_dest t of Some d \<Rightarrow> d | None \<Rightarrow> []) @ '' failed: '' @ err
      else tk_type t @ '' task on '' @ tk_target t @ '' failed: '' @ err)"

definition emit_failure_event :: "zsched_env \<Rightarrow> zfs_task \<Rightarrow> string \<Rightarrow> zsched_state \<Rightarrow> zsched_state" where
  "emit_failure_event env t err s =
     (let (now, s1) = read_clock env s
      in zput (zevent (event_id ''job-fail'' (tk_id t) now) ''job_failed'' ''critical'' (failure_message t err) now) s1)"

definition run_task :: "zsched_env \<Rightarrow> zfs_task \<Rightarrow> zsched_state \<Rightarrow> go_error option \<times> zsched_state" where
  "run_task env t s =
     (if tk_type t = ''snapshot'' then run_snapshot_task env t s
      else if tk_type t = ''scrub'' then run_scrub_task env t s
      else if tk_type t = ''replication'' then run_replication_task env t s
      else (Some (PlainError (''unknown task type: '' @ tk_type t)), s))"

definition begin_run :: "zsched_env \<Rightarrow> zfs_task \<Rightarrow> string \<Rightarrow> zsched_state \<Rightarrow> int \<times> zsched_state" where
  "begin_run env t trig s0 =
     (let (now, s1) = read_clock env s0;
          (r, s2) = zstmt env (\<lambda>drv. insert_zfs_job drv now (Some (tk_id t)) (tk_type t) trig) s1;
          s3 = zput (ZLog (''scheduler:'' @ tk_type t) ''info''
                 (''starting '' @ tk_type t @ '' on '' @ tk_target t @ '' (task #'' @ itoa (tk_id t) @ '', '' @ trig @ '')'')) s2;
          (now2, s4) = read_clock env s3; (now3, s5) = read_clock env s4
      in ((case r of Inr i \<Rightarrow> i | Inl _ \<Rightarrow> 0),
          zput ZFlush (zput (zevent (event_id ''job-start'' (tk_id t) now2) (job_started_type trig) ''info''
            (trig @ '' '' @ tk_type t @ '' on '' @ tk_target t @ '' started'') now3) s5)))"

definition end_run :: "zsched_env \<Rightarrow> zfs_task \<Rightarrow> string \<Rightarrow> int \<Rightarrow> go_error option \<Rightarrow> zsched_state \<Rightarrow> zsched_state" where
  "end_run env t trig i err s0 =
     (let (now, s1) = read_clock env s0 in
      case err of
        Some e \<Rightarrow>
          (let (_, s2) = zstmt env (\<lambda>drv. complete_zfs_job drv now i ''error'' (error_text e)) s1;
               s3 = emit_failure_event env t (error_text e) s2
           in zput ZFlush (zput (ZLog (''scheduler:'' @ tk_type t) ''error''
                (''task #'' @ itoa (tk_id t) @ '' failed: '' @ error_text e)) s3))
      | None \<Rightarrow>
          (let (_, s2) = zstmt env (\<lambda>drv. complete_zfs_job drv now i ''success'' []) s1;
               s3 = zput (ZLog (''scheduler:'' @ tk_type t) ''info''
                      (''task #'' @ itoa (tk_id t) @ '' on '' @ tk_target t @ '' completed'')) s2;
               (now2, s4) = read_clock env s3; (now3, s5) = read_clock env s4
           in zput ZFlush (zput (zevent (event_id ''job-done'' (tk_id t) now2) (job_complete_type trig) ''info''
                (trig @ '' '' @ tk_type t @ '' on '' @ tk_target t @ '' completed'') now3) s5)))"

definition run_zfs_job :: "zsched_env \<Rightarrow> zfs_task \<Rightarrow> string \<Rightarrow> zsched_state \<Rightarrow> zsched_state" where
  "run_zfs_job env t trig s0 =
     (let (i, s1) = begin_run env t trig s0; (err, s2) = run_task env t s1
      in end_run env t trig i err s2)"

text \<open>The cron entry point skips the run when another holds the mutex.\<close>

definition execute_task :: "zsched_env \<Rightarrow> bool \<Rightarrow> zfs_task \<Rightarrow> zsched_state \<Rightarrow> zsched_state" where
  "execute_task env busy t s = (if busy then s else run_zfs_job env t ''scheduled'' s)"

section \<open>Registration\<close>

record zfs_cron =
  zc_context :: bool
  zc_entries :: "zfs_task list"
  zc_running :: bool

definition register_task :: "(string \<Rightarrow> string option) \<Rightarrow> zfs_task \<Rightarrow> zfs_cron \<Rightarrow> string option \<times> zfs_cron" where
  "register_task cron_err t c =
     (case cron_err (''0 '' @ tk_schedule t) of
        Some e \<Rightarrow> (Some (''register cron for task '' @ itoa (tk_id t) @ '' ('' @ tk_schedule t @ ''): '' @ e), c)
      | None \<Rightarrow> (None, c\<lparr>zc_entries := zc_entries c @ [t]\<rparr>))"

definition start_zfs :: "(string \<Rightarrow> string option) \<Rightarrow> string option \<Rightarrow> zfs_db \<Rightarrow> zfs_cron \<Rightarrow>
    string option \<times> zfs_cron" where
  "start_zfs cron_err drv db c0 =
     (let c = c0\<lparr>zc_context := True\<rparr> in
      case list_enabled_tasks drv db of
        Inl e \<Rightarrow> (Some (''load tasks: '' @ e), c)
      | Inr ts \<Rightarrow> (None, (fold (\<lambda>t c. snd (register_task cron_err t c)) ts c)\<lparr>zc_running := True\<rparr>))"

definition reload_zfs :: "(string \<Rightarrow> string option) \<Rightarrow> string option \<Rightarrow> zfs_db \<Rightarrow> zfs_cron \<Rightarrow>
    string option \<times> zfs_cron" where
  "reload_zfs cron_err drv db c =
     (if \<not> zc_context c then (Some ''scheduler not started'', c)
      else start_zfs cron_err drv db (c\<lparr>zc_entries := [], zc_running := False\<rparr>))"

definition run_now :: "string option \<Rightarrow> int \<Rightarrow> zfs_db \<Rightarrow> zfs_cron \<Rightarrow> string + zfs_task" where
  "run_now drv i db c =
     (case get_task drv i db of
        Inl e \<Rightarrow> Inl (''load task '' @ itoa i @ '': '' @ e)
      | Inr None \<Rightarrow> Inl (''task '' @ itoa i @ '' not found'')
      | Inr (Some t) \<Rightarrow> if zc_context c then Inr t else Inl ''scheduler not started'')"

definition cron_fires :: "zfs_cron \<Rightarrow> zfs_task list" where
  "cron_fires c = (if zc_running c then zc_entries c else [])"

section \<open>Calls that destroy\<close>

fun destroying :: "zx_call \<Rightarrow> bool" where
  "destroying (Cmd bin args) \<longleftrightarrow>
     (args \<noteq> [] \<and> hd args = ''destroy'') \<or>
     (length args \<ge> 3 \<and> args ! (length args - 3) = ''zfs'' \<and> args ! (length args - 2) = ''destroy'')"
| "destroying (Pipe stages) \<longleftrightarrow> False"

text \<open>A step that destroys nothing: whatever it calls, the destroying calls of the log stay the
  same.\<close>

definition spares :: "('r \<times> zx_log) \<Rightarrow> zx_log \<Rightarrow> bool" where
  "spares r tr \<longleftrightarrow> filter destroying (snd r) = filter destroying tr"

lemma zx_run_spares: "\<not> destroying (Cmd bin args) \<Longrightarrow> spares (zx_run h bin args tr) tr"
  by (simp add: spares_def zx_run_log)

lemma create_snapshot_spares [simp]: "filter destroying (snd (create_snapshot h e d n r tr)) = filter destroying tr"
  by (simp add: create_snapshot_def zfs_command_def run_zfs_def zx_run_log)

lemma start_scrub_spares [simp]: "filter destroying (snd (start_scrub h e p tr)) = filter destroying tr"
  by (simp add: start_scrub_def zpool_command_def run_zpool_def zx_run_log)

lemma run_zfs_snd: "snd (run_zfs h e args tr) = tr @ [Cmd (en_zfs e) args]"
  by (simp add: run_zfs_def zx_run_log)

lemma run_zfs_eq: "run_zfs h e args tr = (r, tr') \<Longrightarrow> tr' = tr @ [Cmd (en_zfs e) args]"
  using run_zfs_snd [of h e args tr] by simp

lemma list_snapshots_for_log: "snd (list_snapshots_for h e d tr) = tr @ [Cmd (en_zfs e) [''list'', ''-Hp'', ''-o'',
    ''name,creation,used,referenced'', ''-t'', ''snapshot'', ''-s'', ''creation'', ''-r'', d]]"
  by (auto simp: list_snapshots_for_def dest!: run_zfs_eq split: prod.splits option.splits)

lemma list_snapshots_for_spares [simp]: "filter destroying (snd (list_snapshots_for h e d tr)) = filter destroying tr"
  by (simp add: list_snapshots_for_log)

lemma list_bookmarks_log: "snd (list_bookmarks h e d tr) = tr @ [Cmd (en_zfs e) [''list'', ''-Hp'', ''-o'',
    ''name'', ''-t'', ''bookmark'', ''-r'', d]]"
  by (auto simp: list_bookmarks_def dest!: run_zfs_eq split: prod.splits option.splits)

lemma list_bookmarks_spares [simp]: "filter destroying (snd (list_bookmarks h e d tr)) = filter destroying tr"
  by (simp add: list_bookmarks_log)

lemma list_remote_spares [simp]: "filter destroying (snd (list_remote_snapshots h e t tr)) = filter destroying tr"
  by (simp add: list_remote_snapshots_def run_ssh_def build_ssh_args_def split: zx_answer.splits)

lemma resume_token_spares [simp]: "filter destroying (snd (get_remote_resume_token h e t tr)) = filter destroying tr"
  by (simp add: get_remote_resume_token_def run_ssh_def build_ssh_args_def split: zx_answer.splits)

lemma resume_spares [simp]: "filter destroying (snd (send_receive_resume h e k t tr)) = filter destroying tr"
  by (simp add: send_receive_resume_def Let_def)

lemma send_remote_spares0 [simp]: "filter destroying (snd (send_receive_remote h e n b t tr)) = filter destroying tr"
  by (simp add: send_receive_remote_def Let_def split: option.splits)

lemma send_local_spares0 [simp]: "filter destroying (snd (send_receive_local h e n b d tr)) = filter destroying tr"
  by (simp add: send_receive_local_def Let_def)

lemma resume_step_spares [simp]: "filter destroying (resume_step h e t tr) = filter destroying tr"
proof -
  obtain r tr' where r: "get_remote_resume_token h e t tr = (r, tr')" by fastforce
  then have "filter destroying tr' = filter destroying tr"
    using resume_token_spares [of h e t tr] by simp
  then show ?thesis by (cases r) (simp_all add: resume_step_def r)
qed

lemma pick_bookmark_spares [simp]: "filter destroying (snd (pick_bookmark_base h e d c tr)) = filter destroying tr"
proof -
  obtain r tr' where r: "list_bookmarks h e d tr = (r, tr')" by fastforce
  then have "filter destroying tr' = filter destroying tr"
    using list_bookmarks_spares [of h e d tr] by simp
  then show ?thesis by (simp add: pick_bookmark_base_def r split: list.split sum.split)
qed

lemma send_remote_spares [simp]: "filter destroying (snd (send_remote env t n src tgt tr)) = filter destroying tr"
proof -
  let ?h = "zn_host env" and ?e = "zn_engine env"
  obtain dst tr1 where l: "list_remote_snapshots ?h ?e tgt (resume_step ?h ?e tgt tr) = (dst, tr1)" by fastforce
  let ?common = "find_common_snapshot src (case dst of Inl err \<Rightarrow> [] | Inr sns \<Rightarrow> sns)"
  obtain bm tr2 where b: "(if ?common \<noteq> [] \<and> tk_bookmarks t then pick_bookmark_base ?h ?e (tk_target t) ?common tr1
      else ([], tr1)) = (bm, tr2)" by fastforce
  obtain r tr3 where s: "send_receive_remote ?h ?e n (if bm \<noteq> [] then bm else ?common) tgt tr2 = (r, tr3)" by fastforce
  have "filter destroying tr1 = filter destroying tr"
    using list_remote_spares [of ?h ?e tgt "resume_step ?h ?e tgt tr"] by (simp add: l)
  moreover have "filter destroying tr2 = filter destroying tr1"
    using arg_cong [OF b, of snd] by (auto split: if_splits)
  moreover have "filter destroying tr3 = filter destroying tr2"
    using send_remote_spares0 [of ?h ?e n "if bm \<noteq> [] then bm else ?common" tgt tr2] by (simp only: s snd_conv)
  moreover have "snd (send_remote env t n src tgt tr) = tr3"
    by (simp add: send_remote_def Let_def l b s split: sum.splits)
  ultimately show ?thesis by simp
qed

lemma send_local_spares [simp]: "filter destroying (snd (send_local env d n src tr)) = filter destroying tr"
proof -
  obtain dst tr1 where l: "list_snapshots_for (zn_host env) (zn_engine env) d tr = (dst, tr1)" by fastforce
  let ?base = "find_common_snapshot src (case dst of Inl err \<Rightarrow> [] | Inr sns \<Rightarrow> sns)"
  obtain r tr2 where s: "send_receive_local (zn_host env) (zn_engine env) n ?base d tr1 = (r, tr2)" by fastforce
  have "filter destroying tr1 = filter destroying tr"
    using list_snapshots_for_spares [of "zn_host env" "zn_engine env" d tr] by (simp add: l)
  moreover have "filter destroying tr2 = filter destroying tr1"
    using send_local_spares0 [of "zn_host env" "zn_engine env" n ?base d tr1] by (simp only: s snd_conv)
  moreover have "snd (send_local env d n src tr) = tr2"
    by (simp add: send_local_def Let_def l s split: sum.splits)
  ultimately show ?thesis by simp
qed

lemma zcall_tr [simp]: "zs_tr (snd (zcall f s)) = snd (f (zs_tr s))" "fst (zcall f s) = fst (f (zs_tr s))"
  by (simp_all add: zcall_def split: prod.splits)

lemma read_clock_tr [simp]: "zs_tr (snd (read_clock env s)) = zs_tr s"
  by (simp add: read_clock_def)

lemma zcall_spares:
  "zcall f s = (r, s') \<Longrightarrow> filter destroying (snd (f (zs_tr s))) = filter destroying (zs_tr s) \<Longrightarrow>
     filter destroying (zs_tr s') = filter destroying (zs_tr s)"
  using zcall_tr(1) [of f s] by simp

lemma failed_snapshot_spares:
  assumes "fst (run_snapshot_task env t s) = Some err"
  shows "filter destroying (zs_tr (snd (run_snapshot_task env t s))) = filter destroying (zs_tr s)"
proof -
  obtain now s1 where c: "read_clock env s = (now, s1)" by fastforce
  let ?f = "create_snapshot (zn_host env) (zn_engine env) (tk_target t)
    (tk_prefix t @ CHR ''-'' # snap_stamp now) (tk_recursive t)"
  obtain res e2 s2 where k: "zcall ?f s1 = ((res, e2), s2)" by (metis prod.collapse)
  have "e2 \<noteq> None"
    using assms by (cases e2) (simp_all add: run_snapshot_task_def c k Let_def split: prod.splits)
  then have "snd (run_snapshot_task env t s) = s2" by (auto simp: run_snapshot_task_def c k Let_def)
  then show ?thesis using zcall_spares [OF k] read_clock_tr [of env s] by (simp add: c)
qed

lemma failed_scrub_spares:
  assumes "fst (run_scrub_task env t s) = Some err"
  shows "filter destroying (zs_tr (snd (run_scrub_task env t s))) = filter destroying (zs_tr s)"
proof -
  obtain res e2 s2 where k: "zcall (start_scrub (zn_host env) (zn_engine env) (tk_target t)) s = ((res, e2), s2)"
    by (metis prod.collapse)
  have "e2 \<noteq> None"
    using assms by (cases e2) (simp_all add: run_scrub_task_def k split: prod.splits)
  then have "snd (run_scrub_task env t s) = s2" by (auto simp: run_scrub_task_def k)
  then show ?thesis using zcall_spares [OF k] by simp
qed

lemma failed_replication_spares:
  assumes "fst (run_replication_task env t s) = Some err"
  shows "filter destroying (zs_tr (snd (run_replication_task env t s))) = filter destroying (zs_tr s)"
proof (cases "absent (tk_dest t)")
  case False
  let ?h = "zn_host env" and ?e = "zn_engine env" and ?dest = "the (tk_dest t)"
  let ?mode = "case tk_mode t of Some m \<Rightarrow> m | None \<Rightarrow> ''local''"
  obtain now s1 where c: "read_clock env s = (now, s1)" by fastforce
  let ?snap = "tk_prefix t @ CHR ''-'' # snap_stamp now"
  let ?full = "tk_target t @ CHR ''@'' # ?snap"
  obtain res e2 s2 where k: "zcall (create_snapshot ?h ?e (tk_target t) ?snap (tk_recursive t)) s1 = ((res, e2), s2)"
    by (metis prod.collapse)
  obtain l s3 where l: "zcall (list_snapshots_for ?h ?e (tk_target t)) s2 = (l, s3)" by fastforce
  have s2: "filter destroying (zs_tr s2) = filter destroying (zs_tr s)"
    using zcall_spares [OF k] read_clock_tr [of env s] by (simp add: c)
  then have s3: "filter destroying (zs_tr s3) = filter destroying (zs_tr s)"
    using zcall_spares [OF l] by simp
  show ?thesis
  proof (cases e2)
    case (Some e3)
    then show ?thesis using False s2 by (simp add: run_replication_task_def c k Let_def)
  next
    case None
    show ?thesis
    proof (cases l)
      case (Inl e4)
      then show ?thesis using False None s3 by (simp add: run_replication_task_def c k l Let_def)
    next
      case (Inr src)
      show ?thesis
      proof (cases "?mode = ''remote''")
        case True
        show ?thesis
        proof (cases "target_of_task ?e t")
          case (Inl e5)
          then show ?thesis using False None Inr True s3 by (simp add: run_replication_task_def c k l Let_def)
        next
          case tgt: (Inr tgt)
          obtain r s4 where r: "zcall (send_remote env t ?full src tgt) s3 = (r, s4)" by fastforce
          have s4: "filter destroying (zs_tr s4) = filter destroying (zs_tr s)" using zcall_spares [OF r] s3 by simp
          show ?thesis
            using assms False None Inr True tgt s4
            by (cases r) (simp_all add: run_replication_task_def c k l r Let_def)
        qed
      next
        case local: False
        obtain r s4 where r: "zcall (send_local env ?dest ?full src) s3 = (r, s4)" by fastforce
        have s4: "filter destroying (zs_tr s4) = filter destroying (zs_tr s)" using zcall_spares [OF r] s3 by simp
        show ?thesis
          using assms False None Inr local s4
          by (cases r) (simp_all add: run_replication_task_def c k l r Let_def)
      qed
    qed
  qed
qed (simp add: run_replication_task_def)

text \<open>C23. A failed task destroys nothing: when a run of a snapshot, scrub or replication task reports
  an error, no snapshot was destroyed on either side, because retention runs only after the
  snapshot is taken, and for a replication only after the stream was received.\<close>

theorem failed_task_destroys_nothing:
  assumes "fst (run_task env t s) = Some err"
  shows "filter destroying (zs_tr (snd (run_task env t s))) = filter destroying (zs_tr s)"
  using assms failed_snapshot_spares failed_scrub_spares failed_replication_spares
  unfolding run_task_def by (auto simp: prod_eq_iff split: if_splits)

end
