(* ===== verification/ZfsRuns.thy ===== *)
theory ZfsRuns
  imports ZfsScheduler "HOL-Library.Sublist"
begin

text \<open>
  What a run of the ZFS scheduler leaves behind: the snapshots retention keeps, the row and the
  events of the job history, and the tasks that still fire after a start or a reload.
\<close>

section \<open>A sample environment\<close>

definition sample_task :: "string \<Rightarrow> zfs_task" where
  "sample_task ty =
     \<lparr>tk_id = 1, tk_type = ty, tk_target = ''tank/a'', tk_schedule = ''0 2 * * *'', tk_recursive = False,
      tk_enabled = True, tk_prefix = ''auto'', tk_retention = 1, tk_created = 0, tk_updated = 0,
      tk_dest = Some ''backup/a'', tk_mode = None, tk_last = None, tk_host = None, tk_port = None,
      tk_user = None, tk_key = None, tk_bandwidth = None, tk_manage = False, tk_bookmarks = False\<rparr>"

text \<open>A host that lists two snapshots whatever is asked, and whose receive fails.\<close>

definition sample_rows :: string where
  "sample_rows = join_with [CHR 0x0A]
     [join_with [CHR 0x09] [''tank/a@auto-1'', ''1700000000'', ''1'', ''2''],
      join_with [CHR 0x09] [''tank/a@auto-2'', ''1700000060'', ''1'', ''2'']]"

definition zfs_sample_host :: zx_host where
  "zfs_sample_host = \<lparr>zh_run = (\<lambda>_ bin args. Exited (if hd args = ''list'' then sample_rows else [])),
     zh_pipe = (\<lambda>_ stages. [Finished None [], Finished (Some (ExitError 1 ''exit status 1'')) ''out of space''])\<rparr>"

definition zfs_sample_env :: zsched_env where
  "zfs_sample_env = \<lparr>zn_host = zfs_sample_host, zn_engine = new_zfs_engine (\<lambda>_. []) [] [] [], zn_clock = (\<lambda>_. 0),
     zn_drv = (\<lambda>_. None), zn_sort = sort_key sn_creation, zn_duration = (\<lambda>_. ''1s'')\<rparr>"

definition idle_zsched :: zsched_state where
  "idle_zsched = \<lparr>zs_tr = [], zs_db = empty_zfs_db, zs_out = [], zs_reads = 0, zs_stmts = 0\<rparr>"

lemma failed_replication_run:
  "fst (run_task zfs_sample_env (sample_task ''replication'') idle_zsched) =
     Some (WrappedError ''local send|receive: ''
       (WrappedError ''zfs receive failed: '' (ExitError 1 ''exit status 1'') '': out of space'') [])"
  by code_simp

lemma failed_task_destroys_nothing_witness:
  "length (zs_tr (snd (run_task zfs_sample_env (sample_task ''replication'') idle_zsched))) = 4 \<and>
   filter destroying (zs_tr (snd (run_task zfs_sample_env (sample_task ''replication'') idle_zsched))) = []"
proof
  show "length (zs_tr (snd (run_task zfs_sample_env (sample_task ''replication'') idle_zsched))) = 4"
    by code_simp
  show "filter destroying (zs_tr (snd (run_task zfs_sample_env (sample_task ''replication'') idle_zsched))) = []"
    using failed_task_destroys_nothing [OF failed_replication_run] by (simp add: idle_zsched_def)
qed

section \<open>Retention\<close>

lemma destroy_each_log:
  "snd (destroy_each h e sns tr) = tr @ map (\<lambda>s. Cmd (en_zfs e) [''destroy'', sn_full s]) sns"
proof (induction sns arbitrary: tr)
  case (Cons s sns)
  have "snd (destroy_snapshot h e (sn_full s) tr) = tr @ [Cmd (en_zfs e) [''destroy'', sn_full s]]"
    by (simp add: destroy_snapshot_def zfs_command_def run_zfs_def zx_run_log)
  then show ?case using Cons.IH by (simp split: prod.splits) (metis append.assoc append_Cons append_Nil snd_conv)
qed simp

lemma destroy_each_count: "fst (destroy_each h e sns tr) \<le> length sns"
proof (induction sns arbitrary: tr)
  case (Cons s sns)
  have "fst (destroy_each h e sns tr') \<le> length sns" for tr' by (rule Cons.IH)
  then show ?case by (auto split: prod.splits) (metis fst_conv le_SucI)+
qed simp

text \<open>The snapshots a list keeps, beside the ones it gives up.\<close>

lemma surplus_split:
  assumes "0 \<le> keep"
  shows "surplus keep sns @ drop (length sns - nat keep) sns = sns"
  using assms by (auto simp: surplus_def nat_diff_distrib)

text \<open>C24. Retention keeps the newest snapshots: when the snapshots could be listed, those of the
  task's dataset and prefix split into the ones kept and the ones given up, as many are kept as the
  task asks for (all if there are fewer), no snapshot given up was created later than one that is
  kept, the calls made are exactly one destroy for each given up, and the number reported is at
  most theirs.\<close>

theorem retention_keeps_newest:
  assumes "0 \<le> tk_retention t"
    and "list_snapshots (zn_host env) (zn_engine env) tr = (Inr sns, tr')"
    and "\<And>xs. mset (zn_sort env xs) = mset xs"
    and "\<And>xs. sorted (map sn_creation (zn_sort env xs))"
  shows "\<exists>gone kept n.
    mset gone + mset kept = mset (filter (\<lambda>s. sn_dataset s = tk_target t \<and> prefix_matches (tk_prefix t) s) sns) \<and>
    length kept = min (nat (tk_retention t)) (length gone + length kept) \<and>
    (\<forall>g \<in> set gone. \<forall>k \<in> set kept. sn_creation g \<le> sn_creation k) \<and>
    apply_retention env t tr =
      (Inr n, tr' @ map (\<lambda>s. Cmd (en_zfs (zn_engine env)) [''destroy'', sn_full s]) gone) \<and>
    n \<le> length gone"
proof -
  let ?ms = "filter (\<lambda>s. sn_dataset s = tk_target t \<and> prefix_matches (tk_prefix t) s) sns"
  let ?keep = "tk_retention t"
  show ?thesis
  proof (cases "int (length ?ms) \<le> ?keep")
    case True
    then have "apply_retention env t tr = (Inr 0, tr')" by (simp add: apply_retention_def assms(2) Let_def)
    then show ?thesis using True by (intro exI [of _ "[]"] exI [of _ ?ms] exI [of _ 0]) auto
  next
    case False
    define ss where "ss = zn_sort env ?ms"
    let ?gone = "surplus ?keep ss" and ?kept = "drop (length ss - nat ?keep) ss"
    obtain n tr'' where d: "destroy_each (zn_host env) (zn_engine env) ?gone tr' = (n, tr'')" by fastforce
    have parts: "?gone @ ?kept = ss" using assms(1) by (rule surplus_split)
    have len: "length ss = length ?ms" unfolding ss_def using assms(3) by (metis size_mset)
    have "mset ?gone + mset ?kept = mset ?ms" using assms(3) [of ?ms, folded ss_def] arg_cong [OF parts, of mset] by (simp only: mset_append)
    moreover have "length ?kept = min (nat ?keep) (length ?gone + length ?kept)"
      using False arg_cong [OF parts, of length] by (simp add: len)
    moreover have "\<forall>g \<in> set ?gone. \<forall>k \<in> set ?kept. sn_creation g \<le> sn_creation k"
    proof -
      have "sorted (map sn_creation (?gone @ ?kept))" using assms(4) [of ?ms, folded ss_def] by (simp only: parts)
      then show ?thesis by (simp only: map_append sorted_append set_map) blast
    qed
    moreover have "apply_retention env t tr =
        (Inr n, tr' @ map (\<lambda>s. Cmd (en_zfs (zn_engine env)) [''destroy'', sn_full s]) ?gone)"
      using False d destroy_each_log [of "zn_host env" "zn_engine env" ?gone tr']
      by (simp add: apply_retention_def assms(2) Let_def flip: ss_def)
    moreover have "n \<le> length ?gone"
      using destroy_each_count [of "zn_host env" "zn_engine env" ?gone tr'] by (simp add: d)
    ultimately show ?thesis by blast
  qed
qed

lemma retention_keeps_newest_witness:
  "\<exists>gone kept n.
    mset gone + mset kept = mset (snapshot_rows sample_rows) \<and>
    length kept = min 1 (length gone + length kept) \<and>
    list_all (\<lambda>g. list_all (\<lambda>k. sn_creation g \<le> sn_creation k) kept) gone \<and>
    apply_retention zfs_sample_env (sample_task ''snapshot'') [] =
      (Inr n, snd (list_snapshots zfs_sample_host (zn_engine zfs_sample_env) []) @
         map (\<lambda>s. Cmd ''zfs'' [''destroy'', sn_full s]) gone) \<and> n \<le> length gone"
proof -
  have l: "list_snapshots (zn_host zfs_sample_env) (zn_engine zfs_sample_env) [] =
      (Inr (snapshot_rows sample_rows), snd (list_snapshots zfs_sample_host (zn_engine zfs_sample_env) []))"
    by code_simp
  have f: "filter (\<lambda>s. sn_dataset s = tk_target (sample_task ''snapshot'') \<and>
      prefix_matches (tk_prefix (sample_task ''snapshot'')) s) (snapshot_rows sample_rows) = snapshot_rows sample_rows"
    by code_simp
  have e: "en_zfs (zn_engine zfs_sample_env) = ''zfs''" "nat (tk_retention (sample_task ''snapshot'')) = 1"
    "0 \<le> tk_retention (sample_task ''snapshot'')" "zn_sort zfs_sample_env = sort_key sn_creation"
    by (simp_all add: zfs_sample_env_def new_zfs_engine_def sample_task_def)
  show ?thesis
    using retention_keeps_newest [OF e(3) l] by (simp add: f e list_all_iff Ball_def)
qed

section \<open>The record of a run\<close>

lemma read_clock_frame [simp]:
  "zs_db (snd (read_clock env s)) = zs_db s" "zs_out (snd (read_clock env s)) = zs_out s"
  "zs_stmts (snd (read_clock env s)) = zs_stmts s"
  by (simp_all add: read_clock_def)

lemma zcall_frame [simp]: "zs_db (snd (zcall f s)) = zs_db s" "zs_out (snd (zcall f s)) = zs_out s"
  by (simp_all add: zcall_def split: prod.splits)

lemma zput_frame [simp]: "zs_db (zput i s) = zs_db s" "zs_out (zput i s) = zs_out s @ [i]"
  "zs_stmts (zput i s) = zs_stmts s"
  by (simp_all add: zput_def)

lemma zstmt_frame [simp]:
  "zs_db (snd (zstmt env f s)) = snd (f (zn_drv env (zs_stmts s)) (zs_db s))"
  "fst (zstmt env f s) = fst (f (zn_drv env (zs_stmts s)) (zs_db s))"
  "zs_out (snd (zstmt env f s)) = zs_out s"
  by (simp_all add: zstmt_def split: prod.splits)

lemma last_sent_jobs [simp]:
  "zb_jobs (snd (set_last_sent drv i snap db)) = zb_jobs db"
  "zb_job_seq (snd (set_last_sent drv i snap db)) = zb_job_seq db"
  by (simp_all add: set_last_sent_def split: option.splits)

text \<open>What no task touches: the rows of the job history; what it does with the output: append.\<close>

definition tame :: "zsched_state \<Rightarrow> zsched_state \<Rightarrow> bool" where
  "tame s s' \<longleftrightarrow> zb_jobs (zs_db s') = zb_jobs (zs_db s) \<and> prefix (zs_out s) (zs_out s')"

lemma tame_frame: "zs_db s' = zs_db s \<Longrightarrow> zs_out s' = zs_out s \<Longrightarrow> tame s s'"
  by (simp add: tame_def)

lemma retain_tame: "tame s0 s \<Longrightarrow> tame s0 (retain_source env t s)" "tame s0 s \<Longrightarrow> tame s0 (retain_dest env t d m tgt s)"
  by (simp_all add: tame_def retain_source_def retain_dest_def split: option.split)

lemma after_send_tame: "tame s (after_send env t d m n tgt s)"
proof -
  have "tame s s'" if "zb_jobs (zs_db s') = zb_jobs (zs_db s)" "\<exists>i. zs_out s' = zs_out s @ [i]" for s'
    using that by (auto simp: tame_def)
  then show ?thesis
    unfolding after_send_def Let_def case_prod_beta
    by (auto simp: tame_def intro!: retain_tame [unfolded tame_def])
qed

lemma run_task_tame: "tame s (snd (run_task env t s))"
proof -
  have "tame s (snd (run_snapshot_task env t s))"
    by (simp add: run_snapshot_task_def Let_def case_prod_beta tame_def split: option.split sum.split)
  moreover have "tame s (snd (run_scrub_task env t s))"
    by (simp add: run_scrub_task_def Let_def case_prod_beta tame_def split: option.split)
  moreover have "tame s (snd (run_replication_task env t s))"
  proof -
    have after: "tame s (after_send env t d m n tgt s')" if "tame s s'" for s' d m n tgt
      using that after_send_tame [of s' env t d m n tgt] by (auto simp: tame_def)
    show ?thesis
      unfolding run_replication_task_def Let_def case_prod_beta
      by (auto split: option.split sum.split intro!: after intro: tame_frame)
  qed
  ultimately show ?thesis by (simp add: run_task_def tame_def)
qed

text \<open>The items a run puts out first and last.\<close>

definition announces :: "string \<Rightarrow> zs_item list \<Rightarrow> bool" where
  "announces ty is \<longleftrightarrow> (\<exists>e. filter (\<lambda>i. case i of ZEvent _ \<Rightarrow> True | _ \<Rightarrow> False) is = [ZEvent e] \<and> zev_type e = ty)"

lemma begin_run_spec:
  assumes "zn_drv env (zs_stmts s) = None"
  shows "fst (begin_run env t trig s) = zb_job_seq (zs_db s) + 1"
    and "\<exists>row. zb_jobs (zs_db (snd (begin_run env t trig s))) = zb_jobs (zs_db s) @ [row] \<and>
      zj_id row = zb_job_seq (zs_db s) + 1 \<and> zj_task row = Some (tk_id t) \<and> zj_type row = tk_type t \<and>
      zj_trigger row = trig"
    and "\<exists>new. zs_out (snd (begin_run env t trig s)) = zs_out s @ new \<and> announces (job_started_type trig) new"
  using assms
  by (simp_all add: begin_run_def Let_def case_prod_beta insert_zfs_job_def announces_def zevent_def)

lemma end_run_spec:
  assumes "zn_drv env (zs_stmts s) = None"
  shows "\<exists>now. zb_jobs (zs_db (end_run env t trig i err s)) =
      map (\<lambda>j. if zj_id j = i then finish_zfs_row now (case err of None \<Rightarrow> ''success'' | Some e \<Rightarrow> ''error'')
        (case err of None \<Rightarrow> [] | Some e \<Rightarrow> error_text e) j else j) (zb_jobs (zs_db s))"
    and "\<exists>new. zs_out (end_run env t trig i err s) = zs_out s @ new \<and>
      announces (case err of None \<Rightarrow> job_complete_type trig | Some e \<Rightarrow> ''job_failed'') new"
  using assms
  by (auto simp: end_run_def Let_def case_prod_beta complete_zfs_job_def announces_def zevent_def
      emit_failure_event_def split: option.split)



section \<open>Start and reload\<close>

lemma register_tasks_fold:
  "fold (\<lambda>t c. snd (register_task cron_err t c)) ts c =
     c\<lparr>zc_entries := zc_entries c @ filter (\<lambda>t. cron_err (''0 '' @ tk_schedule t) = None) ts\<rparr>"
  by (induction ts arbitrary: c) (auto simp: register_task_def split: option.splits)

text \<open>A reload puts the tasks of the table in force: after it exactly the enabled tasks of the
  table whose schedule the cron library accepts fire, in the order of the table, whatever fired
  before and however many of the others are rejected; but when the table cannot be read it reports
  the error and leaves no task firing at all, because the old runner is already stopped.\<close>

lemma reload_replaces_tasks:
  "cron_fires (snd (reload_zfs cron_err drv db c)) =
     (if \<not> zc_context c then cron_fires c
      else case drv of
        None \<Rightarrow> filter (\<lambda>t. cron_err (''0 '' @ tk_schedule t) = None) (map scan_task (filter tk_enabled (zb_tasks db)))
      | Some e \<Rightarrow> []) \<and>
   fst (reload_zfs cron_err drv db c) =
     (if \<not> zc_context c then Some ''scheduler not started''
      else map_option (\<lambda>e. ''load tasks: query enabled tasks: '' @ e) drv)"
  by (cases drv) (simp_all add: reload_zfs_def start_zfs_def list_enabled_tasks_def cron_fires_def register_tasks_fold)

end
