(* ===== verification/ZfsPipe.thy ===== *)
theory ZfsPipe
  imports Main
begin

text \<open>
  The local send and receive of \<^verbatim>\<open>zfs-manager/internal/agent/replication.go\<close> as a step relation:
  \<^verbatim>\<open>zfs send\<close> writes into a pipe of the operating system, a goroutine of \<^verbatim>\<open>os/exec\<close> copies from it
  into an \<^verbatim>\<open>io.Pipe\<close>, which hands a chunk over only when the reader asks for it, a second goroutine
  copies from there into the pipe of \<^verbatim>\<open>zfs receive\<close>, and \<open>SendReceiveLocal\<close> waits for the
  sender, closes the \<^verbatim>\<open>io.Pipe\<close> and waits for the receiver. \<open>Wait\<close> returns when the process has
  ended and its goroutine has. The pipeline to \<^verbatim>\<open>ssh\<close> without rate limit has the same shape.
\<close>

section \<open>States and steps\<close>

datatype copy_out = AwaitData | HoldChunk | OutDone

datatype copy_in = AwaitChunk | WriteChunk | InDone

datatype waiting = ForSend | ForReceive | Returned

text \<open>Chunks of data not written yet, in the sender's pipe and in the receiver's; \<open>pi_open\<close> is the
  write side of the \<^verbatim>\<open>io.Pipe\<close>.\<close>

record pipe_state =
  pi_unsent :: nat
  pi_sendbuf :: nat
  pi_recvbuf :: nat
  pi_sender :: bool
  pi_receiver :: bool
  pi_out :: copy_out
  pi_in :: copy_in
  pi_open :: bool
  pi_main :: waiting

definition pipe_start :: "nat \<Rightarrow> pipe_state" where
  "pipe_start n = \<lparr>pi_unsent = n, pi_sendbuf = 0, pi_recvbuf = 0, pi_sender = True, pi_receiver = True,
     pi_out = AwaitData, pi_in = AwaitChunk, pi_open = True, pi_main = ForSend\<rparr>"

text \<open>\<open>cap\<close> is the capacity of a pipe of the operating system; with \<open>fail\<close> the receiver may give up
  at any time, with \<open>kill\<close> the sender may be killed (as a cancelled context does).\<close>

inductive pipe_step :: "nat \<Rightarrow> bool \<Rightarrow> bool \<Rightarrow> pipe_state \<Rightarrow> pipe_state \<Rightarrow> bool" for cap fail kill where
  send_write: "pi_sender s \<Longrightarrow> 0 < pi_unsent s \<Longrightarrow> pi_sendbuf s < cap \<Longrightarrow>
    pipe_step cap fail kill s (s\<lparr>pi_unsent := pi_unsent s - 1, pi_sendbuf := Suc (pi_sendbuf s)\<rparr>)"
| send_end: "pi_sender s \<Longrightarrow> pi_unsent s = 0 \<or> kill \<Longrightarrow> pipe_step cap fail kill s (s\<lparr>pi_sender := False\<rparr>)"
| out_read: "pi_out s = AwaitData \<Longrightarrow> 0 < pi_sendbuf s \<Longrightarrow>
    pipe_step cap fail kill s (s\<lparr>pi_sendbuf := pi_sendbuf s - 1, pi_out := HoldChunk\<rparr>)"
| out_eof: "pi_out s = AwaitData \<Longrightarrow> pi_sendbuf s = 0 \<Longrightarrow> \<not> pi_sender s \<Longrightarrow>
    pipe_step cap fail kill s (s\<lparr>pi_out := OutDone\<rparr>)"
| hand_over: "pi_out s = HoldChunk \<Longrightarrow> pi_in s = AwaitChunk \<Longrightarrow>
    pipe_step cap fail kill s (s\<lparr>pi_out := AwaitData, pi_in := WriteChunk\<rparr>)"
| in_write: "pi_in s = WriteChunk \<Longrightarrow> pi_receiver s \<Longrightarrow> pi_recvbuf s < cap \<Longrightarrow>
    pipe_step cap fail kill s (s\<lparr>pi_in := AwaitChunk, pi_recvbuf := Suc (pi_recvbuf s)\<rparr>)"
| in_broken: "pi_in s = WriteChunk \<Longrightarrow> \<not> pi_receiver s \<Longrightarrow> pipe_step cap fail kill s (s\<lparr>pi_in := InDone\<rparr>)"
| in_eof: "pi_in s = AwaitChunk \<Longrightarrow> \<not> pi_open s \<Longrightarrow> pipe_step cap fail kill s (s\<lparr>pi_in := InDone\<rparr>)"
| recv_read: "pi_receiver s \<Longrightarrow> 0 < pi_recvbuf s \<Longrightarrow>
    pipe_step cap fail kill s (s\<lparr>pi_recvbuf := pi_recvbuf s - 1\<rparr>)"
| recv_end: "pi_receiver s \<Longrightarrow> (pi_recvbuf s = 0 \<and> pi_in s = InDone) \<or> fail \<Longrightarrow>
    pipe_step cap fail kill s (s\<lparr>pi_receiver := False\<rparr>)"
| wait_send: "pi_main s = ForSend \<Longrightarrow> \<not> pi_sender s \<Longrightarrow> pi_out s = OutDone \<Longrightarrow>
    pipe_step cap fail kill s (s\<lparr>pi_main := ForReceive, pi_open := False\<rparr>)"
| wait_recv: "pi_main s = ForReceive \<Longrightarrow> \<not> pi_receiver s \<Longrightarrow> pi_in s = InDone \<Longrightarrow>
    pipe_step cap fail kill s (s\<lparr>pi_main := Returned\<rparr>)"

inductive_cases pipe_stepE: "pipe_step cap fail kill s s'"

section \<open>Invariants\<close>

text \<open>What holds of every reachable state, whatever fails.\<close>

definition pipe_inv :: "pipe_state \<Rightarrow> bool" where
  "pipe_inv s \<longleftrightarrow> (pi_open s \<longleftrightarrow> pi_main s = ForSend) \<and>
     (pi_main s \<noteq> ForSend \<longrightarrow> pi_out s = OutDone) \<and>
     (pi_out s = OutDone \<longrightarrow> \<not> pi_sender s \<and> pi_sendbuf s = 0) \<and>
     (pi_main s = Returned \<longrightarrow> pi_in s = InDone \<and> \<not> pi_receiver s)"

lemma pipe_inv_start: "pipe_inv (pipe_start n)"
  by (simp add: pipe_inv_def pipe_start_def)

lemma pipe_inv_step: "pipe_step cap fail kill s s' \<Longrightarrow> pipe_inv s \<Longrightarrow> pipe_inv s'"
  by (erule pipe_stepE) (auto simp: pipe_inv_def)

text \<open>Unless the sender is killed it ends with nothing unsent; unless the receiver fails it ends
  with nothing unread.\<close>

definition sender_inv :: "pipe_state \<Rightarrow> bool" where
  "sender_inv s \<longleftrightarrow> pi_sender s \<or> pi_unsent s = 0"

definition receiver_inv :: "pipe_state \<Rightarrow> bool" where
  "receiver_inv s \<longleftrightarrow> (\<not> pi_receiver s \<longrightarrow> pi_in s = InDone \<and> pi_recvbuf s = 0) \<and> (pi_in s = InDone \<longrightarrow> \<not> pi_open s)"

lemma sender_inv_step: "pipe_step cap fail False s s' \<Longrightarrow> sender_inv s \<Longrightarrow> sender_inv s'"
  by (erule pipe_stepE) (auto simp: sender_inv_def)

lemma receiver_inv_step: "pipe_step cap False kill s s' \<Longrightarrow> receiver_inv s \<Longrightarrow> receiver_inv s'"
  by (erule pipe_stepE) (auto simp: receiver_inv_def)

section \<open>Progress\<close>

definition pipe_measure :: "pipe_state \<Rightarrow> nat" where
  "pipe_measure s = 5 * pi_unsent s + 4 * pi_sendbuf s + pi_recvbuf s +
     (if pi_sender s then 1 else 0) + (if pi_receiver s then 1 else 0) +
     (case pi_out s of AwaitData \<Rightarrow> 1 | HoldChunk \<Rightarrow> 4 | OutDone \<Rightarrow> 0) +
     (case pi_in s of AwaitChunk \<Rightarrow> 1 | WriteChunk \<Rightarrow> 3 | InDone \<Rightarrow> 0) +
     (case pi_main s of ForSend \<Rightarrow> 2 | ForReceive \<Rightarrow> 1 | Returned \<Rightarrow> 0)"

lemma pipe_measure_step: "pipe_step cap fail kill s s' \<Longrightarrow> pipe_measure s' < pipe_measure s"
  by (erule pipe_stepE) (auto simp: pipe_measure_def)

lemma pipe_measure_steps: "(pipe_step cap fail kill ^^ k) s s' \<Longrightarrow> k + pipe_measure s' \<le> pipe_measure s"
proof (induction k arbitrary: s')
  case (Suc k)
  then obtain t where "(pipe_step cap fail kill ^^ k) s t" "pipe_step cap fail kill t s'" by auto
  then show ?case using Suc.IH [of t] pipe_measure_step [of cap fail kill t s'] by simp
qed simp

lemma out_moves:
  assumes "0 < cap" "pipe_inv s" "receiver_inv s" "pi_main s = ForSend" "pi_out s = HoldChunk"
  shows "\<exists>s'. pipe_step cap fail kill s s'"
proof (cases "pi_in s")
  case AwaitChunk
  then show ?thesis using assms(5) hand_over by blast
next
  case WriteChunk
  then have "pi_receiver s" using assms(3) by (auto simp: receiver_inv_def)
  then show ?thesis
    using WriteChunk assms(1) in_write recv_read by (cases "pi_recvbuf s < cap") (blast, fastforce)
next
  case InDone
  then show ?thesis using assms by (auto simp: receiver_inv_def pipe_inv_def)
qed

lemma pipe_progress:
  assumes "0 < cap" "pipe_inv s" "sender_inv s" "receiver_inv s" "pi_main s \<noteq> Returned"
  shows "\<exists>s'. pipe_step cap fail kill s s'"
proof (cases "pi_main s")
  case ForSend
  show ?thesis
  proof (cases "pi_out s")
    case AwaitData
    then show ?thesis
      using assms(1,3) send_write send_end out_read out_eof unfolding sender_inv_def
      by (cases "pi_sendbuf s = 0") (metis gr0I, blast)
  next
    case HoldChunk
    then show ?thesis using out_moves assms ForSend by blast
  next
    case OutDone
    then show ?thesis using assms(2) ForSend wait_send unfolding pipe_inv_def by metis
  qed
next
  case ForReceive
  then show ?thesis
    using assms(1,2) in_eof in_write in_broken recv_read recv_end wait_recv unfolding pipe_inv_def
    by (metis copy_in.exhaust not_gr_zero waiting.distinct(1))
next
  case Returned
  then show ?thesis using assms by simp
qed

lemma invs_steps:
  "(pipe_step cap fail kill ^^ k) s s' \<Longrightarrow> pipe_inv s \<Longrightarrow> pipe_inv s'"
  "(pipe_step cap fail False ^^ k) s s' \<Longrightarrow> sender_inv s \<Longrightarrow> sender_inv s'"
  "(pipe_step cap False kill ^^ k) s s' \<Longrightarrow> receiver_inv s \<Longrightarrow> receiver_inv s'"
  by (induction k arbitrary: s') (auto intro: pipe_inv_step sender_inv_step receiver_inv_step)

lemma start_invs: "sender_inv (pipe_start n)" "receiver_inv (pipe_start n)"
  by (simp_all add: sender_inv_def receiver_inv_def pipe_start_def)

lemma returned_stops:
  assumes "pipe_inv s" "pi_main s = Returned"
  shows "\<not> pipe_step cap fail kill s s'"
  using assms by (auto simp: pipe_inv_def elim!: pipe_stepE)

text \<open>C26. A replication returns when nothing fails: with a receiver that reads to the end and a
  sender that is not killed, every run of the pipeline over \<open>n\<close> chunks has at most \<open>5 n + 6\<close> steps
  and stops exactly where the call has returned, with all data delivered.\<close>

theorem pipeline_returns:
  assumes "0 < cap" and "(pipe_step cap False False ^^ k) (pipe_start n) s"
  shows "k \<le> 5 * n + 6 \<and>
    ((\<nexists>s'. pipe_step cap False False s s') \<longleftrightarrow> pi_main s = Returned) \<and>
    (pi_main s = Returned \<longrightarrow> pi_unsent s = 0 \<and> pi_sendbuf s = 0 \<and> pi_recvbuf s = 0)"
proof (intro conjI impI)
  have inv: "pipe_inv s" "sender_inv s" "receiver_inv s"
    using invs_steps [OF assms(2)] pipe_inv_start start_invs by blast+
  show "k \<le> 5 * n + 6"
    using pipe_measure_steps [OF assms(2)] by (simp add: pipe_measure_def pipe_start_def)
  show "(\<nexists>s'. pipe_step cap False False s s') \<longleftrightarrow> pi_main s = Returned"
    using pipe_progress [OF assms(1) inv] returned_stops [OF inv(1)] by blast
  assume ret: "pi_main s = Returned"
  then show "pi_unsent s = 0" "pi_sendbuf s = 0" "pi_recvbuf s = 0"
    using inv by (auto simp: pipe_inv_def sender_inv_def receiver_inv_def)
qed

section \<open>The receiver gives up\<close>

text \<open>The chunks that have not reached the receiver's pipe, and those before the second goroutine.\<close>

definition upstream :: "pipe_state \<Rightarrow> nat" where
  "upstream s = pi_unsent s + pi_sendbuf s + (if pi_out s = HoldChunk then 1 else 0)"

definition undelivered :: "pipe_state \<Rightarrow> nat" where
  "undelivered s = upstream s + (if pi_in s = WriteChunk then 1 else 0)"

text \<open>The doomed states: nobody will take the chunks that are still upstream.\<close>

definition doomed :: "pipe_state \<Rightarrow> bool" where
  "doomed s \<longleftrightarrow> \<not> pi_receiver s \<and> pi_main s = ForSend \<and> pipe_inv s \<and> sender_inv s \<and>
     (case pi_in s of AwaitChunk \<Rightarrow> 2 \<le> upstream s | _ \<Rightarrow> 1 \<le> upstream s)"

lemma doomed_step: "pipe_step cap fail False s s' \<Longrightarrow> doomed s \<Longrightarrow> doomed s'"
  by (frule pipe_inv_step; (simp add: doomed_def)?; frule sender_inv_step; (simp add: doomed_def)?;
      erule pipe_stepE) (auto simp: doomed_def upstream_def pipe_inv_def sender_inv_def split: copy_in.splits)

lemma doomed_steps: "(pipe_step cap fail False)\<^sup>*\<^sup>* s s' \<Longrightarrow> doomed s \<Longrightarrow> doomed s'"
  by (induction rule: rtranclp_induct) (auto intro: doomed_step)

text \<open>Once a chunk is held and the second goroutine is gone, not even killing the sender helps.\<close>

definition blocked :: "pipe_state \<Rightarrow> bool" where
  "blocked s \<longleftrightarrow> pi_out s = HoldChunk \<and> pi_in s = InDone \<and> pi_main s = ForSend"

lemma blocked_step: "pipe_step cap fail kill s s' \<Longrightarrow> blocked s \<Longrightarrow> blocked s'"
  by (erule pipe_stepE) (auto simp: blocked_def)

lemma blocked_steps: "(pipe_step cap fail kill)\<^sup>*\<^sup>* s s' \<Longrightarrow> blocked s \<Longrightarrow> blocked s'"
  by (induction rule: rtranclp_induct) (auto intro: blocked_step)

lemma doomed_stops:
  assumes "doomed s" "0 < cap" "\<nexists>s'. pipe_step cap fail False s s'"
  shows "blocked s"
proof -
  have "pi_in s \<noteq> WriteChunk" using assms(1,3) in_broken unfolding doomed_def by blast
  moreover have "pi_out s \<noteq> OutDone"
    using assms(1) by (auto simp: doomed_def pipe_inv_def sender_inv_def upstream_def split: copy_in.splits)
  moreover have "pi_out s \<noteq> AwaitData"
  proof
    assume out: "pi_out s = AwaitData"
    then have "pi_sendbuf s = 0" using assms(3) out_read by blast
    then have "0 < pi_unsent s" "pi_sendbuf s < cap"
      using assms(1,2) out by (auto simp: doomed_def upstream_def split: copy_in.splits)
    moreover from this have "pi_sender s" using assms(1) by (auto simp: doomed_def sender_inv_def)
    ultimately show False using assms(3) send_write by blast
  qed
  moreover have "\<not> (pi_out s = HoldChunk \<and> pi_in s = AwaitChunk)" using assms(3) hand_over by blast
  ultimately show ?thesis
    using assms(1) unfolding blocked_def doomed_def by (metis copy_in.exhaust copy_out.exhaust)
qed

text \<open>C25. A receiver that gives up hangs the replication for ever: when the receiving process has
  ended with at least two chunks of the stream undelivered, then in no continuation does the call
  return, every run of it comes to a stop, and there the goroutine behind the sender is blocked on
  a pipe nobody reads, which killing the sender does not change.\<close>

theorem failed_receive_hangs:
  assumes "0 < cap" and "(pipe_step cap True False)\<^sup>*\<^sup>* (pipe_start n) s"
    and "\<not> pi_receiver s" and "2 \<le> undelivered s" and "(pipe_step cap True False)\<^sup>*\<^sup>* s s'"
  shows "pi_main s' = ForSend \<and>
    ((\<nexists>t. pipe_step cap True False s' t) \<longrightarrow>
      pi_out s' = HoldChunk \<and> (\<forall>s''. (pipe_step cap True True)\<^sup>*\<^sup>* s' s'' \<longrightarrow> pi_main s'' = ForSend))"
proof -
  from assms(2) obtain k where "(pipe_step cap True False ^^ k) (pipe_start n) s"
    by (auto dest: rtranclp_imp_relpowp)
  then have inv: "pipe_inv s" "sender_inv s"
    using invs_steps pipe_inv_start start_invs by blast+
  moreover have "1 \<le> upstream s" using assms(4) by (auto simp: undelivered_def split: if_splits)
  moreover from this have "pi_main s = ForSend"
    using inv by (auto simp: pipe_inv_def sender_inv_def upstream_def split: if_splits)
  ultimately have "doomed s"
    using assms(3,4) by (auto simp: doomed_def undelivered_def split: copy_in.splits)
  then have doomed: "doomed s'" using doomed_steps [OF assms(5)] by blast
  then have "pi_main s' = ForSend" by (simp add: doomed_def)
  moreover have "pi_out s' = HoldChunk \<and> (\<forall>s''. (pipe_step cap True True)\<^sup>*\<^sup>* s' s'' \<longrightarrow> pi_main s'' = ForSend)"
    if "\<nexists>t. pipe_step cap True False s' t"
    using doomed_stops [OF doomed assms(1) that] blocked_steps unfolding blocked_def by blast
  ultimately show ?thesis by blast
qed

section \<open>Concrete runs\<close>

text \<open>The successors of a state as a list, and the run that takes the given choices.\<close>

definition pipe_moves :: "nat \<Rightarrow> bool \<Rightarrow> bool \<Rightarrow> pipe_state \<Rightarrow> pipe_state list" where
  "pipe_moves cap fail kill s =
     (if pi_sender s \<and> 0 < pi_unsent s \<and> pi_sendbuf s < cap
      then [s\<lparr>pi_unsent := pi_unsent s - 1, pi_sendbuf := Suc (pi_sendbuf s)\<rparr>] else []) @
     (if pi_sender s \<and> (pi_unsent s = 0 \<or> kill) then [s\<lparr>pi_sender := False\<rparr>] else []) @
     (if pi_out s = AwaitData \<and> 0 < pi_sendbuf s
      then [s\<lparr>pi_sendbuf := pi_sendbuf s - 1, pi_out := HoldChunk\<rparr>] else []) @
     (if pi_out s = AwaitData \<and> pi_sendbuf s = 0 \<and> \<not> pi_sender s then [s\<lparr>pi_out := OutDone\<rparr>] else []) @
     (if pi_out s = HoldChunk \<and> pi_in s = AwaitChunk
      then [s\<lparr>pi_out := AwaitData, pi_in := WriteChunk\<rparr>] else []) @
     (if pi_in s = WriteChunk \<and> pi_receiver s \<and> pi_recvbuf s < cap
      then [s\<lparr>pi_in := AwaitChunk, pi_recvbuf := Suc (pi_recvbuf s)\<rparr>] else []) @
     (if pi_in s = WriteChunk \<and> \<not> pi_receiver s then [s\<lparr>pi_in := InDone\<rparr>] else []) @
     (if pi_in s = AwaitChunk \<and> \<not> pi_open s then [s\<lparr>pi_in := InDone\<rparr>] else []) @
     (if pi_receiver s \<and> 0 < pi_recvbuf s then [s\<lparr>pi_recvbuf := pi_recvbuf s - 1\<rparr>] else []) @
     (if pi_receiver s \<and> ((pi_recvbuf s = 0 \<and> pi_in s = InDone) \<or> fail) then [s\<lparr>pi_receiver := False\<rparr>] else []) @
     (if pi_main s = ForSend \<and> \<not> pi_sender s \<and> pi_out s = OutDone
      then [s\<lparr>pi_main := ForReceive, pi_open := False\<rparr>] else []) @
     (if pi_main s = ForReceive \<and> \<not> pi_receiver s \<and> pi_in s = InDone then [s\<lparr>pi_main := Returned\<rparr>] else [])"

lemma pipe_moves_iff: "s' \<in> set (pipe_moves cap fail kill s) \<longleftrightarrow> pipe_step cap fail kill s s'"
proof
  assume "s' \<in> set (pipe_moves cap fail kill s)"
  then show "pipe_step cap fail kill s s'"
    unfolding pipe_moves_def set_append Un_iff
    by (elim disjE) (simp_all add: pipe_step.intros del: One_nat_def split: if_splits)
next
  assume "pipe_step cap fail kill s s'"
  then show "s' \<in> set (pipe_moves cap fail kill s)"
    by cases (simp_all add: pipe_moves_def)
qed

fun run_moves :: "nat \<Rightarrow> bool \<Rightarrow> bool \<Rightarrow> nat list \<Rightarrow> pipe_state \<Rightarrow> pipe_state option" where
  "run_moves cap fail kill [] s = Some s"
| "run_moves cap fail kill (i # ks) s =
     (if i < length (pipe_moves cap fail kill s) then run_moves cap fail kill ks (pipe_moves cap fail kill s ! i)
      else None)"

lemma run_moves_steps: "run_moves cap fail kill ks s = Some s' \<Longrightarrow> (pipe_step cap fail kill ^^ length ks) s s'"
proof (induction ks arbitrary: s)
  case (Cons i ks)
  then have "pipe_step cap fail kill s (pipe_moves cap fail kill s ! i)"
    using pipe_moves_iff nth_mem by (fastforce split: if_splits)
  then show ?case using Cons by (auto split: if_splits intro!: relpowp_Suc_I2 simp del: relpowp.simps)
qed simp

definition end_state :: "nat \<Rightarrow> bool \<Rightarrow> bool \<Rightarrow> nat list \<Rightarrow> pipe_state \<Rightarrow> pipe_state" where
  "end_state cap fail kill ks s = (case run_moves cap fail kill ks s of Some s' \<Rightarrow> s' | None \<Rightarrow> s)"

lemma pipeline_returns_witness:
  "pi_main (end_state 1 False False (replicate 11 0) (pipe_start 1)) = Returned \<and>
   pi_unsent (end_state 1 False False (replicate 11 0) (pipe_start 1)) = 0 \<and>
   pi_recvbuf (end_state 1 False False (replicate 11 0) (pipe_start 1)) = 0"
proof -
  let ?s = "end_state 1 False False (replicate 11 0) (pipe_start 1)"
  have "run_moves 1 False False (replicate 11 0) (pipe_start 1) = Some ?s" by code_simp
  then have "(pipe_step 1 False False ^^ 11) (pipe_start 1) ?s"
    using run_moves_steps [of 1 False False "replicate 11 0"] by simp
  moreover have "pi_main ?s = Returned" by code_simp
  ultimately show ?thesis using pipeline_returns [of 1 11 1 ?s] by simp
qed

text \<open>The receiver gives up at once, with three chunks to come.\<close>

definition hung_state :: pipe_state where
  "hung_state = end_state 1 True False (replicate 8 0) (pipe_start 3\<lparr>pi_receiver := False\<rparr>)"

lemma failed_receive_hangs_witness:
  "pi_main hung_state = ForSend \<and> pi_out hung_state = HoldChunk \<and> \<not> pi_sender hung_state \<and>
   pi_unsent hung_state = 0 \<and> pipe_moves 1 True True hung_state = []"
proof -
  let ?s = "pipe_start 3\<lparr>pi_receiver := False\<rparr>"
  have "pipe_step 1 True False (pipe_start 3) ?s" by (rule recv_end) (simp_all add: pipe_start_def)
  then have 1: "(pipe_step 1 True False)\<^sup>*\<^sup>* (pipe_start 3) ?s" by blast
  have "run_moves 1 True False (replicate 8 0) ?s = Some hung_state" by code_simp
  then have 2: "(pipe_step 1 True False)\<^sup>*\<^sup>* ?s hung_state"
    using run_moves_steps by (blast intro: relpowp_imp_rtranclp)
  have 3: "\<not> pi_receiver ?s" "2 \<le> undelivered ?s"
    by (simp_all add: undelivered_def upstream_def pipe_start_def)
  have "pipe_moves 1 True False hung_state = []" by code_simp
  then have "\<nexists>t. pipe_step 1 True False hung_state t" by (simp flip: pipe_moves_iff)
  then have "pi_main hung_state = ForSend" "pi_out hung_state = HoldChunk"
    using failed_receive_hangs [OF _ 1 3 2] by simp_all
  moreover have "\<not> pi_sender hung_state" "pi_unsent hung_state = 0" "pipe_moves 1 True True hung_state = []"
    by code_simp+
  ultimately show ?thesis by blast
qed

end
