(* ===== verification/ZfsPools.thy ===== *)
theory ZfsPools
  imports ZfsStatus "HOL-Library.List_Lexorder" "HOL-Library.Char_ord"
begin

text \<open>
  Pools as a whole in the ZFS agent: the wizard's form, its specification, the validation and the
  command of a pool creation (\<^verbatim>\<open>zfs-manager/internal/agent/pool_create.go\<close>,
  \<^verbatim>\<open>pool_create_handlers.go\<close>), import, export and the list of importable pools
  (\<^verbatim>\<open>pool_import.go\<close>). A Go map of properties is a list of its pairs with distinct keys.
\<close>

section \<open>The specification of a pool (pool_create.go)\<close>

datatype vdev_role = RoleData | RoleLog | RoleCache | RoleSpare | RoleSpecial | RoleOther string

fun role_text :: "vdev_role \<Rightarrow> string" where
  "role_text RoleData = ''data''"
| "role_text RoleLog = ''log''"
| "role_text RoleCache = ''cache''"
| "role_text RoleSpare = ''spare''"
| "role_text RoleSpecial = ''special''"
| "role_text (RoleOther s) = s"

record vdev_spec =
  vx_role :: vdev_role
  vx_type :: string
  vx_devices :: "string list"

record pool_spec =
  px_name :: string
  px_vdevs :: "vdev_spec list"
  px_ashift :: int
  px_mount :: string
  px_pool_props :: "(string \<times> string) list"
  px_fs_props :: "(string \<times> string) list"
  px_force :: bool
  px_confirm :: string

definition pool_word_ok :: "string \<Rightarrow> bool" where
  "pool_word_ok s \<longleftrightarrow>
     (let letter = (\<lambda>c. (let n = (of_char c :: int) in (97 \<le> n \<and> n \<le> 122) \<or> (65 \<le> n \<and> n \<le> 90))) in
      case s of
        [] \<Rightarrow> False
      | c # t \<Rightarrow> letter c \<and> list_all (\<lambda>x. letter x \<or> is_digit x \<or> x = CHR ''_'' \<or> x = CHR ''-'') t)"

definition reserved_pool_names :: "string list" where
  "reserved_pool_names = [''mirror'', ''raidz'', ''raidz1'', ''raidz2'', ''raidz3'', ''spare'', ''log'', ''cache'', ''special'',
     ''dedup'', ''draid'']"

definition min_devices :: "string \<Rightarrow> nat option" where
  "min_devices t =
     (if t = ''stripe'' then Some 1 else if t = ''mirror'' then Some 2 else if t = ''raidz1'' then Some 3
      else if t = ''raidz2'' then Some 4 else if t = ''raidz3'' then Some 5 else None)"

definition vdev_shape :: "vdev_spec \<Rightarrow> string" where
  "vdev_shape v = (if vx_type v = [] then ''stripe'' else vx_type v)"

definition vdev_label :: "nat \<Rightarrow> vdev_spec \<Rightarrow> string" where
  "vdev_label i v = ''vdev '' @ itoa (int i) @ '' ('' @ role_text (vx_role v) @ ''/'' @ vdev_shape v @ '')''"

text \<open>\<^verbatim>\<open>strings.ContainsAny\<close> of line breaks and NUL, and of blanks and tabs as well.\<close>

definition has_control :: "string \<Rightarrow> bool" where
  "has_control s \<longleftrightarrow> (\<exists>c \<in> set s. c = CHR 0x0A \<or> c = CHR 0x0D \<or> c = CHR 0x00)"

definition has_blank :: "string \<Rightarrow> bool" where
  "has_blank s \<longleftrightarrow> has_control s \<or> (\<exists>c \<in> set s. c = CHR 0x20 \<or> c = CHR 0x09)"

fun validate_devices :: "nat \<Rightarrow> vdev_spec \<Rightarrow> nat \<Rightarrow> string list \<Rightarrow> go_error option" where
  "validate_devices i v j [] = None"
| "validate_devices i v j (d # ds) =
     (if trim_space d = []
      then Some (PlainError (vdev_label i v @ '' has an empty device at slot '' @ itoa (int j)))
      else if has_blank (trim_space d)
      then Some (PlainError (''vdev '' @ itoa (int i) @ '' device '' @ go_quote (trim_space d) @
             '' contains whitespace or control characters''))
      else validate_devices i v (Suc j) ds)"

definition validate_shape :: "vdev_spec \<Rightarrow> nat \<Rightarrow> go_error option" where
  "validate_shape v i =
     (case min_devices (vdev_shape v) of
        None \<Rightarrow> Some (PlainError (''vdev '' @ itoa (int i) @ '' has unsupported type '' @ go_quote (vx_type v)))
      | Some m \<Rightarrow>
          if vx_devices v = [] then Some (PlainError (vdev_label i v @ '' has no devices''))
          else if length (vx_devices v) < m
          then Some (PlainError (vdev_label i v @ '' needs at least '' @ itoa (int m) @ '' devices, got '' @
                 itoa (int (length (vx_devices v)))))
          else validate_devices i v 0 (vx_devices v))"

definition validate_pool_vdev :: "vdev_spec \<Rightarrow> nat \<Rightarrow> go_error option" where
  "validate_pool_vdev v i =
     (case vx_role v of
        RoleOther r \<Rightarrow> Some (PlainError (''vdev '' @ itoa (int i) @ '' has unknown role '' @ go_quote r))
      | r \<Rightarrow>
          if r \<in> {RoleCache, RoleSpare} \<and> vx_type v \<noteq> [] \<and> vx_type v \<noteq> ''stripe''
          then Some (PlainError (''vdev '' @ itoa (int i) @ '' ('' @ role_text r @ '') must use type 'stripe' '' @
                 [CHR 0xE2, CHR 0x80, CHR 0x94] @ '' zpool does not accept '' @ vx_type v @ '' for this role''))
          else validate_shape v i)"

fun validate_vdevs :: "nat \<Rightarrow> vdev_spec list \<Rightarrow> go_error option" where
  "validate_vdevs i [] = None"
| "validate_vdevs i (v # vs) = (case validate_pool_vdev v i of Some e \<Rightarrow> Some e | None \<Rightarrow> validate_vdevs (Suc i) vs)"

text \<open>The devices with the role of their vdev, in order; the map of those seen keeps the role of the
  first.\<close>

definition spec_devices :: "vdev_spec list \<Rightarrow> (string \<times> vdev_role) list" where
  "spec_devices vs = concat (map (\<lambda>v. map (\<lambda>d. (trim_space d, vx_role v)) (vx_devices v)) vs)"

fun first_collision :: "(string \<rightharpoonup> vdev_role) \<Rightarrow> (string \<times> vdev_role) list \<Rightarrow> go_error option" where
  "first_collision seen [] = None"
| "first_collision seen ((d, r) # ds) =
     (case seen d of
        Some p \<Rightarrow> Some (PlainError (''device '' @ go_quote d @ '' appears in both '' @ role_text p @ '' and '' @ role_text r @ '' vdevs''))
      | None \<Rightarrow> first_collision (seen(d \<mapsto> r)) ds)"

definition validate_mount :: "pool_spec \<Rightarrow> go_error option" where
  "validate_mount s =
     (if px_ashift s \<noteq> 0 \<and> (px_ashift s < 9 \<or> px_ashift s > 16)
      then Some (PlainError (''ashift '' @ itoa (px_ashift s) @ '' is outside the accepted 9..16 range''))
      else if px_mount s = [] then None
      else if \<not> has_prefix (px_mount s) ''/''
      then Some (PlainError (''mountpoint '' @ go_quote (px_mount s) @ '' must be an absolute path''))
      else if has_control (px_mount s) then Some (PlainError ''mountpoint contains control characters'')
      else None)"

definition validate_pool_spec :: "pool_spec \<Rightarrow> go_error option" where
  "validate_pool_spec s =
     (let name = trim_space (px_name s) in
      if name = [] then Some (PlainError ''pool name is required'')
      else if \<not> pool_word_ok name
      then Some (PlainError (''pool name '' @ go_quote name @
             '' must start with a letter and contain only letters, digits, underscores, or hyphens''))
      else if to_lower name \<in> set reserved_pool_names
      then Some (PlainError (''pool name '' @ go_quote name @ '' is a reserved zpool keyword''))
      else if px_vdevs s = [] then Some (PlainError ''at least one vdev is required'')
      else case validate_vdevs 0 (px_vdevs s) of
        Some e \<Rightarrow> Some e
      | None \<Rightarrow>
          if \<not> list_ex (\<lambda>v. vx_role v = RoleData) (px_vdevs s) then Some (PlainError ''at least one data vdev is required'')
          else case first_collision Map.empty (spec_devices (px_vdevs s)) of
            Some e \<Rightarrow> Some e
          | None \<Rightarrow> validate_mount s)"

section \<open>The command of a creation\<close>

definition append_vdev_args :: "vdev_spec list \<Rightarrow> vdev_role \<Rightarrow> string list" where
  "append_vdev_args vs role =
     concat (map (\<lambda>v. (if role \<noteq> RoleData then [role_text role] else []) @
       (if vdev_shape v \<noteq> ''stripe'' then [vdev_shape v] else []) @ vx_devices v) (filter (\<lambda>v. vx_role v = role) vs))"

definition sorted_props :: "(string \<times> string) list \<Rightarrow> (string \<times> string) list" where
  "sorted_props ps = sort_key fst ps"

definition create_pool_args :: "pool_spec \<Rightarrow> string list" where
  "create_pool_args s =
     [''create''] @ (if px_force s then [''-f''] else []) @
     (if px_ashift s > 0 then [''-o'', ''ashift='' @ itoa (px_ashift s)] else []) @
     concat (map (\<lambda>(k, v). [''-o'', k @ ''='' @ v]) (sorted_props (px_pool_props s))) @
     concat (map (\<lambda>(k, v). [''-O'', k @ ''='' @ v]) (sorted_props (px_fs_props s))) @
     (if px_mount s \<noteq> [] then [''-m'', px_mount s] else []) @ [px_name s] @
     append_vdev_args (px_vdevs s) RoleData @ append_vdev_args (px_vdevs s) RoleLog @
     append_vdev_args (px_vdevs s) RoleCache @ append_vdev_args (px_vdevs s) RoleSpare @
     append_vdev_args (px_vdevs s) RoleSpecial"

definition build_create_pool :: "string \<Rightarrow> pool_spec \<Rightarrow> string" where
  "build_create_pool zpool s =
     join_with '' '' ([if zpool = [] then ''zpool'' else zpool, ''create''] @ (if px_force s then [''-f''] else []) @
     (if px_ashift s > 0 then [''-o'', ''ashift='' @ itoa (px_ashift s)] else []) @
     concat (map (\<lambda>(k, v). [''-o'', k @ ''='' @ v]) (sorted_props (px_pool_props s))) @
     concat (map (\<lambda>(k, v). [''-O'', k @ ''='' @ v]) (sorted_props (px_fs_props s))) @
     (if px_mount s \<noteq> [] then [''-m'', px_mount s] else []) @ [px_name s] @
     append_vdev_args (px_vdevs s) RoleData @ append_vdev_args (px_vdevs s) RoleLog @
     append_vdev_args (px_vdevs s) RoleCache @ append_vdev_args (px_vdevs s) RoleSpare @
     append_vdev_args (px_vdevs s) RoleSpecial)"

text \<open>The result is absent when nothing was run.\<close>

definition create_pool :: "zx_host \<Rightarrow> zfs_engine \<Rightarrow> pool_spec \<Rightarrow> zx_log \<Rightarrow>
    (zfs_result option \<times> go_error option) \<times> zx_log" where
  "create_pool h e s tr =
     (case validate_pool_spec s of
        Some err \<Rightarrow> ((None, Some err), tr)
      | None \<Rightarrow>
          (case command_outcome (build_create_pool (en_zpool e) s) (run_zpool h e (create_pool_args s) tr) of
             ((r, err), tr') \<Rightarrow> ((Some r, err), tr')))"

section \<open>The form of the wizard (pool_create_handlers.go)\<close>

record pool_form =
  pf_name :: string
  pf_vdevs :: "vdev_spec list"
  pf_data_type :: string
  pf_data :: "string list"
  pf_log_type :: string
  pf_log :: "string list"
  pf_cache :: "string list"
  pf_spare :: "string list"
  pf_special_type :: string
  pf_special :: "string list"
  pf_ashift :: int
  pf_mount :: string
  pf_pool_props :: "(string \<times> string) list"
  pf_fs_props :: "(string \<times> string) list"
  pf_compression :: string
  pf_atime :: string
  pf_recordsize :: string
  pf_autotrim :: string
  pf_force :: bool
  pf_confirm :: string

definition trim_device_list :: "string list \<Rightarrow> string list" where
  "trim_device_list ds = filter (\<lambda>d. d \<noteq> []) (map trim_space ds)"

definition add_alias :: "string \<Rightarrow> string \<Rightarrow> (string \<times> string) list \<Rightarrow> (string \<times> string) list" where
  "add_alias k v ps = (if v \<noteq> [] \<and> k \<notin> fst ` set ps then ps @ [(k, v)] else ps)"

definition form_vdev :: "vdev_role \<Rightarrow> string \<Rightarrow> string list \<Rightarrow> vdev_spec list" where
  "form_vdev r t ds = (if ds = [] then [] else [\<lparr>vx_role = r, vx_type = t, vx_devices = trim_device_list ds\<rparr>])"

definition to_spec :: "pool_form \<Rightarrow> pool_spec" where
  "to_spec r =
     (let default = (\<lambda>t d. if t = [] then d else t) in
      \<lparr>px_name = trim_space (pf_name r),
       px_vdevs =
         (if pf_vdevs r \<noteq> [] then pf_vdevs r
          else form_vdev RoleData (default (pf_data_type r) ''stripe'') (pf_data r) @
               form_vdev RoleLog (default (pf_log_type r) ''stripe'') (pf_log r) @
               form_vdev RoleCache ''stripe'' (pf_cache r) @ form_vdev RoleSpare ''stripe'' (pf_spare r) @
               form_vdev RoleSpecial (default (pf_special_type r) ''mirror'') (pf_special r)),
       px_ashift = pf_ashift r, px_mount = trim_space (pf_mount r),
       px_pool_props = add_alias ''autotrim'' (pf_autotrim r) (pf_pool_props r),
       px_fs_props = add_alias ''recordsize'' (pf_recordsize r) (add_alias ''atime'' (pf_atime r)
         (add_alias ''compression'' (pf_compression r) (pf_fs_props r))),
       px_force = pf_force r, px_confirm = pf_confirm r\<rparr>)"

section \<open>Import and export (pool_import.go)\<close>

record import_options =
  io_new_name :: string
  io_altroot :: string
  io_force :: bool
  io_readonly :: bool
  io_dirs :: "string list"

definition dir_flags :: "string list \<Rightarrow> string list" where
  "dir_flags dirs = concat (map (\<lambda>d. [''-d'', d]) (filter (\<lambda>d. d \<noteq> []) (map trim_space dirs)))"

definition import_pool :: "zx_host \<Rightarrow> zfs_engine \<Rightarrow> string \<Rightarrow> import_options \<Rightarrow> zx_log \<Rightarrow>
    (zfs_result option \<times> go_error option) \<times> zx_log" where
  "import_pool h e name opts tr =
     (if name = [] then ((None, Some (PlainError ''pool name or id required'')), tr)
      else case zpool_command h e ([''import''] @ (if io_force opts then [''-f''] else []) @
             (if io_readonly opts then [''-o'', ''readonly=on''] else []) @
             (if io_altroot opts \<noteq> [] then [''-R'', io_altroot opts] else []) @ dir_flags (io_dirs opts) @ [name] @
             (if io_new_name opts \<noteq> [] then [io_new_name opts] else [])) tr of
        ((r, err), tr') \<Rightarrow> ((Some r, err), tr'))"

definition export_pool :: "zx_host \<Rightarrow> zfs_engine \<Rightarrow> string \<Rightarrow> bool \<Rightarrow> zx_log \<Rightarrow>
    (zfs_result option \<times> go_error option) \<times> zx_log" where
  "export_pool h e name force tr =
     (if name = [] then ((None, Some (PlainError ''pool name required'')), tr)
      else case zpool_command h e ([''export''] @ (if force then [''-f''] else []) @ [name]) tr of
        ((r, err), tr') \<Rightarrow> ((Some r, err), tr'))"

record importable_pool =
  mp_name :: string
  mp_id :: string
  mp_state :: string
  mp_status :: string
  mp_action :: string
  mp_comment :: string

definition import_keys :: "string list" where
  "import_keys = [''pool'', ''id'', ''state'', ''status'', ''action'', ''comment'']"

definition split_import_kv :: "string \<Rightarrow> (string \<times> string) option" where
  "split_import_kv line =
     (case str_index line '':'' of
        None \<Rightarrow> None
      | Some i \<Rightarrow>
          if i = 0 then None
          else let key = to_lower (trim_space (take i line)); val = trim_space (drop (Suc i) line) in
            if val = [] \<or> key \<notin> set import_keys then None else Some (key, val))"

definition flush_pool :: "importable_pool option \<Rightarrow> importable_pool list" where
  "flush_pool cur = (case cur of Some p \<Rightarrow> if mp_name p \<noteq> [] then [p] else [] | None \<Rightarrow> [])"

definition set_import_field :: "string \<Rightarrow> string \<Rightarrow> importable_pool \<Rightarrow> importable_pool" where
  "set_import_field k v p =
     (if k = ''id'' then p\<lparr>mp_id := v\<rparr> else if k = ''state'' then p\<lparr>mp_state := v\<rparr>
      else if k = ''status'' then p\<lparr>mp_status := v\<rparr> else if k = ''action'' then p\<lparr>mp_action := v\<rparr>
      else if k = ''comment'' then p\<lparr>mp_comment := v\<rparr> else p)"

definition new_importable :: "string \<Rightarrow> importable_pool" where
  "new_importable n = \<lparr>mp_name = n, mp_id = [], mp_state = [], mp_status = [], mp_action = [], mp_comment = []\<rparr>"

fun import_lines :: "string list \<Rightarrow> importable_pool option \<Rightarrow> importable_pool list" where
  "import_lines [] cur = flush_pool cur"
| "import_lines (raw # lines) cur =
     (case (if trim_space raw = [] then None else split_import_kv (trim_space raw)) of
        None \<Rightarrow> import_lines lines cur
      | Some (k, v) \<Rightarrow>
          if k = ''pool'' then flush_pool cur @ import_lines lines (Some (new_importable v))
          else import_lines lines (map_option (set_import_field k v) cur))"

definition parse_importable_pools :: "string \<Rightarrow> importable_pool list" where
  "parse_importable_pools out = import_lines (zfs_lines out) None"

definition list_importable_pools :: "zx_host \<Rightarrow> zfs_engine \<Rightarrow> string list \<Rightarrow> zx_log \<Rightarrow>
    (go_error + importable_pool list) \<times> zx_log" where
  "list_importable_pools h e dirs tr =
     (case run_zpool h e ([''import''] @ dir_flags dirs) tr of
        ((out, Some err), tr') \<Rightarrow>
          (if str_contains (to_lower out) ''no pools available'' then Inr []
           else Inl (WrappedError ''zpool import: '' err []), tr')
      | ((out, None), tr') \<Rightarrow> (Inr (parse_importable_pools out), tr'))"

section \<open>What a valid specification is\<close>

lemma validate_devices_sound:
  "validate_devices i v j ds = None \<Longrightarrow> list_all (\<lambda>d. trim_space d \<noteq> [] \<and> \<not> has_blank (trim_space d)) ds"
  by (induction i v j ds rule: validate_devices.induct) (auto split: if_splits)

definition vdev_sound :: "vdev_spec \<Rightarrow> bool" where
  "vdev_sound v \<longleftrightarrow>
     (\<exists>m. min_devices (vdev_shape v) = Some m \<and> m \<le> length (vx_devices v)) \<and>
     (vx_role v \<in> {RoleCache, RoleSpare} \<longrightarrow> vdev_shape v = ''stripe'') \<and>
     vx_role v \<in> {RoleData, RoleLog, RoleCache, RoleSpare, RoleSpecial} \<and>
     list_all (\<lambda>d. trim_space d \<noteq> [] \<and> \<not> has_blank (trim_space d)) (vx_devices v)"

lemma validate_pool_vdev_sound:
  assumes "validate_pool_vdev v i = None"
  shows "vdev_sound v"
proof -
  have "validate_shape v i = None"
    using assms by (auto simp: validate_pool_vdev_def split: vdev_role.splits if_splits)
  then have "(\<exists>m. min_devices (vdev_shape v) = Some m \<and> m \<le> length (vx_devices v)) \<and>
      list_all (\<lambda>d. trim_space d \<noteq> [] \<and> \<not> has_blank (trim_space d)) (vx_devices v)"
    using validate_devices_sound [of i v 0 "vx_devices v"] by (auto simp: validate_shape_def split: option.splits if_splits)
  moreover have "vx_role v \<in> {RoleCache, RoleSpare} \<longrightarrow> vdev_shape v = ''stripe''"
    using assms by (auto simp: validate_pool_vdev_def vdev_shape_def split: if_splits)
  moreover have "vx_role v \<in> {RoleData, RoleLog, RoleCache, RoleSpare, RoleSpecial}"
    using assms by (cases "vx_role v") (auto simp: validate_pool_vdev_def)
  ultimately show ?thesis by (simp add: vdev_sound_def)
qed

lemma validate_vdevs_sound: "validate_vdevs i vs = None \<Longrightarrow> list_all vdev_sound vs"
  by (induction i vs rule: validate_vdevs.induct) (auto split: option.splits intro: validate_pool_vdev_sound)

lemma first_collision_distinct:
  "first_collision seen ds = None \<Longrightarrow> distinct (map fst ds) \<and> dom seen \<inter> fst ` set ds = {}"
  by (induction seen ds rule: first_collision.induct) (auto split: option.splits)

text \<open>C37. What the validation lets through can be laid out: the name is neither empty nor a keyword,
  there is a data vdev, every vdev has a known role and shape with as many devices as the shape
  needs, caches and spares are plain, and no device, blanks around it aside, is empty or named
  twice in the whole layout.\<close>

theorem valid_pool_spec_sound:
  assumes "validate_pool_spec s = None"
  shows "pool_word_ok (trim_space (px_name s)) \<and> to_lower (trim_space (px_name s)) \<notin> set reserved_pool_names \<and>
    (\<exists>v \<in> set (px_vdevs s). vx_role v = RoleData) \<and> list_all vdev_sound (px_vdevs s) \<and>
    distinct (map trim_space (concat (map vx_devices (px_vdevs s))))"
proof -
  have v: "validate_vdevs 0 (px_vdevs s) = None" "list_ex (\<lambda>v. vx_role v = RoleData) (px_vdevs s)"
    "first_collision Map.empty (spec_devices (px_vdevs s)) = None" "pool_word_ok (trim_space (px_name s))"
    "to_lower (trim_space (px_name s)) \<notin> set reserved_pool_names"
    using assms by (auto simp: validate_pool_spec_def Let_def split: if_splits option.splits)
  have "map fst (spec_devices vs) = map trim_space (concat (map vx_devices vs))" for vs
    by (simp add: spec_devices_def map_concat comp_def)
  then show ?thesis
    using validate_vdevs_sound [OF v(1)] v(2,4,5) first_collision_distinct [OF v(3)] by (simp add: list_ex_iff)
qed

text \<open>The creation runs exactly what its preview shows.\<close>

lemma create_pool_preview:
  assumes "en_zpool e \<noteq> []"
  shows "build_create_pool (en_zpool e) s = en_zpool e @ '' '' @ join_with '' '' (create_pool_args s)"
  using assms join_with_append [of "create_pool_args s" "en_zpool e"] by (simp add: build_create_pool_def create_pool_args_def)

lemma create_pool_runs:
  assumes "validate_pool_spec s = None" and "en_zpool e \<noteq> []"
  shows "\<exists>r err. create_pool h e s tr = ((Some r, err), tr @ [Cmd (en_zpool e) (create_pool_args s)]) \<and>
    zr_command r = call_text (Cmd (en_zpool e) (create_pool_args s))"
proof -
  obtain r err tr' where o: "command_outcome (build_create_pool (en_zpool e) s) (run_zpool h e (create_pool_args s) tr) = ((r, err), tr')"
    by (metis surj_pair)
  have "tr' = snd (run_zpool h e (create_pool_args s) tr)"
    using command_outcome_log [of "build_create_pool (en_zpool e) s" "run_zpool h e (create_pool_args s) tr"] by (simp only: o snd_conv)
  then have "tr' = tr @ [Cmd (en_zpool e) (create_pool_args s)]" by (simp add: run_zpool_def zx_run_log)
  moreover have "zr_command r = build_create_pool (en_zpool e) s"
    using command_outcome_command [of "build_create_pool (en_zpool e) s" "run_zpool h e (create_pool_args s) tr"] by (simp add: o)
  ultimately show ?thesis
    using assms(1) create_pool_preview [OF assms(2)] o by (simp add: create_pool_def)
qed

section \<open>Sample pool\<close>

definition sample_pool :: "string list \<Rightarrow> pool_spec" where
  "sample_pool extra = \<lparr>px_name = ''tank'',
     px_vdevs = [\<lparr>vx_role = RoleData, vx_type = ''mirror'', vx_devices = [''/dev/sda'', ''/dev/sdb''] @ extra\<rparr>,
       \<lparr>vx_role = RoleCache, vx_type = [], vx_devices = [''/dev/nvme0n1'']\<rparr>],
     px_ashift = 12, px_mount = ''/tank'', px_pool_props = [(''autotrim'', ''on'')],
     px_fs_props = [(''compression'', ''lz4''), (''atime'', ''off'')], px_force = False, px_confirm = []\<rparr>"

theorem valid_pool_spec_sound_witness:
  "validate_pool_spec (sample_pool []) = None \<and> list_all vdev_sound (px_vdevs (sample_pool [])) \<and>
   create_pool_args (sample_pool []) = [''create'', ''-o'', ''ashift=12'', ''-o'', ''autotrim=on'', ''-O'', ''atime=off'', ''-O'',
     ''compression=lz4'', ''-m'', ''/tank'', ''tank'', ''mirror'', ''/dev/sda'', ''/dev/sdb'', ''cache'', ''/dev/nvme0n1'']"
proof -
  have v: "validate_pool_spec (sample_pool []) = None" by code_simp
  moreover have "create_pool_args (sample_pool []) = [''create'', ''-o'', ''ashift=12'', ''-o'', ''autotrim=on'', ''-O'', ''atime=off'', ''-O'',
     ''compression=lz4'', ''-m'', ''/tank'', ''tank'', ''mirror'', ''/dev/sda'', ''/dev/sdb'', ''cache'', ''/dev/nvme0n1'']" by code_simp
  ultimately show ?thesis using valid_pool_spec_sound [OF v] by blast
qed

end
