(* ===== verification/ZfsProps.thy ===== *)
theory ZfsProps
  imports ZfsStatus GoRegex
begin

text \<open>
  The editable properties of datasets and pools (\<^verbatim>\<open>zfs-manager/internal/agent/properties.go\<close>,
  \<^verbatim>\<open>property_ops.go\<close>): the catalog, without the texts that only the user interface shows, the
  validation of a value, the tier of a change, and reading and setting properties.
\<close>

section \<open>The catalog (properties.go)\<close>

datatype prop_tier = TierGreen | TierYellow | TierRed

datatype prop_scope = ScopeDataset | ScopePool

fun scope_text :: "prop_scope \<Rightarrow> string" where
  "scope_text ScopeDataset = ''dataset''"
| "scope_text ScopePool = ''pool''"

text \<open>The type of a property with the values of a selection.\<close>

datatype prop_type = PropSelect "string list" | PropSize | PropText | PropOther string

record prop_def =
  pd_key :: string
  pd_tier :: prop_tier
  pd_type :: prop_type

record prop_catalog =
  pl_dataset :: "prop_def list"
  pl_pool :: "prop_def list"

definition catalog_entry :: "string \<Rightarrow> prop_tier \<Rightarrow> prop_type \<Rightarrow> prop_def" where
  "catalog_entry k t ty = \<lparr>pd_key = k, pd_tier = t, pd_type = ty\<rparr>"

definition on_off :: prop_type where
  "on_off = PropSelect [''on'', ''off'']"

definition property_catalog :: prop_catalog where
  "property_catalog =
     \<lparr>pl_dataset =
        [catalog_entry ''compression'' TierYellow (PropSelect [''off'', ''lz4'', ''zstd'', ''zstd-fast'', ''gzip'', ''gzip-9'']),
         catalog_entry ''recordsize'' TierYellow (PropSelect [''4K'', ''8K'', ''16K'', ''32K'', ''64K'', ''128K'', ''256K'', ''512K'', ''1M'']),
         catalog_entry ''atime'' TierGreen on_off,
         catalog_entry ''relatime'' TierGreen on_off,
         catalog_entry ''sync'' TierYellow (PropSelect [''standard'', ''always'', ''disabled'']),
         catalog_entry ''xattr'' TierYellow (PropSelect [''on'', ''sa'', ''off'']),
         catalog_entry ''acltype'' TierYellow (PropSelect [''off'', ''posix'', ''nfsv4'']),
         catalog_entry ''logbias'' TierYellow (PropSelect [''latency'', ''throughput'']),
         catalog_entry ''primarycache'' TierYellow (PropSelect [''all'', ''metadata'', ''none'']),
         catalog_entry ''secondarycache'' TierYellow (PropSelect [''all'', ''metadata'', ''none'']),
         catalog_entry ''dedup'' TierRed (PropSelect [''off'', ''on'', ''sha512'', ''skein'']),
         catalog_entry ''snapdir'' TierGreen (PropSelect [''hidden'', ''visible'']),
         catalog_entry ''quota'' TierGreen PropSize,
         catalog_entry ''reservation'' TierGreen PropSize],
      pl_pool =
        [catalog_entry ''autotrim'' TierGreen on_off,
         catalog_entry ''autoexpand'' TierGreen on_off,
         catalog_entry ''autoreplace'' TierYellow on_off,
         catalog_entry ''failmode'' TierRed (PropSelect [''wait'', ''continue'', ''panic'']),
         catalog_entry ''comment'' TierGreen PropText,
         catalog_entry ''delegation'' TierYellow on_off]\<rparr>"

definition scope_defs :: "prop_catalog \<Rightarrow> prop_scope \<Rightarrow> prop_def list" where
  "scope_defs c sc = (case sc of ScopePool \<Rightarrow> pl_pool c | ScopeDataset \<Rightarrow> pl_dataset c)"

definition find_prop :: "prop_catalog \<Rightarrow> prop_scope \<Rightarrow> string \<Rightarrow> prop_def option" where
  "find_prop c sc k = List.find (\<lambda>d. pd_key d = k) (scope_defs c sc)"

text \<open>The pattern of a size, in either case: none, or a decimal number and a unit. The unit k has
  the Kelvin sign as a further form, whose three bytes are no class of one character.\<close>

definition size_unit :: "char \<Rightarrow> bool" where
  "size_unit c \<longleftrightarrow> c \<in> set ''kmgtpKMGTP''"

definition size_value_pattern :: regex where
  "size_value_pattern =
     re_seq [Bol,
       Alt (re_seq [Cls (\<lambda>c. c \<in> set ''nN''), Cls (\<lambda>c. c \<in> set ''oO''), Cls (\<lambda>c. c \<in> set ''nN''), Cls (\<lambda>c. c \<in> set ''eE'')])
           (re_seq [re_plus re_digit, re_opt (re_seq [re_lit ''.'', re_plus re_digit]),
              re_opt (Alt (Cls size_unit) (re_lit [CHR 0xE2, CHR 0x84, CHR 0xAA]))]),
       Eol]"

definition prop_error :: "string \<Rightarrow> string \<Rightarrow> string \<Rightarrow> go_error option" where
  "prop_error k v msg = Some (PlainError (k @ '': '' @ go_quote v @ msg))"

definition validate_property :: "prop_catalog \<Rightarrow> prop_scope \<Rightarrow> string \<Rightarrow> string \<Rightarrow> go_error option" where
  "validate_property c sc k v =
     (case find_prop c sc k of
        None \<Rightarrow> Some (PlainError (''unknown '' @ scope_text sc @ '' property '' @ go_quote k))
      | Some d \<Rightarrow>
          if v = [] then Some (PlainError (k @ '': empty value''))
          else (case pd_type d of
            PropSelect [] \<Rightarrow> if to_lower v \<in> {''on'', ''off''} then None else prop_error k v '' not in on/off''
          | PropSelect vs \<Rightarrow> if v \<in> set vs then None else prop_error k v '' is not one of the allowed values''
          | PropSize \<Rightarrow>
              if find_submatch size_value_pattern v \<noteq> None then None
              else prop_error k v '' is not a valid size (expected 'none' or a number with optional K/M/G/T/P suffix)''
          | PropText \<Rightarrow>
              if \<exists>x \<in> set v. x = CHR 0x0A \<or> x = CHR 0x0D \<or> x = CHR 0x00
              then Some (PlainError (k @ '': control characters are not allowed'')) else None
          | PropOther ty \<Rightarrow>
              Some (PlainError (k @ '': catalog type '' @ go_quote ty @ '' is not handled '' @
                [CHR 0xE2, CHR 0x80, CHR 0x94] @ '' this is a bug''))))"

fun tier_rank :: "prop_tier \<Rightarrow> int" where
  "tier_rank TierRed = 2"
| "tier_rank TierYellow = 1"
| "tier_rank TierGreen = 0"

fun classify_from :: "prop_catalog \<Rightarrow> prop_scope \<Rightarrow> prop_tier \<Rightarrow> string list \<Rightarrow> prop_tier" where
  "classify_from c sc tier [] = tier"
| "classify_from c sc tier (k # ks) =
     (case find_prop c sc k of
        None \<Rightarrow> TierRed
      | Some d \<Rightarrow> classify_from c sc (if tier_rank (pd_tier d) > tier_rank tier then pd_tier d else tier) ks)"

definition classify_change :: "prop_catalog \<Rightarrow> prop_scope \<Rightarrow> (string \<times> string) list \<Rightarrow> prop_tier" where
  "classify_change c sc changes = classify_from c sc TierGreen (map fst changes)"

section \<open>Reading and setting (property_ops.go)\<close>

record prop_value =
  pv_key :: string
  pv_value :: string
  pv_source :: string

definition prop_row :: "string \<Rightarrow> prop_value option" where
  "prop_row line =
     (case split_on (CHR 0x09) line of
        k # v # src # _ \<Rightarrow> Some \<lparr>pv_key = k, pv_value = v, pv_source = src\<rparr>
      | [k, v] \<Rightarrow> Some \<lparr>pv_key = k, pv_value = v, pv_source = []\<rparr>
      | _ \<Rightarrow> None)"

definition parse_property_rows :: "string \<Rightarrow> prop_value list" where
  "parse_property_rows out = List.map_filter prop_row (zfs_lines out)"

definition property_keys :: "prop_scope \<Rightarrow> string list" where
  "property_keys sc = map pd_key (scope_defs property_catalog sc)"

definition get_args :: "prop_scope \<Rightarrow> string list \<Rightarrow> string \<Rightarrow> string list" where
  "get_args sc keys name =
     [''get'', ''-Hp'', ''-o'', ''property,value,source'', join_with '','' (if keys = [] then property_keys sc else keys), name]"

definition get_dataset_properties :: "zx_host \<Rightarrow> zfs_engine \<Rightarrow> string \<Rightarrow> string list \<Rightarrow> zx_log \<Rightarrow>
    (go_error + prop_value list) \<times> zx_log" where
  "get_dataset_properties h e name keys tr =
     (if name = [] then (Inl (PlainError ''dataset name required''), tr)
      else case run_zfs h e (get_args ScopeDataset keys name) tr of
        ((out, Some err), tr') \<Rightarrow> (Inl (WrappedError ''zfs get: '' err []), tr')
      | ((out, None), tr') \<Rightarrow> (Inr (parse_property_rows out), tr'))"

definition get_pool_properties :: "zx_host \<Rightarrow> zfs_engine \<Rightarrow> string \<Rightarrow> string list \<Rightarrow> zx_log \<Rightarrow>
    (go_error + prop_value list) \<times> zx_log" where
  "get_pool_properties h e pool keys tr =
     (if pool = [] then (Inl (PlainError ''pool name required''), tr)
      else case run_zpool h e (get_args ScopePool keys pool) tr of
        ((out, Some err), tr') \<Rightarrow> (Inl (WrappedError ''zpool get: '' err []), tr')
      | ((out, None), tr') \<Rightarrow> (Inr (parse_property_rows out), tr'))"

text \<open>The loop of \<open>SetPoolProperties\<close>, as that of the datasets, with a pool that has a name.\<close>

fun set_pool_loop :: "zx_host \<Rightarrow> zfs_engine \<Rightarrow> string \<Rightarrow> string list \<Rightarrow> string \<Rightarrow> (string \<times> string) list \<Rightarrow> zfs_op" where
  "set_pool_loop h e pool outs lastcmd [] tr =
     ((\<lparr>zr_command = lastcmd, zr_exit = 0, zr_output = join_with [CHR 0x0A] outs, zr_error = []\<rparr>, None), tr)"
| "set_pool_loop h e pool outs lastcmd ((k, v) # props) tr =
     (let args = [''set'', k @ ''='' @ v, pool]; cmd = en_zpool e @ '' '' @ join_with '' '' args
      in case run_zpool h e args tr of
           ((out, Some err), tr') \<Rightarrow>
             ((\<lparr>zr_command = cmd, zr_exit = go_exit_code err, zr_output = out, zr_error = error_text err\<rparr>,
               Some err), tr')
         | ((out, None), tr') \<Rightarrow> set_pool_loop h e pool (outs @ [out]) cmd props tr')"

definition set_pool_properties :: "zx_host \<Rightarrow> zfs_engine \<Rightarrow> string \<Rightarrow> (string \<times> string) list \<Rightarrow> zx_log \<Rightarrow>
    (zfs_result option \<times> go_error option) \<times> zx_log" where
  "set_pool_properties h e pool props tr =
     (if pool = [] then ((None, Some (PlainError ''pool name required'')), tr)
      else if props = [] then ((None, Some (PlainError ''no properties supplied'')), tr)
      else case set_pool_loop h e pool [] [] props tr of ((r, err), tr') \<Rightarrow> ((Some r, err), tr'))"

section \<open>What a change may be\<close>

lemma tier_rank_bound [simp]: "\<not> 2 < tier_rank t"
  by (cases t) simp_all

lemma classify_red:
  assumes "k \<in> set ks" and "find_prop c sc k = Some d" and "pd_tier d = TierRed"
  shows "classify_from c sc t ks = TierRed"
proof -
  have red: "classify_from c sc TierRed ks = TierRed" for ks
    by (induction ks) (auto split: option.split)
  show ?thesis using assms(1)
  proof (induction ks arbitrary: t)
    case (Cons x xs)
    show ?case
    proof (cases "x = k")
      case True
      then show ?thesis using assms(2,3) red by (cases t) simp_all
    next
      case False
      then show ?thesis using Cons by (auto split: option.split)
    qed
  qed simp
qed

end
