(* ===== verification/AddonUtil.thy ===== *)
theory AddonUtil
  imports GoExec GoFloat
begin

text \<open>
  What the add-ons share (\<^verbatim>\<open>shared/addonutil\<close>, \<^verbatim>\<open>shared/vigilclient\<close>): time ranges, the
  verification of signed commands, the backoff and the loops that register with the Vigil server and
  keep the connection to it. JSON, base64 and Ed25519 are parameters; an object of JSON is the list
  of its fields, with distinct names.
\<close>

section \<open>JSON values\<close>

datatype jval = JText string | JObj "(string \<times> jval) list" | JOther string

type_synonym jobject = "(string \<times> jval) list"

definition jget :: "string \<Rightarrow> jobject \<Rightarrow> jval option" where
  "jget k ob = map_of ob k"

text \<open>\<open>s, _ := obj[k].(string)\<close>: a missing field and one that is no string give the empty string.\<close>

definition jstring :: "string \<Rightarrow> jobject \<Rightarrow> string" where
  "jstring k ob = (case jget k ob of Some (JText s) \<Rightarrow> s | _ \<Rightarrow> [])"

definition jdelete :: "string \<Rightarrow> jobject \<Rightarrow> jobject" where
  "jdelete k ob = filter (\<lambda>f. fst f \<noteq> k) ob"

section \<open>Time ranges (timerange.go)\<close>

definition unit_minutes :: "char \<Rightarrow> int option" where
  "unit_minutes u = (if u = CHR ''m'' then Some 1 else if u = CHR ''h'' then Some 60 else if u = CHR ''d'' then Some 1440 else None)"

definition parse_time_range :: "string \<Rightarrow> int option" where
  "parse_time_range s =
     (if length s < 2 then None
      else case atoi_full (butlast s) of
        (n, Some e) \<Rightarrow> None
      | (n, None) \<Rightarrow>
          if n \<le> 0 then None
          else map_option (\<lambda>m. wrap64 (n * (m * 60000000000))) (unit_minutes (last s)))"

section \<open>Signed commands (signature.go)\<close>

text \<open>\<open>se_field\<close> decodes the signature field of a body as a Go struct does, \<open>se_object\<close> its
  fields; \<open>se_marshal\<close> writes an object with its fields in order, \<open>se_check\<close> is
  \<open>ed25519.Verify\<close> of a key, a message and a signature.\<close>

record sig_env =
  se_field :: "string \<Rightarrow> go_error + string"
  se_object :: "string \<Rightarrow> go_error + jobject"
  se_b64 :: "string \<Rightarrow> go_error + string"
  se_marshal :: "jobject \<Rightarrow> string"
  se_check :: "string \<Rightarrow> string \<Rightarrow> string \<Rightarrow> bool"

definition verify_body :: "sig_env \<Rightarrow> string \<Rightarrow> string \<Rightarrow> go_error option" where
  "verify_body se key body =
     (case se_field se body of
        Inl e \<Rightarrow> Some (WrappedError ''parsing signature field: '' e [])
      | Inr sg \<Rightarrow>
          if sg = [] then Some (PlainError ''missing signature field'')
          else case se_b64 se sg of
            Inl e \<Rightarrow> Some (WrappedError ''decoding signature: '' e [])
          | Inr raw \<Rightarrow>
              (case se_object se body of
                 Inl e \<Rightarrow> Some (WrappedError ''parsing payload for verification: '' e [])
               | Inr ob \<Rightarrow>
                   if se_check se key (se_marshal se (jdelete ''signature'' ob)) raw then None
                   else Some (PlainError ''ed25519 signature verification failed'')))"

text \<open>A verifier is a key, or none, which switches the verification off.\<close>

definition new_verifier :: "sig_env \<Rightarrow> string \<Rightarrow> go_error + string option" where
  "new_verifier se key =
     (let k = trim_space key in
      if k = [] then Inr None
      else case se_b64 se k of
        Inl e \<Rightarrow> Inl (WrappedError ''decode pubkey base64: '' e [])
      | Inr raw \<Rightarrow>
          if length raw \<noteq> 32
          then Inl (PlainError (''pubkey is '' @ itoa (int (length raw)) @ '' bytes, expected 32''))
          else Inr (Some raw))"

definition verify_json :: "sig_env \<Rightarrow> string option \<Rightarrow> string \<Rightarrow> go_error option" where
  "verify_json se verifier body = (case verifier of None \<Rightarrow> None | Some key \<Rightarrow> verify_body se key body)"

section \<open>Backoff (vigilclient/registration.go)\<close>

definition backoff_delay :: "nat \<Rightarrow> int" where
  "backoff_delay attempt =
     (let d = (if attempt = 0 then 1000000000 else 2000000000 * 2 ^ (attempt - 1)) in if d > 60000000000 then 60000000000 else d)"

text \<open>The loop of \<open>Register\<close>: \<open>tries n\<close> is the answer to the attempt after \<open>n\<close> failures,
  \<open>ctx n\<close> tells whether the wait after it is cut short. Its value is the answer with the
  delays waited.\<close>

partial_function (option) register_loop :: "(nat \<Rightarrow> go_error + 'r) \<Rightarrow> (nat \<Rightarrow> go_error option) \<Rightarrow> nat \<Rightarrow> int list \<Rightarrow>
    ((go_error + 'r) \<times> int list) option" where
  "register_loop tries ctx n waits =
     (case tries n of
        Inr r \<Rightarrow> Some (Inr r, waits)
      | Inl e \<Rightarrow>
          (case ctx n of
             Some c \<Rightarrow> Some (Inl (WrappedError ''registration cancelled: '' c []), waits)
           | None \<Rightarrow> register_loop tries ctx (Suc n) (waits @ [backoff_delay (Suc n)])))"

text \<open>The loop of \<open>Run\<close> that keeps a connection: every end of a connection counts as an attempt,
  however long the connection lasted. Its value is the delays waited until the context ended.\<close>

partial_function (option) connection_loop :: "(nat \<Rightarrow> bool) \<Rightarrow> (nat \<Rightarrow> bool) \<Rightarrow> nat \<Rightarrow> int list \<Rightarrow> int list option" where
  "connection_loop ended broken n waits =
     (if ended n then Some waits
      else if broken n then Some waits
      else connection_loop ended broken (Suc n) (waits @ [backoff_delay (Suc n)]))"

section \<open>Properties\<close>

lemma unit_minutes_known: "unit_minutes u = Some m \<Longrightarrow> m \<in> {1, 60, 1440}"
  by (auto simp: unit_minutes_def split: if_splits)

text \<open>A time range of minutes, hours or days is read as exactly that duration for every count whose
  duration fits the machine; a larger count is not refused but wraps around.\<close>

lemma time_range_wraps:
  assumes "0 < n" "n \<le> int64_max" "unit_minutes u = Some m"
  shows "parse_time_range (itoa n @ [u]) = Some (wrap64 (n * (m * 60000000000))) \<and>
    (n * m \<le> 153722867 \<longrightarrow> parse_time_range (itoa n @ [u]) = Some (n * (m * 60000000000)))"
proof -
  have "itoa n \<noteq> []" using assms(1) by (simp add: itoa_def)
  then have "\<not> length (itoa n @ [u]) < 2" by (cases "itoa n") auto
  moreover have "atoi_full (itoa n) = (n, None)"
    using assms(1,2) by (intro atoi_full_itoa) (simp add: fits_int64_def int64_min_def)
  ultimately have p: "parse_time_range (itoa n @ [u]) = Some (wrap64 (n * (m * 60000000000)))"
    using assms(1,3) by (simp add: parse_time_range_def)
  moreover have "wrap64 (n * (m * 60000000000)) = n * (m * 60000000000)" if "n * m \<le> 153722867"
  proof (rule wrap64_id)
    have "0 < m" using unit_minutes_known [OF assms(3)] by auto
    then have "0 < n * m" using assms(1) by simp
    moreover have "n * (m * 60000000000) = (n * m) * 60000000000" by simp
    ultimately show "fits_int64 (n * (m * 60000000000))"
      using that unfolding fits_int64_def int64_min_def int64_max_def by linarith
  qed
  ultimately show ?thesis by simp
qed

lemma backoff_bounds: "1000000000 \<le> backoff_delay n \<and> backoff_delay n \<le> 60000000000"
proof -
  have "1 \<le> (2::int) ^ (n - 1)" by (rule one_le_power) simp
  then have "1000000000 \<le> 2000000000 * (2::int) ^ (n - 1)" by linarith
  then show ?thesis unfolding backoff_delay_def Let_def by auto
qed

text \<open>Registering returns if some attempt succeeds or the context ends, after waits between one second
  and one minute.\<close>

lemma register_loop_returns:
  assumes "(\<exists>r. tries k = Inr r) \<or> ctx k \<noteq> None" "n \<le> k"
  shows "\<exists>r ws. register_loop tries ctx n waits = Some (r, waits @ ws) \<and> length ws \<le> k - n \<and>
    list_all (\<lambda>w. 1000000000 \<le> w \<and> w \<le> 60000000000) ws"
  using assms(2)
proof (induction "k - n" arbitrary: n waits)
  case 0
  then have "n = k" by simp
  with assms(1) show ?case
    by (subst register_loop.simps) (auto split: sum.split option.split)
next
  case (Suc d)
  show ?case
  proof (cases "(\<exists>r. tries n = Inr r) \<or> ctx n \<noteq> None")
    case True
    then show ?thesis by (subst register_loop.simps) (auto split: sum.split option.split)
  next
    case False
    then obtain e where "tries n = Inl e" "ctx n = None" by (cases "tries n") auto
    moreover have "d = k - Suc n" "Suc n \<le> k" using Suc.hyps(2) by linarith+
    then obtain r ws where "register_loop tries ctx (Suc n) (waits @ [backoff_delay (Suc n)]) =
        Some (r, (waits @ [backoff_delay (Suc n)]) @ ws)" "length ws \<le> k - Suc n"
      "list_all (\<lambda>w. 1000000000 \<le> w \<and> w \<le> 60000000000) ws"
      using Suc.hyps(1) by blast
    ultimately show ?thesis
      using backoff_bounds [of "Suc n"] \<open>Suc n \<le> k\<close>
      by (subst register_loop.simps) (auto intro!: exI [of _ "backoff_delay (Suc n) # ws"])
  qed
qed

end
