(* ===== verification/ZfsServer.thy ===== *)
theory ZfsServer
  imports ZfsPools ZfsProps ZfsScheduler AddonUtil
begin

text \<open>
  The handlers of the ZFS agent that run commands (\<^verbatim>\<open>zfs-manager/internal/agent/server.go\<close>,
  \<^verbatim>\<open>property_handlers.go\<close>, \<^verbatim>\<open>pool_create_handlers.go\<close>, \<^verbatim>\<open>pool_import_handlers.go\<close>) behind the
  check of the pre-shared key, and the preview of a command. A request is the decoded body, absent
  when it cannot be decoded; the clock reading of a handler is an argument; the refresh that runs
  in its own goroutine is counted.
\<close>

section \<open>Server and replies\<close>

record zagent =
  za_host :: zx_host
  za_engine :: zfs_engine
  za_psk :: string

record zagent_state =
  zg_tr :: zx_log
  zg_out :: "zs_item list"
  zg_refresh :: nat

datatype agent_reply =
    AgError string
  | AgResult "zfs_result option"
  | AgPreview string "string list"
  | AgDeleted nat
  | AgProps "prop_value list"
  | AgImportable "importable_pool list"

type_synonym handler = "zagent_state \<Rightarrow> (nat \<times> agent_reply) \<times> zagent_state"

definition reject :: "nat \<Rightarrow> string \<Rightarrow> handler" where
  "reject st msg s = ((st, AgError msg), s)"

definition guard_psk :: "zagent \<Rightarrow> string \<Rightarrow> (nat \<times> string) option" where
  "guard_psk sv auth =
     (if za_psk sv = [] then None
      else if \<not> has_prefix auth ''Bearer '' then Some (401, ''missing authorization header'')
      else if trim_prefix auth ''Bearer '' \<noteq> za_psk sv then Some (403, ''invalid pre-shared key'')
      else None)"

definition log_op :: "string \<Rightarrow> string \<Rightarrow> string \<Rightarrow> zagent_state \<Rightarrow> zagent_state" where
  "log_op src level msg s = s\<lparr>zg_out := zg_out s @ [ZLog src level msg]\<rparr>"

type_synonym engine_call = "zx_log \<Rightarrow> (zfs_result option \<times> go_error option) \<times> zx_log"

definition some_result :: "zfs_op \<Rightarrow> engine_call" where
  "some_result op tr = (case op tr of ((r, err), tr') \<Rightarrow> ((Some r, err), tr'))"

text \<open>The end that the handlers share: a failure answers 500 with the result, a success refreshes
  and answers 200. \<open>failed\<close> and \<open>done\<close> are what a handler logs on top.\<close>

definition answer_call :: "engine_call \<Rightarrow> (go_error \<Rightarrow> zagent_state \<Rightarrow> zagent_state) \<Rightarrow> (zagent_state \<Rightarrow> zagent_state) \<Rightarrow> handler" where
  "answer_call call fail_log done_log s =
     (case call (zg_tr s) of
        ((r, Some err), tr) \<Rightarrow> ((500, AgResult r), fail_log err (s\<lparr>zg_tr := tr\<rparr>))
      | ((r, None), tr) \<Rightarrow> ((200, AgResult r), (done_log (s\<lparr>zg_tr := tr\<rparr>))\<lparr>zg_refresh := Suc (zg_refresh s)\<rparr>))"

definition answer :: "engine_call \<Rightarrow> handler" where
  "answer call = answer_call call (\<lambda>_ s. s) (\<lambda>s. s)"

section \<open>Datasets\<close>

definition valid_dataset_name :: "string \<Rightarrow> bool" where
  "valid_dataset_name s \<longleftrightarrow>
     (let alnum = (\<lambda>c. (let n = (of_char c :: int) in (97 \<le> n \<and> n \<le> 122) \<or> (65 \<le> n \<and> n \<le> 90) \<or> (48 \<le> n \<and> n \<le> 57))) in
      case s of [] \<Rightarrow> False | c # t \<Rightarrow> alnum c \<and> list_all (\<lambda>x. alnum x \<or> x \<in> set ''._-'') t)"

definition put_pair :: "string \<Rightarrow> string \<Rightarrow> (string \<times> string) list \<Rightarrow> (string \<times> string) list" where
  "put_pair k v ps =
     (if k \<in> fst ` set ps then map (\<lambda>(a, b). if a = k then (a, v) else (a, b)) ps else ps @ [(k, v)])"

definition preset_props :: "string \<Rightarrow> (string \<times> string) list" where
  "preset_props p =
     (case dataset_presets p of
        None \<Rightarrow> []
      | Some d \<Rightarrow> [(''recordsize'', dp_recordsize d), (''compression'', dp_compression d), (''atime'', dp_atime d), (''sync'', dp_sync d)])"

definition dataset_props :: "string \<Rightarrow> (string \<times> string) list \<Rightarrow> string \<Rightarrow> string \<Rightarrow> (string \<times> string) list" where
  "dataset_props preset props quota reserv =
     (let p1 = fold (\<lambda>(k, v). put_pair k v) props (preset_props preset);
          p2 = (if quota \<noteq> [] then put_pair ''quota'' quota p1 else p1)
      in if reserv \<noteq> [] then put_pair ''reservation'' reserv p2 else p2)"

definition handle_create_dataset :: "zagent \<Rightarrow> string \<Rightarrow> string \<Rightarrow> string \<Rightarrow> (string \<times> string) list \<Rightarrow> string \<Rightarrow> string \<Rightarrow> handler" where
  "handle_create_dataset sv parent name preset props quota reserv =
     (if parent = [] \<or> name = [] then reject 400 ''parent and name are required''
      else if \<not> valid_dataset_name name
      then reject 400 ''invalid dataset name: only alphanumeric, dots, hyphens, underscores allowed''
      else answer (some_result (create_dataset (za_host sv) (za_engine sv) (parent @ ''/'' @ name)
             (dataset_props preset props quota reserv))))"

fun first_invalid :: "prop_scope \<Rightarrow> (string \<times> string) list \<Rightarrow> go_error option" where
  "first_invalid sc [] = None"
| "first_invalid sc ((k, v) # ps) =
     (case validate_property property_catalog sc k v of Some e \<Rightarrow> Some e | None \<Rightarrow> first_invalid sc ps)"

definition handle_edit_dataset :: "zagent \<Rightarrow> string \<Rightarrow> (string \<times> string) list \<Rightarrow> string \<Rightarrow> handler" where
  "handle_edit_dataset sv name props confirm =
     (if name = [] \<or> props = [] then reject 400 ''name and properties are required''
      else case first_invalid ScopeDataset props of
        Some e \<Rightarrow> reject 400 (error_text e)
      | None \<Rightarrow>
          if classify_change property_catalog ScopeDataset props = TierRed \<and> confirm \<noteq> name
          then reject 400 ''red-tier change: send confirm=<dataset name> to apply''
          else answer (some_result (set_dataset_properties (za_host sv) (za_engine sv) name props)))"

definition handle_delete_dataset :: "zagent \<Rightarrow> string \<Rightarrow> string \<Rightarrow> bool \<Rightarrow> handler" where
  "handle_delete_dataset sv name confirm recursive =
     (if name = [] then reject 400 ''name is required''
      else if confirm \<noteq> name then reject 400 ''type the full dataset name to confirm deletion''
      else answer (some_result (destroy_dataset (za_host sv) (za_engine sv) name recursive)))"

section \<open>Snapshots\<close>

definition handle_create_snapshot :: "zagent \<Rightarrow> int \<Rightarrow> string \<Rightarrow> string \<Rightarrow> bool \<Rightarrow> handler" where
  "handle_create_snapshot sv now dataset name recursive =
     (if dataset = [] then reject 400 ''dataset is required''
      else answer (some_result (create_snapshot (za_host sv) (za_engine sv) dataset
             (if name = [] then ''manual-'' @ snap_stamp now else name) recursive)))"

definition handle_delete_snapshot :: "zagent \<Rightarrow> string \<Rightarrow> string \<Rightarrow> handler" where
  "handle_delete_snapshot sv name confirm =
     (if name = [] then reject 400 ''name is required''
      else if \<not> str_contains name ''@'' then reject 400 ''name must be in dataset@snapshot format''
      else if confirm \<noteq> name then reject 400 ''type the full snapshot name to confirm deletion''
      else answer (some_result (destroy_snapshot (za_host sv) (za_engine sv) name)))"

definition handle_rollback :: "zagent \<Rightarrow> string \<Rightarrow> string \<Rightarrow> string \<Rightarrow> handler" where
  "handle_rollback sv name depth confirm =
     (if name = [] then reject 400 ''name is required''
      else if \<not> str_contains name ''@'' then reject 400 ''name must be in dataset@snapshot format''
      else if confirm \<noteq> hd (split_n2 (CHR ''@'') name) then reject 400 ''type the dataset name to confirm rollback''
      else if depth \<notin> {''latest'', ''intermediate'', ''all'', []}
      then reject 400 ''depth must be: latest, intermediate, or all''
      else answer (some_result (rollback_snapshot (za_host sv) (za_engine sv) name (if depth = [] then ''latest'' else depth))))"

section \<open>Scrubs\<close>

definition handle_start_scrub :: "zagent \<Rightarrow> string \<Rightarrow> handler" where
  "handle_start_scrub sv pool s =
     (if pool = [] then reject 400 ''pool is required'' s
      else answer_call (some_result (start_scrub (za_host sv) (za_engine sv) pool))
             (\<lambda>err. log_op ''zpool-scrub'' ''error'' (''scrub on '' @ pool @ '' failed: '' @ error_text err))
             (log_op ''zpool-scrub'' ''info'' (''scrub scheduled on '' @ pool))
             (log_op ''zpool-scrub'' ''info'' (''starting scrub on pool '' @ pool) s))"

definition handle_pause_scrub :: "zagent \<Rightarrow> string \<Rightarrow> handler" where
  "handle_pause_scrub sv pool =
     (if pool = [] then reject 400 ''pool is required'' else answer (some_result (pause_scrub (za_host sv) (za_engine sv) pool)))"

definition handle_cancel_scrub :: "zagent \<Rightarrow> string \<Rightarrow> handler" where
  "handle_cancel_scrub sv pool =
     (if pool = [] then reject 400 ''pool is required'' else answer (some_result (cancel_scrub (za_host sv) (za_engine sv) pool)))"

section \<open>Devices\<close>

definition handle_replace_device :: "zagent \<Rightarrow> int \<Rightarrow> string \<Rightarrow> string \<Rightarrow> string \<Rightarrow> string \<Rightarrow> handler" where
  "handle_replace_device sv now pool old new confirm s =
     (if pool = [] \<or> old = [] \<or> new = [] then reject 400 ''pool, old_device, and new_device are required'' s
      else if confirm \<noteq> pool then reject 400 ''type the pool name to confirm replacement'' s
      else answer_call (some_result (replace_device (za_host sv) (za_engine sv) pool old new))
             (\<lambda>err. log_op ''zpool-replace'' ''error'' (''replace on '' @ pool @ '' failed: '' @ error_text err))
             (\<lambda>s. s\<lparr>zg_out := zg_out s @ [zevent (''replace-'' @ pool @ ''-'' @ itoa now) ''drive_replacement_started'' ''warning''
               (''Drive replacement started: '' @ old @ arrow @ new @ '' on pool '' @ pool) now]\<rparr>)
             (log_op ''zpool-replace'' ''info'' (''replacing '' @ old @ arrow @ new @ '' on pool '' @ pool) s))"

definition handle_add_vdev :: "zagent \<Rightarrow> string \<Rightarrow> string \<Rightarrow> string list \<Rightarrow> string \<Rightarrow> handler" where
  "handle_add_vdev sv pool ty devices confirm =
     (if pool = [] \<or> devices = [] then reject 400 ''pool and devices are required''
      else if confirm \<noteq> pool then reject 400 ''type the pool name to confirm expansion''
      else answer (some_result (add_vdev (za_host sv) (za_engine sv) pool ty devices)))"

definition handle_offline_device :: "zagent \<Rightarrow> string \<Rightarrow> string \<Rightarrow> handler" where
  "handle_offline_device sv pool dev =
     (if pool = [] \<or> dev = [] then reject 400 ''pool and device are required''
      else answer (some_result (offline_device (za_host sv) (za_engine sv) pool dev)))"

definition handle_online_device :: "zagent \<Rightarrow> string \<Rightarrow> string \<Rightarrow> handler" where
  "handle_online_device sv pool dev =
     (if pool = [] \<or> dev = [] then reject 400 ''pool and device are required''
      else answer (some_result (online_device (za_host sv) (za_engine sv) pool dev)))"

definition handle_identify_device :: "zagent \<Rightarrow> string \<Rightarrow> string \<Rightarrow> handler" where
  "handle_identify_device sv dev mode s =
     (if dev = [] then reject 400 ''device is required'' s
      else if mode \<notin> {[], ''locate'', ''off''} then reject 400 (''mode must be 'locate' or 'off'' @ [CHR 0x27]) s
      else case identify_device (za_host sv) (za_engine sv) dev (if mode = [] then ''locate'' else mode) (zg_tr s) of
        ((r, None), tr) \<Rightarrow> ((200, AgResult r), s\<lparr>zg_tr := tr\<rparr>)
      | ((r, Some err), tr) \<Rightarrow>
          if err = capability_unavailable
          then ((501, AgError (''ledctl is not installed on this agent host '' @ [CHR 0xE2, CHR 0x80, CHR 0x94] @
                  '' drive-bay LED identification is unavailable'')), s\<lparr>zg_tr := tr\<rparr>)
          else ((500, AgResult r), s\<lparr>zg_tr := tr\<rparr>))"

definition handle_clear_errors :: "zagent \<Rightarrow> string \<Rightarrow> string \<Rightarrow> handler" where
  "handle_clear_errors sv pool dev =
     (if pool = [] then reject 400 ''pool is required'' else answer (some_result (clear_errors (za_host sv) (za_engine sv) pool dev)))"

section \<open>Pools (property_handlers.go, pool_create_handlers.go, pool_import_handlers.go)\<close>

definition split_csv_param :: "string \<Rightarrow> string list" where
  "split_csv_param s = (if s = [] then [] else filter (\<lambda>p. p \<noteq> []) (map trim_space (split_on (CHR '','') s)))"

definition handle_get_dataset_properties :: "zagent \<Rightarrow> string \<Rightarrow> string \<Rightarrow> handler" where
  "handle_get_dataset_properties sv name keys s =
     (if trim_space name = [] then reject 400 ''name query parameter is required'' s
      else case get_dataset_properties (za_host sv) (za_engine sv) (trim_space name) (split_csv_param keys) (zg_tr s) of
        (Inl err, tr) \<Rightarrow> ((502, AgError (error_text err)), s\<lparr>zg_tr := tr\<rparr>)
      | (Inr rows, tr) \<Rightarrow> ((200, AgProps rows), s\<lparr>zg_tr := tr\<rparr>))"

definition handle_get_pool_properties :: "zagent \<Rightarrow> string \<Rightarrow> string \<Rightarrow> handler" where
  "handle_get_pool_properties sv pool keys s =
     (if trim_space pool = [] then reject 400 ''pool query parameter is required'' s
      else case get_pool_properties (za_host sv) (za_engine sv) (trim_space pool) (split_csv_param keys) (zg_tr s) of
        (Inl err, tr) \<Rightarrow> ((502, AgError (error_text err)), s\<lparr>zg_tr := tr\<rparr>)
      | (Inr rows, tr) \<Rightarrow> ((200, AgProps rows), s\<lparr>zg_tr := tr\<rparr>))"

definition handle_set_pool_properties :: "zagent \<Rightarrow> string \<Rightarrow> (string \<times> string) list \<Rightarrow> string \<Rightarrow> handler" where
  "handle_set_pool_properties sv pool props confirm =
     (if pool = [] \<or> props = [] then reject 400 ''pool and properties are required''
      else case first_invalid ScopePool props of
        Some e \<Rightarrow> reject 400 (error_text e)
      | None \<Rightarrow>
          if classify_change property_catalog ScopePool props = TierRed \<and> confirm \<noteq> pool
          then reject 400 ''red-tier change: send confirm=<pool name> to apply''
          else answer (set_pool_properties (za_host sv) (za_engine sv) pool props))"

text \<open>A creation that ran nothing is answered with the command it would have run.\<close>

definition created_result :: "zagent \<Rightarrow> pool_spec \<Rightarrow> engine_call" where
  "created_result sv spec tr =
     (case create_pool (za_host sv) (za_engine sv) spec tr of
        ((None, Some err), tr') \<Rightarrow>
          ((Some \<lparr>zr_command = build_create_pool (en_zpool (za_engine sv)) spec, zr_exit = 0, zr_output = [], zr_error = error_text err\<rparr>,
            Some err), tr')
      | r \<Rightarrow> r)"

definition handle_create_pool :: "zagent \<Rightarrow> pool_form \<Rightarrow> bool \<Rightarrow> handler" where
  "handle_create_pool sv form preview s =
     (let spec = to_spec form in
      case validate_pool_spec spec of
        Some e \<Rightarrow> reject 400 (error_text e) s
      | None \<Rightarrow>
          if px_force spec \<and> px_confirm spec \<noteq> px_name spec
          then reject 400 ''force create is red-tier: send confirm=<pool name> to apply'' s
          else if preview then ((200, AgPreview (build_create_pool (en_zpool (za_engine sv)) spec) []), s)
          else answer_call (created_result sv spec)
                 (\<lambda>err. log_op ''zpool-create'' ''error'' (''create pool '' @ px_name spec @ '' failed: '' @ error_text err))
                 (log_op ''zpool-create'' ''info'' (''pool '' @ px_name spec @ '' created''))
                 (log_op ''zpool-create'' ''info'' (''creating pool '' @ px_name spec @ '' with '' @ itoa (int (length (px_vdevs spec))) @
                    '' vdevs (force='' @ (if px_force spec then ''true'' else ''false'') @ '')'') s))"

definition handle_list_importable :: "zagent \<Rightarrow> string \<Rightarrow> handler" where
  "handle_list_importable sv dirs s =
     (case list_importable_pools (za_host sv) (za_engine sv) (split_csv_param dirs) (zg_tr s) of
        (Inl err, tr) \<Rightarrow> ((502, AgError (error_text err)), s\<lparr>zg_tr := tr\<rparr>)
      | (Inr ps, tr) \<Rightarrow> ((200, AgImportable ps), s\<lparr>zg_tr := tr\<rparr>))"

definition handle_import_pool :: "zagent \<Rightarrow> string \<Rightarrow> import_options \<Rightarrow> string \<Rightarrow> handler" where
  "handle_import_pool sv name0 opts confirm s =
     (let name = trim_space name0 in
      if name = [] then reject 400 ''name is required'' s
      else if io_force opts \<and> confirm \<noteq> name
      then reject 400 ''force import is red-tier: send confirm=<pool name or id> to apply'' s
      else answer_call (import_pool (za_host sv) (za_engine sv) name opts)
             (\<lambda>err. log_op ''zpool-import'' ''error'' (''import '' @ name @ '' failed: '' @ error_text err))
             (log_op ''zpool-import'' ''info'' (''pool '' @ name @ '' imported''))
             (log_op ''zpool-import'' ''info'' (''importing pool '' @ name) s))"

definition handle_export_pool :: "zagent \<Rightarrow> string \<Rightarrow> bool \<Rightarrow> string \<Rightarrow> handler" where
  "handle_export_pool sv pool0 force confirm s =
     (let pool = trim_space pool0 in
      if pool = [] then reject 400 ''pool is required'' s
      else if confirm \<noteq> pool then reject 400 ''export is red-tier: send confirm=<pool name> to apply'' s
      else answer_call (export_pool (za_host sv) (za_engine sv) pool force)
             (\<lambda>err. log_op ''zpool-export'' ''error'' (''export '' @ pool @ '' failed: '' @ error_text err))
             (log_op ''zpool-export'' ''info'' (''pool '' @ pool @ '' exported''))
             (log_op ''zpool-export'' ''info'' (''exporting pool '' @ pool) s))"

section \<open>Cleaning up\<close>

text \<open>The cutoff: the number of days is a duration of 64 bits in nanoseconds. Creation times are
  seconds, far from the bounds of a time.\<close>

definition cleanup_cutoff :: "int \<Rightarrow> int \<Rightarrow> int" where
  "cleanup_cutoff now days = now + wrap64 (wrap64 (wrap64 (- days) * 24) * 3600000000000)"

definition created_before :: "int \<Rightarrow> zfs_snapshot \<Rightarrow> bool" where
  "created_before cutoff sn =
     (case atoi_full (sn_creation sn) of
        (epoch, None) \<Rightarrow> epoch * 1000000000 < cutoff
      | (_, Some _) \<Rightarrow> False)"

definition handle_retention_cleanup :: "zagent \<Rightarrow> int \<Rightarrow> string \<Rightarrow> int \<Rightarrow> string \<Rightarrow> handler" where
  "handle_retention_cleanup sv now dataset days confirm s =
     (if dataset = [] \<or> days \<le> 0 then reject 400 ''dataset and older_than_days are required'' s
      else if confirm \<noteq> dataset then reject 400 ''type the dataset name to confirm cleanup'' s
      else case list_snapshots (za_host sv) (za_engine sv) (zg_tr s) of
        (Inl err, tr) \<Rightarrow> ((500, AgError (''failed to list snapshots: '' @ error_text err)), s\<lparr>zg_tr := tr\<rparr>)
      | (Inr sns, tr) \<Rightarrow>
          (case destroy_each (za_host sv) (za_engine sv)
                  (filter (\<lambda>sn. sn_dataset sn = dataset \<and> created_before (cleanup_cutoff now days) sn) sns) tr of
             (n, tr') \<Rightarrow> ((200, AgDeleted n), s\<lparr>zg_tr := tr', zg_refresh := Suc (zg_refresh s)\<rparr>)))"

section \<open>Requests\<close>

datatype agent_request =
    CreateDataset string string string "(string \<times> string) list" string string
  | EditDataset string "(string \<times> string) list" string
  | DeleteDataset string string bool
  | CreateSnapshot string string bool
  | DeleteSnapshot string string
  | RollbackSnapshot string string string
  | StartScrub string
  | PauseScrub string
  | CancelScrub string
  | ReplaceDevice string string string string
  | AddVdev string string "string list" string
  | OfflineDevice string string
  | OnlineDevice string string
  | IdentifyDevice string string
  | ClearErrors string string
  | GetDatasetProps string string
  | GetPoolProps string string
  | SetPoolProps string "(string \<times> string) list" string
  | CreatePool pool_form bool
  | ListImportable string
  | ImportPool string import_options string
  | ExportPool string bool string
  | RetentionCleanup string int string

fun handle_request :: "zagent \<Rightarrow> int \<Rightarrow> agent_request \<Rightarrow> handler" where
  "handle_request sv now (CreateDataset parent name preset props quota reserv) = handle_create_dataset sv parent name preset props quota reserv"
| "handle_request sv now (EditDataset name props confirm) = handle_edit_dataset sv name props confirm"
| "handle_request sv now (DeleteDataset name confirm recursive) = handle_delete_dataset sv name confirm recursive"
| "handle_request sv now (CreateSnapshot dataset name recursive) = handle_create_snapshot sv now dataset name recursive"
| "handle_request sv now (DeleteSnapshot name confirm) = handle_delete_snapshot sv name confirm"
| "handle_request sv now (RollbackSnapshot name depth confirm) = handle_rollback sv name depth confirm"
| "handle_request sv now (StartScrub pool) = handle_start_scrub sv pool"
| "handle_request sv now (PauseScrub pool) = handle_pause_scrub sv pool"
| "handle_request sv now (CancelScrub pool) = handle_cancel_scrub sv pool"
| "handle_request sv now (ReplaceDevice pool old new confirm) = handle_replace_device sv now pool old new confirm"
| "handle_request sv now (AddVdev pool ty devices confirm) = handle_add_vdev sv pool ty devices confirm"
| "handle_request sv now (OfflineDevice pool dev) = handle_offline_device sv pool dev"
| "handle_request sv now (OnlineDevice pool dev) = handle_online_device sv pool dev"
| "handle_request sv now (IdentifyDevice dev mode) = handle_identify_device sv dev mode"
| "handle_request sv now (ClearErrors pool dev) = handle_clear_errors sv pool dev"
| "handle_request sv now (GetDatasetProps name keys) = handle_get_dataset_properties sv name keys"
| "handle_request sv now (GetPoolProps pool keys) = handle_get_pool_properties sv pool keys"
| "handle_request sv now (SetPoolProps pool props confirm) = handle_set_pool_properties sv pool props confirm"
| "handle_request sv now (CreatePool form preview) = handle_create_pool sv form preview"
| "handle_request sv now (ListImportable dirs) = handle_list_importable sv dirs"
| "handle_request sv now (ImportPool name opts confirm) = handle_import_pool sv name opts confirm"
| "handle_request sv now (ExportPool pool force confirm) = handle_export_pool sv pool force confirm"
| "handle_request sv now (RetentionCleanup dataset days confirm) = handle_retention_cleanup sv now dataset days confirm"

definition serve :: "zagent \<Rightarrow> int \<Rightarrow> string \<Rightarrow> agent_request option \<Rightarrow> handler" where
  "serve sv now auth req s =
     (case guard_psk sv auth of
        Some (st, msg) \<Rightarrow> reject st msg s
      | None \<Rightarrow> (case req of None \<Rightarrow> reject 400 ''invalid request body'' s | Some r \<Rightarrow> handle_request sv now r s))"

end
