(* ===== verification/ZfsGuards.thy ===== *)
theory ZfsGuards
  imports ZfsServer ZfsRuns
begin

text \<open>
  What the requests to the ZFS agent can do: which calls a handler adds to the log, the
  confirmation and validation behind every call that destroys, replaces, releases or changes
  something, and the two ways around them.
\<close>

section \<open>Calls that need a reason\<close>

fun guarded :: "zx_call \<Rightarrow> bool" where
  "guarded (Cmd bin args) \<longleftrightarrow>
     (case args of [] \<Rightarrow> False | a # _ \<Rightarrow> a \<in> {''destroy'', ''rollback'', ''replace'', ''add'', ''export'', ''set''})"
| "guarded (Pipe stages) \<longleftrightarrow> False"

definition sets_property :: "prop_scope \<Rightarrow> string \<Rightarrow> (string \<times> string) list \<Rightarrow> string \<Rightarrow> string list \<Rightarrow> bool" where
  "sets_property sc name props confirm args \<longleftrightarrow>
     (\<exists>(k, v) \<in> set props. args = [''set'', k @ ''='' @ v, name] \<and> validate_property property_catalog sc k v = None \<and>
        (\<exists>d. find_prop property_catalog sc k = Some d \<and> (pd_tier d \<noteq> TierRed \<or> confirm = name)))"

fun allows :: "agent_request \<Rightarrow> zx_call \<Rightarrow> bool" where
  "allows (EditDataset name props confirm) (Cmd bin args) \<longleftrightarrow> sets_property ScopeDataset name props confirm args"
| "allows (SetPoolProps pool props confirm) (Cmd bin args) \<longleftrightarrow> sets_property ScopePool pool props confirm args"
| "allows (DeleteDataset name confirm recursive) (Cmd bin args) \<longleftrightarrow>
     confirm = name \<and> args = ''destroy'' # (if recursive then [''-r''] else []) @ [name]"
| "allows (DeleteSnapshot name confirm) (Cmd bin args) \<longleftrightarrow>
     confirm = name \<and> str_contains name ''@'' \<and> args = [''destroy'', name]"
| "allows (RollbackSnapshot name depth confirm) (Cmd bin args) \<longleftrightarrow>
     confirm = hd (split_n2 (CHR ''@'') name) \<and> (\<exists>flags. args = ''rollback'' # flags @ [name])"
| "allows (ReplaceDevice pool old new confirm) (Cmd bin args) \<longleftrightarrow> confirm = pool \<and> args = [''replace'', pool, old, new]"
| "allows (AddVdev pool ty devices confirm) (Cmd bin args) \<longleftrightarrow> confirm = pool \<and> (\<exists>ws. args = ''add'' # pool # ws @ devices)"
| "allows (ExportPool pool force confirm) (Cmd bin args) \<longleftrightarrow>
     confirm = trim_space pool \<and> args = ''export'' # (if force then [''-f''] else []) @ [trim_space pool]"
| "allows (RetentionCleanup dataset days confirm) (Cmd bin args) \<longleftrightarrow>
     confirm = dataset \<and> days > 0 \<and> (\<exists>full. args = [''destroy'', full] \<and> hd (split_n2 (CHR ''@'') full) = dataset)"
| "allows _ _ \<longleftrightarrow> False"

text \<open>A call of the engine, and a handler, whose guarded calls all satisfy a predicate.\<close>

definition call_ok :: "(zx_call \<Rightarrow> bool) \<Rightarrow> (zx_log \<Rightarrow> 'r \<times> zx_log) \<Rightarrow> bool" where
  "call_ok P call \<longleftrightarrow> (\<forall>tr. \<exists>new. snd (call tr) = tr @ new \<and> list_all P (filter guarded new))"

definition handler_ok :: "(zx_call \<Rightarrow> bool) \<Rightarrow> handler \<Rightarrow> bool" where
  "handler_ok P f \<longleftrightarrow> (\<forall>s. \<exists>new. zg_tr (snd (f s)) = zg_tr s @ new \<and> list_all P (filter guarded new))"

lemma call_ok_zfs: "guarded (Cmd (en_zfs e) args) \<longrightarrow> P (Cmd (en_zfs e) args) \<Longrightarrow> call_ok P (zfs_command h e args)"
  by (simp add: call_ok_def zfs_command_def run_zfs_def zx_run_log)

lemma call_ok_zpool: "guarded (Cmd (en_zpool e) args) \<longrightarrow> P (Cmd (en_zpool e) args) \<Longrightarrow> call_ok P (zpool_command h e args)"
  by (simp add: call_ok_def zpool_command_def run_zpool_def zx_run_log)

lemma call_ok_run_zfs: "\<not> guarded (Cmd (en_zfs e) args) \<Longrightarrow> call_ok P (run_zfs h e args)"
  by (simp add: call_ok_def run_zfs_def zx_run_log)

lemma call_ok_run_zpool: "\<not> guarded (Cmd (en_zpool e) args) \<Longrightarrow> call_ok P (run_zpool h e args)"
  by (simp add: call_ok_def run_zpool_def zx_run_log)

text \<open>What is made of the answer of a call does not matter.\<close>

lemma call_ok_map: "call_ok P call \<Longrightarrow> (\<And>tr. snd (g tr) = snd (call tr)) \<Longrightarrow> call_ok P g"
  by (simp add: call_ok_def)

lemma call_ok_none: "call_ok P (\<lambda>tr. (r, tr))"
  by (simp add: call_ok_def)

lemma call_ok_some [intro]: "call_ok P op \<Longrightarrow> call_ok P (some_result op)"
  by (simp add: call_ok_def some_result_def case_prod_beta)

lemma handler_ok_reject [simp, intro]: "handler_ok P (reject st msg)"
  by (simp add: handler_ok_def reject_def)

lemma answer_call_tr:
  assumes "\<And>err s. zg_tr (fl err s) = zg_tr s" and "\<And>s. zg_tr (dl s) = zg_tr s"
  shows "zg_tr (snd (answer_call call fl dl s)) = snd (call (zg_tr s))"
  using assms by (simp add: answer_call_def split: prod.split option.split)

lemma handler_ok_answer_call:
  assumes "call_ok P call" and "\<And>err s. zg_tr (fl err s) = zg_tr s" and "\<And>s. zg_tr (dl s) = zg_tr s"
  shows "handler_ok P (answer_call call fl dl)"
  unfolding handler_ok_def
proof
  fix s :: zagent_state
  obtain new where "snd (call (zg_tr s)) = zg_tr s @ new" "list_all P (filter guarded new)"
    using assms(1) unfolding call_ok_def by blast
  moreover have "zg_tr (snd (answer_call call fl dl s)) = snd (call (zg_tr s))"
    by (rule answer_call_tr [OF assms(2,3)])
  ultimately show "\<exists>new. zg_tr (snd (answer_call call fl dl s)) = zg_tr s @ new \<and> list_all P (filter guarded new)"
    by auto
qed

lemma handler_ok_answer [intro]: "call_ok P call \<Longrightarrow> handler_ok P (answer call)"
  unfolding answer_def by (rule handler_ok_answer_call) simp_all

text \<open>A handler that logs before it runs.\<close>

lemma handler_ok_before:
  assumes "handler_ok P f" and "\<And>s. zg_tr (l s) = zg_tr s"
  shows "handler_ok P (\<lambda>s. f (l s))"
  unfolding handler_ok_def
proof
  fix s :: zagent_state
  obtain new where "zg_tr (snd (f (l s))) = zg_tr (l s) @ new" "list_all P (filter guarded new)"
    using assms(1) unfolding handler_ok_def by blast
  then show "\<exists>new. zg_tr (snd (f (l s))) = zg_tr s @ new \<and> list_all P (filter guarded new)"
    using assms(2) by auto
qed

lemma handler_ok_if: "(c \<Longrightarrow> handler_ok P f) \<Longrightarrow> (\<not> c \<Longrightarrow> handler_ok P g) \<Longrightarrow> handler_ok P (\<lambda>s. if c then f s else g s)"
  by (cases c) simp_all

lemma handler_ok_If: "(c \<Longrightarrow> handler_ok P f) \<Longrightarrow> (\<not> c \<Longrightarrow> handler_ok P g) \<Longrightarrow> handler_ok P (if c then f else g)"
  by simp

lemma log_op_tr [simp]: "zg_tr (log_op src level msg s) = zg_tr s"
  by (simp add: log_op_def)

text \<open>A handler that only answers with what a call gives.\<close>

lemma handler_ok_reply:
  assumes "call_ok P call" and "\<And>s. zg_tr (snd (f s)) = snd (call (zg_tr s))"
  shows "handler_ok P f"
  using assms unfolding handler_ok_def call_ok_def by metis

section \<open>The operations\<close>

lemma call_ok_set_dataset:
  "\<forall>(k, v) \<in> set props. P (Cmd (en_zfs e) [''set'', k @ ''='' @ v, name]) \<Longrightarrow>
     call_ok P (set_properties_loop h e name outs lastcmd props)"
proof (induction props arbitrary: outs lastcmd)
  case Nil
  then show ?case by (simp add: call_ok_def)
next
  case (Cons p props)
  obtain k v where p: "p = (k, v)" by (cases p)
  let ?c = "Cmd (en_zfs e) [''set'', k @ ''='' @ v, name]"
  have "\<exists>new. snd (set_properties_loop h e name outs lastcmd (p # props) tr) = tr @ new \<and> list_all P (filter guarded new)" for tr
  proof (cases "snd (fst (run_zfs h e [''set'', k @ ''='' @ v, name] tr))")
    case None
    let ?outs = "outs @ [fst (fst (run_zfs h e [''set'', k @ ''='' @ v, name] tr))]"
    obtain new where "snd (set_properties_loop h e name ?outs (en_zfs e @ '' '' @ join_with '' '' [''set'', k @ ''='' @ v, name]) props (tr @ [?c])) =
        (tr @ [?c]) @ new" "list_all P (filter guarded new)"
      using Cons unfolding call_ok_def by fastforce
    then show ?thesis using None Cons.prems run_zfs_snd [of h e "[''set'', k @ ''='' @ v, name]" tr]
      by (intro exI [of _ "?c # new"]) (simp add: p Let_def case_prod_beta)
  next
    case (Some err)
    then show ?thesis using Cons.prems run_zfs_snd [of h e "[''set'', k @ ''='' @ v, name]" tr]
      by (intro exI [of _ "[?c]"]) (simp add: p Let_def case_prod_beta)
  qed
  then show ?case by (simp add: call_ok_def)
qed

lemma run_zpool_snd: "snd (run_zpool h e args tr) = tr @ [Cmd (en_zpool e) args]"
  by (simp add: run_zpool_def zx_run_log)

lemma call_ok_set_pool:
  "\<forall>(k, v) \<in> set props. P (Cmd (en_zpool e) [''set'', k @ ''='' @ v, name]) \<Longrightarrow>
     call_ok P (set_pool_loop h e name outs lastcmd props)"
proof (induction props arbitrary: outs lastcmd)
  case Nil
  then show ?case by (simp add: call_ok_def)
next
  case (Cons p props)
  obtain k v where p: "p = (k, v)" by (cases p)
  let ?c = "Cmd (en_zpool e) [''set'', k @ ''='' @ v, name]"
  have "\<exists>new. snd (set_pool_loop h e name outs lastcmd (p # props) tr) = tr @ new \<and> list_all P (filter guarded new)" for tr
  proof (cases "snd (fst (run_zpool h e [''set'', k @ ''='' @ v, name] tr))")
    case None
    let ?outs = "outs @ [fst (fst (run_zpool h e [''set'', k @ ''='' @ v, name] tr))]"
    obtain new where "snd (set_pool_loop h e name ?outs (en_zpool e @ '' '' @ join_with '' '' [''set'', k @ ''='' @ v, name]) props (tr @ [?c])) =
        (tr @ [?c]) @ new" "list_all P (filter guarded new)"
      using Cons unfolding call_ok_def by fastforce
    then show ?thesis using None Cons.prems run_zpool_snd [of h e "[''set'', k @ ''='' @ v, name]" tr]
      by (intro exI [of _ "?c # new"]) (simp add: p Let_def case_prod_beta)
  next
    case (Some err)
    then show ?thesis using Cons.prems run_zpool_snd [of h e "[''set'', k @ ''='' @ v, name]" tr]
      by (intro exI [of _ "[?c]"]) (simp add: p Let_def case_prod_beta)
  qed
  then show ?case by (simp add: call_ok_def)
qed

lemma call_ok_set_pool_properties:
  assumes "\<forall>(k, v) \<in> set props. P (Cmd (en_zpool e) [''set'', k @ ''='' @ v, pool])"
  shows "call_ok P (set_pool_properties h e pool props)"
  using call_ok_set_pool [OF assms, of h "[]" "[]"]
  by (simp add: call_ok_def set_pool_properties_def case_prod_beta)

lemma snapshot_dataset:
  assumes "list_snapshots h e tr = (Inr sns, tr')" and "sn \<in> set sns"
  shows "hd (split_n2 (CHR ''@'') (sn_full sn)) = sn_dataset sn"
proof -
  obtain out where "sn \<in> set (snapshot_rows out)"
    using assms by (auto simp: list_snapshots_def split: prod.splits option.splits)
  then obtain line where "sn \<in> set (snapshot_row line)" by (auto simp: snapshot_rows_def)
  then show ?thesis
    by (auto simp: snapshot_row_def Let_def split: if_splits list.splits) (metis list.sel(1))
qed

lemma list_snapshots_log: "snd (list_snapshots h e tr) = tr @ [Cmd (en_zfs e) [''list'', ''-Hp'', ''-o'',
    ''name,creation,used,referenced'', ''-t'', ''snapshot'', ''-s'', ''creation'']]"
  by (auto simp: list_snapshots_def dest!: run_zfs_eq split: prod.splits option.splits)

text \<open>What the validation of a change leaves.\<close>

lemma first_invalid_None:
  "first_invalid sc props = None \<Longrightarrow> (k, v) \<in> set props \<Longrightarrow> validate_property property_catalog sc k v = None"
  by (induction sc props rule: first_invalid.induct) (auto split: option.splits)

lemma sets_property_checked:
  assumes "first_invalid sc props = None" and "classify_change property_catalog sc props \<noteq> TierRed \<or> confirm = name"
    and "(k, v) \<in> set props"
  shows "sets_property sc name props confirm [''set'', k @ ''='' @ v, name]"
proof -
  have v: "validate_property property_catalog sc k v = None" by (rule first_invalid_None [OF assms(1,3)])
  then obtain d where d: "find_prop property_catalog sc k = Some d" by (auto simp: validate_property_def split: option.splits)
  have "k \<in> set (map fst props)" using assms(3) by force
  then have "pd_tier d \<noteq> TierRed \<or> confirm = name"
    using assms(2) classify_red [OF _ d] unfolding classify_change_def by blast
  then show ?thesis using assms(3) v d unfolding sets_property_def by fast
qed

section \<open>What the requests can do\<close>

lemma handler_ok_cleanup:
  "handler_ok (allows (RetentionCleanup dataset days confirm)) (handle_retention_cleanup sv now dataset days confirm)"
  unfolding handler_ok_def
proof
  fix s :: zagent_state
  let ?h = "za_host sv" and ?e = "za_engine sv"
  show "\<exists>new. zg_tr (snd (handle_retention_cleanup sv now dataset days confirm s)) = zg_tr s @ new \<and>
      list_all (allows (RetentionCleanup dataset days confirm)) (filter guarded new)"
  proof (cases "dataset = [] \<or> days \<le> 0 \<or> confirm \<noteq> dataset")
    case True
    then show ?thesis by (auto simp: handle_retention_cleanup_def reject_def)
  next
    case False
    obtain r tr where l: "list_snapshots ?h ?e (zg_tr s) = (r, tr)" by (metis surj_pair)
    then have tr: "tr = zg_tr s @ [Cmd (en_zfs ?e) [''list'', ''-Hp'', ''-o'',
        ''name,creation,used,referenced'', ''-t'', ''snapshot'', ''-s'', ''creation'']]"
      using list_snapshots_log [of ?h ?e "zg_tr s"] by simp
    show ?thesis
    proof (cases r)
      case (Inl err)
      then show ?thesis using False l tr by (simp add: handle_retention_cleanup_def)
    next
      case (Inr sns)
      let ?gone = "filter (\<lambda>sn. sn_dataset sn = dataset \<and> created_before (cleanup_cutoff now days) sn) sns"
      let ?calls = "map (\<lambda>s. Cmd (en_zfs ?e) [''destroy'', sn_full s]) ?gone"
      have "zg_tr (snd (handle_retention_cleanup sv now dataset days confirm s)) = tr @ ?calls"
        using False l Inr destroy_each_log [of ?h ?e ?gone tr] by (simp add: handle_retention_cleanup_def case_prod_beta)
      moreover have "list_all (allows (RetentionCleanup dataset days confirm)) (filter guarded ?calls)"
        using False snapshot_dataset [OF l [unfolded Inr]] by (auto simp: list_all_iff)
      ultimately show ?thesis unfolding tr
        by (intro exI [of _ "Cmd (en_zfs ?e) [''list'', ''-Hp'', ''-o'', ''name,creation,used,referenced'', ''-t'', ''snapshot'',
          ''-s'', ''creation''] # ?calls"]) simp
    qed
  qed
qed

lemma created_result_tr: "snd (created_result sv spec tr) = snd (create_pool (za_host sv) (za_engine sv) spec tr)"
  by (simp add: created_result_def split: prod.split option.split)

lemma call_ok_create_pool: "call_ok P (created_result sv spec)"
proof -
  have "\<not> guarded (Cmd b (create_pool_args spec))" for b by (simp add: create_pool_args_def)
  then show ?thesis
    by (auto simp: call_ok_def created_result_tr create_pool_def case_prod_beta run_zpool_snd split: option.split)
qed

lemma handler_ok_create_pool: "handler_ok P (handle_create_pool sv form preview)"
proof -
  have "handler_ok P (answer_call (created_result sv spec) (\<lambda>err. log_op a b (c err)) (log_op d x y))" for spec a b c d x y
    by (rule handler_ok_answer_call [OF call_ok_create_pool]) simp_all
  from handler_ok_before [OF this, of "log_op u v w" for u v w] show ?thesis
    by (simp add: handler_ok_def handle_create_pool_def Let_def reject_def split: option.split)
qed

lemma call_ok_import: "call_ok P (import_pool h e name opts)"
  by (simp add: call_ok_def import_pool_def zpool_command_def case_prod_beta run_zpool_snd)

lemma call_ok_export: "P (Cmd (en_zpool e) (''export'' # (if force then [''-f''] else []) @ [name])) \<Longrightarrow> call_ok P (export_pool h e name force)"
  by (auto simp: call_ok_def export_pool_def zpool_command_def case_prod_beta run_zpool_snd)

lemmas handler_defs =
  handle_create_dataset_def handle_edit_dataset_def handle_delete_dataset_def handle_create_snapshot_def
  handle_delete_snapshot_def handle_rollback_def handle_pause_scrub_def handle_cancel_scrub_def handle_add_vdev_def
  handle_offline_device_def handle_online_device_def handle_clear_errors_def

lemmas engine_op_defs =
  create_dataset_def destroy_dataset_def create_snapshot_def destroy_snapshot_def rollback_snapshot_def
  start_scrub_def pause_scrub_def cancel_scrub_def replace_device_def add_vdev_def offline_device_def
  online_device_def clear_errors_def

lemma handler_ok_datasets:
  "handler_ok P (handle_create_dataset sv parent name preset props quota reserv)"
  "handler_ok P (handle_create_snapshot sv now dataset name recursive)"
  "handler_ok P (handle_pause_scrub sv pool)" "handler_ok P (handle_cancel_scrub sv pool)"
  "handler_ok P (handle_offline_device sv pool dev)" "handler_ok P (handle_online_device sv pool dev)"
  "handler_ok P (handle_clear_errors sv pool dev)"
  unfolding handler_defs engine_op_defs
  by (intro handler_ok_If handler_ok_answer call_ok_some handler_ok_reject; (rule call_ok_zfs call_ok_zpool; simp))+

lemma handler_ok_confirmed:
  "handler_ok (allows (DeleteDataset name confirm recursive)) (handle_delete_dataset sv name confirm recursive)"
  "handler_ok (allows (DeleteSnapshot name confirm)) (handle_delete_snapshot sv name confirm)"
  "handler_ok (allows (RollbackSnapshot name depth confirm)) (handle_rollback sv name depth confirm)"
  "handler_ok (allows (AddVdev pool ty devices confirm)) (handle_add_vdev sv pool ty devices confirm)"
  unfolding handler_defs engine_op_defs
  by (intro handler_ok_If handler_ok_answer call_ok_some handler_ok_reject; (rule call_ok_zfs call_ok_zpool; simp))+

lemma handler_ok_edits:
  "handler_ok (allows (EditDataset name props confirm)) (handle_edit_dataset sv name props confirm)"
  "handler_ok (allows (SetPoolProps pool props confirm)) (handle_set_pool_properties sv pool props confirm)"
proof -
  show "handler_ok (allows (EditDataset name props confirm)) (handle_edit_dataset sv name props confirm)"
    using sets_property_checked [of ScopeDataset props confirm name] unfolding handle_edit_dataset_def set_dataset_properties_def
    by (auto split: option.split intro!: handler_ok_answer call_ok_some call_ok_set_dataset)
  show "handler_ok (allows (SetPoolProps pool props confirm)) (handle_set_pool_properties sv pool props confirm)"
    using sets_property_checked [of ScopePool props confirm pool] unfolding handle_set_pool_properties_def
    by (auto split: option.split intro!: handler_ok_answer call_ok_set_pool_properties)
qed

lemma handler_ok_log:
  assumes "call_ok P call" and "\<And>err s. zg_tr (fl err s) = zg_tr s" and "\<And>s. zg_tr (dl s) = zg_tr s"
  shows "handler_ok P (\<lambda>s. answer_call call fl dl (log_op u v w s))"
  using handler_ok_before [OF handler_ok_answer_call [OF assms]] by simp

lemma handler_ok_start_scrub: "handler_ok P (handle_start_scrub sv pool)"
  unfolding handle_start_scrub_def [abs_def] start_scrub_def
  by (intro handler_ok_if handler_ok_reject handler_ok_log call_ok_some) (auto intro!: call_ok_zpool)

lemma handler_ok_replace:
  "handler_ok (allows (ReplaceDevice pool old new confirm)) (handle_replace_device sv now pool old new confirm)"
  unfolding handle_replace_device_def [abs_def] replace_device_def
  by (intro handler_ok_if handler_ok_reject handler_ok_log call_ok_some) (auto intro!: call_ok_zpool)

lemma handler_ok_pools:
  "handler_ok P (handle_import_pool sv name opts confirm)"
  "handler_ok (allows (ExportPool pool force confirm)) (handle_export_pool sv pool force confirm)"
  unfolding handle_import_pool_def [abs_def] handle_export_pool_def [abs_def] Let_def
  by (intro handler_ok_if handler_ok_reject handler_ok_log; auto intro: call_ok_import call_ok_export)+

lemma handler_ok_readers:
  "handler_ok P (handle_identify_device sv dev mode)" "handler_ok P (handle_get_dataset_properties sv name keys)"
  "handler_ok P (handle_get_pool_properties sv pool keys)" "handler_ok P (handle_list_importable sv dirs)"
proof -
  have arg: "\<not> guarded (Cmd b [ledctl_arg d m])" for b d m
    by (cases "m = ''off''") (simp_all add: ledctl_arg_def)
  have "zg_tr (snd (handle_identify_device sv dev mode s)) = zg_tr s \<or>
      (\<exists>b d m. zg_tr (snd (handle_identify_device sv dev mode s)) = zg_tr s @ [Cmd b [ledctl_arg d m]])" for s
    by (auto simp: handle_identify_device_def identify_device_def reject_def case_prod_beta zx_run_log split: option.split)
  then have "\<exists>new. zg_tr (snd (handle_identify_device sv dev mode s)) = zg_tr s @ new \<and> filter guarded new = []" for s
    using arg by (metis append_Nil2 filter.simps(1,2))
  then show "handler_ok P (handle_identify_device sv dev mode)"
    unfolding handler_ok_def by (metis list.pred_inject(1))
  show "handler_ok P (handle_get_dataset_properties sv name keys)"
    by (simp add: handler_ok_def handle_get_dataset_properties_def get_dataset_properties_def reject_def get_args_def case_prod_beta
        run_zfs_snd split: option.split sum.split)
  show "handler_ok P (handle_get_pool_properties sv pool keys)"
    by (simp add: handler_ok_def handle_get_pool_properties_def get_pool_properties_def reject_def get_args_def case_prod_beta
        run_zpool_snd split: option.split sum.split)
  show "handler_ok P (handle_list_importable sv dirs)"
    by (simp add: handler_ok_def handle_list_importable_def list_importable_pools_def case_prod_beta
        run_zpool_snd split: option.split sum.split)
qed

text \<open>C3. No request does harm unasked: every call that destroys, rolls back, replaces, adds or
  exports something, or sets a property, is made for an authorised request of that kind which
  names its object in its confirmation, aims at exactly that object (a clean-up: at snapshots of
  exactly that dataset), and sets only values that the catalog allows, those of the red tier only
  with the confirmation.\<close>

theorem no_unconfirmed_harm:
  "\<exists>new. zg_tr (snd (serve sv now auth req s)) = zg_tr s @ new \<and>
     list_all (\<lambda>c. guard_psk sv auth = None \<and> (\<exists>q. req = Some q \<and> allows q c)) (filter guarded new)"
proof -
  have all: "handler_ok (allows q) (handle_request sv now q)" for q
    by (cases q) (simp_all add: handler_ok_datasets handler_ok_confirmed handler_ok_edits handler_ok_cleanup handler_ok_create_pool
        handler_ok_start_scrub handler_ok_replace handler_ok_pools handler_ok_readers)
  show ?thesis
  proof (cases "guard_psk sv auth")
    case None
    show ?thesis
    proof (cases req)
      case None
      then show ?thesis by (simp add: serve_def reject_def split: option.split)
    next
      case (Some q)
      with \<open>guard_psk sv auth = None\<close> all [of q] show ?thesis by (simp add: serve_def handler_ok_def)
    qed
  next
    case (Some r)
    then show ?thesis by (simp add: serve_def reject_def split: prod.split)
  qed
qed

section \<open>Around the guards\<close>

text \<open>The number of days is multiplied out in nanoseconds of 64 bits: from 106752 days on, 292 years,
  the cutoff moves into the future.\<close>

lemma cutoff_in_future:
  assumes "106752 \<le> days" "days \<le> 213503"
  shows "now < cleanup_cutoff now days"
proof -
  have small: "wrap64 (- days) = - days" "wrap64 (- days * 24) = - days * 24"
    using assms by (auto intro!: wrap64_id simp: fits_int64_def int64_min_def int64_max_def)
  have "wrap64 (- days * 24 * 3600000000000) = - days * 24 * 3600000000000 + 2 ^ 64"
  proof -
    have "- days * 24 * 3600000000000 + 2 ^ 64 \<in> {1 .. 2 ^ 63 - 1}" using assms by auto
    then show ?thesis by (simp add: wrap64_def) (smt (verit) mod_add_self2 mod_pos_pos_trivial)
  qed
  then show ?thesis using small assms by (simp add: cleanup_cutoff_def)
qed

text \<open>C34. A clean-up of the snapshots older than 106752 to 213503 days, more than 292 years, destroys
  every snapshot of the dataset, also those taken just now.\<close>

theorem long_cleanup_destroys_all:
  assumes "106752 \<le> days" "days \<le> 213503" and "dataset \<noteq> []"
    and "list_snapshots (za_host sv) (za_engine sv) (zg_tr s) = (Inr sns, tr)"
    and "\<forall>sn \<in> set sns. \<exists>t. atoi_full (sn_creation sn) = (t, None) \<and> t * 1000000000 \<le> now"
  shows "zg_tr (snd (handle_retention_cleanup sv now dataset days dataset s)) =
    tr @ map (\<lambda>sn. Cmd (en_zfs (za_engine sv)) [''destroy'', sn_full sn]) (filter (\<lambda>sn. sn_dataset sn = dataset) sns)"
proof -
  have "created_before (cleanup_cutoff now days) sn" if "sn \<in> set sns" for sn
    using assms(5) that cutoff_in_future [OF assms(1,2), of now] by (force simp: created_before_def)
  then have "filter (\<lambda>sn. sn_dataset sn = dataset \<and> created_before (cleanup_cutoff now days) sn) sns =
      filter (\<lambda>sn. sn_dataset sn = dataset) sns"
    by (auto intro: filter_cong)
  then show ?thesis
    using assms(1,3,4) destroy_each_log [of "za_host sv" "za_engine sv" "filter (\<lambda>sn. sn_dataset sn = dataset) sns" tr]
    by (simp add: handle_retention_cleanup_def case_prod_beta)
qed

text \<open>The gate in front of a forced creation can be walked round: a device that is called like the
  option passes the validation, and the creation runs with the option although the request did not
  ask for force and confirmed nothing.\<close>

lemma unconfirmed_force:
  assumes "validate_pool_spec (to_spec form) = None" and "\<not> px_force (to_spec form)"
    and "v \<in> set (px_vdevs (to_spec form))" "vx_role v = RoleData" "''-f'' \<in> set (vx_devices v)"
    and "en_zpool (za_engine sv) \<noteq> []"
  shows "\<exists>args. zg_tr (snd (handle_create_pool sv form False s)) = zg_tr s @ [Cmd (en_zpool (za_engine sv)) args] \<and>
    hd args = ''create'' \<and> ''-f'' \<in> set args"
proof -
  let ?spec = "to_spec form" and ?e = "za_engine sv"
  have "zg_tr (snd (handle_create_pool sv form False s)) = zg_tr s @ [Cmd (en_zpool ?e) (create_pool_args ?spec)]"
    using assms(1,2) create_pool_runs [OF assms(1,6), of "za_host sv" "zg_tr s"]
    by (auto simp: handle_create_pool_def Let_def answer_call_tr created_result_tr)
  moreover have "''-f'' \<in> set (append_vdev_args (px_vdevs ?spec) RoleData)"
    using assms(3-5) by (force simp: append_vdev_args_def)
  then have "''-f'' \<in> set (create_pool_args ?spec)" by (simp add: create_pool_args_def)
  moreover have "hd (create_pool_args ?spec) = ''create''" by (simp add: create_pool_args_def)
  ultimately show ?thesis by blast
qed

section \<open>Sample agent\<close>

definition sample_agent :: zagent where
  "sample_agent = \<lparr>za_host = zfs_sample_host, za_engine = new_zfs_engine (\<lambda>_. []) [] [] [], za_psk = ''psk''\<rparr>"

definition idle_agent :: zagent_state where
  "idle_agent = \<lparr>zg_tr = [], zg_out = [], zg_refresh = 0\<rparr>"

definition sample_form :: "string list \<Rightarrow> pool_form" where
  "sample_form extra = \<lparr>pf_name = ''tank'', pf_vdevs = [], pf_data_type = ''mirror'', pf_data = [''/dev/sda'', ''/dev/sdb''] @ extra,
     pf_log_type = [], pf_log = [], pf_cache = [], pf_spare = [], pf_special_type = [], pf_special = [], pf_ashift = 12,
     pf_mount = [], pf_pool_props = [], pf_fs_props = [], pf_compression = ''lz4'', pf_atime = [], pf_recordsize = [],
     pf_autotrim = [], pf_force = False, pf_confirm = []\<rparr>"

theorem long_cleanup_destroys_all_witness:
  "zg_tr (snd (handle_retention_cleanup sample_agent 1700000100000000000 ''tank/a'' 106752 ''tank/a'' idle_agent)) =
     snd (list_snapshots zfs_sample_host (za_engine sample_agent) []) @
     [Cmd ''zfs'' [''destroy'', ''tank/a@auto-1''], Cmd ''zfs'' [''destroy'', ''tank/a@auto-2'']]"
proof -
  have l: "list_snapshots (za_host sample_agent) (za_engine sample_agent) (zg_tr idle_agent) =
      (Inr (snapshot_rows sample_rows), snd (list_snapshots zfs_sample_host (za_engine sample_agent) []))"
    by code_simp
  have old: "\<forall>sn \<in> set (snapshot_rows sample_rows). \<exists>t. atoi_full (sn_creation sn) = (t, None) \<and> t * 1000000000 \<le> 1700000100000000000"
  proof -
    have "list_all (\<lambda>sn. snd (atoi_full (sn_creation sn)) = None \<and> fst (atoi_full (sn_creation sn)) * 1000000000 \<le> 1700000100000000000)
        (snapshot_rows sample_rows)" by code_simp
    then show ?thesis unfolding list_all_iff by (metis prod.collapse)
  qed
  have f: "map (\<lambda>sn. Cmd (en_zfs (za_engine sample_agent)) [''destroy'', sn_full sn])
      (filter (\<lambda>sn. sn_dataset sn = ''tank/a'') (snapshot_rows sample_rows)) =
      [Cmd ''zfs'' [''destroy'', ''tank/a@auto-1''], Cmd ''zfs'' [''destroy'', ''tank/a@auto-2'']]" by code_simp
  show ?thesis using long_cleanup_destroys_all [OF _ _ _ l old, of 106752 "''tank/a''"] by (simp add: f)
qed

end
