(* ===== verification/ZfsPreview.thy ===== *)
theory ZfsPreview
  imports ZfsGuards
begin

text \<open>
  The preview of a command (\<^verbatim>\<open>handlePreview\<close> in \<^verbatim>\<open>zfs-manager/internal/agent/server.go\<close>) with its
  warnings (\<^verbatim>\<open>engine.go\<close>), and what it has to do with the command that runs. A panic of the parser
  of the pool layout is \<open>None\<close>.
\<close>

section \<open>Warnings (engine.go)\<close>

text \<open>The verb \<^verbatim>\<open>%.2f\<close> of a number that is finite and not negative.\<close>

definition two_decimals :: "float64 \<Rightarrow> string" where
  "two_decimals x =
     (case x of
        Fin q \<Rightarrow> (let n = round_even (q * 100) in itoa (n div 100) @ ''.'' @ pad_num 2 (n mod 100))
      | _ \<Rightarrow> [])"

definition human_bytes :: "int \<Rightarrow> string" where
  "human_bytes n =
     (let unit = (\<lambda>u name. two_decimals (f64_div (f64_of_int n) (f64_of_int u)) @ name) in
      if n \<ge> 1125899906842624 then unit 1125899906842624 '' PiB''
      else if n \<ge> 1099511627776 then unit 1099511627776 '' TiB''
      else if n \<ge> 1073741824 then unit 1073741824 '' GiB''
      else if n \<ge> 1048576 then unit 1048576 '' MiB''
      else if n \<ge> 1024 then unit 1024 '' KiB''
      else itoa n @ '' B'')"

definition device_size :: "zx_host \<Rightarrow> zfs_engine \<Rightarrow> string \<Rightarrow> zx_log \<Rightarrow> int \<times> zx_log" where
  "device_size h e dev tr =
     (if dev = [] then (0, tr)
      else case zx_run h ''lsblk'' [''-bndo'', ''SIZE'', if has_prefix dev ''/'' then dev else ''/dev/'' @ dev] tr of
        ((out, Some err), tr') \<Rightarrow> (0, tr')
      | ((out, None), tr') \<Rightarrow> (case str_fields out of [] \<Rightarrow> 0 | f # _ \<Rightarrow> parse_u64 f, tr'))"

definition check_replace_size :: "int \<Rightarrow> int \<Rightarrow> string \<Rightarrow> string \<Rightarrow> string list" where
  "check_replace_size old_size new_size old new =
     (if old_size = 0 \<or> new_size = 0 \<or> new_size \<ge> old_size then []
      else [''Replacement device '' @ new @ '' is smaller than '' @ old @ '' ('' @ human_bytes new_size @ '' vs '' @
            human_bytes old_size @ ''). ZFS will refuse this replace. Use a device of equal or larger size.''])"

definition normalize_vdev_type :: "string \<Rightarrow> string" where
  "normalize_vdev_type t = (let n = to_lower (trim_space t) in if n = [] \<or> n = ''stripe'' then ''disk'' else n)"

definition display_vdev_type :: "string \<Rightarrow> string" where
  "display_vdev_type t = (if t = ''disk'' then ''stripe'' else t)"

definition check_vdev_type_match :: "zfs_vdev list \<Rightarrow> string \<Rightarrow> string list" where
  "check_vdev_type_match vs proposed =
     (let seen = remdups (filter (\<lambda>t. t \<notin> {''cache'', ''log'', ''spare'', ''special''}) (map zv_type vs));
          n = normalize_vdev_type proposed
      in if seen = [] \<or> n \<in> set seen then []
         else [''This pool currently uses '' @ join_with ''/'' (sort (map display_vdev_type seen)) @
               '' vdev(s), but you're adding a '' @ display_vdev_type n @
               '' vdev. Mixing vdev types is unusual and not recommended '' @ [CHR 0xE2, CHR 0x80, CHR 0x94] @
               '' losing any single vdev destroys the entire pool, so a weaker vdev reduces the whole pool's redundancy.''])"

section \<open>The preview (server.go)\<close>

record preview_request =
  pq_action :: string
  pq_pool :: string
  pq_dataset :: string
  pq_parent :: string
  pq_name :: string
  pq_props :: "(string \<times> string) list"
  pq_preset :: string
  pq_quota :: string
  pq_reserv :: string
  pq_recursive :: bool
  pq_depth :: string
  pq_scrub_op :: string
  pq_old :: string
  pq_new :: string
  pq_device :: string
  pq_vdev_type :: string
  pq_devices :: "string list"
  pq_mode :: string
  pq_target :: string
  pq_dest :: string
  pq_base :: string
  pq_repl_mode :: string
  pq_host :: string
  pq_port :: int
  pq_user :: string
  pq_key :: string
  pq_kbps :: int

type_synonym preview_step = "zagent_state \<Rightarrow> ((nat \<times> agent_reply) \<times> zagent_state) option"

definition shown :: "string \<Rightarrow> string list \<Rightarrow> preview_step" where
  "shown cmd warnings s = Some ((200, AgPreview cmd warnings), s)"

definition refused :: "string \<Rightarrow> preview_step" where
  "refused msg s = Some ((400, AgError msg), s)"

definition preview_replace_warnings :: "zagent \<Rightarrow> preview_request \<Rightarrow> zx_log \<Rightarrow> string list \<times> zx_log" where
  "preview_replace_warnings sv p tr =
     (if pq_old p = [] \<or> pq_new p = [] then ([], tr)
      else let (old_size, tr1) = device_size (za_host sv) (za_engine sv) (pq_old p) tr;
               (new_size, tr2) = device_size (za_host sv) (za_engine sv) (pq_new p) tr1
           in (check_replace_size old_size new_size (pq_old p) (pq_new p), tr2))"

definition preview_add_vdev_warnings :: "zagent \<Rightarrow> preview_request \<Rightarrow> zx_log \<Rightarrow> string list option \<times> zx_log" where
  "preview_add_vdev_warnings sv p tr =
     (if pq_pool p = [] then (Some [], tr)
      else case list_pools (za_host sv) (za_engine sv) tr of
        (None, tr') \<Rightarrow> (None, tr')
      | (Some (Inl err), tr') \<Rightarrow> (Some [], tr')
      | (Some (Inr pools), tr') \<Rightarrow>
          (case List.find (\<lambda>x. zp_name x = pq_pool p) pools of
             None \<Rightarrow> (Some [], tr')
           | Some x \<Rightarrow> (Some (check_vdev_type_match (zp_vdevs x) (pq_vdev_type p)), tr')))"

definition preview_replication :: "zagent \<Rightarrow> int \<Rightarrow> preview_request \<Rightarrow> preview_step" where
  "preview_replication sv now p =
     (let e = za_engine sv; src = (if pq_dataset p = [] then pq_target p else pq_dataset p);
          snap = src @ ''@'' @ (if pq_name p = [] then ''repl-'' @ snap_stamp now else pq_name p)
      in if pq_repl_mode p = ''remote''
         then if pq_host p = [] \<or> pq_user p = [] \<or> pq_key p = [] \<or> pq_dest p = []
              then refused ''remote preview requires dest_host, dest_user, ssh_key_name, and dest_target''
              else if \<not> ssh_key_name_valid (pq_key p)
              then refused ''ssh_key_name must contain only letters, digits, '-', '_' (max 64 chars)''
              else (case remote_target_from_task e (pq_dest p) (pq_host p) (pq_user p) (if pq_port p = 0 then 22 else pq_port p)
                        (pq_key p) (pq_kbps p) of
                      Inl err \<Rightarrow> refused (error_text err)
                    | Inr tgt \<Rightarrow>
                        shown (build_remote_pipeline (en_zfs e) (if en_ssh e = [] then ''ssh'' else en_ssh e) snap (pq_base p) tgt)
                          ((if en_ssh e = []
                            then [''ssh was not found on this host '' @ [CHR 0xE2, CHR 0x80, CHR 0x94] @
                                  '' remote replication is unavailable. Install openssh-client on the agent.''] else []) @
                           (if pq_kbps p > 0 \<and> en_pv e = []
                            then [''pv was not found on this host '' @ [CHR 0xE2, CHR 0x80, CHR 0x94] @
                                  '' the bandwidth cap will be silently dropped at runtime. Install pv on the agent.''] else [])))
         else shown (build_pipeline (en_zfs e) snap (pq_base p) (pq_dest p))
                (if src \<noteq> [] \<and> src = pq_dest p
                 then [''Source and destination datasets are the same '' @ [CHR 0xE2, CHR 0x80, CHR 0x94] @
                       '' replication would overwrite itself.''] else []))"

text \<open>The body is decoded a second time for a pool: \<open>form\<close> is that second decoding. The
  properties of a dataset are shown in the order of their enumeration.\<close>

definition handle_preview :: "zagent \<Rightarrow> int \<Rightarrow> string + pool_form \<Rightarrow> preview_request \<Rightarrow> preview_step" where
  "handle_preview sv now form p s =
     (let e = za_engine sv; act = pq_action p in
      if act = ''create_pool'' then
        (case form of
           Inl err \<Rightarrow> refused (''invalid create_pool body: '' @ err) s
         | Inr f \<Rightarrow> shown (build_create_pool (en_zpool e) (to_spec f))
             (case validate_pool_spec (to_spec f) of None \<Rightarrow> [] | Some err \<Rightarrow> [error_text err]) s)
      else if act = ''create_dataset'' then
        shown (build_create_dataset (en_zfs e) (pq_parent p @ ''/'' @ pq_name p)
          (dataset_props (pq_preset p) (pq_props p) (pq_quota p) (pq_reserv p))) [] s
      else if act = ''destroy_dataset'' then shown (build_destroy_dataset (en_zfs e) (pq_name p) (pq_recursive p)) [] s
      else if act = ''create_snapshot'' then
        shown (build_snapshot (en_zfs e) (pq_dataset p)
          (if pq_name p = [] then ''manual-'' @ snap_stamp now else pq_name p) (pq_recursive p)) [] s
      else if act = ''destroy_snapshot'' then shown (en_zfs e @ '' destroy '' @ pq_name p) [] s
      else if act = ''rollback'' then
        shown (build_rollback (en_zfs e) (pq_name p) (if pq_depth p = [] then ''latest'' else pq_depth p)) [] s
      else if act = ''scrub'' then
        shown (build_scrub (en_zpool e) (pq_pool p) (if pq_scrub_op p = [] then ''start'' else pq_scrub_op p)) [] s
      else if act = ''set_properties'' then
        shown (join_with [CHR 0x0A] (map (\<lambda>(k, v). en_zfs e @ '' set '' @ k @ ''='' @ v @ '' '' @ pq_name p) (pq_props p))) [] s
      else if act = ''replace_device'' then
        (case preview_replace_warnings sv p (zg_tr s) of (w, tr) \<Rightarrow>
           shown (build_replace (en_zpool e) (pq_pool p) (pq_old p) (pq_new p)) w (s\<lparr>zg_tr := tr\<rparr>))
      else if act = ''add_vdev'' then
        (case preview_add_vdev_warnings sv p (zg_tr s) of
           (None, tr) \<Rightarrow> None
         | (Some w, tr) \<Rightarrow> shown (build_add_vdev (en_zpool e) (pq_pool p) (pq_vdev_type p) (pq_devices p)) w (s\<lparr>zg_tr := tr\<rparr>))
      else if act = ''offline_device'' then shown (build_offline (en_zpool e) (pq_pool p) (pq_device p)) [] s
      else if act = ''online_device'' then shown (build_online (en_zpool e) (pq_pool p) (pq_device p)) [] s
      else if act = ''clear_errors'' then shown (build_clear (en_zpool e) (pq_pool p) (pq_device p)) [] s
      else if act = ''identify_device'' then
        shown (build_identify (if en_ledctl e = [] then ''ledctl'' else en_ledctl e) (pq_device p) (pq_mode p))
          (if en_ledctl e = []
           then [''ledctl was not found on this host '' @ [CHR 0xE2, CHR 0x80, CHR 0x94] @
                 '' drive-bay LED identification is unavailable. Install ledmon (the ledctl package) on the agent host to enable this action.'']
           else []) s
      else if act = ''replication'' then preview_replication sv now p s
      else refused (''unknown action: '' @ act) s)"

section \<open>The preview of a request\<close>

definition blank_preview :: preview_request where
  "blank_preview =
     \<lparr>pq_action = [], pq_pool = [], pq_dataset = [], pq_parent = [], pq_name = [], pq_props = [], pq_preset = [],
      pq_quota = [], pq_reserv = [], pq_recursive = False, pq_depth = [], pq_scrub_op = [], pq_old = [], pq_new = [],
      pq_device = [], pq_vdev_type = [], pq_devices = [], pq_mode = [], pq_target = [], pq_dest = [], pq_base = [],
      pq_repl_mode = [], pq_host = [], pq_port = 0, pq_user = [], pq_key = [], pq_kbps = 0\<rparr>"

text \<open>The preview that a client asks for before it sends a request, with the same fields.\<close>

fun preview_of :: "agent_request \<Rightarrow> preview_request option" where
  "preview_of (CreateDataset parent name preset props quota reserv) =
     Some (blank_preview\<lparr>pq_action := ''create_dataset'', pq_parent := parent, pq_name := name, pq_preset := preset,
       pq_props := props, pq_quota := quota, pq_reserv := reserv\<rparr>)"
| "preview_of (DeleteDataset name confirm recursive) =
     Some (blank_preview\<lparr>pq_action := ''destroy_dataset'', pq_name := name, pq_recursive := recursive\<rparr>)"
| "preview_of (CreateSnapshot dataset name recursive) =
     Some (blank_preview\<lparr>pq_action := ''create_snapshot'', pq_dataset := dataset, pq_name := name, pq_recursive := recursive\<rparr>)"
| "preview_of (DeleteSnapshot name confirm) = Some (blank_preview\<lparr>pq_action := ''destroy_snapshot'', pq_name := name\<rparr>)"
| "preview_of (RollbackSnapshot name depth confirm) =
     Some (blank_preview\<lparr>pq_action := ''rollback'', pq_name := name, pq_depth := depth\<rparr>)"
| "preview_of (StartScrub pool) = Some (blank_preview\<lparr>pq_action := ''scrub'', pq_pool := pool\<rparr>)"
| "preview_of (PauseScrub pool) = Some (blank_preview\<lparr>pq_action := ''scrub'', pq_pool := pool, pq_scrub_op := ''pause''\<rparr>)"
| "preview_of (CancelScrub pool) = Some (blank_preview\<lparr>pq_action := ''scrub'', pq_pool := pool, pq_scrub_op := ''cancel''\<rparr>)"
| "preview_of (ReplaceDevice pool old new confirm) =
     Some (blank_preview\<lparr>pq_action := ''replace_device'', pq_pool := pool, pq_old := old, pq_new := new\<rparr>)"
| "preview_of (AddVdev pool ty devices confirm) =
     Some (blank_preview\<lparr>pq_action := ''add_vdev'', pq_pool := pool, pq_vdev_type := ty, pq_devices := devices\<rparr>)"
| "preview_of (OfflineDevice pool dev) = Some (blank_preview\<lparr>pq_action := ''offline_device'', pq_pool := pool, pq_device := dev\<rparr>)"
| "preview_of (OnlineDevice pool dev) = Some (blank_preview\<lparr>pq_action := ''online_device'', pq_pool := pool, pq_device := dev\<rparr>)"
| "preview_of (IdentifyDevice dev mode) =
     Some (blank_preview\<lparr>pq_action := ''identify_device'', pq_device := dev, pq_mode := mode\<rparr>)"
| "preview_of (ClearErrors pool dev) = Some (blank_preview\<lparr>pq_action := ''clear_errors'', pq_pool := pool, pq_device := dev\<rparr>)"
| "preview_of (CreatePool form preview) = Some (blank_preview\<lparr>pq_action := ''create_pool''\<rparr>)"
| "preview_of _ = None"

fun second_decoding :: "agent_request \<Rightarrow> string + pool_form" where
  "second_decoding (CreatePool form preview) = Inr form"
| "second_decoding _ = Inl []"

section \<open>Handlers that run one command\<close>

definition runs_one :: "string \<Rightarrow> handler \<Rightarrow> bool" where
  "runs_one p f \<longleftrightarrow>
     (\<forall>s st r s'. f s = ((st, AgResult (Some r)), s') \<longrightarrow>
        zr_command r = p \<and> (\<exists>c. zg_tr s' = zg_tr s @ [c] \<and> call_text c = p))"

definition call_runs :: "string \<Rightarrow> engine_call \<Rightarrow> bool" where
  "call_runs p call \<longleftrightarrow>
     (\<forall>tr. (\<exists>c. snd (call tr) = tr @ [c] \<and> call_text c = p) \<and>
           (\<forall>r. fst (fst (call tr)) = Some r \<longrightarrow> zr_command r = p))"

lemma call_runs_some: "runs_as op p \<Longrightarrow> call_runs p (some_result op)"
  by (simp add: runs_as_def call_runs_def some_result_def case_prod_beta)

lemma runs_one_reject: "runs_one p (reject st msg)"
  by (simp add: runs_one_def reject_def)

lemma runs_one_If: "(c \<Longrightarrow> runs_one p f) \<Longrightarrow> (\<not> c \<Longrightarrow> runs_one p g) \<Longrightarrow> runs_one p (if c then f else g)"
  by (cases c) simp_all

lemma runs_one_if: "(c \<Longrightarrow> runs_one p f) \<Longrightarrow> (\<not> c \<Longrightarrow> runs_one p g) \<Longrightarrow> runs_one p (\<lambda>s. if c then f s else g s)"
  by (cases c) simp_all

lemma runs_one_answer_call:
  assumes "call_runs p call" "\<And>err s. zg_tr (failed err s) = zg_tr s" "\<And>s. zg_tr (finished s) = zg_tr s"
  shows "runs_one p (answer_call call failed finished)"
  unfolding runs_one_def
proof (intro allI impI)
  fix s :: zagent_state and st r s'
  assume run: "answer_call call failed finished s = ((st, AgResult (Some r)), s')"
  obtain c where c: "snd (call (zg_tr s)) = zg_tr s @ [c]" "call_text c = p"
    using assms(1) by (auto simp: call_runs_def)
  have "fst (fst (call (zg_tr s))) = Some r" "zg_tr s' = snd (call (zg_tr s))"
    using run assms(2,3) by (auto simp: answer_call_def split: prod.splits option.splits)
  then show "zr_command r = p \<and> (\<exists>c. zg_tr s' = zg_tr s @ [c] \<and> call_text c = p)"
    using c assms(1) by (simp add: call_runs_def)
qed

lemma runs_one_answer: "runs_as op p \<Longrightarrow> runs_one p (answer (some_result op))"
  unfolding answer_def by (rule runs_one_answer_call) (simp_all add: call_runs_some)

lemma runs_one_before:
  assumes f: "runs_one p f" and g: "\<And>s. zg_tr (g s) = zg_tr s"
  shows "runs_one p (\<lambda>s. f (g s))"
  using f unfolding runs_one_def by (metis g)

lemma runs_one_log_op: "runs_one p f \<Longrightarrow> runs_one p (\<lambda>s. f (log_op src level msg s))"
  by (rule runs_one_before) simp_all

lemmas runs_one_intros = runs_one_reject runs_one_If runs_one_if runs_one_answer runs_one_log_op

lemma runs_one_start_scrub: "runs_one (build_scrub (en_zpool (za_engine sv)) pool ''start'') (handle_start_scrub sv pool)"
  unfolding handle_start_scrub_def
  by (intro runs_one_intros runs_one_answer_call call_runs_some) (simp_all add: preview_is_executed)

lemma runs_one_replace:
  "runs_one (build_replace (en_zpool (za_engine sv)) pool old new) (handle_replace_device sv now pool old new confirm)"
  unfolding handle_replace_device_def
  by (intro runs_one_intros runs_one_answer_call call_runs_some) (simp_all add: preview_is_executed)

lemma identify_runs:
  assumes "en_ledctl e \<noteq> []"
  shows "\<exists>r err. identify_device h e dev mode tr = ((Some r, err), tr @ [Cmd (en_ledctl e) [ledctl_arg dev mode]]) \<and>
    zr_command r = build_identify (en_ledctl e) dev mode"
proof -
  obtain r err tr' where o: "command_outcome (build_identify (en_ledctl e) dev mode) (zx_run h (en_ledctl e) [ledctl_arg dev mode] tr) = ((r, err), tr')"
    by (metis surj_pair)
  have "tr' = tr @ [Cmd (en_ledctl e) [ledctl_arg dev mode]]"
    using arg_cong [OF o, of snd] by (simp add: zx_run_log)
  moreover have "zr_command r = build_identify (en_ledctl e) dev mode"
    using arg_cong [OF o, of "\<lambda>x. zr_command (fst (fst x))"] by simp
  ultimately show ?thesis
    using assms o by (simp add: identify_device_def build_identify_def)
qed

lemma ledctl_arg_default: "ledctl_arg dev (if mode = [] then ''locate'' else mode) = ledctl_arg dev mode"
  by (simp add: ledctl_arg_def)

lemma runs_one_identify:
  "runs_one (build_identify (if en_ledctl (za_engine sv) = [] then ''ledctl'' else en_ledctl (za_engine sv)) dev mode)
     (handle_identify_device sv dev mode)"
proof (cases "en_ledctl (za_engine sv) = []")
  case True
  then show ?thesis by (simp add: runs_one_def handle_identify_device_def identify_device_def reject_def)
next
  case False
  have "zr_command r = build_identify (en_ledctl (za_engine sv)) dev mode \<and>
      (\<exists>c. zg_tr s' = zg_tr s @ [c] \<and> call_text c = build_identify (en_ledctl (za_engine sv)) dev mode)"
    if run: "handle_identify_device sv dev mode s = ((st, AgResult (Some r)), s')" for s :: zagent_state and s' st r
  proof -
    let ?mode = "if mode = [] then ''locate'' else mode"
    obtain r0 err where o: "identify_device (za_host sv) (za_engine sv) dev ?mode (zg_tr s) =
        ((Some r0, err), zg_tr s @ [Cmd (en_ledctl (za_engine sv)) [ledctl_arg dev ?mode]])"
      and c: "zr_command r0 = build_identify (en_ledctl (za_engine sv)) dev ?mode"
      using identify_runs [OF False, of "za_host sv" dev ?mode "zg_tr s"] by blast
    have "r = r0 \<and> zg_tr s' = zg_tr s @ [Cmd (en_ledctl (za_engine sv)) [ledctl_arg dev ?mode]]"
      using run unfolding handle_identify_device_def o by (auto simp: reject_def split: option.splits if_splits)
    then show ?thesis using c unfolding build_identify_def ledctl_arg_default by simp
  qed
  then show ?thesis using False by (simp add: runs_one_def)
qed

lemma runs_one_create_pool:
  assumes "en_zpool (za_engine sv) \<noteq> []"
  shows "runs_one (build_create_pool (en_zpool (za_engine sv)) (to_spec form)) (handle_create_pool sv form preview)"
proof (cases "validate_pool_spec (to_spec form)")
  case None
  have "call_runs (build_create_pool (en_zpool (za_engine sv)) (to_spec form)) (created_result sv (to_spec form))"
    unfolding call_runs_def
  proof
    fix tr
    obtain r err where "create_pool (za_host sv) (za_engine sv) (to_spec form) tr =
        ((Some r, err), tr @ [Cmd (en_zpool (za_engine sv)) (create_pool_args (to_spec form))])"
      and "zr_command r = call_text (Cmd (en_zpool (za_engine sv)) (create_pool_args (to_spec form)))"
      using create_pool_runs [OF None assms] by blast
    then show "(\<exists>c. snd (created_result sv (to_spec form) tr) = tr @ [c] \<and>
        call_text c = build_create_pool (en_zpool (za_engine sv)) (to_spec form)) \<and>
      (\<forall>r. fst (fst (created_result sv (to_spec form) tr)) = Some r \<longrightarrow>
        zr_command r = build_create_pool (en_zpool (za_engine sv)) (to_spec form))"
      by (simp add: created_result_def create_pool_preview [OF assms])
  qed
  then have "runs_one (build_create_pool (en_zpool (za_engine sv)) (to_spec form))
      (\<lambda>s. answer_call (created_result sv (to_spec form))
        (\<lambda>err. log_op src1 l1 (m1 err)) (log_op src2 l2 m2) (log_op src3 l3 m3 s))" for src1 l1 m1 src2 l2 m2 src3 l3 m3
    by (intro runs_one_log_op runs_one_answer_call) simp_all
  then show ?thesis
    using None by (auto simp: runs_one_def handle_create_pool_def reject_def Let_def)
next
  case (Some e)
  then show ?thesis by (simp add: runs_one_def handle_create_pool_def reject_def Let_def)
qed

section \<open>What a preview shows is what runs\<close>

text \<open>The command line that a request with a preview stands for.\<close>

fun command_shown :: "zagent \<Rightarrow> int \<Rightarrow> agent_request \<Rightarrow> string" where
  "command_shown sv now (CreateDataset parent name preset props quota reserv) =
     build_create_dataset (en_zfs (za_engine sv)) (parent @ ''/'' @ name) (dataset_props preset props quota reserv)"
| "command_shown sv now (DeleteDataset name confirm recursive) = build_destroy_dataset (en_zfs (za_engine sv)) name recursive"
| "command_shown sv now (CreateSnapshot dataset name recursive) =
     build_snapshot (en_zfs (za_engine sv)) dataset (if name = [] then ''manual-'' @ snap_stamp now else name) recursive"
| "command_shown sv now (DeleteSnapshot name confirm) = en_zfs (za_engine sv) @ '' destroy '' @ name"
| "command_shown sv now (RollbackSnapshot name depth confirm) =
     build_rollback (en_zfs (za_engine sv)) name (if depth = [] then ''latest'' else depth)"
| "command_shown sv now (StartScrub pool) = build_scrub (en_zpool (za_engine sv)) pool ''start''"
| "command_shown sv now (PauseScrub pool) = build_scrub (en_zpool (za_engine sv)) pool ''pause''"
| "command_shown sv now (CancelScrub pool) = build_scrub (en_zpool (za_engine sv)) pool ''cancel''"
| "command_shown sv now (ReplaceDevice pool old new confirm) = build_replace (en_zpool (za_engine sv)) pool old new"
| "command_shown sv now (AddVdev pool ty devices confirm) = build_add_vdev (en_zpool (za_engine sv)) pool ty devices"
| "command_shown sv now (OfflineDevice pool dev) = build_offline (en_zpool (za_engine sv)) pool dev"
| "command_shown sv now (OnlineDevice pool dev) = build_online (en_zpool (za_engine sv)) pool dev"
| "command_shown sv now (IdentifyDevice dev mode) =
     build_identify (if en_ledctl (za_engine sv) = [] then ''ledctl'' else en_ledctl (za_engine sv)) dev mode"
| "command_shown sv now (ClearErrors pool dev) = build_clear (en_zpool (za_engine sv)) pool dev"
| "command_shown sv now (CreatePool form preview) = build_create_pool (en_zpool (za_engine sv)) (to_spec form)"
| "command_shown sv now _ = []"

lemma preview_add_vdev:
  "pq_action p = ''add_vdev'' \<Longrightarrow>
     handle_preview sv now form p s =
       (case preview_add_vdev_warnings sv p (zg_tr s) of
          (None, tr) \<Rightarrow> None
        | (Some w, tr) \<Rightarrow> shown (build_add_vdev (en_zpool (za_engine sv)) (pq_pool p) (pq_vdev_type p) (pq_devices p)) w (s\<lparr>zg_tr := tr\<rparr>))"
  by (simp add: handle_preview_def Let_def split del: if_split)

lemma preview_shows:
  assumes "preview_of r = Some q"
  shows "(\<exists>w s'. handle_preview sv now (second_decoding r) q s = Some ((200, AgPreview (command_shown sv now r) w), s')) \<or>
    handle_preview sv now (second_decoding r) q s = None \<and> (\<exists>pool ty devices confirm. r = AddVdev pool ty devices confirm)"
proof (cases r)
  case (AddVdev pool ty devices confirm)
  then show ?thesis
    using assms preview_add_vdev [of "blank_preview\<lparr>pq_action := ''add_vdev'', pq_pool := pool, pq_vdev_type := ty, pq_devices := devices\<rparr>"
      sv now "second_decoding r" s] by (auto simp: blank_preview_def shown_def split: prod.splits option.splits)
next
  case (CreateSnapshot dataset name recursive)
  then show ?thesis
    using assms by (auto simp: handle_preview_def shown_def blank_preview_def Let_def cong: if_cong split del: if_split)
next
  case (RollbackSnapshot name depth confirm)
  then show ?thesis
    using assms by (auto simp: handle_preview_def shown_def blank_preview_def Let_def cong: if_cong split del: if_split)
qed (use assms in \<open>auto simp: handle_preview_def shown_def blank_preview_def Let_def case_prod_beta split del: if_split\<close>)

lemma destroy_snapshot_runs: "runs_as (destroy_snapshot h e full) (en_zfs e @ '' destroy '' @ full)"
  unfolding destroy_snapshot_def by (rule zfs_runs_as) simp

lemma request_runs_shown:
  assumes "preview_of r = Some q" and "en_zpool (za_engine sv) \<noteq> []"
  shows "runs_one (command_shown sv now r) (handle_request sv now r)"
  using assms
  by (cases r)
    (auto simp: handle_create_dataset_def handle_delete_dataset_def handle_create_snapshot_def handle_delete_snapshot_def
      handle_rollback_def handle_pause_scrub_def handle_cancel_scrub_def handle_add_vdev_def handle_offline_device_def
      handle_online_device_def handle_clear_errors_def preview_is_executed destroy_snapshot_runs
      simp del: append_Cons split del: if_split
      intro!: runs_one_intros runs_one_start_scrub runs_one_replace runs_one_create_pool runs_one_identify)



end
