(* ===== verification/ZfsTaskApi.thy ===== *)
theory ZfsTaskApi
  imports ZfsServer ZfsRuns
begin

text \<open>
  The handlers of the ZFS agent for scheduled tasks and replications
  (\<^verbatim>\<open>zfs-manager/internal/agent/server.go\<close>, \<^verbatim>\<open>server_replication.go\<close> and \<^verbatim>\<open>cron_validate.go\<close>), over the
  task table, the scheduler and the key files. Both cron parsers, the next run of an entry and the
  order of log lines of equal time are parameters. A run that a handler starts in its own goroutine
  is put into \<open>tp_runs\<close>; \<open>run_dispatched\<close> is what it then does.
\<close>

section \<open>State and replies\<close>

record task_api =
  ta_env :: zsched_env
  ta_cron5 :: "string \<Rightarrow> string option"
  ta_cron6 :: "string \<Rightarrow> string option"
  ta_next :: "zfs_cron \<Rightarrow> zfs_task \<Rightarrow> int"
  ta_keys :: key_io

datatype dispatched = RunJob zfs_task | RunReplication zfs_task

record task_state =
  tp_sched :: zsched_state
  tp_cron :: zfs_cron
  tp_files :: key_files
  tp_runs :: "dispatched list"

record log_line =
  ll_time :: string
  ll_level :: string
  ll_source :: string
  ll_message :: string

datatype task_reply =
    TkError string
  | TkCreated int
  | TkStatus string
  | TkTasks "(zfs_task \<times> string option) list"
  | TkJobs "zfs_job list"
  | TkLines "log_line list"
  | TkProbe bool string string
  | TkKey string string

type_synonym task_handler = "task_state \<Rightarrow> (nat \<times> task_reply) \<times> task_state"

definition task_reject :: "nat \<Rightarrow> string \<Rightarrow> task_handler" where
  "task_reject st msg s = ((st, TkError msg), s)"

text \<open>A statement on the database, and an operation of the engine, each followed by what the
  handler does with its result.\<close>

definition with_db :: "task_api \<Rightarrow> (string option \<Rightarrow> zfs_db \<Rightarrow> 'r \<times> zfs_db) \<Rightarrow> ('r \<Rightarrow> task_handler) \<Rightarrow> task_handler" where
  "with_db api f k s = (case zstmt (ta_env api) f (tp_sched s) of (r, sc) \<Rightarrow> k r (s\<lparr>tp_sched := sc\<rparr>))"

definition with_clock :: "task_api \<Rightarrow> (int \<Rightarrow> task_handler) \<Rightarrow> task_handler" where
  "with_clock api k s = (case read_clock (ta_env api) (tp_sched s) of (now, sc) \<Rightarrow> k now (s\<lparr>tp_sched := sc\<rparr>))"

definition with_call :: "(zx_log \<Rightarrow> 'r \<times> zx_log) \<Rightarrow> ('r \<Rightarrow> task_handler) \<Rightarrow> task_handler" where
  "with_call f k s = (case zcall f (tp_sched s) of (r, sc) \<Rightarrow> k r (s\<lparr>tp_sched := sc\<rparr>))"

text \<open>The reload of the scheduler; its error is only logged. Its query is a statement of its own.\<close>

definition reload_tasks :: "task_api \<Rightarrow> task_state \<Rightarrow> task_state" where
  "reload_tasks api s =
     (if \<not> zc_context (tp_cron s) then s
      else case zstmt (ta_env api) (\<lambda>drv db. (snd (reload_zfs (ta_cron6 api) drv db (tp_cron s)), db)) (tp_sched s) of
        (c, sc) \<Rightarrow> s\<lparr>tp_sched := sc, tp_cron := c\<rparr>)"

definition reloaded :: "task_api \<Rightarrow> nat \<Rightarrow> task_reply \<Rightarrow> task_handler" where
  "reloaded api st rep s = ((st, rep), reload_tasks api s)"

section \<open>Schedules (cron\_validate.go)\<close>

definition validate_schedule :: "task_api \<Rightarrow> string \<Rightarrow> string option" where
  "validate_schedule api expr =
     (let t = trim_space expr in
      if t = [] then Some ''schedule is required''
      else case ta_cron5 api t of
        Some e \<Rightarrow> Some (''invalid cron schedule '' @ go_quote t @ '': '' @ e)
      | None \<Rightarrow> None)"

section \<open>Snapshot and scrub tasks (server.go)\<close>

definition blank_task :: zfs_task where
  "blank_task =
     \<lparr>tk_id = 0, tk_type = [], tk_target = [], tk_schedule = [], tk_recursive = False, tk_enabled = False, tk_prefix = [],
      tk_retention = 0, tk_created = 0, tk_updated = 0, tk_dest = None, tk_mode = None, tk_last = None, tk_host = None,
      tk_port = None, tk_user = None, tk_key = None, tk_bandwidth = None, tk_manage = False, tk_bookmarks = False\<rparr>"

text \<open>The tasks with their next runs: of the entries of one task the last counts.\<close>

definition next_run :: "task_api \<Rightarrow> zfs_cron \<Rightarrow> int \<Rightarrow> string option" where
  "next_run api c i =
     map_option (\<lambda>t. rfc3339 (ta_next api c t)) (List.find (\<lambda>t. tk_id t = i) (rev (zc_entries c)))"

definition listed_tasks :: "task_api \<Rightarrow> (zfs_task \<Rightarrow> bool) \<Rightarrow> task_handler" where
  "listed_tasks api wanted =
     with_db api (\<lambda>drv db. (list_tasks drv db, db)) (\<lambda>r. case r of
       Inl e \<Rightarrow> task_reject 500 e
     | Inr ts \<Rightarrow> (\<lambda>s. ((200, TkTasks (map (\<lambda>t. (t, next_run api (tp_cron s) (tk_id t))) (filter wanted ts))), s)))"

definition handle_list_tasks :: "task_api \<Rightarrow> task_handler" where
  "handle_list_tasks api = listed_tasks api (\<lambda>t. tk_type t \<noteq> ''replication'')"

record task_form =
  tf_type :: string
  tf_target :: string
  tf_schedule :: string
  tf_recursive :: bool
  tf_enabled :: bool
  tf_prefix :: string
  tf_retention :: int

text \<open>The insert of a new task and the reload that both kinds of tasks end with.\<close>

definition insert_and_reload :: "task_api \<Rightarrow> zfs_task \<Rightarrow> task_handler" where
  "insert_and_reload api t =
     with_clock api (\<lambda>now. with_db api (\<lambda>drv. insert_task drv now t) (\<lambda>r. case r of
       Inl e \<Rightarrow> task_reject 500 e
     | Inr i \<Rightarrow> reloaded api 200 (TkCreated i)))"

definition update_and_reload :: "task_api \<Rightarrow> zfs_task \<Rightarrow> task_handler" where
  "update_and_reload api t =
     with_clock api (\<lambda>now. with_db api (\<lambda>drv. update_task drv now t) (\<lambda>r. case r of
       Inl e \<Rightarrow> task_reject 500 e
     | Inr u \<Rightarrow> reloaded api 200 (TkStatus ''updated'')))"

definition delete_and_reload :: "task_api \<Rightarrow> int \<Rightarrow> task_handler" where
  "delete_and_reload api i =
     with_db api (\<lambda>drv. delete_task drv i) (\<lambda>r. case r of
       Inl e \<Rightarrow> task_reject 500 e
     | Inr u \<Rightarrow> reloaded api 200 (TkStatus ''deleted''))"

definition handle_create_task :: "task_api \<Rightarrow> task_form \<Rightarrow> task_handler" where
  "handle_create_task api f =
     (if tf_type f \<noteq> ''snapshot'' \<and> tf_type f \<noteq> ''scrub''
      then task_reject 400 (''task_type must be 'snapshot' or 'scrub'' @ [CHR 0x27])
      else if tf_target f = [] then task_reject 400 ''target is required''
      else case validate_schedule api (tf_schedule f) of
        Some e \<Rightarrow> task_reject 400 e
      | None \<Rightarrow>
          insert_and_reload api (blank_task\<lparr>tk_type := tf_type f, tk_target := tf_target f, tk_schedule := tf_schedule f,
            tk_recursive := tf_recursive f, tk_enabled := True,
            tk_prefix := (if tf_prefix f = [] then ''auto'' else tf_prefix f), tk_retention := tf_retention f\<rparr>))"

text \<open>The number in the path and the task that has it.\<close>

definition with_id :: "string \<Rightarrow> (int \<Rightarrow> task_handler) \<Rightarrow> task_handler" where
  "with_id path k = (case atoi_full path of (i, None) \<Rightarrow> k i | (_, Some _) \<Rightarrow> task_reject 400 ''invalid task id'')"

definition with_task :: "task_api \<Rightarrow> string \<Rightarrow> (int \<Rightarrow> zfs_task option \<Rightarrow> task_handler) \<Rightarrow> task_handler" where
  "with_task api path k =
     with_id path (\<lambda>i. with_db api (\<lambda>drv db. (get_task drv i db, db)) (\<lambda>r. case r of
       Inl e \<Rightarrow> task_reject 500 e
     | Inr t \<Rightarrow> k i t))"

definition handle_update_task :: "task_api \<Rightarrow> string \<Rightarrow> task_form option \<Rightarrow> task_handler" where
  "handle_update_task api path body =
     with_task api path (\<lambda>i t. case t of
       None \<Rightarrow> task_reject 404 ''task not found''
     | Some old \<Rightarrow>
         if tk_type old = ''replication'' then task_reject 400 ''use /api/replication/tasks/{id} to update replication tasks''
         else case body of
           None \<Rightarrow> task_reject 400 ''invalid request body''
         | Some f \<Rightarrow>
             (case validate_schedule api (tf_schedule f) of
                Some e \<Rightarrow> task_reject 400 e
              | None \<Rightarrow>
                  update_and_reload api (old\<lparr>tk_target := tf_target f, tk_schedule := tf_schedule f, tk_recursive := tf_recursive f,
                    tk_enabled := tf_enabled f, tk_prefix := tf_prefix f, tk_retention := tf_retention f\<rparr>)))"

definition handle_delete_task :: "task_api \<Rightarrow> string \<Rightarrow> task_handler" where
  "handle_delete_task api path = with_id path (delete_and_reload api)"

text \<open>The scheduler reads the task again before it dispatches the run.\<close>

definition handle_run_task :: "task_api \<Rightarrow> string \<Rightarrow> task_handler" where
  "handle_run_task api path =
     with_task api path (\<lambda>i t. case t of
       None \<Rightarrow> task_reject 404 ''task not found''
     | Some old \<Rightarrow>
         if tk_type old = ''replication'' then task_reject 400 ''use /api/replication/tasks/{id}/run for replication tasks''
         else (\<lambda>s. with_db api (\<lambda>drv db. (run_now drv i db (tp_cron s), db)) (\<lambda>r. case r of
           Inl e \<Rightarrow> task_reject 500 e
         | Inr task \<Rightarrow> (\<lambda>s. ((202, TkStatus ''started''), s\<lparr>tp_runs := tp_runs s @ [RunJob task]\<rparr>))) s))"

section \<open>History (server.go)\<close>

definition handle_task_history :: "task_api \<Rightarrow> (zfs_job list \<Rightarrow> zfs_job list) \<Rightarrow> string \<Rightarrow> task_handler" where
  "handle_task_history api order path =
     with_id path (\<lambda>i. with_db api (\<lambda>drv db. (jobs_for_task order drv i 50 db, db)) (\<lambda>r. case r of
       Inl e \<Rightarrow> task_reject 500 e
     | Inr js \<Rightarrow> (\<lambda>s. ((200, TkJobs js), s))))"

definition handle_job_history :: "task_api \<Rightarrow> (zfs_job list \<Rightarrow> zfs_job list) \<Rightarrow> task_handler" where
  "handle_job_history api order =
     with_db api (\<lambda>drv db. (recent_zfs_jobs order drv 100 db, db)) (\<lambda>r. case r of
       Inl e \<Rightarrow> task_reject 500 e
     | Inr js \<Rightarrow> (\<lambda>s. ((200, TkJobs js), s)))"

text \<open>The range of a request in minutes.\<close>

definition log_range :: "string \<Rightarrow> int option" where
  "log_range r =
     (if r = ''5m'' then Some 5 else if r = ''15m'' then Some 15 else if r = ''1h'' then Some 60
      else if r = ''6h'' then Some 360 else if r = ''24h'' then Some 1440 else None)"

text \<open>The lines of a job: its start, and its end when it is over. Times are whole seconds.\<close>

definition job_lines :: "zfs_job \<Rightarrow> log_line list" where
  "job_lines j =
     (let what = zj_type j @ (case zj_task j of None \<Rightarrow> [] | Some i \<Rightarrow> '' task #'' @ itoa i) in
      \<lparr>ll_time = rfc3339 (zj_started j * 1000000000), ll_level = ''info'', ll_source = zj_type j,
       ll_message = what @ '' started ('' @ zj_trigger j @ '')''\<rparr> #
      (case zj_finished j of
         None \<Rightarrow> []
       | Some t \<Rightarrow>
           if zj_status j = ''running'' then []
           else [\<lparr>ll_time = rfc3339 (t * 1000000000), ll_level = (if zj_status j = ''error'' then ''error'' else ''info''),
             ll_source = zj_type j,
             ll_message = what @ '' '' @ (if zj_status j = ''error'' then ''failed'' else ''completed'') @
               (if zj_duration j > 0 then '' in '' @ itoa (zj_duration j) @ ''s'' else []) @
               (if zj_message j = [] then [] else '': '' @ zj_message j)\<rparr>]))"

definition handle_log_history :: "task_api \<Rightarrow> (zfs_job list \<Rightarrow> zfs_job list) \<Rightarrow> (log_line list \<Rightarrow> log_line list) \<Rightarrow>
    int \<Rightarrow> string \<Rightarrow> task_handler" where
  "handle_log_history api order by_time now rng =
     with_db api (\<lambda>drv db. (recent_zfs_jobs order drv 200 db, db)) (\<lambda>r. case r of
       Inl e \<Rightarrow> task_reject 500 e
     | Inr js \<Rightarrow> (\<lambda>s. ((200, TkLines (by_time (concat (map job_lines (filter (\<lambda>j. case log_range rng of
           None \<Rightarrow> True
         | Some m \<Rightarrow> \<not> zj_started j * 1000000000 < now - m * 60000000000) js))))), s)))"

end
