(* ===== verification/ZfsReplApi.thy ===== *)
theory ZfsReplApi
  imports ZfsTaskApi
begin

text \<open>
  The handlers of replication tasks and keys (\<^verbatim>\<open>zfs-manager/internal/agent/server_replication.go\<close>) and
  the run that a user starts, which takes neither the scheduler's mutex nor its options.
\<close>

section \<open>Replication tasks\<close>

definition handle_list_replication :: "task_api \<Rightarrow> task_handler" where
  "handle_list_replication api = listed_tasks api (\<lambda>t. tk_type t = ''replication'')"

record repl_form =
  vf_target :: string
  vf_dest :: string
  vf_schedule :: string
  vf_recursive :: bool
  vf_enabled :: bool
  vf_prefix :: string
  vf_retention :: int
  vf_mode :: string
  vf_host :: string
  vf_port :: int
  vf_user :: string
  vf_key :: string
  vf_kbps :: int
  vf_manage :: "bool option"
  vf_bookmarks :: "bool option"

definition bad_key_name :: string where
  "bad_key_name = ''ssh_key_name must contain only letters, digits, '-', '_' (max 64 chars)''"

definition with_key :: "task_api \<Rightarrow> string \<Rightarrow> (string \<Rightarrow> string) \<Rightarrow> (string \<Rightarrow> task_handler) \<Rightarrow> task_handler" where
  "with_key api name msg k s =
     (case ensure_ssh_key (ta_keys api) (zn_engine (ta_env api)) name (tp_files s) of
        (Inl e, fs) \<Rightarrow> ((500, TkError (msg e)), s\<lparr>tp_files := fs\<rparr>)
      | (Inr pub, fs) \<Rightarrow> k pub (s\<lparr>tp_files := fs\<rparr>))"

definition ensure_failed :: "string \<Rightarrow> string" where
  "ensure_failed e = ''ensure ssh key: '' @ e"

definition local_task :: "repl_form \<Rightarrow> string \<Rightarrow> zfs_task" where
  "local_task f mode =
     blank_task\<lparr>tk_type := ''replication'', tk_target := vf_target f, tk_schedule := vf_schedule f, tk_recursive := vf_recursive f,
       tk_enabled := True, tk_prefix := (if vf_prefix f = [] then ''repl'' else vf_prefix f), tk_retention := vf_retention f,
       tk_dest := Some (vf_dest f), tk_mode := Some mode\<rparr>"

definition remote_task :: "repl_form \<Rightarrow> zfs_task" where
  "remote_task f =
     (local_task f ''remote'')\<lparr>tk_host := Some (vf_host f), tk_user := Some (vf_user f), tk_key := Some (vf_key f),
       tk_port := (if vf_port f > 0 then Some (vf_port f) else None),
       tk_bandwidth := (if vf_kbps f > 0 then Some (vf_kbps f) else None),
       tk_manage := (vf_manage f = Some True), tk_bookmarks := (vf_bookmarks f = Some True)\<rparr>"

text \<open>The list of the source's snapshots is only looked at for a warning.\<close>

definition handle_create_replication :: "task_api \<Rightarrow> repl_form \<Rightarrow> task_handler" where
  "handle_create_replication api f =
     (if vf_target f = [] then task_reject 400 ''target (source dataset) is required''
      else if vf_dest f = [] then task_reject 400 ''dest_target (destination dataset) is required''
      else if vf_target f = vf_dest f then task_reject 400 ''source and destination must be different''
      else case validate_schedule api (vf_schedule f) of
        Some e \<Rightarrow> task_reject 400 e
      | None \<Rightarrow>
          (let mode = (if vf_mode f = [] then ''local'' else vf_mode f) in
           if mode \<noteq> ''local'' \<and> mode \<noteq> ''remote''
           then task_reject 400 (''replication_mode must be 'local' or 'remote'' @ [CHR 0x27])
           else with_call (list_snapshots_for (zn_host (ta_env api)) (zn_engine (ta_env api)) (vf_target f)) (\<lambda>_.
             if mode = ''local'' then insert_and_reload api (local_task f mode)
             else if vf_host f = [] \<or> vf_user f = [] \<or> vf_key f = []
             then task_reject 400 ''remote replication requires dest_host, dest_user, and ssh_key_name''
             else if \<not> ssh_key_name_valid (vf_key f) then task_reject 400 bad_key_name
             else with_key api (vf_key f) ensure_failed (\<lambda>_. insert_and_reload api (remote_task f)))))"

definition given :: "string \<Rightarrow> string option \<Rightarrow> string option" where
  "given new old = (if new \<noteq> [] then Some new else old)"

definition edited_task :: "repl_form \<Rightarrow> string \<Rightarrow> zfs_task \<Rightarrow> zfs_task" where
  "edited_task f mode old =
     old\<lparr>tk_target := vf_target f, tk_schedule := vf_schedule f, tk_recursive := vf_recursive f, tk_enabled := vf_enabled f,
       tk_prefix := vf_prefix f, tk_retention := vf_retention f, tk_dest := given (vf_dest f) (tk_dest old), tk_mode := Some mode\<rparr>"

definition edited_remote :: "repl_form \<Rightarrow> zfs_task \<Rightarrow> zfs_task" where
  "edited_remote f t =
     t\<lparr>tk_host := given (vf_host f) (tk_host t), tk_user := given (vf_user f) (tk_user t), tk_key := given (vf_key f) (tk_key t),
       tk_port := (if vf_port f > 0 then Some (vf_port f) else tk_port t),
       tk_bandwidth := (if vf_kbps f > 0 then Some (vf_kbps f) else None),
       tk_manage := (case vf_manage f of Some b \<Rightarrow> b | None \<Rightarrow> tk_manage t),
       tk_bookmarks := (case vf_bookmarks f of Some b \<Rightarrow> b | None \<Rightarrow> tk_bookmarks t)\<rparr>"

definition update_mode :: "repl_form \<Rightarrow> zfs_task \<Rightarrow> string" where
  "update_mode f old =
     (let m = (if vf_mode f = [] then (case tk_mode old of Some x \<Rightarrow> x | None \<Rightarrow> []) else vf_mode f) in
      if m = [] then ''local'' else m)"

definition apply_update :: "task_api \<Rightarrow> repl_form \<Rightarrow> zfs_task \<Rightarrow> task_handler" where
  "apply_update api f old =
     (let mode = update_mode f old; t = edited_task f mode old in
      if mode \<noteq> ''local'' \<and> mode \<noteq> ''remote''
      then task_reject 400 (''replication_mode must be 'local' or 'remote'' @ [CHR 0x27])
      else if mode = ''local'' then update_and_reload api t
      else if vf_key f = [] then update_and_reload api (edited_remote f t)
      else if \<not> ssh_key_name_valid (vf_key f) then task_reject 400 bad_key_name
      else with_key api (vf_key f) ensure_failed (\<lambda>_. update_and_reload api (edited_remote f t)))"

text \<open>What the handlers of an existing replication share: the task must be one.\<close>

definition with_replication :: "task_api \<Rightarrow> string \<Rightarrow> (int \<Rightarrow> zfs_task \<Rightarrow> task_handler) \<Rightarrow> task_handler" where
  "with_replication api path k =
     with_task api path (\<lambda>i t. case t of
       None \<Rightarrow> task_reject 404 ''replication task not found''
     | Some old \<Rightarrow> if tk_type old \<noteq> ''replication'' then task_reject 404 ''replication task not found'' else k i old)"

definition handle_update_replication :: "task_api \<Rightarrow> string \<Rightarrow> repl_form option \<Rightarrow> task_handler" where
  "handle_update_replication api path body =
     with_replication api path (\<lambda>i old. case body of
       None \<Rightarrow> task_reject 400 ''invalid request body''
     | Some f \<Rightarrow>
         (case validate_schedule api (vf_schedule f) of
            Some e \<Rightarrow> task_reject 400 e
          | None \<Rightarrow> apply_update api f old))"

definition handle_delete_replication :: "task_api \<Rightarrow> string \<Rightarrow> task_handler" where
  "handle_delete_replication api path = with_replication api path (\<lambda>i old. delete_and_reload api i)"

definition handle_run_replication :: "task_api \<Rightarrow> string \<Rightarrow> task_handler" where
  "handle_run_replication api path =
     with_replication api path (\<lambda>i t.
       if absent (tk_dest t) then task_reject 400 ''task has no destination configured''
       else (\<lambda>s. ((202, TkStatus ''started''), s\<lparr>tp_runs := tp_runs s @ [RunReplication t]\<rparr>)))"

section \<open>The run of a user\<close>

definition repl_event :: "zsched_env \<Rightarrow> string \<Rightarrow> string \<Rightarrow> bool \<Rightarrow> string \<Rightarrow> zsched_state \<Rightarrow> zsched_state" where
  "repl_event env src dest ok msg s0 =
     (let (now, s1) = read_clock env s0; (now2, s2) = read_clock env s1
      in zput (zevent (''repl-'' @ src @ ''-'' @ dest @ ''-'' @ itoa (unix_milli now))
           (if ok then ''replication_succeeded'' else ''replication_failed'') (if ok then ''info'' else ''critical'') msg now2) s2)"

definition repl_over :: "zsched_env \<Rightarrow> zfs_task \<Rightarrow> string \<Rightarrow> int \<Rightarrow> bool \<Rightarrow> string \<Rightarrow> zsched_state \<Rightarrow> zsched_state" where
  "repl_over env t dest job ok msg s0 =
     (let (now, s1) = read_clock env s0;
          (_, s2) = zstmt env (\<lambda>drv. complete_zfs_job drv now job (if ok then ''success'' else ''error'') msg) s1
      in repl_event env (tk_target t) dest ok msg s2)"

text \<open>The send: the base is the newest common snapshot, whatever bookmarks the task would use, and
  neither is an interrupted receive resumed. A failing list counts as an empty one.\<close>

definition listed :: "go_error + zfs_snapshot list \<Rightarrow> zfs_snapshot list" where
  "listed r = (case r of Inl err \<Rightarrow> [] | Inr sns \<Rightarrow> sns)"

definition manual_send :: "zsched_env \<Rightarrow> zfs_task \<Rightarrow> string \<Rightarrow> string \<Rightarrow> string \<Rightarrow> zx_log \<Rightarrow>
    (go_error + replication_result) \<times> zx_log" where
  "manual_send env t mode dest snap tr =
     (let h = zn_host env; e = zn_engine env; (src, tr1) = list_snapshots_for h e (tk_target t) tr in
      if mode = ''remote''
      then (case target_of_task e t of
              Inl err \<Rightarrow> (Inl err, tr1)
            | Inr tgt \<Rightarrow>
                (let (dst, tr2) = list_remote_snapshots h e tgt tr1
                 in send_receive_remote h e snap (find_common_snapshot (listed src) (listed dst)) tgt tr2))
      else (let (dst, tr2) = list_snapshots_for h e dest tr1
            in send_receive_local h e snap (find_common_snapshot (listed src) (listed dst)) dest tr2))"

definition manual_replication :: "zsched_env \<Rightarrow> zfs_task \<Rightarrow> zsched_state \<Rightarrow> zsched_state" where
  "manual_replication env t s0 =
     (let (now, s1) = read_clock env s0;
          (r, s2) = zstmt env (\<lambda>drv. insert_zfs_job drv now (Some (tk_id t)) ''replication'' ''manual'') s1;
          job = (case r of Inr i \<Rightarrow> i | Inl _ \<Rightarrow> 0);
          dest = (case tk_dest t of Some d \<Rightarrow> d | None \<Rightarrow> []);
          mode = (case tk_mode t of Some m \<Rightarrow> m | None \<Rightarrow> ''local'');
          (now2, s3) = read_clock env s2;
          snap = tk_prefix t @ ''-'' @ snap_stamp now2; full = tk_target t @ ''@'' @ snap
      in case zcall (create_snapshot (zn_host env) (zn_engine env) (tk_target t) snap (tk_recursive t)) s3 of
           ((_, Some err), s4) \<Rightarrow> repl_over env t dest job False (''create source snapshot: '' @ error_text err) s4
         | ((_, None), s4) \<Rightarrow>
             (case zcall (manual_send env t mode dest full) s4 of
                (Inl err, s5) \<Rightarrow> repl_over env t dest job False (mode @ '' send|receive: '' @ error_text err) s5
              | (Inr res, s5) \<Rightarrow>
                  (let (_, s6) = zstmt env (\<lambda>drv. set_last_sent drv (tk_id t) full) s5
                   in repl_over env t dest job True
                        (''replicated '' @ tk_target t @ arrow @ dest @ '' ('' @ mode @ '' '' @
                         (if rr_incremental res then ''incremental'' else ''full'') @ '', '' @ zn_duration env (zs_tr s5) @ '')'') s6)))"

definition run_dispatched :: "task_api \<Rightarrow> dispatched \<Rightarrow> task_state \<Rightarrow> task_state" where
  "run_dispatched api d s =
     (case d of
        RunJob t \<Rightarrow> s\<lparr>tp_sched := run_zfs_job (ta_env api) t ''manual'' (tp_sched s)\<rparr>
      | RunReplication t \<Rightarrow> s\<lparr>tp_sched := manual_replication (ta_env api) t (tp_sched s)\<rparr>)"

section \<open>Connections and keys\<close>

definition handle_test_connection :: "task_api \<Rightarrow> string \<Rightarrow> string \<Rightarrow> int \<Rightarrow> string \<Rightarrow> string \<Rightarrow> int \<Rightarrow> task_handler" where
  "handle_test_connection api dest host port user key kbps =
     (let e = zn_engine (ta_env api) in
      if host = [] \<or> user = [] \<or> key = [] \<or> dest = []
      then task_reject 400 ''dest_host, dest_user, ssh_key_name, and dest_target are required''
      else if \<not> ssh_key_name_valid key then task_reject 400 bad_key_name
      else with_key api key ensure_failed (\<lambda>_.
        case remote_target_from_task e dest host user (if port = 0 then 22 else port) key kbps of
          Inl err \<Rightarrow> task_reject 400 (error_text err)
        | Inr tgt \<Rightarrow> with_call (test_remote_connection (zn_host (ta_env api)) e tgt) (\<lambda>r s. case r of
              Inl err \<Rightarrow> ((200, TkProbe False [] (error_text err)), s)
            | Inr ds \<Rightarrow> ((200, TkProbe True ds []), s))))"

definition bad_key_path :: string where
  "bad_key_path = ''ssh key name must contain only letters, digits, '-', '_' (max 64 chars)''"

definition handle_rotate_key :: "task_api \<Rightarrow> string \<Rightarrow> task_handler" where
  "handle_rotate_key api name s =
     (if \<not> ssh_key_name_valid name then task_reject 400 bad_key_path s
      else case rotate_ssh_key (ta_keys api) (zn_engine (ta_env api)) name (tp_files s) of
        (Inl e, fs) \<Rightarrow> ((500, TkError e), s\<lparr>tp_files := fs\<rparr>)
      | (Inr pub, fs) \<Rightarrow> ((200, TkKey name pub), s\<lparr>tp_files := fs\<rparr>))"

definition handle_get_key :: "task_api \<Rightarrow> string \<Rightarrow> task_handler" where
  "handle_get_key api name =
     (if \<not> ssh_key_name_valid name then task_reject 400 bad_key_path
      else with_key api name (\<lambda>e. e) (\<lambda>pub s. ((200, TkKey name pub), s)))"

end
