(* ===== verification/ZfsTaskRuns.thy ===== *)
theory ZfsTaskRuns
  imports ZfsReplApi
begin

text \<open>
  What the handlers of tasks do to the schedule: a created task and the entry that fires it, an
  update that the creation would refuse, and the run of a user, which destroys nothing.
\<close>

section \<open>Creation\<close>

lemma insert_and_reload_created:
  assumes "insert_and_reload api t s = ((200, TkCreated i), s')"
  obtains now db where "zs_db (tp_sched s') = db" "zb_tasks db = zb_tasks (zs_db (tp_sched s)) @
      [t\<lparr>tk_id := i, tk_created := db_time now, tk_updated := db_time now\<rparr>]"
    and "zc_context (tp_cron s) \<Longrightarrow>
      tp_cron s' = snd (reload_zfs (ta_cron6 api) (zn_drv (ta_env api) (Suc (zs_stmts (tp_sched s)))) db (tp_cron s))"
proof -
  let ?sc = "tp_sched s" and ?env = "ta_env api"
  have drv: "zn_drv ?env (zs_stmts ?sc) = None"
    using assms
    by (cases "zn_drv ?env (zs_stmts ?sc)")
      (auto simp: insert_and_reload_def with_clock_def with_db_def read_clock_def zstmt_def insert_task_def task_reject_def Let_def)
  show thesis
    using assms that [of "zs_db (tp_sched s')" "zn_clock ?env (zs_reads ?sc)"] drv
    by (auto simp: insert_and_reload_def with_clock_def with_db_def read_clock_def zstmt_def insert_task_def reloaded_def
        reload_tasks_def Let_def split: if_splits)
qed

text \<open>A task that a user creates is put into the table, enabled, behind the tasks that were there,
  and the reload that follows makes it fire if and only if the runner takes its schedule behind
  a field for the seconds; that the handler's own check took it is not enough. The condition is
  that the scheduler was started and that the query of the reload succeeds.\<close>

lemma created_task_fires:
  assumes "handle_create_task api f s = ((200, TkCreated i), s')" and "zc_context (tp_cron s)"
    and "zn_drv (ta_env api) (Suc (zs_stmts (tp_sched s))) = None"
    and "\<forall>t \<in> set (zb_tasks (zs_db (tp_sched s))). tk_id t \<noteq> i"
  shows "validate_schedule api (tf_schedule f) = None \<and>
    (\<exists>t. zb_tasks (zs_db (tp_sched s')) = zb_tasks (zs_db (tp_sched s)) @ [t] \<and> tk_id t = i \<and> tk_type t = tf_type f \<and>
      tk_target t = tf_target f \<and> tk_schedule t = tf_schedule f \<and> tk_retention t = tf_retention f \<and> tk_enabled t) \<and>
    ((\<exists>t \<in> set (cron_fires (tp_cron s')). tk_id t = i) \<longleftrightarrow> ta_cron6 api (''0 '' @ tf_schedule f) = None)"
proof -
  let ?prefix = "if tf_prefix f = [] then ''auto'' else tf_prefix f"
  let ?t = "blank_task\<lparr>tk_type := tf_type f, tk_target := tf_target f, tk_schedule := tf_schedule f,
      tk_recursive := tf_recursive f, tk_enabled := True, tk_prefix := ?prefix, tk_retention := tf_retention f\<rparr>"
  have v: "validate_schedule api (tf_schedule f) = None" and run: "insert_and_reload api ?t s = ((200, TkCreated i), s')"
    using assms(1) by (auto simp: handle_create_task_def task_reject_def split: if_splits option.splits)
  obtain now where db: "zb_tasks (zs_db (tp_sched s')) = zb_tasks (zs_db (tp_sched s)) @
      [?t\<lparr>tk_id := i, tk_created := db_time now, tk_updated := db_time now\<rparr>]"
    and cron: "tp_cron s' = snd (reload_zfs (ta_cron6 api) None (zs_db (tp_sched s')) (tp_cron s))"
    using insert_and_reload_created [OF run] assms(2,3) by metis
  have "cron_fires (tp_cron s') = filter (\<lambda>t. ta_cron6 api (''0 '' @ tk_schedule t) = None)
      (map scan_task (filter tk_enabled (zb_tasks (zs_db (tp_sched s')))))"
    using reload_replaces_tasks [of "ta_cron6 api" None "zs_db (tp_sched s')" "tp_cron s"] assms(2) by (simp add: cron)
  then have "(\<exists>t \<in> set (cron_fires (tp_cron s')). tk_id t = i) \<longleftrightarrow> ta_cron6 api (''0 '' @ tf_schedule f) = None"
    using assms(4) by (auto simp: db scan_task_def)
  with v db show ?thesis by simp
qed

section \<open>Update\<close>

lemma update_and_reload_db:
  assumes "zn_drv (ta_env api) (zs_stmts (tp_sched s)) = None"
  shows "fst (update_and_reload api t s) = (200, TkStatus ''updated'') \<and>
    zb_tasks (zs_db (tp_sched (snd (update_and_reload api t s)))) =
      map (\<lambda>r. if tk_id r = tk_id t then updated_task (zn_clock (ta_env api) (zs_reads (tp_sched s))) t r else r)
        (zb_tasks (zs_db (tp_sched s)))"
  using assms
  by (simp add: update_and_reload_def with_clock_def with_db_def read_clock_def zstmt_def update_task_def reloaded_def
      reload_tasks_def)

text \<open>A run of a local task whose snapshot can be taken sends it to the destination.\<close>

definition zfs_works :: "zsched_env \<Rightarrow> bool" where
  "zfs_works env \<longleftrightarrow> (\<forall>tr args. \<exists>out. zh_run (zn_host env) tr (en_zfs (zn_engine env)) args = Exited out)"

definition receives_into :: "zsched_env \<Rightarrow> string \<Rightarrow> string \<Rightarrow> zx_log \<Rightarrow> bool" where
  "receives_into env src dest tr \<longleftrightarrow>
     (\<exists>snap base. Pipe [(en_zfs (zn_engine env), send_args (src @ ''@'' @ snap) base), (en_zfs (zn_engine env), [''receive'', ''-F'', dest])]
        \<in> set tr)"

lemma works_create_snapshot:
  assumes "zfs_works env"
  shows "\<exists>r tr'. create_snapshot (zn_host env) (zn_engine env) d n b tr = ((r, None), tr')"
proof -
  have "snd (fst (zfs_command (zn_host env) (zn_engine env) args tr)) = None" for args
  proof -
    obtain out where "zh_run (zn_host env) tr (en_zfs (zn_engine env)) args = Exited out"
      using assms unfolding zfs_works_def by blast
    then show ?thesis by (simp add: zfs_command_def run_zfs_def zx_run_def command_outcome_def)
  qed
  then show ?thesis unfolding create_snapshot_def by (metis prod.collapse)
qed

lemma repl_event_tr [simp]: "zs_tr (repl_event env src dest good msg s) = zs_tr s"
  by (simp add: repl_event_def read_clock_def zput_def Let_def del: append.simps split del: if_split)

lemma repl_over_tr [simp]: "zs_tr (repl_over env t dest job good msg s) = zs_tr s"
  by (simp add: repl_over_def read_clock_def zstmt_def case_prod_beta split del: if_split)

lemma zstmt_tr [simp]: "zs_tr (snd (zstmt env f s)) = zs_tr s"
  by (simp add: zstmt_def case_prod_beta)

lemma manual_run_tr:
  "zs_tr (manual_replication env t s) =
     (let (now, s1) = read_clock env s;
          snap = tk_prefix t @ ''-'' @ snap_stamp (zn_clock env (Suc (zs_reads s)));
          (r, tr) = create_snapshot (zn_host env) (zn_engine env) (tk_target t) snap (tk_recursive t) (zs_tr s)
      in if snd r \<noteq> None then tr
         else snd (manual_send env t (case tk_mode t of Some m \<Rightarrow> m | None \<Rightarrow> ''local'')
                (case tk_dest t of Some d \<Rightarrow> d | None \<Rightarrow> []) (tk_target t @ ''@'' @ snap) tr))"
  by (simp add: manual_replication_def read_clock_def zstmt_def zcall_def case_prod_beta Let_def
      split del: if_split split: prod.split option.split sum.split)

lemma local_run_receives:
  assumes "zfs_works env" "tk_mode t = Some ''local''" "tk_dest t = Some dest"
  shows "receives_into env (tk_target t) dest (zs_tr (manual_replication env t s))"
proof -
  let ?snap = "tk_prefix t @ ''-'' @ snap_stamp (zn_clock env (Suc (zs_reads s)))"
  obtain r tr where c: "create_snapshot (zn_host env) (zn_engine env) (tk_target t) ?snap (tk_recursive t) (zs_tr s) = ((r, None), tr)"
    using works_create_snapshot [OF assms(1)] by blast
  have "zs_tr (manual_replication env t s) = snd (manual_send env t ''local'' dest (tk_target t @ ''@'' @ ?snap) tr)"
    using assms(2,3) c by (simp add: manual_run_tr read_clock_def)
  then show ?thesis
    unfolding receives_into_def manual_send_def send_receive_local_def
    by (fastforce simp: Let_def case_prod_beta)
qed

lemma with_id_ok: "atoi_full path = (i, None) \<Longrightarrow> with_id path k = k i"
  by (simp add: with_id_def)

lemma with_task_ok:
  assumes "atoi_full path = (i, None)" "zn_drv (ta_env api) (zs_stmts (tp_sched s)) = None"
    and "List.find (\<lambda>r. tk_id r = i) (zb_tasks (zs_db (tp_sched s))) = Some old"
  shows "with_task api path k s = k i (Some (scan_task old)) (s\<lparr>tp_sched := (tp_sched s)\<lparr>zs_stmts := Suc (zs_stmts (tp_sched s))\<rparr>\<rparr>)"
  using assms by (simp add: with_task_def with_id_ok with_db_def zstmt_def get_task_def)

text \<open>An update of a replication accepts what the creation refuses, a destination that is the
  source: whatever the task was, a well-formed schedule and a local mode are enough. The table
  then holds a task whose every run, once its snapshot can be taken, sends the dataset into a
  forced receive of the same dataset.\<close>

lemma update_allows_self_replication:
  assumes "atoi_full path = (i, None)"
    and "List.find (\<lambda>r. tk_id r = i) (zb_tasks (zs_db (tp_sched s))) = Some old" and "tk_type old = ''replication''"
    and "zn_drv (ta_env api) (zs_stmts (tp_sched s)) = None" and "zn_drv (ta_env api) (Suc (zs_stmts (tp_sched s))) = None"
    and "validate_schedule api (vf_schedule f) = None" and "update_mode f (scan_task old) = ''local''"
    and "vf_dest f = vf_target f" and "vf_target f \<noteq> []"
  shows "fst (handle_create_replication api f s') = (400, TkError ''source and destination must be different'') \<and>
    fst (handle_update_replication api path (Some f) s) = (200, TkStatus ''updated'') \<and>
    (\<exists>t \<in> set (zb_tasks (zs_db (tp_sched (snd (handle_update_replication api path (Some f) s))))).
       tk_id t = i \<and> tk_target t = vf_target f \<and>
       (\<forall>run. zfs_works (ta_env api) \<longrightarrow>
          receives_into (ta_env api) (vf_target f) (vf_target f) (zs_tr (manual_replication (ta_env api) (scan_task t) run))))"
proof -
  let ?s1 = "s\<lparr>tp_sched := (tp_sched s)\<lparr>zs_stmts := Suc (zs_stmts (tp_sched s))\<rparr>\<rparr>"
  let ?e = "edited_task f ''local'' (scan_task old)"
  have "handle_update_replication api path (Some f) s = update_and_reload api ?e ?s1"
    using assms(3,6,7)
    by (simp add: handle_update_replication_def with_replication_def with_task_ok [OF assms(1,4,2)] apply_update_def scan_task_def)
  moreover have "zn_drv (ta_env api) (zs_stmts (tp_sched ?s1)) = None" using assms(5) by simp
  ultimately have u: "fst (handle_update_replication api path (Some f) s) = (200, TkStatus ''updated'')"
    "zb_tasks (zs_db (tp_sched (snd (handle_update_replication api path (Some f) s)))) =
      map (\<lambda>r. if tk_id r = tk_id ?e then updated_task (zn_clock (ta_env api) (zs_reads (tp_sched ?s1))) ?e r else r)
        (zb_tasks (zs_db (tp_sched ?s1)))"
    using update_and_reload_db by simp_all
  let ?t = "updated_task (zn_clock (ta_env api) (zs_reads (tp_sched ?s1))) ?e old"
  have old: "old \<in> set (zb_tasks (zs_db (tp_sched s)))" "tk_id old = i"
    using assms(2) by (auto simp: find_Some_iff)
  have e: "tk_id ?e = i" using old(2) by (simp add: edited_task_def scan_task_def)
  have "?t \<in> set (zb_tasks (zs_db (tp_sched (snd (handle_update_replication api path (Some f) s)))))"
    unfolding u(2) using old e by force
  moreover have "tk_id ?t = i" "tk_target ?t = vf_target f" "tk_mode (scan_task ?t) = Some ''local''"
    "tk_dest (scan_task ?t) = Some (vf_target f)" "tk_target (scan_task ?t) = vf_target f"
    using old(2) assms(8,9) by (simp_all add: updated_task_def edited_task_def scan_task_def given_def nonempty_def)
  ultimately show ?thesis
    using u(1) assms(8,9) local_run_receives [of "ta_env api" "scan_task ?t" "vf_target f"]
    by (auto simp: handle_create_replication_def task_reject_def)
qed

section \<open>The run of a user\<close>

text \<open>A replication that a user starts issues no destroy, on either side, whatever the retention
  of the task, the mode and the host: unlike a scheduled one it prunes neither side, it only takes
  the snapshot, lists and sends.\<close>

lemma manual_replication_destroys_nothing:
  "filter destroying (zs_tr (manual_replication env t s)) = filter destroying (zs_tr s)"
proof -
  have send: "filter destroying (snd (manual_send env t mode dest snap tr)) = filter destroying tr" for mode dest snap tr
  proof -
    obtain src tr1 where l: "list_snapshots_for (zn_host env) (zn_engine env) (tk_target t) tr = (src, tr1)" by fastforce
    have tr1: "filter destroying tr1 = filter destroying tr"
      using arg_cong [OF l, of "\<lambda>p. filter destroying (snd p)"] by simp
    show ?thesis
      by (cases "target_of_task (zn_engine env) t") (simp_all add: manual_send_def Let_def l case_prod_beta tr1)
  qed
  show ?thesis
    by (simp add: manual_run_tr read_clock_def case_prod_beta Let_def send)
qed

section \<open>Sample task server\<close>

text \<open>Parsers that take five and six fields, the first also with the zone that it documents.\<close>

definition sample_cron5 :: "string \<Rightarrow> string option" where
  "sample_cron5 e =
     (let fs = str_fields e; n = length fs in
      if (case fs of f # _ \<Rightarrow> has_prefix f ''TZ='' | [] \<Rightarrow> False) then (if n = 6 then None else Some ''expected 5 fields'')
      else if n = 5 then None else Some ''expected 5 fields'')"

definition sample_cron6 :: "string \<Rightarrow> string option" where
  "sample_cron6 e = (if length (str_fields e) = 6 then None else Some ''expected 6 fields'')"

definition sample_task_api :: task_api where
  "sample_task_api = \<lparr>ta_env = zfs_sample_env, ta_cron5 = sample_cron5, ta_cron6 = sample_cron6, ta_next = (\<lambda>_ _. 0),
     ta_keys = \<lparr>ki_gen = (\<lambda>_. Inl []), ki_mkdir = None, ki_stat = None, ki_remove = None, ki_missing = (\<lambda>_. [])\<rparr>\<rparr>"

definition sample_task_state :: "zfs_task list \<Rightarrow> task_state" where
  "sample_task_state ts =
     \<lparr>tp_sched = idle_zsched\<lparr>zs_db := empty_zfs_db\<lparr>zb_tasks := ts, zb_task_seq := int (length ts)\<rparr>\<rparr>,
      tp_cron = \<lparr>zc_context = True, zc_entries = [], zc_running = True\<rparr>, tp_files = Map.empty, tp_runs = []\<rparr>"

definition sample_task_form :: "string \<Rightarrow> task_form" where
  "sample_task_form sched = \<lparr>tf_type = ''snapshot'', tf_target = ''tank/a'', tf_schedule = sched, tf_recursive = False,
     tf_enabled = False, tf_prefix = [], tf_retention = 7\<rparr>"

text \<open>A schedule with a time zone is accepted and never fires.\<close>

definition sample_repl_form :: repl_form where
  "sample_repl_form = \<lparr>vf_target = ''tank/a'', vf_dest = ''tank/a'', vf_schedule = ''0 3 * * *'', vf_recursive = False,
     vf_enabled = True, vf_prefix = ''repl'', vf_retention = 3, vf_mode = [], vf_host = [], vf_port = 0, vf_user = [],
     vf_key = [], vf_kbps = 0, vf_manage = None, vf_bookmarks = None\<rparr>"

end
