(* ===== verification/HttpMux.thy ===== *)
theory HttpMux
  imports Prelude
begin

text \<open>
  What the HTTP servers of the add-ons take from \<^verbatim>\<open>net/http\<close>: a request with its
  path, query and body, and the multiplexer with its patterns of a method and a path. The routes of a
  server are listed with the more specific pattern first, which is the one the multiplexer prefers.
\<close>

record hub_request =
  hq_method :: string
  hq_path :: string
  hq_query :: "(string \<times> string) list"
  hq_auth :: string
  hq_host :: string
  hq_body :: "string option"

text \<open>The first value of a query parameter, and a body as a decoder reads it.\<close>

definition qget :: "string \<Rightarrow> (string \<times> string) list \<Rightarrow> string" where
  "qget k qs = (case map_of qs k of None \<Rightarrow> [] | Some v \<Rightarrow> v)"

definition decoded :: "hub_request \<Rightarrow> (string \<Rightarrow> 'a option) \<Rightarrow> 'a option" where
  "decoded q dec = Option.bind (hq_body q) dec"

text \<open>A pattern against a path: the value of its wildcard, a segment that is not empty, when it has one.\<close>

fun match_segments :: "string list \<Rightarrow> string list \<Rightarrow> string \<Rightarrow> string option" where
  "match_segments [] [] v = Some v"
| "match_segments (p # ps) (x # xs) v =
     (if has_prefix p ''{'' then (if x = [] then None else match_segments ps xs x)
      else if p = x then match_segments ps xs v else None)"
| "match_segments ps xs v = None"

definition match_path :: "string \<Rightarrow> string \<Rightarrow> string option" where
  "match_path pattern path = match_segments (split_on (CHR ''/'') pattern) (split_on (CHR ''/'') path) []"

definition route_matches :: "hub_request \<Rightarrow> string \<times> string \<times> 'r \<Rightarrow> bool" where
  "route_matches q r \<longleftrightarrow>
     (fst r = hq_method q \<or> fst r = ''GET'' \<and> hq_method q = ''HEAD'') \<and> match_path (fst (snd r)) (hq_path q) \<noteq> None"

text \<open>The route of a request with the value of its wildcard, or the status of a request without a
  route: another method of a known path is refused, any other path is not found.\<close>

definition dispatch :: "hub_request \<Rightarrow> (string \<times> string \<times> 'r) list \<Rightarrow> nat + ('r \<times> string)" where
  "dispatch q routes =
     (case List.find (route_matches q) routes of
        None \<Rightarrow> Inl (if \<exists>r \<in> set routes. match_path (fst (snd r)) (hq_path q) \<noteq> None then 405 else 404)
      | Some (m, p, t) \<Rightarrow> Inr (t, case match_path p (hq_path q) of None \<Rightarrow> [] | Some v \<Rightarrow> v))"

lemma find_found: "List.find P xs = Some x \<Longrightarrow> x \<in> set xs \<and> P x"
  by (auto simp: find_Some_iff)

lemma dispatch_route:
  assumes "dispatch q routes = Inr (t, v)"
  shows "\<exists>m p. (m, p, t) \<in> set routes \<and> route_matches q (m, p, t) \<and> match_path p (hq_path q) = Some v"
proof -
  obtain m p where f: "List.find (route_matches q) routes = Some (m, p, t)"
      and v: "v = (case match_path p (hq_path q) of None \<Rightarrow> [] | Some v \<Rightarrow> v)"
    using assms by (auto simp: dispatch_def split: option.splits)
  then have "match_path p (hq_path q) = Some v" using find_found [OF f] by (auto simp: route_matches_def)
  then show ?thesis using find_found [OF f] by blast
qed

lemma dispatch_none: "dispatch q routes = Inl st \<Longrightarrow> st = 404 \<or> st = 405"
  by (auto simp: dispatch_def split: option.splits if_splits)

text \<open>The route of a method and a path does not depend on the rest of the request.\<close>

lemma route_cong: "hq_method q = hq_method q' \<Longrightarrow> hq_path q = hq_path q' \<Longrightarrow> route_matches q = route_matches q'"
  by (simp add: route_matches_def fun_eq_iff)

lemma dispatch_cong:
  fixes routes :: "(string \<times> string \<times> 'r) list"
  assumes "hq_method q = hq_method q'" "hq_path q = hq_path q'"
  shows "dispatch q routes = dispatch q' routes"
proof -
  have "route_matches q = (route_matches q' :: string \<times> string \<times> 'r \<Rightarrow> bool)" using assms by (rule route_cong)
  then show ?thesis by (simp only: dispatch_def assms)
qed

definition bare_request :: "string \<Rightarrow> string \<Rightarrow> hub_request" where
  "bare_request m p = \<lparr>hq_method = m, hq_path = p, hq_query = [], hq_auth = [], hq_host = [], hq_body = Some []\<rparr>"

lemma routed_as_bare:
  "dispatch (bare_request m p) routes = x \<Longrightarrow> hq_method q = m \<Longrightarrow> hq_path q = p \<Longrightarrow> dispatch q routes = x"
  using dispatch_cong [of q "bare_request m p" routes] by (simp add: bare_request_def)

text \<open>A pattern without a wildcard matches its own path only.\<close>

lemma match_plain_segments:
  "match_segments ps xs v = Some u \<Longrightarrow> list_all (\<lambda>p. \<not> has_prefix p ''{'') ps \<Longrightarrow> xs = ps"
  by (induction ps xs v rule: match_segments.induct) (auto split: if_splits)

lemma match_plain:
  assumes "match_path p x \<noteq> None" "list_all (\<lambda>p. \<not> has_prefix p ''{'') (split_on (CHR ''/'') p)"
  shows "x = p"
proof -
  have "split_on (CHR ''/'') x = split_on (CHR ''/'') p"
    using assms match_plain_segments unfolding match_path_def by blast
  then show ?thesis using join_split_on by metis
qed

end
