(* ===== verification/ZfsHub.thy ===== *)
theory ZfsHub
  imports SnapHub
begin

text \<open>
  The hub of the ZFS add-on (\<^verbatim>\<open>zfs-manager/internal/manager\<close>): its registry of agents
  (\<^verbatim>\<open>registry.go\<close>) and the aggregator that keeps the last frame of every agent and announces what
  changed between two of them (\<^verbatim>\<open>aggregator.go\<close>). JSON encoding and decoding are parameters, a map is
  the list of its entries in the order of its enumeration, and a notification is recorded with the
  id of the agent it is about when it is handed to the upstream client.
\<close>

section \<open>State\<close>

record zfs_agent =
  zt_id :: string
  zt_hostname :: string
  zt_alias :: string
  zt_arch :: string
  zt_address :: string
  zt_version :: string
  zt_registered :: int
  zt_seen :: int

record tracked_pool =
  tr_scrub :: string
  tr_vdevs :: int

text \<open>The part of a frame that is inspected: the pools with their scrub state and the types of their
  vdevs, and the last event.\<close>

record mgr_frame =
  mf_pools :: "(string \<times> string \<times> string list) list"
  mf_event :: "hub_event option"

text \<open>The codec of the registry, the decoder of a frame, the field of a JSON object (absent when the
  text is no object or has no such field), and the capacity of the channel to the upstream.\<close>

record mgr_env =
  me_enc :: "zfs_agent list \<Rightarrow> string"
  me_dec :: "string \<Rightarrow> string + zfs_agent list"
  me_frame :: "string \<Rightarrow> mgr_frame option"
  me_field :: "string \<Rightarrow> string \<Rightarrow> string option"
  me_cap :: nat

record zfs_mgr =
  zm_agents :: "zfs_agent list"
  zm_file :: "string option"
  zm_cache :: "string \<rightharpoonup> string"
  zm_prev :: "string \<rightharpoonup> string"
  zm_pools :: "string \<rightharpoonup> (string \<times> tracked_pool) list"
  zm_events :: "string \<rightharpoonup> string"
  zm_vigil :: bool
  zm_queue :: "(string \<times> string) list"
  zm_sent :: "(string \<times> notification) list"
  zm_logs :: "(string \<times> string) list list"

section \<open>The registry (registry.go)\<close>

definition zget :: "string \<Rightarrow> zfs_mgr \<Rightarrow> zfs_agent option" where
  "zget i m = ks_find zt_id i (zm_agents m)"

definition zsave :: "mgr_env \<Rightarrow> string option \<Rightarrow> zfs_mgr \<Rightarrow> string option \<times> zfs_mgr" where
  "zsave env werr m =
     (case werr of Some e \<Rightarrow> (Some e, m) | None \<Rightarrow> (None, m\<lparr>zm_file := Some (me_enc env (zm_agents m))\<rparr>))"

definition zregister :: "mgr_env \<Rightarrow> string option \<Rightarrow> int \<Rightarrow> zfs_agent \<Rightarrow> zfs_mgr \<Rightarrow> string option \<times> zfs_mgr" where
  "zregister env werr now e m =
     zsave env werr (m\<lparr>zm_agents := ks_upsert zt_id (zt_id e)
       (\<lambda>x. x\<lparr>zt_hostname := zt_hostname e, zt_arch := zt_arch e, zt_address := zt_address e, zt_version := zt_version e,
             zt_seen := now\<rparr>)
       (e\<lparr>zt_registered := now, zt_seen := now\<rparr>) (zm_agents m)\<rparr>)"

definition zstamp :: "int \<Rightarrow> zfs_agent \<Rightarrow> zfs_agent" where
  "zstamp now e = e\<lparr>zt_seen := now\<rparr>"

definition ztouch :: "int \<Rightarrow> string \<Rightarrow> zfs_mgr \<Rightarrow> zfs_mgr" where
  "ztouch now i m = m\<lparr>zm_agents := ks_modify zt_id i (zstamp now) (zm_agents m)\<rparr>"

definition set_alias :: "mgr_env \<Rightarrow> string option \<Rightarrow> string \<Rightarrow> string \<Rightarrow> zfs_mgr \<Rightarrow> (bool \<times> string option) \<times> zfs_mgr" where
  "set_alias env werr i al m =
     (if zget i m = None then ((False, None), m)
      else case zsave env werr (m\<lparr>zm_agents := ks_modify zt_id i (\<lambda>e. e\<lparr>zt_alias := al\<rparr>) (zm_agents m)\<rparr>) of
        (err, m') \<Rightarrow> ((True, err), m'))"

definition zdelete :: "mgr_env \<Rightarrow> string option \<Rightarrow> string \<Rightarrow> zfs_mgr \<Rightarrow> bool \<times> zfs_mgr" where
  "zdelete env werr i m =
     (if zget i m = None then (False, m)
      else (True, snd (zsave env werr (m\<lparr>zm_agents := ks_delete zt_id i (zm_agents m)\<rparr>))))"

definition zfs_online_threshold :: int where
  "zfs_online_threshold = 120000000000"

definition zviews :: "int \<Rightarrow> zfs_mgr \<Rightarrow> (zfs_agent \<times> string) list" where
  "zviews now m =
     map (\<lambda>e. (e, if now - zt_seen e < zfs_online_threshold then ''online'' else ''offline'')) (zm_agents m)"

definition zload :: "zfs_agent list \<Rightarrow> zfs_agent list" where
  "zload es = fold (\<lambda>e acc. if zt_id e = [] then acc else ks_put zt_id e acc) es []"

definition new_zfs_hub :: "mgr_env \<Rightarrow> string option \<Rightarrow> string + zfs_mgr" where
  "new_zfs_hub env file =
     (let hub = (\<lambda>es. \<lparr>zm_agents = es, zm_file = file, zm_cache = Map.empty, zm_prev = Map.empty, zm_pools = Map.empty,
            zm_events = Map.empty, zm_vigil = False, zm_queue = [], zm_sent = [], zm_logs = []\<rparr>) in
      case file of
        None \<Rightarrow> Inr (hub [])
      | Some data \<Rightarrow> (case me_dec env data of
            Inl e \<Rightarrow> Inl (''load registry: parse registry: '' @ e)
          | Inr es \<Rightarrow> Inr (hub (zload es))))"

section \<open>What changed between two frames (aggregator.go)\<close>

definition is_resilvering :: "string \<Rightarrow> bool" where
  "is_resilvering st \<longleftrightarrow> has_prefix st ''resilvering''"

definition is_scrub_running :: "string \<Rightarrow> bool" where
  "is_scrub_running st \<longleftrightarrow> has_prefix st ''in_progress'' \<or> st = ''paused''"

definition count_data_vdevs :: "string list \<Rightarrow> int" where
  "count_data_vdevs ts = int (length (filter (\<lambda>t. t \<notin> {''cache'', ''log'', ''spare'', ''special''}) ts))"

record pool_event =
  pe_type :: string
  pe_message :: string

definition pool_changes :: "string \<Rightarrow> tracked_pool \<Rightarrow> tracked_pool \<Rightarrow> pool_event list" where
  "pool_changes name p c =
     (if is_resilvering (tr_scrub p) \<and> \<not> is_resilvering (tr_scrub c)
      then [\<lparr>pe_type = ''resilver_completed'', pe_message = ''Resilver completed on pool '' @ name\<rparr>] else []) @
     (if is_scrub_running (tr_scrub p) \<and> tr_scrub c = ''completed''
      then [\<lparr>pe_type = ''scrub_completed'', pe_message = ''Scrub completed on pool '' @ name\<rparr>] else []) @
     (if tr_vdevs c > tr_vdevs p
      then [\<lparr>pe_type = ''pool_expansion_completed'', pe_message = ''Pool '' @ name @ '' expanded: '' @ itoa (tr_vdevs c - tr_vdevs p) @
              '' new data '' @ (if tr_vdevs c - tr_vdevs p \<noteq> 1 then ''vdevs'' else ''vdev'') @ '' ('' @ itoa (tr_vdevs p) @ '' '' @
              [CHR 0xE2, CHR 0x86, CHR 0x92] @ '' '' @ itoa (tr_vdevs c) @ '')''\<rparr>] else [])"

definition detect_transitions :: "(string \<times> tracked_pool) list \<Rightarrow> (string \<times> tracked_pool) list \<Rightarrow> pool_event list" where
  "detect_transitions prev cur =
     concat (map (\<lambda>(name, c). case map_of prev name of None \<Rightarrow> [] | Some p \<Rightarrow> pool_changes name p c) cur)"

text \<open>The map of the pools of a frame: a later pool of the same name replaces an earlier one.\<close>

definition tracked_pools :: "mgr_frame \<Rightarrow> (string \<times> tracked_pool) list" where
  "tracked_pools f =
     fold (\<lambda>(name, scrub, types). ks_put fst (name, \<lparr>tr_scrub = scrub, tr_vdevs = count_data_vdevs types\<rparr>)) (mf_pools f) []"

section \<open>Notifications\<close>

definition icon_play :: string where "icon_play = [CHR 0xE2, CHR 0x96, CHR 0xB6, CHR 0xEF, CHR 0xB8, CHR 0x8F]"
definition icon_ok :: string where "icon_ok = [CHR 0xE2, CHR 0x9C, CHR 0x85]"
definition icon_cross :: string where "icon_cross = [CHR 0xE2, CHR 0x9D, CHR 0x8C]"
definition icon_cycle :: string where "icon_cycle = [CHR 0xF0, CHR 0x9F, CHR 0x94, CHR 0x84]"
definition icon_broom :: string where "icon_broom = [CHR 0xF0, CHR 0x9F, CHR 0xA7, CHR 0xB9]"
definition icon_plus :: string where "icon_plus = [CHR 0xE2, CHR 0x9E, CHR 0x95]"
definition icon_warn :: string where "icon_warn = [CHR 0xE2, CHR 0x9A, CHR 0xA0, CHR 0xEF, CHR 0xB8, CHR 0x8F]"
definition icon_info :: string where "icon_info = [CHR 0xE2, CHR 0x84, CHR 0xB9, CHR 0xEF, CHR 0xB8, CHR 0x8F]"

definition notification_icon :: "string \<Rightarrow> string \<Rightarrow> string" where
  "notification_icon ty sev =
     (if ty \<in> {''job_started'', ''manual_job_started'', ''scheduled_job_started'', ''scrub_task_started'', ''drive_replacement_started''}
      then icon_play
      else if ty \<in> {''job_complete'', ''manual_job_complete'', ''scheduled_job_complete'', ''snapshot_task_succeeded'',
                    ''scrub_completed'', ''resilver_completed''} then icon_ok
      else if ty = ''job_failed'' then icon_cross
      else if ty = ''replication_succeeded'' then icon_cycle
      else if ty = ''retention_cleanup_completed'' then icon_broom
      else if ty = ''pool_expansion_completed'' then icon_plus
      else if ty \<in> {''pool_degraded'', ''pool_faulted'', ''device_failed''} then icon_warn
      else if sev = ''critical'' then icon_cross
      else if sev = ''warning'' then icon_warn
      else icon_info)"

definition with_icon :: "string \<Rightarrow> string \<Rightarrow> string \<Rightarrow> string" where
  "with_icon ty sev msg =
     (let icon = notification_icon ty sev in
      if icon \<noteq> [] \<and> \<not> has_prefix (trim_space msg) icon then icon @ '' '' @ msg else msg)"

definition zhost :: "string \<Rightarrow> zfs_mgr \<Rightarrow> string" where
  "zhost agent m =
     (case zget agent m of None \<Rightarrow> agent | Some e \<Rightarrow> if zt_hostname e = [] then agent else zt_hostname e)"

definition znotify :: "int \<Rightarrow> string \<Rightarrow> string \<Rightarrow> string \<Rightarrow> string \<Rightarrow> zfs_mgr \<Rightarrow> zfs_mgr" where
  "znotify now agent ty sev msg m =
     m\<lparr>zm_sent := zm_sent m @ [(agent, \<lparr>nt_type = ty, nt_severity = sev, nt_source = ''zfs-manager'', nt_host = zhost agent m,
         nt_message = with_icon ty sev msg, nt_time = rfc3339 now\<rparr>)]\<rparr>"

definition evaluate_agent_event :: "int \<Rightarrow> string \<Rightarrow> hub_event option \<Rightarrow> zfs_mgr \<Rightarrow> zfs_mgr" where
  "evaluate_agent_event now agent evt m =
     (case evt of
        None \<Rightarrow> m
      | Some e \<Rightarrow>
          if he_id e = [] \<or> zm_events m agent = Some (he_id e) then m
          else znotify now agent (he_type e) (if he_severity e = [] then ''info'' else he_severity e) (he_message e)
                 (m\<lparr>zm_events := (zm_events m)(agent \<mapsto> he_id e)\<rparr>))"

definition announce_changes :: "int \<Rightarrow> string \<Rightarrow> pool_event list \<Rightarrow> zfs_mgr \<Rightarrow> zfs_mgr" where
  "announce_changes now agent evs m = fold (\<lambda>ev. znotify now agent (pe_type ev) ''info'' (pe_message ev)) evs m"

definition evaluate_frame :: "mgr_env \<Rightarrow> int \<Rightarrow> string \<Rightarrow> string \<Rightarrow> zfs_mgr \<Rightarrow> zfs_mgr" where
  "evaluate_frame env now agent raw m =
     (if \<not> zm_vigil m then m
      else case me_frame env raw of
        None \<Rightarrow> m
      | Some f \<Rightarrow>
          (let cur = tracked_pools f; prev = zm_pools m agent; m1 = m\<lparr>zm_pools := (zm_pools m)(agent \<mapsto> cur)\<rparr>;
               m2 = (case prev of None \<Rightarrow> m1 | Some p \<Rightarrow> announce_changes now agent (detect_transitions p cur) m1)
           in evaluate_agent_event now agent (mf_event f) m2))"

text \<open>The frame goes upstream when the channel has room for it.\<close>

definition zingest :: "mgr_env \<Rightarrow> int \<Rightarrow> string \<Rightarrow> string \<Rightarrow> zfs_mgr \<Rightarrow> zfs_mgr" where
  "zingest env now agent raw m =
     (let keep = (case zm_cache m agent of None \<Rightarrow> None | Some old \<Rightarrow> me_field env old ''iostat'');
          m1 = (case keep of None \<Rightarrow> m | Some x \<Rightarrow> m\<lparr>zm_prev := (zm_prev m)(agent \<mapsto> x)\<rparr>);
          m2 = evaluate_frame env now agent raw (m1\<lparr>zm_cache := (zm_cache m1)(agent \<mapsto> raw)\<rparr>)
      in if length (zm_queue m2) < me_cap env then m2\<lparr>zm_queue := zm_queue m2 @ [(agent, raw)]\<rparr> else m2)"

definition latest_field :: "mgr_env \<Rightarrow> string \<Rightarrow> string \<Rightarrow> zfs_mgr \<Rightarrow> string option" where
  "latest_field env agent field m =
     (case zm_cache m agent of None \<Rightarrow> None | Some raw \<Rightarrow> me_field env raw field)"

definition emit_log_upstream :: "(string \<times> string) list \<Rightarrow> zfs_mgr \<Rightarrow> zfs_mgr" where
  "emit_log_upstream payload m = (if zm_vigil m then m\<lparr>zm_logs := zm_logs m @ [payload]\<rparr> else m)"

section \<open>The registry as a keyed store\<close>

definition zreg_ok :: "zfs_mgr \<Rightarrow> bool" where
  "zreg_ok m \<longleftrightarrow> ks_ok zt_id (zm_agents m)"

lemma zsave_agents [simp]: "zm_agents (snd (zsave env werr m)) = zm_agents m"
  by (simp add: zsave_def split: option.splits)

lemma zget_touch: "zget k' (ztouch t k m) = (if k' = k then map_option (zstamp t) (zget k m) else zget k' m)"
  by (simp add: zget_def ztouch_def ks_find_modify zstamp_def)

lemma zdelete_agents: "zm_agents (snd (zdelete env werr i m)) = ks_delete zt_id i (zm_agents m)"
  by (auto simp: zdelete_def zget_def ks_find_None ks_delete_def intro!: filter_True [symmetric])

lemma zget_delete: "zget k' (snd (zdelete env werr k m)) = (if k' = k then None else zget k' m)"
  by (simp add: zget_def zdelete_agents ks_find_delete)

interpretation zfs_registry: keyed_store zget ztouch "\<lambda>i m. snd (zdelete env werr i m)" zstamp zt_id zreg_ok for env werr
proof
  show "zget k s = Some e \<Longrightarrow> zt_id e = k" for k s e
    using ks_find_Some unfolding zget_def by metis
  show "zreg_ok s \<Longrightarrow> zreg_ok (ztouch t k s)" for s t k
    by (simp add: zreg_ok_def ztouch_def ks_ok_modify zstamp_def)
  show "zreg_ok s \<Longrightarrow> zreg_ok (snd (zdelete env werr k s))" for s k
    by (simp add: zreg_ok_def zdelete_agents ks_ok_delete)
qed (simp_all add: zget_touch zget_delete)

section \<open>What is announced about an agent\<close>

text \<open>The notes about one agent, and what a sequence of its own frames should say: a pool is compared
  with its state in the frame before, and an event is passed on when its id is not the last one.\<close>

definition notes_about :: "string \<Rightarrow> zfs_mgr \<Rightarrow> (string \<times> string \<times> string) list" where
  "notes_about agent m =
     map (\<lambda>(a, n). (nt_type n, nt_severity n, nt_message n)) (filter (\<lambda>(a, n). a = agent) (zm_sent m))"

definition plain_note :: "string \<Rightarrow> string \<Rightarrow> string \<Rightarrow> string \<times> string \<times> string" where
  "plain_note ty sev msg = (ty, sev, with_icon ty sev msg)"

fun agent_story :: "(string \<times> tracked_pool) list option \<Rightarrow> string option \<Rightarrow> mgr_frame list \<Rightarrow> (string \<times> string \<times> string) list" where
  "agent_story prev ev [] = []"
| "agent_story prev ev (f # fs) =
     (case prev of None \<Rightarrow> []
      | Some p \<Rightarrow> map (\<lambda>e. plain_note (pe_type e) ''info'' (pe_message e)) (detect_transitions p (tracked_pools f))) @
     (case mf_event f of
        None \<Rightarrow> agent_story (Some (tracked_pools f)) ev fs
      | Some e \<Rightarrow>
          if he_id e = [] \<or> ev = Some (he_id e) then agent_story (Some (tracked_pools f)) ev fs
          else plain_note (he_type e) (if he_severity e = [] then ''info'' else he_severity e) (he_message e) #
               agent_story (Some (tracked_pools f)) (Some (he_id e)) fs)"

definition frames_of :: "mgr_env \<Rightarrow> string \<Rightarrow> (int \<times> string \<times> string) list \<Rightarrow> mgr_frame list" where
  "frames_of env agent ops = List.map_filter (\<lambda>(now, a, raw). if a = agent then me_frame env raw else None) ops"

lemma notes_znotify [simp]:
  "notes_about agent (znotify now a ty sev msg m) = notes_about agent m @ (if a = agent then [plain_note ty sev msg] else [])"
  by (simp add: notes_about_def znotify_def plain_note_def)

lemma znotify_simps [simp]:
  "zm_pools (znotify now a ty sev msg m) = zm_pools m" "zm_events (znotify now a ty sev msg m) = zm_events m"
  "zm_vigil (znotify now a ty sev msg m) = zm_vigil m"
  by (simp_all add: znotify_def)

lemma announce_simps [simp]:
  "zm_pools (announce_changes now a evs m) = zm_pools m" "zm_events (announce_changes now a evs m) = zm_events m"
  "zm_vigil (announce_changes now a evs m) = zm_vigil m"
  unfolding announce_changes_def by (induction evs arbitrary: m) simp_all

lemma notes_announce [simp]:
  "notes_about agent (announce_changes now a evs m) = notes_about agent m @
     (if a = agent then map (\<lambda>e. plain_note (pe_type e) ''info'' (pe_message e)) evs else [])"
  unfolding announce_changes_def by (induction evs arbitrary: m) auto

lemma notes_update [simp]:
  "notes_about agent (m\<lparr>zm_pools := p\<rparr>) = notes_about agent m" "notes_about agent (m\<lparr>zm_events := e\<rparr>) = notes_about agent m"
  "notes_about agent (m\<lparr>zm_cache := c\<rparr>) = notes_about agent m" "notes_about agent (m\<lparr>zm_prev := c\<rparr>) = notes_about agent m"
  "notes_about agent (m\<lparr>zm_queue := q\<rparr>) = notes_about agent m" "notes_about agent (m\<lparr>zm_agents := ags\<rparr>) = notes_about agent m"
  by (simp_all add: notes_about_def)

text \<open>The state that what is said about an agent depends on.\<close>

definition told :: "string \<Rightarrow> zfs_mgr \<Rightarrow> bool \<times> (string \<times> tracked_pool) list option \<times> string option \<times> (string \<times> string \<times> string) list" where
  "told agent m = (zm_vigil m, zm_pools m agent, zm_events m agent, notes_about agent m)"

definition next_event :: "string option \<Rightarrow> hub_event option \<Rightarrow> string option" where
  "next_event ev evt = (case evt of None \<Rightarrow> ev | Some e \<Rightarrow> if he_id e = [] then ev else Some (he_id e))"

lemma told_update [simp]:
  "told agent (m\<lparr>zm_cache := c\<rparr>) = told agent m" "told agent (m\<lparr>zm_prev := c\<rparr>) = told agent m"
  "told agent (m\<lparr>zm_queue := q\<rparr>) = told agent m"
  by (simp_all add: told_def)

lemma event_told:
  "told agent (evaluate_agent_event now a evt m) =
     (if a \<noteq> agent then told agent m
      else (zm_vigil m, zm_pools m agent, next_event (zm_events m agent) evt,
        notes_about agent m @ (case evt of None \<Rightarrow> [] | Some e \<Rightarrow>
          if he_id e = [] \<or> zm_events m agent = Some (he_id e) then []
          else [plain_note (he_type e) (if he_severity e = [] then ''info'' else he_severity e) (he_message e)])))"
  by (cases evt) (simp_all add: told_def evaluate_agent_event_def next_event_def)

lemma frame_told:
  "told agent (evaluate_frame env now a raw m) =
     (case told agent m of (v, prev, ev, ns) \<Rightarrow>
        if \<not> v \<or> a \<noteq> agent then (v, prev, ev, ns)
        else case me_frame env raw of
          None \<Rightarrow> (v, prev, ev, ns)
        | Some f \<Rightarrow> (v, Some (tracked_pools f), next_event ev (mf_event f), ns @ agent_story prev ev [f]))"
proof (cases "me_frame env raw")
  case None
  then show ?thesis by (simp add: told_def evaluate_frame_def)
next
  case (Some f)
  show ?thesis
  proof (cases "zm_vigil m")
    case False
    then show ?thesis by (simp add: told_def evaluate_frame_def)
  next
    case True
    then have "evaluate_frame env now a raw m = evaluate_agent_event now a (mf_event f)
        (case zm_pools m a of None \<Rightarrow> m\<lparr>zm_pools := (zm_pools m)(a \<mapsto> tracked_pools f)\<rparr>
         | Some p \<Rightarrow> announce_changes now a (detect_transitions p (tracked_pools f)) (m\<lparr>zm_pools := (zm_pools m)(a \<mapsto> tracked_pools f)\<rparr>))"
      by (simp add: evaluate_frame_def Some Let_def)
    then have "told agent (evaluate_frame env now a raw m) = told agent (evaluate_agent_event now a (mf_event f)
        (case zm_pools m a of None \<Rightarrow> m\<lparr>zm_pools := (zm_pools m)(a \<mapsto> tracked_pools f)\<rparr>
         | Some p \<Rightarrow> announce_changes now a (detect_transitions p (tracked_pools f)) (m\<lparr>zm_pools := (zm_pools m)(a \<mapsto> tracked_pools f)\<rparr>)))"
      by (rule arg_cong)
    then show ?thesis
      unfolding event_told using True by (auto simp: Some told_def split: option.split)
  qed
qed

lemma zingest_told:
  "told agent (zingest env now a raw m) =
     (case told agent m of (v, prev, ev, ns) \<Rightarrow>
        if \<not> v \<or> a \<noteq> agent then (v, prev, ev, ns)
        else case me_frame env raw of
          None \<Rightarrow> (v, prev, ev, ns)
        | Some f \<Rightarrow> (v, Some (tracked_pools f), next_event ev (mf_event f), ns @ agent_story prev ev [f]))"
proof -
  obtain m0 where m0: "told agent (zingest env now a raw m) = told agent (evaluate_frame env now a raw m0)" "told agent m0 = told agent m"
    by (cases "case zm_cache m a of None \<Rightarrow> None | Some old \<Rightarrow> me_field env old ''iostat''")
      (simp_all add: zingest_def Let_def)
  show ?thesis unfolding m0(1) frame_told m0(2) ..
qed

lemma ztouch_told [simp]: "told agent (ztouch now a m) = told agent m"
  by (simp add: told_def ztouch_def)

text \<open>The handler touches the agent before it ingests its frame (\<^verbatim>\<open>server.go\<close>).\<close>

definition ingest_request :: "mgr_env \<Rightarrow> int \<Rightarrow> string \<Rightarrow> string \<Rightarrow> zfs_mgr \<Rightarrow> zfs_mgr" where
  "ingest_request env now agent raw m = zingest env now agent raw (ztouch now agent m)"

lemma story_told:
  "notes_about agent (fold (\<lambda>(now, a, raw). ingest_request env now a raw) ops m) =
     notes_about agent m @ (if zm_vigil m then agent_story (zm_pools m agent) (zm_events m agent) (frames_of env agent ops) else [])"
proof (induction ops arbitrary: m)
  case Nil
  then show ?case by (simp add: frames_of_def List.map_filter_def)
next
  case (Cons op ops)
  obtain now a raw where op: "op = (now, a, raw)" by (cases op)
  let ?m = "ingest_request env now a raw m"
  have told: "told agent ?m = (case told agent m of (v, prev, ev, ns) \<Rightarrow>
        if \<not> v \<or> a \<noteq> agent then (v, prev, ev, ns)
        else case me_frame env raw of
          None \<Rightarrow> (v, prev, ev, ns)
        | Some f \<Rightarrow> (v, Some (tracked_pools f), next_event ev (mf_event f), ns @ agent_story prev ev [f]))"
    by (simp add: ingest_request_def zingest_told)
  show ?case
  proof (cases "zm_vigil m \<and> a = agent")
    case False
    then have "told agent ?m = told agent m" using told by (auto simp: told_def)
    with False Cons.IH [of ?m] show ?thesis by (auto simp: op told_def frames_of_def List.map_filter_def)
  next
    case True
    show ?thesis
    proof (cases "me_frame env raw")
      case None
      with True have "told agent ?m = told agent m" using told by (auto simp: told_def)
      with True None Cons.IH [of ?m] show ?thesis by (auto simp: op told_def frames_of_def List.map_filter_def)
    next
      case (Some f)
      with True told Cons.IH [of ?m] show ?thesis
        by (auto simp: op told_def next_event_def frames_of_def List.map_filter_def split: option.split)
    qed
  qed
qed

text \<open>C21. What the hub announces about an agent depends on the frames of that agent alone: however
  the frames of other agents come in between, the notifications about it are, in order, exactly
  the changes between consecutive readable frames of its own, a pool in both of them being
  compared and a new one only noted, and its events, each once while its id stays the last. With
  no upstream client nothing is announced.\<close>

theorem agents_announced_apart:
  "notes_about agent (fold (\<lambda>(now, a, raw). ingest_request env now a raw) ops m) =
     notes_about agent m @ (if zm_vigil m then agent_story (zm_pools m agent) (zm_events m agent) (frames_of env agent ops) else [])"
  by (rule story_told)

end
