(* ===== verification/GoFloatMono.thy ===== *)
theory GoFloatMono
  imports GoFloat
begin

text \<open>
  Rounding to binary64 is monotone: what the bounds on quotients of counters rest on.
\<close>

lemma pow2_powi: "pow2 e = 2 powi e"
  by (simp add: pow2_def power_int_def inverse_eq_divide power_one_over)

lemma pow2_add: "pow2 (a + b) = pow2 a * pow2 b"
  by (simp add: pow2_powi power_int_add)

lemma pow2_mono: "a \<le> b \<Longrightarrow> pow2 a \<le> pow2 b"
  by (simp add: pow2_powi power_int_increasing)

lemma pow2_less: "pow2 a < pow2 b \<longleftrightarrow> a < b"
proof
  show "a < b \<Longrightarrow> pow2 a < pow2 b" by (simp add: pow2_powi power_int_strict_increasing)
  show "pow2 a < pow2 b \<Longrightarrow> a < b" using pow2_mono [of b a] by linarith
qed

lemma pow2_nat: "0 \<le> e \<Longrightarrow> pow2 e = 2 ^ nat e"
  by (simp add: pow2_def)

lemma bitlen_rat:
  assumes "0 < p"
  shows "pow2 (bitlen p - 1) \<le> of_int p" "of_int p < pow2 (bitlen p)"
proof -
  have b: "2 ^ nat (bitlen p - 1) \<le> p" "p < 2 ^ nat (bitlen p)" "1 \<le> bitlen p"
    using bitlen_bounds [OF assms] assms by (simp_all add: bitlen_nonneg) (metis assms bitlen_le_iff_power bitlen_nonneg int_one_le_iff_zero_less less_le nle_le power_0 nat_zero_as_int zero_less_one)
  have "(of_int (2 ^ nat (bitlen p - 1)) :: rat) \<le> of_int p" using b(1) by (rule of_int_le_iff [THEN iffD2])
  then show "pow2 (bitlen p - 1) \<le> of_int p" using b(3) by (simp add: pow2_nat)
  have "(of_int p :: rat) < of_int (2 ^ nat (bitlen p))" using b(2) by (rule of_int_less_iff [THEN iffD2])
  then show "of_int p < pow2 (bitlen p)" using b(3) by (simp add: pow2_nat)
qed

lemma ilog2_bounds:
  assumes "0 < x"
  shows "pow2 (ilog2 x) \<le> x \<and> x < pow2 (ilog2 x + 1)"
proof -
  obtain p q where pq: "quotient_of x = (p, q)" by force
  have q: "0 < q" using quotient_of_denom_pos [OF pq] .
  have x: "x = of_int p / of_int q" using quotient_of_div [OF pq] .
  have p: "0 < p" using assms q x by (simp add: zero_less_divide_iff)
  let ?e = "bitlen p - bitlen q"
  have "of_int p < pow2 (bitlen p)" "pow2 (bitlen q - 1) \<le> of_int q"
    using bitlen_rat p q by auto
  then have "x < pow2 (bitlen p) / pow2 (bitlen q - 1)"
    unfolding x by (intro frac_less) (use p in auto)
  also have "\<dots> = pow2 (?e + 1)" using pow2_add [of "?e + 1" "bitlen q - 1"] by (simp add: nonzero_divide_eq_eq less_imp_neq [THEN not_sym])
  finally have up: "x < pow2 (?e + 1)" .
  have "pow2 (bitlen p - 1) \<le> of_int p" "of_int q < pow2 (bitlen q)"
    using bitlen_rat p q by auto
  then have "pow2 (bitlen p - 1) / pow2 (bitlen q) \<le> x"
    unfolding x by (intro frac_le) (use p q in auto)
  moreover have "pow2 (bitlen p - 1) / pow2 (bitlen q) = pow2 (?e - 1)"
    using pow2_add [of "?e - 1" "bitlen q"] by (simp add: nonzero_divide_eq_eq less_imp_neq [THEN not_sym])
  ultimately have "pow2 (?e - 1) \<le> x" by simp
  with up show ?thesis by (auto simp: ilog2_def pq Let_def)
qed

lemma ilog2_mono:
  assumes "0 < a" "a \<le> b"
  shows "ilog2 a \<le> ilog2 b"
proof -
  have "pow2 (ilog2 a) \<le> a" "b < pow2 (ilog2 b + 1)"
    using ilog2_bounds [of a] ilog2_bounds [of b] assms by auto
  then have "pow2 (ilog2 a) < pow2 (ilog2 b + 1)" using assms(2) by linarith
  then show ?thesis by (simp add: pow2_less)
qed

lemma round_even_floor: "\<lfloor>x\<rfloor> \<le> round_even x \<and> round_even x \<le> \<lfloor>x\<rfloor> + 1"
  by (simp add: round_even_def Let_def)

lemma round_even_mono:
  assumes "x \<le> y"
  shows "round_even x \<le> round_even y"
proof (cases "\<lfloor>x\<rfloor> = \<lfloor>y\<rfloor>")
  case True
  then show ?thesis using assms by (auto simp: round_even_def Let_def)
next
  case False
  then have "\<lfloor>x\<rfloor> + 1 \<le> \<lfloor>y\<rfloor>" using floor_mono [OF assms] by simp
  then show ?thesis using round_even_floor [of x] round_even_floor [of y] by linarith
qed

definition binade :: "rat \<Rightarrow> int" where
  "binade a = max (ilog2 a - 52) (- 1074)"

lemma round64_abs_binade: "round64_abs a = of_int (round_even (a / pow2 (binade a))) * pow2 (binade a)"
  by (simp add: round64_abs_def binade_def Let_def)

lemma round64_abs_upper:
  assumes "0 < a"
  shows "round64_abs a \<le> pow2 (binade a + 53)"
proof -
  have "a < pow2 (ilog2 a + 1)" using ilog2_bounds [OF assms] by simp
  also have "\<dots> \<le> pow2 (binade a + 53)" by (rule pow2_mono) (simp add: binade_def)
  also have "\<dots> = pow2 53 * pow2 (binade a)" by (simp add: pow2_add)
  finally have "a / pow2 (binade a) \<le> of_int (2 ^ 53)" by (simp add: divide_le_eq pow2_nat)
  from round_even_mono [OF this] have "round_even (a / pow2 (binade a)) \<le> 2 ^ 53"
    using round_even_int [of "2 ^ 53"] by simp
  then have "(of_int (round_even (a / pow2 (binade a))) :: rat) \<le> of_int (2 ^ 53)" by (simp only: of_int_le_iff)
  then have "round64_abs a \<le> pow2 53 * pow2 (binade a)"
    by (simp add: round64_abs_binade pow2_nat)
  then show ?thesis by (simp add: pow2_add mult.commute)
qed

lemma round64_abs_lower:
  assumes "0 < a" "- 1074 < binade a"
  shows "pow2 (binade a + 52) \<le> round64_abs a"
proof -
  have e: "binade a + 52 = ilog2 a" using assms(2) by (simp add: binade_def)
  then have "pow2 (binade a + 52) \<le> a" using ilog2_bounds [OF assms(1)] by simp
  then have "of_int (2 ^ 52) \<le> a / pow2 (binade a)" by (simp add: le_divide_eq pow2_add pow2_nat)
  from round_even_mono [OF this] have "2 ^ 52 \<le> round_even (a / pow2 (binade a))"
    using round_even_int [of "2 ^ 52"] by simp
  then have "(of_int (2 ^ 52) :: rat) \<le> of_int (round_even (a / pow2 (binade a)))" by (simp only: of_int_le_iff)
  then show ?thesis by (simp add: round64_abs_binade pow2_add pow2_nat)
qed

lemma round64_abs_mono:
  assumes "0 < a" "a \<le> b"
  shows "round64_abs a \<le> round64_abs b"
proof (cases "binade a = binade b")
  case True
  have "round_even (a / pow2 (binade b)) \<le> round_even (b / pow2 (binade b))"
    by (rule round_even_mono) (simp add: assms(2) divide_right_mono less_imp_le)
  then show ?thesis by (simp add: round64_abs_binade True mult_right_mono less_imp_le)
next
  case False
  then have lt: "binade a < binade b" using ilog2_mono [OF assms] unfolding binade_def by linarith
  then have "- 1074 < binade b" by (simp add: binade_def [of a])
  have "round64_abs a \<le> pow2 (binade a + 53)" using round64_abs_upper [OF assms(1)] .
  also have "\<dots> \<le> pow2 (binade b + 52)" by (rule pow2_mono) (use lt in simp)
  also have "\<dots> \<le> round64_abs b"
    using round64_abs_lower \<open>- 1074 < binade b\<close> assms by simp
  finally show ?thesis .
qed

lemma round64_abs_nonneg: "0 < a \<Longrightarrow> 0 \<le> round64_abs a"
proof -
  assume "0 < a"
  then have "0 \<le> round_even (a / pow2 (binade a))"
    using round_even_mono [of 0 "a / pow2 (binade a)"] round_even_int [of 0] by (simp add: less_imp_le)
  then show ?thesis by (simp add: round64_abs_binade less_imp_le)
qed

lemma round64_mono:
  assumes "0 \<le> a" "a \<le> b"
  shows "f64_ge (round64 b) (round64 a)"
proof (cases "a = 0")
  case True
  then show ?thesis using assms round64_abs_nonneg [of b] by (auto simp: round64_def Let_def)
next
  case False
  then show ?thesis using assms round64_abs_mono [of a b] by (auto simp: round64_def Let_def)
qed

lemma round64_nonneg: "0 \<le> a \<Longrightarrow> f64_ge (round64 a) (Fin 0)"
  using round64_mono [of 0 a] by (simp add: round64_def)

lemma round64_int: "0 \<le> n \<Longrightarrow> n < 2 ^ 53 \<Longrightarrow> round64 (of_int n) = Fin (of_int n)"
  using f64_of_int_exact [of n] by (simp add: f64_of_int_def)

lemma round64_below:
  assumes "0 \<le> a" "a \<le> of_int n" "0 \<le> n" "n < 2 ^ 53"
  shows "\<exists>r. round64 a = Fin r \<and> 0 \<le> r \<and> r \<le> of_int n"
proof -
  have "f64_ge (Fin (of_int n)) (round64 a)" "f64_ge (round64 a) (Fin 0)"
    using round64_mono [OF assms(1,2)] round64_int [OF assms(3,4)] round64_nonneg [OF assms(1)] by simp_all
  then show ?thesis by (cases "round64 a") auto
qed

lemma ilog2_pow2: "ilog2 (pow2 k) = k"
  using ilog2_bounds [of "pow2 k"] pow2_less [of k "ilog2 (pow2 k) + 1"] pow2_mono [of "k + 1" "ilog2 (pow2 k)"] pow2_less [of k "k + 1"]
  by (cases "ilog2 (pow2 k) \<le> k") auto

lemma round64_pow2:
  assumes "- 1022 \<le> k" "k < 1024"
  shows "round64 (pow2 k) = Fin (pow2 k)"
proof -
  have b: "binade (pow2 k) = k - 52" using assms by (simp add: binade_def ilog2_pow2)
  have "pow2 k / pow2 (k - 52) = of_int (2 ^ 52)"
    using pow2_add [of "k - 52" 52] by (simp add: nonzero_divide_eq_eq less_imp_neq [THEN not_sym] pow2_nat mult.commute)
  then have r: "round64_abs (pow2 k) = pow2 k"
    using pow2_add [of "k - 52" 52] by (simp only: round64_abs_binade b round_even_int) (simp add: pow2_nat mult.commute)
  have "pow2 k < pow2 1024" using assms(2) by (simp add: pow2_less)
  then have "\<not> 2 ^ 1024 \<le> pow2 k" by (simp add: pow2_nat [of 1024])
  then show ?thesis using pow2_pos [of k] by (simp add: round64_def r Let_def abs_of_pos)
qed

lemma round64_upto_pow2:
  assumes "0 \<le> a" "a \<le> pow2 k" "- 1022 \<le> k" "k < 1024"
  shows "\<exists>r. round64 a = Fin r \<and> 0 \<le> r \<and> r \<le> pow2 k"
proof -
  have "f64_ge (Fin (pow2 k)) (round64 a)" "f64_ge (round64 a) (Fin 0)"
    using round64_mono [OF assms(1,2)] round64_pow2 [OF assms(3,4)] round64_nonneg [OF assms(1)] by simp_all
  then show ?thesis by (cases "round64 a") auto
qed

lemma pow2_64: "pow2 64 = 18446744073709551616"
  by (simp add: pow2_nat)

lemma round64_u64:
  assumes "0 \<le> a" "a \<le> 18446744073709551616"
  shows "\<exists>r. round64 a = Fin r \<and> 0 \<le> r"
  using round64_upto_pow2 [of a 64] assms unfolding pow2_64 by auto

text \<open>The quotient of two unsigned counters, the first at most the second, as a percentage.\<close>

lemma percent_bounds:
  assumes "0 \<le> n" "n \<le> t" "0 < t" "t \<le> 18446744073709551616"
  shows "\<exists>r. f64_mul (f64_div (f64_of_int n) (f64_of_int t)) 100 = Fin r \<and> 0 \<le> r \<and> r \<le> 100"
proof -
  have in_range: "0 \<le> (of_int n :: rat)" "(of_int n :: rat) \<le> of_int t" "1 \<le> (of_int t :: rat)" "(of_int t :: rat) \<le> 18446744073709551616"
    using assms by simp_all
  obtain a where a: "round64 (of_int n) = Fin a" "0 \<le> a"
    using round64_u64 [of "of_int n"] in_range by auto
  obtain b where b: "round64 (of_int t) = Fin b"
    using round64_u64 [of "of_int t"] in_range by auto
  have one: "round64 1 = Fin 1" using round64_int [of 1] by simp
  have "a \<le> b" using round64_mono [OF in_range(1,2)] unfolding a b by simp
  moreover have "1 \<le> b" using round64_mono [OF _ in_range(3)] unfolding b one by simp
  ultimately have "0 \<le> a / b" "a / b \<le> of_int 1" "b \<noteq> 0" using a(2) by (auto simp: divide_le_eq)
  then obtain r where r: "round64 (a / b) = Fin r" "0 \<le> r" "r \<le> 1" using round64_below [of "a / b" 1] by auto
  then obtain s where "round64 (r * 100) = Fin s" "0 \<le> s" "s \<le> 100" using round64_below [of "r * 100" 100] by auto
  then show ?thesis using r \<open>b \<noteq> 0\<close> by (simp add: f64_of_int_def a b)
qed

end
