(* ===== verification/ZfsStats.thy ===== *)
theory ZfsStats
  imports ZfsPreview ZfsTopology GoFloatMono SnapEngine
begin

text \<open>
  The performance counters of the ZFS agent (\<^verbatim>\<open>zfs-manager/internal/agent/iostat.go\<close> and
  \<^verbatim>\<open>arcstats.go\<close>): the rows of \<^verbatim>\<open>zpool iostat -Hpv\<close> as pools with their vdevs and disks, and the
  counters of the cache with its hit ratios and recommendations. All counters are of 64 bits.
\<close>

section \<open>Samples of pools (iostat.go)\<close>

record io_counts =
  ic_rops :: int
  ic_wops :: int
  ic_rbytes :: int
  ic_wbytes :: int

record disk_io =
  di_name :: string
  di_io :: io_counts

record vdev_io =
  vi_name :: string
  vi_type :: string
  vi_alloc :: int
  vi_free :: int
  vi_io :: io_counts
  vi_disks :: "disk_io list"

record pool_io =
  pi_name :: string
  pi_alloc :: int
  pi_free :: int
  pi_io :: io_counts
  pi_vdevs :: "vdev_io list"
  pi_time :: string

definition looks_like_disk :: "string \<Rightarrow> bool" where
  "looks_like_disk name \<longleftrightarrow>
     list_ex (has_prefix name) [''/'', ''sd'', ''nvme'', ''vd'', ''hd'', ''xvd'', ''wwn-'', ''scsi-'', ''ata-'']"

definition classify_vdev_type :: "string \<Rightarrow> string" where
  "classify_vdev_type name =
     (if has_prefix name ''mirror'' then ''mirror''
      else if has_prefix name ''raidz'' then
        (if CHR ''-'' \<in> set name then takeWhile (\<lambda>c. c \<noteq> CHR ''-'') name else ''raidz'')
      else if has_prefix name ''spare'' then ''spare''
      else if has_prefix name ''cache'' then ''cache''
      else if has_prefix name ''log'' then ''log''
      else if has_prefix name ''special'' then ''special''
      else if has_prefix name ''dedup'' then ''dedup''
      else ''disk'')"

text \<open>The fields of a row: split at tabs, or at white space when that gives fewer than seven.\<close>

definition io_fields :: "string \<Rightarrow> string list option" where
  "io_fields line =
     (let l = dropWhile blank_char line; f = split_on (CHR 0x09) l in
      if length f \<ge> 7 then Some f
      else if length (str_fields l) \<ge> 7 then Some (str_fields l) else None)"

definition row_counts :: "string list \<Rightarrow> io_counts" where
  "row_counts f =
     \<lparr>ic_rops = parse_u64 (f ! 3), ic_wops = parse_u64 (f ! 4), ic_rbytes = parse_u64 (f ! 5), ic_wbytes = parse_u64 (f ! 6)\<rparr>"

definition row_vdev_io :: "string \<Rightarrow> string list \<Rightarrow> vdev_io" where
  "row_vdev_io ty f =
     \<lparr>vi_name = f ! 0, vi_type = ty, vi_alloc = parse_u64 (f ! 1), vi_free = parse_u64 (f ! 2), vi_io = row_counts f, vi_disks = []\<rparr>"

definition row_disk_io :: "string list \<Rightarrow> disk_io" where
  "row_disk_io f = \<lparr>di_name = f ! 0, di_io = row_counts f\<rparr>"

definition row_pool_io :: "string list \<Rightarrow> pool_io" where
  "row_pool_io f =
     \<lparr>pi_name = f ! 0, pi_alloc = parse_u64 (f ! 1), pi_free = parse_u64 (f ! 2), pi_io = row_counts f, pi_vdevs = [], pi_time = []\<rparr>"

text \<open>The pools that are closed, the open pool and its open vdev.\<close>

type_synonym io_state = "pool_io list \<times> pool_io option \<times> vdev_io option"

fun flush_vdev :: "io_state \<Rightarrow> io_state" where
  "flush_vdev (ps, Some p, Some v) = (ps, Some (p\<lparr>pi_vdevs := pi_vdevs p @ [v]\<rparr>), None)"
| "flush_vdev st = st"

fun close_pool :: "io_state \<Rightarrow> io_state" where
  "close_pool (ps, Some p, v) = (ps @ [p], None, v)"
| "close_pool st = st"

definition flush_open_pool :: "io_state \<Rightarrow> io_state" where
  "flush_open_pool st = close_pool (flush_vdev st)"

definition add_disk_io :: "string list \<Rightarrow> vdev_io option \<Rightarrow> vdev_io" where
  "add_disk_io f v =
     (case v of None \<Rightarrow> row_vdev_io ''disk'' f | Some v \<Rightarrow> v\<lparr>vi_disks := vi_disks v @ [row_disk_io f]\<rparr>)"

fun io_row :: "string list \<Rightarrow> io_state \<Rightarrow> io_state" where
  "io_row f (ps, p, v) =
     (if is_vdev_type (f ! 0) then
        (if p = None then (ps, p, v)
         else case flush_vdev (ps, p, v) of (ps', p', _) \<Rightarrow> (ps', p', Some (row_vdev_io (classify_vdev_type (f ! 0)) f)))
      else if looks_like_disk (f ! 0) then
        (if p = None then (ps, p, v) else (ps, p, Some (add_disk_io f v)))
      else case flush_open_pool (ps, p, v) of (ps', _, v') \<Rightarrow> (ps', Some (row_pool_io f), v'))"

definition io_line :: "string \<Rightarrow> io_state \<Rightarrow> io_state" where
  "io_line line st =
     (if trim_space line = [] then st else case io_fields line of None \<Rightarrow> st | Some f \<Rightarrow> io_row f st)"

definition parse_iostat :: "string \<Rightarrow> go_error + pool_io list" where
  "parse_iostat out =
     (let (ps, _, _) = flush_open_pool (fold io_line (split_on (CHR 0x0A) out) ([], None, None)) in
      if ps = [] then Inl (PlainError ''iostat: no pools parsed'') else Inr ps)"

definition sample_iostat :: "zx_host \<Rightarrow> zfs_engine \<Rightarrow> int \<Rightarrow> zx_log \<Rightarrow> (go_error + pool_io list) \<times> zx_log" where
  "sample_iostat h e now tr =
     (case zx_run h (en_zpool e) [''iostat'', ''-Hpv''] tr of
        ((out, Some err), tr') \<Rightarrow> (Inl (WrappedError ''zpool iostat: '' err []), tr')
      | ((out, None), tr') \<Rightarrow>
          (case parse_iostat out of
             Inl err \<Rightarrow> Inl err
           | Inr ps \<Rightarrow> Inr (map (\<lambda>p. p\<lparr>pi_time := rfc3339 now\<rparr>) ps), tr'))"

section \<open>The cache (arcstats.go)\<close>

record arc_stats =
  as_size :: int
  as_target :: int
  as_min :: int
  as_max :: int
  as_hits :: int
  as_misses :: int
  as_ratio :: float64
  as_demand :: "int \<times> int"
  as_demand_meta :: "int \<times> int"
  as_prefetch :: "int \<times> int"
  as_mru :: int
  as_mfu :: int
  as_l2_present :: bool
  as_l2_size :: int
  as_l2_asize :: int
  as_l2_hits :: int
  as_l2_misses :: int
  as_l2_ratio :: float64
  as_time :: string
  as_recs :: "string list"

text \<open>The counters in the order of the file; a later one replaces an earlier one of its name.\<close>

definition arc_entry :: "string \<Rightarrow> (string \<times> int) list" where
  "arc_entry line =
     (let f = str_fields (trim_space line) in
      if length f < 3 then []
      else case parse_uint_full (f ! 2) of (v, None) \<Rightarrow> [(f ! 0, v)] | (v, Some _) \<Rightarrow> [])"

definition counter :: "(string \<times> int) list \<Rightarrow> string \<Rightarrow> int" where
  "counter raw k = (case map_of (rev raw) k of None \<Rightarrow> 0 | Some v \<Rightarrow> v)"

definition hit_ratio :: "int \<Rightarrow> int \<Rightarrow> float64" where
  "hit_ratio hits misses =
     (let total = wrapu64 (hits + misses) in
      if total > 0 then f64_mul (f64_div (f64_of_int hits) (f64_of_int total)) 100 else Fin 0)"

definition arc_of :: "(string \<times> int) list \<Rightarrow> arc_stats" where
  "arc_of raw =
     (let n = counter raw in
      \<lparr>as_size = n ''size'', as_target = n ''c'', as_min = n ''c_min'', as_max = n ''c_max'',
       as_hits = n ''hits'', as_misses = n ''misses'', as_ratio = hit_ratio (n ''hits'') (n ''misses''),
       as_demand = (n ''demand_data_hits'', n ''demand_data_misses''),
       as_demand_meta = (n ''demand_metadata_hits'', n ''demand_metadata_misses''),
       as_prefetch = (n ''prefetch_data_hits'', n ''prefetch_data_misses''),
       as_mru = n ''mru_size'', as_mfu = n ''mfu_size'',
       as_l2_present = (n ''l2_size'' > 0 \<or> wrapu64 (n ''l2_hits'' + n ''l2_misses'') > 0),
       as_l2_size = n ''l2_size'', as_l2_asize = n ''l2_asize'', as_l2_hits = n ''l2_hits'', as_l2_misses = n ''l2_misses'',
       as_l2_ratio = hit_ratio (n ''l2_hits'') (n ''l2_misses''), as_time = [], as_recs = []\<rparr>)"

text \<open>The scanner fails on a line that does not fit its buffer.\<close>

definition parse_arcstats :: "string \<Rightarrow> go_error + arc_stats" where
  "parse_arcstats data =
     (case scan_lines data of
        (lines, too_long) \<Rightarrow>
          if too_long then Inl (PlainError ''bufio.Scanner: token too long'')
          else let raw = concat (map arc_entry (drop 2 lines)) in
            if raw = [] then Inl (PlainError ''arcstats: no counters parsed'') else Inr (arc_of raw))"

text \<open>The verb \<^verbatim>\<open>f\<close> with one decimal of a number that is finite and not negative.\<close>

definition one_decimal :: "float64 \<Rightarrow> string" where
  "one_decimal x =
     (case x of
        Fin q \<Rightarrow> (let n = round_even (q * 10) in itoa (n div 10) @ ''.'' @ itoa (n mod 10))
      | _ \<Rightarrow> [])"

definition format_percent :: "float64 \<Rightarrow> string" where
  "format_percent x = one_decimal x @ ''%''"

definition zem_dash :: string where
  "zem_dash = [CHR 0xE2, CHR 0x80, CHR 0x94]"

definition arc_hit_advice :: "arc_stats \<Rightarrow> string list" where
  "arc_hit_advice s =
     (if wrapu64 (as_hits s + as_misses s) \<le> 10000 then []
      else if f64_gt (Fin 70) (as_ratio s)
      then [''ARC hit ratio is '' @ format_percent (as_ratio s) @ '' '' @ zem_dash @
            '' the ARC is significantly undersized for this workload. Adding more RAM will give the biggest performance boost.'']
      else if f64_gt (Fin 90) (as_ratio s)
      then [''ARC hit ratio is '' @ format_percent (as_ratio s) @ '' '' @ zem_dash @
            '' healthy systems typically run at 90%+. Consider adding more RAM if performance matters here.'']
      else [])"

definition arc_l2_advice :: "arc_stats \<Rightarrow> string list" where
  "arc_l2_advice s =
     (if as_l2_present s \<and> wrapu64 (as_l2_hits s + as_l2_misses s) > 100000 \<and> f64_gt (Fin 5) (as_l2_ratio s)
      then [''L2ARC hit ratio is '' @ format_percent (as_l2_ratio s) @ '' '' @ zem_dash @
            '' the cache device is rarely serving reads. It may be providing little value; consider removing it to free the SSD for other use.'']
      else [])"

definition arc_headroom :: "arc_stats \<Rightarrow> float64" where
  "arc_headroom s = f64_div (f64_of_int (wrapu64 (as_max s - as_target s))) (f64_of_int (as_max s))"

definition arc_cap_advice :: "arc_stats \<Rightarrow> string list" where
  "arc_cap_advice s =
     (if as_max s > 0 \<and> as_target s > 0 \<and> f64_gt (Fin 90) (as_ratio s) \<and> f64_gt (arc_headroom s) (Fin (1 / 2)) \<and>
         wrapu64 (as_hits s + as_misses s) > 10000
      then [''ARC target size is well below its cap ('' @ human_bytes (as_target s) @ '' of '' @ human_bytes (as_max s) @
            ''). If you have spare RAM, raising zfs_arc_max can improve hit ratio.'']
      else [])"

definition arc_recommendations :: "arc_stats \<Rightarrow> string list" where
  "arc_recommendations s = arc_hit_advice s @ arc_l2_advice s @ arc_cap_advice s"

text \<open>\<open>file\<close> is the text of the counters, or the error of reading it (\<open>None\<close> when it does not exist).\<close>

definition read_arcstats :: "go_error option + string \<Rightarrow> int \<Rightarrow> go_error + arc_stats" where
  "read_arcstats file now =
     (case file of
        Inl None \<Rightarrow> Inl (PlainError ''arcstats not available on this host'')
      | Inl (Some err) \<Rightarrow> Inl err
      | Inr data \<Rightarrow>
          (case parse_arcstats data of
             Inl err \<Rightarrow> Inl err
           | Inr s \<Rightarrow> Inr (s\<lparr>as_time := rfc3339 now, as_recs := arc_recommendations (s\<lparr>as_time := rfc3339 now\<rparr>)\<rparr>)))"

section \<open>The rows that the program prints\<close>

definition count_words :: "io_counts \<Rightarrow> string list" where
  "count_words c = map dec_digits [ic_rops c, ic_wops c, ic_rbytes c, ic_wbytes c]"

definition disk_io_words :: "disk_io \<Rightarrow> string list" where
  "disk_io_words d = [di_name d, ''-'', ''-''] @ count_words (di_io d)"

definition vdev_io_words :: "vdev_io \<Rightarrow> string list" where
  "vdev_io_words v = [vi_name v, dec_digits (vi_alloc v), dec_digits (vi_free v)] @ count_words (vi_io v)"

definition pool_io_words :: "pool_io \<Rightarrow> string list" where
  "pool_io_words p = [pi_name p, dec_digits (pi_alloc p), dec_digits (pi_free p)] @ count_words (pi_io p)"

definition vdev_io_rows :: "vdev_io \<Rightarrow> string list list" where
  "vdev_io_rows v = vdev_io_words v # map disk_io_words (vi_disks v)"

definition pool_io_rows :: "pool_io \<Rightarrow> string list list" where
  "pool_io_rows p = pool_io_words p # concat (map vdev_io_rows (pi_vdevs p))"

definition iostat_text :: "string list list \<Rightarrow> string" where
  "iostat_text rows = join_with [CHR 0x0A] (map (join_with [CHR 0x09]) rows)"

definition counts_ok :: "io_counts \<Rightarrow> bool" where
  "counts_ok c \<longleftrightarrow> counter_ok (ic_rops c) \<and> counter_ok (ic_wops c) \<and> counter_ok (ic_rbytes c) \<and> counter_ok (ic_wbytes c)"

definition disk_io_ok :: "disk_io \<Rightarrow> bool" where
  "disk_io_ok d \<longleftrightarrow> word_ok (di_name d) \<and> \<not> is_vdev_type (di_name d) \<and> looks_like_disk (di_name d) \<and> counts_ok (di_io d)"

definition vdev_io_ok :: "vdev_io \<Rightarrow> bool" where
  "vdev_io_ok v \<longleftrightarrow>
     word_ok (vi_name v) \<and> is_vdev_type (vi_name v) \<and> vi_type v = classify_vdev_type (vi_name v) \<and>
     counter_ok (vi_alloc v) \<and> counter_ok (vi_free v) \<and> counts_ok (vi_io v) \<and> list_all disk_io_ok (vi_disks v)"

definition pool_row_ok :: "pool_io \<Rightarrow> bool" where
  "pool_row_ok p \<longleftrightarrow>
     word_ok (pi_name p) \<and> counter_ok (pi_alloc p) \<and> counter_ok (pi_free p) \<and> counts_ok (pi_io p)"

definition pool_io_ok :: "pool_io \<Rightarrow> bool" where
  "pool_io_ok p \<longleftrightarrow>
     pool_row_ok p \<and> \<not> is_vdev_type (pi_name p) \<and> \<not> looks_like_disk (pi_name p) \<and> list_all vdev_io_ok (pi_vdevs p)"

lemma counter_digits [simp]: "counter_ok n \<Longrightarrow> word_ok (dec_digits n)"
  by (simp add: counter_ok_def)

lemma dash_ok [simp]: "word_ok ''-''"
  by (simp add: word_ok_def plain_char_def)

lemma io_words_ok:
  "disk_io_ok d \<Longrightarrow> list_all word_ok (disk_io_words d)"
  "vdev_io_ok v \<Longrightarrow> list_all word_ok (vdev_io_words v)"
  "pool_row_ok p \<Longrightarrow> list_all word_ok (pool_io_words p)"
  by (simp_all add: disk_io_words_def vdev_io_words_def pool_io_words_def count_words_def counts_ok_def
      disk_io_ok_def vdev_io_ok_def pool_row_ok_def)

lemma io_words_length [simp]:
  "length (disk_io_words d) = 7" "length (vdev_io_words v) = 7" "length (pool_io_words p) = 7"
  by (simp_all add: disk_io_words_def vdev_io_words_def pool_io_words_def count_words_def)

lemma io_words_hd [simp]:
  "disk_io_words d ! 0 = di_name d" "vdev_io_words v ! 0 = vi_name v" "pool_io_words p ! 0 = pi_name p"
  by (simp_all add: disk_io_words_def vdev_io_words_def pool_io_words_def)

lemma row_counts_words:
  "counts_ok c \<Longrightarrow> row_counts (a # b # d # count_words c) = c"
  by (simp add: row_counts_def count_words_def counts_ok_def parse_u64_digits)

lemma io_rows_read:
  "disk_io_ok d \<Longrightarrow> row_disk_io (disk_io_words d) = d"
  "vdev_io_ok v \<Longrightarrow> row_vdev_io (classify_vdev_type (vi_name v)) (vdev_io_words v) = v\<lparr>vi_disks := []\<rparr>"
  "pool_row_ok p \<Longrightarrow> row_pool_io (pool_io_words p) = p\<lparr>pi_vdevs := [], pi_time := []\<rparr>"
  by (simp_all add: row_disk_io_def row_vdev_io_def row_pool_io_def disk_io_words_def vdev_io_words_def pool_io_words_def
      row_counts_words parse_u64_digits disk_io_ok_def vdev_io_ok_def pool_row_ok_def)

lemma io_line_words:
  assumes "list_all word_ok ws" "length ws = 7"
  shows "io_line (join_with [CHR 0x09] ws) st = io_row ws st"
proof -
  let ?l = "join_with [CHR 0x09] ws"
  from assms(2) have ne: "ws \<noteq> []" by auto
  have ends: "?l \<noteq> []" "plain_char (hd ?l)" "plain_char (last ?l)" using join_tab_ends [OF assms(1) ne] by auto
  have "trim_space ?l = ?l" using trim_space_line [of "[]" ?l] ends by simp
  moreover have "dropWhile blank_char ?l = ?l" using ends(1,2) by (cases ?l) (auto dest: blank_not_plain)
  moreover have "split_on (CHR 0x09) ?l = ws"
    using assms(1) by (intro split_join [OF ne]) (auto simp: list_all_iff word_ok_def plain_no_newline)
  ultimately show ?thesis using ends(1) assms(2) by (simp add: io_line_def io_fields_def)
qed

lemma fold_io_lines:
  assumes "\<forall>ws \<in> set rows. list_all word_ok ws \<and> length ws = 7" "rows \<noteq> []"
  shows "fold io_line (split_on (CHR 0x0A) (iostat_text rows)) st = fold io_row rows st"
proof -
  have "CHR 0x0A \<notin> set (join_with [CHR 0x09] ws)" if "ws \<in> set rows" for ws
    using assms(1) that join_tab_ends [of ws] by fastforce
  then have "split_on (CHR 0x0A) (iostat_text rows) = map (join_with [CHR 0x09]) rows"
    unfolding iostat_text_def by (intro split_join) (use assms(2) in auto)
  moreover have "fold io_line (map (join_with [CHR 0x09]) rows) st = fold io_row rows st"
    using assms(1) by (induction rows arbitrary: st) (simp_all add: io_line_words)
  ultimately show ?thesis by simp
qed

section \<open>Printing and reading\<close>

lemma disk_rows_fold:
  "list_all disk_io_ok ds \<Longrightarrow>
     fold io_row (map disk_io_words ds) (ps, Some p, Some v) = (ps, Some p, Some (v\<lparr>vi_disks := vi_disks v @ ds\<rparr>))"
  by (induction ds arbitrary: v) (simp_all add: disk_io_ok_def io_rows_read add_disk_io_def)

definition open_vdev :: "vdev_io option \<Rightarrow> vdev_io list" where
  "open_vdev v = (case v of None \<Rightarrow> [] | Some v \<Rightarrow> [v])"

lemma flush_vdev_open: "flush_vdev (ps, Some p, v) = (ps, Some (p\<lparr>pi_vdevs := pi_vdevs p @ open_vdev v\<rparr>), None)"
  by (cases v) (simp_all add: open_vdev_def)

lemma vdev_rows_fold:
  assumes "vdev_io_ok v"
  shows "fold io_row (vdev_io_rows v) (ps, Some p, cur) = (ps, Some (p\<lparr>pi_vdevs := pi_vdevs p @ open_vdev cur\<rparr>), Some v)"
proof -
  have "is_vdev_type (vi_name v)" "list_all disk_io_ok (vi_disks v)" using assms by (simp_all add: vdev_io_ok_def)
  then show ?thesis
    by (simp add: vdev_io_rows_def flush_vdev_open io_rows_read(2) [OF assms] disk_rows_fold)
qed

lemma vdevs_rows_fold:
  "list_all vdev_io_ok vs \<Longrightarrow>
     flush_vdev (fold io_row (concat (map vdev_io_rows vs)) (ps, Some p, cur)) =
       (ps, Some (p\<lparr>pi_vdevs := pi_vdevs p @ open_vdev cur @ vs\<rparr>), None)"
proof (induction vs arbitrary: p cur)
  case Nil
  then show ?case by (simp add: flush_vdev_open)
next
  case (Cons v vs)
  then show ?case by (simp add: vdev_rows_fold open_vdev_def [of "Some v"])
qed

lemma pool_rows_fold:
  assumes "pool_io_ok p" "p\<lparr>pi_time := []\<rparr> = p" "flush_open_pool st = (ps, None, None)"
  shows "flush_open_pool (fold io_row (pool_io_rows p) st) = (ps @ [p], None, None)"
proof -
  obtain qs q v where st: "st = (qs, q, v)" by (cases st)
  have p: "pool_row_ok p" "\<not> is_vdev_type (pi_name p)" "\<not> looks_like_disk (pi_name p)" "list_all vdev_io_ok (pi_vdevs p)"
    using assms(1) by (simp_all add: pool_io_ok_def)
  have blank: "row_pool_io (pool_io_words p) = p\<lparr>pi_vdevs := []\<rparr>"
    using io_rows_read(3) [OF p(1)] assms(2) by (cases p) simp
  have "io_row (pool_io_words p) st = (ps, Some (p\<lparr>pi_vdevs := []\<rparr>), None)"
    using p(2,3) assms(3) blank by (simp add: st)
  then show ?thesis
    using vdevs_rows_fold [OF p(4), of ps "p\<lparr>pi_vdevs := []\<rparr>" None]
    by (simp add: pool_io_rows_def flush_open_pool_def open_vdev_def)
qed

lemma pools_rows_fold:
  "list_all pool_io_ok ps \<Longrightarrow> list_all (\<lambda>p. pi_time p = []) ps \<Longrightarrow> flush_open_pool st = (qs, None, None) \<Longrightarrow>
     flush_open_pool (fold io_row (concat (map pool_io_rows ps)) st) = (qs @ ps, None, None)"
proof (induction ps arbitrary: st qs)
  case (Cons p ps)
  have "p\<lparr>pi_time := []\<rparr> = p" using Cons.prems by (cases p) simp
  then have "flush_open_pool (fold io_row (pool_io_rows p) st) = (qs @ [p], None, None)"
    using Cons.prems by (intro pool_rows_fold) simp_all
  from Cons.IH [OF _ _ this] show ?case using Cons.prems by simp
qed simp

lemma vdev_rows_words:
  assumes "vdev_io_ok v" "ws \<in> set (vdev_io_rows v)"
  shows "list_all word_ok ws \<and> length ws = 7"
proof -
  have "disk_io_ok d" if "d \<in> set (vi_disks v)" for d using assms(1) that by (simp add: vdev_io_ok_def list_all_iff)
  then show ?thesis using assms(2) io_words_ok(1) io_words_ok(2) [OF assms(1)] by (auto simp: vdev_io_rows_def)
qed

lemma io_rows_words:
  assumes "pool_row_ok p" "list_all vdev_io_ok (pi_vdevs p)"
  shows "\<forall>ws \<in> set (pool_io_rows p). list_all word_ok ws \<and> length ws = 7"
  using assms(2) vdev_rows_words io_words_ok(3) [OF assms(1)] by (auto simp: pool_io_rows_def list_all_iff [of vdev_io_ok])


text \<open>A host with two pools, the second without vdevs of its own in the sample.\<close>

definition sample_counts :: "int \<Rightarrow> io_counts" where
  "sample_counts n = \<lparr>ic_rops = n, ic_wops = 2 * n, ic_rbytes = 4096 * n, ic_wbytes = 18446744073709551615\<rparr>"

definition sample_disk_io :: "string \<Rightarrow> disk_io" where
  "sample_disk_io name = \<lparr>di_name = name, di_io = sample_counts 3\<rparr>"

definition sample_pool_io :: "string \<Rightarrow> vdev_io list \<Rightarrow> pool_io" where
  "sample_pool_io name vs = \<lparr>pi_name = name, pi_alloc = 100, pi_free = 900, pi_io = sample_counts 6, pi_vdevs = vs, pi_time = []\<rparr>"

definition sample_io_mirror :: vdev_io where
  "sample_io_mirror =
     \<lparr>vi_name = ''mirror-0'', vi_type = ''mirror'', vi_alloc = 100, vi_free = 900, vi_io = sample_counts 6,
      vi_disks = [sample_disk_io ''sda'', sample_disk_io ''/dev/sdb1'']\<rparr>"


section \<open>What the rows lose\<close>

text \<open>A pool whose name starts like a disk (\<^verbatim>\<open>vdata\<close>, \<^verbatim>\<open>sdpool\<close>, \<^verbatim>\<open>nvme\<close>) is never opened: its row and
  the rows of its vdevs and disks are skipped when it is the first, and a host with no other pool
  has no sample at all.\<close>

lemma disk_like_pool_unread:
  assumes "looks_like_disk (pi_name p)" "\<not> is_vdev_type (pi_name p)" "pool_row_ok p" "list_all vdev_io_ok (pi_vdevs p)"
  shows "parse_iostat (iostat_text (pool_io_rows p)) = Inl (PlainError ''iostat: no pools parsed'')"
proof -
  have disks: "fold io_row (map disk_io_words ds) ([], None, None) = ([], None, None)" if "list_all disk_io_ok ds" for ds
    using that by (induction ds) (simp_all add: disk_io_ok_def)
  have vdevs: "fold io_row (concat (map vdev_io_rows vs)) ([], None, None) = ([], None, None)" if "list_all vdev_io_ok vs" for vs
    using that by (induction vs) (simp_all add: vdev_io_rows_def vdev_io_ok_def disks)
  have "\<forall>ws \<in> set (pool_io_rows p). list_all word_ok ws \<and> length ws = 7" using assms(3,4) by (rule io_rows_words)
  moreover have "fold io_row (pool_io_rows p) ([], None, None) = ([], None, None)"
    using assms(1,2) by (simp add: pool_io_rows_def vdevs [OF assms(4)])
  moreover have "pool_io_rows p \<noteq> []" by (simp add: pool_io_rows_def)
  ultimately show ?thesis by (simp add: parse_iostat_def fold_io_lines flush_open_pool_def)
qed

text \<open>A pool striped over disks of its own is reported with one vdev, its first disk, and the other
  disks inside of it: the counters of the pool that they carry are shown as those of one disk.\<close>

lemma stripe_read_as_one_vdev:
  assumes "pool_row_ok p" "\<not> is_vdev_type (pi_name p)" "\<not> looks_like_disk (pi_name p)" "pi_time p = []"
    and "list_all disk_io_ok (d # ds)"
  shows "parse_iostat (iostat_text (pool_io_words p # map disk_io_words (d # ds))) =
    Inr [p\<lparr>pi_vdevs := [(row_vdev_io ''disk'' (disk_io_words d))\<lparr>vi_disks := ds\<rparr>]\<rparr>]"
proof -
  have "\<forall>ws \<in> set (pool_io_words p # map disk_io_words (d # ds)). list_all word_ok ws \<and> length ws = 7"
    using assms(1,5) by (auto simp: list_all_iff io_words_ok [unfolded list_all_iff])
  moreover have "row_pool_io (pool_io_words p) = p\<lparr>pi_vdevs := []\<rparr>"
    using io_rows_read(3) [OF assms(1)] assms(4) by (cases p) simp
  then have "fold io_row (pool_io_words p # map disk_io_words (d # ds)) ([], None, None) =
      ([], Some (p\<lparr>pi_vdevs := []\<rparr>), Some ((row_vdev_io ''disk'' (disk_io_words d))\<lparr>vi_disks := ds\<rparr>))"
    using assms(2,3,5) by (simp add: flush_open_pool_def disk_io_ok_def add_disk_io_def disk_rows_fold row_vdev_io_def)
  ultimately show ?thesis by (simp add: parse_iostat_def fold_io_lines flush_open_pool_def)
qed

section \<open>Hit ratios\<close>

lemma arc_entry_bounds: "(k, v) \<in> set (arc_entry line) \<Longrightarrow> 0 \<le> v \<and> v \<le> uint64_max"
  by (auto simp: arc_entry_def Let_def parse_uint_full_def all_digits_def dec_val_nonneg split: if_splits prod.splits option.splits)

lemma counter_bounds:
  assumes "raw = concat (map arc_entry lines)"
  shows "0 \<le> counter raw k \<and> counter raw k \<le> uint64_max"
proof (cases "map_of (rev raw) k")
  case None
  then show ?thesis by (simp add: counter_def uint64_max_def)
next
  case (Some v)
  then have "(k, v) \<in> set raw" using map_of_SomeD by fastforce
  then show ?thesis using arc_entry_bounds Some by (auto simp: assms counter_def)
qed

lemma hit_ratio_bounds:
  assumes "0 \<le> h" "0 \<le> m" "h + m \<le> uint64_max"
  shows "\<exists>r. hit_ratio h m = Fin r \<and> 0 \<le> r \<and> r \<le> 100"
proof -
  have "wrapu64 (h + m) = h + m" using assms by (simp add: wrapu64_def uint64_max_def)
  then show ?thesis
    using percent_bounds [of h "h + m"] assms by (auto simp: hit_ratio_def uint64_max_def Let_def)
qed

text \<open>The hit ratios are percentages: whatever the text of the counters, when it is read the
  ratio of the cache is a number between 0 and 100, and so is that of its second level, rounding
  included, as long as hits and misses together fit 64 bits.\<close>

lemma arc_ratio_bounds:
  assumes "parse_arcstats data = Inr s"
    and "as_hits s + as_misses s \<le> uint64_max" "as_l2_hits s + as_l2_misses s \<le> uint64_max"
  shows "(\<exists>r. as_ratio s = Fin r \<and> 0 \<le> r \<and> r \<le> 100) \<and> (\<exists>r. as_l2_ratio s = Fin r \<and> 0 \<le> r \<and> r \<le> 100)"
proof -
  obtain raw lines where raw: "raw = concat (map arc_entry lines)" and s: "s = arc_of raw"
    using assms(1) by (auto simp: parse_arcstats_def Let_def split: prod.splits if_splits)
  show ?thesis
    using assms(2,3) counter_bounds [OF raw] by (auto simp: s arc_of_def Let_def intro!: hit_ratio_bounds)
qed

lemma scan_printed:
  assumes "list_all (\<lambda>l. CHR 0x0A \<notin> set l \<and> CHR 0x0D \<notin> set l \<and> length l < 65536) ls"
  shows "scan_lines (join_with [CHR 0x0A] (ls @ [[]])) = (ls, False)"
proof -
  have "split_on (CHR 0x0A) (join_with [CHR 0x0A] (ls @ [[]])) = ls @ [[]]"
    using assms by (intro split_join) (auto simp: list_all_iff)
  moreover have "takeWhile (\<lambda>l. length l < 65536) ls = ls" "list_all (\<lambda>l. length l < 65536) ls"
    using assms by (auto simp: takeWhile_eq_all_conv list_all_iff)
  moreover have "map drop_cr ls = ls"
    using assms by (auto simp: drop_cr_def list_all_iff intro!: map_idI) (metis last_in_set)
  ultimately show ?thesis by (simp add: scan_lines_def del: takeWhile_eq_all_conv)
qed

definition sample_arclines :: "string list" where
  "sample_arclines =
     [''13 1 0x01 147 39984 8117 72'', ''name                            type data'',
      ''hits                            4    900001'', ''misses                          4    99999'',
      ''c                               4    4294967296'', ''c_max                           4    17179869184'',
      ''l2_hits                         4    1'', ''l2_misses                       4    200000'']"

definition sample_arcstats :: string where
  "sample_arcstats = join_with [CHR 0x0A] (sample_arclines @ [[]])"

lemma arc_ratio_bounds_witness:
  "case parse_arcstats sample_arcstats of Inl _ \<Rightarrow> False
   | Inr s \<Rightarrow> (\<exists>r. as_ratio s = Fin r \<and> 0 \<le> r \<and> r \<le> 100) \<and> as_hits s = 900001"
proof -
  let ?raw = "[(''hits'', 900001), (''misses'', 99999), (''c'', 4294967296), (''c_max'', 17179869184), (''l2_hits'', 1), (''l2_misses'', 200000)]"
  have "scan_lines sample_arcstats = (sample_arclines, False)"
    unfolding sample_arcstats_def by (rule scan_printed) (simp add: sample_arclines_def)
  moreover have "concat (map arc_entry (drop 2 sample_arclines)) = ?raw" by code_simp
  ultimately have s: "parse_arcstats sample_arcstats = Inr (arc_of ?raw)" by (simp add: parse_arcstats_def)
  then show ?thesis using arc_ratio_bounds [OF s] by (simp add: s arc_of_def counter_def uint64_max_def)
qed

text \<open>When the kernel's target is above the cap the difference wraps around, and the advice is that
  the target is well below its cap.\<close>

lemma target_above_cap_called_below:
  assumes "0 < as_max s" "as_max s < as_target s" "as_target s \<le> int64_max"
    and "f64_gt (Fin 90) (as_ratio s)" "wrapu64 (as_hits s + as_misses s) > 10000"
  shows "arc_cap_advice s \<noteq> []"
proof -
  have w: "wrapu64 (as_max s - as_target s) = 18446744073709551616 + (as_max s - as_target s)"
  proof -
    have "(as_max s - as_target s) mod 18446744073709551616 = (18446744073709551616 + (as_max s - as_target s)) mod 18446744073709551616"
      by simp
    also have "\<dots> = 18446744073709551616 + (as_max s - as_target s)"
      using assms(1-3) by (intro mod_pos_pos_trivial) (simp_all add: int64_max_def)
    finally show ?thesis by (simp add: wrapu64_def)
  qed
  have r: "0 \<le> (of_int (as_max s) :: rat)" "(of_int (as_max s) :: rat) \<le> of_int (wrapu64 (as_max s - as_target s))"
      "(of_int (wrapu64 (as_max s - as_target s)) :: rat) \<le> 18446744073709551616" "1 \<le> (of_int (as_max s) :: rat)"
    using assms(1-3) unfolding w by (simp_all add: int64_max_def flip: of_int_add)
  obtain a where a: "round64 (of_int (wrapu64 (as_max s - as_target s))) = Fin a"
    using round64_u64 [OF order_trans [OF r(1,2)] r(3)] by blast
  obtain b where b: "round64 (of_int (as_max s)) = Fin b"
    using round64_u64 [OF r(1) order_trans [OF r(2,3)]] by blast
  have one: "round64 1 = Fin 1" using round64_int [of 1] by simp
  have "b \<le> a" using round64_mono [OF r(1,2)] unfolding a b by simp
  moreover have "1 \<le> b" using round64_mono [OF _ r(4)] unfolding b one by simp
  ultimately have "1 \<le> a / b" "b \<noteq> 0" using le_divide_eq_1_pos [of b a] by linarith+
  then have "f64_ge (arc_headroom s) (Fin 1)"
    using round64_mono [of 1 "a / b"] by (simp add: arc_headroom_def f64_of_int_def a b one)
  then have "f64_gt (arc_headroom s) (Fin (1 / 2))" by (cases "arc_headroom s") auto
  then show ?thesis using assms by (simp add: arc_cap_advice_def)
qed

end
