(* ===== verification/ZfsHubStats.thy ===== *)
theory ZfsHubStats
  imports ZfsStats
begin

text \<open>
  The performance page of the ZFS hub (\<^verbatim>\<open>zfs-manager/internal/manager/iostat.go\<close> and \<^verbatim>\<open>arc.go\<close>):
  rates from two samples of cumulative counters, and the table of the cache counters. The hub's own
  copies of the agent's types are the types of the agent.
\<close>

section \<open>Rates (iostat.go)\<close>

definition rate :: "int \<Rightarrow> int \<Rightarrow> float64 \<Rightarrow> bool \<Rightarrow> float64" where
  "rate cur prev dt have_prev =
     (if \<not> have_prev \<or> f64_ge (Fin 0) dt \<or> cur < prev then Fin 0
      else f64_div (f64_of_int (cur - prev)) dt)"

text \<open>The difference of two times is a duration, which saturates.\<close>

definition delta_seconds :: "string \<Rightarrow> string \<Rightarrow> bool \<Rightarrow> float64" where
  "delta_seconds cur prev have_prev =
     (if \<not> have_prev then Fin 0
      else case (parse_rfc3339 cur, parse_rfc3339 prev) of
        (Some c, Some p) \<Rightarrow>
          (let d = max int64_min (min int64_max (c - p)) in if d \<le> 0 then Fin 0 else duration_seconds d)
      | _ \<Rightarrow> Fin 0)"

record io_rates =
  ir_rops :: float64
  ir_wops :: float64
  ir_rbytes :: float64
  ir_wbytes :: float64

record iostat_row =
  iw_scope :: string
  iw_name :: string
  iw_parent :: string
  iw_type :: string
  iw_rates :: io_rates
  iw_totals :: io_counts
  iw_alloc :: int
  iw_free :: int

definition rates_of :: "io_counts \<Rightarrow> io_counts \<Rightarrow> float64 \<Rightarrow> bool \<Rightarrow> io_rates" where
  "rates_of c p dt have_prev =
     \<lparr>ir_rops = rate (ic_rops c) (ic_rops p) dt have_prev, ir_wops = rate (ic_wops c) (ic_wops p) dt have_prev,
      ir_rbytes = rate (ic_rbytes c) (ic_rbytes p) dt have_prev, ir_wbytes = rate (ic_wbytes c) (ic_wbytes p) dt have_prev\<rparr>"

definition zero_counts :: io_counts where
  "zero_counts = \<lparr>ic_rops = 0, ic_wops = 0, ic_rbytes = 0, ic_wbytes = 0\<rparr>"

text \<open>The map from names: a later entry replaces an earlier one.\<close>

definition index_by :: "('a \<Rightarrow> string) \<Rightarrow> 'a list \<Rightarrow> string \<Rightarrow> 'a option" where
  "index_by key xs = map_of (rev (map (\<lambda>x. (key x, x)) xs))"

definition index_pools :: "pool_io list \<Rightarrow> string \<Rightarrow> pool_io option" where
  "index_pools = index_by pi_name"

definition index_vdevs :: "vdev_io list \<Rightarrow> string \<Rightarrow> vdev_io option" where
  "index_vdevs = index_by vi_name"

definition index_disks :: "disk_io list \<Rightarrow> string \<Rightarrow> disk_io option" where
  "index_disks = index_by di_name"

definition prev_counts :: "('a \<Rightarrow> io_counts) \<Rightarrow> 'a option \<Rightarrow> io_counts" where
  "prev_counts io p = (case p of None \<Rightarrow> zero_counts | Some x \<Rightarrow> io x)"

definition disk_row_of :: "string \<Rightarrow> float64 \<Rightarrow> disk_io option \<Rightarrow> disk_io \<Rightarrow> iostat_row" where
  "disk_row_of parent dt prev d =
     \<lparr>iw_scope = ''disk'', iw_name = di_name d, iw_parent = parent, iw_type = [],
      iw_rates = rates_of (di_io d) (prev_counts di_io prev) dt (prev \<noteq> None), iw_totals = di_io d, iw_alloc = 0, iw_free = 0\<rparr>"

definition vdev_rows_of :: "string \<Rightarrow> float64 \<Rightarrow> vdev_io option \<Rightarrow> vdev_io \<Rightarrow> iostat_row list" where
  "vdev_rows_of parent dt prev v =
     \<lparr>iw_scope = ''vdev'', iw_name = vi_name v, iw_parent = parent, iw_type = vi_type v,
      iw_rates = rates_of (vi_io v) (prev_counts vi_io prev) dt (prev \<noteq> None), iw_totals = vi_io v,
      iw_alloc = vi_alloc v, iw_free = vi_free v\<rparr> #
     map (\<lambda>d. disk_row_of (vi_name v) dt (Option.bind prev (\<lambda>p. index_disks (vi_disks p) (di_name d))) d) (vi_disks v)"

definition pool_rows_of :: "pool_io option \<Rightarrow> pool_io \<Rightarrow> iostat_row list" where
  "pool_rows_of prev p =
     (let dt = delta_seconds (pi_time p) (case prev of None \<Rightarrow> [] | Some q \<Rightarrow> pi_time q) (prev \<noteq> None) in
      \<lparr>iw_scope = ''pool'', iw_name = pi_name p, iw_parent = [], iw_type = [],
       iw_rates = rates_of (pi_io p) (prev_counts pi_io prev) dt (prev \<noteq> None), iw_totals = pi_io p,
       iw_alloc = pi_alloc p, iw_free = pi_free p\<rparr> #
      concat (map (\<lambda>v. vdev_rows_of (pi_name p) dt (Option.bind prev (\<lambda>q. index_vdevs (pi_vdevs q) (vi_name v))) v) (pi_vdevs p)))"

definition build_iostat_rows :: "pool_io list \<Rightarrow> pool_io list \<Rightarrow> iostat_row list" where
  "build_iostat_rows cur prev = concat (map (\<lambda>p. pool_rows_of (index_pools prev (pi_name p)) p) cur)"

section \<open>The table of the cache (arc.go)\<close>

record arc_row =
  aw_category :: string
  aw_metric :: string
  aw_value :: string
  aw_raw :: float64
  aw_help :: string

definition hub_human_bytes :: "int \<Rightarrow> string" where
  "hub_human_bytes n =
     (let unit = (\<lambda>u name. two_decimals (f64_div (f64_of_int n) (f64_of_int u)) @ name) in
      if n \<ge> 1099511627776 then unit 1099511627776 '' TiB''
      else if n \<ge> 1073741824 then unit 1073741824 '' GiB''
      else if n \<ge> 1048576 then unit 1048576 '' MiB''
      else if n \<ge> 1024 then unit 1024 '' KiB''
      else itoa n @ '' B'')"

definition format_count :: "int \<Rightarrow> string" where
  "format_count n =
     (let unit = (\<lambda>u name. two_decimals (f64_div (f64_of_int n) (f64_of_int u)) @ name) in
      if n \<ge> 1000000000 then unit 1000000000 ''G''
      else if n \<ge> 1000000 then unit 1000000 ''M''
      else if n \<ge> 1000 then unit 1000 ''k''
      else itoa n)"

definition ratio_row :: "string \<Rightarrow> float64 \<Rightarrow> string \<Rightarrow> arc_row" where
  "ratio_row cat v help = \<lparr>aw_category = cat, aw_metric = ''Hit Ratio'', aw_value = format_percent v, aw_raw = v, aw_help = help\<rparr>"

definition bytes_row :: "string \<Rightarrow> string \<Rightarrow> int \<Rightarrow> string \<Rightarrow> arc_row" where
  "bytes_row cat metric n help =
     \<lparr>aw_category = cat, aw_metric = metric, aw_value = hub_human_bytes n, aw_raw = f64_of_int n, aw_help = help\<rparr>"

definition count_row :: "string \<Rightarrow> string \<Rightarrow> int \<Rightarrow> string \<Rightarrow> arc_row" where
  "count_row cat metric n help =
     \<lparr>aw_category = cat, aw_metric = metric, aw_value = format_count n, aw_raw = f64_of_int n, aw_help = help\<rparr>"

definition build_arc_rows :: "arc_stats \<Rightarrow> arc_row list" where
  "build_arc_rows p =
     [ratio_row ''ARC'' (as_ratio p) ''Fraction of reads served from memory. 90%+ is healthy.'',
      bytes_row ''ARC'' ''Size'' (as_size p) ''Current ARC memory footprint.'',
      bytes_row ''ARC'' ''Target Size'' (as_target p) ''Size ZFS is trying to maintain; adjusts dynamically within min/max bounds.'',
      bytes_row ''ARC'' ''Max Size'' (as_max p) ''Upper bound on ARC size (zfs_arc_max).'',
      bytes_row ''ARC'' ''Min Size'' (as_min p) ''Lower bound on ARC size (zfs_arc_min).'',
      count_row ''ARC'' ''Hits'' (as_hits p) ''Total reads served from ARC since boot.'',
      count_row ''ARC'' ''Misses'' (as_misses p) ''Total reads not found in ARC (went to disk or L2ARC).'',
      bytes_row ''ARC'' ''MRU Size'' (as_mru p) ''Most Recently Used: blocks read once recently.'',
      bytes_row ''ARC'' ''MFU Size'' (as_mfu p) ''Most Frequently Used: blocks read multiple times.'',
      count_row ''Demand'' ''Data Hits'' (fst (as_demand p)) [], count_row ''Demand'' ''Data Misses'' (snd (as_demand p)) [],
      count_row ''Demand'' ''Metadata Hits'' (fst (as_demand_meta p)) [],
      count_row ''Demand'' ''Metadata Misses'' (snd (as_demand_meta p)) [],
      count_row ''Prefetch'' ''Data Hits'' (fst (as_prefetch p)) [], count_row ''Prefetch'' ''Data Misses'' (snd (as_prefetch p)) []] @
     (if as_l2_present p then
       [ratio_row ''L2ARC'' (as_l2_ratio p) ''Fraction of ARC misses served from the cache device.'',
        bytes_row ''L2ARC'' ''Size'' (as_l2_size p) ''Logical size of L2ARC data (before compression).'',
        bytes_row ''L2ARC'' ''Allocated'' (as_l2_asize p) ''Actual space used on the cache device.'',
        count_row ''L2ARC'' ''Hits'' (as_l2_hits p) [], count_row ''L2ARC'' ''Misses'' (as_l2_misses p) []]
      else [])"

definition arc_recommendation_rows :: "arc_stats \<Rightarrow> (int \<times> string) list" where
  "arc_recommendation_rows p = zip (map int [1..<Suc (length (as_recs p))]) (as_recs p)"

section \<open>The two formatters of sizes\<close>

lemma human_bytes_agree: "n < 1125899906842624 \<Longrightarrow> hub_human_bytes n = human_bytes n"
  by (simp add: hub_human_bytes_def human_bytes_def Let_def)

lemma human_bytes_differ:
  "n \<ge> 1125899906842624 \<Longrightarrow> (\<exists>t. hub_human_bytes n = t @ '' TiB'') \<and> (\<exists>t. human_bytes n = t @ '' PiB'')"
  by (simp add: hub_human_bytes_def human_bytes_def Let_def)

section \<open>Rates are sound\<close>

text \<open>A rate is a number that is not negative, and 0 when the counter fell or there is no sample before.\<close>

definition rate_ok :: "float64 \<Rightarrow> bool" where
  "rate_ok x \<longleftrightarrow> (case x of Fin q \<Rightarrow> 0 \<le> q \<and> q \<le> 2 ^ 94 | _ \<Rightarrow> False)"

definition rates_ok :: "io_rates \<Rightarrow> bool" where
  "rates_ok r \<longleftrightarrow> rate_ok (ir_rops r) \<and> rate_ok (ir_wops r) \<and> rate_ok (ir_rbytes r) \<and> rate_ok (ir_wbytes r)"

lemma billion: "f64_of_int 1000000000 = Fin 1000000000"
  using round64_int [of 1000000000] by (simp add: f64_of_int_def)

text \<open>A positive duration has at least about the seconds of one nanosecond.\<close>

lemma above_pow2:
  assumes "pow2 k \<le> a" "a \<le> pow2 n" "- 1022 \<le> k" "k < 1024" "- 1022 \<le> n" "n < 1024"
  shows "\<exists>q. round64 a = Fin q \<and> pow2 k \<le> q \<and> q \<le> pow2 n"
proof -
  have "0 \<le> a" using assms(1) pow2_pos [of k] by linarith
  then obtain q where q: "round64 a = Fin q" "q \<le> pow2 n" using round64_upto_pow2 assms by blast
  have "f64_ge (round64 a) (Fin (pow2 k))"
    using round64_mono [of "pow2 k" a] assms(1) round64_pow2 [OF assms(3,4)] by (simp add: less_imp_le)
  then show ?thesis using q by simp
qed

lemma pow2_small: "pow2 (- 30) \<le> 1 / 1000000000" "pow2 (- 30) \<le> 1" "pow2 0 = 1" "pow2 94 = pow2 64 * 2 ^ 30"
  by (simp_all add: pow2_def)

lemma duration_seconds_pos:
  assumes "0 < d" "d \<le> int64_max"
  shows "\<exists>q. duration_seconds d = Fin q \<and> pow2 (- 30) \<le> q"
proof -
  let ?s = "d div 1000000000" and ?n = "d mod 1000000000"
  have bounds: "0 \<le> ?s" "?s < 2 ^ 53" "0 \<le> ?n" "?n < 1000000000"
    using assms unfolding int64_max_def by (simp_all add: pos_imp_zdiv_nonneg_iff)
  have s: "f64_of_int ?s = Fin (of_int ?s)" and n: "f64_of_int ?n = Fin (of_int ?n)"
    using bounds by (simp_all add: f64_of_int_exact)
  have "(of_int ?n :: rat) / 1000000000 \<le> of_int 1" using bounds by simp
  then obtain y where y: "round64 (of_int ?n / 1000000000) = Fin y" "0 \<le> y" "y \<le> 1"
    using round64_below [of "of_int ?n / 1000000000" 1] bounds by auto
  have low: "pow2 (- 30) \<le> of_int ?s + y"
  proof (cases "?s = 0")
    case False
    then have "(1::rat) \<le> of_int ?s" using bounds by simp
    then show ?thesis using y(2) pow2_small(2) by linarith
  next
    case True
    then have "1 \<le> ?n" using assms(1) div_mult_mod_eq [of d 1000000000] by linarith
    then have "pow2 (- 30) \<le> of_int ?n / 1000000000" using pow2_small(1) by (simp add: field_simps)
    then show ?thesis using above_pow2 [of "- 30" "of_int ?n / 1000000000" 0] \<open>_ \<le> of_int 1\<close> y(1) True by (auto simp: pow2_small)
  qed
  have "(of_int ?s :: rat) < of_int (2 ^ 53)" using bounds(2) by (rule of_int_less_iff [THEN iffD2])
  then have "of_int ?s + y \<le> pow2 64" using y(3) by (simp add: pow2_64)
  then show ?thesis using above_pow2 [OF low, of 64] by (auto simp: duration_seconds_def s n billion y)
qed

lemma rate_ok_rate:
  assumes "counter_ok c" "counter_ok p" "dt = Fin 0 \<or> (\<exists>q. dt = Fin q \<and> pow2 (- 30) \<le> q)"
  shows "rate_ok (rate c p dt have_prev)"
proof (cases "\<not> have_prev \<or> f64_ge (Fin 0) dt \<or> c < p")
  case True
  then show ?thesis by (simp add: rate_def rate_ok_def)
next
  case False
  then obtain q where q: "dt = Fin q" "pow2 (- 30) \<le> q" using assms(3) by auto
  have le: "0 \<le> (of_int (c - p) :: rat)" "(of_int (c - p) :: rat) \<le> pow2 64"
    using False assms(1,2) unfolding pow2_64 counter_ok_def uint64_max_def by linarith+
  obtain a where a: "round64 (of_int (c - p)) = Fin a" "0 \<le> a" "a \<le> pow2 64"
    using round64_upto_pow2 [OF le] by auto
  have q0: "0 < q" using q(2) pow2_pos [of "- 30"] by linarith
  have "a \<le> pow2 94 * pow2 (- 30)" using a(3) by (simp add: pow2_add [symmetric])
  also have "\<dots> \<le> pow2 94 * q" using q(2) by (simp add: mult_left_mono less_imp_le)
  finally have "a / q \<le> pow2 94" using q0 by (simp add: divide_le_eq)
  then obtain r where "round64 (a / q) = Fin r" "0 \<le> r" "r \<le> pow2 94"
    using round64_upto_pow2 [of "a / q" 94] a(2) q0 by auto
  then show ?thesis using False q0 by (simp add: rate_def f64_of_int_def a [simplified] q(1) rate_ok_def pow2_nat)
qed

lemma delta_seconds_cases: "delta_seconds c p h = Fin 0 \<or> (\<exists>q. delta_seconds c p h = Fin q \<and> pow2 (- 30) \<le> q)"
  using duration_seconds_pos by (auto simp: delta_seconds_def Let_def int64_min_def int64_max_def split: option.split)

lemma rates_ok_rates:
  assumes "counts_ok c" "counts_ok p" "dt = Fin 0 \<or> (\<exists>q. dt = Fin q \<and> pow2 (- 30) \<le> q)"
  shows "rates_ok (rates_of c p dt h)"
  using assms(1,2) unfolding counts_ok_def rates_ok_def rates_of_def by (simp add: rate_ok_rate [OF _ _ assms(3)])

text \<open>The counters of a sample, as their decoding into 64 bits leaves them.\<close>

definition vdev_counts_ok :: "vdev_io \<Rightarrow> bool" where
  "vdev_counts_ok v \<longleftrightarrow> counts_ok (vi_io v) \<and> list_all (\<lambda>d. counts_ok (di_io d)) (vi_disks v)"

definition pool_counts_ok :: "pool_io \<Rightarrow> bool" where
  "pool_counts_ok p \<longleftrightarrow> counts_ok (pi_io p) \<and> list_all vdev_counts_ok (pi_vdevs p)"

lemma index_by_Some: "index_by key xs k = Some x \<Longrightarrow> x \<in> set xs \<and> key x = k"
  unfolding index_by_def by (drule map_of_SomeD) auto

lemma prev_counts_ok:
  "(\<And>x. p = Some x \<Longrightarrow> counts_ok (io x)) \<Longrightarrow> counts_ok (prev_counts io p)"
  by (cases p) (simp_all add: prev_counts_def zero_counts_def counts_ok_def counter_ok_def uint64_max_def)

lemma vdev_rows_ok:
  assumes "vdev_counts_ok v" "\<And>p. prev = Some p \<Longrightarrow> vdev_counts_ok p" "dt = Fin 0 \<or> (\<exists>q. dt = Fin q \<and> pow2 (- 30) \<le> q)"
  shows "list_all (\<lambda>w. rates_ok (iw_rates w)) (vdev_rows_of parent dt prev v)"
proof -
  have "counts_ok (prev_counts vi_io prev)" using assms(2) by (intro prev_counts_ok) (simp add: vdev_counts_ok_def)
  moreover have "counts_ok (prev_counts di_io (Option.bind prev (\<lambda>p. index_disks (vi_disks p) name)))" for name
    using assms(2) index_by_Some [of di_name]
    by (intro prev_counts_ok) (fastforce simp: index_disks_def vdev_counts_ok_def list_all_iff bind_eq_Some_conv)
  ultimately show ?thesis
    using assms(1,3) by (simp add: vdev_rows_of_def disk_row_of_def vdev_counts_ok_def list_all_iff rates_ok_rates)
qed

lemma pool_rows_ok:
  assumes "pool_counts_ok p" "\<And>q. prev = Some q \<Longrightarrow> pool_counts_ok q"
  shows "list_all (\<lambda>w. rates_ok (iw_rates w)) (pool_rows_of prev p)"
proof -
  let ?dt = "delta_seconds (pi_time p) (case prev of None \<Rightarrow> [] | Some q \<Rightarrow> pi_time q) (prev \<noteq> None)"
  have dt: "?dt = Fin 0 \<or> (\<exists>q. ?dt = Fin q \<and> pow2 (- 30) \<le> q)" by (rule delta_seconds_cases)
  have "counts_ok (prev_counts pi_io prev)" using assms(2) by (intro prev_counts_ok) (simp add: pool_counts_ok_def)
  then have "rates_ok (rates_of (pi_io p) (prev_counts pi_io prev) ?dt (prev \<noteq> None))"
    using assms(1) dt by (simp add: pool_counts_ok_def rates_ok_rates)
  moreover have "list_all (\<lambda>w. rates_ok (iw_rates w))
      (vdev_rows_of (pi_name p) ?dt (Option.bind prev (\<lambda>q. index_vdevs (pi_vdevs q) (vi_name v))) v)"
    if "v \<in> set (pi_vdevs p)" for v
  proof (rule vdev_rows_ok [OF _ _ dt])
    show "vdev_counts_ok v" using assms(1) that by (simp add: pool_counts_ok_def list_all_iff)
    show "vdev_counts_ok u" if "Option.bind prev (\<lambda>q. index_vdevs (pi_vdevs q) (vi_name v)) = Some u" for u
      using assms(2) that index_by_Some [of vi_name]
      by (fastforce simp: index_vdevs_def pool_counts_ok_def list_all_iff bind_eq_Some_conv)
  qed
  ultimately show ?thesis by (simp add: pool_rows_of_def Let_def list_all_iff)
qed

text \<open>C22. The rates of the performance page are sound: whatever two samples the hub has of an
  agent, with clocks that go back, pools that are gone or counters that fell, every rate in every
  row of the table is a finite number that is not negative and at most 2 to the 94, never an
  infinity, a NaN or the spike of a difference that wrapped around.\<close>

theorem iostat_rates_sound:
  assumes "list_all pool_counts_ok cur" "list_all pool_counts_ok prev"
  shows "list_all (\<lambda>w. rates_ok (iw_rates w)) (build_iostat_rows cur prev)"
proof -
  have "list_all (\<lambda>w. rates_ok (iw_rates w)) (pool_rows_of (index_pools prev (pi_name p)) p)" if "p \<in> set cur" for p
  proof (rule pool_rows_ok)
    show "pool_counts_ok p" using assms(1) that by (simp add: list_all_iff)
    show "pool_counts_ok q" if "index_pools prev (pi_name p) = Some q" for q
      using assms(2) index_by_Some [OF that [unfolded index_pools_def]] by (simp add: list_all_iff)
  qed
  then show ?thesis by (simp add: build_iostat_rows_def list_all_iff)
qed

definition timed_pool :: "string \<Rightarrow> string \<Rightarrow> vdev_io list \<Rightarrow> pool_io" where
  "timed_pool time name vs = (sample_pool_io name vs)\<lparr>pi_time := time\<rparr>"

text \<open>A pool that was imported again in between, and one that is new.\<close>

lemma iostat_rates_sound_witness:
  "list_all (\<lambda>w. rates_ok (iw_rates w))
     (build_iostat_rows
       [timed_pool ''2026-03-01T10:00:30Z'' ''tank'' [sample_io_mirror], timed_pool ''2026-03-01T10:00:30Z'' ''new'' []]
       [timed_pool ''2026-03-01T10:00:00Z'' ''tank'' [sample_io_mirror\<lparr>vi_io := sample_counts 900\<rparr>]])"
proof -
  have "list_all pool_counts_ok
      [timed_pool ''2026-03-01T10:00:30Z'' ''tank'' [sample_io_mirror], timed_pool ''2026-03-01T10:00:30Z'' ''new'' []]"
    by code_simp
  moreover have "list_all pool_counts_ok [timed_pool ''2026-03-01T10:00:00Z'' ''tank'' [sample_io_mirror\<lparr>vi_io := sample_counts 900\<rparr>]]"
    by code_simp
  ultimately show ?thesis by (rule iostat_rates_sound)
qed

end
