(* ===== verification/ZfsHubServer.thy ===== *)
theory ZfsHubServer
  imports HttpMux ZfsHub ZfsHubStats "HOL-Library.List_Lexorder" "HOL-Library.Char_ord"
begin

text \<open>
  The HTTP server of the ZFS hub (\<^verbatim>\<open>zfs-manager/internal/manager/server.go\<close>, \<^verbatim>\<open>properties.go\<close>,
  \<^verbatim>\<open>token.go\<close> and the handlers of \<^verbatim>\<open>arc.go\<close> and \<^verbatim>\<open>iostat.go\<close>): its routes with their gates, the
  registration and ingestion of agents, the cached tables, the proxy to an agent and the preview
  of a property change. JSON, the URL parser and the network are parameters; every request that
  the hub sends is kept in its state. A map is the list of its entries in the order of an
  enumeration.
\<close>

section \<open>Server, requests and replies\<close>

record url =
  u_scheme :: string
  u_host :: string
  u_path :: string
  u_query :: "(string \<times> string) list"

record out_request =
  or_method :: string
  or_url :: url
  or_auth :: string
  or_body :: string

text \<open>A request that cannot be built, an agent that does not answer, an answer with its status.\<close>

datatype sent = NotBuilt string | Unreachable string | Answered nat string

record mgr_config =
  mc_token :: string
  mc_port :: int

record mgr_server =
  ms_hub :: zfs_mgr
  ms_psk :: string
  ms_psk_file :: "string option"
  ms_out :: "out_request list"

record preview_body =
  pb_scope :: string
  pb_name :: string
  pb_props :: "(string \<times> string) list"

record log_body =
  lb_agent :: string
  lb_time :: string
  lb_level :: string
  lb_source :: string
  lb_message :: string

text \<open>What is outside: the registry's codec, the decoders of the bodies, of an agent's answer and of
  the cached fields, the URL parser, the random bytes, the errors of writing files, the network.\<close>

record mgr_world =
  mw_env :: mgr_env
  mw_register :: "string \<Rightarrow> zfs_agent option"
  mw_alias :: "string \<Rightarrow> string option"
  mw_telemetry :: "string \<Rightarrow> (string \<times> string) option"
  mw_log :: "string \<Rightarrow> log_body option"
  mw_preview :: "string \<Rightarrow> preview_body option"
  mw_confirm :: "string \<Rightarrow> string option"
  mw_values :: "string \<Rightarrow> string + prop_value list"
  mw_iostat :: "string \<Rightarrow> pool_io list option"
  mw_arc :: "string \<Rightarrow> arc_stats option"
  mw_url :: "string \<Rightarrow> url option"
  mw_rand :: "string + string"
  mw_reg_err :: "string option"
  mw_psk_err :: "string option"
  mw_send :: "out_request list \<Rightarrow> out_request \<Rightarrow> sent"

record prop_diff_entry =
  df_key :: string
  df_current :: string
  df_target :: string
  df_source :: string
  df_changed :: bool
  df_tier :: string

record diff_reply =
  dr_scope :: string
  dr_name :: string
  dr_entries :: "prop_diff_entry list"
  dr_highest :: string
  dr_command :: string

datatype mgr_reply =
    MrError string
  | MrObject "(string \<times> string) list"
  | MrRaw string
  | MrViews "(zfs_agent \<times> string) list"
  | MrPresets "(string \<times> (string \<times> string) list) list"
  | MrRows "iostat_row list"
  | MrArc "arc_row list"
  | MrAdvice "(int \<times> string) list"
  | MrDiff diff_reply

type_synonym mgr_handler = "mgr_server \<Rightarrow> (nat \<times> mgr_reply) \<times> mgr_server"

definition say :: "nat \<Rightarrow> mgr_reply \<Rightarrow> mgr_handler" where
  "say st r s = ((st, r), s)"

definition bearer_fault :: "string \<Rightarrow> string \<Rightarrow> string \<Rightarrow> (nat \<times> string) option" where
  "bearer_fault expected what auth =
     (if \<not> has_prefix auth ''Bearer '' then Some (401, ''missing authorization header'')
      else if trim_prefix auth ''Bearer '' \<noteq> expected then Some (403, ''invalid '' @ what) else None)"

definition mgr_require_psk :: "hub_request \<Rightarrow> mgr_handler \<Rightarrow> mgr_handler" where
  "mgr_require_psk q next_h s =
     (case bearer_fault (ms_psk s) ''pre-shared key'' (hq_auth q) of
        Some (st, msg) \<Rightarrow> say st (MrError msg) s | None \<Rightarrow> next_h s)"

definition require_token :: "mgr_config \<Rightarrow> hub_request \<Rightarrow> mgr_handler \<Rightarrow> mgr_handler" where
  "require_token cfg q next_h s =
     (if mc_token cfg = [] then next_h s
      else case bearer_fault (mc_token cfg) ''addon token'' (hq_auth q) of
        Some (st, msg) \<Rightarrow> say st (MrError msg) s | None \<Rightarrow> next_h s)"

definition resolve_zfs_agent :: "int \<Rightarrow> hub_request \<Rightarrow> zfs_mgr \<Rightarrow> string" where
  "resolve_zfs_agent now q m =
     (if qget ''agent_id'' (hq_query q) \<noteq> [] then qget ''agent_id'' (hq_query q)
      else case List.find (\<lambda>(e, st). st = ''online'') (zviews now m) of None \<Rightarrow> [] | Some (e, _) \<Rightarrow> zt_id e)"

section \<open>Agents and telemetry\<close>

definition hub_health :: mgr_handler where
  "hub_health = say 200 (MrObject [(''status'', ''ok'')])"

definition hub_deploy_info :: "mgr_config \<Rightarrow> hub_request \<Rightarrow> mgr_handler" where
  "hub_deploy_info cfg q s =
     say 200 (MrObject [(''hub_url'', ''http://'' @ hq_host q @ '':'' @ itoa (mc_port cfg)), (''hub_psk'', ms_psk s)]) s"

definition hub_register :: "mgr_world \<Rightarrow> int \<Rightarrow> hub_request \<Rightarrow> mgr_handler" where
  "hub_register w now q s =
     (case decoded q (mw_register w) of
        None \<Rightarrow> say 400 (MrError ''invalid request'') s
      | Some e \<Rightarrow>
          if zt_id e = [] then say 400 (MrError ''agent_id required'') s
          else case zregister (mw_env w) (mw_reg_err w) now (e\<lparr>zt_alias := []\<rparr>) (ms_hub s) of
            (Some err, m) \<Rightarrow> say 500 (MrError ''registration failed'') (s\<lparr>ms_hub := m\<rparr>)
          | (None, m) \<Rightarrow> say 200 (MrObject [(''status'', ''registered'')]) (s\<lparr>ms_hub := m\<rparr>))"

definition hub_agent_list :: "int \<Rightarrow> mgr_handler" where
  "hub_agent_list now s = say 200 (MrViews (zviews now (ms_hub s))) s"

definition hub_agent_delete :: "mgr_world \<Rightarrow> string \<Rightarrow> mgr_handler" where
  "hub_agent_delete w i s =
     (case zdelete (mw_env w) (mw_reg_err w) i (ms_hub s) of
        (False, m) \<Rightarrow> say 404 (MrError ''agent not found'') s
      | (True, m) \<Rightarrow> say 200 (MrObject [(''status'', ''deleted'')]) (s\<lparr>ms_hub := m\<rparr>))"

definition hub_set_alias :: "mgr_world \<Rightarrow> string \<Rightarrow> hub_request \<Rightarrow> mgr_handler" where
  "hub_set_alias w i q s =
     (if i = [] then say 400 (MrError ''agent_id required'') s
      else case decoded q (mw_alias w) of
        None \<Rightarrow> say 400 (MrError ''invalid request'') s
      | Some a \<Rightarrow>
          if length (trim_space a) > 64 then say 400 (MrError ''alias must be 64 characters or fewer'') s
          else case set_alias (mw_env w) (mw_reg_err w) i (trim_space a) (ms_hub s) of
            ((_, Some err), m) \<Rightarrow> say 500 (MrError ''failed to persist alias'') (s\<lparr>ms_hub := m\<rparr>)
          | ((False, None), m) \<Rightarrow> say 404 (MrError ''agent not found'') (s\<lparr>ms_hub := m\<rparr>)
          | ((True, None), m) \<Rightarrow> say 200 (MrObject [(''status'', ''updated''), (''alias'', trim_space a)]) (s\<lparr>ms_hub := m\<rparr>))"

definition accepted :: mgr_reply where
  "accepted = MrObject [(''status'', ''accepted'')]"

definition hub_telemetry_ingest :: "mgr_world \<Rightarrow> int \<Rightarrow> hub_request \<Rightarrow> mgr_handler" where
  "hub_telemetry_ingest w now q s =
     (case decoded q (mw_telemetry w) of
        None \<Rightarrow> say 400 (MrError ''invalid telemetry'') s
      | Some (a, raw) \<Rightarrow> say 200 accepted (s\<lparr>ms_hub := ingest_request (mw_env w) now a raw (ms_hub s)\<rparr>))"

definition log_payload :: "log_body \<Rightarrow> (string \<times> string) list" where
  "log_payload b =
     [(''level'', lb_level b), (''message'', lb_message b),
      (''source'', if lb_agent b = [] then lb_source b
         else if lb_source b = [] then lb_agent b else lb_agent b @ '':'' @ lb_source b)] @
     (if lb_time b \<noteq> [] then [(''timestamp'', lb_time b)] else [])"

definition hub_log_ingest :: "mgr_world \<Rightarrow> hub_request \<Rightarrow> mgr_handler" where
  "hub_log_ingest w q s =
     (case decoded q (mw_log w) of
        None \<Rightarrow> say 400 (MrError ''invalid log'') s
      | Some b \<Rightarrow> say 200 accepted (s\<lparr>ms_hub := emit_log_upstream (log_payload b) (ms_hub s)\<rparr>))"

definition hub_telemetry_get :: "string \<Rightarrow> mgr_handler" where
  "hub_telemetry_get i s =
     (case zm_cache (ms_hub s) i of
        None \<Rightarrow> say 404 (MrError ''no telemetry for agent'') s | Some raw \<Rightarrow> say 200 (MrRaw raw) s)"

section \<open>Cached tables\<close>

text \<open>The cached field of the resolved agent, when there is one that is not null.\<close>

definition agent_field :: "mgr_world \<Rightarrow> int \<Rightarrow> hub_request \<Rightarrow> string \<Rightarrow> mgr_server \<Rightarrow> string option" where
  "agent_field w now q field s =
     (let i = resolve_zfs_agent now q (ms_hub s) in
      if i = [] then None
      else case latest_field (mw_env w) i field (ms_hub s) of
        None \<Rightarrow> None | Some d \<Rightarrow> if d = ''null'' then None else Some d)"

definition serve_field :: "mgr_world \<Rightarrow> int \<Rightarrow> hub_request \<Rightarrow> string \<Rightarrow> mgr_handler" where
  "serve_field w now q field s =
     say 200 (MrRaw (case agent_field w now q field s of None \<Rightarrow> ''[]'' | Some d \<Rightarrow> d)) s"

definition hub_presets :: mgr_handler where
  "hub_presets =
     (let p = (\<lambda>name rs sync. [(''name'', name), (''record_size'', rs), (''compression'', ''lz4''), (''atime'', ''off''), (''sync'', sync)]) in
      say 200 (MrPresets
        [(''general'', p ''General Purpose'' ''128K'' ''standard''), (''media'', p ''Media Storage'' ''1M'' ''disabled''),
         (''vm'', p ''VM/App Storage'' ''64K'' ''standard''), (''db'', p ''Database'' ''16K'' ''always'')]))"

definition hub_iostat_rows :: "mgr_world \<Rightarrow> int \<Rightarrow> hub_request \<Rightarrow> mgr_handler" where
  "hub_iostat_rows w now q s =
     (case Option.bind (agent_field w now q ''iostat'' s) (mw_iostat w) of
        None \<Rightarrow> say 200 (MrRows []) s
      | Some cur \<Rightarrow>
          (let prev = Option.bind (zm_prev (ms_hub s) (resolve_zfs_agent now q (ms_hub s))) (mw_iostat w) in
           say 200 (MrRows (build_iostat_rows cur (case prev of None \<Rightarrow> [] | Some ps \<Rightarrow> ps))) s))"

definition load_arc :: "mgr_world \<Rightarrow> int \<Rightarrow> hub_request \<Rightarrow> mgr_server \<Rightarrow> arc_stats option" where
  "load_arc w now q s = Option.bind (agent_field w now q ''arc'' s) (mw_arc w)"

definition hub_arc_metrics :: "mgr_world \<Rightarrow> int \<Rightarrow> hub_request \<Rightarrow> mgr_handler" where
  "hub_arc_metrics w now q s =
     say 200 (MrArc (case load_arc w now q s of None \<Rightarrow> [] | Some p \<Rightarrow> build_arc_rows p)) s"

definition hub_arc_advice :: "mgr_world \<Rightarrow> int \<Rightarrow> hub_request \<Rightarrow> mgr_handler" where
  "hub_arc_advice w now q s =
     say 200 (MrAdvice (case load_arc w now q s of None \<Rightarrow> [] | Some p \<Rightarrow> arc_recommendation_rows p)) s"

section \<open>The proxy\<close>

definition trim_slashes :: "string \<Rightarrow> string" where
  "trim_slashes a = rev (dropWhile (\<lambda>c. c = CHR ''/'') (rev a))"

text \<open>The address of an agent: absent, or parsed with a host and one of two schemes.\<close>

definition agent_base :: "mgr_world \<Rightarrow> string \<Rightarrow> mgr_server \<Rightarrow> (nat \<times> string) + url" where
  "agent_base w i s =
     (case zget i (ms_hub s) of
        None \<Rightarrow> Inl (404, ''agent not found: '' @ i)
      | Some e \<Rightarrow>
          if zt_address e = [] then Inl (502, ''agent has no advertise address'')
          else case mw_url w (trim_slashes (zt_address e)) of
            None \<Rightarrow> Inl (502, ''agent has invalid advertise address'')
          | Some u \<Rightarrow>
              if u_scheme u \<notin> {''http'', ''https''} \<or> u_host u = [] then Inl (502, ''agent has invalid advertise address'')
              else Inr u)"

definition send_out :: "mgr_world \<Rightarrow> out_request \<Rightarrow> mgr_server \<Rightarrow> sent \<times> mgr_server" where
  "send_out w r s =
     (case mw_send w (ms_out s) r of
        NotBuilt e \<Rightarrow> (NotBuilt e, s)
      | x \<Rightarrow> (x, s\<lparr>ms_out := ms_out s @ [r]\<rparr>))"

definition hub_bearer :: "mgr_server \<Rightarrow> string" where
  "hub_bearer s = (if ms_psk s \<noteq> [] then ''Bearer '' @ ms_psk s else [])"

definition proxied_request :: "hub_request \<Rightarrow> url \<Rightarrow> string \<Rightarrow> mgr_server \<Rightarrow> out_request" where
  "proxied_request q base body s =
     \<lparr>or_method = hq_method q, or_url = base\<lparr>u_path := path_join (u_path base) (hq_path q)\<rparr>, or_auth = hub_bearer s, or_body = body\<rparr>"

definition proxy_to_agent :: "mgr_world \<Rightarrow> int \<Rightarrow> hub_request \<Rightarrow> mgr_handler" where
  "proxy_to_agent w now q s =
     (let i = resolve_zfs_agent now q (ms_hub s) in
      if i = [] then say 502 (MrError ''no agent available'') s
      else case agent_base w i s of
        Inl (st, msg) \<Rightarrow> say st (MrError msg) s
      | Inr base \<Rightarrow>
          (case hq_body q of
             None \<Rightarrow> say 400 (MrError ''failed to read request body'') s
           | Some body \<Rightarrow>
               (case send_out w (proxied_request q base body s) s of
                  (NotBuilt e, s') \<Rightarrow> say 500 (MrError ''failed to create proxy request'') s'
                | (Unreachable e, s') \<Rightarrow> say 502 (MrError (''agent unreachable: '' @ e)) s'
                | (Answered st data, s') \<Rightarrow> say st (MrRaw data) s')))"

definition hub_arc :: "mgr_world \<Rightarrow> int \<Rightarrow> hub_request \<Rightarrow> mgr_handler" where
  "hub_arc w now q s =
     (case agent_field w now q ''arc'' s of Some d \<Rightarrow> say 200 (MrRaw d) s | None \<Rightarrow> proxy_to_agent w now q s)"

section \<open>The preview of a property change (properties.go)\<close>

definition hub_property_catalog :: "(string \<times> string \<times> string) list" where
  "hub_property_catalog =
     [(''compression'', ''dataset'', ''yellow''), (''recordsize'', ''dataset'', ''yellow''), (''atime'', ''dataset'', ''green''),
      (''relatime'', ''dataset'', ''green''), (''sync'', ''dataset'', ''yellow''), (''xattr'', ''dataset'', ''yellow''),
      (''acltype'', ''dataset'', ''yellow''), (''logbias'', ''dataset'', ''yellow''), (''primarycache'', ''dataset'', ''yellow''),
      (''secondarycache'', ''dataset'', ''yellow''), (''dedup'', ''dataset'', ''red''), (''snapdir'', ''dataset'', ''green''),
      (''quota'', ''dataset'', ''yellow''), (''reservation'', ''dataset'', ''yellow''),
      (''autotrim'', ''pool'', ''yellow''), (''autoexpand'', ''pool'', ''yellow''), (''autoreplace'', ''pool'', ''yellow''),
      (''failmode'', ''pool'', ''red''), (''comment'', ''pool'', ''green''), (''delegation'', ''pool'', ''yellow'')]"

definition hub_tier_rank :: "string \<Rightarrow> int" where
  "hub_tier_rank t = (if t = ''red'' then 2 else if t = ''yellow'' then 1 else 0)"

text \<open>The tier of a key; one that is not in the catalog of its scope is red.\<close>

definition hub_tier :: "string \<Rightarrow> string \<Rightarrow> string" where
  "hub_tier scope k =
     (case map_of (map (\<lambda>(key, sc, t). (key, t)) (filter (\<lambda>(key, sc, t). sc = scope) hub_property_catalog)) k of
        None \<Rightarrow> ''red'' | Some t \<Rightarrow> t)"

definition normalize_property_value :: "string \<Rightarrow> string" where
  "normalize_property_value v = to_lower (trim_space v)"

text \<open>The insertion sort: a new string moves down past the larger ones.\<close>

definition insert_down :: "string \<Rightarrow> string list \<Rightarrow> string list" where
  "insert_down x acc =
     (let large = takeWhile (\<lambda>y. y > x) (rev acc) in rev (drop (length large) (rev acc)) @ [x] @ rev large)"

definition sort_strings :: "string list \<Rightarrow> string list" where
  "sort_strings xs = foldl (\<lambda>acc x. insert_down x acc) [] xs"

definition build_property_command :: "string \<Rightarrow> string \<Rightarrow> (string \<times> string) list \<Rightarrow> string" where
  "build_property_command scope name changes =
     join_with [CHR 0x0A]
       (map (\<lambda>k. (if scope = ''pool'' then ''zpool'' else ''zfs'') @ '' set '' @ k @ ''='' @ qget k changes @ '' '' @ name)
         (sort_strings (map fst changes)))"

definition current_value :: "prop_value list \<Rightarrow> string \<Rightarrow> prop_value" where
  "current_value vs k =
     (case List.find (\<lambda>v. pv_key v = k) (rev vs) of None \<Rightarrow> \<lparr>pv_key = [], pv_value = [], pv_source = []\<rparr> | Some v \<Rightarrow> v)"

definition diff_of :: "string \<Rightarrow> prop_value list \<Rightarrow> string \<times> string \<Rightarrow> prop_diff_entry" where
  "diff_of scope vs kv =
     (let c = current_value vs (fst kv) in
      \<lparr>df_key = fst kv, df_current = pv_value c, df_target = snd kv, df_source = pv_source c,
       df_changed = (normalize_property_value (pv_value c) \<noteq> normalize_property_value (snd kv)), df_tier = hub_tier scope (fst kv)\<rparr>)"

definition highest_tier :: "prop_diff_entry list \<Rightarrow> string" where
  "highest_tier es =
     fold (\<lambda>e hi. if df_changed e \<and> hub_tier_rank (df_tier e) > hub_tier_rank hi then df_tier e else hi) es ''green''"

definition property_diff :: "string \<Rightarrow> string \<Rightarrow> (string \<times> string) list \<Rightarrow> prop_value list \<Rightarrow> diff_reply" where
  "property_diff scope name props vs =
     \<lparr>dr_scope = scope, dr_name = name, dr_entries = map (diff_of scope vs) props,
      dr_highest = highest_tier (map (diff_of scope vs) props), dr_command = build_property_command scope name props\<rparr>"

definition property_url :: "string \<Rightarrow> string \<Rightarrow> string list \<Rightarrow> url \<Rightarrow> url" where
  "property_url scope name keys base =
     base\<lparr>u_path := path_join (u_path base) (if scope = ''dataset'' then ''/api/dataset/properties'' else ''/api/pool/properties''),
          u_query := [(if scope = ''dataset'' then ''name'' else ''pool'', name)] @
            (if keys \<noteq> [] then [(''keys'', join_with '','' keys)] else [])\<rparr>"

definition fetch_agent_properties :: "mgr_world \<Rightarrow> string \<Rightarrow> string \<Rightarrow> string \<Rightarrow> string list \<Rightarrow> mgr_server \<Rightarrow>
    (string + prop_value list) \<times> mgr_server" where
  "fetch_agent_properties w i scope name keys s =
     (case agent_base w i s of
        Inl (st, msg) \<Rightarrow> (Inl msg, s)
      | Inr base \<Rightarrow>
          (case send_out w \<lparr>or_method = ''GET'', or_url = property_url scope name keys base, or_auth = [], or_body = []\<rparr> s of
             (NotBuilt e, s') \<Rightarrow> (Inl e, s')
           | (Unreachable e, s') \<Rightarrow> (Inl e, s')
           | (Answered st data, s') \<Rightarrow> (if st \<ge> 400 then Inl (trim_space data) else mw_values w data, s')))"

definition hub_preview_diff :: "mgr_world \<Rightarrow> int \<Rightarrow> hub_request \<Rightarrow> mgr_handler" where
  "hub_preview_diff w now q s =
     (case decoded q (mw_preview w) of
        None \<Rightarrow> say 400 (MrError ''invalid request body'') s
      | Some b \<Rightarrow>
          (let scope = to_lower (trim_space (pb_scope b)); i = resolve_zfs_agent now q (ms_hub s) in
           if scope \<noteq> ''dataset'' \<and> scope \<noteq> ''pool''
           then say 400 (MrError (''scope must be '' @ [CHR 0x27] @ ''dataset'' @ [CHR 0x27] @ '' or '' @ [CHR 0x27] @ ''pool'' @ [CHR 0x27])) s
           else if pb_name b = [] \<or> pb_props b = [] then say 400 (MrError ''name and properties are required'') s
           else if i = [] then say 502 (MrError ''no agent available'') s
           else case fetch_agent_properties w i scope (pb_name b) (map fst (pb_props b)) s of
             (Inl e, s') \<Rightarrow> say 502 (MrError e) s'
           | (Inr vs, s') \<Rightarrow> say 200 (MrDiff (property_diff scope (pb_name b) (pb_props b) vs)) s'))"

section \<open>The pre-shared key (token.go)\<close>

definition zload_or_generate_psk :: "string + string \<Rightarrow> string option + string \<Rightarrow> string option \<Rightarrow> (string + string) \<times> string option" where
  "zload_or_generate_psk rand file werr =
     (let old = (case file of Inl _ \<Rightarrow> None | Inr data \<Rightarrow> Some data);
          fresh = (case generate_random rand of
                     Inl e \<Rightarrow> (Inl e, old)
                   | Inr psk \<Rightarrow> (case werr of Some e \<Rightarrow> (Inl e, old) | None \<Rightarrow> (Inr psk, Some (psk @ [CHR 0x0A]))))
      in case file of
           Inl (Some e) \<Rightarrow> (Inl (''reading PSK: '' @ e), old)
         | Inl None \<Rightarrow> fresh
         | Inr data \<Rightarrow> if trim_space data \<noteq> [] then (Inr (trim_space data), old) else fresh)"

definition load_persisted_token :: "string option \<Rightarrow> string" where
  "load_persisted_token file = (case file of None \<Rightarrow> [] | Some data \<Rightarrow> trim_space data)"

definition hub_rotate_psk :: "mgr_world \<Rightarrow> hub_request \<Rightarrow> mgr_handler" where
  "hub_rotate_psk w q s =
     (if decoded q (mw_confirm w) \<noteq> Some ''ROTATE'' then say 400 (MrError ''type ROTATE to confirm'') s
      else case generate_random (mw_rand w) of
        Inl e \<Rightarrow> say 500 (MrError ''PSK generation failed'') s
      | Inr psk \<Rightarrow>
          (case mw_psk_err w of
             Some e \<Rightarrow> say 500 (MrError ''failed to save PSK'') s
           | None \<Rightarrow> say 200 (MrObject [(''status'', ''rotated''), (''hub_psk'', psk)])
               (s\<lparr>ms_psk := psk, ms_psk_file := Some (psk @ [CHR 0x0A])\<rparr>)))"

section \<open>Routes\<close>

datatype gate = Open | AgentKey | CoreToken

datatype target =
    ToHealth | ToDeployInfo | ToRegister | ToTelemetryIngest | ToLogIngest | ToAgentList | ToAlias | ToAgentDelete
  | ToTelemetry | ToField string | ToPresets | ToArc | ToArcMetrics | ToArcAdvice | ToIostatRows | ToPreviewDiff
  | ToRotate | ToAgent

definition proxied_routes :: "(string \<times> string) list" where
  "proxied_routes =
     [(''GET'', ''/api/properties/catalog''), (''GET'', ''/api/dataset/properties''), (''GET'', ''/api/pool/properties''),
      (''POST'', ''/api/datasets''), (''PUT'', ''/api/datasets''), (''DELETE'', ''/api/datasets''),
      (''POST'', ''/api/snapshots''), (''DELETE'', ''/api/snapshots''), (''POST'', ''/api/snapshots/rollback''),
      (''POST'', ''/api/scrub/start''), (''POST'', ''/api/scrub/pause''), (''POST'', ''/api/scrub/cancel''), (''POST'', ''/api/preview''),
      (''GET'', ''/api/disks''), (''POST'', ''/api/pool/replace''), (''POST'', ''/api/pool/add-vdev''),
      (''POST'', ''/api/devices/offline''), (''POST'', ''/api/devices/online''), (''POST'', ''/api/devices/identify''),
      (''POST'', ''/api/pool/clear''), (''PUT'', ''/api/pool/properties''), (''GET'', ''/api/pool/importable''),
      (''POST'', ''/api/pool/import''), (''POST'', ''/api/pool/export''), (''POST'', ''/api/pool/create''),
      (''GET'', ''/api/tasks''), (''POST'', ''/api/tasks''), (''PUT'', ''/api/tasks/{id}''), (''DELETE'', ''/api/tasks/{id}''),
      (''GET'', ''/api/tasks/{id}/history''), (''POST'', ''/api/tasks/{id}/run''), (''GET'', ''/api/jobs''),
      (''GET'', ''/api/logs/history''), (''GET'', ''/api/retention''), (''POST'', ''/api/retention/cleanup''),
      (''GET'', ''/api/replication/tasks''), (''POST'', ''/api/replication/tasks''), (''PUT'', ''/api/replication/tasks/{id}''),
      (''DELETE'', ''/api/replication/tasks/{id}''), (''POST'', ''/api/replication/tasks/{id}/run''),
      (''GET'', ''/api/replication/tasks/{id}/history''), (''POST'', ''/api/replication/test-connection''),
      (''GET'', ''/api/replication/keys/{name}/public''), (''POST'', ''/api/replication/keys/{name}/rotate'')]"

definition hub_routes :: "(string \<times> string \<times> gate \<times> target) list" where
  "hub_routes =
     [(''GET'', ''/health'', Open, ToHealth), (''GET'', ''/api/deploy-info'', Open, ToDeployInfo),
      (''POST'', ''/api/agents/register'', AgentKey, ToRegister), (''POST'', ''/api/telemetry/ingest'', AgentKey, ToTelemetryIngest),
      (''POST'', ''/api/logs/ingest'', AgentKey, ToLogIngest),
      (''GET'', ''/api/agents'', CoreToken, ToAgentList), (''POST'', ''/api/agents/{id}/alias'', CoreToken, ToAlias),
      (''DELETE'', ''/api/agents/{id}'', CoreToken, ToAgentDelete), (''GET'', ''/api/telemetry/{agentID}'', CoreToken, ToTelemetry),
      (''GET'', ''/api/pools'', CoreToken, ToField ''pools''), (''GET'', ''/api/datasets'', CoreToken, ToField ''datasets''),
      (''GET'', ''/api/snapshots'', CoreToken, ToField ''snapshots''), (''GET'', ''/api/presets'', CoreToken, ToPresets),
      (''GET'', ''/api/arc'', CoreToken, ToArc), (''GET'', ''/api/arc/metrics'', CoreToken, ToArcMetrics),
      (''GET'', ''/api/arc/recommendations'', CoreToken, ToArcAdvice), (''GET'', ''/api/iostat'', CoreToken, ToField ''iostat''),
      (''GET'', ''/api/iostat/rows'', CoreToken, ToIostatRows), (''POST'', ''/api/properties/preview-diff'', CoreToken, ToPreviewDiff),
      (''POST'', ''/api/rotate-psk'', CoreToken, ToRotate)] @
     map (\<lambda>(m, p). (m, p, CoreToken, ToAgent)) proxied_routes"

fun run_target :: "mgr_world \<Rightarrow> mgr_config \<Rightarrow> int \<Rightarrow> hub_request \<Rightarrow> string \<Rightarrow> target \<Rightarrow> mgr_handler" where
  "run_target w cfg now q i ToHealth = hub_health"
| "run_target w cfg now q i ToDeployInfo = hub_deploy_info cfg q"
| "run_target w cfg now q i ToRegister = hub_register w now q"
| "run_target w cfg now q i ToTelemetryIngest = hub_telemetry_ingest w now q"
| "run_target w cfg now q i ToLogIngest = hub_log_ingest w q"
| "run_target w cfg now q i ToAgentList = hub_agent_list now"
| "run_target w cfg now q i ToAlias = hub_set_alias w i q"
| "run_target w cfg now q i ToAgentDelete = hub_agent_delete w i"
| "run_target w cfg now q i ToTelemetry = hub_telemetry_get i"
| "run_target w cfg now q i (ToField f) = serve_field w now q f"
| "run_target w cfg now q i ToPresets = hub_presets"
| "run_target w cfg now q i ToArc = hub_arc w now q"
| "run_target w cfg now q i ToArcMetrics = hub_arc_metrics w now q"
| "run_target w cfg now q i ToArcAdvice = hub_arc_advice w now q"
| "run_target w cfg now q i ToIostatRows = hub_iostat_rows w now q"
| "run_target w cfg now q i ToPreviewDiff = hub_preview_diff w now q"
| "run_target w cfg now q i ToRotate = hub_rotate_psk w q"
| "run_target w cfg now q i ToAgent = proxy_to_agent w now q"

definition hub_serve :: "mgr_world \<Rightarrow> mgr_config \<Rightarrow> int \<Rightarrow> hub_request \<Rightarrow> mgr_handler" where
  "hub_serve w cfg now q =
     (case dispatch q hub_routes of
        Inl st \<Rightarrow> say st (MrError [])
      | Inr ((g, t), v) \<Rightarrow>
          (let h = run_target w cfg now q v t in
           case g of Open \<Rightarrow> h | AgentKey \<Rightarrow> mgr_require_psk q h | CoreToken \<Rightarrow> require_token cfg q h))"

end
