(* ===== verification/ZfsHubGuards.thy ===== *)
theory ZfsHubGuards
  imports ZfsHubServer "HOL-Library.Multiset"
begin

text \<open>
  What the hub of the ZFS add-on lets through, and what becomes of a request on its way from the hub
  to the agent: the model of the hub's server composed with that of the agent's.
\<close>

section \<open>Gates\<close>

lemma trim_bearer [simp]:
  "trim_prefix (CHR ''B'' # CHR ''e'' # CHR ''a'' # CHR ''r'' # CHR ''e'' # CHR ''r'' # CHR '' '' # p) ''Bearer '' = p"
  by (simp add: trim_prefix_def)

lemma bearer_fault_None: "bearer_fault e what auth = None \<longleftrightarrow> auth = ''Bearer '' @ e"
  by (auto simp: bearer_fault_def trim_prefix_def has_prefix_iff)

lemma open_routes: "(m, p, Open, t) \<in> set hub_routes \<Longrightarrow> p = ''/health'' \<and> t = ToHealth \<or> p = ''/api/deploy-info'' \<and> t = ToDeployInfo"
  by (auto simp: hub_routes_def)

lemma open_paths:
  assumes "List.find (route_matches q) hub_routes = Some (m, p, Open, t)"
  shows "p = hq_path q \<and> (hq_path q = ''/health'' \<and> t = ToHealth \<or> hq_path q = ''/api/deploy-info'' \<and> t = ToDeployInfo)"
proof -
  have r: "(m, p, Open, t) \<in> set hub_routes" "match_path p (hq_path q) \<noteq> None"
    using assms by (auto simp: find_Some_iff route_matches_def in_set_conv_nth dest!: sym [of "(m, p, Open, t)"])
  have "list_all (\<lambda>p. \<not> has_prefix p ''{'') (split_on (CHR ''/'') ''/health'')"
    "list_all (\<lambda>p. \<not> has_prefix p ''{'') (split_on (CHR ''/'') ''/api/deploy-info'')" by code_simp+
  then have "hq_path q = p" using open_routes [OF r(1)] match_plain [OF r(2)] by auto
  then show ?thesis using open_routes [OF r(1)] by auto
qed

text \<open>C4. Nothing passes the gates of the hub without a key: when an add-on token is configured, a
  request that carries neither exactly that token nor exactly the pre-shared key of the agents
  changes nothing and sends nothing to any agent, whatever its method, path, query and body, and
  it is answered with 200 only on the two open endpoints.\<close>

theorem hub_needs_key:
  assumes "mc_token cfg \<noteq> []" "hq_auth q \<noteq> ''Bearer '' @ mc_token cfg" "hq_auth q \<noteq> ''Bearer '' @ ms_psk s"
    and "hub_serve w cfg now q s = ((st, r), s')"
  shows "s' = s \<and> (st = 200 \<longrightarrow> hq_path q \<in> {''/health'', ''/api/deploy-info''})"
proof (cases "List.find (route_matches q) hub_routes")
  case None
  then show ?thesis using assms(4) by (auto simp: hub_serve_def dispatch_def say_def split: if_splits)
next
  case (Some route)
  obtain m p g t where route: "route = (m, p, g, t)" by (cases route)
  show ?thesis
  proof (cases g)
    case Open
    then show ?thesis using open_paths [of q m p t] Some assms(4)
      by (auto simp: route hub_serve_def dispatch_def say_def hub_health_def hub_deploy_info_def Let_def)
  next
    case AgentKey
    then show ?thesis using Some assms(3,4)
      by (auto simp: route hub_serve_def dispatch_def mgr_require_psk_def say_def bearer_fault_def Let_def trim_prefix_def has_prefix_iff split: if_splits)
  next
    case CoreToken
    then show ?thesis using Some assms(1,2,4)
      by (auto simp: route hub_serve_def dispatch_def require_token_def say_def bearer_fault_def Let_def trim_prefix_def has_prefix_iff split: if_splits)
  qed
qed

section \<open>From the hub to the agent\<close>

text \<open>What the agent makes of a request: its handlers read their own query parameters, the others
  only the body. The decoders of the bodies are parameters.\<close>

record agent_json =
  aj_create :: "string \<Rightarrow> pool_form option"
  aj_other :: "string \<Rightarrow> string \<Rightarrow> string \<Rightarrow> agent_request option"

definition agent_receive :: "agent_json \<Rightarrow> out_request \<Rightarrow> agent_request option" where
  "agent_receive aj r =
     (let path = u_path (or_url r); qs = u_query (or_url r) in
      if or_method r = ''POST'' \<and> path = ''/api/pool/create''
      then map_option (\<lambda>f. CreatePool f (qget ''preview'' qs = ''1'')) (aj_create aj (or_body r))
      else if or_method r = ''GET'' \<and> path = ''/api/dataset/properties'' then Some (GetDatasetProps (qget ''name'' qs) (qget ''keys'' qs))
      else if or_method r = ''GET'' \<and> path = ''/api/pool/properties'' then Some (GetPoolProps (qget ''pool'' qs) (qget ''keys'' qs))
      else if or_method r = ''GET'' \<and> path = ''/api/pool/importable'' then Some (ListImportable (qget ''dirs'' qs))
      else aj_other aj (or_method r) path (or_body r))"

text \<open>The agent an authorised request reaches, with an address that is an origin.\<close>

definition reaches :: "mgr_world \<Rightarrow> mgr_config \<Rightarrow> hub_request \<Rightarrow> mgr_server \<Rightarrow> url \<Rightarrow> bool" where
  "reaches w cfg q s u \<longleftrightarrow>
     (mc_token cfg = [] \<or> hq_auth q = ''Bearer '' @ mc_token cfg) \<and> qget ''agent_id'' (hq_query q) \<noteq> [] \<and>
     agent_base w (qget ''agent_id'' (hq_query q)) s = Inr u \<and> u_path u = [] \<and> u_query u = []"

lemma resolve_named: "qget ''agent_id'' (hq_query q) \<noteq> [] \<Longrightarrow> resolve_zfs_agent now q m = qget ''agent_id'' (hq_query q)"
  by (simp add: resolve_zfs_agent_def)

lemma proxy_sends:
  assumes "reaches w cfg q s u" "hq_body q = Some body" "\<forall>e. mw_send w (ms_out s) (proxied_request q u body s) \<noteq> NotBuilt e"
  shows "ms_out (snd (proxy_to_agent w now q s)) = ms_out s @ [proxied_request q u body s]"
  using assms
  by (cases "mw_send w (ms_out s) (proxied_request q u body s)")
     (simp_all add: proxy_to_agent_def reaches_def resolve_named send_out_def say_def Let_def)

lemma serve_routed:
  assumes "dispatch q hub_routes = Inr ((CoreToken, ToAgent), v)" "reaches w cfg q s u"
  shows "hub_serve w cfg now q s = proxy_to_agent w now q s"
  using assms by (auto simp: hub_serve_def require_token_def reaches_def bearer_fault_def Let_def)

lemma create_routed:
  "dispatch (bare_request ''POST'' ''/api/pool/create'') hub_routes = Inr ((CoreToken, ToAgent), [])"
  by code_simp

lemma serve_accepted: "za_psk sv = p \<Longrightarrow> serve sv now (''Bearer '' @ p) (Some r) = handle_request sv now r"
  by (rule ext) (simp add: serve_def guard_psk_def)

lemma created_runs:
  assumes "validate_pool_spec (to_spec form) = None" "\<not> px_force (to_spec form)"
  shows "Cmd (en_zpool (za_engine sv)) (create_pool_args (to_spec form)) \<in> set (zg_tr (snd (handle_create_pool sv form False st)))"
proof -
  have "Cmd (en_zpool e) args \<in> set tr'" if "run_zpool h e args tr = (x, tr')" for h e args tr x tr'
    using that by (auto simp: run_zpool_def zx_run_def Let_def split: zx_answer.splits)
  then show ?thesis
    using assms by (auto simp: handle_create_pool_def Let_def answer_call_def created_result_def create_pool_def command_outcome_def
        log_op_def split: prod.splits option.splits)
qed

text \<open>C33. A preview that is asked for through the hub is carried out: the hub forwards the method,
  the path and the body of a request but not its query, so \<^verbatim>\<open>POST /api/pool/create?preview=1\<close>, which
  an agent answers with the command it would run, reaches the agent without \<^verbatim>\<open>preview\<close>, and a valid
  specification that is not forced is handed to \<^verbatim>\<open>zpool create\<close> at once.\<close>

theorem preview_through_hub_creates:
  assumes "hq_method q = ''POST''" "hq_path q = ''/api/pool/create''" "qget ''preview'' (hq_query q) = ''1''"
    and "hq_body q = Some body" "aj_create aj body = Some form" "reaches w cfg q s u"
    and "\<And>tr r e. mw_send w tr r \<noteq> NotBuilt e" "ms_psk s \<noteq> []" "za_psk sv = ms_psk s"
    and "validate_pool_spec (to_spec form) = None" "\<not> px_force (to_spec form)"
  shows "\<exists>r. ms_out (snd (hub_serve w cfg now q s)) = ms_out s @ [r] \<and>
    (\<forall>st. Cmd (en_zpool (za_engine sv)) (create_pool_args (to_spec form)) \<in> set (zg_tr (snd (serve sv now (or_auth r) (agent_receive aj r) st)))) \<and>
    (\<forall>st. serve sv now (or_auth r) (agent_receive aj (r\<lparr>or_url := (or_url r)\<lparr>u_query := hq_query q\<rparr>\<rparr>)) st =
       ((200, AgPreview (build_create_pool (en_zpool (za_engine sv)) (to_spec form)) []), st))"
proof -
  let ?r = "proxied_request q u body s"
  have "dispatch q hub_routes = Inr ((CoreToken, ToAgent), [])"
    by (rule routed_as_bare [OF create_routed assms(1,2)])
  then have "ms_out (snd (hub_serve w cfg now q s)) = ms_out s @ [?r]"
    using serve_routed proxy_sends assms(4,6,7) by metis
  moreover have "path_join [] ''/api/pool/create'' = ''/api/pool/create''" by code_simp
  then have "agent_receive aj ?r = Some (CreatePool form False)"
    "agent_receive aj (?r\<lparr>or_url := (or_url ?r)\<lparr>u_query := hq_query q\<rparr>\<rparr>) = Some (CreatePool form True)"
    using assms(1-6) by (simp_all add: agent_receive_def proxied_request_def reaches_def Let_def qget_def [of _ "[]"])
  moreover have "serve sv now (or_auth ?r) (Some x) = handle_request sv now x" for x
    using serve_accepted [of sv "ms_psk s"] assms(8,9) by (simp add: proxied_request_def hub_bearer_def)
  moreover have "handle_create_pool sv form True st = ((200, AgPreview (build_create_pool (en_zpool (za_engine sv)) (to_spec form)) []), st)" for st
    using assms(10,11) by (simp add: handle_create_pool_def Let_def)
  ultimately show ?thesis
    using created_runs [OF assms(10,11)] by (intro exI [of _ ?r]) simp
qed

section \<open>The preview of a property change\<close>

text \<open>The preview of a property change never works against an agent that has a key: the hub asks
  for the present values without an authorization header, the agent refuses it, and the user gets
  400 for a malformed request and 502 for every other one, never a difference.\<close>

lemma property_preview_refused:
  assumes "za_psk sv \<noteq> []"
    and "\<And>tr r st msg. guard_psk sv (or_auth r) = Some (st, msg) \<Longrightarrow> \<exists>data. mw_send w tr r = Answered st data"
  shows "\<exists>msg. fst (hub_preview_diff w now q s) = (400, MrError msg) \<or> fst (hub_preview_diff w now q s) = (502, MrError msg)"
proof -
  have "\<exists>data. mw_send w tr \<lparr>or_method = ''GET'', or_url = u, or_auth = [], or_body = []\<rparr> = Answered 401 data" for tr u
    using assms(2) [of "\<lparr>or_method = ''GET'', or_url = u, or_auth = [], or_body = []\<rparr>" 401 "''missing authorization header''"] assms(1)
    by (simp add: guard_psk_def)
  then obtain data where data: "mw_send w tr \<lparr>or_method = ''GET'', or_url = u, or_auth = [], or_body = []\<rparr> = Answered 401 (data tr u)" for tr u
    by metis
  then have "\<exists>e s'. fetch_agent_properties w i scope name keys s = (Inl e, s')" for i scope name keys
    by (cases "agent_base w i s") (auto simp: fetch_agent_properties_def send_out_def)
  then obtain e s' where "fetch_agent_properties w i scope name keys s = (Inl (e i scope name keys), s' i scope name keys)" for i scope name keys
    by metis
  then show ?thesis
    by (cases "decoded q (mw_preview w)") (simp_all add: hub_preview_diff_def say_def Let_def)
qed

section \<open>The two catalogs\<close>

lemma hub_tier_known:
  "list_all (\<lambda>d. tier_rank (pd_tier d) \<le> hub_tier_rank (hub_tier (scope_text sc) (pd_key d))) (scope_defs property_catalog sc)"
  by (cases sc) (simp_all add: property_catalog_def scope_defs_def catalog_entry_def hub_tier_def hub_property_catalog_def hub_tier_rank_def)

lemma hub_tier_unknown: "find_prop property_catalog sc k = None \<Longrightarrow> hub_tier (scope_text sc) k = ''red''"
proof -
  have keys: "set (map fst (map (\<lambda>(key, scope, t). (key, t)) (filter (\<lambda>(key, scope, t). scope = scope_text sc) hub_property_catalog)))
      \<subseteq> set (map pd_key (scope_defs property_catalog sc))"
    by (cases sc) (simp_all add: hub_property_catalog_def property_catalog_def scope_defs_def catalog_entry_def)
  assume "find_prop property_catalog sc k = None"
  then have "k \<notin> set (map pd_key (scope_defs property_catalog sc))" by (auto simp: find_prop_def find_None_iff)
  then have "map_of (map (\<lambda>(key, scope, t). (key, t)) (filter (\<lambda>(key, scope, t). scope = scope_text sc) hub_property_catalog)) k = None"
    using keys by (auto simp: map_of_eq_None_iff)
  then show ?thesis by (simp add: hub_tier_def)
qed

lemma hub_tier_above: "find_prop property_catalog sc k = Some d \<Longrightarrow> tier_rank (pd_tier d) \<le> hub_tier_rank (hub_tier (scope_text sc) k)"
  using hub_tier_known [of sc] unfolding find_prop_def by (auto simp: list_all_iff find_Some_iff)

lemma highest_mono: "hub_tier_rank hi \<le> hub_tier_rank
    (fold (\<lambda>e hi. if df_changed e \<and> hub_tier_rank (df_tier e) > hub_tier_rank hi then df_tier e else hi) es hi)"
proof (induction es arbitrary: hi)
  case (Cons e es)
  show ?case using Cons [of "if df_changed e \<and> hub_tier_rank (df_tier e) > hub_tier_rank hi then df_tier e else hi"] by auto
qed simp

lemma classify_below:
  assumes "list_all (\<lambda>kv. df_changed (diff_of (scope_text sc) vs kv)) props" "tier_rank t \<le> hub_tier_rank hi"
  shows "tier_rank (classify_from property_catalog sc t (map fst props)) \<le> hub_tier_rank
    (fold (\<lambda>e hi. if df_changed e \<and> hub_tier_rank (df_tier e) > hub_tier_rank hi then df_tier e else hi) (map (diff_of (scope_text sc) vs) props) hi)"
  using assms
proof (induction props arbitrary: t hi)
  case (Cons kv props)
  let ?e = "diff_of (scope_text sc) vs kv"
  have ch: "df_changed ?e" "df_tier ?e = hub_tier (scope_text sc) (fst kv)" using Cons.prems by (simp_all add: diff_of_def Let_def)
  let ?hi = "if hub_tier_rank (df_tier ?e) > hub_tier_rank hi then df_tier ?e else hi"
  show ?case
  proof (cases "find_prop property_catalog sc (fst kv)")
    case None
    then have "hub_tier_rank ?hi = 2" by (simp add: ch hub_tier_unknown hub_tier_rank_def)
    then show ?thesis using None highest_mono [of ?hi "map (diff_of (scope_text sc) vs) props"] ch by simp
  next
    case (Some d)
    have "tier_rank (if tier_rank (pd_tier d) > tier_rank t then pd_tier d else t) \<le> hub_tier_rank ?hi"
      using hub_tier_above [OF Some] Cons.prems(2) ch(2) by auto
    from Cons.IH [OF _ this] show ?thesis using Cons.prems(1) Some ch by simp
  qed
qed simp

text \<open>The hub never shows a change as safer than the agent takes it: when every value of a
  change differs from the present one, the tier that the hub computes from its own copy of the
  catalog is at least the tier by which the agent decides whether to ask for a confirmation.\<close>

lemma hub_never_understates:
  assumes "list_all (\<lambda>kv. df_changed (diff_of (scope_text sc) vs kv)) props"
  shows "tier_rank (classify_change property_catalog sc props) \<le> hub_tier_rank (dr_highest (property_diff (scope_text sc) name props vs))"
  using classify_below [OF assms, of TierGreen "''green''"]
  by (simp add: classify_change_def property_diff_def highest_tier_def hub_tier_rank_def)

text \<open>A value of the red tier that is set to what it is: the hub asks for nothing, the agent for a
  confirmation.\<close>

lemma unchanged_red_refused:
  "dr_highest (property_diff ''dataset'' ''tank'' [(''dedup'', ''on'')] [\<lparr>pv_key = ''dedup'', pv_value = ''on'', pv_source = ''local''\<rparr>]) = ''green'' \<and>
   classify_change property_catalog ScopeDataset [(''dedup'', ''on'')] = TierRed"
  by code_simp

text \<open>The entries on which the two catalogs differ.\<close>

lemma catalogs_differ:
  "map pd_key (filter (\<lambda>d. tier_rank (pd_tier d) \<noteq> hub_tier_rank (hub_tier ''dataset'' (pd_key d))) (pl_dataset property_catalog)) =
     [''quota'', ''reservation'']"
  "map pd_key (filter (\<lambda>d. tier_rank (pd_tier d) \<noteq> hub_tier_rank (hub_tier ''pool'' (pd_key d))) (pl_pool property_catalog)) =
     [''autotrim'', ''autoexpand'']"
  by code_simp+

section \<open>Keys\<close>

text \<open>Whoever asks for the deployment data gets the key with which the agents take every request.\<close>

lemma deploy_routed:
  "dispatch (bare_request ''GET'' ''/api/deploy-info'') hub_routes = Inr ((Open, ToDeployInfo), [])"
  by code_simp

lemma deploy_info_opens_agents:
  assumes "hq_method q = ''GET''" "hq_path q = ''/api/deploy-info''" "za_psk sv = ms_psk s"
  shows "\<exists>url psk. fst (hub_serve w cfg now q s) = (200, MrObject [(''hub_url'', url), (''hub_psk'', psk)]) \<and>
    (\<forall>r. serve sv now' (''Bearer '' @ psk) (Some r) = handle_request sv now' r)"
proof -
  have "dispatch q hub_routes = Inr ((Open, ToDeployInfo), [])"
    by (rule routed_as_bare [OF deploy_routed assms(1,2)])
  then show ?thesis using serve_accepted [OF assms(3)] by (simp add: hub_serve_def hub_deploy_info_def say_def)
qed

text \<open>The host of a request comes with its port, and the port is appended again.\<close>

lemma deploy_url_has_two_ports:
  assumes "hq_host q = host @ '':'' @ itoa (mc_port cfg)"
  shows "\<exists>psk. fst (hub_deploy_info cfg q s) =
    (200, MrObject [(''hub_url'', ''http://'' @ host @ '':'' @ itoa (mc_port cfg) @ '':'' @ itoa (mc_port cfg)), (''hub_psk'', psk)])"
  using assms by (simp add: hub_deploy_info_def say_def)

text \<open>After a rotation the agents, which have the old key in their configuration, refuse the hub.\<close>

lemma rotation_cuts_agents_off:
  assumes "fst (fst (hub_rotate_psk w q s)) = 200" "za_psk sv = ms_psk s" "ms_psk s \<noteq> []"
    and "mw_rand w = Inr bytes" "hex_encode bytes \<noteq> ms_psk s" "hex_encode bytes \<noteq> []"
  shows "guard_psk sv (hub_bearer (snd (hub_rotate_psk w q s))) = Some (403, ''invalid pre-shared key'')"
  using assms by (auto simp: hub_rotate_psk_def say_def generate_random_def hub_bearer_def guard_psk_def split: if_splits option.splits)

lemma sort_strings_sorted: "mset (sort_strings xs) = mset xs \<and> sorted (sort_strings xs)"
proof -
  have down: "mset (insert_down x acc) = add_mset x (mset acc) \<and> sorted (insert_down x acc)" if "sorted acc" for x :: string and acc
  proof -
    let ?big = "takeWhile (\<lambda>y. y > x) (rev acc)" and ?small = "dropWhile (\<lambda>y. y > x) (rev acc)"
    have d: "drop (length ?big) (rev acc) = ?small" by (simp add: dropWhile_eq_drop)
    have acc: "acc = rev ?small @ rev ?big" by (metis rev_append rev_rev_ident takeWhile_dropWhile_id)
    have s: "sorted (rev ?small)" "sorted (rev ?big)" using that acc by (metis sorted_append)+
    have "y \<le> x" if "y \<in> set ?small" for y
    proof -
      have ne: "?small \<noteq> []" using that by (metis empty_iff empty_set)
      then have "\<not> hd ?small > x" by (rule hd_dropWhile)
      moreover have "y \<le> hd ?small" using s(1) ne that by (cases ?small) (auto simp: sorted_append)
      ultimately show ?thesis by simp
    qed
    moreover have "x \<le> y" if "y \<in> set ?big" for y using that by (metis less_imp_le set_takeWhileD)
    ultimately have "sorted (insert_down x acc)"
      using s by (force simp: insert_down_def d sorted_append Let_def)
    moreover have "mset (insert_down x acc) = add_mset x (mset acc)"
      by (subst (2) acc) (simp add: insert_down_def d Let_def)
    ultimately show ?thesis by simp
  qed
  have "mset (foldl (\<lambda>acc x. insert_down x acc) acc xs) = mset acc + mset xs \<and> sorted (foldl (\<lambda>acc x. insert_down x acc) acc xs)"
    if "sorted acc" for acc
    using that down by (induction xs arbitrary: acc) simp_all
  from this [of "[]"] show ?thesis by (simp add: sort_strings_def)
qed

section \<open>A hub with one agent\<close>

definition nas_url :: url where
  "nas_url = \<lparr>u_scheme = ''http'', u_host = ''nas:9600'', u_path = [], u_query = []\<rparr>"

text \<open>The network answers what the guard of the agent answers, and nothing to an accepted request.\<close>

definition nas_world :: mgr_world where
  "nas_world =
     \<lparr>mw_env = \<lparr>me_enc = \<lambda>_. [], me_dec = \<lambda>_. Inr [], me_frame = \<lambda>_. None, me_field = \<lambda>_ _. None, me_cap = 8\<rparr>,
      mw_register = \<lambda>_. None, mw_alias = \<lambda>_. None, mw_telemetry = \<lambda>_. None, mw_log = \<lambda>_. None,
      mw_preview = \<lambda>_. Some \<lparr>pb_scope = '' Dataset'', pb_name = ''tank'', pb_props = [(''dedup'', ''on'')]\<rparr>,
      mw_confirm = \<lambda>_. None, mw_values = \<lambda>_. Inr [], mw_iostat = \<lambda>_. None, mw_arc = \<lambda>_. None, mw_url = \<lambda>_. Some nas_url,
      mw_rand = Inr [], mw_reg_err = None, mw_psk_err = None,
      mw_send = \<lambda>tr r. case guard_psk sample_agent (or_auth r) of Some (st, msg) \<Rightarrow> Answered st msg | None \<Rightarrow> Answered 200 []\<rparr>"

definition nas_hub :: mgr_server where
  "nas_hub =
     \<lparr>ms_hub = \<lparr>zm_agents = [\<lparr>zt_id = ''nas'', zt_hostname = ''nas'', zt_alias = [], zt_arch = ''amd64'', zt_address = ''http://nas:9600/'',
           zt_version = ''1'', zt_registered = 0, zt_seen = 0\<rparr>],
         zm_file = None, zm_cache = Map.empty, zm_prev = Map.empty, zm_pools = Map.empty, zm_events = Map.empty, zm_vigil = False,
         zm_queue = [], zm_sent = [], zm_logs = []\<rparr>,
      ms_psk = ''psk'', ms_psk_file = None, ms_out = []\<rparr>"

definition nas_request :: "string \<Rightarrow> string \<Rightarrow> (string \<times> string) list \<Rightarrow> string \<Rightarrow> hub_request" where
  "nas_request m p qs auth =
     \<lparr>hq_method = m, hq_path = p, hq_query = (''agent_id'', ''nas'') # qs, hq_auth = auth, hq_host = ''hub:9500'', hq_body = Some ''{}''\<rparr>"

definition core_config :: mgr_config where
  "core_config = \<lparr>mc_token = ''token'', mc_port = 9500\<rparr>"

lemma nas_serve:
  "hub_serve nas_world core_config 0 (nas_request ''DELETE'' ''/api/datasets'' [] ''Bearer other'') nas_hub =
     ((403, MrError ''invalid addon token''), nas_hub)"
proof -
  have "dispatch (bare_request ''DELETE'' ''/api/datasets'') hub_routes = Inr ((CoreToken, ToAgent), [])"
    by code_simp
  moreover have "dispatch (nas_request ''DELETE'' ''/api/datasets'' [] ''Bearer other'') hub_routes =
      dispatch (bare_request ''DELETE'' ''/api/datasets'') hub_routes"
    by (rule dispatch_cong) (simp_all add: nas_request_def bare_request_def)
  ultimately show ?thesis
    by (simp add: hub_serve_def require_token_def bearer_fault_def say_def core_config_def nas_request_def)
qed

lemma hub_needs_key_witness:
  "snd (hub_serve nas_world core_config 0 (nas_request ''DELETE'' ''/api/datasets'' [] ''Bearer other'') nas_hub) = nas_hub \<and>
   fst (fst (hub_serve nas_world core_config 0 (nas_request ''DELETE'' ''/api/datasets'' [] ''Bearer other'') nas_hub)) = 403"
  using hub_needs_key [OF _ _ _ nas_serve] by (simp add: core_config_def nas_request_def nas_hub_def nas_serve [unfolded nas_hub_def core_config_def nas_request_def])

lemma preview_through_hub_creates_witness:
  "\<exists>r. ms_out (snd (hub_serve nas_world core_config 0 (nas_request ''POST'' ''/api/pool/create'' [(''preview'', ''1'')] ''Bearer token'') nas_hub)) = [r] \<and>
     Cmd ''zpool'' (create_pool_args (to_spec (sample_form []))) \<in>
       set (zg_tr (snd (serve sample_agent 0 (or_auth r) (agent_receive \<lparr>aj_create = \<lambda>_. Some (sample_form []), aj_other = \<lambda>_ _ _. None\<rparr> r) idle_agent)))"
proof -
  let ?q = "nas_request ''POST'' ''/api/pool/create'' [(''preview'', ''1'')] ''Bearer token''"
  have v: "validate_pool_spec (to_spec (sample_form [])) = None" "\<not> px_force (to_spec (sample_form []))" by code_simp+
  have e: "en_zpool (za_engine sample_agent) = ''zpool''" by (simp add: sample_agent_def new_zfs_engine_def)
  have r: "reaches nas_world core_config ?q nas_hub nas_url" by code_simp
  have n: "mw_send nas_world tr r \<noteq> NotBuilt x" for tr r x by (simp add: nas_world_def split: option.split prod.split)
  have f: "hq_method ?q = ''POST''" "hq_path ?q = ''/api/pool/create''" "qget ''preview'' (hq_query ?q) = ''1''" "hq_body ?q = Some ''{}''"
    by (simp_all add: nas_request_def qget_def)
  have k: "ms_psk nas_hub \<noteq> []" "za_psk sample_agent = ms_psk nas_hub" "ms_out nas_hub = []" by (simp_all add: nas_hub_def sample_agent_def)
  have "aj_create \<lparr>aj_create = \<lambda>_. Some (sample_form []), aj_other = \<lambda>_ _ _. None\<rparr> ''{}'' = Some (sample_form [])" by simp
  from preview_through_hub_creates [OF f this r n k(1,2) v, of 0] show ?thesis unfolding k(3) e by auto
qed

lemma property_preview_refused_witness:
  "\<exists>msg. fst (hub_preview_diff nas_world 0 (nas_request ''POST'' ''/api/properties/preview-diff'' [] ''Bearer token'') nas_hub) = (502, MrError msg)"
proof -
  have "fst (hub_preview_diff nas_world 0 (nas_request ''POST'' ''/api/properties/preview-diff'' [] ''Bearer token'') nas_hub) \<noteq> (400, MrError msg)" for msg
    by code_simp
  then show ?thesis
    using property_preview_refused [of sample_agent nas_world 0 "nas_request ''POST'' ''/api/properties/preview-diff'' [] ''Bearer token''" nas_hub]
    by (auto simp: sample_agent_def nas_world_def)
qed

end
