(* ===== verification/ZfsCollector.thy ===== *)
theory ZfsCollector
  imports ZfsHub ZfsStats ZfsServer
begin

text \<open>
  The telemetry of the ZFS agent (\<^verbatim>\<open>zfs-manager/internal/agent/collector.go\<close>, \<^verbatim>\<open>hub_forwarder.go\<close>,
  \<^verbatim>\<open>register.go\<close>) and the handlers of \<^verbatim>\<open>server.go\<close> that hand the cache through. A slice that is nil
  and one that is empty are both the empty list: the functions that fill the cache return nil when
  there is nothing to list.
\<close>

section \<open>The cache (collector.go)\<close>

record agent_line =
  gl_time :: string
  gl_level :: string
  gl_source :: string
  gl_message :: string

record zfs_collector =
  zc_agent :: string
  zc_host :: string
  zc_engine :: zfs_engine
  zc_pools :: "zfs_pool list"
  zc_datasets :: "zfs_dataset list"
  zc_snapshots :: "zfs_snapshot list"
  zc_arc :: "arc_stats option"
  zc_iostat :: "pool_io list"
  zc_event :: "hub_event option"
  zc_sink :: bool
  zc_lines :: "agent_line list"
  zc_flush :: bool

record zfs_payload =
  zy_agent :: string
  zy_host :: string
  zy_time :: int
  zy_pools :: "zfs_pool list"
  zy_datasets :: "zfs_dataset list"
  zy_snapshots :: "zfs_snapshot list"
  zy_caps :: capabilities
  zy_arc :: "arc_stats option"
  zy_iostat :: "pool_io list"
  zy_event :: "hub_event option"

definition new_zfs_collector :: "string \<Rightarrow> string \<Rightarrow> zfs_engine \<Rightarrow> zfs_collector" where
  "new_zfs_collector i host e =
     \<lparr>zc_agent = i, zc_host = host, zc_engine = e, zc_pools = [], zc_datasets = [], zc_snapshots = [], zc_arc = None,
      zc_iostat = [], zc_event = None, zc_sink = False, zc_lines = [], zc_flush = False\<rparr>"

text \<open>The channel holds one request.\<close>

definition zrequest_flush :: "zfs_collector \<Rightarrow> zfs_collector" where
  "zrequest_flush c = c\<lparr>zc_flush := True\<rparr>"

definition emit_agent_event :: "hub_event \<Rightarrow> zfs_collector \<Rightarrow> zfs_collector" where
  "emit_agent_event e c = zrequest_flush (c\<lparr>zc_event := Some e\<rparr>)"

definition set_log_sink :: "bool \<Rightarrow> zfs_collector \<Rightarrow> zfs_collector" where
  "set_log_sink on c = c\<lparr>zc_sink := on\<rparr>"

definition emit_agent_line :: "int \<Rightarrow> string \<Rightarrow> string \<Rightarrow> string \<Rightarrow> zfs_collector \<Rightarrow> zfs_collector" where
  "emit_agent_line now src level msg c =
     (if zc_sink c then c\<lparr>zc_lines := zc_lines c @ [\<lparr>gl_time = rfc3339 now, gl_level = level, gl_source = src, gl_message = msg\<rparr>]\<rparr>
      else c)"

definition listed_rows :: "go_error + 'a list \<Rightarrow> 'a list" where
  "listed_rows r = (case r of Inl _ \<Rightarrow> [] | Inr xs \<Rightarrow> xs)"

text \<open>A listing that is nil leaves the cache as it is.\<close>

definition refreshed :: "'a list \<Rightarrow> 'a list \<Rightarrow> 'a list" where
  "refreshed xs old = (if xs \<noteq> [] then xs else old)"

text \<open>The refresh; \<open>None\<close> is the panic of the topology parser.\<close>

definition refresh_collector :: "zx_host \<Rightarrow> go_error option + string \<Rightarrow> int \<Rightarrow> zx_log \<Rightarrow> zfs_collector \<Rightarrow>
    zfs_collector option \<times> zx_log" where
  "refresh_collector h arcfile now tr c =
     (let e = zc_engine c in
      case list_pools h e tr of
        (None, tr1) \<Rightarrow> (None, tr1)
      | (Some pools, tr1) \<Rightarrow>
          (case list_datasets h e tr1 of
             (datasets, tr2) \<Rightarrow>
          (case list_snapshots h e tr2 of
             (snaps, tr3) \<Rightarrow>
          (case sample_iostat h e now tr3 of
             (io, tr4) \<Rightarrow>
               (Some (c\<lparr>zc_pools := refreshed (listed_rows pools) (zc_pools c),
                  zc_datasets := refreshed (listed_rows datasets) (zc_datasets c),
                  zc_snapshots := refreshed (listed_rows snaps) (zc_snapshots c),
                  zc_arc := (case read_arcstats arcfile now of Inl _ \<Rightarrow> None | Inr s \<Rightarrow> Some s),
                  zc_iostat := refreshed (listed_rows io) (zc_iostat c)\<rparr>), tr4)))))"

definition build_payload :: "bool \<Rightarrow> int \<Rightarrow> zfs_collector \<Rightarrow> zfs_payload" where
  "build_payload arc_there now c =
     \<lparr>zy_agent = zc_agent c, zy_host = zc_host c, zy_time = now, zy_pools = zc_pools c, zy_datasets = zc_datasets c,
      zy_snapshots = zc_snapshots c, zy_caps = engine_capabilities arc_there (zc_engine c), zy_arc = zc_arc c,
      zy_iostat = zc_iostat c, zy_event = zc_event c\<rparr>"

section \<open>Collecting and forwarding\<close>

text \<open>What happens to the collector: an event, a refresh of the loop or after a write, a tick of the
  forwarder, and its turn to take a flush request. A panic ends the agent.\<close>

datatype coll_act =
    ActEvent hub_event
  | ActRefresh zx_host "go_error option + string" int
  | ActTick int
  | ActFlush int

fun collector_run :: "bool \<Rightarrow> coll_act list \<Rightarrow> zx_log \<Rightarrow> zfs_collector \<Rightarrow> zfs_payload list" where
  "collector_run arc [] tr c = []"
| "collector_run arc (ActEvent e # acts) tr c = collector_run arc acts tr (emit_agent_event e c)"
| "collector_run arc (ActRefresh h f now # acts) tr c =
     (case refresh_collector h f now tr c of (None, tr') \<Rightarrow> [] | (Some c', tr') \<Rightarrow> collector_run arc acts tr' c')"
| "collector_run arc (ActTick now # acts) tr c = build_payload arc now c # collector_run arc acts tr c"
| "collector_run arc (ActFlush now # acts) tr c =
     (if zc_flush c then build_payload arc now c # collector_run arc acts tr (c\<lparr>zc_flush := False\<rparr>)
      else collector_run arc acts tr c)"

section \<open>Handlers over the cache (server.go)\<close>

text \<open>The reply is the cached list, empty when there is none.\<close>

definition serve_cached :: "(zfs_collector \<Rightarrow> 'a list) \<Rightarrow> zfs_collector \<Rightarrow> nat \<times> 'a list" where
  "serve_cached field c = (200, field c)"

definition serve_arc :: "bool \<Rightarrow> zfs_collector \<Rightarrow> nat \<times> (string + arc_stats) option" where
  "serve_arc arc_there c =
     (case zc_arc c of
        Some s \<Rightarrow> (200, Some (Inr s))
      | None \<Rightarrow>
          if \<not> arc_there
          then (501, Some (Inl (''arcstats are not available on this host '' @ zem_dash @ '' /proc/spl/kstat/zfs/arcstats does not exist'')))
          else (204, None))"

definition serve_disks :: "(string \<Rightarrow> string + lsblk_device list) \<Rightarrow> (float64 \<Rightarrow> int) \<Rightarrow> zx_host \<Rightarrow> zfs_engine \<Rightarrow> zx_log \<Rightarrow>
    (nat \<times> (string + available_disk list)) option \<times> zx_log" where
  "serve_disks dec conv h e tr =
     (case list_available_disks dec conv h e tr of
        (None, tr') \<Rightarrow> (None, tr')
      | (Some (Inl err), tr') \<Rightarrow> (Some (500, Inl (''failed to list disks: '' @ error_text err)), tr')
      | (Some (Inr ds), tr') \<Rightarrow> (Some (200, Inr ds), tr'))"

record retention_dataset =
  rd_dataset :: string
  rd_count :: int
  rd_used :: int
  rd_oldest :: string
  rd_newest :: string

definition count_snapshot :: "zfs_snapshot \<Rightarrow> retention_dataset \<Rightarrow> retention_dataset" where
  "count_snapshot s d =
     d\<lparr>rd_count := rd_count d + 1, rd_used := wrapu64 (rd_used d + sn_used s),
       rd_oldest := (if rd_oldest d = [] \<or> sn_creation s < rd_oldest d then sn_creation s else rd_oldest d),
       rd_newest := (if rd_newest d = [] \<or> sn_creation s > rd_newest d then sn_creation s else rd_newest d)\<rparr>"

definition blank_retention :: "string \<Rightarrow> retention_dataset" where
  "blank_retention ds = \<lparr>rd_dataset = ds, rd_count = 0, rd_used = 0, rd_oldest = [], rd_newest = []\<rparr>"

definition retention_stats :: "zfs_snapshot list \<Rightarrow> retention_dataset list" where
  "retention_stats snaps =
     sort_key rd_dataset
       (fold (\<lambda>s. ks_upsert rd_dataset (sn_dataset s) (count_snapshot s) (count_snapshot s (blank_retention (sn_dataset s)))) snaps [])"

section \<open>Statistics of the snapshots\<close>

text \<open>What the fold keeps: for each dataset that has a snapshot, one entry with their number.\<close>

definition counted :: "zfs_snapshot list \<Rightarrow> string \<Rightarrow> int" where
  "counted snaps ds = int (length (filter (\<lambda>s. sn_dataset s = ds) snaps))"

lemma count_snapshot_dataset [simp]: "rd_dataset (count_snapshot s d) = rd_dataset d"
  by (simp add: count_snapshot_def)

definition add_snapshot :: "zfs_snapshot \<Rightarrow> retention_dataset list \<Rightarrow> retention_dataset list" where
  "add_snapshot s = ks_upsert rd_dataset (sn_dataset s) (count_snapshot s) (count_snapshot s (blank_retention (sn_dataset s)))"

definition seen_of :: "string \<Rightarrow> retention_dataset list \<Rightarrow> int" where
  "seen_of ds es = (case ks_find rd_dataset ds es of None \<Rightarrow> 0 | Some d \<Rightarrow> rd_count d)"

lemma add_snapshot_find:
  "ks_find rd_dataset ds (add_snapshot s es) = (if ds = sn_dataset s
    then Some (case ks_find rd_dataset (sn_dataset s) es of None \<Rightarrow> count_snapshot s (blank_retention (sn_dataset s)) | Some x \<Rightarrow> count_snapshot s x)
    else ks_find rd_dataset ds es)"
  unfolding add_snapshot_def by (rule ks_find_upsert) (simp_all add: blank_retention_def)

lemma add_snapshot_seen: "seen_of ds (add_snapshot s es) = seen_of ds es + (if sn_dataset s = ds then 1 else 0)"
  by (auto simp: seen_of_def add_snapshot_find count_snapshot_def blank_retention_def split: option.split)

lemma add_snapshot_ok: "ks_ok rd_dataset es \<Longrightarrow> ks_ok rd_dataset (add_snapshot s es)"
  unfolding add_snapshot_def by (intro ks_ok_upsert) (simp_all add: blank_retention_def)

lemma retention_fold:
  "ks_ok rd_dataset es \<Longrightarrow> ks_ok rd_dataset (fold add_snapshot snaps es) \<and>
     (\<forall>ds. seen_of ds (fold add_snapshot snaps es) = seen_of ds es + counted snaps ds)"
  by (induction snaps arbitrary: es) (simp_all add: counted_def add_snapshot_ok add_snapshot_seen)

text \<open>Each dataset with snapshots has one entry, with their number, in the order of the names.\<close>

lemma retention_stats_count:
  "sorted (map rd_dataset (retention_stats snaps)) \<and> distinct (map rd_dataset (retention_stats snaps)) \<and>
   (\<forall>d \<in> set (retention_stats snaps). rd_count d = counted snaps (rd_dataset d)) \<and>
   (\<forall>s \<in> set snaps. sn_dataset s \<in> rd_dataset ` set (retention_stats snaps))"
proof -
  let ?r = "fold add_snapshot snaps []"
  have r: "ks_ok rd_dataset ?r" "seen_of ds ?r = counted snaps ds" for ds
    using retention_fold [of "[]" snaps] by (simp_all add: seen_of_def ks_ok_def ks_find_def)
  have "rd_count d = counted snaps (rd_dataset d)" if "d \<in> set ?r" for d
    using r(2) [of "rd_dataset d"] ks_find_in [OF r(1) that] by (simp add: seen_of_def)
  moreover have "sn_dataset s \<in> rd_dataset ` set ?r" if "s \<in> set snaps" for s
  proof -
    have "seen_of (sn_dataset s) ?r \<noteq> 0" using that by (auto simp: r(2) counted_def filter_empty_conv)
    then have "ks_find rd_dataset (sn_dataset s) ?r \<noteq> None" by (auto simp: seen_of_def split: option.splits)
    then show ?thesis unfolding ks_find_None by simp
  qed
  moreover have "distinct (map rd_dataset (sort_key rd_dataset ?r))"
    using r(1) by (simp add: ks_ok_def distinct_map)
  ultimately show ?thesis by (simp add: retention_stats_def add_snapshot_def [abs_def])
qed

section \<open>What the cache loses\<close>

lemma run_events:
  "p \<in> set (collector_run arc acts tr c) \<Longrightarrow> zy_event p = Some e \<Longrightarrow> zc_event c = Some e \<or> ActEvent e \<in> set acts"
proof (induction arc acts tr c rule: collector_run.induct)
  case (3 arc h f now acts tr c)
  obtain r tr' where r: "refresh_collector h f now tr c = (r, tr')" by force
  show ?case
  proof (cases r)
    case None
    then show ?thesis using 3 r by simp
  next
    case (Some c')
    then have "zc_event c' = zc_event c"
      using r by (auto simp: refresh_collector_def Let_def split: option.splits prod.splits)
    then show ?thesis using 3 r Some by auto
  qed
qed (auto simp: emit_agent_event_def zrequest_flush_def build_payload_def split: if_splits)

text \<open>The agent keeps one event: when a second one is emitted before the forwarder has sent the
  first, as when two scheduled tasks end together, no frame ever carries the first, whatever the
  agent does and however often it reports afterwards, so the hub cannot announce it.\<close>

lemma overtaken_event_lost:
  assumes "he_id e1 \<noteq> he_id e2" "\<And>e. ActEvent e \<in> set acts \<Longrightarrow> he_id e \<noteq> he_id e1"
  shows "list_all (\<lambda>p. zy_event p \<noteq> Some e1) (collector_run arc (ActEvent e1 # ActEvent e2 # acts) tr c)"
proof -
  have "zy_event p \<noteq> Some e1" if "p \<in> set (collector_run arc acts tr (emit_agent_event e2 (emit_agent_event e1 c)))" for p
    using run_events [OF that] assms by (auto simp: emit_agent_event_def zrequest_flush_def)
  then show ?thesis by (simp add: list_all_iff)
qed

definition task_event :: "string \<Rightarrow> hub_event" where
  "task_event i = \<lparr>he_id = i, he_type = ''replication_failed'', he_severity = ''critical'', he_message = ''task '' @ i\<rparr>"

lemma overtaken_event_lost_witness:
  "map zy_event (collector_run True [ActEvent (task_event ''1''), ActEvent (task_event ''2''), ActFlush 0, ActTick 30] []
       (new_zfs_collector ''nas'' ''nas'' (new_zfs_engine (\<lambda>_. []) [] [] []))) = [Some (task_event ''2''), Some (task_event ''2'')] \<and>
   list_all (\<lambda>p. zy_event p \<noteq> Some (task_event ''1''))
     (collector_run True [ActEvent (task_event ''1''), ActEvent (task_event ''2''), ActFlush 0, ActTick 30] []
       (new_zfs_collector ''nas'' ''nas'' (new_zfs_engine (\<lambda>_. []) [] [] [])))"
proof
  show "map zy_event (collector_run True [ActEvent (task_event ''1''), ActEvent (task_event ''2''), ActFlush 0, ActTick 30] []
       (new_zfs_collector ''nas'' ''nas'' (new_zfs_engine (\<lambda>_. []) [] [] []))) = [Some (task_event ''2''), Some (task_event ''2'')]"
    by (simp add: emit_agent_event_def zrequest_flush_def build_payload_def)
  show "list_all (\<lambda>p. zy_event p \<noteq> Some (task_event ''1''))
     (collector_run True [ActEvent (task_event ''1''), ActEvent (task_event ''2''), ActFlush 0, ActTick 30] []
       (new_zfs_collector ''nas'' ''nas'' (new_zfs_engine (\<lambda>_. []) [] [] [])))"
    by (rule overtaken_event_lost) (auto simp: task_event_def)
qed

text \<open>A host on which nothing is left to list.\<close>

definition emptied_host :: "zx_host \<Rightarrow> zfs_engine \<Rightarrow> bool" where
  "emptied_host h e \<longleftrightarrow>
     (\<forall>tr. zh_run h tr (en_zpool e) [''list'', ''-Hp'', ''-o'', ''name,health,size,alloc,free,frag,dedup''] = Exited []) \<and>
     (\<forall>tr. zh_run h tr (en_zfs e) [''list'', ''-Hp'', ''-o'',
        ''name,used,avail,refer,compression,recordsize,mountpoint,atime,sync'', ''-t'', ''filesystem,volume''] = Exited []) \<and>
     (\<forall>tr. zh_run h tr (en_zfs e) [''list'', ''-Hp'', ''-o'', ''name,creation,used,referenced'', ''-t'', ''snapshot'',
        ''-s'', ''creation''] = Exited [])"

lemma refresh_emptied:
  assumes "emptied_host h (zc_engine c)"
  shows "\<exists>c' tr'. refresh_collector h f now tr c = (Some c', tr') \<and> zc_engine c' = zc_engine c \<and>
    zc_pools c' = zc_pools c \<and> zc_datasets c' = zc_datasets c \<and> zc_snapshots c' = zc_snapshots c"
proof -
  have e: "run_zpool h (zc_engine c) [''list'', ''-Hp'', ''-o'', ''name,health,size,alloc,free,frag,dedup''] t =
      (([], None), t @ [Cmd (en_zpool (zc_engine c)) [''list'', ''-Hp'', ''-o'', ''name,health,size,alloc,free,frag,dedup'']])"
    "run_zfs h (zc_engine c) [''list'', ''-Hp'', ''-o'',
        ''name,used,avail,refer,compression,recordsize,mountpoint,atime,sync'', ''-t'', ''filesystem,volume''] t =
      (([], None), t @ [Cmd (en_zfs (zc_engine c)) [''list'', ''-Hp'', ''-o'',
        ''name,used,avail,refer,compression,recordsize,mountpoint,atime,sync'', ''-t'', ''filesystem,volume'']])"
    "run_zfs h (zc_engine c) [''list'', ''-Hp'', ''-o'', ''name,creation,used,referenced'', ''-t'', ''snapshot'', ''-s'', ''creation''] t =
      (([], None), t @ [Cmd (en_zfs (zc_engine c)) [''list'', ''-Hp'', ''-o'', ''name,creation,used,referenced'', ''-t'', ''snapshot'',
        ''-s'', ''creation'']])" for t
    using assms by (simp_all add: emptied_host_def run_zpool_def run_zfs_def run_exited)
  have z: "zfs_lines [] = []" "snapshot_rows [] = []" by code_simp+
  have "\<exists>tr1. list_pools h (zc_engine c) tr = (Some (Inr []), tr1)" by (simp add: list_pools_def e z)
  then obtain tr1 where p: "list_pools h (zc_engine c) tr = (Some (Inr []), tr1)" ..
  have "\<exists>tr2. list_datasets h (zc_engine c) tr1 = (Inr [], tr2)" by (simp add: list_datasets_def e z)
  then obtain tr2 where d: "list_datasets h (zc_engine c) tr1 = (Inr [], tr2)" ..
  have "\<exists>tr3. list_snapshots h (zc_engine c) tr2 = (Inr [], tr3)" by (simp add: list_snapshots_def e z)
  then obtain tr3 where s: "list_snapshots h (zc_engine c) tr2 = (Inr [], tr3)" ..
  show ?thesis
    by (cases "sample_iostat h (zc_engine c) now tr3") (simp add: refresh_collector_def Let_def p d s listed_rows_def refreshed_def)
qed

fun on_emptied :: "zfs_engine \<Rightarrow> coll_act \<Rightarrow> bool" where
  "on_emptied e (ActRefresh h f now) = emptied_host h e"
| "on_emptied e a = True"

definition same_lists :: "zfs_collector \<Rightarrow> zfs_payload \<Rightarrow> bool" where
  "same_lists c p \<longleftrightarrow> zy_pools p = zc_pools c \<and> zy_datasets p = zc_datasets c \<and> zy_snapshots p = zc_snapshots c"

text \<open>C36. What was last is never forgotten: when the last pool of a host is exported or destroyed, or
  its last snapshot, the listings succeed with nothing and the cache keeps what it had, so that
  every later frame of the agent, however often it refreshes, shows the pools, datasets and
  snapshots that are gone.\<close>

theorem emptied_host_still_shown:
  assumes "list_all (on_emptied (zc_engine c)) acts"
  shows "list_all (same_lists c) (collector_run arc acts tr c)"
proof -
  have "list_all (same_lists c) (collector_run arc acts tr d)"
    if "zc_engine d = zc_engine c" "zc_pools d = zc_pools c" "zc_datasets d = zc_datasets c" "zc_snapshots d = zc_snapshots c" for d
    using assms that
  proof (induction arc acts tr d rule: collector_run.induct)
    case (3 arc h f now acts tr d)
    have "emptied_host h (zc_engine d)" using "3.prems" by simp
    from refresh_emptied [OF this, of f now tr] obtain c' tr' where
      "refresh_collector h f now tr d = (Some c', tr')" "zc_engine c' = zc_engine d"
      "zc_pools c' = zc_pools d" "zc_datasets c' = zc_datasets d" "zc_snapshots c' = zc_snapshots d" by auto
    then show ?case using 3 by simp
  qed (simp_all add: emit_agent_event_def zrequest_flush_def build_payload_def same_lists_def)
  then show ?thesis by simp
qed

definition quiet_host :: zx_host where
  "quiet_host = \<lparr>zh_run = \<lambda>tr bin args. Exited [], zh_pipe = \<lambda>tr cmds. []\<rparr>"

definition forgetful :: zfs_collector where
  "forgetful = (new_zfs_collector ''nas'' ''nas'' (new_zfs_engine (\<lambda>_. []) [] [] []))
     \<lparr>zc_snapshots := [\<lparr>sn_dataset = ''tank'', sn_name = ''old'', sn_full = ''tank@old'', sn_creation = ''1700000000'',
        sn_used = 0, sn_referenced = 0\<rparr>]\<rparr>"

lemma emptied_host_still_shown_witness:
  "list_all (same_lists forgetful)
     (collector_run False [ActRefresh quiet_host (Inl None) 0, ActRefresh quiet_host (Inl None) 60, ActTick 60] [] forgetful)"
  by (rule emptied_host_still_shown) (auto simp: emptied_host_def quiet_host_def)

section \<open>A status that could not be read\<close>

text \<open>The pools of a frame as the hub reads them.\<close>

definition frame_of_pools :: "zfs_pool list \<Rightarrow> mgr_frame" where
  "frame_of_pools ps = \<lparr>mf_pools = map (\<lambda>p. (zp_name p, zp_scrub_status p, map zv_type (zp_vdevs p))) ps, mf_event = None\<rparr>"

text \<open>A pool whose \<^verbatim>\<open>zpool status\<close> fails is listed from its row alone.\<close>

lemma failed_status_listed:
  assumes "length (split_on (CHR 0x09) line) \<ge> 7"
    and "run_zpool h e [''status'', ''-p'', split_on (CHR 0x09) line ! 0] tr = ((out, Some err), tr')"
  shows "pool_rows h e [line] [] tr = (Some [pool_of_row (split_on (CHR 0x09) line)], tr')"
  using assms by simp

definition pool_news :: "mgr_frame \<Rightarrow> mgr_frame \<Rightarrow> (string \<times> string \<times> string) list" where
  "pool_news f g =
     map (\<lambda>e. plain_note (pe_type e) ''info'' (pe_message e)) (detect_transitions (tracked_pools f) (tracked_pools g))"

lemma story_and_back:
  "mf_event f = None \<Longrightarrow> mf_event g = None \<Longrightarrow> \<exists>ns. agent_story prev ev [f, g, f] = ns @ pool_news f g @ pool_news g f"
  by (simp add: pool_news_def)

text \<open>C35. A \<^verbatim>\<open>zpool status\<close> that fails once makes false news: when the pool of an agent is being
  resilvered and one frame lists it from its row alone, as the agent does when the status cannot
  be read, the hub announces that the resilver is complete, and with the next good frame that the
  pool was expanded by all the data vdevs it has always had.\<close>

theorem failed_status_false_news:
  assumes "zm_vigil m" "me_frame env good = Some (frame_of_pools [p])" "me_frame env bad = Some (frame_of_pools [pool_of_row row])"
    and "zp_name (pool_of_row row) = zp_name p" "is_resilvering (zp_scrub_status p)" "0 < count_data_vdevs (map zv_type (zp_vdevs p))"
  shows "\<exists>ns. notes_about agent (fold (\<lambda>(now, a, raw). ingest_request env now a raw) [(t1, agent, good), (t2, agent, bad), (t3, agent, good)] m) =
    notes_about agent m @ ns @
      map (\<lambda>(ty, msg). plain_note ty ''info'' msg)
        [(''resilver_completed'', ''Resilver completed on pool '' @ zp_name p),
         (''pool_expansion_completed'', ''Pool '' @ zp_name p @ '' expanded: '' @ itoa (count_data_vdevs (map zv_type (zp_vdevs p))) @
            '' new data '' @ (if count_data_vdevs (map zv_type (zp_vdevs p)) \<noteq> 1 then ''vdevs'' else ''vdev'') @ '' (0 '' @
            [CHR 0xE2, CHR 0x86, CHR 0x92] @ '' '' @ itoa (count_data_vdevs (map zv_type (zp_vdevs p))) @ '')'')]"
proof -
  let ?n = "count_data_vdevs (map zv_type (zp_vdevs p))" and ?name = "zp_name p"
  have row: "zp_scrub_status (pool_of_row row) = []" "zp_vdevs (pool_of_row row) = []" by (simp_all add: pool_of_row_def)
  have good: "tracked_pools (frame_of_pools [p]) = [(?name, \<lparr>tr_scrub = zp_scrub_status p, tr_vdevs = ?n\<rparr>)]"
    by (simp add: tracked_pools_def frame_of_pools_def ks_put_def ks_upsert_def ks_find_def)
  have bad: "tracked_pools (frame_of_pools [pool_of_row row]) = [(?name, \<lparr>tr_scrub = [], tr_vdevs = 0\<rparr>)]"
    by (simp add: tracked_pools_def frame_of_pools_def ks_put_def ks_upsert_def ks_find_def row assms(4) count_data_vdevs_def)
  have idle: "\<not> is_resilvering []" "\<not> is_scrub_running []" by (simp_all add: is_resilvering_def is_scrub_running_def)
  have scrub: "zp_scrub_status p \<noteq> ''completed''" "\<not> is_scrub_running (zp_scrub_status p)"
    using assms(5) by (auto simp: is_resilvering_def is_scrub_running_def has_prefix_iff)
  let ?g = "frame_of_pools [p]" and ?b = "frame_of_pools [pool_of_row row]"
  have zero: "itoa 0 = ''0''" by code_simp
  have fall: "pool_news ?g ?b = map (\<lambda>(ty, msg). plain_note ty ''info'' msg) [(''resilver_completed'', ''Resilver completed on pool '' @ ?name)]"
    using assms(5,6) scrub idle by (simp add: pool_news_def good bad detect_transitions_def pool_changes_def)
  have rise: "pool_news ?b ?g = map (\<lambda>(ty, msg). plain_note ty ''info'' msg)
        [(''pool_expansion_completed'', ''Pool '' @ ?name @ '' expanded: '' @ itoa ?n @
            '' new data '' @ (if ?n \<noteq> 1 then ''vdevs'' else ''vdev'') @ '' (0 '' @ [CHR 0xE2, CHR 0x86, CHR 0x92] @ '' '' @ itoa ?n @ '')'')]"
    using assms(5,6) idle by (simp add: pool_news_def good bad detect_transitions_def pool_changes_def zero)
  have "mf_event (frame_of_pools qs) = None" for qs by (simp add: frame_of_pools_def)
  then obtain ns where ns: "agent_story (zm_pools m agent) (zm_events m agent) [?g, ?b, ?g] = ns @ pool_news ?g ?b @ pool_news ?b ?g"
    using story_and_back by metis
  have frames: "frames_of env agent [(t1, agent, good), (t2, agent, bad), (t3, agent, good)] = [?g, ?b, ?g]"
    by (simp add: frames_of_def List.map_filter_def assms(2,3))
  show ?thesis
    unfolding story_told frames by (intro exI [of _ ns]) (simp only: assms(1) if_True ns fall rise list.map append.simps)
qed

definition rebuilt_pool :: zfs_pool where
  "rebuilt_pool =
     (pool_of_row [''tank'', ''DEGRADED'', ''100'', ''60'', ''40'', ''1'', ''1.00''])
       \<lparr>zp_scrub_status := ''resilvering'', zp_vdevs := [sample_mirror ''/dev/sda2'', sample_mirror ''/dev/sdc2'']\<rparr>"

definition news_env :: mgr_env where
  "news_env =
     \<lparr>me_enc = \<lambda>_. [], me_dec = \<lambda>_. Inr [],
      me_frame = \<lambda>raw. if raw = ''good'' then Some (frame_of_pools [rebuilt_pool])
        else Some (frame_of_pools [pool_of_row [''tank'', ''DEGRADED'', ''100'', ''60'', ''40'', ''1'', ''1.00'']]),
      me_field = \<lambda>_ _. None, me_cap = 8\<rparr>"

definition news_hub :: zfs_mgr where
  "news_hub = \<lparr>zm_agents = [], zm_file = None, zm_cache = Map.empty, zm_prev = Map.empty, zm_pools = Map.empty, zm_events = Map.empty,
     zm_vigil = True, zm_queue = [], zm_sent = [], zm_logs = []\<rparr>"

lemma failed_status_false_news_witness:
  "\<exists>ns. notes_about ''nas'' (fold (\<lambda>(now, a, raw). ingest_request news_env now a raw) [(0, ''nas'', ''good''), (30, ''nas'', ''bad''), (60, ''nas'', ''good'')] news_hub) =
    notes_about ''nas'' news_hub @ ns @
      map (\<lambda>(ty, msg). plain_note ty ''info'' msg)
        [(''resilver_completed'', ''Resilver completed on pool tank''),
         (''pool_expansion_completed'', ''Pool tank expanded: 2 new data vdevs (0 '' @ [CHR 0xE2, CHR 0x86, CHR 0x92] @ '' 2)'')]"
proof -
  have f: "me_frame news_env ''good'' = Some (frame_of_pools [rebuilt_pool])"
    "me_frame news_env ''bad'' = Some (frame_of_pools [pool_of_row [''tank'', ''DEGRADED'', ''100'', ''60'', ''40'', ''1'', ''1.00'']])"
    by (simp_all add: news_env_def)
  have p: "zp_name rebuilt_pool = ''tank''" "count_data_vdevs (map zv_type (zp_vdevs rebuilt_pool)) = 2" "is_resilvering (zp_scrub_status rebuilt_pool)"
    by (simp_all add: rebuilt_pool_def pool_of_row_def count_data_vdevs_def sample_mirror_def is_resilvering_def)
  have two: "itoa 2 = ''2''" by code_simp
  have "zm_vigil news_hub" "zp_name (pool_of_row [''tank'', ''DEGRADED'', ''100'', ''60'', ''40'', ''1'', ''1.00'']) = zp_name rebuilt_pool"
    "0 < count_data_vdevs (map zv_type (zp_vdevs rebuilt_pool))"
    by (simp_all add: news_hub_def p(1,2) pool_of_row_def)
  from failed_status_false_news [OF this(1) f this(2) p(3) this(3), of "''nas''" 0 30 60] show ?thesis
    unfolding p(1,2) two by simp
qed

end
