(* ===== verification/SnapHubServer.thy ===== *)
theory SnapHubServer
  imports HttpMux GoTime SnapHub AddonUtil
begin

text \<open>
  The HTTP server of the SnapRAID hub and its router (\<^verbatim>\<open>snapraid/internal/hub/server.go\<close>
  and \<^verbatim>\<open>router.go\<close>): the routes with their gates, the registration of agents, signed commands,
  the forwarding of configurations, the proxied tables and the cached fields of the last frames. JSON,
  the network and the order of enumeration of a map are parameters; every request that the hub sends
  is kept in its state. Log lines sent upstream are kept too.
\<close>

section \<open>Server, requests and replies\<close>

record command_message =
  cm_agent :: string
  cm_action :: string
  cm_params :: "string option"

record command_body =
  cb_agent :: string
  cb_action :: string
  cb_command :: string
  cb_params :: "string option"

record snap_log_body =
  sl_time :: string
  sl_level :: string
  sl_source :: string
  sl_message :: string

record job_view =
  jv_type :: string
  jv_started :: string
  jv_percent :: int
  jv_phase :: string

record progress_row =
  pr_job :: string
  pr_command :: string
  pr_phase :: string
  pr_percent :: int
  pr_elapsed :: int
  pr_indeterminate :: bool

text \<open>A request to an agent; what comes of it: it cannot be built, nobody answers, the answer breaks
  off with an error after a part of it, or it is complete.\<close>

record agent_call =
  al_method :: string
  al_url :: string
  al_auth :: string
  al_body :: "string option"

datatype call_answer = NotMade string | NoAnswer string | CutAnswer nat string string | FullAnswer nat string

record snap_server =
  sv_hub :: hub
  sv_psk :: string
  sv_psk_file :: "string option"
  sv_out :: "agent_call list"
  sv_logs :: "(string \<times> string) list list"

text \<open>What is outside: the codecs of bodies, frames and objects (the encoder sorts the fields), the
  text that \<^verbatim>\<open>%v\<close> gives for a decoded value that is no text, the choice of a first key of a
  map, random bytes, the errors of writing files, the channel upstream, the network.\<close>

record snap_world =
  sw_enc :: "agent_entry list \<Rightarrow> string"
  sw_frame :: "string \<Rightarrow> agent_frame option"
  sw_sig :: sig_env
  sw_verifier :: "string option"
  sw_confirm :: "string \<Rightarrow> (string \<times> string) option"
  sw_register :: "string \<Rightarrow> agent_entry option"
  sw_command :: "string \<Rightarrow> command_body option"
  sw_telemetry :: "string \<Rightarrow> (string \<times> string) option"
  sw_log :: "string \<Rightarrow> snap_log_body option"
  sw_job :: "string \<Rightarrow> job_view option"
  sw_object :: "string \<Rightarrow> jobject option"
  sw_fields :: "string \<Rightarrow> (string \<rightharpoonup> string) option"
  sw_marshal :: "jobject \<Rightarrow> string"
  sw_show :: "jval \<Rightarrow> string"
  sw_pick :: "(string \<rightharpoonup> string) \<Rightarrow> string option"
  sw_rand :: "string + string"
  sw_reg_err :: "string option"
  sw_psk_err :: "string option"
  sw_room :: bool
  sw_send :: "agent_call list \<Rightarrow> agent_call \<Rightarrow> call_answer"

datatype snap_reply =
    SrError string
  | SrObject "(string \<times> string) list"
  | SrRaw string
  | SrViews "(agent_entry \<times> string) list"
  | SrJobs "progress_row list"

type_synonym snap_handler = "snap_server \<Rightarrow> (nat \<times> snap_reply) \<times> snap_server"

definition snap_say :: "nat \<Rightarrow> snap_reply \<Rightarrow> snap_handler" where
  "snap_say st r s = ((st, r), s)"

section \<open>The router (router.go)\<close>

definition snap_bearer :: "snap_server \<Rightarrow> string" where
  "snap_bearer s = (if sv_psk s \<noteq> [] then ''Bearer '' @ sv_psk s else [])"

definition snap_send :: "snap_world \<Rightarrow> agent_call \<Rightarrow> snap_server \<Rightarrow> call_answer \<times> snap_server" where
  "snap_send w c s =
     (case sw_send w (sv_out s) c of
        NotMade e \<Rightarrow> (NotMade e, s)
      | a \<Rightarrow> (a, s\<lparr>sv_out := sv_out s @ [c]\<rparr>))"

definition no_agent :: "string \<Rightarrow> string" where
  "no_agent i = ''agent '' @ i @ '' not found in registry''"

definition returned_status :: "nat \<Rightarrow> string \<Rightarrow> string" where
  "returned_status st body = ''agent returned status '' @ itoa (int st) @ '': '' @ body"

text \<open>\<open>post\<close> and \<open>postAgent\<close>: a POST with the hub's key.\<close>

definition post_call :: "agent_entry \<Rightarrow> string \<Rightarrow> string option \<Rightarrow> snap_server \<Rightarrow> agent_call" where
  "post_call e path body s =
     \<lparr>al_method = ''POST'', al_url = ae_address e @ path, al_auth = snap_bearer s, al_body = body\<rparr>"

definition post_agent :: "snap_world \<Rightarrow> agent_entry \<Rightarrow> string \<Rightarrow> string option \<Rightarrow> string \<Rightarrow> snap_server \<Rightarrow>
    (string + string) \<times> snap_server" where
  "post_agent w e path body i s =
     (case snap_send w (post_call e path body s) s of
        (NotMade err, s') \<Rightarrow> (Inl (''forward to agent '' @ i @ '': '' @ err), s')
      | (NoAnswer err, s') \<Rightarrow> (Inl (''forward to agent '' @ i @ '': '' @ err), s')
      | (CutAnswer st part err, s') \<Rightarrow> (Inl (''read agent response: '' @ err), s')
      | (FullAnswer st data, s') \<Rightarrow> (if st \<ge> 400 then Inl (returned_status st data) else Inr data, s'))"

definition jput :: "string \<Rightarrow> jval \<Rightarrow> jobject \<Rightarrow> jobject" where
  "jput k v ob = jdelete k ob @ [(k, v)]"

text \<open>The payload of \<open>RouteCommand\<close>: the action, overlaid with the parameters when they are an
  object; a parameter \<^verbatim>\<open>command\<close> replaces the action.\<close>

definition command_payload :: "snap_world \<Rightarrow> command_message \<Rightarrow> jobject" where
  "command_payload w c =
     fold (\<lambda>(k, v) ob. jput k v ob)
       (case Option.bind (cm_params c) (sw_object w) of None \<Rightarrow> [] | Some extra \<Rightarrow> extra)
       [(''command'', JText (cm_action c))]"

definition route_command :: "snap_world \<Rightarrow> command_message \<Rightarrow> snap_server \<Rightarrow> (string + string) \<times> snap_server" where
  "route_command w c s =
     (case reg_get (cm_agent c) (hb_registry (sv_hub s)) of
        None \<Rightarrow> (Inl (no_agent (cm_agent c)), s)
      | Some e \<Rightarrow>
          if cm_action c = ''abort'' then post_agent w e ''/api/abort'' None (cm_agent c) s
          else post_agent w e ''/api/execute'' (Some (sw_marshal w (command_payload w c))) (cm_agent c) s)"

definition get_call :: "agent_entry \<Rightarrow> string \<Rightarrow> agent_call" where
  "get_call e path = \<lparr>al_method = ''GET'', al_url = ae_address e @ path, al_auth = [], al_body = None\<rparr>"

definition fetch_agent_config :: "snap_world \<Rightarrow> string \<Rightarrow> snap_server \<Rightarrow> (string + string) \<times> snap_server" where
  "fetch_agent_config w i s =
     (case reg_get i (hb_registry (sv_hub s)) of
        None \<Rightarrow> (Inl (no_agent i), s)
      | Some e \<Rightarrow>
          (case snap_send w (get_call e ''/api/config'') s of
             (NotMade err, s') \<Rightarrow> (Inl (''build config request: '' @ err), s')
           | (NoAnswer err, s') \<Rightarrow> (Inl (''fetch config from agent '' @ i @ '': '' @ err), s')
           | (CutAnswer st part err, s') \<Rightarrow> (Inl (''read agent config response: '' @ err), s')
           | (FullAnswer st data, s') \<Rightarrow> (if st \<ge> 400 then Inl (returned_status st data) else Inr data, s')))"

definition proxy_get :: "snap_world \<Rightarrow> string \<Rightarrow> string \<Rightarrow> snap_server \<Rightarrow> (string + nat \<times> string) \<times> snap_server" where
  "proxy_get w i path s =
     (case reg_get i (hb_registry (sv_hub s)) of
        None \<Rightarrow> (Inl (no_agent i), s)
      | Some e \<Rightarrow>
          (case snap_send w (get_call e path) s of
             (NotMade err, s') \<Rightarrow> (Inl (''build proxy request: '' @ err), s')
           | (NoAnswer err, s') \<Rightarrow> (Inl (''proxy GET to agent '' @ i @ '': '' @ err), s')
           | (CutAnswer st part err, s') \<Rightarrow> (Inl (''read agent response: '' @ err), s')
           | (FullAnswer st data, s') \<Rightarrow> (Inr (st, data), s')))"

definition route_config_update :: "snap_world \<Rightarrow> string \<Rightarrow> string \<Rightarrow> snap_server \<Rightarrow> string option \<times> snap_server" where
  "route_config_update w i payload s =
     (case reg_get i (hb_registry (sv_hub s)) of
        None \<Rightarrow> (Some (no_agent i), s)
      | Some e \<Rightarrow>
          (case snap_send w (post_call e ''/api/config'' (Some payload) s) s of
             (NotMade err, s') \<Rightarrow> (Some (''forward config to agent '' @ i @ '': '' @ err), s')
           | (NoAnswer err, s') \<Rightarrow> (Some (''forward config to agent '' @ i @ '': '' @ err), s')
           | (CutAnswer st part err, s') \<Rightarrow> (if st \<ge> 400 then Some (returned_status st part) else None, s')
           | (FullAnswer st data, s') \<Rightarrow> (if st \<ge> 400 then Some (returned_status st data) else None, s')))"

section \<open>Keys and agents (server.go)\<close>

definition wrong_key :: string where
  "wrong_key = ''invalid pre-shared key: the agent'' @ [CHR 0x27] @ ''s configured hub_psk does not match this hub''"

definition snap_require_psk :: "hub_request \<Rightarrow> snap_handler \<Rightarrow> snap_handler" where
  "snap_require_psk q next_h s =
     (if \<not> has_prefix (hq_auth q) ''Bearer ''
      then snap_say 401 (SrError ''missing or invalid authorization header'') s
      else if trim_prefix (hq_auth q) ''Bearer '' \<noteq> sv_psk s then snap_say 403 (SrError wrong_key) s
      else next_h s)"

definition first_online :: "int \<Rightarrow> registry \<Rightarrow> string" where
  "first_online now r =
     (case List.find (\<lambda>(e, st). st = ''online'') (list_views now r) of None \<Rightarrow> [] | Some (e, _) \<Rightarrow> ae_id e)"

definition resolve_snap_agent :: "int \<Rightarrow> hub_request \<Rightarrow> snap_server \<Rightarrow> string" where
  "resolve_snap_agent now q s =
     (if qget ''agent_id'' (hq_query q) \<noteq> [] then qget ''agent_id'' (hq_query q)
      else first_online now (hb_registry (sv_hub s)))"

definition snap_health :: snap_handler where
  "snap_health = snap_say 200 (SrRaw ''{\"status\":\"ok\"}'')"

definition snap_deploy_info :: "int \<Rightarrow> hub_request \<Rightarrow> snap_handler" where
  "snap_deploy_info port q s =
     snap_say 200 (SrObject [(''hub_url'', ''http://'' @ hq_host q @ '':'' @ itoa port), (''hub_psk'', sv_psk s)]) s"

definition snap_rotate_psk :: "snap_world \<Rightarrow> hub_request \<Rightarrow> snap_handler" where
  "snap_rotate_psk w q s =
     (case decoded q (sw_confirm w) of
        None \<Rightarrow> snap_say 400 (SrError ''invalid request'') s
      | Some (nested, flat) \<Rightarrow>
          if (if nested = [] then flat else nested) \<noteq> ''ROTATE''
          then snap_say 400 (SrError ''type ROTATE to confirm'') s
          else case generate_random (sw_rand w) of
            Inl e \<Rightarrow> snap_say 500 (SrError ''PSK generation failed'') s
          | Inr psk \<Rightarrow>
              (case sw_psk_err w of
                 Some e \<Rightarrow> snap_say 500 (SrError ''failed to save PSK'') s
               | None \<Rightarrow> snap_say 200 (SrObject [(''status'', ''rotated''), (''hub_psk'', psk)])
                   (s\<lparr>sv_psk := psk, sv_psk_file := Some (psk @ [CHR 0x0A])\<rparr>)))"

definition snap_register :: "snap_world \<Rightarrow> int \<Rightarrow> hub_request \<Rightarrow> snap_handler" where
  "snap_register w now q s =
     (case decoded q (sw_register w) of
        None \<Rightarrow> snap_say 400 (SrError ''invalid request'') s
      | Some e \<Rightarrow>
          (case reg_register (sw_enc w) (sw_reg_err w) now e (hb_registry (sv_hub s)) of
             (err, r) \<Rightarrow>
               snap_say (if err = None then 200 else 500)
                 (if err = None then SrObject [(''status'', ''registered'')] else SrError ''registration failed'')
                 (s\<lparr>sv_hub := (sv_hub s)\<lparr>hb_registry := r\<rparr>\<rparr>)))"

definition snap_agent_list :: "int \<Rightarrow> snap_handler" where
  "snap_agent_list now s = snap_say 200 (SrViews (list_views now (hb_registry (sv_hub s)))) s"

definition snap_agent_delete :: "snap_world \<Rightarrow> string \<Rightarrow> snap_handler" where
  "snap_agent_delete w i s =
     (if i = [] then snap_say 400 (SrError ''missing agent id'') s
      else case reg_delete (sw_enc w) (sw_reg_err w) i (hb_registry (sv_hub s)) of
        (False, r) \<Rightarrow> snap_say 404 (SrError ''agent not found'') s
      | (True, r) \<Rightarrow> snap_say 200 (SrObject [(''status'', ''deleted''), (''agent_id'', i)])
          (s\<lparr>sv_hub := (sv_hub s)\<lparr>hb_registry := r\<rparr>\<rparr>))"

section \<open>Commands, telemetry and configurations\<close>

text \<open>A body is read up to one MiB, and its signature is checked when there is a key to check it.\<close>

definition command_limit :: nat where
  "command_limit = 1048576"

definition snap_command :: "snap_world \<Rightarrow> int \<Rightarrow> hub_request \<Rightarrow> snap_handler" where
  "snap_command w now q s =
     (case hq_body q of
        None \<Rightarrow> snap_say 400 (SrError ''failed to read request body'') s
      | Some full \<Rightarrow>
          (let body = take command_limit full in
           if verify_json (sw_sig w) (sw_verifier w) body \<noteq> None then snap_say 401 (SrError ''invalid signature'') s
           else case sw_command w body of
             None \<Rightarrow> snap_say 400 (SrError ''invalid command'') s
           | Some b \<Rightarrow>
               (let c = \<lparr>cm_agent = cb_agent b, cm_action = (if cb_action b = [] then cb_command b else cb_action b),
                         cm_params = cb_params b\<rparr> in
                case route_command w c s of
                  (Inl err, s') \<Rightarrow> snap_say 502 (SrError err)
                    (s'\<lparr>sv_hub := emit_command_failure now (cm_agent c) (cm_action c) err (sv_hub s')\<rparr>)
                | (Inr resp, s') \<Rightarrow> snap_say 200 (SrRaw resp) s')))"

definition snap_accepted :: snap_reply where
  "snap_accepted = SrObject [(''status'', ''accepted'')]"

definition snap_telemetry_ingest :: "snap_world \<Rightarrow> int \<Rightarrow> hub_request \<Rightarrow> snap_handler" where
  "snap_telemetry_ingest w now q s =
     (case decoded q (sw_telemetry w) of
        None \<Rightarrow> snap_say 400 (SrError ''invalid telemetry'') s
      | Some (i, raw) \<Rightarrow> snap_say 200 snap_accepted
          (s\<lparr>sv_hub := ingest_agent_frame (sw_frame w) now (sw_room w) i raw (sv_hub s)\<rparr>))"

text \<open>The fields of a flat form but the id, each as text.\<close>

definition form_values :: "(jval \<Rightarrow> string) \<Rightarrow> jobject \<Rightarrow> (string \<times> string) list" where
  "form_values shw ob =
     map (\<lambda>(k, v). (k, case v of JText t \<Rightarrow> t | _ \<Rightarrow> shw v)) (jdelete ''agent_id'' ob)"

definition form_payload :: "(string \<times> string) list \<Rightarrow> jobject" where
  "form_payload vs = [(''values'', JObj (map (\<lambda>(k, v). (k, JText v)) vs))]"

definition config_answer :: "string option \<times> snap_server \<Rightarrow> (nat \<times> snap_reply) \<times> snap_server" where
  "config_answer r =
     (case r of (Some err, s') \<Rightarrow> snap_say 502 (SrError err) s'
      | (None, s') \<Rightarrow> snap_say 200 (SrObject [(''status'', ''forwarded'')]) s')"

definition snap_config_from_body :: "snap_world \<Rightarrow> hub_request \<Rightarrow> snap_handler" where
  "snap_config_from_body w q s =
     (case hq_body q of
        None \<Rightarrow> snap_say 400 (SrError ''failed to read body'') s
      | Some body \<Rightarrow>
          (case sw_object w body of
             None \<Rightarrow> snap_say 400 (SrError ''invalid JSON'') s
           | Some flat \<Rightarrow>
               (let i = jstring ''agent_id'' flat in
                if i = [] then snap_say 400 (SrError ''missing agent_id in body'') s
                else config_answer (route_config_update w i
                       (sw_marshal w (form_payload (form_values (sw_show w) flat))) s))))"

definition snap_config_forward :: "snap_world \<Rightarrow> string \<Rightarrow> hub_request \<Rightarrow> snap_handler" where
  "snap_config_forward w i q s =
     (if i = [] then snap_say 400 (SrError ''missing agent_id'') s
      else case hq_body q of
        None \<Rightarrow> snap_say 400 (SrError ''failed to read body'') s
      | Some body \<Rightarrow> config_answer (route_config_update w i body s))"

definition snap_get_config :: "snap_world \<Rightarrow> int \<Rightarrow> hub_request \<Rightarrow> snap_handler" where
  "snap_get_config w now q s =
     (let i = resolve_snap_agent now q s in
      if i = [] then snap_say 404 (SrError ''no online agents'') s
      else case fetch_agent_config w i s of
        (Inl err, s') \<Rightarrow> snap_say 502 (SrError err) s'
      | (Inr body, s') \<Rightarrow> snap_say 200 (SrRaw body) s')"

text \<open>The query is forwarded as it came: \<open>raw\<close> is its text.\<close>

definition snap_proxy :: "snap_world \<Rightarrow> int \<Rightarrow> string \<Rightarrow> hub_request \<Rightarrow> snap_handler" where
  "snap_proxy w now raw q s =
     (let i = resolve_snap_agent now q s in
      if i = [] then snap_say 404 (SrError ''no online agents'') s
      else case proxy_get w i (hq_path q @ (if raw \<noteq> [] then ''?'' @ raw else [])) s of
        (Inl err, s') \<Rightarrow> snap_say 502 (SrError err) s'
      | (Inr (st, body), s') \<Rightarrow> snap_say st (SrRaw body) s')"

section \<open>Cached fields\<close>

text \<open>\<open>LatestTelemetryField\<close> of the aggregator: without an id, the first agent of an enumeration.\<close>

definition latest_telemetry_field :: "snap_world \<Rightarrow> string \<Rightarrow> string \<Rightarrow> hub \<Rightarrow> string option" where
  "latest_telemetry_field w i field h =
     (let k = (if i = [] then (case sw_pick w (hb_payloads h) of None \<Rightarrow> [] | Some j \<Rightarrow> j) else i) in
      case hb_payloads h k of None \<Rightarrow> None
      | Some raw \<Rightarrow> Option.bind (sw_fields w raw) (\<lambda>m. m field))"

text \<open>\<open>IngestLogStream\<close> hands a frame of log lines to the channel upstream, which has room or not;
  the host is left empty.\<close>

definition ingest_log_stream :: "bool \<Rightarrow> string \<Rightarrow> string \<Rightarrow> hub \<Rightarrow> hub" where
  "ingest_log_stream room i raw h = (if room then h\<lparr>hb_upstream := hb_upstream h @ [(i, [], raw)]\<rparr> else h)"

definition emit_log_line :: "(string \<times> string) list \<Rightarrow> snap_server \<Rightarrow> snap_server" where
  "emit_log_line p s = (if hb_telemetry (sv_hub s) then s\<lparr>sv_logs := sv_logs s @ [p]\<rparr> else s)"

text \<open>The key in the cached frame and the path at the agent.\<close>

definition telemetry_field_map :: "string \<Rightarrow> (string \<times> string) option" where
  "telemetry_field_map path =
     map_of [(''/api/disk_status'', ''array_status'', ''/api/array_status''),
             (''/api/active_job'', ''active_job'', ''/api/active_job''),
             (''/api/disk_storage'', ''disk_storage'', ''/api/disk_storage'')] path"

definition extract_disk_status :: "snap_world \<Rightarrow> string \<Rightarrow> string option" where
  "extract_disk_status w data =
     Option.bind (sw_fields w data) (\<lambda>m. case m ''disk_status'' of Some arr \<Rightarrow> Some arr | None \<Rightarrow> m ''disks'')"

definition cached_telemetry :: "snap_world \<Rightarrow> string \<Rightarrow> string \<Rightarrow> snap_server \<Rightarrow> string option" where
  "cached_telemetry w i key s =
     (case latest_telemetry_field w i key (sv_hub s) of
        None \<Rightarrow> None
      | Some data \<Rightarrow>
          if data = ''null'' then None
          else if key = ''array_status'' then extract_disk_status w data else Some data)"

definition telemetry_empty :: "string \<Rightarrow> string" where
  "telemetry_empty key = (if key = ''active_job'' then ''null'' else ''[]'')"

definition proxy_telemetry :: "snap_world \<Rightarrow> string \<Rightarrow> string \<Rightarrow> snap_server \<Rightarrow> string option \<times> snap_server" where
  "proxy_telemetry w i path s =
     (case proxy_get w i path s of
        (Inl err, s') \<Rightarrow> (None, s')
      | (Inr (st, body), s') \<Rightarrow> (if st \<ge> 400 then None else Some body, s'))"

definition snap_telemetry_field :: "snap_world \<Rightarrow> int \<Rightarrow> hub_request \<Rightarrow> snap_handler" where
  "snap_telemetry_field w now q s =
     (case telemetry_field_map (hq_path q) of
        None \<Rightarrow> snap_say 404 (SrError ''unknown telemetry field'') s
      | Some (key, path) \<Rightarrow>
          (case cached_telemetry w (qget ''agent_id'' (hq_query q)) key s of
             Some data \<Rightarrow> snap_say 200 (SrRaw data) s
           | None \<Rightarrow>
               (let i = resolve_snap_agent now q s;
                    (fetched, s') = (if i = [] then (None, s) else proxy_telemetry w i path s)
                in snap_say 200 (SrRaw (case fetched of Some body \<Rightarrow> body | None \<Rightarrow> telemetry_empty key)) s')))"

definition snap_log_payload :: "snap_log_body \<Rightarrow> (string \<times> string) list" where
  "snap_log_payload b =
     [(''level'', sl_level b), (''message'', sl_message b), (''source'', sl_source b)] @
     (if sl_time b \<noteq> [] then [(''timestamp'', sl_time b)] else [])"

definition snap_log_ingest :: "snap_world \<Rightarrow> hub_request \<Rightarrow> snap_handler" where
  "snap_log_ingest w q s =
     (case decoded q (sw_log w) of
        None \<Rightarrow> snap_say 400 (SrError ''invalid log'') s
      | Some b \<Rightarrow> snap_say 200 snap_accepted (emit_log_line (snap_log_payload b) s))"

text \<open>The seconds since a job was started: the difference saturates, and the conversion to an integer
  drops the fraction, towards zero.\<close>

definition elapsed_seconds :: "int \<Rightarrow> string \<Rightarrow> int" where
  "elapsed_seconds now started =
     (case parse_rfc3339 started of
        None \<Rightarrow> 0
      | Some t \<Rightarrow>
          (let d = max int64_min (min int64_max (now - t)); n = f64_to_u64 (\<lambda>x. 0) (duration_seconds \<bar>d\<bar>)
           in if d < 0 then - n else n))"

definition progress_of :: "int \<Rightarrow> job_view \<Rightarrow> progress_row" where
  "progress_of now j =
     \<lparr>pr_job = jv_type j @ ''_'' @ jv_started j, pr_command = jv_type j, pr_phase = jv_phase j,
      pr_percent = jv_percent j, pr_elapsed = elapsed_seconds now (jv_started j),
      pr_indeterminate = (jv_type j \<in> {''status'', ''diff'', ''touch'', ''smart''})\<rparr>"

definition snap_active_jobs :: "snap_world \<Rightarrow> int \<Rightarrow> hub_request \<Rightarrow> snap_handler" where
  "snap_active_jobs w now q s =
     (case latest_telemetry_field w (qget ''agent_id'' (hq_query q)) ''active_job'' (sv_hub s) of
        None \<Rightarrow> snap_say 200 (SrJobs []) s
      | Some data \<Rightarrow>
          if data = ''null'' then snap_say 200 (SrJobs []) s
          else snap_say 200 (SrJobs (case sw_job w data of None \<Rightarrow> [] | Some j \<Rightarrow> [progress_of now j])) s)"

text \<open>The id of the job in the path is not used.\<close>

definition snap_cancel_job :: "snap_world \<Rightarrow> int \<Rightarrow> hub_request \<Rightarrow> snap_handler" where
  "snap_cancel_job w now q s =
     (let i = resolve_snap_agent now q s in
      if i = [] then snap_say 404 (SrError ''no online agent found'') s
      else case route_command w \<lparr>cm_agent = i, cm_action = ''abort'', cm_params = None\<rparr> s of
        (Inl err, s') \<Rightarrow> snap_say 502 (SrError err) s'
      | (Inr resp, s') \<Rightarrow> snap_say 200 (SrObject [(''status'', ''cancelled'')]) s')"

section \<open>The token of the Vigil server (token.go)\<close>

text \<open>The file beside the registry; \<open>dir_err\<close> and \<open>write_err\<close> are the errors of making the
  directory and of writing the file.\<close>

definition snap_load_token :: "string option \<Rightarrow> string" where
  "snap_load_token file = (case file of None \<Rightarrow> [] | Some data \<Rightarrow> trim_space data)"

definition snap_persist_token :: "string option \<Rightarrow> string option \<Rightarrow> string \<Rightarrow> string option \<Rightarrow> string option \<times> string option" where
  "snap_persist_token dir_err write_err token file =
     (case dir_err of
        Some e \<Rightarrow> (Some (''creating token directory: '' @ e), file)
      | None \<Rightarrow> (case write_err of Some e \<Rightarrow> (Some e, file) | None \<Rightarrow> (None, Some (token @ [CHR 0x0A]))))"

section \<open>Routes\<close>

datatype snap_target =
    SnapHealth | SnapDeployInfo | SnapRegister | SnapAgentList | SnapCommand | SnapTelemetryIngest | SnapConfigForward
  | SnapConfigFromBody | SnapGetConfig | SnapAgentDelete | SnapProxy | SnapField | SnapLogIngest | SnapActiveJobs
  | SnapCancelJob | SnapRotate

text \<open>A route with whether it asks for the pre-shared key.\<close>

definition snap_routes :: "(string \<times> string \<times> bool \<times> snap_target) list" where
  "snap_routes =
     [(''GET'', ''/health'', False, SnapHealth), (''GET'', ''/api/deploy-info'', False, SnapDeployInfo),
      (''POST'', ''/api/agents/register'', True, SnapRegister), (''GET'', ''/api/agents'', False, SnapAgentList),
      (''POST'', ''/api/command'', False, SnapCommand), (''POST'', ''/api/telemetry/ingest'', True, SnapTelemetryIngest),
      (''POST'', ''/api/config/{agentID}'', False, SnapConfigForward), (''POST'', ''/api/config'', False, SnapConfigFromBody),
      (''GET'', ''/api/config'', False, SnapGetConfig), (''DELETE'', ''/api/agents/{id}'', False, SnapAgentDelete),
      (''GET'', ''/api/jobs/history'', False, SnapProxy), (''GET'', ''/api/jobs/active'', False, SnapActiveJobs),
      (''GET'', ''/api/jobs/{id}'', False, SnapProxy), (''GET'', ''/api/logs/history'', False, SnapProxy),
      (''GET'', ''/api/disk_status'', False, SnapField), (''GET'', ''/api/active_job'', False, SnapField),
      (''GET'', ''/api/disk_storage'', False, SnapField), (''POST'', ''/api/logs/ingest'', True, SnapLogIngest),
      (''DELETE'', ''/api/jobs/{id}'', False, SnapCancelJob), (''POST'', ''/api/rotate-psk'', False, SnapRotate)]"

fun snap_run :: "snap_world \<Rightarrow> int \<Rightarrow> int \<Rightarrow> string \<Rightarrow> hub_request \<Rightarrow> string \<Rightarrow> snap_target \<Rightarrow> snap_handler" where
  "snap_run w port now raw q i SnapHealth = snap_health"
| "snap_run w port now raw q i SnapDeployInfo = snap_deploy_info port q"
| "snap_run w port now raw q i SnapRegister = snap_register w now q"
| "snap_run w port now raw q i SnapAgentList = snap_agent_list now"
| "snap_run w port now raw q i SnapCommand = snap_command w now q"
| "snap_run w port now raw q i SnapTelemetryIngest = snap_telemetry_ingest w now q"
| "snap_run w port now raw q i SnapConfigForward = snap_config_forward w i q"
| "snap_run w port now raw q i SnapConfigFromBody = snap_config_from_body w q"
| "snap_run w port now raw q i SnapGetConfig = snap_get_config w now q"
| "snap_run w port now raw q i SnapAgentDelete = snap_agent_delete w i"
| "snap_run w port now raw q i SnapProxy = snap_proxy w now raw q"
| "snap_run w port now raw q i SnapField = snap_telemetry_field w now q"
| "snap_run w port now raw q i SnapLogIngest = snap_log_ingest w q"
| "snap_run w port now raw q i SnapActiveJobs = snap_active_jobs w now q"
| "snap_run w port now raw q i SnapCancelJob = snap_cancel_job w now q"
| "snap_run w port now raw q i SnapRotate = snap_rotate_psk w q"

definition snap_serve :: "snap_world \<Rightarrow> int \<Rightarrow> int \<Rightarrow> string \<Rightarrow> hub_request \<Rightarrow> snap_handler" where
  "snap_serve w port now raw q =
     (case dispatch q snap_routes of
        Inl st \<Rightarrow> snap_say st (SrError [])
      | Inr ((keyed, t), i) \<Rightarrow>
          (let h = snap_run w port now raw q i t in if keyed then snap_require_psk q h else h))"

end
