(* ===== verification/SnapAgentServer.thy ===== *)
theory SnapAgentServer
  imports HttpMux AddonUtil SnapAgent SnapScheduler SnapEngineLock
begin

text \<open>
  The HTTP server of the SnapRAID agent (\<^verbatim>\<open>snapraid/internal/agent/server.go\<close>): the routes and
  the key that guards three of them, the hand-over of a command to a goroutine, aborting, the
  configuration, the history of jobs and its log lines, and the cached reports with their refresh in
  the background. A goroutine that a handler starts is kept in the state as a task; the decoders of
  bodies, the errors of the database and the order of rows with equal times are parameters.
\<close>

section \<open>Server and replies\<close>

datatype background_task = RunTask execute_request | StatusTask | SmartTask | StorageTask

record snap_agent =
  ag_sched :: scheduler
  ag_db :: database
  ag_collector :: collector
  ag_engine :: engine_state
  ag_status_busy :: bool
  ag_smart_busy :: bool
  ag_tasks :: "background_task list"

record snap_agent_env =
  av_execute :: "string \<Rightarrow> execute_request option"
  av_values :: "string \<Rightarrow> (string \<times> string) list option"
  av_cron :: "string \<Rightarrow> string option"
  av_set_err :: "string \<Rightarrow> string option"
  av_query_err :: "string option"
  av_order :: "job_record list \<Rightarrow> job_record list"

record agent_log_entry =
  le_time :: string
  le_level :: string
  le_source :: string
  le_message :: string

datatype agent_answer =
    ArError string
  | ArText string
  | ArStatus string
  | ArExecute execute_response
  | ArValues "string \<rightharpoonup> string"
  | ArJobs "job_record list"
  | ArJob job_record
  | ArLogs "agent_log_entry list"
  | ArDisks "disk_info list"
  | ArSmart "smart_disk list"
  | ArActive active_job
  | ArStorage "disk_storage_info list"
  | ArNothing

type_synonym agent_handler = "snap_agent \<Rightarrow> (nat \<times> agent_answer) \<times> snap_agent"

definition ag_say :: "nat \<Rightarrow> agent_answer \<Rightarrow> agent_handler" where
  "ag_say st r s = ((st, r), s)"

definition agent_psk :: "snap_agent \<Rightarrow> string" where
  "agent_psk s = ah_psk (ac_hub (sd_cfg (ag_sched s)))"

text \<open>An agent without a key is open.\<close>

definition agent_require_psk :: "hub_request \<Rightarrow> agent_handler \<Rightarrow> agent_handler" where
  "agent_require_psk q next_h s =
     (if agent_psk s = [] then next_h s
      else if \<not> has_prefix (hq_auth q) ''Bearer '' \<or> trim_prefix (hq_auth q) ''Bearer '' \<noteq> agent_psk s
      then ag_say 401 (ArError ''missing or invalid pre-shared key'') s
      else next_h s)"

section \<open>Commands\<close>

definition start_task :: "background_task \<Rightarrow> snap_agent \<Rightarrow> snap_agent" where
  "start_task t s = s\<lparr>ag_tasks := ag_tasks s @ [t]\<rparr>"

definition engine_busy :: "engine_state \<Rightarrow> bool" where
  "engine_busy e \<longleftrightarrow> es_mu e \<noteq> None"

definition agent_execute :: "snap_agent_env \<Rightarrow> hub_request \<Rightarrow> agent_handler" where
  "agent_execute v q s =
     (let req = decoded q (av_execute v) in
      case (handle_execute req (engine_busy (ag_engine s)), req) of
        (ExAccepted, Some r) \<Rightarrow> ag_say 200 (ArExecute ExAccepted) (start_task (RunTask r) s)
      | (ExConflict e, _) \<Rightarrow> ag_say 409 (ArExecute (ExConflict e)) s
      | (x, _) \<Rightarrow> ag_say 400 (ArExecute x) s)"

text \<open>\<open>Abort\<close> of the engine by a caller of its own: the function is read, then called.\<close>

definition engine_abort :: "nat \<Rightarrow> engine_state \<Rightarrow> bool \<times> engine_state" where
  "engine_abort a e =
     (let e1 = abort_read a e in
      case es_abort e1 a of AbortHolding r \<Rightarrow> (True, abort_call a r e1) | _ \<Rightarrow> (False, e1))"

definition agent_abort :: "nat \<Rightarrow> agent_handler" where
  "agent_abort a s =
     (case engine_abort a (ag_engine s) of
        (True, e) \<Rightarrow> ag_say 200 (ArStatus ''aborted'') (s\<lparr>ag_engine := e\<rparr>)
      | (False, e) \<Rightarrow> ag_say 404 (ArError (engine_error_text NoActiveJob)) (s\<lparr>ag_engine := e\<rparr>))"

section \<open>Configuration\<close>

definition agent_get_config :: "snap_agent_env \<Rightarrow> agent_handler" where
  "agent_get_config v s =
     (case get_all_cache_values (av_query_err v) (ag_db s) of
        Inl e \<Rightarrow> ag_say 500 (ArError e) s
      | Inr m \<Rightarrow> ag_say 200 (ArValues m) s)"

definition agent_set_config :: "snap_agent_env \<Rightarrow> int \<Rightarrow> hub_request \<Rightarrow> agent_handler" where
  "agent_set_config v now q s =
     (case decoded q (av_values v) of
        None \<Rightarrow> ag_say 400 (ArError ''invalid request body'') s
      | Some values \<Rightarrow>
          (case handle_config (av_cron v) (av_set_err v) now values (ag_sched s) (ag_db s) of
             (code, sd, db) \<Rightarrow>
               ag_say (nat code) (if code = 200 then ArStatus ''ok'' else ArError ''failed to persist config'')
                 (s\<lparr>ag_sched := sd, ag_db := db\<rparr>)))"

section \<open>The history of jobs\<close>

definition agent_jobs :: "snap_agent_env \<Rightarrow> agent_handler" where
  "agent_jobs v s =
     (case recent_jobs (av_order v) (av_query_err v) 50 (ag_db s) of
        Inl e \<Rightarrow> ag_say 500 (ArError e) s
      | Inr js \<Rightarrow> ag_say 200 (ArJobs js) s)"

text \<open>A time range that cannot be read is ignored.\<close>

definition query_jobs :: "snap_agent_env \<Rightarrow> int \<Rightarrow> hub_request \<Rightarrow> int \<Rightarrow> database \<Rightarrow> string + job_record list" where
  "query_jobs v now q limit db =
     (let tr = qget ''time_range'' (hq_query q);
          d = (if tr = [] then None else parse_time_range tr)
      in case d of
           Some d \<Rightarrow> recent_jobs_since (av_order v) (av_query_err v) (now - d) limit db
         | None \<Rightarrow> recent_jobs (av_order v) (av_query_err v) limit db)"

definition agent_job_detail :: "snap_agent_env \<Rightarrow> string \<Rightarrow> agent_handler" where
  "agent_job_detail v i s =
     (case atoi_full i of
        (n, Some e) \<Rightarrow> ag_say 400 (ArError ''invalid job id'') s
      | (n, None) \<Rightarrow>
          (case get_job_by_id (av_query_err v) n (ag_db s) of
             Inl e \<Rightarrow> ag_say 500 (ArError e) s
           | Inr None \<Rightarrow> ag_say 404 (ArError ''job not found'') s
           | Inr (Some j) \<Rightarrow> ag_say 200 (ArJob j) s))"

definition agent_jobs_history :: "snap_agent_env \<Rightarrow> int \<Rightarrow> hub_request \<Rightarrow> agent_handler" where
  "agent_jobs_history v now q s =
     (case query_jobs v now q 200 (ag_db s) of
        Inl e \<Rightarrow> ag_say 500 (ArError e) s
      | Inr js \<Rightarrow> ag_say 200 (ArJobs (map (\<lambda>j. j\<lparr>jr_log := []\<rparr>) js)) s)"

definition log_level :: "string \<Rightarrow> string" where
  "log_level st = (if st = ''error'' \<or> st = ''failed'' then ''error'' else if st = ''running'' then ''warn'' else ''info'')"

definition log_output :: "string \<Rightarrow> string" where
  "log_output out = (if 8000 < length out then take 8000 out @ ''... (truncated)'' else out)"

definition job_log_lines :: "job_record \<Rightarrow> agent_log_entry list" where
  "job_log_lines j =
     [\<lparr>le_time = rfc3339 (jr_started j), le_level = log_level (jr_status j), le_source = jr_type j,
       le_message = jr_trigger j @ '' '' @ [CHR 0xE2, CHR 0x80, CHR 0x94] @ '' '' @ jr_status j @
         (case jr_exit j of None \<Rightarrow> [] | Some c \<Rightarrow> '' (exit '' @ itoa c @ '')'')\<rparr>] @
     (if jr_log j \<noteq> []
      then [\<lparr>le_time = rfc3339 (jr_started j), le_level = ''info'', le_source = jr_type j,
             le_message = log_output (jr_log j)\<rparr>]
      else [])"

definition agent_log_history :: "snap_agent_env \<Rightarrow> int \<Rightarrow> hub_request \<Rightarrow> agent_handler" where
  "agent_log_history v now q s =
     (case query_jobs v now q 100 (ag_db s) of
        Inl e \<Rightarrow> ag_say 500 (ArError e) s
      | Inr js \<Rightarrow> ag_say 200 (ArLogs (concat (map job_log_lines js))) s)"

section \<open>Cached reports\<close>

definition agent_array_status :: agent_handler where
  "agent_array_status s =
     (case co_array (ag_collector s) of
        None \<Rightarrow> ag_say 200 ArNothing (start_task StatusTask s)
      | Some r \<Rightarrow> ag_say 200 (ArDisks (st_disk_status r)) s)"

definition agent_smart_status :: agent_handler where
  "agent_smart_status s =
     (case co_smart (ag_collector s) of
        None \<Rightarrow> ag_say 200 ArNothing (start_task SmartTask s)
      | Some r \<Rightarrow> ag_say 200 (ArSmart (sm_disks r)) s)"

definition agent_active_job :: agent_handler where
  "agent_active_job s =
     (case co_job (ag_collector s) of None \<Rightarrow> ag_say 200 (ArText ''null'') s | Some j \<Rightarrow> ag_say 200 (ArActive j) s)"

definition agent_disk_storage :: agent_handler where
  "agent_disk_storage s =
     (case co_storage (ag_collector s) of
        None \<Rightarrow> ag_say 200 ArNothing (start_task StorageTask s)
      | Some ds \<Rightarrow> ag_say 200 (ArStorage ds) s)"

text \<open>A list of disks that is empty is the nil slice, so the cache counts as not filled.\<close>

definition set_disk_storage :: "disk_storage_info list \<Rightarrow> collector \<Rightarrow> collector" where
  "set_disk_storage ds c = c\<lparr>co_storage := (if ds = [] then None else Some ds)\<rparr>"

definition refresh_disk_storage :: "file_error + disk_storage_info list \<Rightarrow> snap_agent \<Rightarrow> snap_agent" where
  "refresh_disk_storage res s =
     (case res of Inl e \<Rightarrow> s | Inr ds \<Rightarrow> s\<lparr>ag_collector := set_disk_storage ds (ag_collector s)\<rparr>)"

text \<open>A refresh starts only when its flag is down, and lowers it again at its end.\<close>

definition status_refresh_begin :: "snap_agent \<Rightarrow> snap_agent option" where
  "status_refresh_begin s = (if ag_status_busy s then None else Some (s\<lparr>ag_status_busy := True\<rparr>))"

definition status_refresh_end :: "op_error + status_report \<Rightarrow> file_error + disk_storage_info list \<Rightarrow>
    snap_agent \<Rightarrow> snap_agent" where
  "status_refresh_end res disks s =
     (case res of
        Inl e \<Rightarrow> s
      | Inr r \<Rightarrow> refresh_disk_storage disks (s\<lparr>ag_collector := set_array_status r (ag_collector s)\<rparr>))
       \<lparr>ag_status_busy := False\<rparr>"

definition smart_refresh_begin :: "snap_agent \<Rightarrow> snap_agent option" where
  "smart_refresh_begin s = (if ag_smart_busy s then None else Some (s\<lparr>ag_smart_busy := True\<rparr>))"

definition smart_refresh_end :: "op_error + smart_report \<Rightarrow> snap_agent \<Rightarrow> snap_agent" where
  "smart_refresh_end res s =
     (case res of
        Inl e \<Rightarrow> s
      | Inr r \<Rightarrow> s\<lparr>ag_collector := set_smart_status r (ag_collector s)\<rparr>)\<lparr>ag_smart_busy := False\<rparr>"

section \<open>Routes\<close>

datatype agent_target =
    AgentHealth | AgentExecute | AgentAbort | AgentGetConfig | AgentSetConfig | AgentJobs | AgentJobHistory
  | AgentJobDetail | AgentLogHistory | AgentArray | AgentSmart | AgentActive | AgentStorage

definition agent_routes :: "(string \<times> string \<times> bool \<times> agent_target) list" where
  "agent_routes =
     [(''GET'', ''/health'', False, AgentHealth), (''POST'', ''/api/execute'', True, AgentExecute),
      (''POST'', ''/api/abort'', True, AgentAbort), (''GET'', ''/api/config'', False, AgentGetConfig),
      (''POST'', ''/api/config'', True, AgentSetConfig), (''GET'', ''/api/jobs'', False, AgentJobs),
      (''GET'', ''/api/jobs/history'', False, AgentJobHistory), (''GET'', ''/api/jobs/{id}'', False, AgentJobDetail),
      (''GET'', ''/api/logs/history'', False, AgentLogHistory), (''GET'', ''/api/array_status'', False, AgentArray),
      (''GET'', ''/api/smart_status'', False, AgentSmart), (''GET'', ''/api/active_job'', False, AgentActive),
      (''GET'', ''/api/disk_storage'', False, AgentStorage)]"

text \<open>\<open>a\<close> numbers the request, as a caller of the engine.\<close>

fun agent_run :: "snap_agent_env \<Rightarrow> int \<Rightarrow> nat \<Rightarrow> hub_request \<Rightarrow> string \<Rightarrow> agent_target \<Rightarrow> agent_handler" where
  "agent_run v now a q i AgentHealth = ag_say 200 (ArStatus ''ok'')"
| "agent_run v now a q i AgentExecute = agent_execute v q"
| "agent_run v now a q i AgentAbort = agent_abort a"
| "agent_run v now a q i AgentGetConfig = agent_get_config v"
| "agent_run v now a q i AgentSetConfig = agent_set_config v now q"
| "agent_run v now a q i AgentJobs = agent_jobs v"
| "agent_run v now a q i AgentJobHistory = agent_jobs_history v now q"
| "agent_run v now a q i AgentJobDetail = agent_job_detail v i"
| "agent_run v now a q i AgentLogHistory = agent_log_history v now q"
| "agent_run v now a q i AgentArray = agent_array_status"
| "agent_run v now a q i AgentSmart = agent_smart_status"
| "agent_run v now a q i AgentActive = agent_active_job"
| "agent_run v now a q i AgentStorage = agent_disk_storage"

definition agent_serve :: "snap_agent_env \<Rightarrow> int \<Rightarrow> nat \<Rightarrow> hub_request \<Rightarrow> agent_handler" where
  "agent_serve v now a q =
     (case dispatch q agent_routes of
        Inl st \<Rightarrow> ag_say st (ArError [])
      | Inr ((keyed, t), i) \<Rightarrow>
          (let h = agent_run v now a q i t in if keyed then agent_require_psk q h else h))"

end
