(* ===== verification/SnapGuards.thy ===== *)
theory SnapGuards
  imports SnapHubServer SnapAgentServer
begin

text \<open>
  The SnapRAID hub and its agents together: which requests make an agent act. The key and the
  signature of commands, what reaches an agent without either, the way of a command and of a
  configuration form from the hub to the agent, and what the hub shows of an agent that is gone.
\<close>

section \<open>What a handler of the hub sends\<close>

text \<open>A handler sends at most one call, which satisfies \<open>P\<close>.\<close>

definition sends :: "(agent_call \<Rightarrow> bool) \<Rightarrow> snap_handler \<Rightarrow> bool" where
  "sends P h \<longleftrightarrow> (\<forall>s. sv_out (snd (h s)) = sv_out s \<or> (\<exists>c. sv_out (snd (h s)) = sv_out s @ [c] \<and> P c))"

definition executes :: "agent_call \<Rightarrow> bool" where
  "executes c \<longleftrightarrow> al_method c = ''POST'' \<and> has_suffix (al_url c) ''/api/execute''"

lemma suffix_last: "has_suffix x y \<Longrightarrow> y \<noteq> [] \<Longrightarrow> last x = last y"
  unfolding has_suffix_def by (metis append_take_drop_id last_appendR)

lemma quiet_calls [simp]:
  "\<not> executes (get_call e path)"
  "\<not> executes (post_call e ''/api/abort'' body s)"
  "\<not> executes (post_call e ''/api/config'' body s)"
  using suffix_last [of _ "''/api/execute''"] by (fastforce simp: executes_def get_call_def post_call_def)+

lemma out_send: "snap_send w c s = (a, s') \<Longrightarrow> sv_out s' = sv_out s \<or> sv_out s' = sv_out s @ [c]"
  by (auto simp: snap_send_def split: call_answer.splits)

lemma out_post:
  "post_agent w e path body i s = (r, s') \<Longrightarrow> sv_out s' = sv_out s \<or> sv_out s' = sv_out s @ [post_call e path body s]"
  using out_send by (auto simp: post_agent_def split: prod.splits call_answer.splits)

lemma out_route:
  assumes "route_command w c s = (r, s')"
  shows "sv_out s' = sv_out s \<or> (\<exists>e path body. sv_out s' = sv_out s @ [post_call e path body s] \<and>
    (cm_action c = ''abort'' \<longrightarrow> path = ''/api/abort''))"
  using assms out_post unfolding route_command_def by (fastforce split: option.splits if_splits)

lemma out_fetch:
  "fetch_agent_config w i s = (r, s') \<Longrightarrow> sv_out s' = sv_out s \<or> (\<exists>e path. sv_out s' = sv_out s @ [get_call e path])"
  using out_send by (fastforce simp: fetch_agent_config_def split: prod.splits call_answer.splits option.splits)

lemma out_proxy:
  "proxy_get w i path s = (r, s') \<Longrightarrow> sv_out s' = sv_out s \<or> (\<exists>e path. sv_out s' = sv_out s @ [get_call e path])"
  using out_send by (fastforce simp: proxy_get_def split: prod.splits call_answer.splits option.splits)

lemma out_update:
  "route_config_update w i p s = (r, s') \<Longrightarrow>
   sv_out s' = sv_out s \<or> (\<exists>e. sv_out s' = sv_out s @ [post_call e ''/api/config'' (Some p) s])"
  using out_send by (fastforce simp: route_config_update_def split: prod.splits call_answer.splits option.splits)

lemma out_config_answer [simp]: "sv_out (snd (config_answer r)) = sv_out (snd r)"
  by (auto simp: config_answer_def snap_say_def split: prod.splits option.splits)

lemma out_say [simp]: "snap_say st r s = ((st, r), s)"
  by (simp add: snap_say_def)

lemmas quiet_defs = snap_health_def snap_deploy_info_def snap_rotate_psk_def snap_register_def snap_agent_list_def
  snap_agent_delete_def snap_telemetry_ingest_def snap_log_ingest_def emit_log_line_def snap_active_jobs_def

lemma quiet_targets:
  assumes "t \<in> {SnapHealth, SnapDeployInfo, SnapRotate, SnapRegister, SnapAgentList, SnapAgentDelete, SnapTelemetryIngest,
    SnapLogIngest, SnapActiveJobs}"
  shows "sv_out (snd (snap_run w port now raw q i t s)) = sv_out s"
  using assms by (auto simp: quiet_defs Let_def split: option.splits sum.splits prod.splits if_splits bool.splits)

lemma unsigned_command:
  assumes "\<And>body. hq_body q = Some body \<Longrightarrow> verify_json (sw_sig w) (sw_verifier w) (take command_limit body) \<noteq> None"
  shows "snd (snap_command w now q s) = s"
  using assms by (auto simp: snap_command_def Let_def split: option.splits)

lemma unsigned_sends_nothing_to_execute:
  assumes "t = SnapCommand \<Longrightarrow> \<forall>body. hq_body q = Some body \<longrightarrow> verify_json (sw_sig w) (sw_verifier w) (take command_limit body) \<noteq> None"
  shows "sends (\<lambda>c. \<not> executes c) (snap_run w port now raw q i t)"
proof -
  have "sv_out (snd (snap_run w port now raw q i t s)) = sv_out s \<or>
      (\<exists>c. sv_out (snd (snap_run w port now raw q i t s)) = sv_out s @ [c] \<and> \<not> executes c)" for s
  proof (cases "t \<in> {SnapHealth, SnapDeployInfo, SnapRotate, SnapRegister, SnapAgentList, SnapAgentDelete,
      SnapTelemetryIngest, SnapLogIngest, SnapActiveJobs}")
    case True
    then show ?thesis using quiet_targets by blast
  next
    case loud: False
    then show ?thesis
    proof (cases t)
      case SnapCommand
      then show ?thesis using unsigned_command assms by simp
    next
      case SnapConfigForward
      then show ?thesis
        using out_update by (auto simp: snap_config_forward_def split: option.splits) (metis prod.collapse quiet_calls(3))
    next
      case SnapConfigFromBody
      then show ?thesis
        using out_update
        by (auto simp: snap_config_from_body_def Let_def split: option.splits) (metis prod.collapse quiet_calls(3))
    next
      case SnapGetConfig
      then show ?thesis
        using out_fetch [of w _ s] by (fastforce simp: snap_get_config_def Let_def split: prod.splits sum.splits)
    next
      case SnapProxy
      then show ?thesis
        using out_proxy [of w _ _ s] by (fastforce simp: snap_proxy_def Let_def split: prod.splits sum.splits)
    next
      case SnapField
      then show ?thesis
        using out_proxy [of w _ _ s]
        by (fastforce simp: snap_telemetry_field_def proxy_telemetry_def Let_def split: prod.splits sum.splits option.splits)
    next
      case SnapCancelJob
      then show ?thesis
        using out_route [of w _ s]
        by (fastforce simp: snap_cancel_job_def Let_def split: prod.splits sum.splits)
    qed auto
  qed
  then show ?thesis by (simp add: sends_def)
qed

section \<open>Commands need a signature\<close>

lemma serve_run:
  assumes "sv_out (snd (snap_serve w port now raw q s)) \<noteq> sv_out s"
  shows "\<exists>m p keyed t i. dispatch q snap_routes = Inr ((keyed, t), i) \<and> (m, p, keyed, t) \<in> set snap_routes \<and>
    route_matches q (m, p, keyed, t) \<and> snd (snap_serve w port now raw q s) = snd (snap_run w port now raw q i t s)"
proof (cases "dispatch q snap_routes")
  case (Inr x)
  then obtain keyed t i where d: "dispatch q snap_routes = Inr ((keyed, t), i)" by (cases x) auto
  then have "snd (snap_serve w port now raw q s) = snd (snap_run w port now raw q i t s)"
    using assms by (auto simp: snap_serve_def snap_require_psk_def Let_def split: if_splits)
  then show ?thesis using dispatch_route [OF d] d by blast
qed (use assms in \<open>simp add: snap_serve_def\<close>)

lemma command_route: "(m, p, keyed, SnapCommand) \<in> set snap_routes \<Longrightarrow> m = ''POST'' \<and> p = ''/api/command'' \<and> \<not> keyed"
  by (simp add: snap_routes_def)


section \<open>The key of an agent\<close>

lemma agent_say [simp]: "ag_say st r s = ((st, r), s)"
  by (simp add: ag_say_def)

lemma keyless:
  assumes "agent_psk s \<noteq> []" "hq_auth q \<noteq> ''Bearer '' @ agent_psk s"
  shows "agent_require_psk q h s = ((401, ArError ''missing or invalid pre-shared key''), s)"
  using assms by (auto simp: agent_require_psk_def has_prefix_iff trim_prefix_def)

lemma keyed_through: "agent_psk s = k \<Longrightarrow> hq_auth q = ''Bearer '' @ k \<Longrightarrow> agent_require_psk q h s = h s"
  by (simp add: agent_require_psk_def trim_prefix_def)

text \<open>The fields that a request without a key leaves alone: only refreshes may be started.\<close>

definition untouched :: "snap_agent \<Rightarrow> snap_agent \<Rightarrow> bool" where
  "untouched s s' \<longleftrightarrow> ag_db s' = ag_db s \<and> ag_sched s' = ag_sched s \<and> ag_engine s' = ag_engine s \<and>
     ag_collector s' = ag_collector s \<and>
     (\<exists>ts. ag_tasks s' = ag_tasks s @ ts \<and> set ts \<subseteq> {StatusTask, SmartTask, StorageTask})"

lemmas reading_handlers = agent_get_config_def agent_jobs_def agent_jobs_history_def agent_job_detail_def
  agent_log_history_def agent_array_status_def agent_smart_status_def agent_active_job_def agent_disk_storage_def

lemma open_target:
  assumes "t \<notin> {AgentExecute, AgentAbort, AgentSetConfig}"
  shows "untouched s (snd (agent_run v now a q i t s))"
  using assms
  by (cases t) (auto simp: reading_handlers untouched_def start_task_def split: sum.splits option.splits prod.splits)

text \<open>C6. What changes an array needs the key: an agent that has a key lets a request without it
  change neither its configuration nor its database, schedule or reports, abort nothing and start no
  operation on the array; the only goroutines it starts refresh a report.\<close>

theorem agent_changes_need_key:
  assumes "agent_psk s \<noteq> []" "hq_auth q \<noteq> ''Bearer '' @ agent_psk s"
  shows "untouched s (snd (agent_serve v now a q s))"
proof (cases "dispatch q agent_routes")
  case (Inr x)
  then obtain keyed t i where d: "dispatch q agent_routes = Inr ((keyed, t), i)" by (cases x) auto
  show ?thesis
  proof (cases keyed)
    case True
    then show ?thesis using keyless [OF assms] d by (simp add: agent_serve_def untouched_def)
  next
    case False
    then have "t \<notin> {AgentExecute, AgentAbort, AgentSetConfig}"
      using dispatch_route [OF d] by (auto simp: agent_routes_def)
    then show ?thesis using open_target d False by (simp add: agent_serve_def)
  qed
qed (simp add: agent_serve_def untouched_def)

section \<open>From the hub to an agent\<close>

text \<open>A call as the agent at the address receives it, as a request without a query.\<close>

definition at_agent :: "string \<Rightarrow> agent_call \<Rightarrow> hub_request" where
  "at_agent base c =
     \<lparr>hq_method = al_method c, hq_path = drop (length base) (al_url c), hq_query = [], hq_auth = al_auth c, hq_host = [],
      hq_body = Some (case al_body c of None \<Rightarrow> [] | Some b \<Rightarrow> b)\<rparr>"

lemma posted [simp]:
  "hq_method (at_agent (ae_address e) (post_call e path body s)) = ''POST''"
  "hq_path (at_agent (ae_address e) (post_call e path body s)) = path"
  "hq_auth (at_agent (ae_address e) (post_call e path body s)) = snap_bearer s"
  "hq_body (at_agent (ae_address e) (post_call e path body s)) = Some (case body of None \<Rightarrow> [] | Some b \<Rightarrow> b)"
  by (simp_all add: at_agent_def post_call_def)

lemma agent_routed:
  "dispatch (bare_request ''POST'' ''/api/execute'') agent_routes = Inr ((True, AgentExecute), [])"
  "dispatch (bare_request ''POST'' ''/api/abort'') agent_routes = Inr ((True, AgentAbort), [])"
  "dispatch (bare_request ''POST'' ''/api/config'') agent_routes = Inr ((True, AgentSetConfig), [])"
  by code_simp+

text \<open>An agent with the hub's key runs the handler of what the hub posts.\<close>

lemma agent_obeys:
  assumes "dispatch (bare_request ''POST'' path) agent_routes = Inr ((True, t), [])"
    and "sv_psk s \<noteq> []" "agent_psk g = sv_psk s"
  shows "agent_serve v now a (at_agent (ae_address e) (post_call e path body s)) g =
    agent_run v now a (at_agent (ae_address e) (post_call e path body s)) [] t g"
proof -
  have "dispatch (at_agent (ae_address e) (post_call e path body s)) agent_routes = Inr ((True, t), [])"
    by (rule routed_as_bare [OF assms(1)]) simp_all
  then show ?thesis
    using keyed_through [of g "sv_psk s" "at_agent (ae_address e) (post_call e path body s)"] assms(2,3)
    by (simp add: agent_serve_def snap_bearer_def Let_def)
qed

lemma snap_routed:
  "dispatch (bare_request ''POST'' ''/api/command'') snap_routes = Inr ((False, SnapCommand), [])"
  "dispatch (bare_request ''POST'' ''/api/config'') snap_routes = Inr ((False, SnapConfigFromBody), [])"
  "dispatch (bare_request ''GET'' ''/api/deploy-info'') snap_routes = Inr ((False, SnapDeployInfo), [])"
  "dispatch (bare_request ''POST'' ''/api/rotate-psk'') snap_routes = Inr ((False, SnapRotate), [])"
  by code_simp+

lemma command_failure_said:
  "hb_telemetry h \<Longrightarrow> \<exists>n. hb_sent (emit_command_failure now i action err h) = hb_sent h @ [(i, n)] \<and>
     nt_type n = ''job_failed'' \<and> nt_severity n = ''critical''"
  by (simp add: emit_command_failure_def emit_notification_def Let_def)

lemma agent_takes:
  assumes "decoded q (av_execute v) = Some req" "known_command (er_command req)"
  shows "\<not> engine_busy (ag_engine g) \<Longrightarrow>
      agent_execute v q g = ((200, ArExecute ExAccepted), start_task (RunTask req) g)"
    and "engine_busy (ag_engine g) \<Longrightarrow>
      agent_execute v q g = ((409, ArExecute (ExConflict (engine_error_text EngineLocked))), g)"
  using assms by (simp_all add: agent_execute_def handle_execute_def)

text \<open>C19. The way of a command: a signed command for a registered agent that shares the hub's key
  is posted to it. When the agent's engine is idle the agent starts the operation in the background
  and the caller gets the agent's answer, the hub keeping its state; when the engine is busy nothing
  is started, the caller gets 502, and the hub announces upstream that the job has failed, although
  no job has.\<close>

theorem command_reaches_agent:
  assumes "hq_method q = ''POST''" "hq_path q = ''/api/command''" "hq_body q = Some body"
    and "verify_json (sw_sig w) (sw_verifier w) (take command_limit body) = None"
    and "sw_command w (take command_limit body) = Some b"
    and "action = (if cb_action b = [] then cb_command b else cb_action b)" "action \<noteq> ''abort''"
    and "reg_get (cb_agent b) (hb_registry (sv_hub s)) = Some e"
    and "payload = sw_marshal w (command_payload w \<lparr>cm_agent = cb_agent b, cm_action = action, cm_params = cb_params b\<rparr>)"
    and "call = post_call e ''/api/execute'' (Some payload) s" "sv_psk s \<noteq> []" "agent_psk g = sv_psk s"
    and "av_execute v payload = Some req" "known_command (er_command req)"
    and "agent_serve v t a (at_agent (ae_address e) call) g = ((st, ans), g')"
    and "sw_send w (sv_out s) call = FullAnswer st data"
    and "snap_serve w port now raw q s = ((st', ans'), s')"
  shows "if engine_busy (ag_engine g)
    then g' = g \<and> st' = 502 \<and> ans' = SrError (returned_status 409 data) \<and>
      (hb_telemetry (sv_hub s) \<longrightarrow> (\<exists>n. hb_sent (sv_hub s') = hb_sent (sv_hub s) @ [(cb_agent b, n)] \<and>
         nt_type n = ''job_failed'' \<and> nt_severity n = ''critical''))
    else g' = start_task (RunTask req) g \<and> st' = 200 \<and> ans' = SrRaw data \<and> sv_hub s' = sv_hub s"
proof -
  have "agent_serve v t a (at_agent (ae_address e) call) g = agent_execute v (at_agent (ae_address e) call) g"
    using agent_obeys [OF agent_routed(1) assms(11,12)] assms(10) by simp
  then have g: "((st, ans), g') = agent_execute v (at_agent (ae_address e) call) g" using assms(15) by simp
  have d: "decoded (at_agent (ae_address e) call) (av_execute v) = Some req"
    using assms(10,13) by (simp add: decoded_def)
  have "dispatch q snap_routes = Inr ((False, SnapCommand), [])" by (rule routed_as_bare [OF snap_routed(1) assms(1,2)])
  then have "snap_serve w port now raw q s = snap_command w now q s" by (simp add: snap_serve_def)
  moreover have "snap_send w call s = (FullAnswer st data, s\<lparr>sv_out := sv_out s @ [call]\<rparr>)"
    using assms(16) by (simp add: snap_send_def)
  then have "route_command w \<lparr>cm_agent = cb_agent b, cm_action = action, cm_params = cb_params b\<rparr> s =
      ((if 400 \<le> st then Inl (returned_status st data) else Inr data), s\<lparr>sv_out := sv_out s @ [call]\<rparr>)"
    using assms(7-10) by (simp add: route_command_def post_agent_def)
  ultimately have hub: "((st', ans'), s') = (if 400 \<le> st
      then ((502, SrError (returned_status st data)), s\<lparr>sv_out := sv_out s @ [call],
             sv_hub := emit_command_failure now (cb_agent b) action (returned_status st data) (sv_hub s)\<rparr>)
      else ((200, SrRaw data), s\<lparr>sv_out := sv_out s @ [call]\<rparr>))"
    using assms(3-6,17) by (simp add: snap_command_def Let_def)
  show ?thesis
  proof (cases "engine_busy (ag_engine g)")
    case True
    then have "st = 409 \<and> g' = g" using g agent_takes(2) [OF d assms(14)] by simp
    then show ?thesis using True hub command_failure_said by simp
  next
    case False
    then have "st = 200 \<and> g' = start_task (RunTask req) g" using g agent_takes(1) [OF d assms(14)] by simp
    then show ?thesis using False hub by simp
  qed
qed

lemma split_plain: "c \<notin> set s \<Longrightarrow> split_on c s = [s]"
  by (induction s) auto

lemma cancel_routed:
  assumes "hq_method q = ''DELETE''" "hq_path q = ''/api/jobs/'' @ job" "job \<noteq> []" "CHR ''/'' \<notin> set job"
  shows "dispatch q snap_routes = Inr ((False, SnapCancelJob), job)"
  using assms split_plain [OF assms(4)]
  by (simp add: dispatch_def snap_routes_def route_matches_def match_path_def has_prefix_def)

text \<open>C32. Cancelling needs no signature: \<^verbatim>\<open>DELETE /api/jobs/{id}\<close>, which the hub takes from anyone,
  with any id and unsigned even when commands have to be signed, reaches the agent as an authorised
  abort, and the operation that runs there at that moment, whichever it is, is cancelled.\<close>

theorem cancel_needs_no_signature:
  assumes "hq_method q = ''DELETE''" "hq_path q = ''/api/jobs/'' @ job" "job \<noteq> []" "CHR ''/'' \<notin> set job"
    and "i = resolve_snap_agent now q s" "i \<noteq> []" "reg_get i (hb_registry (sv_hub s)) = Some e"
    and "\<And>out c err. sw_send w out c \<noteq> NotMade err" "sv_psk s \<noteq> []" "agent_psk g = sv_psk s"
    and "es_cancel (ag_engine g) = Some r"
  shows "\<exists>c. sv_out (snd (snap_serve w port now raw q s)) = sv_out s @ [c] \<and>
    (\<exists>g'. agent_serve v t a (at_agent (ae_address e) c) g = ((200, ArStatus ''aborted''), g') \<and>
       r \<in> es_cancelled (ag_engine g'))"
proof -
  let ?c = "post_call e ''/api/abort'' None s"
  have "dispatch q snap_routes = Inr ((False, SnapCancelJob), job)" by (rule cancel_routed [OF assms(1-4)])
  then have "snap_serve w port now raw q s = snap_cancel_job w now q s" by (simp add: snap_serve_def)
  moreover have "sv_out (snd (snap_send w ?c s)) = sv_out s @ [?c]"
    using assms(8) [of "sv_out s" ?c] by (simp add: snap_send_def split: call_answer.splits)
  then have "sv_out (snd (snap_cancel_job w now q s)) = sv_out s @ [?c]"
    using assms(5-7)
    by (auto simp: snap_cancel_job_def route_command_def post_agent_def Let_def split: prod.splits call_answer.splits if_splits)
  moreover have "agent_serve v t a (at_agent (ae_address e) ?c) g =
      ((200, ArStatus ''aborted''), g\<lparr>ag_engine := abort_call a r (abort_read a (ag_engine g))\<rparr>)"
    using agent_obeys [OF agent_routed(2) assms(9,10)] assms(11)
    by (simp add: agent_abort_def engine_abort_def abort_read_def Let_def)
  ultimately show ?thesis by (auto simp: abort_call_def)
qed

section \<open>A configuration form\<close>

definition value_text :: "(jval \<Rightarrow> string) \<Rightarrow> jval \<Rightarrow> string" where
  "value_text shw x = (case x of JText t \<Rightarrow> t | _ \<Rightarrow> shw x)"

lemma form_values_in:
  "(k, x) \<in> set flat \<Longrightarrow> k \<noteq> ''agent_id'' \<Longrightarrow> (k, value_text shw x) \<in> set (form_values shw flat)"
  by (auto simp: form_values_def jdelete_def value_text_def image_iff split: jval.split intro!: bexI [of _ "(k, x)"])

lemma form_keys: "map fst (form_values shw flat) = filter (\<lambda>k. k \<noteq> ''agent_id'') (map fst flat)"
  by (induction flat) (auto simp: form_values_def jdelete_def)

lemma config_values_total:
  assumes "\<And>k. drv k = None"
  shows "fst (config_values drv now vals (cfg, db, need))"
proof (induction vals arbitrary: cfg db need)
  case (Cons x vals)
  have "drv = (\<lambda>k. None)" using assms by blast
  then show ?case using Cons.IH by (cases x) (simp add: set_cache_value_def)
qed simp

lemma handle_config_total:
  assumes "\<And>k. drv k = None" "distinct (map fst vals)" "handle_config cron_err drv now vals sd db = (code, sd', db')"
  shows "code = 200 \<and> (\<forall>(k, x) \<in> set vals. cache_map db' k = Some x)"
proof -
  obtain ok cfg db1 need where c: "config_values drv now vals (sd_cfg sd, db, False) = (ok, cfg, db1, need)"
    by (rule prod_cases4)
  then have r: "config_values drv now vals (sd_cfg sd, db, False) = (True, cfg, db1, need)"
    using config_values_total [where drv = drv and now = now and vals = vals and cfg = "sd_cfg sd" and db = db and need = False] assms(1)
    by simp
  then have "code = 200" "db' = db1" using assms(3) by (auto simp: handle_config_def split: if_splits)
  then show ?thesis using config_values_stored [OF r assms(2)] by auto
qed

text \<open>The way of a configuration form: a form posted to the hub for a registered agent that shares
  its key arrives there with every field but the id, and once it is stored the cache of the agent
  maps each field to its text, whatever order the two maps on the way are enumerated in.\<close>

lemma config_form_stored:
  assumes "hq_method q = ''POST''" "hq_path q = ''/api/config''" "hq_body q = Some body"
    and "sw_object w body = Some flat" "distinct (map fst flat)" "jstring ''agent_id'' flat \<noteq> []"
    and "reg_get (jstring ''agent_id'' flat) (hb_registry (sv_hub s)) = Some e"
    and "payload = sw_marshal w (form_payload (form_values (sw_show w) flat))"
    and "call = post_call e ''/api/config'' (Some payload) s" "sv_psk s \<noteq> []" "agent_psk g = sv_psk s"
    and "av_values v payload = Some vals" "mset vals = mset (form_values (sw_show w) flat)"
    and "\<And>k. av_set_err v k = None"
    and "agent_serve v t a (at_agent (ae_address e) call) g = ((st, ans), g')"
    and "sw_send w (sv_out s) call = FullAnswer st data"
  shows "fst (snap_serve w port now raw q s) = (200, SrObject [(''status'', ''forwarded'')]) \<and>
    (\<forall>(k, x) \<in> set flat. k \<noteq> ''agent_id'' \<longrightarrow> cache_map (ag_db g') k = Some (value_text (sw_show w) x))"
proof -
  have "distinct (map fst (form_values (sw_show w) flat))" using assms(5) unfolding form_keys by simp
  then have dist: "distinct (map fst vals)" using assms(13) by (metis mset_eq_imp_distinct_iff mset_map)
  obtain code sd db where h: "handle_config (av_cron v) (av_set_err v) t vals (ag_sched g) (ag_db g) = (code, sd, db)"
    by (metis prod.collapse)
  have "agent_serve v t a (at_agent (ae_address e) call) g = agent_set_config v t (at_agent (ae_address e) call) g"
    using agent_obeys [OF agent_routed(3) assms(10,11)] assms(9) by simp
  also have "\<dots> = ((nat code, if code = 200 then ArStatus ''ok'' else ArError ''failed to persist config''),
      g\<lparr>ag_sched := sd, ag_db := db\<rparr>)"
    using h assms(9,12) by (simp add: agent_set_config_def decoded_def)
  finally have g: "st = 200" "ag_db g' = db" using assms(15) handle_config_total [OF assms(14) dist h] by auto
  have "dispatch q snap_routes = Inr ((False, SnapConfigFromBody), [])" by (rule routed_as_bare [OF snap_routed(2) assms(1,2)])
  then have "snap_serve w port now raw q s = snap_config_from_body w q s" by (simp add: snap_serve_def)
  moreover have "route_config_update w (jstring ''agent_id'' flat) payload s = (None, s\<lparr>sv_out := sv_out s @ [call]\<rparr>)"
    using assms(7,9,16) g(1) by (simp add: route_config_update_def snap_send_def)
  ultimately have "fst (snap_serve w port now raw q s) = (200, SrObject [(''status'', ''forwarded'')])"
    using assms(3,4,6,8) by (simp add: snap_config_from_body_def config_answer_def Let_def)
  moreover have "cache_map (ag_db g') k = Some (value_text (sw_show w) x)" if "(k, x) \<in> set flat" "k \<noteq> ''agent_id''" for k x
  proof -
    have "(k, value_text (sw_show w) x) \<in> set vals" using form_values_in [OF that] mset_eq_setD [OF assms(13)] by simp
    then show ?thesis using handle_config_total [OF assms(14) dist h] g(2) by fastforce
  qed
  ultimately show ?thesis by auto
qed

section \<open>Keys, nameless agents and agents that are gone\<close>

text \<open>Whoever asks the hub for the deployment data gets the key that opens the agents.\<close>

lemma deploy_info_opens_array:
  assumes "hq_method q = ''GET''" "hq_path q = ''/api/deploy-info''" "agent_psk g = sv_psk s"
  shows "\<exists>url psk. fst (snap_serve w port now raw q s) = (200, SrObject [(''hub_url'', url), (''hub_psk'', psk)]) \<and>
    (\<forall>q'. hq_auth q' = ''Bearer '' @ psk \<longrightarrow> agent_require_psk q' h g = h g)"
proof -
  have "dispatch q snap_routes = Inr ((False, SnapDeployInfo), [])" by (rule routed_as_bare [OF snap_routed(3) assms(1,2)])
  then show ?thesis using keyed_through [OF assms(3)] by (auto simp: snap_serve_def snap_deploy_info_def)
qed

text \<open>Whoever posts the word rotates the key, and from then on an agent with the old one is refused.\<close>

lemma rotation_locks_agents_out:
  assumes "hq_method q = ''POST''" "hq_path q = ''/api/rotate-psk''" "decoded q (sw_confirm w) = Some (''ROTATE'', x)"
    and "sw_rand w = Inr bytes" "sw_psk_err w = None" "hex_encode bytes \<noteq> sv_psk s" "hq_auth q' = ''Bearer '' @ sv_psk s"
  shows "fst (snap_require_psk q' h (snd (snap_serve w port now raw q s))) = (403, SrError wrong_key)"
proof -
  have "dispatch q snap_routes = Inr ((False, SnapRotate), [])" by (rule routed_as_bare [OF snap_routed(4) assms(1,2)])
  then have "sv_psk (snd (snap_serve w port now raw q s)) = hex_encode bytes"
    using assms(3-5) by (simp add: snap_serve_def snap_rotate_psk_def generate_random_def)
  then show ?thesis using assms(6,7) by (simp add: snap_require_psk_def trim_prefix_def)
qed

text \<open>An agent that registers without an id is taken, and lost when the registry is read again.\<close>

lemma nameless_agent_lost:
  assumes "decoded q (sw_register w) = Some e" "ae_id e = []" "sw_reg_err w = None"
  shows "fst (snap_register w now q s) = (200, SrObject [(''status'', ''registered'')]) \<and>
    reg_get [] (hb_registry (sv_hub (snd (snap_register w now q s)))) \<noteq> None \<and> ks_find ae_id [] (load_entries es) = None"
proof -
  have put: "set (ks_put ae_id x as) \<subseteq> insert x (set as)" for x and as :: "agent_entry list"
    by (auto simp: ks_put_def ks_upsert_def ks_modify_def)
  have "[] \<notin> ae_id ` set as \<Longrightarrow> [] \<notin> ae_id ` set (fold (\<lambda>e as. if ae_id e = [] then as else ks_put ae_id e as) es as)" for as
  proof (induction es arbitrary: as)
    case (Cons x es)
    then show ?case using put [of x as] by (cases "ae_id x = []") (auto, fastforce)
  qed simp
  then have "ks_find ae_id [] (load_entries es) = None" by (simp add: load_entries_def ks_find_None)
  then show ?thesis using assms by (simp add: snap_register_def reg_register_def reg_save_def reg_get_def ks_find_upsert)
qed

text \<open>The frames of an agent stay in the cache when the agent is deleted, and are shown as before.\<close>

lemma deleted_agent_still_shown:
  assumes "reg_get i (hb_registry (sv_hub s)) = Some e" "i \<noteq> []"
    and "telemetry_field_map path = Some (key, ap)" "cached_telemetry w i key s = Some data"
    and "hq_path q = path" "qget ''agent_id'' (hq_query q) = i"
    and "snap_agent_delete w i s = (r, s')"
  shows "fst r = 200 \<and> reg_get i (hb_registry (sv_hub s')) = None \<and> fst (snap_telemetry_field w now q s') = (200, SrRaw data)"
proof -
  have s': "s' = s\<lparr>sv_hub := (sv_hub s)\<lparr>hb_registry := snd (reg_delete (sw_enc w) (sw_reg_err w) i (hb_registry (sv_hub s)))\<rparr>\<rparr>"
    and "fst r = 200"
    using assms(1,2,7) by (auto simp: snap_agent_delete_def reg_delete_def)
  moreover have "cached_telemetry w i key s' = Some data"
    using assms(2,4) by (simp add: s' cached_telemetry_def latest_telemetry_field_def Let_def)
  ultimately show ?thesis using assms(3,5,6) by (simp add: snap_telemetry_field_def reg_get_delete)
qed

section \<open>Concrete runs\<close>

definition one_signature :: sig_env where
  "one_signature =
     \<lparr>se_field = \<lambda>b. Inr b, se_object = \<lambda>b. Inr [], se_b64 = \<lambda>s. Inr s, se_marshal = \<lambda>ob. [], se_check = \<lambda>k m raw. raw = ''signed''\<rparr>"

definition sample_snap_world :: snap_world where
  "sample_snap_world =
     \<lparr>sw_enc = \<lambda>es. [], sw_frame = \<lambda>f. None, sw_sig = one_signature, sw_verifier = Some ''public'', sw_confirm = \<lambda>b. None,
      sw_register = \<lambda>b. None,
      sw_command = \<lambda>b. Some \<lparr>cb_agent = ''nas'', cb_action = ''sync'', cb_command = [], cb_params = None\<rparr>,
      sw_telemetry = \<lambda>b. None, sw_log = \<lambda>b. None, sw_job = \<lambda>b. None,
      sw_object = \<lambda>b. Some [(''agent_id'', JText ''nas''), (''scrub_cron'', JText ''0 3 * * 0'')],
      sw_fields = \<lambda>b. None, sw_marshal = \<lambda>ob. ''{}'', sw_show = \<lambda>v. [], sw_pick = \<lambda>m. None, sw_rand = Inr [], sw_reg_err = None,
      sw_psk_err = None, sw_room = True, sw_send = \<lambda>out c. FullAnswer 200 ''{}''\<rparr>"

definition nas_agent_entry :: agent_entry where
  "nas_agent_entry =
     \<lparr>ae_id = ''nas'', ae_hostname = ''nas'', ae_address = ''http://nas:9100'', ae_version = [], ae_snapraid_version = [],
      ae_registered = Some 0, ae_seen = Some 0\<rparr>"

definition sample_snap_server :: snap_server where
  "sample_snap_server =
     \<lparr>sv_hub = sample_hub [nas_agent_entry], sv_psk = ''key'', sv_psk_file = None,
      sv_out = [], sv_logs = []\<rparr>"

definition sample_snap_agent :: snap_agent where
  "sample_snap_agent =
     \<lparr>ag_sched = \<lparr>sd_cfg = default_agent_config\<lparr>ac_hub := \<lparr>ah_url = [], ah_psk = ''key''\<rparr>\<rparr>, sd_entries = [], sd_running = False\<rparr>,
      ag_db = empty_db, ag_collector = new_collector ''nas'' ''nas'' [] 0, ag_engine = engine_init, ag_status_busy = False,
      ag_smart_busy = False, ag_tasks = []\<rparr>"

definition sync_request :: execute_request where
  "sync_request =
     \<lparr>er_command = ''sync'', er_bad_blocks_only = False, er_disk = [], er_filter = [], er_plan = [], er_older_than_days = 0,
      er_force_zero = False, er_pre_hash = False\<rparr>"

definition sample_snap_env :: snap_agent_env where
  "sample_snap_env =
     \<lparr>av_execute = \<lambda>b. Some sync_request, av_values = \<lambda>b. Some [(''scrub_cron'', ''0 3 * * 0'')], av_cron = \<lambda>e. None,
      av_set_err = \<lambda>k. None, av_query_err = None, av_order = \<lambda>js. js\<rparr>"

definition snap_request :: "string \<Rightarrow> string \<Rightarrow> string \<Rightarrow> hub_request" where
  "snap_request m p body =
     \<lparr>hq_method = m, hq_path = p, hq_query = [(''agent_id'', ''nas'')], hq_auth = [], hq_host = [], hq_body = Some body\<rparr>"

lemmas snap_sample_defs = sample_snap_world_def one_signature_def sample_snap_server_def nas_agent_entry_def sample_snap_agent_def
  snap_request_def sync_request_def sample_snap_env_def sample_hub_def

lemma sample_registered:
  "reg_get ''nas'' (hb_registry (sv_hub sample_snap_server)) = Some nas_agent_entry"
  by (simp add: snap_sample_defs reg_get_def ks_find_def)

lemma sample_psk [simp]: "sv_psk sample_snap_server = ''key''" "agent_psk sample_snap_agent = ''key''"
  by (simp_all add: snap_sample_defs agent_psk_def)

lemma sample_signed: "verify_json (sw_sig sample_snap_world) (sw_verifier sample_snap_world) (take command_limit ''signed'') = None"
  by (simp add: snap_sample_defs verify_json_def verify_body_def command_limit_def)

lemma sample_fields [simp]:
  "\<not> engine_busy (ag_engine sample_snap_agent)" "ag_tasks sample_snap_agent = []"
  "av_execute sample_snap_env b = Some sync_request" "known_command (er_command sync_request)"
  "sw_send sample_snap_world out c = FullAnswer 200 ''{}''" "sw_marshal sample_snap_world ob = ''{}''"
  "sw_command sample_snap_world b = Some \<lparr>cb_agent = ''nas'', cb_action = ''sync'', cb_command = [], cb_params = None\<rparr>"
  by (simp_all add: engine_busy_def snap_sample_defs engine_init_def known_command_def)

definition sample_command_call :: agent_call where
  "sample_command_call = post_call nas_agent_entry ''/api/execute'' (Some ''{}'') sample_snap_server"

lemma command_reaches_agent_witness:
  "ag_tasks (snd (agent_serve sample_snap_env 0 1 (at_agent (ae_address nas_agent_entry) sample_command_call) sample_snap_agent)) =
     [RunTask sync_request]"
proof -
  obtain st ans g' where g: "agent_serve sample_snap_env 0 1 (at_agent (ae_address nas_agent_entry) sample_command_call)
      sample_snap_agent = ((st, ans), g')" by (metis prod.collapse)
  obtain st' ans' s' where h: "snap_serve sample_snap_world 9300 0 [] (snap_request ''POST'' ''/api/command'' ''signed'')
      sample_snap_server = ((st', ans'), s')" by (metis prod.collapse)
  have "decoded (at_agent (ae_address nas_agent_entry) sample_command_call) (av_execute sample_snap_env) = Some sync_request"
    by (simp add: sample_command_call_def decoded_def)
  then have "st = 200"
    using g agent_obeys [OF agent_routed(1), of sample_snap_server sample_snap_agent] agent_takes(1)
    by (simp add: sample_command_call_def)
  then have send: "sw_send sample_snap_world (sv_out sample_snap_server) sample_command_call = FullAnswer st ''{}''" by simp
  have "g' = start_task (RunTask sync_request) sample_snap_agent"
    using command_reaches_agent [OF _ _ _ sample_signed _ refl _ _ refl _ _ _ _ _ g send h, where req = sync_request]
      sample_registered by (simp add: snap_request_def sample_command_call_def)
  then show ?thesis using g by (simp add: start_task_def)
qed


lemma agent_changes_need_key_witness:
  "ag_engine (snd (agent_serve sample_snap_env 0 1 (snap_request ''POST'' ''/api/abort'' []) sample_snap_agent)) = engine_init"
  using agent_changes_need_key [of sample_snap_agent "snap_request ''POST'' ''/api/abort'' []" sample_snap_env 0 1]
  by (simp add: untouched_def snap_request_def) (simp add: sample_snap_agent_def)

definition busy_snap_agent :: snap_agent where
  "busy_snap_agent = sample_snap_agent\<lparr>ag_engine := engine_init\<lparr>es_mu := Some (HeldByRun 7), es_cancel := Some 7\<rparr>\<rparr>"

lemma cancel_needs_no_signature_witness:
  "\<exists>c g'. sv_out (snd (snap_serve sample_snap_world 9300 0 [] (snap_request ''DELETE'' ''/api/jobs/old'' []) sample_snap_server)) = [c] \<and>
     agent_serve sample_snap_env 0 1 (at_agent (ae_address nas_agent_entry) c) busy_snap_agent = ((200, ArStatus ''aborted''), g') \<and>
     7 \<in> es_cancelled (ag_engine g')"
proof -
  have "qget ''agent_id'' (hq_query (snap_request ''DELETE'' ''/api/jobs/old'' [])) = ''nas''"
    by (simp add: snap_request_def qget_def)
  moreover have "agent_psk busy_snap_agent = ''key''" "sv_out sample_snap_server = []" "es_cancel (ag_engine busy_snap_agent) = Some 7"
    by (simp_all add: busy_snap_agent_def agent_psk_def snap_sample_defs)
  ultimately show ?thesis
    using cancel_needs_no_signature [of "snap_request ''DELETE'' ''/api/jobs/old'' []" "''old''" "''nas''" 0 sample_snap_server
        nas_agent_entry sample_snap_world busy_snap_agent 7 9300 "[]" sample_snap_env 0 1] sample_registered
    by (simp add: resolve_snap_agent_def) (simp add: snap_request_def)
qed

end
