(* ===== verification/AddonConfig.thy ===== *)
theory AddonConfig
  imports GoExec SnapConfig SnapHub
begin

text \<open>
  How the burn-in and the ZFS add-ons are configured (\<^verbatim>\<open>burn-in/internal/config\<close> and
  \<^verbatim>\<open>zfs-manager/internal/config\<close>): defaults, a file, then the environment, which prevails. The
  decoders of the files, the environment and the files are parameters. Durations are read as
  \<^verbatim>\<open>time.ParseDuration\<close> reads them.
\<close>

section \<open>Durations (package time)\<close>

datatype duration_error = BadDuration | MissingUnit | UnknownUnit string

fun leading_int :: "int \<Rightarrow> string \<Rightarrow> (int \<times> string) option" where
  "leading_int x [] = Some (x, [])"
| "leading_int x (c # s) =
     (if \<not> is_digit c then Some (x, c # s)
      else if x > 922337203685477580 then None
      else if x * 10 + digit_val c > 9223372036854775808 then None
      else leading_int (x * 10 + digit_val c) s)"

text \<open>The digits of a fraction as a number, and the power of ten to divide it by; digits beyond the
  range of the number are dropped.\<close>

fun leading_fraction :: "int \<Rightarrow> float64 \<Rightarrow> bool \<Rightarrow> string \<Rightarrow> int \<times> float64 \<times> string" where
  "leading_fraction x scale over [] = (x, scale, [])"
| "leading_fraction x scale over (c # s) =
     (if \<not> is_digit c then (x, scale, c # s)
      else if over \<or> x > 922337203685477580 \<or> x * 10 + digit_val c > 9223372036854775808
      then leading_fraction x scale True s
      else leading_fraction (x * 10 + digit_val c) (f64_mul scale 10) False s)"

definition micro_sign :: string where
  "micro_sign = [CHR 0xC2, CHR 0xB5, CHR ''s'']"

definition greek_mu :: string where
  "greek_mu = [CHR 0xCE, CHR 0xBC, CHR ''s'']"

definition duration_unit :: "string \<Rightarrow> int option" where
  "duration_unit u =
     map_of [(''ns'', 1), (''us'', 1000), (micro_sign, 1000), (greek_mu, 1000), (''ms'', 1000000), (''s'', 1000000000),
             (''m'', 60000000000), (''h'', 3600000000000)] u"

definition unit_char :: "char \<Rightarrow> bool" where
  "unit_char c \<longleftrightarrow> c \<noteq> CHR ''.'' \<and> \<not> is_digit c"

text \<open>One number with its unit: its nanoseconds and the rest.\<close>

definition duration_step :: "string \<Rightarrow> duration_error + int \<times> string" where
  "duration_step s =
     (case leading_int 0 s of
        None \<Rightarrow> Inl BadDuration
      | Some (v, s1) \<Rightarrow>
          (let point = (s1 \<noteq> [] \<and> hd s1 = CHR ''.'');
               (f, scale, s2) = (if point then leading_fraction 0 (Fin 1) False (tl s1) else (0, Fin 1, s1));
               pre = (length s1 \<noteq> length s);
               post = (point \<and> length s2 \<noteq> length (tl s1));
               u = takeWhile unit_char s2
           in if \<not> pre \<and> \<not> post then Inl BadDuration
              else if u = [] then Inl MissingUnit
              else case duration_unit u of
                None \<Rightarrow> Inl (UnknownUnit u)
              | Some unit \<Rightarrow>
                  if v > 9223372036854775808 div unit then Inl BadDuration
                  else let extra = (if f > 0 then f64_to_u64 (\<lambda>x. 0) (case f64_div (f64_of_int unit) scale of Fin b \<Rightarrow> f64_mul (f64_of_int f) b | _ \<Rightarrow> NaN) else 0)
                       in if v * unit + extra > 9223372036854775808 then Inl BadDuration
                          else Inr (v * unit + extra, dropWhile unit_char s2)))"

lemma leading_int_shorter: "leading_int x s = Some (v, r) \<Longrightarrow> length r \<le> length s"
  by (induction x s rule: leading_int.induct) (auto split: if_splits)

lemma leading_fraction_shorter: "leading_fraction x scale over s = (f, sc, r) \<Longrightarrow> length r \<le> length s"
  by (induction x scale over s rule: leading_fraction.induct) (auto split: if_splits)

lemma duration_step_shorter:
  assumes "duration_step s = Inr (v, r)"
  shows "length r < length s"
proof -
  obtain n s1 where i: "leading_int 0 s = Some (n, s1)" using assms by (auto simp: duration_step_def split: option.splits)
  let ?point = "s1 \<noteq> [] \<and> hd s1 = CHR ''.''"
  obtain f sc s2 where f: "(if ?point then leading_fraction 0 (Fin 1) False (tl s1) else (0, Fin 1, s1)) = (f, sc, s2)"
    by (metis prod.collapse)
  have "length s2 \<le> length s1" using f leading_fraction_shorter [of 0 "Fin 1" False "tl s1" f sc s2] by (cases s1) (auto split: if_splits)
  then have "length s2 \<le> length s" using leading_int_shorter [OF i] by simp
  moreover have "takeWhile unit_char s2 \<noteq> []" "r = dropWhile unit_char s2"
    using assms i f by (auto simp: duration_step_def Let_def split: if_splits option.splits)
  then have "length r < length s2"
    by (cases s2) (auto simp: le_imp_less_Suc length_dropWhile_le split: if_splits)
  ultimately show ?thesis by simp
qed

function duration_sum :: "int \<Rightarrow> string \<Rightarrow> duration_error + int" where
  "duration_sum d s =
     (if s = [] then Inr d
      else if unit_char (hd s) then Inl BadDuration
      else case duration_step s of
        Inl e \<Rightarrow> Inl e
      | Inr (v, r) \<Rightarrow> if d + v > 9223372036854775808 then Inl BadDuration else duration_sum (d + v) r)"
  by auto
termination by (relation "measure (\<lambda>(d, s). length s)") (auto dest: duration_step_shorter)

declare duration_sum.simps [simp del]

definition parse_duration :: "string \<Rightarrow> duration_error + int" where
  "parse_duration s =
     (let neg = (s \<noteq> [] \<and> hd s = CHR ''-''); t = (if s \<noteq> [] \<and> hd s \<in> {CHR ''-'', CHR ''+''} then tl s else s) in
      if t = ''0'' then Inr 0
      else if t = [] then Inl BadDuration
      else case duration_sum 0 t of
        Inl e \<Rightarrow> Inl e
      | Inr d \<Rightarrow> if neg then Inr (- d) else if d > int64_max then Inl BadDuration else Inr d)"

section \<open>The environment (env.go)\<close>

datatype addon_config_error =
    BadPath string
  | NotAbsolute string
  | UnreadableFile go_error
  | BadFile go_error
  | BadInterval string duration_error
  | MissingFields "string list"
  | NoKey string

definition env_str :: "(string \<Rightarrow> string) \<Rightarrow> string \<Rightarrow> (string \<Rightarrow> 'c \<Rightarrow> 'c) \<Rightarrow> 'c \<Rightarrow> 'c" where
  "env_str getenv key f c = (let v = getenv key in if v \<noteq> [] then f v c else c)"

definition env_int :: "(string \<Rightarrow> string) \<Rightarrow> string \<Rightarrow> (int \<Rightarrow> 'c \<Rightarrow> 'c) \<Rightarrow> 'c \<Rightarrow> 'c" where
  "env_int getenv key f c =
     (let v = getenv key in if v = [] then c else case atoi_full v of (n, None) \<Rightarrow> f n c | _ \<Rightarrow> c)"

definition env_duration :: "(string \<Rightarrow> string) \<Rightarrow> string \<Rightarrow> (int \<Rightarrow> 'c \<Rightarrow> 'c) \<Rightarrow> 'c \<Rightarrow> addon_config_error + 'c" where
  "env_duration getenv key f c =
     (let v = getenv key in
      if v = [] then Inr c
      else case parse_duration v of Inl e \<Rightarrow> Inl (BadInterval key e) | Inr d \<Rightarrow> Inr (f d c))"

section \<open>The burn-in hub (hub.go)\<close>

record burn_hub_config =
  bc_vigil_url :: string
  bc_token :: string
  bc_pubkey :: string
  bc_listen :: string
  bc_heartbeat :: int
  bc_psk :: string
  bc_data_dir :: string
  bc_warning :: int
  bc_critical :: int

definition burn_hub_defaults :: burn_hub_config where
  "burn_hub_defaults =
     \<lparr>bc_vigil_url = ''http://localhost:8080'', bc_token = [], bc_pubkey = [], bc_listen = '':9100'',
      bc_heartbeat = 30000000000, bc_psk = [], bc_data_dir = ''/var/lib/vigil-hub'', bc_warning = 45, bc_critical = 55\<rparr>"

text \<open>A file is read from a clean absolute path; \<open>unmarshal\<close> overlays a configuration with it.\<close>

definition load_from_file :: "(string \<Rightarrow> go_error + string) \<Rightarrow> (string \<Rightarrow> 'c \<Rightarrow> go_error + 'c) \<Rightarrow> string \<Rightarrow> 'c \<Rightarrow>
    addon_config_error + 'c" where
  "load_from_file rd unmarshal path c =
     (if str_contains path ''..'' then Inl (BadPath path)
      else if \<not> has_prefix (path_clean path) ''/'' then Inl (NotAbsolute path)
      else case rd (path_clean path) of
        Inl e \<Rightarrow> Inl (UnreadableFile e)
      | Inr data \<Rightarrow> (case unmarshal data c of Inl e \<Rightarrow> Inl (BadFile e) | Inr c' \<Rightarrow> Inr c'))"

definition burn_hub_env :: "(string \<Rightarrow> string) \<Rightarrow> burn_hub_config \<Rightarrow> burn_hub_config" where
  "burn_hub_env getenv c =
     env_int getenv ''BURNIN_ALERTS_TEMP_CRITICAL_C'' (\<lambda>v c. c\<lparr>bc_critical := v\<rparr>)
       (env_int getenv ''BURNIN_ALERTS_TEMP_WARNING_C'' (\<lambda>v c. c\<lparr>bc_warning := v\<rparr>)
         (env_str getenv ''BURNIN_HUB_DATA_DIR'' (\<lambda>v c. c\<lparr>bc_data_dir := v\<rparr>)
           (env_str getenv ''BURNIN_HUB_AGENT_PSK'' (\<lambda>v c. c\<lparr>bc_psk := v\<rparr>)
             (env_str getenv ''BURNIN_HUB_LISTEN'' (\<lambda>v c. c\<lparr>bc_listen := v\<rparr>)
               (env_str getenv ''VIGIL_SERVER_PUBKEY'' (\<lambda>v c. c\<lparr>bc_pubkey := v\<rparr>)
                 (env_str getenv ''VIGIL_TOKEN'' (\<lambda>v c. c\<lparr>bc_token := v\<rparr>)
                   (env_str getenv ''VIGIL_AGENT_TOKEN'' (\<lambda>v c. c\<lparr>bc_token := v\<rparr>)
                     (env_str getenv ''VIGIL_URL'' (\<lambda>v c. c\<lparr>bc_vigil_url := v\<rparr>) c))))))))"

text \<open>The key file of the data directory, any failure to read it taken for its absence; the random
  bytes, and the errors of making the directory and of writing the file. The result goes with the
  file afterwards.\<close>

definition burn_psk :: "go_error + string \<Rightarrow> string + string \<Rightarrow> string option \<Rightarrow> string option \<Rightarrow>
    (string + string) \<times> string option" where
  "burn_psk file rand mkdir write =
     (let old = (case file of Inl e \<Rightarrow> None | Inr data \<Rightarrow> Some data);
          fresh = (case rand of
                     Inl e \<Rightarrow> (Inl (''generating random PSK: '' @ e), old)
                   | Inr bs \<Rightarrow>
                       (case (mkdir, write) of
                          (Some e, _) \<Rightarrow> (Inl (''creating data directory: '' @ e), old)
                        | (None, Some e) \<Rightarrow> (Inl (''writing PSK file: '' @ e), old)
                        | (None, None) \<Rightarrow> (Inr (hex_encode bs), Some (hex_encode bs @ [CHR 0x0A]))))
      in case file of
           Inl e \<Rightarrow> fresh
         | Inr data \<Rightarrow> if trim_space data \<noteq> [] then (Inr (trim_space data), old) else fresh)"

definition missing_fields :: "(string \<times> string) list \<Rightarrow> string list" where
  "missing_fields fs = map fst (filter (\<lambda>f. snd f = []) fs)"

definition validate_burn_hub :: "burn_hub_config \<Rightarrow> string list" where
  "validate_burn_hub c = missing_fields [(''vigil.url'', bc_vigil_url c), (''hub.listen'', bc_listen c)]"

text \<open>\<open>key\<close> is the outcome of \<open>loadOrGeneratePSK\<close> for a data directory.\<close>

definition load_burn_hub :: "(string \<Rightarrow> string) \<Rightarrow> (string \<Rightarrow> go_error + string) \<Rightarrow>
    (string \<Rightarrow> burn_hub_config \<Rightarrow> go_error + burn_hub_config) \<Rightarrow> (string \<Rightarrow> string + string) \<Rightarrow>
    addon_config_error + burn_hub_config" where
  "load_burn_hub getenv rd unmarshal key =
     (case (if getenv ''BURNIN_CONFIG_FILE'' = [] then Inr burn_hub_defaults
            else load_from_file rd unmarshal (getenv ''BURNIN_CONFIG_FILE'') burn_hub_defaults) of
        Inl e \<Rightarrow> Inl e
      | Inr c0 \<Rightarrow>
          (case env_duration getenv ''BURNIN_HUB_HEARTBEAT_INTERVAL'' (\<lambda>d c. c\<lparr>bc_heartbeat := d\<rparr>) (burn_hub_env getenv c0) of
             Inl e \<Rightarrow> Inl e
           | Inr c1 \<Rightarrow>
               (case (if bc_psk c1 \<noteq> [] then Inr (bc_psk c1) else key (bc_data_dir c1)) of
                  Inl e \<Rightarrow> Inl (NoKey e)
                | Inr psk \<Rightarrow>
                    (let c = c1\<lparr>bc_psk := psk\<rparr> in
                     if validate_burn_hub c \<noteq> [] then Inl (MissingFields (validate_burn_hub c)) else Inr c))))"

section \<open>The burn-in agent (agent.go)\<close>

record burn_agent_config =
  bn_hub_url :: string
  bn_psk :: string
  bn_id :: string
  bn_listen :: string
  bn_advertise :: string
  bn_pubkey :: string
  bn_smart_poll :: int
  bn_temp_poll :: int
  bn_log_dir :: string

definition burn_agent_defaults :: burn_agent_config where
  "burn_agent_defaults =
     \<lparr>bn_hub_url = ''http://localhost:9100'', bn_psk = [], bn_id = [], bn_listen = '':9200'', bn_advertise = [], bn_pubkey = [],
      bn_smart_poll = 10000000000, bn_temp_poll = 10000000000, bn_log_dir = ''/var/lib/vigil-agent/logs''\<rparr>"

definition burn_agent_env :: "(string \<Rightarrow> string) \<Rightarrow> burn_agent_config \<Rightarrow> burn_agent_config" where
  "burn_agent_env getenv c =
     env_str getenv ''BURNIN_AGENT_LOG_DIR'' (\<lambda>v c. c\<lparr>bn_log_dir := v\<rparr>)
       (env_str getenv ''BURNIN_AGENT_SERVER_PUBKEY'' (\<lambda>v c. c\<lparr>bn_pubkey := v\<rparr>)
         (env_str getenv ''BURNIN_AGENT_ADVERTISE_ADDR'' (\<lambda>v c. c\<lparr>bn_advertise := v\<rparr>)
           (env_str getenv ''BURNIN_AGENT_LISTEN'' (\<lambda>v c. c\<lparr>bn_listen := v\<rparr>)
             (env_str getenv ''BURNIN_AGENT_ID'' (\<lambda>v c. c\<lparr>bn_id := v\<rparr>)
               (env_str getenv ''BURNIN_HUB_PSK'' (\<lambda>v c. c\<lparr>bn_psk := v\<rparr>)
                 (env_str getenv ''BURNIN_HUB_URL'' (\<lambda>v c. c\<lparr>bn_hub_url := v\<rparr>) c))))))"

definition validate_burn_agent :: "burn_agent_config \<Rightarrow> string list" where
  "validate_burn_agent c =
     missing_fields [(''hub.url'', bn_hub_url c), (''hub.psk'', bn_psk c), (''agent.id'', bn_id c), (''agent.listen'', bn_listen c)]"

definition load_burn_agent :: "(string \<Rightarrow> string) \<Rightarrow> (string \<Rightarrow> go_error + string) \<Rightarrow>
    (string \<Rightarrow> burn_agent_config \<Rightarrow> go_error + burn_agent_config) \<Rightarrow> addon_config_error + burn_agent_config" where
  "load_burn_agent getenv rd unmarshal =
     (case (if getenv ''BURNIN_CONFIG_FILE'' = [] then Inr burn_agent_defaults
            else load_from_file rd unmarshal (getenv ''BURNIN_CONFIG_FILE'') burn_agent_defaults) of
        Inl e \<Rightarrow> Inl e
      | Inr c0 \<Rightarrow>
          (case env_duration getenv ''BURNIN_AGENT_SMART_POLL_INTERVAL'' (\<lambda>d c. c\<lparr>bn_smart_poll := d\<rparr>) (burn_agent_env getenv c0) of
             Inl e \<Rightarrow> Inl e
           | Inr c1 \<Rightarrow>
               (case env_duration getenv ''BURNIN_AGENT_TEMP_POLL_INTERVAL'' (\<lambda>d c. c\<lparr>bn_temp_poll := d\<rparr>) c1 of
                  Inl e \<Rightarrow> Inl e
                | Inr c \<Rightarrow>
                    if validate_burn_agent c \<noteq> [] then Inl (MissingFields (validate_burn_agent c)) else Inr c)))"

section \<open>The ZFS agent and manager\<close>

record zfs_agent_config =
  zn_port :: int
  zn_hub_url :: string
  zn_psk :: string
  zn_id :: string
  zn_advertise :: string
  zn_zpool :: string
  zn_zfs :: string
  zn_level :: string

definition zfs_agent_defaults :: zfs_agent_config where
  "zfs_agent_defaults =
     \<lparr>zn_port = 9600, zn_hub_url = ''http://zfs-manager:9500'', zn_psk = [], zn_id = [], zn_advertise = [], zn_zpool = [],
      zn_zfs = [], zn_level = ''info''\<rparr>"

definition zfs_agent_env :: "(string \<Rightarrow> string) \<Rightarrow> zfs_agent_config \<Rightarrow> zfs_agent_config" where
  "zfs_agent_env getenv c =
     env_str getenv ''VIGIL_ZFS_AGENT_LOGGING_LEVEL'' (\<lambda>v c. c\<lparr>zn_level := v\<rparr>)
       (env_str getenv ''VIGIL_ZFS_AGENT_ZFS_ZFS_PATH'' (\<lambda>v c. c\<lparr>zn_zfs := v\<rparr>)
         (env_str getenv ''VIGIL_ZFS_AGENT_ZFS_ZPOOL_PATH'' (\<lambda>v c. c\<lparr>zn_zpool := v\<rparr>)
           (env_str getenv ''VIGIL_ZFS_AGENT_ADVERTISE_ADDR'' (\<lambda>v c. c\<lparr>zn_advertise := v\<rparr>)
             (env_str getenv ''VIGIL_ZFS_AGENT_ID'' (\<lambda>v c. c\<lparr>zn_id := v\<rparr>)
               (env_str getenv ''VIGIL_ZFS_AGENT_HUB_PSK'' (\<lambda>v c. c\<lparr>zn_psk := v\<rparr>)
                 (env_str getenv ''VIGIL_ZFS_AGENT_HUB_URL'' (\<lambda>v c. c\<lparr>zn_hub_url := v\<rparr>)
                   (env_int getenv ''VIGIL_ZFS_AGENT_LISTEN_PORT'' (\<lambda>v c. c\<lparr>zn_port := v\<rparr>) c)))))))"

text \<open>The validation of the agent repairs a port; the one of the manager refuses nothing.\<close>

definition validate_zfs_agent :: "zfs_agent_config \<Rightarrow> zfs_agent_config" where
  "validate_zfs_agent c = (if zn_port c < 1 \<or> zn_port c > 65535 then c\<lparr>zn_port := 9600\<rparr> else c)"

definition file_config :: "(string \<Rightarrow> 'c \<Rightarrow> string + 'c) \<Rightarrow> file_read \<Rightarrow> 'c \<Rightarrow> config_error + 'c" where
  "file_config unmarshal file c =
     (case file of
        FileMissing \<Rightarrow> Inr c
      | FileError e \<Rightarrow> Inl (ReadFailed e)
      | FileContents data \<Rightarrow> (case unmarshal data c of Inl e \<Rightarrow> Inl (ParseFailed e) | Inr c' \<Rightarrow> Inr c'))"

definition load_zfs_agent :: "(string \<Rightarrow> string) \<Rightarrow> (string \<Rightarrow> zfs_agent_config \<Rightarrow> string + zfs_agent_config) \<Rightarrow> file_read \<Rightarrow>
    config_error + zfs_agent_config" where
  "load_zfs_agent getenv unmarshal file =
     (case file_config unmarshal file zfs_agent_defaults of
        Inl e \<Rightarrow> Inl e | Inr c \<Rightarrow> Inr (validate_zfs_agent (zfs_agent_env getenv c)))"

record zfs_manager_config =
  zc_port :: int
  zc_server_url :: string
  zc_token :: string
  zc_registry :: string
  zc_level :: string

definition zfs_manager_defaults :: zfs_manager_config where
  "zfs_manager_defaults =
     \<lparr>zc_port = 9500, zc_server_url = ''http://vigil.local:9080'', zc_token = [], zc_registry = ''/data/agents.json'', zc_level = ''info''\<rparr>"

definition zfs_manager_env :: "(string \<Rightarrow> string) \<Rightarrow> zfs_manager_config \<Rightarrow> zfs_manager_config" where
  "zfs_manager_env getenv c =
     env_str getenv ''VIGIL_ZFS_MANAGER_LOGGING_LEVEL'' (\<lambda>v c. c\<lparr>zc_level := v\<rparr>)
       (env_str getenv ''VIGIL_ZFS_MANAGER_DATA_REGISTRY_PATH'' (\<lambda>v c. c\<lparr>zc_registry := v\<rparr>)
         (env_str getenv ''VIGIL_TOKEN'' (\<lambda>v c. c\<lparr>zc_token := v\<rparr>)
           (env_str getenv ''VIGIL_ZFS_MANAGER_VIGIL_TOKEN'' (\<lambda>v c. c\<lparr>zc_token := v\<rparr>)
             (env_str getenv ''VIGIL_URL'' (\<lambda>v c. c\<lparr>zc_server_url := v\<rparr>)
               (env_str getenv ''VIGIL_ZFS_MANAGER_VIGIL_SERVER_URL'' (\<lambda>v c. c\<lparr>zc_server_url := v\<rparr>)
                 (env_int getenv ''VIGIL_ZFS_MANAGER_LISTEN_PORT'' (\<lambda>v c. c\<lparr>zc_port := v\<rparr>) c))))))"

definition validate_zfs_manager :: "zfs_manager_config \<Rightarrow> config_error option" where
  "validate_zfs_manager c =
     (if zc_port c < 1 \<or> zc_port c > 65535 then None else if zc_registry c = [] then None else None)"

definition load_zfs_manager :: "(string \<Rightarrow> string) \<Rightarrow> (string \<Rightarrow> zfs_manager_config \<Rightarrow> string + zfs_manager_config) \<Rightarrow>
    file_read \<Rightarrow> config_error + zfs_manager_config" where
  "load_zfs_manager getenv unmarshal file =
     (case file_config unmarshal file zfs_manager_defaults of
        Inl e \<Rightarrow> Inl e
      | Inr c0 \<Rightarrow>
          (let c = zfs_manager_env getenv c0 in case validate_zfs_manager c of Some e \<Rightarrow> Inl e | None \<Rightarrow> Inr c))"

definition redacted_psk :: "string \<Rightarrow> string" where
  "redacted_psk psk = (if length psk \<le> 8 then ''***'' else take 4 psk @ ''****'' @ drop (length psk - 4) psk)"

section \<open>What a loaded configuration guarantees\<close>

lemma missing_none: "missing_fields fs = [] \<longleftrightarrow> (\<forall>f \<in> set fs. snd f \<noteq> [])"
  by (auto simp: missing_fields_def filter_empty_conv)

text \<open>A burn-in agent that starts has a hub, a key, an id and an address.\<close>

lemma burn_agent_complete:
  assumes "load_burn_agent getenv rd unmarshal = Inr c"
  shows "bn_hub_url c \<noteq> [] \<and> bn_psk c \<noteq> [] \<and> bn_id c \<noteq> [] \<and> bn_listen c \<noteq> []"
  using assms by (auto simp: load_burn_agent_def validate_burn_agent_def missing_none split: sum.splits if_splits)

text \<open>A burn-in hub that starts has a server, an address and a key, as long as the key it generates is
  not empty.\<close>

lemma burn_hub_complete:
  assumes "load_burn_hub getenv rd unmarshal key = Inr c" "\<And>dir psk. key dir = Inr psk \<Longrightarrow> psk \<noteq> []"
  shows "bc_vigil_url c \<noteq> [] \<and> bc_listen c \<noteq> [] \<and> bc_psk c \<noteq> []"
  using assms
  by (auto simp: load_burn_hub_def validate_burn_hub_def missing_none Let_def split: sum.splits if_splits)

text \<open>The file is read nowhere but at a clean absolute path: what lies elsewhere does not matter.\<close>

lemma config_reads_confined:
  assumes "\<And>p. has_prefix p ''/'' \<Longrightarrow> rd p = rd' p"
  shows "load_burn_hub getenv rd unmarshal key = load_burn_hub getenv rd' unmarshal key \<and>
    load_burn_agent getenv rd um = load_burn_agent getenv rd' um"
proof -
  have "load_from_file rd unmarshal p c = load_from_file rd' unmarshal p c" "load_from_file rd um p c' = load_from_file rd' um p c'" for p c c'
    using assms [of "path_clean p"] by (simp_all add: load_from_file_def)
  then show ?thesis by (simp only: load_burn_hub_def load_burn_agent_def simp_thms)
qed

text \<open>The port of a ZFS agent is a port, whatever the file and the environment say; the manager's may
  be any number.\<close>

lemma zfs_agent_port:
  assumes "load_zfs_agent getenv unmarshal file = Inr c"
  shows "1 \<le> zn_port c \<and> zn_port c \<le> 65535"
  using assms by (auto simp: load_zfs_agent_def validate_zfs_agent_def split: sum.splits if_splits)

lemma env_str_keeps: "(\<And>v c. p (f v c) = p c) \<Longrightarrow> p (env_str getenv key f c) = p c"
  by (simp add: env_str_def Let_def)

lemma zfs_manager_any_port:
  assumes "getenv ''VIGIL_ZFS_MANAGER_LISTEN_PORT'' = itoa n" "fits_int64 n"
  shows "\<exists>c. load_zfs_manager getenv unmarshal FileMissing = Inr c \<and> zc_port c = n"
proof -
  have "itoa n \<noteq> []" by (simp add: itoa_def)
  then have "zc_port (zfs_manager_env getenv zfs_manager_defaults) = n"
    using assms(1) atoi_full_itoa [OF assms(2)]
    by (simp add: zfs_manager_env_def env_str_keeps [where p = zc_port] env_int_def Let_def)
  then show ?thesis by (simp add: load_zfs_manager_def file_config_def validate_zfs_manager_def Let_def)
qed

text \<open>A whole number with a unit is read as that duration, and one that is too long is refused.\<close>

lemma leading_int_dec:
  assumes "0 \<le> n" "n \<le> 9223372036854775808"
  shows "leading_int 0 (dec_digits n @ r) = leading_int n r"
  using assms
proof (induction n arbitrary: r rule: dec_digits.induct)
  case (1 n)
  show ?case
  proof (cases "n < 10")
    case True
    then show ?thesis using 1 by (subst dec_digits.simps) (simp add: digit_char_digit digit_val_char)
  next
    case False
    have ten: "n div 10 \<le> 922337203685477580" using zdiv_mono1 [OF 1(3), of 10] by simp
    have "leading_int 0 (dec_digits (n div 10) @ digit_char (n mod 10) # r) = leading_int (n div 10) (digit_char (n mod 10) # r)"
      using 1 False by simp
    also have "\<dots> = leading_int n r"
      using 1 ten by (simp add: digit_char_digit digit_val_char)
    finally show ?thesis using False by (subst dec_digits.simps) simp
  qed
qed

lemma units_are_units:
  assumes "duration_unit u = Some unit"
  shows "u \<noteq> [] \<and> list_all unit_char u \<and> 0 < unit \<and> u \<noteq> ''0''"
  using assms
  by (auto simp: duration_unit_def micro_sign_def greek_mu_def unit_char_def is_digit_def split: if_splits)

lemma whole_quotient:
  assumes "0 < (unit :: int)"
  shows "k div unit < n \<longleftrightarrow> k < n * unit"
proof
  assume "k div unit < n"
  then have "(k div unit + 1) * unit \<le> n * unit" using assms by (intro mult_right_mono) simp_all
  moreover have "k mod unit < unit" using assms by simp
  ultimately show "k < n * unit" using div_mult_mod_eq [of k unit] unfolding distrib_right mult_1 by linarith
next
  assume l: "k < n * unit"
  show "k div unit < n"
  proof (rule ccontr)
    assume "\<not> k div unit < n"
    then have "n * unit \<le> (k div unit) * unit" using assms by (intro mult_right_mono) simp_all
    moreover have "0 \<le> k mod unit" using assms by simp
    ultimately show False using l div_mult_mod_eq [of k unit] by linarith
  qed
qed

lemma duration_step_dec:
  assumes "0 \<le> n" "n \<le> int64_max" "duration_unit u = Some unit"
  shows "duration_step (dec_digits n @ u) =
    (if n * unit \<le> 9223372036854775808 then Inr (n * unit, []) else Inl BadDuration)"
proof -
  have u: "u \<noteq> []" "list_all unit_char u" "0 < unit" using units_are_units [OF assms(3)] by simp_all
  then have hd: "unit_char (hd u)" by (cases u) simp_all
  then have "leading_int n u = Some (n, u)" by (cases u) (simp_all add: unit_char_def)
  then have i: "leading_int 0 (dec_digits n @ u) = Some (n, u)"
    using leading_int_dec [of n u] assms(1,2) by (simp add: int64_max_def)
  have all: "takeWhile unit_char u = u" "dropWhile unit_char u = []" using u(2) by (simp_all add: list_all_iff)
  have "hd u \<noteq> CHR ''.''" using hd by (simp add: unit_char_def)
  moreover have "n > 9223372036854775808 div unit \<longleftrightarrow> n * unit > 9223372036854775808"
    using whole_quotient [OF u(3)] .
  ultimately show ?thesis using i u(1) assms(3) by (simp add: duration_step_def Let_def all)
qed

lemma parse_duration_dec:
  assumes "0 \<le> n" "n \<le> int64_max" "duration_unit u = Some unit"
  shows "parse_duration (dec_digits n @ u) = (if n * unit \<le> int64_max then Inr (n * unit) else Inl BadDuration)"
proof -
  let ?s = "dec_digits n @ u"
  have "all_digits (dec_digits n)" using assms(1) by simp
  then have "is_digit (hd ?s)" by (cases "dec_digits n") (auto simp: all_digits_def)
  then have d: "\<not> unit_char (hd ?s)" "hd ?s \<noteq> CHR ''-''" "hd ?s \<noteq> CHR ''+''"
    by (auto simp: unit_char_def is_digit_def)
  have "?s \<noteq> ''0''" using units_are_units [OF assms(3)] by (auto simp: append_eq_Cons_conv)
  then show ?thesis
    using d duration_step_dec [OF assms]
    by (simp add: parse_duration_def duration_sum.simps [of 0 ?s] duration_sum.simps [of _ "[]"] int64_max_def)
qed

end
