(* ===== verification/AgentLinks.thy ===== *)
theory AgentLinks
  imports SnapGuards
begin

text \<open>
  How an agent keeps in touch with its hub, and a hub with the Vigil server: the loops that register
  (\<^verbatim>\<open>register.go\<close> of the SnapRAID and the ZFS agent, \<^verbatim>\<open>hub_client.go\<close> of the burn-in agent), the
  forwarding of frames and log lines (\<^verbatim>\<open>hub_forwarder.go\<close>) up to their arrival in the SnapRAID hub, and
  the frames of the telemetry client (\<^verbatim>\<open>shared/vigilclient/telemetry.go\<close>), which go nowhere while
  it has no connection. The websocket itself and its pings are not modelled.
\<close>

section \<open>Registering with a hub\<close>

text \<open>What comes of an attempt: no request, a status, or no answer.\<close>

datatype reg_attempt = NoRequest | RegStatus nat | NoReply

text \<open>\<open>lost n\<close> tells whether the context has ended when attempt \<open>n\<close> gets no answer, \<open>stopped n\<close>
  whether it ends in the wait after it. The value tells whether the agent is registered, with the
  delays waited, in nanoseconds.\<close>

partial_function (option) register_with_hub :: "(nat \<Rightarrow> reg_attempt) \<Rightarrow> (nat \<Rightarrow> bool) \<Rightarrow> (nat \<Rightarrow> bool) \<Rightarrow> nat \<Rightarrow> int \<Rightarrow>
    int list \<Rightarrow> (bool \<times> int list) option" where
  "register_with_hub tries lost stopped n backoff waits =
     (if tries n = NoRequest then Some (False, waits)
      else if tries n = RegStatus 200 then Some (True, waits)
      else if tries n = NoReply \<and> lost n then Some (False, waits)
      else if stopped n then Some (False, waits)
      else register_with_hub tries lost stopped (Suc n) (min 60000000000 (2 * backoff)) (waits @ [backoff]))"

definition reg_retries :: "(nat \<Rightarrow> reg_attempt) \<Rightarrow> (nat \<Rightarrow> bool) \<Rightarrow> (nat \<Rightarrow> bool) \<Rightarrow> nat \<Rightarrow> bool" where
  "reg_retries tries lost stopped n \<longleftrightarrow>
     tries n \<notin> {NoRequest, RegStatus 200} \<and> \<not> (tries n = NoReply \<and> lost n) \<and> \<not> stopped n"

definition reg_delay :: "nat \<Rightarrow> int" where
  "reg_delay n = min 60000000000 (2000000000 * 2 ^ n)"

lemma reg_delay_Suc: "min 60000000000 (2 * reg_delay n) = reg_delay (Suc n)"
  by (simp add: reg_delay_def min_def)

lemma register_step:
  "reg_retries tries lost stopped n \<Longrightarrow>
   register_with_hub tries lost stopped n b ws =
     register_with_hub tries lost stopped (Suc n) (min 60000000000 (2 * b)) (ws @ [b])"
  by (subst register_with_hub.simps) (auto simp: reg_retries_def)

lemma register_steps:
  assumes "\<forall>m < n. reg_retries tries lost stopped m"
  shows "register_with_hub tries lost stopped 0 2000000000 [] =
    register_with_hub tries lost stopped n (reg_delay n) (map reg_delay [0..<n])"
  using assms
proof (induction n)
  case 0
  then show ?case by (simp add: reg_delay_def)
next
  case (Suc n)
  then show ?case using register_step [of tries lost stopped n] by (simp add: reg_delay_Suc)
qed

text \<open>An agent whose first accepted attempt comes after \<open>n\<close> others that it retries is registered, after
  waits of two, four and more seconds, at most a minute each.\<close>

lemma register_succeeds:
  assumes "\<forall>m < n. reg_retries tries lost stopped m" "tries n = RegStatus 200"
  shows "register_with_hub tries lost stopped 0 2000000000 [] = Some (True, map reg_delay [0..<n])"
  using register_steps [OF assms(1)] assms(2) by (simp add: register_with_hub.simps)

lemma register_ends:
  assumes "register_with_hub tries lost stopped n b ws = Some r"
  shows "\<exists>m \<ge> n. \<not> reg_retries tries lost stopped m"
proof (rule register_with_hub.raw_induct [where P = "\<lambda>tries lost stopped n b ws r. \<exists>m \<ge> n. \<not> reg_retries tries lost stopped m",
      OF _ assms])
  fix f tries lost stopped n b ws r
  assume hyp: "\<And>tries lost stopped n b ws y. f tries lost stopped n b ws = Some y \<Longrightarrow> \<exists>m \<ge> n. \<not> reg_retries tries lost stopped m"
    and res: "(if tries n = NoRequest then Some (False, ws)
      else if tries n = RegStatus 200 then Some (True, ws)
      else if tries n = NoReply \<and> lost n then Some (False, ws)
      else if stopped n then Some (False, ws)
      else f tries lost stopped (Suc n) (min 60000000000 (2 * b)) (ws @ [b])) = Some r"
  show "\<exists>m \<ge> n. \<not> reg_retries tries lost stopped m"
  proof (cases "reg_retries tries lost stopped n")
    case True
    then have "f tries lost stopped (Suc n) (min 60000000000 (2 * b)) (ws @ [b]) = Some r"
      using res by (auto simp: reg_retries_def)
    then obtain m where "m \<ge> Suc n" "\<not> reg_retries tries lost stopped m" using hyp by blast
    then show ?thesis by (meson Suc_leD)
  qed blast
qed

text \<open>With the wrong key the loop never returns: a rejection is retried like any other failure.\<close>

lemma rejected_agent_keeps_trying:
  assumes "\<And>n. tries n \<in> {RegStatus 401, RegStatus 403}" "\<And>n. \<not> stopped n"
  shows "register_with_hub tries lost stopped 0 2000000000 [] = None"
proof -
  have "reg_retries tries lost stopped n" for n using assms(1) [of n] assms(2) [of n] by (auto simp: reg_retries_def)
  then show ?thesis using register_ends [of tries lost stopped 0] by (metis not_None_eq)
qed

text \<open>The burn-in agent: any status of the two hundreds will do, and the loop is the one of the shared
  client.\<close>

definition do_register :: "go_error + nat \<times> (go_error + string) \<Rightarrow> go_error + unit" where
  "do_register answer =
     (case answer of
        Inl e \<Rightarrow> Inl (WrappedError ''POST /api/agents/register: '' e [])
      | Inr (st, Inl e) \<Rightarrow> Inl (WrappedError ''reading response: '' e [])
      | Inr (st, Inr body) \<Rightarrow>
          if st < 200 \<or> st \<ge> 300
          then Inl (PlainError (''POST /api/agents/register returned '' @ itoa (int st) @ '': '' @ body)) else Inr ())"

definition burn_register :: "(nat \<Rightarrow> go_error + nat \<times> (go_error + string)) \<Rightarrow> (nat \<Rightarrow> go_error option) \<Rightarrow>
    ((go_error + unit) \<times> int list) option" where
  "burn_register answers ctx = register_loop (\<lambda>n. do_register (answers n)) ctx 0 []"

lemma burn_register_returns:
  assumes "answers k = Inr (200, Inr body)"
  shows "\<exists>r ws. burn_register answers ctx = Some (r, ws) \<and> length ws \<le> k"
  using register_loop_returns [where n = 0 and k = k and tries = "\<lambda>n. do_register (answers n)" and ctx = ctx and waits = "[]"] assms
  by (fastforce simp: burn_register_def do_register_def)

section \<open>Forwarding frames and log lines\<close>

text \<open>The requests of the SnapRAID agent's forwarder: \<open>enc\<close> encodes a frame or a line with the id of
  the agent. Building a frame takes the pending event out of the collector, whatever comes of the
  request.\<close>

definition forward_request :: "string \<Rightarrow> string \<Rightarrow> string \<Rightarrow> hub_request" where
  "forward_request path psk body =
     \<lparr>hq_method = ''POST'', hq_path = path, hq_query = [], hq_auth = ''Bearer '' @ psk, hq_host = [], hq_body = Some body\<rparr>"

definition forward_frame :: "(telemetry_payload \<Rightarrow> string) \<Rightarrow> (string \<times> string \<Rightarrow> string) \<Rightarrow> int \<Rightarrow> string \<Rightarrow> string \<Rightarrow>
    collector \<Rightarrow> hub_request \<times> collector" where
  "forward_frame encode enc now psk i c =
     (case build now c of (p, c') \<Rightarrow> (forward_request ''/api/telemetry/ingest'' psk (enc (i, encode p)), c'))"

record agent_log_line =
  ll_time :: string
  ll_level :: string
  ll_source :: string
  ll_message :: string

definition forward_log :: "(string \<times> agent_log_line \<Rightarrow> string) \<Rightarrow> string \<Rightarrow> string \<Rightarrow> agent_log_line \<Rightarrow> hub_request" where
  "forward_log enc psk i l = forward_request ''/api/logs/ingest'' psk (enc (i, l))"

text \<open>\<open>EmitLogLine\<close> of the collector: a line with the time, for the sink, when there is one.\<close>

definition collector_log_line :: "int \<Rightarrow> string \<Rightarrow> string \<Rightarrow> string \<Rightarrow> agent_log_line" where
  "collector_log_line now source level msg =
     \<lparr>ll_time = rfc3339 now, ll_level = level, ll_source = source, ll_message = msg\<rparr>"

text \<open>The loop of the forwarder over its wake-ups; each is a tick or a flush, both send. The answers are
  only logged.\<close>

fun forward_loop :: "(telemetry_payload \<Rightarrow> string) \<Rightarrow> (string \<times> string \<Rightarrow> string) \<Rightarrow> string \<Rightarrow> string \<Rightarrow>
    (int \<times> (collector \<Rightarrow> collector)) list \<Rightarrow> collector \<Rightarrow> hub_request list \<times> collector" where
  "forward_loop encode enc psk i [] c = ([], c)"
| "forward_loop encode enc psk i ((now, change) # ws) c =
     (let (q, c1) = forward_frame encode enc now psk i (change c); (qs, c2) = forward_loop encode enc psk i ws c1
      in (q # qs, c2))"

lemma ingest_routed:
  "dispatch (bare_request ''POST'' ''/api/telemetry/ingest'') snap_routes = Inr ((True, SnapTelemetryIngest), [])"
  "dispatch (bare_request ''POST'' ''/api/logs/ingest'') snap_routes = Inr ((True, SnapLogIngest), [])"
  by code_simp+

lemma decoded_ingest [simp]: "decoded (forward_request path psk body) dec = dec body"
  by (simp add: decoded_def forward_request_def)

lemma ingest_served:
  assumes "dispatch (bare_request ''POST'' path) snap_routes = Inr ((True, t), [])"
  shows "snap_serve w port now raw (forward_request path psk body) s =
    (if psk = sv_psk s then snap_run w port now raw (forward_request path psk body) [] t s else ((403, SrError wrong_key), s))"
proof -
  have "dispatch (forward_request path psk body) snap_routes = Inr ((True, t), [])"
    by (rule routed_as_bare [OF assms]) (simp_all add: forward_request_def)
  then show ?thesis by (simp add: snap_serve_def snap_require_psk_def forward_request_def trim_prefix_def Let_def)
qed

text \<open>The frame of an agent that has the hub's key reaches the aggregator as it was built. An agent
  with another key is refused, and the event that was in the frame is gone: it is no longer in the
  collector and not in the hub.\<close>

lemma frame_reaches_hub:
  assumes "sw_telemetry w (enc (i, encode (fst (build now c)))) = Some (i, encode (fst (build now c)))"
    and "forward_frame encode enc now psk i c = (q, c')"
  shows "if psk = sv_psk s
    then snap_serve w port t raw q s =
      ((200, snap_accepted), s\<lparr>sv_hub := ingest_agent_frame (sw_frame w) t (sw_room w) i (encode (fst (build now c))) (sv_hub s)\<rparr>)
    else snap_serve w port t raw q s = ((403, SrError wrong_key), s) \<and> co_event c' = None"
proof -
  obtain p where b: "build now c = (p, c')" and q: "q = forward_request ''/api/telemetry/ingest'' psk (enc (i, encode p))"
    using assms(2) by (auto simp: forward_frame_def split: prod.splits)
  have "co_event c' = None" using b by (auto simp: build_def)
  moreover have "sw_telemetry w (enc (i, encode p)) = Some (i, encode p)" using assms(1) b by simp
  ultimately show ?thesis
    using ingest_served [OF ingest_routed(1), where w = w and port = port and now = t and raw = raw and s = s] b q
    by (simp add: snap_telemetry_ingest_def)
qed

lemma log_reaches_hub:
  assumes "sw_log w (enc (i, l)) = Some \<lparr>sl_time = ll_time l, sl_level = ll_level l, sl_source = ll_source l, sl_message = ll_message l\<rparr>"
    and "psk = sv_psk s" "hb_telemetry (sv_hub s)"
  shows "sv_logs (snd (snap_serve w port t raw (forward_log enc psk i l) s)) = sv_logs s @
    [[(''level'', ll_level l), (''message'', ll_message l), (''source'', ll_source l)] @
     (if ll_time l \<noteq> [] then [(''timestamp'', ll_time l)] else [])]"
  using assms ingest_served [OF ingest_routed(2), where w = w and port = port and now = t and raw = raw and s = s]
  by (simp add: forward_log_def snap_log_ingest_def emit_log_line_def snap_log_payload_def)

section \<open>The telemetry client of a hub\<close>

text \<open>The address of the websocket: the first occurrence of each scheme is replaced.\<close>

definition replace_first :: "string \<Rightarrow> string \<Rightarrow> string \<Rightarrow> string" where
  "replace_first old new s =
     (case str_index s old of None \<Rightarrow> s | Some i \<Rightarrow> take i s @ new @ drop (i + length old) s)"

definition socket_base :: "string \<Rightarrow> string" where
  "socket_base url = replace_first ''http://'' ''ws://'' (replace_first ''https://'' ''wss://'' url)"

definition vigil_ws_url :: "string \<Rightarrow> int \<Rightarrow> string" where
  "vigil_ws_url url addon = socket_base url @ ''/api/addons/ws?addon_id='' @ itoa addon"

definition hub_ws_url :: "string \<Rightarrow> string \<Rightarrow> string" where
  "hub_ws_url url i = socket_base url @ ''/api/agents/'' @ i @ ''/telemetry''"

text \<open>The client: whether it is connected, whether it ever was, what has been written, as the type of a
  frame with its payload. A write succeeds or not; a failed one is not repeated.\<close>

record tele_client =
  tc_connected :: bool
  tc_ready :: bool
  tc_written :: "(string \<times> string) list"

definition tele_connect :: "tele_client \<Rightarrow> tele_client" where
  "tele_connect t = t\<lparr>tc_connected := True, tc_ready := True\<rparr>"

definition tele_disconnect :: "tele_client \<Rightarrow> tele_client" where
  "tele_disconnect t = t\<lparr>tc_connected := False\<rparr>"

definition write_frame :: "string option \<Rightarrow> string \<times> string \<Rightarrow> tele_client \<Rightarrow> string option \<times> tele_client" where
  "write_frame err f t = (case err of Some e \<Rightarrow> (Some e, t) | None \<Rightarrow> (None, t\<lparr>tc_written := tc_written t @ [f]\<rparr>))"

definition tele_send :: "string option \<Rightarrow> string \<Rightarrow> string \<Rightarrow> tele_client \<Rightarrow> string option \<times> tele_client" where
  "tele_send err ty payload t =
     (if \<not> tc_connected t then (Some ''upstream websocket not connected'', t) else write_frame err (ty, payload) t)"

text \<open>The writer of a connection: a heartbeat at every tick, and the frames of the channel when there is
  one. It ends with its context, with the channel and with the first write that fails; the frame of
  that write has left the channel and is lost.\<close>

datatype tele_wake = Beat "string option" | Raw string "string option" | ChannelClosed | ContextEnded

fun writer_loop :: "tele_wake list \<Rightarrow> tele_client \<Rightarrow> tele_client" where
  "writer_loop [] t = t"
| "writer_loop (Beat err # ws) t =
     (case write_frame err (''heartbeat'', []) t of (None, t1) \<Rightarrow> writer_loop ws t1 | (Some e, t1) \<Rightarrow> t1)"
| "writer_loop (Raw data err # ws) t =
     (case write_frame err (''telemetry'', data) t of (None, t1) \<Rightarrow> writer_loop ws t1 | (Some e, t1) \<Rightarrow> t1)"
| "writer_loop (ChannelClosed # ws) t = t"
| "writer_loop (ContextEnded # ws) t = t"

lemma socket_schemes:
  "socket_base (''http://'' @ host) = ''ws://'' @ host" if "str_index host ''https://'' = None"
  using that by (simp add: socket_base_def replace_first_def)

text \<open>The address of an agent's or server's plain and secure scheme.\<close>

lemma sample_addresses:
  "vigil_ws_url ''http://vigil:9080'' 3 = ''ws://vigil:9080/api/addons/ws?addon_id=3''"
  "vigil_ws_url ''https://vigil'' 3 = ''wss://vigil/api/addons/ws?addon_id=3''"
  "hub_ws_url ''http://hub:9100'' ''nas'' = ''ws://hub:9100/api/agents/nas/telemetry''"
  by code_simp+

text \<open>What is sent without a connection is refused and written nowhere, so a hub's notification of that
  time is lost; what is sent with one is written in order, up to the write that fails.\<close>

lemma unconnected_send_lost:
  "\<not> tc_connected t \<Longrightarrow> tele_send err ty p t = (Some ''upstream websocket not connected'', t)"
  by (simp add: tele_send_def)

lemma writer_prefix:
  "\<exists>fs. tc_written (writer_loop ws t) = tc_written t @ fs \<and>
    list_all (\<lambda>f. fst f = ''heartbeat'' \<or> Raw (snd f) None \<in> set ws) fs"
proof (induction ws t rule: writer_loop.induct)
  case (2 err ws t)
  then show ?case
  proof (cases err)
    case None
    then obtain fs where "tc_written (writer_loop ws (t\<lparr>tc_written := tc_written t @ [(''heartbeat'', [])]\<rparr>)) =
        (tc_written t @ [(''heartbeat'', [])]) @ fs" "list_all (\<lambda>f. fst f = ''heartbeat'' \<or> Raw (snd f) None \<in> set ws) fs"
      using 2 by (auto simp: write_frame_def)
    then show ?thesis using None
      by (auto simp: write_frame_def list_all_iff intro!: exI [of _ "(''heartbeat'', []) # fs"])
  qed (simp add: write_frame_def)
next
  case (3 data err ws t)
  then show ?case
  proof (cases err)
    case None
    then obtain fs where "tc_written (writer_loop ws (t\<lparr>tc_written := tc_written t @ [(''telemetry'', data)]\<rparr>)) =
        (tc_written t @ [(''telemetry'', data)]) @ fs" "list_all (\<lambda>f. fst f = ''heartbeat'' \<or> Raw (snd f) None \<in> set ws) fs"
      using 3 by (auto simp: write_frame_def)
    then show ?thesis using None
      by (auto simp: write_frame_def list_all_iff intro!: exI [of _ "(''telemetry'', data) # fs"])
  qed (simp add: write_frame_def)
qed simp_all

end
