(* ===== verification/BurnDrive.thy ===== *)
theory BurnDrive
  imports GoExec GoRegex
begin

text \<open>
  The drive package of the burn-in agent (\<^verbatim>\<open>burn-in/internal/drive\<close>): identification and the safety
  check, SMART snapshots and self-tests, badblocks, partitioning, formatting and verification, over
  a host that answers every program from the calls made before. \<open>bn_ctx\<close> is what each reading of
  \<^verbatim>\<open>ctx.Err()\<close> gives; JSON decoders are parameters. Waiting times, progress callbacks and time
  stamps are left out.
\<close>

section \<open>The host\<close>

datatype proc_answer = Proc string string "go_error option"

record smart_identity =
  id_model :: string
  id_serial :: string
  id_bytes :: int
  id_rotation :: int
  id_family :: string

record burn_env =
  bn_run :: "zx_log \<Rightarrow> string \<Rightarrow> string list \<Rightarrow> proc_answer"
  bn_ctx :: "nat \<Rightarrow> go_error option"
  bn_mounts :: "zx_log \<Rightarrow> string option"
  bn_link :: "zx_log \<Rightarrow> string \<Rightarrow> go_error + string"
  bn_tmpdir :: "zx_log \<Rightarrow> go_error + string"
  bn_mkdir :: "zx_log \<Rightarrow> go_error option"
  bn_identity :: "string \<Rightarrow> smart_identity option"
  bn_attrs :: "string \<Rightarrow> (int \<times> int) list option"
  bn_selftest :: "string \<Rightarrow> (bool \<times> string) list option"
  bn_polling :: "string \<Rightarrow> go_error + int \<times> int"

datatype delta_payload =
    NoDeltas
  | Enriched "(string \<times> string \<times> int \<times> int) list"
  | RawDeltas "(int \<times> int) list"

datatype burn_item =
    Progress string string int int delta_payload
  | LogLine string string

text \<open>The calls so far, the readings of the context so far, what was sent, and whether the
  temperature poller and the heartbeat of the job run.\<close>

record burn_state =
  bs_tr :: zx_log
  bs_reads :: nat
  bs_out :: "burn_item list"
  bs_poller :: bool
  bs_heart :: bool

definition b_ctx :: "burn_env \<Rightarrow> burn_state \<Rightarrow> go_error option \<times> burn_state" where
  "b_ctx env s = (bn_ctx env (bs_reads s), s\<lparr>bs_reads := Suc (bs_reads s)\<rparr>)"

definition b_run :: "burn_env \<Rightarrow> string \<Rightarrow> string list \<Rightarrow> burn_state \<Rightarrow> proc_answer \<times> burn_state" where
  "b_run env bin args s = (bn_run env (bs_tr s) bin args, s\<lparr>bs_tr := bs_tr s @ [Cmd bin args]\<rparr>)"

section \<open>Commands (exec.go)\<close>

text \<open>\<open>runWithProcessGroup\<close>: a cancelled context gives its error and no result.\<close>

definition run_group :: "burn_env \<Rightarrow> string \<Rightarrow> string list \<Rightarrow> burn_state \<Rightarrow>
    ((string \<times> string) option \<times> go_error option) \<times> burn_state" where
  "run_group env name args s0 =
     (case b_run env name args s0 of
        (Proc out err e, s1) \<Rightarrow>
          (case b_ctx env s1 of
             (Some c, s2) \<Rightarrow> ((None, Some c), s2)
           | (None, s2) \<Rightarrow> ((Some (out, err), e), s2)))"

text \<open>\<open>stderrMessage\<close> reads the standard error of the result, and panics when there is none.\<close>

definition stderr_message :: "(string \<times> string) option \<Rightarrow> go_error \<Rightarrow> string \<Rightarrow> 'a go_result" where
  "stderr_message res e what =
     (case res of
        None \<Rightarrow> Panics
      | Some (out, err) \<Rightarrow>
          if trim_space err \<noteq> [] then Fails (PlainError (what @ '': '' @ trim_space err))
          else Fails (WrappedError (what @ '': '') e []))"

definition group_step :: "burn_env \<Rightarrow> string \<Rightarrow> string \<Rightarrow> string list \<Rightarrow> burn_state \<Rightarrow> unit go_result \<times> burn_state" where
  "group_step env what name args s =
     (case run_group env name args s of
        ((res, Some e), s') \<Rightarrow> (stderr_message res e what, s')
      | ((res, None), s') \<Rightarrow> (Ret (), s'))"

definition split_crlf :: "string \<Rightarrow> bool \<Rightarrow> nat \<times> string option" where
  "split_crlf data at_eof =
     (let crlf = (\<lambda>b. b = CHR 0x0D \<or> b = CHR 0x0A); t = takeWhile (\<lambda>b. \<not> crlf b) data in
      if length t < length data
      then (length t + length (takeWhile crlf (drop (length t) data)), Some t)
      else if at_eof \<and> data \<noteq> [] then (length data, Some data) else (0, None))"

function crlf_tokens :: "string \<Rightarrow> string list" where
  "crlf_tokens data =
     (case split_crlf data True of
        (n, Some t) \<Rightarrow> if n = 0 \<or> data = [] then [] else t # crlf_tokens (drop n data)
      | (n, None) \<Rightarrow> [])"
  by pat_completeness auto
termination
  by (relation "measure length") (auto simp: split_crlf_def Let_def)

declare crlf_tokens.simps [simp del]

section \<open>Identification (identify.go)\<close>

record drive_info =
  dr_path :: string
  dr_byid :: string
  dr_model :: string
  dr_serial :: string
  dr_capacity :: int
  dr_rotation :: string

definition is_ssd :: "drive_info \<Rightarrow> bool" where
  "is_ssd d \<longleftrightarrow> dr_rotation d = ''SSD''"

definition valid_device_path :: "string \<Rightarrow> bool" where
  "valid_device_path p \<longleftrightarrow> has_prefix p ''/dev/''"

definition run_smartctl :: "burn_env \<Rightarrow> string list \<Rightarrow> burn_state \<Rightarrow> (go_error + string) \<times> burn_state" where
  "run_smartctl env args s =
     (case b_run env ''smartctl'' args s of
        (Proc out err None, s') \<Rightarrow> (Inr out, s')
      | (Proc out err (Some e), s') \<Rightarrow>
          (if out \<noteq> [] then Inr out else Inl (WrappedError (''smartctl '' @ join_with '' '' args @ '': '') e []), s'))"

definition split_smart_line :: "string \<Rightarrow> (string \<times> string) option" where
  "split_smart_line line =
     (case str_index line '':'' of
        None \<Rightarrow> None
      | Some i \<Rightarrow> Some (trim_space (take i line), trim_space (drop (Suc i) line)))"

text \<open>\<open>strings.Split(s, sep)[0]\<close>.\<close>

definition before_sep :: "string \<Rightarrow> string \<Rightarrow> string" where
  "before_sep sep s = (case str_index s sep of None \<Rightarrow> s | Some i \<Rightarrow> take i s)"

definition parse_capacity_bytes :: "string \<Rightarrow> int" where
  "parse_capacity_bytes s =
     (let t = filter (\<lambda>c. c \<noteq> CHR '','' \<and> c \<noteq> CHR '' '') (trim_space (before_sep ''['' (before_sep ''bytes'' s)))
      in case atoi_full t of (n, None) \<Rightarrow> n | (_, Some _) \<Rightarrow> 0)"

definition identity_line :: "string \<Rightarrow> drive_info \<Rightarrow> drive_info" where
  "identity_line line d =
     (case split_smart_line line of
        None \<Rightarrow> d
      | Some (k, v) \<Rightarrow>
          if k \<in> {''Device Model'', ''Model Number'', ''Product''} then d\<lparr>dr_model := v\<rparr>
          else if k \<in> {''Serial Number'', ''Serial number''} then d\<lparr>dr_serial := v\<rparr>
          else if k = ''User Capacity'' then d\<lparr>dr_capacity := parse_capacity_bytes v\<rparr>
          else if k \<in> {''Total NVM Capacity'', ''Namespace 1 Size/Capacity''}
          then (if dr_capacity d = 0 then d\<lparr>dr_capacity := parse_capacity_bytes v\<rparr> else d)
          else if k = ''Rotation Rate''
          then d\<lparr>dr_rotation := (if str_contains (to_lower v) ''solid state'' then ''SSD'' else ''HDD'')\<rparr>
          else d)"

text \<open>The fallback for a smartctl without JSON. Its command fails without output only; a line of
  the output keeps no carriage return that the trimming would not remove.\<close>

definition query_smartctl_text :: "burn_env \<Rightarrow> drive_info \<Rightarrow> burn_state \<Rightarrow> (go_error + drive_info) \<times> burn_state" where
  "query_smartctl_text env d s =
     (case run_smartctl env [''-i'', dr_path d] s of
        (Inr out, s') \<Rightarrow>
          (let d' = fold identity_line (split_on (CHR 0x0A) out) d in
           (if dr_model d' = [] \<and> dr_serial d' = []
            then Inl (PlainError ''smartctl output contained no recognizable drive metadata'') else Inr d', s'))
      | (Inl e, s') \<Rightarrow> (Inl e, s'))"

definition query_smartctl_json :: "burn_env \<Rightarrow> drive_info \<Rightarrow> burn_state \<Rightarrow> (go_error + drive_info) \<times> burn_state" where
  "query_smartctl_json env d s =
     (case run_smartctl env [''-i'', ''--json'', dr_path d] s of
        (Inr out, s') \<Rightarrow>
          (case bn_identity env out of
             None \<Rightarrow> query_smartctl_text env d s'
           | Some i \<Rightarrow>
               (let d' = d\<lparr>dr_model := (if id_model i = [] then id_family i else id_model i), dr_serial := id_serial i,
                          dr_capacity := id_bytes i,
                          dr_rotation := (if id_rotation i = 0 then ''SSD'' else ''HDD'')\<rparr>
                in if dr_model d' = [] \<and> dr_serial d' = [] then query_smartctl_text env d' s' else (Inr d', s')))
      | (Inl e, s') \<Rightarrow> (Inl e, s'))"

definition resolve_drive :: "burn_env \<Rightarrow> string \<Rightarrow> burn_state \<Rightarrow> (go_error + drive_info) \<times> burn_state" where
  "resolve_drive env path s =
     (let clean = path_clean path in
      if \<not> valid_device_path clean then (Inl (PlainError (''invalid device path: '' @ go_quote path)), s)
      else case bn_link env (bs_tr s) clean of
        Inl e \<Rightarrow> (Inl (WrappedError (''resolving symlink '' @ clean @ '': '') e []), s)
      | Inr dev \<Rightarrow>
          (case query_smartctl_json env \<lparr>dr_path = dev, dr_byid = (if dev \<noteq> clean then clean else []), dr_model = [],
                    dr_serial = [], dr_capacity = 0, dr_rotation = []\<rparr> s of
             (Inl e, s') \<Rightarrow> (Inl (WrappedError (''querying SMART info for '' @ dev @ '': '') e []), s')
           | r \<Rightarrow> r))"

section \<open>The safety check (identify.go)\<close>

fun first_mount :: "string \<Rightarrow> string list \<Rightarrow> (string \<times> string) option" where
  "first_mount dev [] = None"
| "first_mount dev (line # lines) =
     (case str_fields line of
        d # p # _ \<Rightarrow>
          if d = dev \<or> has_prefix (path_base d) (path_base dev) then Some (d, p) else first_mount dev lines
      | _ \<Rightarrow> first_mount dev lines)"

definition check_not_mounted :: "burn_env \<Rightarrow> string \<Rightarrow> burn_state \<Rightarrow> go_error option" where
  "check_not_mounted env dev s =
     (case bn_mounts env (bs_tr s) of
        None \<Rightarrow> None
      | Some data \<Rightarrow>
          map_option (\<lambda>(d, p). PlainError (''device '' @ dev @ '' is mounted at '' @ p @ '' via '' @ d))
            (first_mount dev (split_on (CHR 0x0A) data)))"

definition vdev_matches :: "string \<Rightarrow> string \<Rightarrow> string \<Rightarrow> bool" where
  "vdev_matches base rbase v \<longleftrightarrow>
     v = base \<or> v = rbase \<or> has_prefix v base \<or> has_prefix v rbase \<or> str_contains v base"

fun first_vdev :: "string \<Rightarrow> string \<Rightarrow> string list \<Rightarrow> string option" where
  "first_vdev base rbase [] = None"
| "first_vdev base rbase (line # lines) =
     (case str_fields (trim_space line) of
        v # _ \<Rightarrow> if vdev_matches base rbase v then Some v else first_vdev base rbase lines
      | [] \<Rightarrow> first_vdev base rbase lines)"

definition check_not_zfs :: "burn_env \<Rightarrow> string \<Rightarrow> burn_state \<Rightarrow> go_error option \<times> burn_state" where
  "check_not_zfs env dev s =
     (case b_run env ''zpool'' [''status''] s of
        (Proc out err (Some e), s') \<Rightarrow> (None, s')
      | (Proc out err None, s') \<Rightarrow>
          (let rbase = path_base (case bn_link env (bs_tr s') dev of Inr p \<Rightarrow> p | Inl _ \<Rightarrow> []) in
           (map_option (\<lambda>v. PlainError (''device '' @ dev @ '' is part of an active ZFS pool (matched vdev '' @ go_quote v @ '')''))
              (first_vdev (path_base dev) rbase (split_on (CHR 0x0A) out)), s')))"

definition is_safe_target :: "burn_env \<Rightarrow> string \<Rightarrow> burn_state \<Rightarrow> go_error option \<times> burn_state" where
  "is_safe_target env path s =
     (let dev = path_clean path in
      case check_not_mounted env dev s of
        Some e \<Rightarrow> (Some e, s)
      | None \<Rightarrow> check_not_zfs env dev s)"

section \<open>SMART attributes (smart.go)\<close>

type_synonym smart_attrs = "int \<rightharpoonup> int"

record smart_snapshot =
  ss_device :: string
  ss_attrs :: smart_attrs

record smart_delta =
  dl_device :: string
  dl_deltas :: "(int \<times> int) list"
  dl_degraded :: bool

definition critical_attrs :: "int list" where
  "critical_attrs = [5, 196, 197, 198]"

definition attr_names :: "int \<Rightarrow> string" where
  "attr_names i =
     (if i = 5 then ''Reallocated_Sector_Ct'' else if i = 196 then ''Reallocated_Event_Count''
      else if i = 197 then ''Current_Pending_Sector'' else if i = 198 then ''Offline_Uncorrectable'' else [])"

text \<open>Reading a Go map gives zero for a missing key.\<close>

definition attr_of :: "smart_attrs \<Rightarrow> int \<Rightarrow> int" where
  "attr_of a i = (case a i of None \<Rightarrow> 0 | Some v \<Rightarrow> v)"

definition enriched_deltas :: "smart_snapshot option \<Rightarrow> smart_snapshot option \<Rightarrow> (string \<times> string \<times> int \<times> int) list" where
  "enriched_deltas base cur =
     map (\<lambda>i. (itoa i, attr_names i, case base of None \<Rightarrow> 0 | Some b \<Rightarrow> attr_of (ss_attrs b) i,
               case cur of None \<Rightarrow> 0 | Some c \<Rightarrow> attr_of (ss_attrs c) i)) critical_attrs"

definition compute_delta :: "smart_snapshot \<Rightarrow> smart_snapshot \<Rightarrow> smart_delta" where
  "compute_delta base cur =
     (let diff = (\<lambda>i. wrap64 (attr_of (ss_attrs cur) i - attr_of (ss_attrs base) i)) in
      \<lparr>dl_device = ss_device cur, dl_deltas = map (\<lambda>i. (i, diff i)) critical_attrs,
       dl_degraded = list_ex (\<lambda>i. diff i > 0) critical_attrs\<rparr>)"

text \<open>\<open>fmt.Sscanf(s, "%d", &v)\<close> on a word: an optional sign and digits; anything else leaves zero.\<close>

definition sscan_int :: "string \<Rightarrow> int" where
  "sscan_int s =
     (let neg = (s \<noteq> [] \<and> hd s = CHR ''-''); r = (if s \<noteq> [] \<and> (hd s = CHR ''-'' \<or> hd s = CHR ''+'') then tl s else s);
          ds = takeWhile is_digit r; n = (if neg then - dec_val ds else dec_val ds)
      in if ds \<noteq> [] \<and> fits_int64 n then n else 0)"

definition attrs_text_line :: "string \<Rightarrow> bool \<times> smart_attrs \<Rightarrow> bool \<times> smart_attrs" where
  "attrs_text_line line st =
     (let t = trim_space line; f = str_fields t in
      if has_prefix t ''ID#'' then (True, snd st)
      else if \<not> fst st \<or> t = [] \<or> length f < 10 then st
      else if sscan_int (f ! 0) \<in> set critical_attrs
      then (fst st, (snd st)(sscan_int (f ! 0) \<mapsto> sscan_int (f ! 9))) else st)"

definition parse_smart_attrs_text :: "string \<Rightarrow> smart_attrs" where
  "parse_smart_attrs_text data = snd (fold attrs_text_line (split_on (CHR 0x0A) data) (False, Map.empty))"

definition parse_smart_attrs_json :: "burn_env \<Rightarrow> string \<Rightarrow> smart_attrs option" where
  "parse_smart_attrs_json env data =
     (case bn_attrs env data of
        None \<Rightarrow> None
      | Some table \<Rightarrow>
          if table = [] then None
          else Some (fold (\<lambda>(i, v) a. if i \<in> set critical_attrs then a(i \<mapsto> v) else a) table Map.empty))"

definition read_smart_attrs :: "burn_env \<Rightarrow> string \<Rightarrow> burn_state \<Rightarrow> (go_error + smart_attrs) \<times> burn_state" where
  "read_smart_attrs env dev s =
     (case run_smartctl env [''-A'', ''--json'', dev] s of
        (Inr out, s') \<Rightarrow>
          (Inr (case parse_smart_attrs_json env out of Some a \<Rightarrow> a | None \<Rightarrow> parse_smart_attrs_text out), s')
      | (Inl e, s') \<Rightarrow> (Inl (WrappedError (''reading SMART attributes for '' @ dev @ '': '') e []), s'))"

definition take_snapshot :: "burn_env \<Rightarrow> string \<Rightarrow> burn_state \<Rightarrow> (go_error + smart_snapshot) \<times> burn_state" where
  "take_snapshot env dev s =
     (if \<not> valid_device_path dev then (Inl (PlainError (''invalid device path: '' @ go_quote dev)), s)
      else case read_smart_attrs env dev s of
        (Inr a, s') \<Rightarrow> (Inr \<lparr>ss_device = dev, ss_attrs = a\<rparr>, s')
      | (Inl e, s') \<Rightarrow> (Inl e, s'))"

section \<open>Self-tests (smart.go)\<close>

record test_result =
  tt_passed :: bool
  tt_status :: string

definition minute_interval :: "int \<Rightarrow> int" where
  "minute_interval m = wrap64 (m * 60000000000)"

definition get_polling_time :: "burn_env \<Rightarrow> string \<Rightarrow> string \<Rightarrow> burn_state \<Rightarrow> (go_error + int) \<times> burn_state" where
  "get_polling_time env dev ty s =
     (case run_smartctl env [''-c'', ''--json'', dev] s of
        (Inr out, s') \<Rightarrow>
          (case bn_polling env out of
             Inl e \<Rightarrow> (Inl (WrappedError ''parsing smartctl capabilities: '' e []), s')
           | Inr (short, long) \<Rightarrow>
               (let m = (if ty = ''short'' then short else if ty = ''long'' then long else 0) in
                (if m \<le> 0 then Inl (PlainError (''no polling time available for '' @ ty @ '' test''))
                 else Inr (minute_interval m), s')))
      | (Inl e, s') \<Rightarrow> (Inl e, s'))"

text \<open>The estimated duration of a test, with the defaults for a drive that gives none.\<close>

definition poll_interval :: "string \<Rightarrow> (go_error + int) \<Rightarrow> int" where
  "poll_interval ty r =
     (case r of Inr d \<Rightarrow> d | _ \<Rightarrow> if ty = ''short'' then minute_interval 2 else minute_interval 120)"

text \<open>Whether the latest test is done, whether it passed, and its status.\<close>

definition check_test_text :: "string \<Rightarrow> bool \<times> bool \<times> string" where
  "check_test_text t =
     (if str_contains t ''Self-test routine in progress'' \<or> str_contains t ''% of test remaining''
      then (False, False, ''test in progress'')
      else if str_contains t ''Completed without error'' then (True, True, ''completed without error'')
      else if str_contains t ''Completed'' then (True, False, ''completed with errors'')
      else (True, True, ''no test entries found''))"

definition check_test_complete :: "burn_env \<Rightarrow> string \<Rightarrow> burn_state \<Rightarrow> (go_error + (bool \<times> bool \<times> string)) \<times> burn_state" where
  "check_test_complete env dev s =
     (case run_smartctl env [''-l'', ''selftest'', ''--json'', dev] s of
        (Inr out, s') \<Rightarrow>
          (Inr (case bn_selftest env out of
             None \<Rightarrow> check_test_text out
           | Some [] \<Rightarrow> (False, False, ''no test entries'')
           | Some ((passed, st) # _) \<Rightarrow>
               if str_contains (to_lower st) ''in progress'' \<or> str_contains (to_lower st) ''% remaining''
               then (False, False, st) else (True, passed, st)), s')
      | (Inl e, s') \<Rightarrow> (Inl e, s'))"

text \<open>The abort that a cancelled context triggers; it is put where the wait notices it.\<close>

definition abort_self_test :: "burn_env \<Rightarrow> string \<Rightarrow> burn_state \<Rightarrow> burn_state" where
  "abort_self_test env dev s = snd (b_run env ''smartctl'' [''-X'', dev] s)"

definition await_test :: "burn_env \<Rightarrow> string \<Rightarrow> burn_state \<Rightarrow> go_error option \<times> burn_state" where
  "await_test env dev s =
     (case b_ctx env s of
        (Some e, s') \<Rightarrow> (Some e, abort_self_test env dev s')
      | (None, s') \<Rightarrow> (None, s'))"

text \<open>The polling loop ends only when the drive reports the test as done, reading its log fails, or
  the context is cancelled; \<open>None\<close> is the loop that never ends.\<close>

partial_function (option) poll_self_test :: "burn_env \<Rightarrow> string \<Rightarrow> string \<Rightarrow> burn_state \<Rightarrow>
    ((go_error + test_result) \<times> burn_state) option" where
  "poll_self_test env dev ty s =
     (case check_test_complete env dev s of
        (Inr (done, passed, st), s1) \<Rightarrow>
          if done then Some (Inr \<lparr>tt_passed = passed, tt_status = st\<rparr>, s1)
          else (case await_test env dev s1 of
                  (Some e, s2) \<Rightarrow> Some (Inl e, s2)
                | (None, s2) \<Rightarrow> poll_self_test env dev ty s2)
      | (Inl e, s1) \<Rightarrow> Some (Inl (WrappedError (''checking test status on '' @ dev @ '': '') e []), s1))"

definition run_self_test :: "burn_env \<Rightarrow> string \<Rightarrow> string \<Rightarrow> burn_state \<Rightarrow>
    ((go_error + test_result) \<times> burn_state) option" where
  "run_self_test env dev ty s0 =
     (if \<not> valid_device_path dev then Some (Inl (PlainError (''invalid device path: '' @ go_quote dev)), s0)
      else
        let (_, s1) = get_polling_time env dev ty s0 in
        case run_smartctl env [''--test='' @ ty, dev] s1 of
          (Inl e, s2) \<Rightarrow>
            Some (Inl (WrappedError (''starting '' @ ty @ '' self-test on '' @ dev @ '': '') e []), s2)
        | (Inr out, s2) \<Rightarrow>
            (case await_test env dev s2 of
               (Some e, s3) \<Rightarrow> Some (Inl e, s3)
             | (None, s3) \<Rightarrow> poll_self_test env dev ty s3))"

section \<open>Badblocks (badblocks.go)\<close>

definition safe_device_name :: "string \<Rightarrow> string" where
  "safe_device_name dev =
     map (\<lambda>c. let n = (of_char c :: int) in
            if (97 \<le> n \<and> n \<le> 122) \<or> (65 \<le> n \<and> n \<le> 90) \<or> (48 \<le> n \<and> n \<le> 57) \<or> c = CHR ''-'' \<or> c = CHR ''_''
            then c else CHR ''_'') (path_base dev)"

definition re_digits :: regex where
  "re_digits = re_plus re_digit"

definition is_hex :: "char \<Rightarrow> bool" where
  "is_hex c \<longleftrightarrow> (let n = (of_char c :: int) in
     is_digit c \<or> (97 \<le> n \<and> n \<le> 102) \<or> (65 \<le> n \<and> n \<le> 70))"

definition bb_progress_regex :: regex where
  "bb_progress_regex = re_seq
     [Alt (re_seq [re_lit ''Writing pattern '', Cap 1 (Seq (re_lit ''0x'') (re_plus is_hex))])
          (re_lit ''Reading and comparing''),
      re_lit '':'', re_plus re_space,
      Cap 2 (re_seq [re_digits, re_opt (re_lit ''.''), re_star re_digit]), re_lit ''% done'',
      Star False (Cls re_any), re_lit ''('', Cap 3 re_digits, re_lit ''/'', Cap 4 re_digits, re_lit ''/'', Cap 5 re_digits,
      re_lit '' errors)'']"

text \<open>The errors of a progress line, whose kinds are added up at the width of the machine.\<close>

definition bb_errors_line :: "string \<Rightarrow> int \<Rightarrow> int" where
  "bb_errors_line line n =
     (case find_submatch bb_progress_regex line of
        Some m \<Rightarrow> wrap64 (atoi (m 3) + atoi (m 4) + atoi (m 5))
      | None \<Rightarrow> n)"

definition parse_bb_stderr :: "string \<Rightarrow> int" where
  "parse_bb_stderr err = fold bb_errors_line (crlf_tokens err) 0"

definition count_stdout_errors :: "string \<Rightarrow> int \<Rightarrow> int" where
  "count_stdout_errors out n =
     (let c = int (length (filter (\<lambda>l. trim_space l \<noteq> []) (split_on (CHR 0x0A) out))) in if c > n then c else n)"

definition badblocks_args :: "string \<Rightarrow> int \<Rightarrow> int \<Rightarrow> bool \<Rightarrow> string \<Rightarrow> string list" where
  "badblocks_args dev bsize conc abort_on logfile =
     [''-b'', itoa (if bsize \<le> 0 then 4096 else bsize), ''-c'', itoa (if conc \<le> 0 then 65536 else conc), ''-wsv'',
      ''-e'', if abort_on then ''1'' else ''0'', ''-o'', logfile, dev]"

text \<open>The number of bad blocks; the two readers of the output are taken one after the other.\<close>

definition run_badblocks :: "burn_env \<Rightarrow> string \<Rightarrow> int \<Rightarrow> int \<Rightarrow> bool \<Rightarrow> string \<Rightarrow> burn_state \<Rightarrow>
    (go_error + int) \<times> burn_state" where
  "run_badblocks env dev bsize conc abort_on logdir s0 =
     (if \<not> valid_device_path dev then (Inl (PlainError (''invalid device path: '' @ go_quote dev)), s0)
      else
        let logfile = path_join logdir (''badblocks-'' @ safe_device_name dev @ ''.log'') in
        case b_run env ''badblocks'' (badblocks_args dev bsize conc abort_on logfile) s0 of
          (Proc out err e, s1) \<Rightarrow>
            (let errs = count_stdout_errors out (parse_bb_stderr err) in
             case b_ctx env s1 of
               (Some c, s2) \<Rightarrow> (Inl c, s2)
             | (None, s2) \<Rightarrow>
                 (case e of
                    None \<Rightarrow> (Inr errs, s2)
                  | Some x \<Rightarrow> if errs > 0 then (Inr errs, s2)
                             else (Inl (WrappedError ''badblocks exited: '' x []), s2))))"

section \<open>Partitioning, formatting and verification\<close>

definition gpt_type_code :: "string \<Rightarrow> string" where
  "gpt_type_code fs =
     (if fs = ''fat32'' then ''EF00'' else if fs = ''linux-swap'' then ''8200''
      else if fs = ''raw'' then ''BF00'' else ''8300'')"

definition infer_partition_path :: "string \<Rightarrow> int \<Rightarrow> string" where
  "infer_partition_path dev n =
     (if str_contains dev ''nvme'' \<or> str_contains dev ''loop'' then dev @ ''p'' @ itoa n else dev @ itoa n)"

definition run_sgdisk :: "burn_env \<Rightarrow> string \<Rightarrow> string list \<Rightarrow> burn_state \<Rightarrow> unit go_result \<times> burn_state" where
  "run_sgdisk env dev args s = group_step env (''sgdisk '' @ join_with '' '' args) ''sgdisk'' (args @ [dev]) s"

definition new_partition_arg :: "string \<Rightarrow> int \<Rightarrow> string" where
  "new_partition_arg fs reserved =
     (if fs = ''raw'' \<and> reserved > 0 then ''--new=1:0:-'' @ itoa reserved @ ''%'' else ''--new=1:0:0'')"

text \<open>The path of the new partition; the verification of the table may only panic.\<close>

definition partition_gpt :: "burn_env \<Rightarrow> string \<Rightarrow> string \<Rightarrow> int \<Rightarrow> burn_state \<Rightarrow> string go_result \<times> burn_state" where
  "partition_gpt env dev fs0 reserved s0 =
     (if \<not> valid_device_path dev then (Fails (PlainError (''invalid device path: '' @ go_quote dev)), s0)
      else case is_safe_target env dev s0 of
        (Some e, s1) \<Rightarrow> (Fails (WrappedError ''safety check before partitioning: '' e []), s1)
      | (None, s1) \<Rightarrow>
          (let fs = (if fs0 = [] then ''ext4'' else fs0) in
           case run_sgdisk env dev [''--zap-all''] s1 of
             (Panics, s2) \<Rightarrow> (Panics, s2)
           | (Fails e, s2) \<Rightarrow> (Fails (WrappedError ''wiping partition table: '' e []), s2)
           | (Ret _, s2) \<Rightarrow>
               (case run_sgdisk env dev [new_partition_arg fs reserved, ''--typecode=1:'' @ gpt_type_code fs] s2 of
                  (Panics, s3) \<Rightarrow> (Panics, s3)
                | (Fails e, s3) \<Rightarrow> (Fails (WrappedError ''creating GPT partition: '' e []), s3)
                | (Ret _, s3) \<Rightarrow>
                    (case run_sgdisk env dev [''--verify''] s3 of
                       (Panics, s4) \<Rightarrow> (Panics, s4)
                     | (_, s4) \<Rightarrow> (Ret (infer_partition_path dev 1), s4)))))"

record format_result =
  fr_partition :: string
  fr_filesystem :: string
  fr_reserved :: int

definition format_simple :: "burn_env \<Rightarrow> string \<Rightarrow> string \<Rightarrow> string \<Rightarrow> string list \<Rightarrow> burn_state \<Rightarrow>
    format_result go_result \<times> burn_state" where
  "format_simple env part fs cmd args s =
     (case run_group env cmd args s of
        ((None, Some e), s') \<Rightarrow> (Panics, s')
      | ((Some (out, err), Some e), s') \<Rightarrow>
          (let combined = trim_space (out @ [CHR 0x0A] @ err) in
           (if combined \<noteq> [] then Fails (PlainError (cmd @ '' failed: '' @ combined))
            else Fails (WrappedError (cmd @ '' failed: '') e []), s'))
      | ((_, None), s') \<Rightarrow> (Ret \<lparr>fr_partition = part, fr_filesystem = fs, fr_reserved = 0\<rparr>, s'))"

definition format_ext4 :: "burn_env \<Rightarrow> string \<Rightarrow> int \<Rightarrow> burn_state \<Rightarrow> format_result go_result \<times> burn_state" where
  "format_ext4 env part reserved s0 =
     (if reserved < 0 \<or> reserved > 50
      then (Fails (PlainError (''reserved percentage must be 0-50, got '' @ itoa reserved)), s0)
      else case b_run env ''mkfs.ext4'' [''-F'', ''-T'', ''largefile4'', ''-m'', itoa reserved, part] s0 of
        (Proc out err e, s1) \<Rightarrow>
          (case b_ctx env s1 of
             (Some c, s2) \<Rightarrow> (Fails c, s2)
           | (None, s2) \<Rightarrow>
               (case e of
                  None \<Rightarrow> (Ret \<lparr>fr_partition = part, fr_filesystem = ''ext4'', fr_reserved = reserved\<rparr>, s2)
                | Some x \<Rightarrow>
                    if trim_space err \<noteq> [] then (Fails (PlainError (''mkfs.ext4 failed: '' @ trim_space err)), s2)
                    else (Fails (WrappedError ''mkfs.ext4 failed: '' x []), s2))))"

definition format_partition :: "burn_env \<Rightarrow> string \<Rightarrow> string \<Rightarrow> int \<Rightarrow> burn_state \<Rightarrow>
    format_result go_result \<times> burn_state" where
  "format_partition env part fs reserved s =
     (if \<not> valid_device_path part then (Fails (PlainError (''invalid partition path: '' @ go_quote part)), s)
      else if fs = ''ext4'' then format_ext4 env part reserved s
      else if fs = ''xfs'' then format_simple env part fs ''mkfs.xfs'' [''-f'', part] s
      else if fs = ''btrfs'' then format_simple env part fs ''mkfs.btrfs'' [''-f'', part] s
      else if fs = ''fat32'' then format_simple env part fs ''mkfs.fat'' [''-F'', ''32'', part] s
      else if fs = ''linux-swap'' then format_simple env part fs ''mkswap'' [part] s
      else if fs = ''raw'' then (Ret \<lparr>fr_partition = part, fr_filesystem = fs, fr_reserved = 0\<rparr>, s)
      else (Fails (PlainError (''unsupported filesystem: '' @ go_quote fs)), s))"

definition infer_device_from_partition :: "string \<Rightarrow> string" where
  "infer_device_from_partition p =
     (let digits = rev (dropWhile is_digit (rev p)) in
      case last_index_byte p (CHR ''p'') of
        Some i \<Rightarrow>
          if i > 0 \<and> (str_contains (take i p) ''nvme'' \<or> str_contains (take i p) ''loop'') then take i p else digits
      | None \<Rightarrow> digits)"

record verify_result =
  vr_partition :: string
  vr_mount :: bool
  vr_metadata :: bool
  vr_delta :: "smart_delta option"
  vr_smart :: bool

text \<open>The unmounting, which the context cannot cancel.\<close>

definition run_umount :: "burn_env \<Rightarrow> string \<Rightarrow> burn_state \<Rightarrow> go_error option \<times> burn_state" where
  "run_umount env dir s =
     (case b_run env ''umount'' [dir] s of
        (Proc out err None, s') \<Rightarrow> (None, s')
      | (Proc out err (Some e), s') \<Rightarrow>
          (Some (if trim_space err \<noteq> [] then PlainError (''umount: '' @ trim_space err) else WrappedError ''umount: '' e []), s'))"

definition check_metadata :: "burn_env \<Rightarrow> string \<Rightarrow> burn_state \<Rightarrow> unit go_result \<times> burn_state" where
  "check_metadata env part s =
     (case run_group env ''dumpe2fs'' [''-h'', part] s of
        ((res, Some e), s') \<Rightarrow> (stderr_message res e ''dumpe2fs'', s')
      | ((Some (out, err), None), s') \<Rightarrow>
          (if str_contains out ''Filesystem state:'' \<and> \<not> str_contains out ''clean''
           then Fails (PlainError ''filesystem is not in clean state'') else Ret (), s')
      | ((None, None), s') \<Rightarrow> (Ret (), s'))"

text \<open>The post-format snapshot and the deferred unmounting, which runs a second time.\<close>

definition verify_smart :: "burn_env \<Rightarrow> string \<Rightarrow> smart_snapshot option \<Rightarrow> burn_state \<Rightarrow>
    verify_result go_result \<times> burn_state" where
  "verify_smart env part base s =
     (case base of
        None \<Rightarrow> (Ret \<lparr>vr_partition = part, vr_mount = True, vr_metadata = True, vr_delta = None, vr_smart = True\<rparr>, s)
      | Some b \<Rightarrow>
          (case take_snapshot env (infer_device_from_partition part) s of
             (Inr post, s') \<Rightarrow>
               (Ret \<lparr>vr_partition = part, vr_mount = True, vr_metadata = True, vr_delta = Some (compute_delta b post),
                     vr_smart = (\<not> dl_degraded (compute_delta b post))\<rparr>, s')
           | (Inl e, s') \<Rightarrow> (Fails (WrappedError ''post-format SMART snapshot failed: '' e []), s')))"

definition verify_filesystem :: "burn_env \<Rightarrow> string \<Rightarrow> smart_snapshot option \<Rightarrow> burn_state \<Rightarrow>
    verify_result go_result \<times> burn_state" where
  "verify_filesystem env part base s0 =
     (if \<not> valid_device_path part then (Fails (PlainError (''invalid partition path: '' @ go_quote part)), s0)
      else case bn_tmpdir env (bs_tr s0) of
        Inl e \<Rightarrow> (Fails (WrappedError ''creating temp mount dir: '' e []), s0)
      | Inr dir \<Rightarrow>
          (case group_step env ''mount'' ''mount'' [''-o'', ''ro'', part, dir] s0 of
             (Panics, s1) \<Rightarrow> (Panics, s1)
           | (Fails e, s1) \<Rightarrow> (Fails (WrappedError ''read-only mount failed: '' e []), s1)
           | (Ret _, s1) \<Rightarrow>
               (case (case check_metadata env part s1 of
                        (Panics, s2) \<Rightarrow> (Panics, s2)
                      | (Fails e, s2) \<Rightarrow> (Fails (WrappedError ''metadata check failed: '' e []), s2)
                      | (Ret _, s2) \<Rightarrow>
                          (case run_umount env dir s2 of
                             (Some e, s3) \<Rightarrow> (Fails (WrappedError ''unmount failed: '' e []), s3)
                           | (None, s3) \<Rightarrow> verify_smart env part base s3)) of
                  (r, s4) \<Rightarrow> (r, snd (run_umount env dir s4)))))"

end
