(* ===== verification/BurnJobs.thy ===== *)
theory BurnJobs
  imports BurnDrive
begin

text \<open>
  The orchestrators of the burn-in agent (\<^verbatim>\<open>burn-in/internal/jobs\<close>): the frames and log lines a job
  sends, the five phases of a burn-in (\<^verbatim>\<open>burnin.go\<close>) and of a pre-clear (\<^verbatim>\<open>preclear.go\<close>). What the
  progress callbacks of a phase send, the temperature and the local log file are left out, as
  are the durations at the end of a message; the telemetry sink is present and its errors, which
  are only logged, are left out too.
\<close>

section \<open>Frames and log lines (emitter.go)\<close>

definition emit_progress :: "string \<Rightarrow> string \<Rightarrow> int \<Rightarrow> int \<Rightarrow> delta_payload \<Rightarrow> burn_state \<Rightarrow> burn_state" where
  "emit_progress ph detail pct errs deltas s = s\<lparr>bs_out := bs_out s @ [Progress ph detail pct errs deltas]\<rparr>"

definition emit_log :: "string \<Rightarrow> string \<Rightarrow> burn_state \<Rightarrow> burn_state" where
  "emit_log sev msg s = s\<lparr>bs_out := bs_out s @ [LogLine sev msg]\<rparr>"

definition emit_phase :: "string \<Rightarrow> string \<Rightarrow> int \<Rightarrow> burn_state \<Rightarrow> burn_state" where
  "emit_phase ph detail pct s = emit_progress ph detail pct 0 NoDeltas s"

definition emit_phase_complete :: "string \<Rightarrow> burn_state \<Rightarrow> burn_state" where
  "emit_phase_complete ph s = emit_log ''info'' (''phase '' @ ph @ '' complete'') s"

definition emit_smart_warning :: "smart_delta \<Rightarrow> burn_state \<Rightarrow> burn_state" where
  "emit_smart_warning d s =
     emit_progress ''SMART_WARNING'' ''attribute degradation detected'' 0 0 (RawDeltas (dl_deltas d)) s"

definition emit_complete :: "string \<Rightarrow> int \<Rightarrow> delta_payload \<Rightarrow> burn_state \<Rightarrow> burn_state" where
  "emit_complete detail errs deltas s = emit_progress ''COMPLETE'' detail 100 errs deltas s"

definition marshal_enriched :: "smart_snapshot option \<Rightarrow> smart_snapshot option \<Rightarrow> delta_payload" where
  "marshal_enriched base cur = Enriched (enriched_deltas base cur)"

section \<open>Burn-in (burnin.go)\<close>

record burnin_params =
  bp_block :: int
  bp_conc :: int
  bp_abort :: bool
  bp_logdir :: string

record burnin_result =
  br_passed :: bool
  br_reason :: string
  br_drive :: "drive_info option"
  br_baseline :: "smart_snapshot option"
  br_final :: "smart_snapshot option"
  br_delta :: "smart_delta option"
  br_errors :: int
  br_short :: "test_result option"
  br_long :: "test_result option"

record burnin_job =
  bu_params :: burnin_params
  bu_result :: burnin_result
  bu_base :: "smart_snapshot option"
  bu_deltas :: delta_payload

definition new_burnin_job :: "burnin_params \<Rightarrow> burnin_job" where
  "new_burnin_job ps =
     \<lparr>bu_params = ps,
      bu_result = \<lparr>br_passed = True, br_reason = [], br_drive = None, br_baseline = None, br_final = None,
        br_delta = None, br_errors = 0, br_short = None, br_long = None\<rparr>,
      bu_base = None, bu_deltas = NoDeltas\<rparr>"

type_synonym phase_end = "go_error option \<times> burnin_job \<times> burn_state"

definition fail_job :: "string \<Rightarrow> delta_payload \<Rightarrow> string \<Rightarrow> burnin_job \<Rightarrow> burn_state \<Rightarrow> phase_end" where
  "fail_job ph deltas msg j s =
     (let r = (bu_result j)\<lparr>br_passed := False, br_reason := msg\<rparr> in
      (Some (PlainError (''['' @ ph @ ''] '' @ msg)), j\<lparr>bu_result := r\<rparr>,
       emit_complete msg (br_errors r) deltas (emit_log ''error'' msg s)))"

definition ctx_end :: "burn_env \<Rightarrow> burnin_job \<Rightarrow> burn_state \<Rightarrow> phase_end" where
  "ctx_end env j s = (case b_ctx env s of (e, s') \<Rightarrow> (e, j, s'))"

definition job_device :: "burnin_job \<Rightarrow> string" where
  "job_device j = (case br_drive (bu_result j) of Some d \<Rightarrow> dr_path d | None \<Rightarrow> [])"

definition drive_text :: "drive_info \<Rightarrow> string" where
  "drive_text d = dr_path d @ '' model='' @ dr_model d @ '' serial='' @ dr_serial d"

definition burnin_preflight :: "burn_env \<Rightarrow> string \<Rightarrow> burnin_job \<Rightarrow> burn_state \<Rightarrow> phase_end" where
  "burnin_preflight env path j0 s0 =
     (case resolve_drive env path (emit_phase ''PRE-FLIGHT'' ''resolving device'' 0 s0) of
        (Inl e, s1) \<Rightarrow> fail_job ''PRE-FLIGHT'' NoDeltas (''device resolution failed: '' @ error_text e) j0 s1
      | (Inr d, s1) \<Rightarrow>
          (let j1 = j0\<lparr>bu_result := (bu_result j0)\<lparr>br_drive := Some d\<rparr>\<rparr>;
               s2 = emit_log ''info'' (''device resolved: '' @ drive_text d @ '' rotation='' @ dr_rotation d) s1;
               s3 = emit_phase ''PRE-FLIGHT'' ''safety check'' 5 (s2\<lparr>bs_poller := True, bs_heart := True\<rparr>)
           in case is_safe_target env (dr_path d) s3 of
                (Some e, s4) \<Rightarrow> fail_job ''PRE-FLIGHT'' NoDeltas (''safety check failed: '' @ error_text e) j1 s4
              | (None, s4) \<Rightarrow>
                  (case take_snapshot env (dr_path d) (emit_phase ''PRE-FLIGHT'' ''baseline SMART snapshot'' 10 s4) of
                     (Inl e, s5) \<Rightarrow> fail_job ''PRE-FLIGHT'' NoDeltas (''baseline snapshot failed: '' @ error_text e) j1 s5
                   | (Inr b, s5) \<Rightarrow>
                       (let deltas = marshal_enriched (Some b) (Some b);
                            j2 = j1\<lparr>bu_result := (bu_result j1)\<lparr>br_baseline := Some b\<rparr>, bu_base := Some b, bu_deltas := deltas\<rparr>
                        in ctx_end env j2
                             (emit_phase_complete ''PRE-FLIGHT''
                               (emit_progress ''PRE-FLIGHT'' ''baseline captured'' 12 0 deltas
                                 (emit_log ''info'' ''baseline SMART snapshot captured'' s5)))))))"

text \<open>The warning after a snapshot that shows degradation.\<close>

definition degradation_warning :: "string \<Rightarrow> smart_delta \<Rightarrow> burn_state \<Rightarrow> burn_state" where
  "degradation_warning msg d s =
     (if dl_degraded d then emit_smart_warning d (emit_log ''warning'' msg s) else s)"

definition burnin_short :: "burn_env \<Rightarrow> burnin_job \<Rightarrow> burn_state \<Rightarrow> phase_end option" where
  "burnin_short env j0 s0 =
     (let dev = job_device j0;
          s1 = emit_log ''info'' (''starting SMART short test on '' @ dev @ '' (typically takes 1-2 minutes)'')
                 (emit_phase ''SMART_SHORT'' ''starting short test'' 15 s0)
      in case run_self_test env dev ''short'' s1 of
           None \<Rightarrow> None
         | Some (Inl e, s2) \<Rightarrow>
             Some (fail_job ''SMART_SHORT'' (bu_deltas j0) (''short test failed: '' @ error_text e) j0 s2)
         | Some (Inr t, s2) \<Rightarrow>
             (let j1 = j0\<lparr>bu_result := (bu_result j0)\<lparr>br_short := Some t\<rparr>\<rparr>;
                  s3 = (if tt_passed t then s2
                        else emit_log ''warning'' (''SMART short test reported failure: '' @ tt_status t) s2);
                  s4 = emit_phase ''SMART_SHORT'' ''post-short snapshot'' 20 s3;
                  (j2, s5) =
                    (case (take_snapshot env dev s4, bu_base j1) of
                       ((Inr p, s'), Some b) \<Rightarrow>
                         (j1\<lparr>bu_deltas := marshal_enriched (Some b) (Some p)\<rparr>,
                          degradation_warning ''SMART degradation detected after short test'' (compute_delta b p) s')
                     | ((Inr p, s'), None) \<Rightarrow> (j1, s')
                     | ((Inl e, s'), _) \<Rightarrow>
                         (j1, emit_log ''warning'' (''post-short snapshot failed: '' @ error_text e) s'))
              in Some (ctx_end env j2
                   (emit_phase_complete ''SMART_SHORT''
                     (emit_progress ''SMART_SHORT'' ''post-short snapshot'' 24 0 (bu_deltas j2) s5)))))"

definition bad_blocks_text :: "int \<Rightarrow> string" where
  "bad_blocks_text n = ''badblocks found '' @ itoa n @ '' error(s)''"

definition burnin_badblocks :: "burn_env \<Rightarrow> burnin_job \<Rightarrow> burn_state \<Rightarrow> phase_end" where
  "burnin_badblocks env j0 s0 =
     (let dev = job_device j0; ps = bu_params j0;
          s1 = emit_log ''info'' (''starting BADBLOCKS phase on '' @ dev @
                 '' (duration depends on drive size, may take many hours for large drives)'')
                 (emit_phase ''BADBLOCKS'' ''preparing'' 25 s0)
      in if (case br_drive (bu_result j0) of Some d \<Rightarrow> is_ssd d | None \<Rightarrow> False)
         then ctx_end env j0 (emit_phase_complete ''BADBLOCKS''
                (emit_log ''info'' ''SKIPPED: badblocks for SSD device (SSD detected)'' s1))
         else case (if bp_logdir ps = [] then None else bn_mkdir env (bs_tr s1)) of
           Some e \<Rightarrow> fail_job ''BADBLOCKS'' (bu_deltas j0) (''cannot create log dir: '' @ error_text e) j0 s1
         | None \<Rightarrow>
             (case run_badblocks env dev (bp_block ps) (bp_conc ps) (bp_abort ps) (bp_logdir ps) s1 of
                (Inl e, s2) \<Rightarrow>
                  (case b_ctx env s2 of
                     (Some c, s3) \<Rightarrow> (Some c, j0, s3)
                   | (None, s3) \<Rightarrow>
                       fail_job ''BADBLOCKS'' (bu_deltas j0) (''badblocks failed: '' @ error_text e) j0 s3)
              | (Inr n, s2) \<Rightarrow>
                  (let j1 = j0\<lparr>bu_result := (bu_result j0)\<lparr>br_errors := n\<rparr>\<rparr> in
                   if n > 0 then
                     let s3 = emit_log ''error'' (bad_blocks_text n) s2 in
                     if bp_abort ps
                     then fail_job ''BADBLOCKS'' (bu_deltas j1) (bad_blocks_text n) j1
                            (emit_phase_complete ''BADBLOCKS'' s3)
                     else ctx_end env j1 (emit_phase_complete ''BADBLOCKS'' s3)
                   else ctx_end env j1 (emit_phase_complete ''BADBLOCKS''
                          (emit_log ''info'' ''badblocks completed with zero errors'' s2)))))"

definition burnin_extended :: "burn_env \<Rightarrow> burnin_job \<Rightarrow> burn_state \<Rightarrow> phase_end option" where
  "burnin_extended env j0 s0 =
     (let dev = job_device j0;
          s1 = emit_log ''info'' (''starting SMART extended test on '' @ dev @
                 '' (typically takes 1-8 hours depending on drive capacity)'')
                 (emit_phase ''SMART_EXTENDED'' ''starting extended test'' 75 s0)
      in case run_self_test env dev ''long'' s1 of
           None \<Rightarrow> None
         | Some (Inl e, s2) \<Rightarrow>
             Some (fail_job ''SMART_EXTENDED'' (bu_deltas j0) (''extended test failed: '' @ error_text e) j0 s2)
         | Some (Inr t, s2) \<Rightarrow>
             (let j1 = j0\<lparr>bu_result := (bu_result j0)\<lparr>br_long := Some t\<rparr>\<rparr>;
                  s3 = (if tt_passed t then s2
                        else emit_log ''warning'' (''SMART extended test reported failure: '' @ tt_status t) s2);
                  s4 = emit_phase ''SMART_EXTENDED'' ''final snapshot'' 90 s3;
                  (j2, s5) =
                    (case (take_snapshot env dev s4, bu_base j1) of
                       ((Inr p, s'), Some b) \<Rightarrow>
                         (j1\<lparr>bu_result := (bu_result j1)\<lparr>br_final := Some p, br_delta := Some (compute_delta b p)\<rparr>,
                             bu_deltas := marshal_enriched (Some b) (Some p)\<rparr>,
                          degradation_warning ''SMART degradation detected in final snapshot'' (compute_delta b p) s')
                     | ((Inr p, s'), None) \<Rightarrow> (j1, s')
                     | ((Inl e, s'), _) \<Rightarrow>
                         (j1, emit_log ''warning'' (''final SMART snapshot failed: '' @ error_text e) s'))
              in Some (ctx_end env j2
                   (emit_phase_complete ''SMART_EXTENDED''
                     (emit_progress ''SMART_EXTENDED'' ''final snapshot'' 94 0 (bu_deltas j2) s5)))))"

text \<open>The verdict of \<open>complete\<close>.\<close>

definition add_reason :: "string \<Rightarrow> string \<Rightarrow> string" where
  "add_reason old new = (if old \<noteq> [] then old @ ''; '' @ new else new)"

definition failed_test :: "test_result option \<Rightarrow> bool" where
  "failed_test t = (case t of Some r \<Rightarrow> \<not> tt_passed r | None \<Rightarrow> False)"

definition burnin_verdict :: "burnin_result \<Rightarrow> burnin_result" where
  "burnin_verdict r0 =
     (let r1 = (if failed_test (br_short r0) \<or> failed_test (br_long r0)
                then r0\<lparr>br_passed := False, br_reason := ''SMART self-test failure''\<rparr> else r0);
          r2 = (if (case br_delta r1 of Some d \<Rightarrow> dl_degraded d | None \<Rightarrow> False)
                then r1\<lparr>br_passed := False, br_reason := add_reason (br_reason r1) ''SMART attribute degradation''\<rparr>
                else r1)
      in if br_errors r2 > 0
         then r2\<lparr>br_passed := False, br_reason := add_reason (br_reason r2) (itoa (br_errors r2) @ '' bad block(s)'')\<rparr>
         else r2)"

definition burnin_complete :: "burnin_job \<Rightarrow> burn_state \<Rightarrow> burnin_job \<times> burn_state" where
  "burnin_complete j s =
     (let r = burnin_verdict (bu_result j); name = (case br_drive r of Some d \<Rightarrow> dr_path d @ '' ('' @ dr_serial d @ '')'' | None \<Rightarrow> []);
          s1 = (if br_passed r
                then emit_complete ''burn-in passed'' (br_errors r) (bu_deltas j)
                       (emit_log ''info'' (''burn-in PASSED for '' @ name) s)
                else emit_complete (br_reason r) (br_errors r) (bu_deltas j)
                       (emit_log ''error'' (''burn-in FAILED for '' @ name @ '': '' @ br_reason r) s))
      in (j\<lparr>bu_result := r\<rparr>, emit_phase_complete ''COMPLETE'' s1))"

text \<open>The deferred calls that stop the poller and the heartbeat.\<close>

definition stop_pollers :: "burn_state \<Rightarrow> burn_state" where
  "stop_pollers s = s\<lparr>bs_poller := False, bs_heart := False\<rparr>"

definition run_burnin :: "burn_env \<Rightarrow> string \<Rightarrow> burnin_params \<Rightarrow> burn_state \<Rightarrow>
    ((burnin_result \<times> go_error option) \<times> burn_state) option" where
  "run_burnin env path ps s0 =
     (case burnin_preflight env path (new_burnin_job ps) s0 of
        (Some e, j, s1) \<Rightarrow> Some ((bu_result j, Some e), s1)
      | (None, j, s1) \<Rightarrow>
          (case burnin_short env j s1 of
             None \<Rightarrow> None
           | Some (Some e, j, s2) \<Rightarrow> Some ((bu_result j, Some e), stop_pollers s2)
           | Some (None, j, s2) \<Rightarrow>
               (case burnin_badblocks env j s2 of
                  (Some e, j, s3) \<Rightarrow> Some ((bu_result j, Some e), stop_pollers s3)
                | (None, j, s3) \<Rightarrow>
                    (case burnin_extended env j s3 of
                       None \<Rightarrow> None
                     | Some (Some e, j, s4) \<Rightarrow> Some ((bu_result j, Some e), stop_pollers s4)
                     | Some (None, j, s4) \<Rightarrow>
                         (case burnin_complete j s4 of
                            (j, s5) \<Rightarrow> Some ((bu_result j, None), stop_pollers s5))))))"

section \<open>Pre-clear (preclear.go)\<close>

record preclear_params =
  pm_fs :: string
  pm_reserved :: int
  pm_logdir :: string

record preclear_result =
  pc_passed :: bool
  pc_reason :: string
  pc_drive :: "drive_info option"
  pc_baseline :: "smart_snapshot option"
  pc_partition :: "string option"
  pc_format :: "format_result option"
  pc_verify :: "verify_result option"

definition new_preclear :: preclear_result where
  "new_preclear = \<lparr>pc_passed = True, pc_reason = [], pc_drive = None, pc_baseline = None, pc_partition = None,
     pc_format = None, pc_verify = None\<rparr>"

definition fail_preclear :: "string \<Rightarrow> string \<Rightarrow> burn_state \<Rightarrow> 'a go_result \<times> burn_state" where
  "fail_preclear ph msg s =
     (Fails (PlainError (''['' @ ph @ ''] '' @ msg)), emit_complete msg 0 NoDeltas (emit_log ''error'' msg s))"

definition preclear_file_system :: "preclear_params \<Rightarrow> string" where
  "preclear_file_system ps = (if pm_fs ps = [] then ''ext4'' else pm_fs ps)"

text \<open>The end of a phase: the job stops when the context is cancelled.\<close>

definition unless_cancelled :: "burn_env \<Rightarrow> (burn_state \<Rightarrow> 'a go_result \<times> burn_state) \<Rightarrow> burn_state \<Rightarrow>
    'a go_result \<times> burn_state" where
  "unless_cancelled env k s = (case b_ctx env s of (Some e, s') \<Rightarrow> (Fails e, s') | (None, s') \<Rightarrow> k s')"

definition preclear_verdict :: "verify_result \<Rightarrow> preclear_result \<Rightarrow> preclear_result" where
  "preclear_verdict v r =
     (if (case vr_delta v of Some d \<Rightarrow> dl_degraded d | None \<Rightarrow> False)
      then r\<lparr>pc_passed := False, pc_reason := ''SMART attribute degradation after formatting''\<rparr> else r)"

definition preclear_complete :: "smart_snapshot \<Rightarrow> verify_result \<Rightarrow> preclear_result \<Rightarrow> burn_state \<Rightarrow>
    preclear_result go_result \<times> burn_state" where
  "preclear_complete base v r0 s =
     (let r = preclear_verdict v r0; name = (case pc_drive r of Some d \<Rightarrow> dr_path d @ '' ('' @ dr_serial d @ '')'' | None \<Rightarrow> []);
          s1 = (if pc_passed r
                then emit_complete ''pre-clear passed'' 0 NoDeltas (emit_log ''info'' (''pre-clear PASSED for '' @ name) s)
                else emit_complete (pc_reason r) 0
                       (if vr_delta v \<noteq> None then marshal_enriched (Some base) None else NoDeltas)
                       (emit_log ''error'' (''pre-clear FAILED for '' @ name @ '': '' @ pc_reason r) s))
      in (Ret r, emit_phase_complete ''COMPLETE'' s1))"

definition preclear_verify :: "burn_env \<Rightarrow> string \<Rightarrow> smart_snapshot \<Rightarrow> preclear_result \<Rightarrow> burn_state \<Rightarrow>
    preclear_result go_result \<times> burn_state" where
  "preclear_verify env part base r s0 =
     (case verify_filesystem env part (Some base) (emit_phase ''VERIFY'' ''verifying filesystem'' 75 s0) of
        (Panics, s1) \<Rightarrow> (Panics, s1)
      | (Fails e, s1) \<Rightarrow> fail_preclear ''VERIFY'' (''verification failed: '' @ error_text e) s1
      | (Ret v, s1) \<Rightarrow>
          if \<not> vr_mount v then fail_preclear ''VERIFY'' ''read-only mount verification failed'' s1
          else if \<not> vr_metadata v then fail_preclear ''VERIFY'' ''filesystem metadata check failed'' s1
          else
            let s2 = (if vr_smart v then s1
                      else let s' = emit_log ''warning'' ''SMART degradation detected after formatting'' s1
                           in case vr_delta v of Some d \<Rightarrow> emit_smart_warning d s' | None \<Rightarrow> s')
            in unless_cancelled env (preclear_complete base v (r\<lparr>pc_verify := Some v\<rparr>))
                 (emit_phase_complete ''VERIFY'' (emit_log ''info'' ''filesystem verification passed'' s2)))"

definition preclear_format :: "burn_env \<Rightarrow> string \<Rightarrow> string \<Rightarrow> int \<Rightarrow> smart_snapshot \<Rightarrow> preclear_result \<Rightarrow>
    burn_state \<Rightarrow> preclear_result go_result \<times> burn_state" where
  "preclear_format env part fs reserved base r s0 =
     (case format_partition env part fs reserved (emit_phase ''FORMAT'' (''formatting '' @ fs) 30 s0) of
        (Panics, s1) \<Rightarrow> (Panics, s1)
      | (Fails e, s1) \<Rightarrow>
          (case b_ctx env s1 of
             (Some c, s2) \<Rightarrow> (Fails c, s2)
           | (None, s2) \<Rightarrow> fail_preclear ''FORMAT'' (''formatting failed: '' @ error_text e) s2)
      | (Ret f, s1) \<Rightarrow>
          unless_cancelled env (preclear_verify env part base (r\<lparr>pc_format := Some f\<rparr>))
            (emit_phase_complete ''FORMAT''
              (emit_log ''info'' (fr_filesystem f @ '' formatted: '' @ fr_partition f @ '' reserved='' @
                 itoa (fr_reserved f) @ ''%'') s1)))"

definition preclear_partition :: "burn_env \<Rightarrow> string \<Rightarrow> preclear_params \<Rightarrow> smart_snapshot \<Rightarrow> preclear_result \<Rightarrow>
    burn_state \<Rightarrow> preclear_result go_result \<times> burn_state" where
  "preclear_partition env dev ps base r s0 =
     (let fs = preclear_file_system ps in
      case partition_gpt env dev fs (pm_reserved ps) (emit_phase ''PARTITION'' ''wiping partition table'' 15 s0) of
        (Panics, s1) \<Rightarrow> (Panics, s1)
      | (Fails e, s1) \<Rightarrow>
          (case b_ctx env s1 of
             (Some c, s2) \<Rightarrow> (Fails c, s2)
           | (None, s2) \<Rightarrow> fail_preclear ''PARTITION'' (''partitioning failed: '' @ error_text e) s2)
      | (Ret part, s1) \<Rightarrow>
          unless_cancelled env (preclear_format env part fs (pm_reserved ps) base (r\<lparr>pc_partition := Some part\<rparr>))
            (emit_phase_complete ''PARTITION'' (emit_log ''info'' (''GPT partition created: '' @ part) s1)))"

text \<open>From the start of the heartbeat on; the deferred stop of the heartbeat runs on every return.\<close>

definition preclear_body :: "burn_env \<Rightarrow> drive_info \<Rightarrow> preclear_params \<Rightarrow> preclear_result \<Rightarrow> burn_state \<Rightarrow>
    preclear_result go_result \<times> burn_state" where
  "preclear_body env d ps r s0 =
     (case is_safe_target env (dr_path d) (emit_phase ''PRE-FLIGHT'' ''safety check'' 5 s0) of
        (Some e, s1) \<Rightarrow> fail_preclear ''PRE-FLIGHT'' (''safety check failed: '' @ error_text e) s1
      | (None, s1) \<Rightarrow>
          (case take_snapshot env (dr_path d) (emit_phase ''PRE-FLIGHT'' ''baseline SMART snapshot'' 10 s1) of
             (Inl e, s2) \<Rightarrow> fail_preclear ''PRE-FLIGHT'' (''baseline snapshot failed: '' @ error_text e) s2
           | (Inr base, s2) \<Rightarrow>
               unless_cancelled env (preclear_partition env (dr_path d) ps base (r\<lparr>pc_baseline := Some base\<rparr>))
                 (emit_phase_complete ''PRE-FLIGHT'' (emit_log ''info'' ''baseline SMART snapshot captured'' s2))))"

definition run_preclear :: "burn_env \<Rightarrow> string \<Rightarrow> preclear_params \<Rightarrow> burn_state \<Rightarrow>
    preclear_result go_result \<times> burn_state" where
  "run_preclear env path ps s0 =
     (case resolve_drive env path (emit_phase ''PRE-FLIGHT'' ''resolving device'' 0 s0) of
        (Inl e, s1) \<Rightarrow> fail_preclear ''PRE-FLIGHT'' (''device resolution failed: '' @ error_text e) s1
      | (Inr d, s1) \<Rightarrow>
          (let s2 = emit_log ''info'' (''device resolved: '' @ drive_text d) s1
           in case preclear_body env d ps (new_preclear\<lparr>pc_drive := Some d\<rparr>) (s2\<lparr>bs_heart := True\<rparr>) of
                (r, s3) \<Rightarrow> (r, s3\<lparr>bs_heart := False\<rparr>)))"

end
