(* ===== verification/BurnSafety.thy ===== *)
theory BurnSafety
  imports BurnJobs
begin

text \<open>
  What the orchestrators may do to a drive: the destructive programs, the calls a phase makes, and
  that nothing destructive runs before the safety check has passed.
\<close>

section \<open>Calls\<close>

fun destructive :: "zx_call \<Rightarrow> bool" where
  "destructive (Cmd bin args) \<longleftrightarrow>
     bin \<in> {''badblocks'', ''sgdisk'', ''mkfs.ext4'', ''mkfs.xfs'', ''mkfs.btrfs'', ''mkfs.fat'', ''mkswap''}"
| "destructive (Pipe stages) \<longleftrightarrow> False"

definition harmless :: "zx_call \<Rightarrow> bool" where
  "harmless c \<longleftrightarrow> \<not> destructive c"

text \<open>A destructive call names the device or its first partition as its last argument.\<close>

fun aims_at :: "string \<Rightarrow> zx_call \<Rightarrow> bool" where
  "aims_at dev (Cmd bin args) \<longleftrightarrow>
     harmless (Cmd bin args) \<or> (args \<noteq> [] \<and> last args \<in> {dev, infer_partition_path dev 1})"
| "aims_at dev (Pipe stages) \<longleftrightarrow> True"

definition calls :: "(zx_call \<Rightarrow> bool) \<Rightarrow> burn_state \<Rightarrow> burn_state \<Rightarrow> bool" where
  "calls P s s' \<longleftrightarrow> (\<exists>new. bs_tr s' = bs_tr s @ new \<and> list_all P new)"

named_theorems burn_calls "what the operations of the burn-in agent call"

lemma calls_refl [burn_calls]: "calls P s s"
  by (simp add: calls_def)

lemma calls_trans: "calls P s t \<Longrightarrow> calls P t u \<Longrightarrow> calls P s u"
  by (force simp: calls_def)

lemma calls_bind:
  "calls P s (snd r) \<Longrightarrow> (\<And>x t. r = (x, t) \<Longrightarrow> calls P t (snd (f x t))) \<Longrightarrow> calls P s (snd (case_prod f r))"
  by (cases r) (auto intro: calls_trans)

lemma calls_mono: "calls P s t \<Longrightarrow> (\<And>c. P c \<Longrightarrow> Q c) \<Longrightarrow> calls Q s t"
  by (auto simp: calls_def list_all_iff)

lemma harmless_aims: "harmless c \<Longrightarrow> aims_at dev c"
  by (cases c) simp_all

lemma calls_aims: "calls harmless s t \<Longrightarrow> calls (aims_at dev) s t"
  by (erule calls_mono) (rule harmless_aims)

lemma calls_eq: "bs_tr t = bs_tr s \<Longrightarrow> calls P s t"
  by (simp add: calls_def)

lemma b_run_calls: "P (Cmd bin args) \<Longrightarrow> calls P s (snd (b_run env bin args s))"
  by (simp add: calls_def b_run_def)

lemma b_ctx_tr [simp]: "bs_tr (snd (b_ctx env s)) = bs_tr s"
  by (simp add: b_ctx_def)

lemma emit_tr [simp]:
  "bs_tr (emit_progress ph detail pct errs deltas s) = bs_tr s" "bs_tr (emit_log sev msg s) = bs_tr s"
  "bs_tr (emit_phase ph detail pct s) = bs_tr s" "bs_tr (emit_phase_complete ph s) = bs_tr s"
  "bs_tr (emit_smart_warning d s) = bs_tr s" "bs_tr (emit_complete detail errs deltas s) = bs_tr s"
  "bs_tr (degradation_warning msg d s) = bs_tr s" "bs_tr (stop_pollers s) = bs_tr s"
  by (simp_all add: emit_progress_def emit_log_def emit_phase_def emit_phase_complete_def emit_smart_warning_def
      emit_complete_def degradation_warning_def stop_pollers_def)

lemma calls_emit [simp]:
  "calls P (emit_progress ph detail pct errs deltas s) t = calls P s t" "calls P (emit_log sev msg s) t = calls P s t"
  "calls P (emit_phase ph detail pct s) t = calls P s t" "calls P (emit_phase_complete ph s) t = calls P s t"
  "calls P (emit_smart_warning d s) t = calls P s t"
  "calls P (s\<lparr>bs_poller := b\<rparr>) t = calls P s t" "calls P (s\<lparr>bs_heart := b\<rparr>) t = calls P s t"
  "calls P t (emit_progress ph detail pct errs deltas s) = calls P t s" "calls P t (emit_log sev msg s) = calls P t s"
  "calls P t (emit_phase ph detail pct s) = calls P t s" "calls P t (emit_phase_complete ph s) = calls P t s"
  "calls P t (emit_complete detail errs deltas s) = calls P t s" "calls P t (stop_pollers s) = calls P t s"
  "calls P t (emit_smart_warning d s) = calls P t s" "calls P t (degradation_warning msg d s) = calls P t s"
  "calls P t (s\<lparr>bs_poller := b\<rparr>) = calls P t s" "calls P t (s\<lparr>bs_heart := b\<rparr>) = calls P t s"
  "calls P t (s\<lparr>bs_reads := n\<rparr>) = calls P t s"
  by (simp_all add: calls_def)

section \<open>Harmless operations\<close>

lemma harmless_smartctl [simp]: "harmless (Cmd ''smartctl'' args)"
  and harmless_zpool [simp]: "harmless (Cmd ''zpool'' args)"
  and harmless_mount [simp]: "harmless (Cmd ''mount'' args)"
  and harmless_umount [simp]: "harmless (Cmd ''umount'' args)"
  and harmless_dumpe2fs [simp]: "harmless (Cmd ''dumpe2fs'' args)"
  by (simp_all add: harmless_def)

lemma run_smartctl_calls: "calls harmless s (snd (run_smartctl env args s))"
  using b_run_calls [of harmless "''smartctl''" args s env]
  by (auto simp: run_smartctl_def split: prod.splits proc_answer.splits option.splits)

lemma query_text_calls: "calls harmless s (snd (query_smartctl_text env d s))"
  using run_smartctl_calls [of s env "[''-i'', dr_path d]"]
  by (auto simp: query_smartctl_text_def Let_def split: prod.splits sum.splits)

lemma query_json_calls: "calls harmless s (snd (query_smartctl_json env d s))"
  using run_smartctl_calls [of s env "[''-i'', ''--json'', dr_path d]"] query_text_calls
  by (auto simp: query_smartctl_json_def Let_def split: prod.splits sum.splits option.splits
      intro: calls_trans [OF _ query_text_calls])

lemma resolve_calls: "calls harmless s (snd (resolve_drive env path s))"
  unfolding resolve_drive_def Let_def
  using query_json_calls [of s env]
  by (auto split: prod.splits sum.splits simp: calls_refl) (metis snd_conv)+

lemma is_safe_calls: "calls harmless s (snd (is_safe_target env path s))"
  using b_run_calls [of harmless "''zpool''" "[''status'']" s env]
  by (auto simp: is_safe_target_def check_not_zfs_def Let_def calls_refl split: prod.splits proc_answer.splits option.splits)

lemma take_snapshot_calls: "calls harmless s (snd (take_snapshot env dev s))"
  using run_smartctl_calls [of s env "[''-A'', ''--json'', dev]"]
  by (auto simp: take_snapshot_def read_smart_attrs_def calls_refl split: prod.splits sum.splits)

lemma polling_calls: "calls harmless s (snd (get_polling_time env dev ty s))"
  using run_smartctl_calls [of s env "[''-c'', ''--json'', dev]"]
  by (auto simp: get_polling_time_def Let_def split: prod.splits sum.splits)

lemma check_test_calls: "calls harmless s (snd (check_test_complete env dev s))"
  using run_smartctl_calls [of s env "[''-l'', ''selftest'', ''--json'', dev]"]
  by (auto simp: check_test_complete_def split: prod.splits sum.splits)

lemma await_calls: "calls harmless s (snd (await_test env dev s))"
  by (simp add: await_test_def abort_self_test_def b_run_def b_ctx_def calls_def split: option.split)

text \<open>Rule induction over the rounds of the polling loop.\<close>

lemma poll_rounds [consumes 1, case_names fault finished cancelled again]:
  assumes "poll_self_test env dev ty s = Some y"
    and "\<And>s e s1. check_test_complete env dev s = (Inl e, s1) \<Longrightarrow>
      P s (Inl (WrappedError (''checking test status on '' @ dev @ '': '') e []), s1)"
    and "\<And>s passed st s1. check_test_complete env dev s = (Inr (True, passed, st), s1) \<Longrightarrow>
      P s (Inr \<lparr>tt_passed = passed, tt_status = st\<rparr>, s1)"
    and "\<And>s passed st s1 e s2. check_test_complete env dev s = (Inr (False, passed, st), s1) \<Longrightarrow>
      await_test env dev s1 = (Some e, s2) \<Longrightarrow> P s (Inl e, s2)"
    and "\<And>s passed st s1 s2 y. check_test_complete env dev s = (Inr (False, passed, st), s1) \<Longrightarrow>
      await_test env dev s1 = (None, s2) \<Longrightarrow> P s2 y \<Longrightarrow> P s y"
  shows "P s y"
proof -
  have "env' = env \<longrightarrow> dev' = dev \<longrightarrow> P s y" if "poll_self_test env' dev' ty s = Some y" for env' dev'
    using that
  proof (rule poll_self_test.raw_induct [where P = "\<lambda>env' dev' ty s y. env' = env \<longrightarrow> dev' = dev \<longrightarrow> P s y", rotated])
    fix poll env' dev' ty s y
    assume IH: "\<And>env' dev' ty s y. poll env' dev' ty s = Some y \<Longrightarrow> env' = env \<longrightarrow> dev' = dev \<longrightarrow> P s y"
      and body: "(case check_test_complete env' dev' s of
        (Inl e, s1) \<Rightarrow> Some (Inl (WrappedError (''checking test status on '' @ dev' @ '': '') e []), s1)
      | (Inr (done, passed, st), s1) \<Rightarrow>
          if done then Some (Inr \<lparr>tt_passed = passed, tt_status = st\<rparr>, s1)
          else case await_test env' dev' s1 of
               (None, s2) \<Rightarrow> poll env' dev' ty s2
             | (Some e, s2) \<Rightarrow> Some (Inl e, s2)) = Some y"
    show "env' = env \<longrightarrow> dev' = dev \<longrightarrow> P s y"
    proof (intro impI)
      assume eqs: "env' = env" "dev' = dev"
      obtain c s1 where c: "check_test_complete env dev s = (c, s1)" by fastforce
      obtain a s2 where a: "await_test env dev s1 = (a, s2)" by fastforce
      have "poll env dev ty s2 = Some y \<Longrightarrow> P s2 y" using IH by blast
      then show "P s y"
        using body assms(2-4) [of s] assms(5) [of s _ _ s1 s2 y] c a eqs
        by (auto split: sum.splits if_splits option.splits)
    qed
  qed
  with assms(1) show ?thesis by blast
qed

lemma poll_calls: "poll_self_test env dev ty s = Some y \<Longrightarrow> calls harmless s (snd y)"
proof (induction rule: poll_rounds)
  case (fault s e s1)
  then show ?case using check_test_calls [of s env dev] by simp
next
  case (finished s passed st s1)
  then show ?case using check_test_calls [of s env dev] by simp
next
  case (cancelled s passed st s1 e s2)
  then show ?case using check_test_calls [of s env dev] await_calls [of s1 env dev] by (simp add: calls_trans)
next
  case (again s passed st s1 s2 y)
  then show ?case
    using check_test_calls [of s env dev] await_calls [of s1 env dev] calls_trans by (metis snd_conv)
qed

lemma self_test_calls: "run_self_test env dev ty s = Some (r, s') \<Longrightarrow> calls harmless s s'"
proof -
  assume run: "run_self_test env dev ty s = Some (r, s')"
  obtain p s1 where p: "get_polling_time env dev ty s = (p, s1)" by fastforce
  then have 1: "calls harmless s s1" using polling_calls [of s env dev ty] by simp
  obtain q s2 where q: "run_smartctl env [''--test='' @ ty, dev] s1 = (q, s2)" by fastforce
  then have 2: "calls harmless s s2" using run_smartctl_calls [of s1 env "[''--test='' @ ty, dev]"] calls_trans [OF 1] by simp
  obtain a s3 where a: "await_test env dev s2 = (a, s3)" by fastforce
  then have 3: "calls harmless s s3" using await_calls [of s2 env dev] calls_trans [OF 2] by simp
  show ?thesis
    using run 1 2 3 calls_refl calls_trans [OF 3 poll_calls, of env dev ty "(r, s')"]
    by (auto simp: run_self_test_def p q [simplified] a Let_def split: if_splits sum.splits option.splits)
qed

lemma umount_calls: "calls harmless s (snd (run_umount env dir s))"
  using b_run_calls [of harmless "''umount''" "[dir]" s env]
  by (auto simp: run_umount_def split: prod.splits proc_answer.splits option.splits)

lemma run_group_calls: "P (Cmd name args) \<Longrightarrow> calls P s (snd (run_group env name args s))"
  by (auto simp: run_group_def b_run_def b_ctx_def calls_def split: proc_answer.splits option.splits)

lemma group_step_calls: "P (Cmd name args) \<Longrightarrow> calls P s (snd (group_step env what name args s))"
  using run_group_calls [of P name args s env]
  by (auto simp: group_step_def split: prod.splits option.splits)

lemma check_metadata_calls: "calls harmless s (snd (check_metadata env part s))"
  using run_group_calls [of harmless "''dumpe2fs''" "[''-h'', part]" s env]
  by (auto simp: check_metadata_def split: prod.splits option.splits)

lemma verify_smart_calls: "calls harmless s (snd (verify_smart env part base s))"
proof (cases base)
  case (Some b)
  then show ?thesis
    using take_snapshot_calls [of s env "infer_device_from_partition part"]
    by (auto simp: verify_smart_def split: prod.splits sum.splits)
qed (simp add: verify_smart_def calls_refl)

lemma verify_calls: "calls harmless s (snd (verify_filesystem env part base s))"
  by (auto simp: verify_filesystem_def calls_refl intro!: calls_bind group_step_calls check_metadata_calls umount_calls
      verify_smart_calls split: sum.split go_result.split option.split)

section \<open>Destructive operations\<close>

lemma b_ctx_calls: "calls P s (snd (b_ctx env s))"
  by (simp add: calls_def)

lemma badblocks_aims: "aims_at dev (Cmd ''badblocks'' (badblocks_args dev bsize conc ab logfile))"
  by (simp add: badblocks_args_def)

lemma badblocks_calls: "calls (aims_at dev) s (snd (run_badblocks env dev bsize conc ab logdir s))"
  unfolding run_badblocks_def Let_def
  by (auto simp only: calls_refl snd_conv split: if_split proc_answer.split option.split
      intro!: calls_bind b_run_calls badblocks_aims b_ctx_calls)

lemma sgdisk_calls: "calls (aims_at dev) s (snd (run_sgdisk env dev args s))"
  by (simp add: run_sgdisk_def group_step_calls)

lemma partition_calls: "calls (aims_at dev) s (snd (partition_gpt env dev fs reserved s))"
  by (auto simp: partition_gpt_def Let_def calls_refl intro!: calls_bind sgdisk_calls calls_aims [OF is_safe_calls]
      split: option.split go_result.split)

lemma format_simple_calls:
  assumes "args \<noteq> []" "last args = infer_partition_path dev 1"
  shows "calls (aims_at dev) s (snd (format_simple env part fs cmd args s))"
  using assms run_group_calls [of "aims_at dev" cmd args s env]
  by (auto simp: format_simple_def Let_def split: prod.splits option.splits)

lemma format_ext4_calls: "calls (aims_at dev) s (snd (format_ext4 env (infer_partition_path dev 1) reserved s))"
  by (auto simp: format_ext4_def b_run_def b_ctx_def calls_def split: proc_answer.split option.split)

lemma format_calls: "calls (aims_at dev) s (snd (format_partition env (infer_partition_path dev 1) fs reserved s))"
  by (simp add: format_partition_def format_simple_calls format_ext4_calls calls_refl)

section \<open>Phases\<close>

lemma ctx_end_tr [simp]: "bs_tr (snd (snd (ctx_end env j s))) = bs_tr s"
  by (simp add: ctx_end_def b_ctx_def)

lemma ctx_end_job [simp]: "fst (snd (ctx_end env j s)) = j"
  by (simp add: ctx_end_def b_ctx_def)

lemma fail_job_tr [simp]: "bs_tr (snd (snd (fail_job ph d msg j s))) = bs_tr s"
  by (simp add: fail_job_def Let_def)

lemma calls_bind2:
  "calls P s (snd r) \<Longrightarrow> (\<And>x t. r = (x, t) \<Longrightarrow> calls P t (snd (snd (f x t)))) \<Longrightarrow>
     calls P s (snd (snd (case_prod f r)))"
  by (cases r) (auto intro: calls_trans)

lemma calls_phase_end [simp]:
  "calls P s (snd (snd (ctx_end env j t))) = calls P s t"
  "calls P s (snd (snd (fail_job ph d msg j t))) = calls P s t"
  by (simp_all add: calls_def)

lemma preflight_calls: "calls harmless s (snd (snd (burnin_preflight env path j s)))"
proof -
  have r: "calls harmless s (snd (resolve_drive env path (emit_phase ph detail pct s)))" for ph detail pct
    using resolve_calls [of "emit_phase ph detail pct s" env path] by simp
  have i: "calls harmless s (snd (is_safe_target env dev (emit_phase ph detail pct
      (emit_log sev msg s\<lparr>bs_poller := True, bs_heart := True\<rparr>))))" for s dev ph detail pct sev msg
    using is_safe_calls [of "emit_phase ph detail pct (emit_log sev msg s\<lparr>bs_poller := True, bs_heart := True\<rparr>)" env dev]
    by simp
  have t: "calls harmless s (snd (take_snapshot env dev (emit_phase ph detail pct s)))" for s dev ph detail pct
    using take_snapshot_calls [of "emit_phase ph detail pct s" env dev] by simp
  show ?thesis
    by (auto simp: burnin_preflight_def Let_def calls_refl intro!: calls_bind2 r i t split: sum.split option.split)
qed

definition checked_safe :: "burn_env \<Rightarrow> string \<Rightarrow> zx_log \<Rightarrow> bool" where
  "checked_safe env dev tr \<longleftrightarrow> (\<exists>s. bs_tr s = tr \<and> fst (is_safe_target env dev s) = None)"

text \<open>A preflight that ends without an error has passed the safety check for the device it resolved.\<close>

lemma preflight_checked:
  assumes "burnin_preflight env path j0 s0 = (None, j, s)"
  shows "\<exists>d mid. br_drive (bu_result j) = Some d \<and> checked_safe env (dr_path d) (bs_tr mid) \<and>
    calls harmless s0 mid \<and> calls harmless mid s"
proof -
  obtain r s1 where r: "resolve_drive env path (emit_phase ''PRE-FLIGHT'' ''resolving device'' 0 s0) = (r, s1)" by fastforce
  then have 1: "calls harmless s0 s1"
    using resolve_calls [of "emit_phase ''PRE-FLIGHT'' ''resolving device'' 0 s0" env path] by simp
  then obtain d where d: "r = Inr d"
    using assms by (cases r) (simp_all add: burnin_preflight_def r fail_job_def Let_def)
  let ?s3 = "emit_phase ''PRE-FLIGHT'' ''safety check'' 5 (emit_log ''info''
    (''device resolved: '' @ drive_text d @ '' rotation='' @ dr_rotation d) s1\<lparr>bs_poller := True, bs_heart := True\<rparr>)"
  obtain a s4 where a: "is_safe_target env (dr_path d) ?s3 = (a, s4)" by fastforce
  then have 2: "calls harmless ?s3 s4" using is_safe_calls [of ?s3 env "dr_path d"] by simp
  have none: "a = None"
    using assms a by (cases a) (simp_all add: burnin_preflight_def r d fail_job_def Let_def)
  obtain b s5 where b: "take_snapshot env (dr_path d) (emit_phase ''PRE-FLIGHT'' ''baseline SMART snapshot'' 10 s4) = (b, s5)"
    by fastforce
  then have 3: "calls harmless s4 s5"
    using take_snapshot_calls [of "emit_phase ''PRE-FLIGHT'' ''baseline SMART snapshot'' 10 s4" env "dr_path d"] by simp
  obtain base where base: "b = Inr base"
    using assms a none b by (cases b) (simp_all add: burnin_preflight_def r d fail_job_def Let_def)
  have "br_drive (bu_result j) = Some d \<and> bs_tr s = bs_tr s5"
    using assms a none b base by (auto simp: burnin_preflight_def r d Let_def ctx_end_def b_ctx_def)
  moreover have "checked_safe env (dr_path d) (bs_tr ?s3)"
    unfolding checked_safe_def using a none by (intro exI [of _ ?s3]) simp
  moreover have "calls harmless s0 ?s3" using 1 by simp
  moreover have "calls harmless ?s3 s"
    using calls_trans [OF 2 3] \<open>br_drive (bu_result j) = Some d \<and> bs_tr s = bs_tr s5\<close> by (simp add: calls_def)
  ultimately show ?thesis by blast
qed

lemma self_test_emitted:
  "run_self_test env dev ty (emit_log sev msg (emit_phase ph detail pct s)) = Some (r, s') \<Longrightarrow> calls harmless s s'"
  using self_test_calls [of env dev ty "emit_log sev msg (emit_phase ph detail pct s)" r s'] by simp

lemma snapshot_after:
  "take_snapshot env dev (emit_phase ph detail pct t) = (r, s') \<Longrightarrow> calls harmless s t \<Longrightarrow> calls harmless s s'"
  using take_snapshot_calls [of "emit_phase ph detail pct t" env dev] by (auto intro: calls_trans)

lemma short_calls:
  assumes "burnin_short env j s = Some (e, j', s')"
  shows "calls harmless s s' \<and> br_drive (bu_result j') = br_drive (bu_result j)"
proof -
  obtain r s2 where r: "run_self_test env (job_device j) ''short'' (emit_log ''info'' (''starting SMART short test on '' @
      job_device j @ '' (typically takes 1-2 minutes)'') (emit_phase ''SMART_SHORT'' ''starting short test'' 15 s)) = Some (r, s2)"
    using assms by (auto simp: burnin_short_def Let_def split: option.splits)
  note 1 = self_test_emitted [OF r]
  show ?thesis
  proof (cases r)
    case (Inl err)
    then show ?thesis
      using assms 1 r by (auto simp: burnin_short_def Let_def fail_job_def)
  next
    case (Inr t)
    let ?s3 = "if tt_passed t then s2 else emit_log ''warning'' (''SMART short test reported failure: '' @ tt_status t) s2"
    obtain p s4 where p: "take_snapshot env (job_device j) (emit_phase ''SMART_SHORT'' ''post-short snapshot'' 20 ?s3) = (p, s4)"
      by fastforce
    then have "calls harmless s s4" using 1 snapshot_after [OF p] by simp
    then show ?thesis
      using assms by (auto simp: burnin_short_def Let_def r [simplified] Inr p [simplified] ctx_end_def b_ctx_def calls_def split: sum.splits option.splits)
  qed
qed

lemma extended_calls:
  assumes "burnin_extended env j s = Some (e, j', s')"
  shows "calls harmless s s' \<and> br_drive (bu_result j') = br_drive (bu_result j)"
proof -
  obtain r s2 where r: "run_self_test env (job_device j) ''long'' (emit_log ''info'' (''starting SMART extended test on '' @
      job_device j @ '' (typically takes 1-8 hours depending on drive capacity)'')
      (emit_phase ''SMART_EXTENDED'' ''starting extended test'' 75 s)) = Some (r, s2)"
    using assms by (auto simp: burnin_extended_def Let_def split: option.splits)
  note 1 = self_test_emitted [OF r]
  show ?thesis
  proof (cases r)
    case (Inl err)
    then show ?thesis
      using assms 1 r by (auto simp: burnin_extended_def Let_def fail_job_def)
  next
    case (Inr t)
    let ?s3 = "if tt_passed t then s2 else emit_log ''warning'' (''SMART extended test reported failure: '' @ tt_status t) s2"
    obtain p s4 where p: "take_snapshot env (job_device j) (emit_phase ''SMART_EXTENDED'' ''final snapshot'' 90 ?s3) = (p, s4)"
      by fastforce
    then have "calls harmless s s4" using 1 snapshot_after [OF p] by simp
    then show ?thesis
      using assms by (auto simp: burnin_extended_def Let_def r [simplified] Inr p [simplified] ctx_end_def b_ctx_def calls_def split: sum.splits option.splits)
  qed
qed

lemma badblocks_phase_calls:
  assumes "burnin_badblocks env j s = (e, j', s')"
  shows "calls (aims_at (job_device j)) s s' \<and> br_drive (bu_result j') = br_drive (bu_result j)"
proof -
  let ?s1 = "emit_log ''info'' (''starting BADBLOCKS phase on '' @ job_device j @
    '' (duration depends on drive size, may take many hours for large drives)'') (emit_phase ''BADBLOCKS'' ''preparing'' 25 s)"
  let ?ps = "bu_params j"
  obtain r s2 where r: "run_badblocks env (job_device j) (bp_block ?ps) (bp_conc ?ps) (bp_abort ?ps) (bp_logdir ?ps) ?s1 = (r, s2)"
    by fastforce
  then have c: "calls (aims_at (job_device j)) s s2"
    using badblocks_calls [of "job_device j" ?s1 env "bp_block ?ps" "bp_conc ?ps" "bp_abort ?ps" "bp_logdir ?ps"] by simp
  define ssd where "ssd \<longleftrightarrow> (case br_drive (bu_result j) of Some d \<Rightarrow> is_ssd d | None \<Rightarrow> False)"
  define dir where "dir = (if bp_logdir ?ps = [] then None else bn_mkdir env (bs_tr ?s1))"
  show ?thesis
  proof (cases "ssd \<or> dir \<noteq> None")
    case True
    then show ?thesis
      using assms by (auto simp: burnin_badblocks_def Let_def ssd_def dir_def ctx_end_def b_ctx_def fail_job_def calls_refl
          split: if_splits)
  next
    case False
    then show ?thesis
      using assms c r unfolding burnin_badblocks_def Let_def ssd_def [symmetric] dir_def [symmetric]
      by (auto simp: ctx_end_def b_ctx_def fail_job_def Let_def calls_def split: sum.splits if_splits option.splits)
  qed
qed

lemma complete_calls: "burnin_complete j s = (j', s') \<Longrightarrow> bs_tr s' = bs_tr s \<and> br_drive (bu_result j') = br_drive (bu_result j)"
  by (auto simp: burnin_complete_def Let_def burnin_verdict_def split: if_splits)

section \<open>Nothing destructive before the safety check\<close>

text \<open>The calls a job made: harmless ones, then, if the safety check passed there, calls that aim at
  the device that was checked.\<close>

definition safe_run :: "burn_env \<Rightarrow> drive_info option \<Rightarrow> burn_state \<Rightarrow> burn_state \<Rightarrow> bool" where
  "safe_run env drive s s' \<longleftrightarrow>
     (\<exists>pre post. bs_tr s' = bs_tr s @ pre @ post \<and> list_all harmless pre \<and>
        (if list_all harmless post then True
         else \<exists>d. drive = Some d \<and> checked_safe env (dr_path d) (bs_tr s @ pre) \<and> list_all (aims_at (dr_path d)) post))"

lemma safe_run_harmless: "calls harmless s s' \<Longrightarrow> safe_run env drive s s'"
  unfolding calls_def safe_run_def by (metis append_Nil2 list.pred_inject(1))

lemma safe_run_checked:
  assumes "calls harmless s mid" "checked_safe env (dr_path d) (bs_tr mid)" "calls (aims_at (dr_path d)) mid s'"
  shows "safe_run env (Some d) s s'"
  using assms unfolding calls_def safe_run_def by (metis append.assoc)

lemma run_burnin_safe:
  assumes "run_burnin env path ps s0 = Some ((r, e), s)"
  shows "safe_run env (br_drive r) s0 s"
proof -
  obtain e1 j1 s1 where 1: "burnin_preflight env path (new_burnin_job ps) s0 = (e1, j1, s1)" by (metis prod_cases3)
  show ?thesis
  proof (cases e1)
    case (Some err)
    then show ?thesis
      using assms preflight_calls [of s0 env path "new_burnin_job ps"] by (auto simp: run_burnin_def 1 intro!: safe_run_harmless)
  next
    case None
    with 1 obtain d mid where d: "br_drive (bu_result j1) = Some d" "checked_safe env (dr_path d) (bs_tr mid)"
      "calls harmless s0 mid" "calls harmless mid s1"
      using preflight_checked [of env path "new_burnin_job ps" s0 j1 s1] by auto
    have dev: "job_device j = dr_path d" if "br_drive (bu_result j) = Some d" for j
      using that by (simp add: job_device_def)
    have fin: "safe_run env (Some d) s0 t" if "calls (aims_at (dr_path d)) s1 u" "bs_tr t = bs_tr u" for t u
      using safe_run_checked [OF d(3,2)] calls_trans [OF calls_aims [OF d(4)] that(1)] that(2) by (simp add: calls_def)
    obtain e2 j2 s2 where 2: "burnin_short env j1 s1 = Some (e2, j2, s2)"
      using assms by (auto simp: run_burnin_def 1 None split: option.splits)
    note c2 = short_calls [OF 2]
    show ?thesis
    proof (cases e2)
      case (Some err)
      then show ?thesis using assms c2 d(1) fin [OF calls_aims] by (auto simp: run_burnin_def 1 None 2)
    next
      case None2: None
      obtain e3 j3 s3 where 3: "burnin_badblocks env j2 s2 = (e3, j3, s3)" by (metis prod_cases3)
      note c3 = badblocks_phase_calls [OF 3]
      have c13: "calls (aims_at (dr_path d)) s1 s3"
        using calls_trans [OF calls_aims] c2 c3 dev [of j2] d(1) by metis
      show ?thesis
      proof (cases e3)
        case (Some err)
        then show ?thesis using assms c2 c3 d(1) fin [OF c13] by (auto simp: run_burnin_def 1 None 2 None2 3)
      next
        case None3: None
        obtain e4 j4 s4 where 4: "burnin_extended env j3 s3 = Some (e4, j4, s4)"
          using assms by (auto simp: run_burnin_def 1 None 2 None2 3 None3 split: option.splits)
        note c4 = extended_calls [OF 4]
        have c14: "calls (aims_at (dr_path d)) s1 s4" using calls_trans [OF c13 calls_aims] c4 by blast
        obtain j5 s5 where 5: "burnin_complete j4 s4 = (j5, s5)" by fastforce
        show ?thesis
          using assms c2 c3 c4 complete_calls [OF 5] d(1) fin [OF c14]
          by (cases e4) (auto simp: run_burnin_def 1 None 2 None2 3 None3 4 5)
      qed
    qed
  qed
qed

lemma calls_phase_results [simp]:
  "calls P s (snd (fail_preclear ph msg t)) = calls P s t"
  "calls P s (snd (preclear_complete base v r t)) = calls P s t"
  by (simp_all add: fail_preclear_def preclear_complete_def Let_def)

lemma unless_cancelled_calls: "(\<And>t. calls P t (snd (k t))) \<Longrightarrow> calls P s (snd (unless_cancelled env k s))"
  unfolding unless_cancelled_def by (auto intro!: calls_bind b_ctx_calls simp: calls_refl split: option.split)

lemma unless_cancelled_frame:
  "(\<And>t. calls P t (snd (k t))) \<Longrightarrow> calls P s t \<Longrightarrow> calls P s (snd (unless_cancelled env k t))"
  using unless_cancelled_calls calls_trans by meson

lemma preclear_verify_calls: "calls harmless s (snd (preclear_verify env part base r s))"
proof -
  have v: "calls harmless s (snd (verify_filesystem env part b (emit_phase ph detail pct s)))" for b ph detail pct
    using verify_calls [of "emit_phase ph detail pct s"] by simp
  show ?thesis
    by (auto simp: preclear_verify_def Let_def calls_refl intro!: calls_bind v unless_cancelled_frame
        split: go_result.split option.split)
qed

lemma preclear_format_calls:
  "calls (aims_at dev) s (snd (preclear_format env (infer_partition_path dev 1) fs reserved base r s))"
proof -
  have f: "calls (aims_at dev) s (snd (format_partition env (infer_partition_path dev 1) fs reserved (emit_phase ph detail pct s)))"
    for ph detail pct
    using format_calls [of dev "emit_phase ph detail pct s"] by simp
  show ?thesis
    by (auto simp: preclear_format_def Let_def calls_refl b_ctx_calls
        intro!: calls_bind f unless_cancelled_frame calls_aims [OF preclear_verify_calls] split: go_result.split option.split)
qed

lemma partition_path:
  "partition_gpt env dev fs reserved s = (Ret part, t) \<Longrightarrow> part = infer_partition_path dev 1"
  by (auto simp: partition_gpt_def Let_def split: if_splits prod.splits option.splits go_result.splits)

lemma preclear_partition_calls: "calls (aims_at dev) s (snd (preclear_partition env dev ps base r s))"
proof -
  have p: "calls (aims_at dev) s (snd (partition_gpt env dev fs reserved (emit_phase ph detail pct s)))"
    for ph detail pct fs reserved
    using partition_calls [of dev "emit_phase ph detail pct s"] by simp
  have k: "calls (aims_at dev) t (snd (unless_cancelled env (preclear_format env part fs (pm_reserved ps) base
      (r\<lparr>pc_partition := Some part\<rparr>)) (emit_phase_complete a (emit_log b c t))))"
    if "partition_gpt env dev f res u = (Ret part, t)" for part t f res u fs a b c
    unfolding partition_path [OF that]
    by (rule unless_cancelled_frame) (simp_all add: preclear_format_calls calls_refl)
  show ?thesis
    by (auto simp: preclear_partition_def Let_def calls_refl b_ctx_calls
        intro!: calls_bind p k split: go_result.split option.split)
qed

lemma run_preclear_safe:
  "\<exists>drive. safe_run env drive s0 (snd (run_preclear env path ps s0)) \<and>
     (\<forall>d. drive = Some d \<longrightarrow> fst (resolve_drive env path (emit_phase ''PRE-FLIGHT'' ''resolving device'' 0 s0)) = Inr d)"
proof -
  obtain r s1 where r: "resolve_drive env path (emit_phase ''PRE-FLIGHT'' ''resolving device'' 0 s0) = (r, s1)" by fastforce
  then have 1: "calls harmless s0 s1"
    using resolve_calls [of "emit_phase ''PRE-FLIGHT'' ''resolving device'' 0 s0" env path] by simp
  show ?thesis
  proof (cases r)
    case (Inl e)
    then have "calls harmless s0 (snd (run_preclear env path ps s0))" using 1 by (simp add: run_preclear_def r)
    then show ?thesis using safe_run_harmless [of s0 _ env None] by blast
  next
    case (Inr d)
    let ?s2 = "emit_phase ''PRE-FLIGHT'' ''safety check'' 5 (emit_log ''info'' (''device resolved: '' @ drive_text d) s1\<lparr>bs_heart := True\<rparr>)"
    obtain a s3 where a: "is_safe_target env (dr_path d) ?s2 = (a, s3)" by fastforce
    then have 2: "calls harmless s1 s3" using is_safe_calls [of ?s2 env "dr_path d"] by simp
    obtain q s4 where q: "take_snapshot env (dr_path d) (emit_phase ''PRE-FLIGHT'' ''baseline SMART snapshot'' 10 s3) = (q, s4)"
      by fastforce
    then have 3: "calls harmless s1 s4"
      using take_snapshot_calls [of "emit_phase ''PRE-FLIGHT'' ''baseline SMART snapshot'' 10 s3" env "dr_path d"]
        calls_trans [OF 2] by simp
    show ?thesis
    proof (cases "a = None \<and> (\<exists>b. q = Inr b)")
      case True
      then obtain b where b: "a = None" "q = Inr b" by blast
      let ?k = "preclear_partition env (dr_path d) ps b (new_preclear\<lparr>pc_drive := Some d\<rparr>\<lparr>pc_baseline := Some b\<rparr>)"
      let ?s5 = "emit_phase_complete ''PRE-FLIGHT'' (emit_log ''info'' ''baseline SMART snapshot captured'' s4)"
      have "snd (run_preclear env path ps s0) = (snd (unless_cancelled env ?k ?s5))\<lparr>bs_heart := False\<rparr>"
        using a q b by (simp add: run_preclear_def r Inr preclear_body_def Let_def split: prod.splits)
      moreover have "calls (aims_at (dr_path d)) s1 (snd (unless_cancelled env ?k ?s5))"
        using calls_aims [OF 3] by (intro unless_cancelled_frame preclear_partition_calls) simp
      ultimately have "calls (aims_at (dr_path d)) s1 (snd (run_preclear env path ps s0))"
        by simp
      moreover have "checked_safe env (dr_path d) (bs_tr s1)"
        unfolding checked_safe_def using a b by (intro exI [of _ ?s2]) simp
      ultimately have "safe_run env (Some d) s0 (snd (run_preclear env path ps s0))"
        using safe_run_checked [OF 1] by blast
      then show ?thesis using Inr r by (metis fst_conv option.inject)
    next
      case False
      then have "calls harmless s0 (snd (run_preclear env path ps s0))"
        using calls_trans [OF 1 2] calls_trans [OF 1 3] a q
        by (cases a; cases q) (auto simp: run_preclear_def r Inr preclear_body_def fail_preclear_def Let_def split: prod.splits)
      then show ?thesis using safe_run_harmless [of s0 _ env None] by blast
    qed
  qed
qed

end
