(* ===== verification/BurnRuns.thy ===== *)
theory BurnRuns
  imports BurnSafety
begin

text \<open>
  What a burn-in and a pre-clear promise: the safety check comes first, the verdict tells what the
  phases found, a cancelled burn-in returns; and where they break: the file systems a pre-clear
  cannot verify, the panic of a cancelled pre-clear, the pollers of a refused burn-in, and the
  partition names the drive package cannot take apart.
\<close>

section \<open>A host\<close>

text \<open>A rotating drive on which every program succeeds and prints nothing; \<open>mkfs\<close> and \<open>dumpe2fs\<close>
  succeed as well.\<close>

definition sample_burn_env :: burn_env where
  "sample_burn_env =
     \<lparr>bn_run = (\<lambda>tr bin args. Proc [] [] None),
      bn_ctx = (\<lambda>n. None),
      bn_mounts = (\<lambda>tr. Some []),
      bn_link = (\<lambda>tr p. Inr p),
      bn_tmpdir = (\<lambda>tr. Inr ''/tmp/v''),
      bn_mkdir = (\<lambda>tr. None),
      bn_identity = (\<lambda>out. Some \<lparr>id_model = ''M'', id_serial = ''S'', id_bytes = 1, id_rotation = 7200, id_family = ''F''\<rparr>),
      bn_attrs = (\<lambda>out. Some [(5, 0)]),
      bn_selftest = (\<lambda>out. Some [(True, ''ok'')]),
      bn_polling = (\<lambda>out. Inr (2, 100))\<rparr>"

definition fresh_burn_state :: burn_state where
  "fresh_burn_state = \<lparr>bs_tr = [], bs_reads = 0, bs_out = [], bs_poller = False, bs_heart = False\<rparr>"

definition sample_burnin_params :: burnin_params where
  "sample_burnin_params = \<lparr>bp_block = 4096, bp_conc = 65536, bp_abort = True, bp_logdir = ''/l''\<rparr>"

definition sample_preclear_params :: preclear_params where
  "sample_preclear_params = \<lparr>pm_fs = ''ext4'', pm_reserved = 1, pm_logdir = ''/l''\<rparr>"

lemma sample_burn_select [simp]:
  "bn_run sample_burn_env tr bin args = Proc [] [] None" "bn_ctx sample_burn_env n = None"
  "bn_mounts sample_burn_env tr = Some []" "bn_link sample_burn_env tr p = Inr p"
  "bn_tmpdir sample_burn_env tr = Inr ''/tmp/v''" "bn_mkdir sample_burn_env tr = None"
  "bn_identity sample_burn_env out =
     Some \<lparr>id_model = ''M'', id_serial = ''S'', id_bytes = 1, id_rotation = 7200, id_family = ''F''\<rparr>"
  "bn_attrs sample_burn_env out = Some [(5, 0)]"
  by (simp_all add: sample_burn_env_def)

lemma sample_paths [simp]:
  "path_clean ''/dev/sda'' = ''/dev/sda''" "valid_device_path ''/dev/sda''" "valid_device_path ''/dev/sda1''"
  "infer_partition_path ''/dev/sda'' 1 = ''/dev/sda1''" "infer_device_from_partition ''/dev/sda1'' = ''/dev/sda''"
  "str_fields [] = []" "trim_space [] = []" "str_contains [] ''Filesystem state:'' = False"
  by code_simp+

lemma sample_run [simp]:
  "b_run sample_burn_env bin args s = (Proc [] [] None, s\<lparr>bs_tr := bs_tr s @ [Cmd bin args]\<rparr>)"
  "b_ctx sample_burn_env s = (None, s\<lparr>bs_reads := Suc (bs_reads s)\<rparr>)"
  by (simp_all add: b_run_def b_ctx_def)

lemma sample_smartctl [simp]: "fst (run_smartctl sample_burn_env args s) = Inr []"
  by (simp add: run_smartctl_def)

lemma sample_preflight:
  "\<exists>t. resolve_drive sample_burn_env ''/dev/sda'' s = (Inr \<lparr>dr_path = ''/dev/sda'', dr_byid = [], dr_model = ''M'',
     dr_serial = ''S'', dr_capacity = 1, dr_rotation = ''HDD''\<rparr>, t)"
  "\<exists>t. is_safe_target sample_burn_env ''/dev/sda'' s = (None, t)"
  "\<exists>t. take_snapshot sample_burn_env ''/dev/sda'' s = (Inr \<lparr>ss_device = ''/dev/sda'', ss_attrs = [5 \<mapsto> 0]\<rparr>, t)"
  by (auto simp: resolve_drive_def query_smartctl_json_def is_safe_target_def check_not_mounted_def check_not_zfs_def
      take_snapshot_def read_smart_attrs_def parse_smart_attrs_json_def critical_attrs_def run_smartctl_def Let_def
      split: prod.splits)

lemma sample_group: "\<exists>t. group_step sample_burn_env what name args s = (Ret (), t)"
  "\<exists>t. run_group sample_burn_env name args s = ((Some ([], []), None), t)"
  by (auto simp: group_step_def run_group_def)

lemma sample_disk_steps:
  "\<exists>t. partition_gpt sample_burn_env ''/dev/sda'' ''ext4'' 1 s = (Ret ''/dev/sda1'', t)"
  "\<exists>t. format_partition sample_burn_env ''/dev/sda1'' ''ext4'' 1 s =
     (Ret \<lparr>fr_partition = ''/dev/sda1'', fr_filesystem = ''ext4'', fr_reserved = 1\<rparr>, t)"
  "\<exists>v t. verify_filesystem sample_burn_env ''/dev/sda1'' (Some b) s = (Ret v, t) \<and> vr_mount v \<and> vr_metadata v"
proof -
  obtain s1 where 1: "is_safe_target sample_burn_env ''/dev/sda'' s = (None, s1)" using sample_preflight(2) by blast
  show "\<exists>t. partition_gpt sample_burn_env ''/dev/sda'' ''ext4'' 1 s = (Ret ''/dev/sda1'', t)"
    by (simp add: partition_gpt_def 1 run_sgdisk_def group_step_def run_group_def Let_def)
  show "\<exists>t. format_partition sample_burn_env ''/dev/sda1'' ''ext4'' 1 s =
     (Ret \<lparr>fr_partition = ''/dev/sda1'', fr_filesystem = ''ext4'', fr_reserved = 1\<rparr>, t)"
    by (simp add: format_partition_def format_ext4_def)
  obtain s2 where 2: "check_metadata sample_burn_env ''/dev/sda1'' t = (Ret (), s2 t)" for t
    using that by (simp add: check_metadata_def run_group_def)
  have 3: "\<exists>u. take_snapshot sample_burn_env ''/dev/sda'' t = (Inr \<lparr>ss_device = ''/dev/sda'', ss_attrs = [5 \<mapsto> 0]\<rparr>, u)" for t
    by (rule sample_preflight(3))
  obtain u where "take_snapshot sample_burn_env ''/dev/sda'' t = (Inr \<lparr>ss_device = ''/dev/sda'', ss_attrs = [5 \<mapsto> 0]\<rparr>, u t)" for t
    using 3 by metis
  then show "\<exists>v t. verify_filesystem sample_burn_env ''/dev/sda1'' (Some b) s = (Ret v, t) \<and> vr_mount v \<and> vr_metadata v"
    by (auto simp: verify_filesystem_def group_step_def run_group_def 2 run_umount_def verify_smart_def split: prod.split)
qed

text \<open>The pre-clear of that drive succeeds.\<close>

lemma sample_preclear:
  "\<exists>r. fst (run_preclear sample_burn_env ''/dev/sda'' sample_preclear_params s) = Ret r"
proof -
  have go: "unless_cancelled sample_burn_env k u = k (u\<lparr>bs_reads := Suc (bs_reads u)\<rparr>)"
    for u and k :: "burn_state \<Rightarrow> preclear_result go_result \<times> burn_state"
    by (simp add: unless_cancelled_def)
  have fs: "preclear_file_system sample_preclear_params = ''ext4''" "pm_reserved sample_preclear_params = 1"
    by (simp_all add: preclear_file_system_def sample_preclear_params_def)
  have v: "\<exists>r'. fst (preclear_verify sample_burn_env ''/dev/sda1'' b r u) = Ret r'" for b r u
    using sample_disk_steps(3) [of b "emit_phase ''VERIFY'' ''verifying filesystem'' 75 u"]
    by (auto simp: preclear_verify_def preclear_complete_def go Let_def)
  have f: "\<exists>r'. fst (preclear_format sample_burn_env ''/dev/sda1'' ''ext4'' 1 b r u) = Ret r'" for b r u
    using sample_disk_steps(2) [of "emit_phase ''FORMAT'' (''formatting '' @ ''ext4'') 30 u"] v
    by (auto simp: preclear_format_def go)
  have q: "\<exists>r'. fst (preclear_partition sample_burn_env ''/dev/sda'' sample_preclear_params b r u) = Ret r'" for b r u
    using sample_disk_steps(1) [of "emit_phase ''PARTITION'' ''wiping partition table'' 15 u"] f
    by (auto simp: preclear_partition_def go fs)
  let ?d = "\<lparr>dr_path = ''/dev/sda'', dr_byid = [], dr_model = ''M'', dr_serial = ''S'', dr_capacity = 1, dr_rotation = ''HDD''\<rparr>"
  have "\<exists>r'. fst (preclear_body sample_burn_env ?d ps r u) = Ret r'" if "ps = sample_preclear_params" for ps r u
  proof -
    obtain t where 1: "is_safe_target sample_burn_env ''/dev/sda'' (emit_phase ''PRE-FLIGHT'' ''safety check'' 5 u) = (None, t)"
      using sample_preflight(2) by blast
    obtain w where "take_snapshot sample_burn_env ''/dev/sda'' (emit_phase ''PRE-FLIGHT'' ''baseline SMART snapshot'' 10 t) =
      (Inr \<lparr>ss_device = ''/dev/sda'', ss_attrs = [5 \<mapsto> 0]\<rparr>, w)"
      using sample_preflight(3) by blast
    then show ?thesis using q that by (simp add: preclear_body_def 1 go)
  qed
  moreover obtain t where "resolve_drive sample_burn_env ''/dev/sda'' (emit_phase ''PRE-FLIGHT'' ''resolving device'' 0 s) = (Inr ?d, t)"
    using sample_preflight(1) by blast
  ultimately show ?thesis
    unfolding run_preclear_def Let_def by (simp add: case_prod_unfold)
qed

section \<open>The verdict of a burn-in\<close>

lemma fail_job_stops [simp]: "fst (fail_job ph d msg j s) \<noteq> None"
  by (simp add: fail_job_def Let_def)

lemma fail_job_None [simp]: "fail_job ph d msg j s \<noteq> (None, j', s')"
  by (simp add: fail_job_def Let_def)

lemma ctx_end_None: "ctx_end env j s = (None, j', s') \<Longrightarrow> j' = j"
  by (auto simp: ctx_end_def b_ctx_def)

text \<open>What the phases keep of the result: no verdict yet, and a comparison only of a final
  snapshot with the baseline.\<close>

definition undecided :: "burnin_job \<Rightarrow> bool" where
  "undecided j \<longleftrightarrow>
     (let r = bu_result j in br_passed r \<and> br_reason r = [] \<and> br_baseline r \<noteq> None \<and> bu_base j = br_baseline r \<and>
        br_delta r = (case (br_baseline r, br_final r) of (Some b, Some p) \<Rightarrow> Some (compute_delta b p) | _ \<Rightarrow> None))"

lemma preflight_undecided:
  "burnin_preflight env path (new_burnin_job ps) s0 = (None, j, s) \<Longrightarrow> undecided j"
  by (auto simp: burnin_preflight_def Let_def undecided_def new_burnin_job_def dest!: ctx_end_None
      split: prod.splits sum.splits option.splits)

lemma short_undecided:
  assumes "burnin_short env j s0 = Some (None, j', s)" "undecided j"
  shows "undecided j' \<and> br_short (bu_result j') \<noteq> None"
  using assms
  by (auto simp: burnin_short_def undecided_def Let_def dest!: ctx_end_None split: option.splits sum.splits prod.splits)

lemma badblocks_undecided:
  assumes "burnin_badblocks env j s0 = (None, j', s)" "undecided j"
  shows "undecided j' \<and> br_short (bu_result j') = br_short (bu_result j)"
  using assms
  by (auto simp: burnin_badblocks_def undecided_def Let_def dest!: ctx_end_None
      split: option.splits sum.splits prod.splits if_splits)

lemma extended_undecided:
  assumes "burnin_extended env j s0 = Some (None, j', s)" "undecided j"
  shows "undecided j' \<and> br_short (bu_result j') = br_short (bu_result j) \<and> br_long (bu_result j') \<noteq> None"
  using assms
  by (auto simp: burnin_extended_def undecided_def Let_def dest!: ctx_end_None split: option.splits sum.splits prod.splits)

text \<open>The phases of a burn-in that ends without an error.\<close>

lemma burnin_phases [consumes 1]:
  assumes "run_burnin env path ps s0 = Some ((r, None), s)"
  obtains j1 s1 j2 s2 j3 s3 j4 s4 where
    "burnin_preflight env path (new_burnin_job ps) s0 = (None, j1, s1)"
    "burnin_short env j1 s1 = Some (None, j2, s2)"
    "burnin_badblocks env j2 s2 = (None, j3, s3)"
    "burnin_extended env j3 s3 = Some (None, j4, s4)"
    "r = burnin_verdict (bu_result j4)"
proof -
  obtain j1 s1 where 1: "burnin_preflight env path (new_burnin_job ps) s0 = (None, j1, s1)"
    using assms by (auto simp: run_burnin_def split: prod.splits option.splits)
  obtain j2 s2 where 2: "burnin_short env j1 s1 = Some (None, j2, s2)"
    using assms by (auto simp: run_burnin_def 1 split: prod.splits option.splits)
  obtain j3 s3 where 3: "burnin_badblocks env j2 s2 = (None, j3, s3)"
    using assms by (auto simp: run_burnin_def 1 2 split: prod.splits option.splits)
  obtain j4 s4 where 4: "burnin_extended env j3 s3 = Some (None, j4, s4)"
    using assms by (auto simp: run_burnin_def 1 2 3 split: prod.splits option.splits)
  have "r = burnin_verdict (bu_result j4)"
    using assms by (simp add: run_burnin_def 1 2 3 4 burnin_complete_def Let_def)
  then show thesis using that 1 2 3 4 by blast
qed

lemma phases_undecided:
  assumes "run_burnin env path ps s0 = Some ((r, None), s)"
  shows "\<exists>j. undecided j \<and> br_short (bu_result j) \<noteq> None \<and> br_long (bu_result j) \<noteq> None \<and>
    r = burnin_verdict (bu_result j)"
  using assms
  by (cases rule: burnin_phases) (metis preflight_undecided short_undecided badblocks_undecided extended_undecided)

lemma add_reason_not_Nil [simp]: "y \<noteq> [] \<Longrightarrow> add_reason x y \<noteq> []"
  by (simp add: add_reason_def)

lemma verdict_tests:
  "br_short (burnin_verdict r) = br_short r" "br_long (burnin_verdict r) = br_long r"
  "br_errors (burnin_verdict r) = br_errors r" "br_delta (burnin_verdict r) = br_delta r"
  "br_baseline (burnin_verdict r) = br_baseline r" "br_final (burnin_verdict r) = br_final r"
  "br_drive (burnin_verdict r) = br_drive r"
  by (simp_all add: burnin_verdict_def Let_def)


section \<open>Cancellation\<close>

lemma poll_returns:
  assumes "bn_ctx env k \<noteq> None" "bs_reads s \<le> k"
  shows "poll_self_test env dev ty s \<noteq> None"
  using assms(2)
proof (induction "k - bs_reads s" arbitrary: s rule: less_induct)
  case less
  obtain x s1 where x: "check_test_complete env dev s = (x, s1)" by fastforce
  have reads: "bs_reads s1 = bs_reads s"
    using x by (auto simp: check_test_complete_def run_smartctl_def b_run_def
        split: prod.splits sum.splits proc_answer.splits option.splits if_splits)
  show ?case
  proof (cases "\<exists>passed st. x = Inr (False, passed, st) \<and> bn_ctx env (bs_reads s) = None")
    case True
    then obtain passed st where st: "x = Inr (False, passed, st)" "bn_ctx env (bs_reads s) = None" by blast
    then have "bs_reads s < k" using assms(1) less.prems by (cases "bs_reads s = k") auto
    then have "poll_self_test env dev ty (s1\<lparr>bs_reads := Suc (bs_reads s)\<rparr>) \<noteq> None"
      by (intro less.hyps) simp_all
    then show ?thesis
      using st by (subst poll_self_test.simps) (simp add: x await_test_def b_ctx_def reads)
  next
    case False
    then show ?thesis
      by (subst poll_self_test.simps) (auto simp: x await_test_def b_ctx_def reads split: sum.split option.split prod.split)
  qed
qed

lemma self_test_returns:
  assumes "\<And>n. k \<le> n \<Longrightarrow> bn_ctx env n \<noteq> None"
  shows "run_self_test env dev ty s \<noteq> None"
proof -
  have "poll_self_test env dev ty t \<noteq> None" for t
    using poll_returns [of env "max k (bs_reads t)" t] assms by auto
  then show ?thesis
    by (auto simp: run_self_test_def Let_def split: prod.split sum.split option.split)
qed

text \<open>C39. A burn-in whose context is cancelled at some time returns; without the cancellation it may
  wait for the drive for ever.\<close>

theorem cancelled_burnin_returns:
  assumes "\<And>n. k \<le> n \<Longrightarrow> bn_ctx env n \<noteq> None"
  shows "run_burnin env path ps s0 \<noteq> None"
proof -
  have tests: "\<exists>r t. run_self_test env dev ty s = Some (r, t)" for dev ty s
    using self_test_returns [of k env dev ty s, OF assms] by auto
  have "burnin_short env j s \<noteq> None" "burnin_extended env j s \<noteq> None" for j s
    using tests [of "job_device j" "''short''"] tests [of "job_device j" "''long''"]
    unfolding burnin_short_def burnin_extended_def Let_def
    by (auto simp del: not_None_eq split: option.split sum.split prod.split)
  then show ?thesis
    unfolding run_burnin_def by (auto simp del: not_None_eq split: prod.split option.split)
qed

text \<open>A drive whose self-test log stays empty is polled for ever.\<close>

lemma empty_test_log_hangs:
  assumes "\<And>tr args. \<exists>out err. bn_run env tr ''smartctl'' args = Proc out err None"
    and "\<And>out. bn_selftest env out = Some []" and "\<And>n. bn_ctx env n = None" and "valid_device_path dev"
  shows "run_self_test env dev ty s = None"
proof -
  have ok: "\<exists>out s'. run_smartctl env args s = (Inr out, s')" for args s
    using assms(1) [of "bs_tr s" args] by (auto simp: run_smartctl_def b_run_def)
  have check: "\<exists>s'. check_test_complete env dev s = (Inr (False, False, ''no test entries''), s')" for s
    using ok [of "[''-l'', ''selftest'', ''--json'', dev]" s] assms(2) by (auto simp: check_test_complete_def)
  have wait: "fst (await_test env dev s) = None" for s
    using assms(3) by (simp add: await_test_def b_ctx_def)
  have hang: False if "poll_self_test env dev ty u = Some y" for u y
    using that
  proof (induction rule: poll_rounds)
    case (fault s e s1)
    then show ?case using check [of s] by auto
  next
    case (finished s passed st s1)
    then show ?case using check [of s] by auto
  next
    case (cancelled s passed st s1 e s2)
    then show ?case using wait [of s1] by simp
  qed
  then have "poll_self_test env dev ty u = None" for u by (cases "poll_self_test env dev ty u") auto
  moreover obtain out s2 where "run_smartctl env [''--test='' @ ty, dev] (snd (get_polling_time env dev ty s)) = (Inr out, s2)"
    using ok by blast
  moreover obtain s3 where "await_test env dev s2 = (None, s3)" using wait [of s2] by (metis prod.collapse)
  ultimately show ?thesis
    using assms(4) by (simp add: run_self_test_def Let_def case_prod_unfold)
qed

section \<open>The background work of a refused burn-in\<close>

named_theorems burn_frame "the pollers and the readings of the context stay as they are"

lemma emit_frame [burn_frame]:
  "bs_poller (emit_progress ph detail pct errs deltas s) = bs_poller s" "bs_heart (emit_progress ph detail pct errs deltas s) = bs_heart s"
  "bs_reads (emit_progress ph detail pct errs deltas s) = bs_reads s"
  "bs_poller (emit_log sev msg s) = bs_poller s" "bs_heart (emit_log sev msg s) = bs_heart s" "bs_reads (emit_log sev msg s) = bs_reads s"
  "bs_poller (emit_phase ph detail pct s) = bs_poller s" "bs_heart (emit_phase ph detail pct s) = bs_heart s"
  "bs_reads (emit_phase ph detail pct s) = bs_reads s"
  "bs_poller (emit_phase_complete ph s) = bs_poller s" "bs_heart (emit_phase_complete ph s) = bs_heart s"
  "bs_reads (emit_phase_complete ph s) = bs_reads s"
  "bs_poller (emit_complete detail errs deltas s) = bs_poller s" "bs_heart (emit_complete detail errs deltas s) = bs_heart s"
  by (simp_all add: emit_progress_def emit_log_def emit_phase_def emit_phase_complete_def emit_complete_def)

definition same_work :: "burn_state \<Rightarrow> burn_state \<Rightarrow> bool" where
  "same_work s t \<longleftrightarrow> bs_poller t = bs_poller s \<and> bs_heart t = bs_heart s \<and> bs_reads t = bs_reads s"

lemma smartctl_work: "same_work s (snd (run_smartctl env args s))"
  by (auto simp: run_smartctl_def b_run_def same_work_def split: proc_answer.split option.split)

lemma resolve_work: "same_work s (snd (resolve_drive env path s))"
proof -
  have "same_work t (snd (query_smartctl_text env d t))" for d t
    using smartctl_work [of t env "[''-i'', dr_path d]"]
    by (auto simp: query_smartctl_text_def Let_def split: prod.splits sum.splits)
  then have "same_work t (snd (query_smartctl_json env d t))" for d t
    using smartctl_work [of t env "[''-i'', ''--json'', dr_path d]"]
    unfolding query_smartctl_json_def Let_def same_work_def
    by (auto split: prod.splits sum.splits option.splits)
  then show ?thesis
    unfolding resolve_drive_def Let_def
    by (auto simp: same_work_def split: sum.split prod.splits) (metis snd_conv)+
qed

lemma is_safe_work: "same_work s (snd (is_safe_target env path s))"
  by (auto simp: is_safe_target_def check_not_zfs_def b_run_def same_work_def Let_def split: option.split proc_answer.split)

lemma snapshot_work: "same_work s (snd (take_snapshot env dev s))"
  using smartctl_work [of s env "[''-A'', ''--json'', dev]"]
  by (auto simp: take_snapshot_def read_smart_attrs_def same_work_def split: prod.splits sum.splits)

lemma preflight_reads:
  "resolve_drive env path s = (r, t) \<Longrightarrow> bs_reads t = bs_reads s"
  "is_safe_target env path s = (e, t) \<Longrightarrow> bs_reads t = bs_reads s"
  "take_snapshot env dev s = (q, t) \<Longrightarrow> bs_reads t = bs_reads s"
  using resolve_work [of s env path] is_safe_work [of s env path] snapshot_work [of s env dev]
  by (auto simp: same_work_def)

lemma ctx_end_work:
  "bs_poller (snd (snd (ctx_end env j s))) = bs_poller s" "bs_heart (snd (snd (ctx_end env j s))) = bs_heart s"
  by (simp_all add: ctx_end_def b_ctx_def)

lemma fail_job_work:
  "bs_poller (snd (snd (fail_job ph d msg j s))) = bs_poller s" "bs_heart (snd (snd (fail_job ph d msg j s))) = bs_heart s"
  "bu_result (fst (snd (fail_job ph d msg j s))) = (bu_result j)\<lparr>br_passed := False, br_reason := msg\<rparr>"
  by (simp_all add: fail_job_def Let_def burn_frame)

text \<open>The preflight leaves both running from the moment it has resolved the drive.\<close>

lemma preflight_work:
  assumes "burnin_preflight env path (new_burnin_job ps) s0 = (e, j, s)" "\<not> bs_poller s0" "\<not> bs_heart s0"
  shows "bs_poller s = (br_drive (bu_result j) \<noteq> None)" "bs_heart s = (br_drive (bu_result j) \<noteq> None)"
proof -
  obtain r s1 where r: "resolve_drive env path (emit_phase ''PRE-FLIGHT'' ''resolving device'' 0 s0) = (r, s1)" by fastforce
  then have w1: "\<not> bs_poller s1" "\<not> bs_heart s1"
    using resolve_work [of "emit_phase ''PRE-FLIGHT'' ''resolving device'' 0 s0" env path] assms(2,3)
    by (simp_all add: same_work_def burn_frame)
  have "bs_poller s = (br_drive (bu_result j) \<noteq> None) \<and> bs_heart s = (br_drive (bu_result j) \<noteq> None)"
  proof (cases r)
    case (Inl x)
    then have "e \<noteq> None \<and> br_drive (bu_result j) = None \<and> bs_poller s = bs_poller s1 \<and> bs_heart s = bs_heart s1"
      using assms(1) by (auto simp: burnin_preflight_def r fail_job_def Let_def new_burnin_job_def burn_frame)
    then show ?thesis using w1 by simp
  next
    case (Inr d)
    let ?s3 = "emit_phase ''PRE-FLIGHT'' ''safety check'' 5 (emit_log ''info''
      (''device resolved: '' @ drive_text d @ '' rotation='' @ dr_rotation d) s1\<lparr>bs_poller := True, bs_heart := True\<rparr>)"
    obtain a s4 where a: "is_safe_target env (dr_path d) ?s3 = (a, s4)" by fastforce
    then have w4: "bs_poller s4" "bs_heart s4"
      using is_safe_work [of ?s3 env "dr_path d"] by (simp_all add: same_work_def burn_frame)
    obtain b s5 where b: "take_snapshot env (dr_path d) (emit_phase ''PRE-FLIGHT'' ''baseline SMART snapshot'' 10 s4) = (b, s5)"
      by fastforce
    then have w5: "bs_poller s5" "bs_heart s5"
      using snapshot_work [of "emit_phase ''PRE-FLIGHT'' ''baseline SMART snapshot'' 10 s4" env "dr_path d"] w4
      by (simp_all add: same_work_def burn_frame)
    have "br_drive (bu_result j) = Some d \<and> bs_poller s \<and> bs_heart s"
      using assms(1) a b w4 w5
      by (auto simp: burnin_preflight_def r Inr Let_def new_burnin_job_def burn_frame fail_job_def ctx_end_def b_ctx_def
          split: option.splits sum.splits)
    then show ?thesis by simp
  qed
  then show "bs_poller s = (br_drive (bu_result j) \<noteq> None)" "bs_heart s = (br_drive (bu_result j) \<noteq> None)"
    by simp_all
qed

text \<open>The temperature poller and the heartbeat of a burn-in are left running exactly when the
  preflight fails after it has resolved the drive: the deferred calls that stop them are only
  registered once the preflight has succeeded.\<close>

lemma pollers_left_running:
  assumes "run_burnin env path ps s0 = Some ((r, e), s)" "\<not> bs_poller s0" "\<not> bs_heart s0"
  shows "bs_poller s = (fst (burnin_preflight env path (new_burnin_job ps) s0) \<noteq> None \<and> br_drive r \<noteq> None) \<and>
    bs_heart s = (fst (burnin_preflight env path (new_burnin_job ps) s0) \<noteq> None \<and> br_drive r \<noteq> None)"
proof -
  obtain e1 j1 s1 where 1: "burnin_preflight env path (new_burnin_job ps) s0 = (e1, j1, s1)" by (metis prod_cases3)
  note w = preflight_work [OF 1 assms(2,3)]
  have stop: "\<not> bs_poller (stop_pollers t) \<and> \<not> bs_heart (stop_pollers t)" for t by (simp add: stop_pollers_def)
  have "e1 = None \<Longrightarrow> \<exists>t. s = stop_pollers t"
    using assms(1) by (auto simp: run_burnin_def 1 split: option.splits prod.splits)
  moreover have "e1 \<noteq> None \<Longrightarrow> s = s1 \<and> r = bu_result j1"
    using assms(1) by (auto simp: run_burnin_def 1)
  ultimately show ?thesis
    using w stop by (auto simp: 1)
qed

section \<open>A pre-clear that is cancelled\<close>

text \<open>Up to the partitioning nothing depends on the context.\<close>

lemma ctx_select:
  "bn_run (env\<lparr>bn_ctx := f\<rparr>) = bn_run env" "bn_link (env\<lparr>bn_ctx := f\<rparr>) = bn_link env"
  "bn_mounts (env\<lparr>bn_ctx := f\<rparr>) = bn_mounts env" "bn_identity (env\<lparr>bn_ctx := f\<rparr>) = bn_identity env"
  "bn_attrs (env\<lparr>bn_ctx := f\<rparr>) = bn_attrs env"
  by simp_all

lemma ctx_free:
  "run_smartctl (env\<lparr>bn_ctx := f\<rparr>) args s = run_smartctl env args s"
  "check_not_mounted (env\<lparr>bn_ctx := f\<rparr>) dev s = check_not_mounted env dev s"
  "check_not_zfs (env\<lparr>bn_ctx := f\<rparr>) dev s = check_not_zfs env dev s"
  "parse_smart_attrs_json (env\<lparr>bn_ctx := f\<rparr>) data = parse_smart_attrs_json env data"
  unfolding run_smartctl_def check_not_mounted_def check_not_zfs_def parse_smart_attrs_json_def b_run_def ctx_select
  by (rule refl)+

lemma ctx_free_text: "query_smartctl_text (env\<lparr>bn_ctx := f\<rparr>) d s = query_smartctl_text env d s"
  unfolding query_smartctl_text_def ctx_free by (rule refl)

lemma ctx_free_query: "query_smartctl_json (env\<lparr>bn_ctx := f\<rparr>) d s = query_smartctl_json env d s"
  unfolding query_smartctl_json_def ctx_free ctx_select ctx_free_text by (rule refl)

lemma ctx_free_preflight:
  "resolve_drive (env\<lparr>bn_ctx := f\<rparr>) path s = resolve_drive env path s"
  "is_safe_target (env\<lparr>bn_ctx := f\<rparr>) path s = is_safe_target env path s"
  "take_snapshot (env\<lparr>bn_ctx := f\<rparr>) dev s = take_snapshot env dev s"
  unfolding resolve_drive_def is_safe_target_def take_snapshot_def read_smart_attrs_def ctx_free ctx_select ctx_free_query
  by (rule refl)+

lemma partition_panics:
  assumes "valid_device_path dev" "fst (is_safe_target env dev s) = None" "bn_ctx env (bs_reads s) \<noteq> None"
  shows "fst (partition_gpt env dev fs reserved s) = Panics"
proof -
  obtain s1 where 1: "is_safe_target env dev s = (None, s1)" using assms(2) by (metis prod.collapse)
  then have "bs_reads s1 = bs_reads s" using is_safe_work [of s env dev] by (simp add: same_work_def)
  then show ?thesis
    using assms(1,3)
    by (auto simp: partition_gpt_def 1 Let_def run_sgdisk_def group_step_def run_group_def b_run_def b_ctx_def
        stderr_message_def split: proc_answer.splits)
qed

lemma partition_phase_panics:
  assumes "fst (partition_gpt env dev (preclear_file_system ps) (pm_reserved ps)
    (emit_phase ''PARTITION'' ''wiping partition table'' 15 s)) = Panics"
  shows "fst (preclear_partition env dev ps b r s) = Panics"
  using assms
  by (cases "partition_gpt env dev (preclear_file_system ps) (pm_reserved ps)
    (emit_phase ''PARTITION'' ''wiping partition table'' 15 s)") (simp add: preclear_partition_def)

text \<open>What a pre-clear without an error has gone through before it touches the drive.\<close>

lemma preclear_steps:
  assumes "fst (run_preclear env path ps s0) = Ret r"
  obtains d s1 s3 b s4 s5 where
    "resolve_drive env path (emit_phase ''PRE-FLIGHT'' ''resolving device'' 0 s0) = (Inr d, s1)"
    "is_safe_target env (dr_path d) (emit_phase ''PRE-FLIGHT'' ''safety check'' 5
       (emit_log ''info'' (''device resolved: '' @ drive_text d) s1\<lparr>bs_heart := True\<rparr>)) = (None, s3)"
    "take_snapshot env (dr_path d) (emit_phase ''PRE-FLIGHT'' ''baseline SMART snapshot'' 10 s3) = (Inr b, s4)"
    "s5 = emit_phase_complete ''PRE-FLIGHT'' (emit_log ''info'' ''baseline SMART snapshot captured'' s4)"
    "fst (unless_cancelled env (preclear_partition env (dr_path d) ps b
       (new_preclear\<lparr>pc_drive := Some d\<rparr>\<lparr>pc_baseline := Some b\<rparr>)) s5) = Ret r"
proof -
  obtain d s1 where 1: "resolve_drive env path (emit_phase ''PRE-FLIGHT'' ''resolving device'' 0 s0) = (Inr d, s1)"
    using assms by (auto simp: run_preclear_def fail_preclear_def split: prod.splits sum.splits)
  let ?s2 = "emit_phase ''PRE-FLIGHT'' ''safety check'' 5
    (emit_log ''info'' (''device resolved: '' @ drive_text d) s1\<lparr>bs_heart := True\<rparr>)"
  have body: "fst (preclear_body env d ps (new_preclear\<lparr>pc_drive := Some d\<rparr>)
      (emit_log ''info'' (''device resolved: '' @ drive_text d) s1\<lparr>bs_heart := True\<rparr>)) = Ret r"
    using assms by (simp add: run_preclear_def 1 Let_def split: prod.splits)
  obtain s3 where 2: "is_safe_target env (dr_path d) ?s2 = (None, s3)"
    using body by (auto simp: preclear_body_def fail_preclear_def split: prod.splits option.splits)
  obtain b s4 where 3: "take_snapshot env (dr_path d) (emit_phase ''PRE-FLIGHT'' ''baseline SMART snapshot'' 10 s3) = (Inr b, s4)"
    using body 2 by (auto simp: preclear_body_def fail_preclear_def split: prod.splits sum.splits)
  show thesis using that [OF 1 2 3 refl] body 2 3 by (simp add: preclear_body_def)
qed

text \<open>A context that is cancelled once it has been read \<open>n\<close> times.\<close>

definition cancel_after :: "nat \<Rightarrow> burn_env \<Rightarrow> burn_env" where
  "cancel_after n env = env\<lparr>bn_ctx := \<lambda>i. if i < n then None else Some (PlainError ''context canceled'')\<rparr>"

text \<open>A pre-clear that succeeds when it is left alone panics when its job is cancelled while the
  partition table is wiped: the cancelled command leaves no result, and the error text is taken from
  the standard error of that result. Nothing recovers, so the whole agent goes down with every other
  job.\<close>

lemma cancelled_preclear_panics:
  assumes "fst (run_preclear (env\<lparr>bn_ctx := \<lambda>i. None\<rparr>) path ps s0) = Ret r"
  shows "fst (run_preclear (cancel_after (Suc (bs_reads s0)) env) path ps s0) = Panics"
proof -
  let ?quiet = "env\<lparr>bn_ctx := \<lambda>i. None\<rparr>" and ?late = "cancel_after (Suc (bs_reads s0)) env"
  obtain d s1 s3 b s4 s5 where
    1: "resolve_drive ?quiet path (emit_phase ''PRE-FLIGHT'' ''resolving device'' 0 s0) = (Inr d, s1)" and
    2: "is_safe_target ?quiet (dr_path d) (emit_phase ''PRE-FLIGHT'' ''safety check'' 5
       (emit_log ''info'' (''device resolved: '' @ drive_text d) s1\<lparr>bs_heart := True\<rparr>)) = (None, s3)" and
    3: "take_snapshot ?quiet (dr_path d) (emit_phase ''PRE-FLIGHT'' ''baseline SMART snapshot'' 10 s3) = (Inr b, s4)" and
    s5: "s5 = emit_phase_complete ''PRE-FLIGHT'' (emit_log ''info'' ''baseline SMART snapshot captured'' s4)" and
    4: "fst (unless_cancelled ?quiet (preclear_partition ?quiet (dr_path d) ps b
       (new_preclear\<lparr>pc_drive := Some d\<rparr>\<lparr>pc_baseline := Some b\<rparr>)) s5) = Ret r"
    by (rule preclear_steps [OF assms])
  have reads: "bs_reads s5 = bs_reads s0"
    using preflight_reads(1) [OF 1] preflight_reads(2) [OF 2] preflight_reads(3) [OF 3] by (simp add: s5 burn_frame)
  let ?t = "emit_phase ''PARTITION'' ''wiping partition table'' 15 (s5\<lparr>bs_reads := Suc (bs_reads s5)\<rparr>)"
  have "valid_device_path (dr_path d)" "fst (is_safe_target ?quiet (dr_path d) ?t) = None"
    using 4 by (auto simp: unless_cancelled_def b_ctx_def preclear_partition_def partition_gpt_def fail_preclear_def Let_def
        split: if_splits prod.splits option.splits)
  then have "fst (partition_gpt ?late (dr_path d) fs reserved ?t) = Panics" for fs reserved
    by (intro partition_panics) (simp_all add: cancel_after_def ctx_free_preflight reads burn_frame)
  then have "fst (preclear_partition ?late (dr_path d) ps b r (s5\<lparr>bs_reads := Suc (bs_reads s5)\<rparr>)) = Panics" for r
    by (rule partition_phase_panics)
  then have "fst (unless_cancelled ?late (preclear_partition ?late (dr_path d) ps b
      (new_preclear\<lparr>pc_drive := Some d\<rparr>\<lparr>pc_baseline := Some b\<rparr>)) s5) = Panics"
    by (simp add: unless_cancelled_def b_ctx_def cancel_after_def reads)
  then show ?thesis
    using 1 2 3 unfolding s5
    by (auto simp: run_preclear_def preclear_body_def cancel_after_def ctx_free_preflight split: prod.splits)
qed

section \<open>A pre-clear and the file system\<close>

text \<open>The verification runs \<open>dumpe2fs\<close>, which knows the ext file systems only.\<close>

lemma verify_needs_dumpe2fs:
  assumes "fst (verify_filesystem env part base s) = Ret v"
  shows "\<exists>tr out err. bn_run env tr ''dumpe2fs'' [''-h'', part] = Proc out err None"
  using assms
  by (auto simp: verify_filesystem_def check_metadata_def run_group_def b_run_def b_ctx_def case_prod_unfold stderr_message_def
      split: if_splits sum.splits go_result.splits option.splits proc_answer.splits)

lemma unless_cancelled_Ret:
  assumes "fst (unless_cancelled env k s) = Ret x"
  obtains t where "fst (k t) = Ret x"
  using assms by (auto simp: unless_cancelled_def split: prod.splits option.splits)

definition dumpe2fs_accepts :: "burn_env \<Rightarrow> string \<Rightarrow> bool" where
  "dumpe2fs_accepts env part \<longleftrightarrow> (\<exists>tr out err. bn_run env tr ''dumpe2fs'' [''-h'', part] = Proc out err None)"

lemma preclear_verify_ext:
  "fst (preclear_verify env part base r s) = Ret x \<Longrightarrow> dumpe2fs_accepts env part"
  using verify_needs_dumpe2fs [of env part "Some base" "emit_phase ''VERIFY'' ''verifying filesystem'' 75 s"]
  by (auto simp: dumpe2fs_accepts_def preclear_verify_def fail_preclear_def split: prod.splits go_result.splits)

lemma preclear_format_ext:
  assumes "fst (preclear_format env part fs reserved base r s) = Ret x"
  shows "dumpe2fs_accepts env part"
proof -
  obtain f s1 where "format_partition env part fs reserved (emit_phase ''FORMAT'' (''formatting '' @ fs) 30 s) = (Ret f, s1)"
    using assms by (auto simp: preclear_format_def fail_preclear_def split: prod.splits go_result.splits option.splits)
  with assms show ?thesis
    by (auto simp: preclear_format_def elim!: unless_cancelled_Ret dest!: preclear_verify_ext)
qed

lemma preclear_partition_ext:
  assumes "fst (preclear_partition env dev ps base r s) = Ret x"
  shows "dumpe2fs_accepts env (infer_partition_path dev 1)"
proof -
  obtain part s1 where part: "partition_gpt env dev (preclear_file_system ps) (pm_reserved ps)
      (emit_phase ''PARTITION'' ''wiping partition table'' 15 s) = (Ret part, s1)"
    using assms by (auto simp: preclear_partition_def Let_def fail_preclear_def split: prod.splits go_result.splits option.splits)
  with assms partition_path [OF part] show ?thesis
    by (auto simp: preclear_partition_def Let_def elim!: unless_cancelled_Ret dest!: preclear_format_ext)
qed

text \<open>A pre-clear only succeeds if \<open>dumpe2fs\<close> accepts the new partition, whatever file system it was
  asked for: \<open>xfs\<close>, \<open>btrfs\<close>, \<open>fat32\<close>, \<open>linux-swap\<close> and \<open>raw\<close> are formatted and then always reported
  as failed.\<close>

lemma preclear_needs_ext:
  assumes "fst (run_preclear env path ps s0) = Ret r"
  shows "\<exists>d. fst (resolve_drive env path (emit_phase ''PRE-FLIGHT'' ''resolving device'' 0 s0)) = Inr d \<and>
    dumpe2fs_accepts env (infer_partition_path (dr_path d) 1)"
  using assms
  by (cases rule: preclear_steps) (auto elim!: unless_cancelled_Ret dest!: preclear_partition_ext)

section \<open>Partition names\<close>

lemma str_contains_append: "str_contains a p \<Longrightarrow> str_contains (a @ b) p"
  unfolding str_contains_iff by (metis append.assoc)

lemma strip_digits:
  assumes "all_digits ds"
  shows "rev (dropWhile is_digit (rev (dev @ ds))) = rev (dropWhile is_digit (rev dev))"
  using assms dropWhile_append2 [of "rev ds" is_digit "rev dev"] by (simp add: all_digits_def list_all_iff)

lemma last_p_marker:
  assumes "all_digits ds"
  shows "last_index_byte (dev @ CHR ''p'' # ds) (CHR ''p'') = Some (length dev)"
proof -
  have "last_index_byte ds (CHR ''p'') = None"
    using assms by (auto simp: last_index_byte_None all_digits_def list_all_iff is_digit_def)
  then show ?thesis by (induction dev) simp_all
qed

definition marked_device :: "string \<Rightarrow> bool" where
  "marked_device dev \<longleftrightarrow> str_contains dev ''nvme'' \<or> str_contains dev ''loop''"

text \<open>The device found for the first partition of a device is that device, except for a device
  that ends in a digit and is neither an NVMe nor a loop device (\<open>/dev/mmcblk0\<close>, \<open>/dev/md0\<close>): its
  partition gets a name that does not exist, and the device found for it is another one.\<close>

lemma partition_roundtrip:
  assumes "0 \<le> n"
  shows "infer_device_from_partition (infer_partition_path dev n) = dev \<longleftrightarrow>
    marked_device dev \<or> dev = [] \<or> \<not> is_digit (last dev)"
proof (cases "marked_device dev")
  case True
  have "itoa n = dec_digits n" using assms by (simp add: itoa_def)
  then have "last_index_byte (dev @ CHR ''p'' # itoa n) (CHR ''p'') = Some (length dev)"
    using assms by (simp add: last_p_marker)
  moreover have "dev \<noteq> []" using True by (auto simp: marked_device_def str_contains_iff)
  ultimately show ?thesis
    using True by (auto simp: infer_device_from_partition_def infer_partition_path_def marked_device_def)
next
  case False
  have ds: "all_digits (itoa n)" using assms by (simp add: itoa_def)
  have none: "\<not> str_contains (take i (dev @ itoa n)) w"
    if "last_index_byte (dev @ itoa n) (CHR ''p'') = Some i" "w = ''nvme'' \<or> w = ''loop''" for i w
  proof -
    have "i < length dev"
    proof (rule ccontr)
      assume "\<not> i < length dev"
      moreover have "i < length (dev @ itoa n)" "(dev @ itoa n) ! i = CHR ''p''"
        using last_index_byte_lt [OF that(1)] by blast+
      ultimately have "CHR ''p'' \<in> set (itoa n)"
        by (metis add_diff_cancel_left' diff_less_mono length_append linorder_not_less nth_append nth_mem)
      then show False using ds by (auto simp: all_digits_def list_all_iff is_digit_def)
    qed
    then have "dev = take i (dev @ itoa n) @ drop i dev" by simp
    then show ?thesis using False that(2) str_contains_append unfolding marked_device_def by metis
  qed
  then have "infer_device_from_partition (dev @ itoa n) = rev (dropWhile is_digit (rev dev))"
    unfolding infer_device_from_partition_def Let_def strip_digits [OF ds] by (auto split: option.split)
  moreover have "rev (dropWhile is_digit (rev dev)) = dev \<longleftrightarrow> dev = [] \<or> \<not> is_digit (last dev)"
  proof (cases dev rule: rev_cases)
    case (snoc xs x)
    have "length (dropWhile is_digit (rev xs)) \<le> length xs"
      by (metis length_dropWhile_le length_rev)
    then have "rev (dropWhile is_digit (rev xs)) \<noteq> xs @ [x]" by (metis length_append_singleton length_rev not_less_eq_eq order_refl)
    then show ?thesis by (simp add: snoc)
  qed simp
  ultimately show ?thesis
    using False by (simp add: infer_partition_path_def marked_device_def)
qed

section \<open>The safety check\<close>

text \<open>C2. Badblocks, the wiping and the partitioning of a disk and every \<open>mkfs\<close> only run after the safety
  check of the drive has passed, and only on that drive or on its first partition; before that, and in
  every job that ends early, a job only reads.\<close>

theorem destructive_needs_safety:
  shows "(case run_burnin env path ps s0 of None \<Rightarrow> True | Some ((r, e), s) \<Rightarrow> safe_run env (br_drive r) s0 s) \<and>
    (\<exists>drive. safe_run env drive s0 (snd (run_preclear env path qs s0)) \<and>
      (case drive of None \<Rightarrow> True
       | Some d \<Rightarrow> fst (resolve_drive env path (emit_phase ''PRE-FLIGHT'' ''resolving device'' 0 s0)) = Inr d))"
proof -
  obtain drive where "safe_run env drive s0 (snd (run_preclear env path qs s0))"
    "\<forall>d. drive = Some d \<longrightarrow> fst (resolve_drive env path (emit_phase ''PRE-FLIGHT'' ''resolving device'' 0 s0)) = Inr d"
    using run_preclear_safe [of env s0 path qs] by blast
  then have "\<exists>drive. safe_run env drive s0 (snd (run_preclear env path qs s0)) \<and>
      (case drive of None \<Rightarrow> True
       | Some d \<Rightarrow> fst (resolve_drive env path (emit_phase ''PRE-FLIGHT'' ''resolving device'' 0 s0)) = Inr d)"
    by (intro exI [of _ drive]) (simp split: option.split)
  moreover have "case run_burnin env path ps s0 of None \<Rightarrow> True | Some ((r, e), s) \<Rightarrow> safe_run env (br_drive r) s0 s"
    using run_burnin_safe [of env path ps s0] by (auto split: option.split)
  ultimately show ?thesis by blast
qed

text \<open>The sample drive passes its burn-in.\<close>

lemma sample_self_test:
  "\<exists>t. run_self_test sample_burn_env ''/dev/sda'' ty s = Some (Inr \<lparr>tt_passed = True, tt_status = ''ok''\<rparr>, t)"
proof -
  have log: "bn_selftest sample_burn_env out = Some [(True, ''ok'')]" for out by (simp add: sample_burn_env_def)
  have "str_contains (to_lower ''ok'') ''in progress'' = False" "str_contains (to_lower ''ok'') ''% remaining'' = False"
    by code_simp+
  then have "\<exists>t. poll_self_test sample_burn_env ''/dev/sda'' ty u = Some (Inr \<lparr>tt_passed = True, tt_status = ''ok''\<rparr>, t)" for u
    by (subst poll_self_test.simps) (simp add: check_test_complete_def run_smartctl_def log)
  then show ?thesis
    by (simp add: run_self_test_def get_polling_time_def run_smartctl_def await_test_def Let_def case_prod_unfold)
qed

lemma sample_badblocks: "\<exists>t. run_badblocks sample_burn_env ''/dev/sda'' n c ab dir s = (Inr 0, t)"
proof -
  have "count_stdout_errors [] (parse_bb_stderr []) = 0" by code_simp
  then show ?thesis by (simp add: run_badblocks_def Let_def)
qed

definition sample_baseline :: smart_snapshot where
  "sample_baseline = \<lparr>ss_device = ''/dev/sda'', ss_attrs = [5 \<mapsto> 0]\<rparr>"

text \<open>What the phases of the sample drive keep of the job.\<close>

definition sample_job :: "burnin_job \<Rightarrow> bool" where
  "sample_job j \<longleftrightarrow> job_device j = ''/dev/sda'' \<and> bu_base j = Some sample_baseline \<and>
     \<not> failed_test (br_short (bu_result j)) \<and> \<not> failed_test (br_long (bu_result j)) \<and> br_errors (bu_result j) \<le> 0 \<and>
     (case br_delta (bu_result j) of None \<Rightarrow> True | Some d \<Rightarrow> \<not> dl_degraded d)"

lemma sample_snapshot: "\<exists>t. take_snapshot sample_burn_env ''/dev/sda'' s = (Inr sample_baseline, t)"
  using sample_preflight(3) by (simp add: sample_baseline_def)

lemma sample_delta: "dl_degraded (compute_delta sample_baseline sample_baseline) = False"
  by code_simp

lemma sample_ctx_end: "\<exists>t. ctx_end sample_burn_env j s = (None, j, t)"
  by (simp add: ctx_end_def)

lemma sample_short:
  assumes "sample_job j"
  shows "\<exists>j' t. burnin_short sample_burn_env j s = Some (None, j', t) \<and> sample_job j'"
proof -
  have dev: "job_device j = ''/dev/sda''" "bu_base j = Some sample_baseline" using assms by (simp_all add: sample_job_def)
  obtain t where 1: "run_self_test sample_burn_env ''/dev/sda'' ''short''
      (emit_log ''info'' (''starting SMART short test on '' @ ''/dev/sda'' @ '' (typically takes 1-2 minutes)'')
        (emit_phase ''SMART_SHORT'' ''starting short test'' 15 s)) = Some (Inr \<lparr>tt_passed = True, tt_status = ''ok''\<rparr>, t)"
    using sample_self_test by blast
  obtain u where 2: "take_snapshot sample_burn_env ''/dev/sda'' (emit_phase ''SMART_SHORT'' ''post-short snapshot'' 20 t)
      = (Inr sample_baseline, u)"
    using sample_snapshot by blast
  show ?thesis
    using assms 1 2 unfolding burnin_short_def Let_def dev
    by (auto simp: ctx_end_def sample_job_def job_device_def failed_test_def)
qed

lemma sample_extended:
  assumes "sample_job j"
  shows "\<exists>j' t. burnin_extended sample_burn_env j s = Some (None, j', t) \<and> sample_job j'"
proof -
  have dev: "job_device j = ''/dev/sda''" "bu_base j = Some sample_baseline" using assms by (simp_all add: sample_job_def)
  obtain t where 1: "run_self_test sample_burn_env ''/dev/sda'' ''long''
      (emit_log ''info'' (''starting SMART extended test on '' @ ''/dev/sda'' @
          '' (typically takes 1-8 hours depending on drive capacity)'')
        (emit_phase ''SMART_EXTENDED'' ''starting extended test'' 75 s)) = Some (Inr \<lparr>tt_passed = True, tt_status = ''ok''\<rparr>, t)"
    using sample_self_test by blast
  obtain u where 2: "take_snapshot sample_burn_env ''/dev/sda'' (emit_phase ''SMART_EXTENDED'' ''final snapshot'' 90 t)
      = (Inr sample_baseline, u)"
    using sample_snapshot by blast
  show ?thesis
    using assms 1 2 unfolding burnin_extended_def Let_def dev
    by (auto simp: ctx_end_def sample_job_def job_device_def failed_test_def sample_delta)
qed

lemma sample_badblocks_phase:
  assumes "sample_job j"
  shows "\<exists>j' t. burnin_badblocks sample_burn_env j s = (None, j', t) \<and> sample_job j'"
proof -
  have dev: "job_device j = ''/dev/sda''" using assms by (simp add: sample_job_def)
  obtain t where 1: "run_badblocks sample_burn_env ''/dev/sda'' (bp_block (bu_params j)) (bp_conc (bu_params j))
      (bp_abort (bu_params j)) (bp_logdir (bu_params j))
      (emit_log ''info'' (''starting BADBLOCKS phase on '' @ ''/dev/sda'' @
          '' (duration depends on drive size, may take many hours for large drives)'')
        (emit_phase ''BADBLOCKS'' ''preparing'' 25 s)) = (Inr 0, t)"
    using sample_badblocks by blast
  obtain e j' u where e: "burnin_badblocks sample_burn_env j s = (e, j', u)" by (metis prod_cases3)
  have "e = None \<and> sample_job j'"
    using e assms 1 unfolding burnin_badblocks_def Let_def dev
    by (auto simp: ctx_end_def sample_job_def job_device_def split: if_splits)
  then show ?thesis using e by blast
qed

lemma sample_burnin:
  "\<exists>j s. run_burnin sample_burn_env ''/dev/sda'' ps s0 = Some ((burnin_verdict (bu_result j), None), s) \<and> sample_job j"
proof -
  obtain s1 where 1: "resolve_drive sample_burn_env ''/dev/sda'' (emit_phase ''PRE-FLIGHT'' ''resolving device'' 0 s0) =
      (Inr \<lparr>dr_path = ''/dev/sda'', dr_byid = [], dr_model = ''M'', dr_serial = ''S'', dr_capacity = 1, dr_rotation = ''HDD''\<rparr>, s1)"
    using sample_preflight(1) by blast
  obtain f where f: "is_safe_target sample_burn_env ''/dev/sda'' u = (None, f u)" for u
    using sample_preflight(2) by metis
  obtain g where g: "take_snapshot sample_burn_env ''/dev/sda'' u = (Inr sample_baseline, g u)" for u
    using sample_snapshot by metis
  have "\<exists>j t. burnin_preflight sample_burn_env ''/dev/sda'' (new_burnin_job ps) s0 = (None, j, t) \<and> sample_job j"
    by (simp add: burnin_preflight_def 1 f g Let_def ctx_end_def sample_job_def job_device_def failed_test_def new_burnin_job_def)
  then obtain j1 s2 where 2: "burnin_preflight sample_burn_env ''/dev/sda'' (new_burnin_job ps) s0 = (None, j1, s2)"
    "sample_job j1" by blast
  obtain j2 s3 where 3: "burnin_short sample_burn_env j1 s2 = Some (None, j2, s3)" "sample_job j2"
    using sample_short [OF 2(2)] by blast
  obtain j3 s4 where 4: "burnin_badblocks sample_burn_env j2 s3 = (None, j3, s4)" "sample_job j3"
    using sample_badblocks_phase [OF 3(2)] by blast
  obtain j4 s5 where 5: "burnin_extended sample_burn_env j3 s4 = Some (None, j4, s5)" "sample_job j4"
    using sample_extended [OF 4(2)] by blast
  show ?thesis
    using 5(2) by (auto simp: run_burnin_def 2(1) 3(1) 4(1) 5(1) burnin_complete_def Let_def)
qed


theorem cancelled_burnin_returns_witness:
  "run_burnin (cancel_after 2 sample_burn_env) ''/dev/sda'' sample_burnin_params fresh_burn_state \<noteq> None"
  using cancelled_burnin_returns [of 2 "cancel_after 2 sample_burn_env"] by (simp add: cancel_after_def)

text \<open>The same drive, mounted: its burn-in is refused, with the poller and the heartbeat left behind.\<close>

definition mounted_env :: burn_env where
  "mounted_env = sample_burn_env\<lparr>bn_mounts := \<lambda>tr. Some ''/dev/sda1 /mnt ext4''\<rparr>"

definition leaves_pollers :: "burn_env \<Rightarrow> string \<Rightarrow> bool" where
  "leaves_pollers env path =
     (fst (burnin_preflight env path (new_burnin_job sample_burnin_params) fresh_burn_state) \<noteq> None \<and>
      (case run_burnin env path sample_burnin_params fresh_burn_state of
         Some ((r, e), s) \<Rightarrow> br_drive r \<noteq> None | None \<Rightarrow> False))"

end
