(* ===== verification/BurnManager.thy ===== *)
theory BurnManager
  imports BurnRuns
begin

text \<open>
  The job manager of the burn-in agent (\<^verbatim>\<open>jobs/manager.go\<close>) and its persistence
  (\<^verbatim>\<open>jobs/persist.go\<close>): dispatching with a lock per drive, cancelling, the three kinds of job on top of
  the orchestrators, the end of a job, and the state file. A job runs in a goroutine of its own;
  \<open>mg_heap\<close> holds the job records of the goroutines that run, which the table of jobs points
  to. JSON is a parameter: the two decoders overwrite the defaults as far as they get. Log lines of
  the process and time zones are left out.
\<close>

section \<open>Records\<close>

datatype job_status = JobPending | JobRunning | JobCompleted | JobFailed | JobCancelled

fun job_status_text :: "job_status \<Rightarrow> string" where
  "job_status_text JobPending = ''pending''"
| "job_status_text JobRunning = ''running''"
| "job_status_text JobCompleted = ''completed''"
| "job_status_text JobFailed = ''failed''"
| "job_status_text JobCancelled = ''cancelled''"

record bjob_record =
  jm_id :: string
  jm_command :: string
  jm_target :: string
  jm_device :: string
  jm_status :: job_status
  jm_phase :: string
  jm_params :: string
  jm_reason :: string
  jm_started :: int
  jm_done :: "int option"
  jm_burnin :: "bool option"

record job_command =
  jc_agent :: string
  jc_command :: string
  jc_target :: string
  jc_params :: string

text \<open>The states of a persistence handler and the records in its file.\<close>

record job_persistence =
  jp_states :: "string \<rightharpoonup> bjob_record"
  jp_disk :: "(string \<rightharpoonup> bjob_record) option"

record managed_job =
  mj_record :: bjob_record
  mj_cancelled :: bool

record job_manager =
  mg_heap :: "nat \<rightharpoonup> managed_job"
  mg_next :: nat
  mg_jobs :: "string \<rightharpoonup> nat"
  mg_locks :: "string \<rightharpoonup> string"
  mg_api :: "string \<rightharpoonup> nat"
  mg_persist :: "job_persistence option"

record job_env =
  je_burnin :: "string \<Rightarrow> burnin_params \<Rightarrow> burnin_params"
  je_preclear :: "string \<Rightarrow> preclear_params \<Rightarrow> preclear_params"
  je_logdir :: string

section \<open>Persistence (persist.go)\<close>

definition new_persistence :: "(string \<rightharpoonup> bjob_record) option \<Rightarrow> job_persistence" where
  "new_persistence disk = \<lparr>jp_states = Map.empty, jp_disk = disk\<rparr>"

text \<open>\<open>writeToDisk\<close> replaces the file by all states, or fails and leaves it as it was.\<close>

definition write_to_disk :: "go_error option \<Rightarrow> job_persistence \<Rightarrow> go_error option \<times> job_persistence" where
  "write_to_disk io p = (case io of Some e \<Rightarrow> (Some e, p) | None \<Rightarrow> (None, p\<lparr>jp_disk := Some (jp_states p)\<rparr>))"

definition persist_state :: "go_error option \<Rightarrow> bjob_record \<Rightarrow> job_persistence \<Rightarrow> go_error option \<times> job_persistence" where
  "persist_state io r p = write_to_disk io (p\<lparr>jp_states := (jp_states p)(jm_id r \<mapsto> r)\<rparr>)"

definition remove_state :: "go_error option \<Rightarrow> string \<Rightarrow> job_persistence \<Rightarrow> go_error option \<times> job_persistence" where
  "remove_state io i p = write_to_disk io (p\<lparr>jp_states := (jp_states p)(i := None)\<rparr>)"

text \<open>\<open>LoadState\<close>: the incomplete records of the file, whose records are taken over.\<close>

definition incomplete :: "bjob_record \<Rightarrow> bool" where
  "incomplete r \<longleftrightarrow> jm_status r = JobRunning \<or> jm_status r = JobPending"

definition load_state :: "job_persistence \<Rightarrow> (string \<rightharpoonup> bjob_record) \<times> job_persistence" where
  "load_state p =
     (case jp_disk p of
        None \<Rightarrow> (Map.empty, p)
      | Some d \<Rightarrow> ((\<lambda>i. case d i of Some r \<Rightarrow> if incomplete r then Some r else None | None \<Rightarrow> None),
                  p\<lparr>jp_states := jp_states p ++ d\<rparr>))"

section \<open>Jobs (manager.go)\<close>

definition new_job_manager :: "job_persistence option \<Rightarrow> job_manager" where
  "new_job_manager p =
     \<lparr>mg_heap = Map.empty, mg_next = 0, mg_jobs = Map.empty, mg_locks = Map.empty, mg_api = Map.empty, mg_persist = p\<rparr>"

definition save_state :: "go_error option \<Rightarrow> bjob_record \<Rightarrow> job_manager \<Rightarrow> job_manager" where
  "save_state io r m =
     (case mg_persist m of None \<Rightarrow> m | Some p \<Rightarrow> m\<lparr>mg_persist := Some (snd (persist_state io r p))\<rparr>)"

definition generate_job_id :: "string \<Rightarrow> string \<Rightarrow> string \<Rightarrow> string" where
  "generate_job_id stamp cmd dev = cmd @ ''-'' @ safe_device_name dev @ ''-'' @ stamp"

definition known_job :: "string \<Rightarrow> bool" where
  "known_job c \<longleftrightarrow> c = ''burnin'' \<or> c = ''preclear'' \<or> c = ''full''"

text \<open>\<open>resolved\<close> is the answer of \<open>ResolveDrive\<close> for the target of the command.\<close>

definition start_job :: "go_error + drive_info \<Rightarrow> int \<Rightarrow> string \<Rightarrow> go_error option \<Rightarrow> job_command \<Rightarrow> job_manager \<Rightarrow>
    (go_error + string) \<times> job_manager" where
  "start_job resolved now stamp io c m =
     (if \<not> known_job (jc_command c) then (Inl (PlainError (''unknown command: '' @ go_quote (jc_command c))), m)
      else if jc_target c = [] then (Inl (PlainError ''target device is required''), m)
      else case resolved of
        Inl e \<Rightarrow> (Inl (WrappedError ''resolving target device: '' e []), m)
      | Inr d \<Rightarrow>
          (let dev = dr_path d; i = generate_job_id stamp (jc_command c) dev in
           case mg_locks m dev of
             Some other \<Rightarrow> (Inl (PlainError (''device '' @ dev @ '' is locked by active job '' @ other)), m)
           | None \<Rightarrow>
               (let r = \<lparr>jm_id = i, jm_command = jc_command c, jm_target = jc_target c, jm_device = dev,
                         jm_status = JobRunning, jm_phase = ''PRE-FLIGHT'', jm_params = jc_params c, jm_reason = [],
                         jm_started = now, jm_done = None, jm_burnin = None\<rparr>;
                    h = mg_next m
                in (Inr i, save_state io r
                      (m\<lparr>mg_heap := (mg_heap m)(h \<mapsto> \<lparr>mj_record = r, mj_cancelled = False\<rparr>), mg_next := Suc h,
                         mg_jobs := (mg_jobs m)(i \<mapsto> h), mg_locks := (mg_locks m)(dev \<mapsto> i),
                         mg_api := (mg_api m)(i \<mapsto> h)\<rparr>)))))"

definition cancel_handle :: "nat \<Rightarrow> job_manager \<Rightarrow> job_manager" where
  "cancel_handle h m =
     (case mg_heap m h of None \<Rightarrow> m | Some j \<Rightarrow> m\<lparr>mg_heap := (mg_heap m)(h \<mapsto> j\<lparr>mj_cancelled := True\<rparr>)\<rparr>)"

definition cancel_job :: "string \<Rightarrow> job_manager \<Rightarrow> go_error option \<times> job_manager" where
  "cancel_job i m =
     (case mg_jobs m i of
        None \<Rightarrow> (Some (PlainError (''job '' @ go_quote i @ '' not found or already completed'')), m)
      | Some h \<Rightarrow> (None, cancel_handle h m))"

definition get_job :: "string \<Rightarrow> job_manager \<Rightarrow> bjob_record option" where
  "get_job i m = (case mg_jobs m i of None \<Rightarrow> None | Some h \<Rightarrow> map_option mj_record (mg_heap m h))"

text \<open>The poll payload of a job: status, phase, seconds, percentage and reason. The seconds of a
  duration in nanoseconds are cut off.\<close>

definition job_poll :: "int \<Rightarrow> bjob_record \<Rightarrow> bool \<Rightarrow> string \<times> string \<times> int \<times> int \<times> string option" where
  "job_poll now r finished =
     (let end_time = (case jm_done r of Some t \<Rightarrow> t | None \<Rightarrow> now); secs = (end_time - jm_started r) div 1000000000
      in (job_status_text (jm_status r), jm_phase r, (if secs < 0 then 0 else secs),
          (if finished \<or> jm_status r \<in> {JobCompleted, JobFailed, JobCancelled} then 100 else 0),
          (if jm_reason r = [] then None else Some (jm_reason r))))"

definition get_job_status :: "int \<Rightarrow> string \<Rightarrow> job_manager \<Rightarrow> (string \<times> string \<times> int \<times> int \<times> string option) option" where
  "get_job_status now i m =
     (case get_job i m of
        Some r \<Rightarrow> Some (job_poll now r False)
      | None \<Rightarrow>
          (case mg_persist m of
             None \<Rightarrow> None
           | Some p \<Rightarrow> map_option (\<lambda>r. job_poll now r True) (jp_states p i)))"

text \<open>\<open>ListJobs\<close> and \<open>ListAllJobs\<close>, as maps from the ids: the order of a Go map is arbitrary.\<close>

definition list_jobs :: "job_manager \<Rightarrow> string \<rightharpoonup> bjob_record" where
  "list_jobs m = (\<lambda>i. get_job i m)"

definition list_all_jobs :: "job_manager \<Rightarrow> string \<rightharpoonup> bjob_record" where
  "list_all_jobs m = (case mg_persist m of None \<Rightarrow> list_jobs m | Some p \<Rightarrow> jp_states p ++ list_jobs m)"

definition update_phase :: "go_error option \<Rightarrow> string \<Rightarrow> string \<Rightarrow> job_manager \<Rightarrow> job_manager" where
  "update_phase io i ph m =
     (case mg_jobs m i of
        None \<Rightarrow> m
      | Some h \<Rightarrow>
          (case mg_heap m h of
             None \<Rightarrow> m
           | Some j \<Rightarrow>
               (let r = (mj_record j)\<lparr>jm_phase := ph\<rparr> in
                save_state io r (m\<lparr>mg_heap := (mg_heap m)(h \<mapsto> j\<lparr>mj_record := r\<rparr>)\<rparr>))))"

section \<open>The three kinds of job\<close>

definition parse_burnin_params :: "job_env \<Rightarrow> string \<Rightarrow> burnin_params" where
  "parse_burnin_params je raw =
     (let d = \<lparr>bp_block = 4096, bp_conc = 65536, bp_abort = True, bp_logdir = je_logdir je\<rparr>;
          p = (if raw \<noteq> [] then je_burnin je raw d else d)
      in if bp_logdir p = [] then p\<lparr>bp_logdir := je_logdir je\<rparr> else p)"

definition parse_preclear_params :: "job_env \<Rightarrow> string \<Rightarrow> preclear_params" where
  "parse_preclear_params je raw =
     (let d = \<lparr>pm_fs = [], pm_reserved = 1, pm_logdir = je_logdir je\<rparr>;
          p = (if raw \<noteq> [] then je_preclear je raw d else d)
      in if pm_logdir p = [] then p\<lparr>pm_logdir := je_logdir je\<rparr> else p)"

text \<open>What a job leaves: its record and the state, or a panic; the records saved on the way.\<close>

type_synonym job_end = "(bjob_record go_result \<times> bjob_record list \<times> burn_state) option"

definition handle_phase_error :: "burn_env \<Rightarrow> go_error \<Rightarrow> bjob_record \<Rightarrow> burn_state \<Rightarrow> bjob_record \<times> burn_state" where
  "handle_phase_error env e r s =
     (case b_ctx env s of
        (Some c, s') \<Rightarrow> (r\<lparr>jm_status := JobCancelled, jm_reason := ''job cancelled''\<rparr>, s')
      | (None, s') \<Rightarrow> (r\<lparr>jm_status := JobFailed, jm_reason := error_text e\<rparr>, s'))"

definition burnin_outcome :: "string \<Rightarrow> bool \<Rightarrow> string \<Rightarrow> bjob_record \<Rightarrow> bjob_record" where
  "burnin_outcome prefix passed reason r =
     (if passed then r\<lparr>jm_status := JobCompleted\<rparr> else r\<lparr>jm_status := JobFailed, jm_reason := prefix @ reason\<rparr>)"

definition run_burnin_job :: "job_env \<Rightarrow> burn_env \<Rightarrow> bjob_record \<Rightarrow> burn_state \<Rightarrow> job_end" where
  "run_burnin_job je env r s =
     (case run_burnin env (jm_device r) (parse_burnin_params je (jm_params r)) s of
        None \<Rightarrow> None
      | Some ((b, Some e), s1) \<Rightarrow> (case handle_phase_error env e r s1 of (r', s2) \<Rightarrow> Some (Ret r', [], s2))
      | Some ((b, None), s1) \<Rightarrow> Some (Ret (burnin_outcome [] (br_passed b) (br_reason b) r), [], s1))"

definition run_preclear_job :: "job_env \<Rightarrow> burn_env \<Rightarrow> string \<Rightarrow> bjob_record \<Rightarrow> burn_state \<Rightarrow> bjob_record go_result \<times> burn_state" where
  "run_preclear_job je env prefix r s =
     (case run_preclear env (jm_device r) (parse_preclear_params je (jm_params r)) s of
        (Panics, s1) \<Rightarrow> (Panics, s1)
      | (Fails e, s1) \<Rightarrow> (case handle_phase_error env e r s1 of (r', s2) \<Rightarrow> (Ret r', s2))
      | (Ret p, s1) \<Rightarrow> (Ret (burnin_outcome prefix (pc_passed p) (pc_reason p) r), s1))"

definition run_full_job :: "job_env \<Rightarrow> burn_env \<Rightarrow> bjob_record \<Rightarrow> burn_state \<Rightarrow> job_end" where
  "run_full_job je env r0 s0 =
     (let r1 = r0\<lparr>jm_phase := ''BURNIN''\<rparr> in
      case run_burnin env (jm_device r1) (parse_burnin_params je (jm_params r1)) s0 of
        None \<Rightarrow> None
      | Some ((b, Some e), s1) \<Rightarrow> (case handle_phase_error env e r1 s1 of (r', s2) \<Rightarrow> Some (Ret r', [r1], s2))
      | Some ((b, None), s1) \<Rightarrow>
          if \<not> br_passed b
          then Some (Ret (r1\<lparr>jm_status := JobFailed, jm_reason := ''burn-in failed: '' @ br_reason b\<rparr>), [r1], s1)
          else
            let r2 = r1\<lparr>jm_burnin := Some True\<rparr>;
                s2 = emit_log ''info'' ''burn-in passed, starting pre-clear phase'' s1
            in case b_ctx env s2 of
                 (Some c, s3) \<Rightarrow>
                   Some (Ret (r2\<lparr>jm_status := JobCancelled, jm_reason := ''job cancelled between phases''\<rparr>), [r1], s3)
               | (None, s3) \<Rightarrow>
                   (let r3 = r2\<lparr>jm_phase := ''PRECLEAR''\<rparr> in
                    case run_preclear_job je env ''pre-clear failed: '' r3 s3 of (x, s4) \<Rightarrow> Some (x, [r1, r3], s4)))"

definition run_job_body :: "job_env \<Rightarrow> burn_env \<Rightarrow> bjob_record \<Rightarrow> burn_state \<Rightarrow> job_end" where
  "run_job_body je env r s =
     (if jm_command r = ''burnin'' then run_burnin_job je env r s
      else if jm_command r = ''preclear''
      then (case run_preclear_job je env [] r s of (x, s') \<Rightarrow> Some (x, [], s'))
      else if jm_command r = ''full'' then run_full_job je env r s
      else Some (Ret r, [], s))"

section \<open>The end of a job\<close>

definition finish_frames :: "bjob_record \<Rightarrow> burn_item list" where
  "finish_frames r =
     (case jm_status r of
        JobCompleted \<Rightarrow>
          [Progress ''COMPLETE'' ''job completed successfully'' 100 0 NoDeltas,
           LogLine ''info'' (jm_command r @ '' completed successfully'')]
      | JobFailed \<Rightarrow>
          (let reason = (if jm_reason r = [] then ''unknown error'' else jm_reason r) in
           [Progress ''COMPLETE'' reason 100 0 NoDeltas, LogLine ''error'' (jm_command r @ '' failed: '' @ reason)])
      | JobCancelled \<Rightarrow>
          [Progress ''CANCELLED'' ''job cancelled by user'' 100 0 NoDeltas, LogLine ''warning'' ''job cancelled by user'']
      | _ \<Rightarrow> [])"

definition finish_job :: "int \<Rightarrow> go_error option \<Rightarrow> nat \<Rightarrow> bjob_record \<Rightarrow> job_manager \<Rightarrow> burn_item list \<times> job_manager" where
  "finish_job now io h r0 m =
     (let r = r0\<lparr>jm_done := Some now, jm_phase := ''COMPLETE''\<rparr>; m1 = save_state io r m
      in (finish_frames r,
          m1\<lparr>mg_heap := (mg_heap m1)(h := None), mg_locks := (mg_locks m1)(jm_device r := None),
             mg_jobs := (mg_jobs m1)(jm_id r := None), mg_api := (mg_api m1)(jm_id r := None)\<rparr>))"

end
