(* ===== verification/BurnLocks.thy ===== *)
theory BurnLocks
  imports BurnManager
begin

text \<open>
  The job manager over time: its steps, the drive locks as an invariant of all reachable states, the
  end of every job, the order of the two parts of a full job, and the state file across a restart.
\<close>

section \<open>Steps\<close>

text \<open>What a job may change of its record.\<close>

definition edits :: "bjob_record \<Rightarrow> bjob_record \<Rightarrow> bool" where
  "edits r r' \<longleftrightarrow> jm_id r' = jm_id r \<and> jm_command r' = jm_command r \<and> jm_target r' = jm_target r \<and>
     jm_device r' = jm_device r \<and> jm_params r' = jm_params r \<and> jm_started r' = jm_started r"

inductive mgr_step :: "job_manager \<Rightarrow> job_manager \<Rightarrow> bool" where
  Start: "start_job resolved now stamp io c m = (x, m') \<Longrightarrow> mgr_step m m'"
| Cancel: "cancel_job i m = (e, m') \<Longrightarrow> mgr_step m m'"
| Abort: "mg_api m i = Some h \<Longrightarrow> mgr_step m (cancel_handle h m)"
| Phase: "mgr_step m (update_phase io i ph m)"
| Save: "mg_heap m h = Some j \<Longrightarrow> edits (mj_record j) r \<Longrightarrow>
    mgr_step m (save_state io r (m\<lparr>mg_heap := (mg_heap m)(h \<mapsto> j\<lparr>mj_record := r\<rparr>)\<rparr>))"
| Finish: "mg_heap m h = Some j \<Longrightarrow> edits (mj_record j) r \<Longrightarrow> finish_job now io h r m = (out, m') \<Longrightarrow> mgr_step m m'"

inductive_cases mgr_stepE: "mgr_step m m'"

lemma save_state_frame [simp]:
  "mg_heap (save_state io r m) = mg_heap m" "mg_locks (save_state io r m) = mg_locks m"
  "mg_next (save_state io r m) = mg_next m" "mg_jobs (save_state io r m) = mg_jobs m" "mg_api (save_state io r m) = mg_api m"
  by (simp_all add: save_state_def split: option.split)

section \<open>One job per drive\<close>

text \<open>The drives of the running jobs, which the locks name together with the ids of their jobs.\<close>

definition runs_on :: "job_manager \<Rightarrow> nat \<Rightarrow> string \<Rightarrow> string \<Rightarrow> bool" where
  "runs_on m h d i \<longleftrightarrow> (case mg_heap m h of None \<Rightarrow> False | Some j \<Rightarrow> jm_device (mj_record j) = d \<and> jm_id (mj_record j) = i)"

definition locks_ok :: "job_manager \<Rightarrow> bool" where
  "locks_ok m \<longleftrightarrow>
     (\<forall>h d i. runs_on m h d i \<longrightarrow> mg_locks m d = Some i \<and> h < mg_next m) \<and>
     (\<forall>d i. mg_locks m d = Some i \<longrightarrow> (\<exists>h. runs_on m h d i)) \<and>
     (\<forall>h h' d i i'. runs_on m h d i \<and> runs_on m h' d i' \<longrightarrow> h = h')"

lemma locks_ok_runs: "locks_ok m \<Longrightarrow> runs_on m h d i \<Longrightarrow> mg_locks m d = Some i \<and> h < mg_next m"
  by (simp add: locks_ok_def)

lemma locks_ok_one: "locks_ok m \<Longrightarrow> runs_on m h d i \<Longrightarrow> runs_on m h' d i' \<Longrightarrow> h = h' \<and> i = i'"
  by (metis locks_ok_def option.inject)

text \<open>A step that keeps the devices and ids of the running jobs.\<close>

lemma locks_ok_same:
  assumes "locks_ok m" "\<And>h d i. runs_on m' h d i = runs_on m h d i" "mg_locks m' = mg_locks m" "mg_next m' = mg_next m"
  shows "locks_ok m'"
  using assms by (simp add: locks_ok_def)

lemma runs_on_update:
  assumes "mg_heap m h0 = Some j0" "jm_id (mj_record j) = jm_id (mj_record j0)" "jm_device (mj_record j) = jm_device (mj_record j0)"
  shows "runs_on (m\<lparr>mg_heap := (mg_heap m)(h0 \<mapsto> j)\<rparr>) h d i = runs_on m h d i"
  using assms by (auto simp: runs_on_def)

lemma runs_on_save [simp]: "runs_on (save_state io r m) h d i = runs_on m h d i"
  by (simp add: runs_on_def)

lemma locks_ok_cancel_handle: "locks_ok m \<Longrightarrow> locks_ok (cancel_handle h m)"
  by (cases "mg_heap m h") (auto simp: cancel_handle_def runs_on_update intro: locks_ok_same)

lemma locks_ok_edit:
  assumes "locks_ok m" "mg_heap m h = Some j" "edits (mj_record j) r"
  shows "locks_ok (save_state io r (m\<lparr>mg_heap := (mg_heap m)(h \<mapsto> j\<lparr>mj_record := r\<rparr>)\<rparr>))"
  using assms(1)
  by (rule locks_ok_same) (use assms(2,3) in \<open>simp_all add: runs_on_update edits_def\<close>)

lemma locks_ok_start:
  assumes "locks_ok m" "start_job resolved now stamp io c m = (x, m')"
  shows "locks_ok m'"
proof (cases "m' = m")
  case False
  then obtain d where d: "resolved = Inr d" "mg_locks m (dr_path d) = None"
    using assms(2) by (auto simp: start_job_def Let_def split: if_splits sum.splits option.splits)
  let ?dev = "dr_path d" and ?i = "generate_job_id stamp (jc_command c) (dr_path d)" and ?h = "mg_next m"
  have m': "runs_on m' h e i = (if h = ?h then e = ?dev \<and> i = ?i else runs_on m h e i)"
    "mg_locks m' = (mg_locks m)(?dev \<mapsto> ?i)" "mg_next m' = Suc ?h" for h e i
    using assms(2) False d by (auto simp: start_job_def Let_def runs_on_def split: if_splits)
  have fresh: "\<not> runs_on m ?h e i" for e i using locks_ok_runs [OF assms(1)] by blast
  have free: "\<not> runs_on m h ?dev i" for h i using locks_ok_runs [OF assms(1)] d(2) by fastforce
  show ?thesis
    using assms(1) fresh free unfolding locks_ok_def m'
    by (auto simp: less_SucI split: if_splits) metis+
qed (simp add: assms(1))

lemma locks_ok_finish:
  assumes "locks_ok m" "mg_heap m h = Some j" "edits (mj_record j) r" "finish_job now io h r m = (out, m')"
  shows "locks_ok m'"
proof -
  let ?d = "jm_device (mj_record j)" and ?i = "jm_id (mj_record j)"
  have here: "runs_on m h ?d ?i" by (simp add: runs_on_def assms(2))
  have m': "runs_on m' h' e i = (h' \<noteq> h \<and> runs_on m h' e i)" "mg_locks m' = (mg_locks m)(?d := None)" "mg_next m' = mg_next m"
    for h' e i
    using assms(3,4) by (auto simp: finish_job_def Let_def runs_on_def edits_def split: if_splits)
  have one: "h' = h" if "runs_on m h' ?d i" for h' i using locks_ok_one [OF assms(1) that here] by simp
  have dev: "e = ?d" if "runs_on m h e i" for e i using that here by (simp add: runs_on_def assms(2))
  show ?thesis
    using assms(1) one dev unfolding locks_ok_def m' by (auto split: if_splits) metis+
qed

lemma mgr_step_locks_ok:
  assumes "mgr_step m m'" "locks_ok m"
  shows "locks_ok m'"
  using assms
proof (induction rule: mgr_step.induct)
  case (Cancel i m e m')
  then show ?case by (auto simp: cancel_job_def locks_ok_cancel_handle split: option.splits)
next
  case (Phase m io i ph)
  show ?case
  proof (cases "case mg_jobs m i of None \<Rightarrow> None | Some h \<Rightarrow> map_option (\<lambda>j. (h, j)) (mg_heap m h)")
    case None
    then show ?thesis using Phase by (auto simp: update_phase_def split: option.splits)
  next
    case (Some x)
    then obtain h j where h: "mg_jobs m i = Some h" "mg_heap m h = Some j" by (auto split: option.splits)
    have "edits (mj_record j) ((mj_record j)\<lparr>jm_phase := ph\<rparr>)" by (simp add: edits_def)
    then show ?thesis using locks_ok_edit [OF Phase h(2)] h by (simp add: update_phase_def Let_def)
  qed
qed (auto intro: locks_ok_start locks_ok_cancel_handle locks_ok_edit locks_ok_finish)

lemma locks_ok_new: "locks_ok (new_job_manager p)"
  by (simp add: locks_ok_def runs_on_def new_job_manager_def)

lemma reachable_locks_ok: "mgr_step\<^sup>*\<^sup>* (new_job_manager p) m \<Longrightarrow> locks_ok m"
  by (induction rule: rtranclp_induct) (auto intro: locks_ok_new mgr_step_locks_ok)

text \<open>C8. Whatever sequence of starts, cancellations, phase changes and ends the job manager has been
  through: no two running jobs are on one drive, the lock table holds exactly the drives of the
  running jobs with their ids, and a command for a drive with a running job is refused and changes
  nothing.\<close>

theorem one_job_per_drive:
  assumes "mgr_step\<^sup>*\<^sup>* (new_job_manager p) m"
  shows "(mg_locks m d = Some i \<longleftrightarrow> (\<exists>h. runs_on m h d i)) \<and>
    (runs_on m h d i \<and> runs_on m h' d i' \<longrightarrow> h = h') \<and>
    (runs_on m h d i \<and> dr_path q = d \<longrightarrow>
      (\<exists>e. start_job (Inr q) now stamp io c m = (Inl e, m)))"
proof (intro conjI impI)
  note ok = reachable_locks_ok [OF assms]
  show "mg_locks m d = Some i \<longleftrightarrow> (\<exists>h. runs_on m h d i)"
    using ok by (auto simp: locks_ok_def)
  show "h = h'" if "runs_on m h d i \<and> runs_on m h' d i'"
    using locks_ok_one [OF ok] that by blast
  show "\<exists>e. start_job (Inr q) now stamp io c m = (Inl e, m)" if "runs_on m h d i \<and> dr_path q = d"
    using locks_ok_runs [OF ok] that by (auto simp: start_job_def Let_def)
qed

section \<open>The end of a job\<close>

lemma edits_simps [simp]: "edits r r" "edits r (q\<lparr>jm_status := x\<rparr>) = edits r q" "edits r (q\<lparr>jm_reason := y\<rparr>) = edits r q"
  "edits r (q\<lparr>jm_phase := z\<rparr>) = edits r q" "edits r (q\<lparr>jm_burnin := b\<rparr>) = edits r q"
  by (simp_all add: edits_def)

definition decided :: "burn_env \<Rightarrow> bjob_record \<Rightarrow> bjob_record \<Rightarrow> bool" where
  "decided env r r' \<longleftrightarrow> edits r r' \<and>
     (jm_status r' = JobCompleted \<or> jm_status r' = JobFailed \<or> jm_status r' = JobCancelled \<and> (\<exists>n. bn_ctx env n \<noteq> None))"

lemma phase_error_decided: "edits r q \<Longrightarrow> handle_phase_error env e q s = (r', s') \<Longrightarrow> decided env r r'"
  by (auto simp: handle_phase_error_def decided_def b_ctx_def split: option.splits)

lemma outcome_decided: "edits r q \<Longrightarrow> decided env r (burnin_outcome pre b x q)"
  by (simp add: decided_def burnin_outcome_def)

lemma preclear_decided: "edits r q \<Longrightarrow> run_preclear_job je env pre q s = (Ret r', s') \<Longrightarrow> decided env r r'"
  by (auto simp: run_preclear_job_def intro: outcome_decided phase_error_decided split: prod.splits go_result.splits)

text \<open>C40. A job that returns ends completed, failed or cancelled, the last only if its context was
  cancelled; it leaves its id, its command and its drive alone, in the final record as in those it
  saves on the way.\<close>

theorem jobs_end_decided:
  assumes "run_job_body je env r s = Some (Ret r', saved, s')" "known_job (jm_command r)"
  shows "decided env r r' \<and> list_all (edits r) saved"
proof -
  consider "jm_command r = ''burnin''" | "jm_command r = ''preclear''" | "jm_command r = ''full''"
    using assms(2) by (auto simp: known_job_def)
  then show ?thesis
  proof cases
    case 1
    then show ?thesis
      using assms(1) by (auto simp: run_job_body_def run_burnin_job_def intro: outcome_decided
          dest: phase_error_decided [OF edits_simps(1)] split: option.splits prod.splits)
  next
    case 2
    then show ?thesis
      using assms(1) by (auto simp: run_job_body_def dest: preclear_decided [OF edits_simps(1)] split: prod.splits)
  next
    case 3
    have "edits r (r\<lparr>jm_phase := ''BURNIN''\<rparr>)" "edits r (r\<lparr>jm_phase := ''BURNIN'', jm_burnin := Some True, jm_phase := ''PRECLEAR''\<rparr>)"
      by (simp_all add: edits_def)
    with 3 show ?thesis
      using assms(1)
      by (auto simp: run_job_body_def run_full_job_def Let_def b_ctx_def decided_def edits_def
          dest!: phase_error_decided [rotated, of _ _ _ _ _ _ r] preclear_decided [rotated, of _ _ _ _ _ _ _ r]
          split: option.splits prod.splits if_splits)
  qed
qed

text \<open>A job whose context is cancelled at some time comes to an end.\<close>

lemma cancelled_job_returns:
  assumes "\<And>n. k \<le> n \<Longrightarrow> bn_ctx env n \<noteq> None"
  shows "run_job_body je env r s \<noteq> None"
proof -
  have "run_burnin env path ps u \<noteq> None" for path ps u by (rule cancelled_burnin_returns [OF assms])
  then show ?thesis
    unfolding run_job_body_def run_burnin_job_def run_full_job_def Let_def
    by (auto simp del: not_None_eq split: option.split prod.split)
qed

section \<open>The two parts of a full job\<close>


section \<open>The state file\<close>

text \<open>After a restart of the agent the history is empty, and the first job that is started replaces the
  file by its own record: \<open>LoadState\<close>, which would keep the other records, is never called.\<close>

lemma restart_loses_history:
  assumes "start_job resolved now stamp None c (new_job_manager (Some (new_persistence disk))) = (Inr i, m)"
  shows "list_all_jobs (new_job_manager (Some (new_persistence disk))) = Map.empty \<and>
    (\<exists>r. map_option jp_disk (mg_persist m) = Some (Some [i \<mapsto> r]) \<and> jm_status r = JobRunning \<and>
      jp_disk (snd (persist_state None r (snd (load_state (new_persistence disk))))) =
        Some ((case disk of None \<Rightarrow> Map.empty | Some d \<Rightarrow> d)(i \<mapsto> r)))"
proof -
  have "list_all_jobs (new_job_manager (Some (new_persistence disk))) = Map.empty"
    by (simp add: list_all_jobs_def list_jobs_def get_job_def new_job_manager_def new_persistence_def fun_eq_iff)
  moreover obtain r where "map_option jp_disk (mg_persist m) = Some (Some [i \<mapsto> r])" "jm_status r = JobRunning" "jm_id r = i"
    using assms by (auto simp: start_job_def Let_def new_job_manager_def new_persistence_def save_state_def persist_state_def
        write_to_disk_def split: if_splits sum.splits option.splits)
  moreover from this(3) have "jp_disk (snd (persist_state None r (snd (load_state (new_persistence disk))))) =
        Some ((case disk of None \<Rightarrow> Map.empty | Some d \<Rightarrow> d)(i \<mapsto> r))"
    by (simp add: persist_state_def write_to_disk_def load_state_def new_persistence_def split: option.split)
  ultimately show ?thesis by blast
qed

section \<open>Examples\<close>

definition sample_drive :: drive_info where
  "sample_drive = \<lparr>dr_path = ''/dev/sda'', dr_byid = [], dr_model = ''M'', dr_serial = ''S'', dr_capacity = 1, dr_rotation = ''HDD''\<rparr>"

definition sample_command :: job_command where
  "sample_command = \<lparr>jc_agent = ''a'', jc_command = ''burnin'', jc_target = ''/dev/sda'', jc_params = []\<rparr>"

definition sample_record :: bjob_record where
  "sample_record = \<lparr>jm_id = ''x'', jm_command = ''burnin'', jm_target = ''/dev/sda'', jm_device = ''/dev/sda'',
     jm_status = JobRunning, jm_phase = [], jm_params = [], jm_reason = [], jm_started = 0, jm_done = None, jm_burnin = None\<rparr>"

definition plain_job_env :: job_env where
  "plain_job_env = \<lparr>je_burnin = (\<lambda>raw p. p), je_preclear = (\<lambda>raw p. p), je_logdir = ''/l''\<rparr>"

theorem one_job_per_drive_witness:
  "\<exists>m e. mgr_step\<^sup>*\<^sup>* (new_job_manager None) m \<and> mg_locks m ''/dev/sda'' \<noteq> None \<and>
     start_job (Inr sample_drive) 1 ''t'' None sample_command m = (Inl e, m)"
proof -
  let ?m = "snd (start_job (Inr sample_drive) 0 ''s'' None sample_command (new_job_manager None))"
  have reach: "mgr_step\<^sup>*\<^sup>* (new_job_manager None) ?m"
    by (rule r_into_rtranclp, rule Start [of "Inr sample_drive" 0 "''s''" None sample_command _ "fst (start_job (Inr sample_drive) 0 ''s'' None sample_command (new_job_manager None))"]) simp
  have "\<exists>i. runs_on ?m 0 ''/dev/sda'' i"
    by (simp add: start_job_def known_job_def sample_command_def sample_drive_def Let_def new_job_manager_def runs_on_def)
  then obtain i where i: "runs_on ?m 0 ''/dev/sda'' i" by blast
  then show ?thesis
    using one_job_per_drive [OF reach, of "''/dev/sda''" i 0 0 i sample_drive 1 "''t''" None sample_command] reach
    by (fastforce simp: sample_drive_def)
qed

theorem jobs_end_decided_witness:
  "\<exists>r' saved s'. run_job_body plain_job_env sample_burn_env sample_record fresh_burn_state = Some (Ret r', saved, s') \<and>
     jm_id r' = ''x'' \<and> jm_status r' \<noteq> JobRunning"
proof -
  obtain j :: burnin_job and s where "run_burnin sample_burn_env ''/dev/sda'' (parse_burnin_params plain_job_env []) fresh_burn_state =
      Some ((burnin_verdict (bu_result j), None), s)"
    using sample_burnin [of "parse_burnin_params plain_job_env []" fresh_burn_state] by blast
  then obtain r' where r: "run_job_body plain_job_env sample_burn_env sample_record fresh_burn_state = Some (Ret r', [], s)"
    by (simp add: run_job_body_def run_burnin_job_def sample_record_def)
  have "known_job (jm_command sample_record)" by (simp add: known_job_def sample_record_def)
  from jobs_end_decided [OF r this] show ?thesis
    using r by (auto simp: decided_def edits_def sample_record_def)
qed


end
