(* ===== verification/BurnApi.thy ===== *)
theory BurnApi
  imports BurnLocks AddonUtil
begin

text \<open>
  The HTTP interface of the burn-in agent (\<^verbatim>\<open>burn-in/internal/agent/api.go\<close>) on top of its job
  manager, and the command router of the hub in front of it (\<^verbatim>\<open>burn-in/internal/hub/router.go\<close>). A
  request is its body and path values, a response its status and content; reading the body, the log
  lines and the size limit are left out, as are the fields of JSON a handler does not read.
\<close>

section \<open>Responses\<close>

datatype api_content =
    ApiError string
  | ApiAccepted string
  | ApiCancelled string
  | ApiPoll "string \<times> string \<times> int \<times> int \<times> string option"
  | ApiRecords "string \<rightharpoonup> bjob_record"
  | ApiRaw string

type_synonym api_response = "nat \<times> api_content"

section \<open>The agent (api.go)\<close>

text \<open>\<open>aa_decode\<close> decodes the payload of a command: command, target and parameters.\<close>

record agent_api =
  aa_key :: "string option"
  aa_dispatcher :: bool
  aa_sig :: sig_env
  aa_decode :: "string \<Rightarrow> go_error + job_command"
  aa_resolve :: "string \<Rightarrow> go_error + drive_info"
  aa_persist :: "go_error option"

text \<open>The key file: 32 raw bytes, or base64 with white space at its end.\<close>

definition trim_bytes :: "string \<Rightarrow> string" where
  "trim_bytes b = rev (dropWhile (\<lambda>c. c = CHR 0x0A \<or> c = CHR 0x0D \<or> c = CHR '' '') (rev b))"

definition load_public_key :: "sig_env \<Rightarrow> go_error + string \<Rightarrow> go_error + string" where
  "load_public_key se file =
     (case file of
        Inl e \<Rightarrow> Inl e
      | Inr data \<Rightarrow>
          if length data = 32 then Inr data
          else case se_b64 se (trim_bytes data) of
            Inl e \<Rightarrow> Inl (WrappedError ''key file is neither raw 32-byte nor valid base64: '' e [])
          | Inr raw \<Rightarrow>
              if length raw \<noteq> 32
              then Inl (PlainError (''decoded key is '' @ itoa (int (length raw)) @ '' bytes, expected 32''))
              else Inr raw)"

definition new_agent_api :: "sig_env \<Rightarrow> string \<Rightarrow> go_error + string \<Rightarrow> go_error + string option" where
  "new_agent_api se path file =
     (if path = [] then Inr None
      else case load_public_key se file of
        Inl e \<Rightarrow> Inl (WrappedError ''loading server public key: '' e [])
      | Inr k \<Rightarrow> Inr (Some k))"

definition execute_job :: "agent_api \<Rightarrow> int \<Rightarrow> string \<Rightarrow> string \<Rightarrow> job_manager \<Rightarrow> api_response \<times> job_manager" where
  "execute_job a now stamp body m =
     (case (case aa_key a of None \<Rightarrow> None | Some k \<Rightarrow> verify_body (aa_sig a) k body) of
        Some e \<Rightarrow> ((401, ApiError ''invalid signature''), m)
      | None \<Rightarrow>
          (case aa_decode a body of
             Inl e \<Rightarrow> ((400, ApiError ''invalid JSON payload''), m)
           | Inr c \<Rightarrow>
               if jc_command c = [] then ((400, ApiError ''command is required''), m)
               else if jc_target c = [] then ((400, ApiError ''target is required''), m)
               else if \<not> aa_dispatcher a then ((500, ApiError ''job dispatcher not configured''), m)
               else case start_job (aa_resolve a (jc_target c)) now stamp (aa_persist a) c m of
                 (Inl e, m') \<Rightarrow> ((409, ApiError (error_text e)), m')
               | (Inr i, m') \<Rightarrow> ((202, ApiAccepted i), m')))"

definition abort_job :: "string \<Rightarrow> job_manager \<Rightarrow> api_response \<times> job_manager" where
  "abort_job i m =
     (if i = [] then ((400, ApiError ''job id required''), m)
      else case mg_api m i of
        None \<Rightarrow> ((404, ApiError (''job '' @ go_quote i @ '' not found or already completed'')), m)
      | Some h \<Rightarrow> ((200, ApiCancelled i), cancel_handle h m))"

definition agent_job_status :: "int \<Rightarrow> string \<Rightarrow> job_manager \<Rightarrow> api_response" where
  "agent_job_status now i m =
     (if i = [] then (400, ApiError ''job id required'')
      else case get_job_status now i m of
        None \<Rightarrow> (404, ApiError (''job '' @ go_quote i @ '' not found''))
      | Some p \<Rightarrow> (200, ApiPoll p))"

definition agent_job_history :: "job_manager \<Rightarrow> api_response" where
  "agent_job_history m = (200, ApiRecords (list_all_jobs m))"

section \<open>The router of the hub (router.go)\<close>

definition top_level_fields :: "string list" where
  "top_level_fields = [''agent_id'', ''command'', ''target'', ''signature'']"

definition restructure_payload :: "jobject \<Rightarrow> jobject" where
  "restructure_payload flat =
     (if jget ''params'' flat \<noteq> None then flat
      else let top = filter (\<lambda>f. fst f \<in> set top_level_fields) flat;
               params = filter (\<lambda>f. fst f \<notin> set top_level_fields) flat
           in if params = [] then top else top @ [(''params'', JObj params)])"

text \<open>An agent as the router sees it: its id and address. \<open>valid\<close> is \<open>validateAgentURL\<close>, \<open>send\<close> a
  request, answered by a status and a body.\<close>

definition agent_url :: "string \<Rightarrow> string \<Rightarrow> string" where
  "agent_url addr path = ''http://'' @ addr @ path"

definition resolve_agent :: "(string \<Rightarrow> string option) \<Rightarrow> string \<Rightarrow> api_response + string" where
  "resolve_agent address i =
     (if i = [] then Inl (400, ApiError ''agent_id is required in payload'')
      else case address i of
        None \<Rightarrow> Inl (404, ApiError (''agent '' @ go_quote i @ '' is not registered''))
      | Some addr \<Rightarrow>
          if addr = [] then Inl (502, ApiError (''agent '' @ go_quote i @ '' has no reachable address'')) else Inr addr)"

definition forward_to_agent :: "(string \<Rightarrow> go_error + string) \<Rightarrow> (string \<Rightarrow> jobject \<Rightarrow> go_error + nat \<times> api_content) \<Rightarrow>
    string \<Rightarrow> jobject \<Rightarrow> go_error + nat \<times> api_content" where
  "forward_to_agent valid send addr ob =
     (case valid (agent_url addr ''/api/execute'') of
        Inl e \<Rightarrow> Inl (WrappedError ''invalid agent URL: '' e [])
      | Inr url \<Rightarrow> send url ob)"

definition route_execute :: "(string \<Rightarrow> string option) \<Rightarrow> (string \<Rightarrow> go_error + string) \<Rightarrow>
    (string \<Rightarrow> jobject \<Rightarrow> go_error + nat \<times> api_content) \<Rightarrow> jobject option \<Rightarrow> api_response" where
  "route_execute address valid send body =
     (case body of
        None \<Rightarrow> (400, ApiError ''invalid JSON payload'')
      | Some flat \<Rightarrow>
          (let i = jstring ''agent_id'' flat in
           case resolve_agent address i of
             Inl r \<Rightarrow> r
           | Inr addr \<Rightarrow>
               (case forward_to_agent valid send addr (restructure_payload flat) of
                  Inl e \<Rightarrow> (502, ApiError (''failed to reach agent '' @ go_quote i @ '': '' @ error_text e))
                | Inr r \<Rightarrow> r)))"

text \<open>The broadcasts: the first agent that answers 200 decides.\<close>

fun first_ok :: "(string \<Rightarrow> go_error + string) \<Rightarrow> (string \<Rightarrow> go_error + nat \<times> string) \<Rightarrow> string \<Rightarrow> string list \<Rightarrow>
    string option" where
  "first_ok valid send path [] = None"
| "first_ok valid send path (addr # addrs) =
     (if addr = [] then first_ok valid send path addrs
      else case valid (agent_url addr path) of
        Inl e \<Rightarrow> first_ok valid send path addrs
      | Inr url \<Rightarrow>
          (case send url of
             Inr (st, body) \<Rightarrow> if st = 200 then Some body else first_ok valid send path addrs
           | Inl e \<Rightarrow> first_ok valid send path addrs))"

definition broadcast_job :: "(string \<Rightarrow> go_error + string) \<Rightarrow> (string \<Rightarrow> go_error + nat \<times> string) \<Rightarrow>
    (string \<Rightarrow> string) \<Rightarrow> string list \<Rightarrow> string \<Rightarrow> api_response" where
  "broadcast_job valid send escape addrs i =
     (if i = [] then (400, ApiError ''job id is required'')
      else if addrs = [] then (404, ApiError ''no agents registered'')
      else case first_ok valid send (''/api/jobs/'' @ escape i) addrs of
        Some body \<Rightarrow> (200, ApiRaw body)
      | None \<Rightarrow> (404, ApiError (''job '' @ go_quote i @ '' not found on any agent'')))"

text \<open>The history: the records of every agent that answers, cut to a time range. \<open>started\<close> reads
  the start of a record in one of the three formats.\<close>

fun collect_history :: "(string \<Rightarrow> go_error + string) \<Rightarrow> (string \<Rightarrow> go_error + nat \<times> string) \<Rightarrow>
    (string \<Rightarrow> 'r list option) \<Rightarrow> string list \<Rightarrow> 'r list" where
  "collect_history valid send decode [] = []"
| "collect_history valid send decode (addr # addrs) =
     (let rest = collect_history valid send decode addrs in
      if addr = [] then rest
      else case valid (agent_url addr ''/api/jobs/history'') of
        Inl e \<Rightarrow> rest
      | Inr url \<Rightarrow>
          (case send url of
             Inr (st, body) \<Rightarrow>
               if st = 200 then (case decode body of Some rs \<Rightarrow> rs @ rest | None \<Rightarrow> rest) else rest
           | Inl e \<Rightarrow> rest))"

definition filter_by_time_range :: "('r \<Rightarrow> int option) \<Rightarrow> int \<Rightarrow> string \<Rightarrow> 'r list \<Rightarrow> 'r list" where
  "filter_by_time_range started now tr rs =
     (case parse_time_range tr of
        None \<Rightarrow> rs
      | Some d \<Rightarrow> filter (\<lambda>r. case started r of None \<Rightarrow> True | Some t \<Rightarrow> t > now - d) rs)"

definition job_history :: "(string \<Rightarrow> go_error + string) \<Rightarrow> (string \<Rightarrow> go_error + nat \<times> string) \<Rightarrow>
    (string \<Rightarrow> 'r list option) \<Rightarrow> ('r \<Rightarrow> int option) \<Rightarrow> int \<Rightarrow> string \<Rightarrow> string list \<Rightarrow> 'r list" where
  "job_history valid send decode started now tr addrs =
     (let rs = collect_history valid send decode addrs in
      if tr \<noteq> [] then filter_by_time_range started now tr rs else rs)"

section \<open>Who may start a job\<close>

text \<open>C14. With a server key configured, a request only starts a job if its body carries a signature of
  that key over the rest of the body; then it names a known command and a drive that resolves. Every
  other request is answered with an error and leaves the job manager as it was.\<close>

theorem execute_needs_signature:
  assumes "aa_key a = Some k" "execute_job a now stamp body m = ((st, x), m')"
  shows "if st = 202
    then verify_body (aa_sig a) k body = None \<and>
      (\<exists>c d. aa_decode a body = Inr c \<and> known_job (jc_command c) \<and> aa_resolve a (jc_target c) = Inr d \<and>
        mg_locks m (dr_path d) = None \<and> x = ApiAccepted (generate_job_id stamp (jc_command c) (dr_path d)))
    else m' = m \<and> (\<exists>e. x = ApiError e)"
  using assms
  by (auto simp: execute_job_def start_job_def Let_def split: option.splits sum.splits if_splits prod.splits)

section \<open>Signed commands through the hub\<close>

lemma jget_None: "jget k ob = None \<longleftrightarrow> k \<notin> fst ` set ob"
  by (simp add: jget_def map_of_eq_None_iff)

lemma restructured_fields:
  assumes "jget ''params'' flat = None" "k \<in> fst ` set flat" "k \<notin> set top_level_fields"
  shows "''params'' \<in> fst ` set (jdelete ''signature'' (restructure_payload flat))"
proof -
  have "filter (\<lambda>f. fst f \<notin> set top_level_fields) flat \<noteq> []"
    using assms(2,3) by (auto simp: filter_empty_conv)
  then show ?thesis
    using assms(1) by (auto simp: restructure_payload_def Let_def jdelete_def)
qed

text \<open>A command that the hub has to restructure never passes the agent's verification: the hub moves
  the fields of the form into \<open>params\<close>, so the agent checks the signature over another object
  than the one that was signed. The hypotheses are that the key accepts the signature for the
  message that was signed only, and that objects with different field names are written
  differently.\<close>

lemma restructured_command_rejected:
  assumes "aa_key a = Some k"
    and "\<And>msg raw. se_check (aa_sig a) k msg raw \<Longrightarrow> msg = se_marshal (aa_sig a) (jdelete ''signature'' flat)"
    and "\<And>x y. se_marshal (aa_sig a) x = se_marshal (aa_sig a) y \<Longrightarrow> fst ` set x = fst ` set y"
    and "se_object (aa_sig a) body = Inr (restructure_payload flat)"
    and "jget ''params'' flat = None" "f \<in> fst ` set flat" "f \<notin> set top_level_fields"
  shows "execute_job a now stamp body m = ((401, ApiError ''invalid signature''), m)"
proof -
  have "''params'' \<notin> fst ` set (jdelete ''signature'' flat)"
    using assms(5) by (auto simp: jget_None jdelete_def)
  then have "fst ` set (jdelete ''signature'' (restructure_payload flat)) \<noteq> fst ` set (jdelete ''signature'' flat)"
    using restructured_fields [OF assms(5-7)] by metis
  then have "\<not> se_check (aa_sig a) k (se_marshal (aa_sig a) (jdelete ''signature'' (restructure_payload flat))) raw" for raw
    using assms(2,3) by metis
  then have "verify_body (aa_sig a) k body \<noteq> None"
    using assms(4) by (auto simp: verify_body_def split: sum.split)
  then show ?thesis
    using assms(1) by (auto simp: execute_job_def)
qed

text \<open>A marshaller that writes the names of the fields, each character behind a mark.\<close>

definition mark_name :: "string \<Rightarrow> string" where
  "mark_name s = concat (map (\<lambda>c. [CHR ''x'', c]) s) @ ''.''"

definition mark_object :: "jobject \<Rightarrow> string" where
  "mark_object ob = concat (map (\<lambda>f. mark_name (fst f)) ob)"

lemma mark_name_inject: "mark_name a @ s = mark_name b @ t \<Longrightarrow> a = b \<and> s = t"
proof (induction a arbitrary: b)
  case Nil
  then show ?case by (cases b) (auto simp: mark_name_def)
next
  case (Cons c a)
  then show ?case by (cases b) (auto simp: mark_name_def)
qed

lemma mark_object_names: "mark_object x = mark_object y \<Longrightarrow> map fst x = map fst y"
proof (induction x arbitrary: y)
  case Nil
  then show ?case by (cases y) (auto simp: mark_object_def mark_name_def)
next
  case (Cons f x)
  then obtain g z where y: "y = g # z" by (cases y) (auto simp: mark_object_def mark_name_def)
  then have "mark_name (fst f) @ mark_object x = mark_name (fst g) @ mark_object z"
    using Cons.prems by (simp add: mark_object_def)
  from mark_name_inject [OF this] Cons.IH [of z] show ?case by (simp add: y)
qed

definition flat_command :: jobject where
  "flat_command = [(''command'', JText ''burnin''), (''target'', JText ''/dev/sda''), (''signature'', JText ''sig''),
     (''block_size'', JOther ''4096'')]"

definition sample_sig_env :: sig_env where
  "sample_sig_env = \<lparr>se_field = (\<lambda>b. Inr ''sig''), se_object = (\<lambda>b. Inr (if b = ''flat'' then flat_command else restructure_payload flat_command)),
     se_b64 = (\<lambda>s. Inr s), se_marshal = mark_object,
     se_check = (\<lambda>k msg raw. msg = mark_object (jdelete ''signature'' flat_command))\<rparr>"

definition sample_agent_api :: agent_api where
  "sample_agent_api = \<lparr>aa_key = Some ''key'', aa_dispatcher = True, aa_sig = sample_sig_env, aa_decode = (\<lambda>b. Inr sample_command),
     aa_resolve = (\<lambda>p. Inr sample_drive), aa_persist = None\<rparr>"

text \<open>The same command is accepted as it was signed.\<close>

theorem execute_needs_signature_witness:
  "\<exists>i m'. execute_job sample_agent_api 0 ''s'' ''flat'' (new_job_manager None) = ((202, ApiAccepted i), m') \<and>
     verify_body sample_sig_env ''key'' ''flat'' = None"
proof -
  have v: "verify_body sample_sig_env ''key'' ''flat'' = None"
    by (simp add: verify_body_def sample_sig_env_def)
  then obtain i m' where r: "execute_job sample_agent_api 0 ''s'' ''flat'' (new_job_manager None) = ((202, ApiAccepted i), m')"
    by (simp add: execute_job_def sample_agent_api_def sample_command_def sample_drive_def start_job_def known_job_def
        new_job_manager_def Let_def)
  show ?thesis
    using execute_needs_signature [OF _ r, of "''key''"] r by (simp add: sample_agent_api_def)
qed

end
