(* ===== verification/BurnHub.thy ===== *)
theory BurnHub
  imports KeyedStore BurnApi
begin

text \<open>
  The hub of the burn-in add-on (\<^verbatim>\<open>burn-in/internal/hub\<close>): the agent registry with its file
  (\<^verbatim>\<open>agent_registry.go\<close>), the aggregator that stores and relays what the agents send and turns it
  into notifications (\<^verbatim>\<open>aggregator.go\<close>), and the handlers of the pre-shared key (\<^verbatim>\<open>server.go\<close>). A
  map is the list of its entries or a HOL map; times are nanoseconds and their texts parameters;
  what is handed to the upstream client is recorded whether it can be sent or not.
\<close>

section \<open>The registry (agent_registry.go)\<close>

record hub_drive =
  hv_path :: string
  hv_model :: string
  hv_serial :: string
  hv_capacity :: int
  hv_transport :: string
  hv_os :: bool
  hv_mounts :: "string list"

record burn_agent =
  ba_id :: string
  ba_host :: string
  ba_arch :: string
  ba_addr :: string
  ba_drives :: "hub_drive list"
  ba_registered :: int
  ba_seen :: int

record burn_registry =
  bg_agents :: "burn_agent list"
  bg_file :: "string option"

definition persist_agents :: "(burn_agent list \<Rightarrow> string) \<Rightarrow> go_error option \<Rightarrow> burn_registry \<Rightarrow> burn_registry" where
  "persist_agents enc io g = (case io of Some e \<Rightarrow> g | None \<Rightarrow> g\<lparr>bg_file := Some (enc (bg_agents g))\<rparr>)"

definition get_agent :: "string \<Rightarrow> burn_registry \<Rightarrow> burn_agent option" where
  "get_agent i g = ks_find ba_id i (bg_agents g)"

definition register_agent :: "(burn_agent list \<Rightarrow> string) \<Rightarrow> go_error option \<Rightarrow> int \<Rightarrow> burn_agent \<Rightarrow> burn_registry \<Rightarrow>
    burn_registry" where
  "register_agent enc io now a g =
     persist_agents enc io (g\<lparr>bg_agents := ks_upsert ba_id (ba_id a)
       (\<lambda>x. a\<lparr>ba_registered := ba_registered x, ba_seen := now\<rparr>)
       (a\<lparr>ba_registered := now, ba_seen := now\<rparr>) (bg_agents g)\<rparr>)"

definition see_agent :: "int \<Rightarrow> burn_agent \<Rightarrow> burn_agent" where
  "see_agent now a = a\<lparr>ba_seen := now\<rparr>"

definition touch_agent :: "int \<Rightarrow> string \<Rightarrow> burn_registry \<Rightarrow> burn_registry" where
  "touch_agent now i g = g\<lparr>bg_agents := ks_modify ba_id i (see_agent now) (bg_agents g)\<rparr>"

definition delete_agent :: "(burn_agent list \<Rightarrow> string) \<Rightarrow> go_error option \<Rightarrow> string \<Rightarrow> burn_registry \<Rightarrow> bool \<times> burn_registry" where
  "delete_agent enc io i g =
     (if get_agent i g = None then (False, g)
      else (True, persist_agents enc io (g\<lparr>bg_agents := ks_delete ba_id i (bg_agents g)\<rparr>)))"

definition load_agents :: "burn_agent list \<Rightarrow> burn_agent list" where
  "load_agents rs = fold (\<lambda>a as. ks_put ba_id a as) rs []"

definition new_burn_registry :: "(string \<Rightarrow> go_error + burn_agent list) \<Rightarrow> string option \<Rightarrow> go_error + burn_registry" where
  "new_burn_registry dec file =
     (case file of
        None \<Rightarrow> Inr \<lparr>bg_agents = [], bg_file = None\<rparr>
      | Some data \<Rightarrow>
          (case dec data of
             Inl e \<Rightarrow> Inl (WrappedError ''loading persisted agents: '' (WrappedError ''unmarshaling agents file: '' e []) [])
           | Inr rs \<Rightarrow> Inr \<lparr>bg_agents = load_agents rs, bg_file = Some data\<rparr>))"

definition agent_status_threshold :: int where
  "agent_status_threshold = 120000000000"

definition agent_view :: "int \<Rightarrow> string set \<Rightarrow> burn_agent \<Rightarrow> burn_agent \<times> string" where
  "agent_view now busy a =
     (a, if ba_id a \<in> busy then ''busy'' else if now - ba_seen a < agent_status_threshold then ''online'' else ''offline'')"

definition agent_views :: "int \<Rightarrow> string set \<Rightarrow> burn_registry \<Rightarrow> (burn_agent \<times> string) list" where
  "agent_views now busy g = map (agent_view now busy) (bg_agents g)"

section \<open>Frames\<close>

record burn_frame =
  bf_type :: string
  bf_agent :: string
  bf_job :: string
  bf_component :: string
  bf_command :: string
  bf_phase :: string
  bf_detail :: string
  bf_percent :: float64
  bf_speed :: float64
  bf_temp :: int
  bf_elapsed :: int
  bf_eta :: int
  bf_bad :: int
  bf_deltas :: string
  bf_level :: string
  bf_severity :: string
  bf_message :: string
  bf_source :: string
  bf_time :: string
  bf_key :: string
  bf_value :: float64

definition resolve_level :: "burn_frame \<Rightarrow> string" where
  "resolve_level f = (if bf_level f \<noteq> [] then bf_level f else bf_severity f)"

definition resolve_timestamp :: "string \<Rightarrow> burn_frame \<Rightarrow> string" where
  "resolve_timestamp stamp f = (if bf_time f \<noteq> [] then bf_time f else stamp)"

definition resolve_source :: "burn_frame \<Rightarrow> string" where
  "resolve_source f = (if bf_source f \<noteq> [] then bf_source f else bf_agent f)"

record progress_payload =
  pp_agent :: string
  pp_job :: string
  pp_command :: string
  pp_phase :: string
  pp_detail :: string
  pp_percent :: float64
  pp_speed :: float64
  pp_temp :: int
  pp_elapsed :: int
  pp_eta :: int
  pp_bad :: int
  pp_deltas :: string

definition payload_of :: "burn_frame \<Rightarrow> progress_payload" where
  "payload_of f =
     \<lparr>pp_agent = bf_agent f, pp_job = bf_job f, pp_command = bf_command f, pp_phase = bf_phase f, pp_detail = bf_detail f,
      pp_percent = bf_percent f, pp_speed = bf_speed f, pp_temp = bf_temp f, pp_elapsed = bf_elapsed f, pp_eta = bf_eta f,
      pp_bad = bf_bad f, pp_deltas = bf_deltas f\<rparr>"

record stored_log =
  sl_level :: string
  sl_message :: string
  sl_source :: string
  sl_job :: string
  sl_time :: string

record stored_point =
  sp_component :: string
  sp_key :: string
  sp_value :: float64
  sp_source :: string
  sp_time :: string

record burn_note =
  bo_type :: string
  bo_severity :: string
  bo_source :: string
  bo_message :: string

datatype upstream_item =
    UpProgress progress_payload
  | UpLog string stored_log
  | UpMetric string float64 string
  | UpChart string string float64 string
  | UpNote burn_note

text \<open>The state of the aggregator; \<open>bn_deltas\<close> decodes the deltas of a frame into the list of its
  attributes, in the order in which the map is enumerated.\<close>

record alert_thresholds =
  th_warning :: int
  th_critical :: int

record burn_hub =
  hu_registry :: burn_registry
  hu_psk :: string
  hu_thresholds :: alert_thresholds
  hu_up :: bool
  hu_conns :: "string \<rightharpoonup> nat"
  hu_logs :: "stored_log list"
  hu_points :: "stored_point list"
  hu_progress :: "string \<rightharpoonup> progress_payload"
  hu_deltas :: "string \<rightharpoonup> string"
  hu_phase :: "string \<rightharpoonup> string"
  hu_known :: "string set"
  hu_sent :: "upstream_item list"

definition new_burn_hub :: "burn_registry \<Rightarrow> string \<Rightarrow> alert_thresholds \<Rightarrow> burn_hub" where
  "new_burn_hub g psk th =
     \<lparr>hu_registry = g, hu_psk = psk, hu_thresholds = th, hu_up = False, hu_conns = Map.empty, hu_logs = [], hu_points = [],
      hu_progress = Map.empty, hu_deltas = Map.empty, hu_phase = Map.empty, hu_known = {}, hu_sent = []\<rparr>"

definition set_upstream :: "burn_hub \<Rightarrow> burn_hub" where
  "set_upstream h = h\<lparr>hu_up := True\<rparr>"

definition send_up :: "upstream_item \<Rightarrow> burn_hub \<Rightarrow> burn_hub" where
  "send_up x h = h\<lparr>hu_sent := hu_sent h @ [x]\<rparr>"

section \<open>Storing (aggregator.go)\<close>

definition ring_append :: "nat \<Rightarrow> 'a \<Rightarrow> 'a list \<Rightarrow> 'a list" where
  "ring_append max_len x buf = (let b = buf @ [x] in if length b > max_len then drop (max_len div 10) b else b)"

definition store_log :: "stored_log \<Rightarrow> burn_hub \<Rightarrow> burn_hub" where
  "store_log x h = h\<lparr>hu_logs := ring_append 10000 x (hu_logs h)\<rparr>"

definition store_point :: "stored_point \<Rightarrow> burn_hub \<Rightarrow> burn_hub" where
  "store_point x h = h\<lparr>hu_points := ring_append 2000 x (hu_points h)\<rparr>"

definition store_progress_locally :: "burn_frame \<Rightarrow> burn_hub \<Rightarrow> burn_hub" where
  "store_progress_locally f h =
     (if bf_job f = [] then h
      else let h1 = h\<lparr>hu_progress := (hu_progress h)(bf_job f \<mapsto> payload_of f)\<rparr>
           in if bf_deltas f \<noteq> [] then h1\<lparr>hu_deltas := (hu_deltas h1)(bf_job f \<mapsto> bf_deltas f)\<rparr> else h1)"

definition store_log_locally :: "string \<Rightarrow> burn_frame \<Rightarrow> burn_hub \<Rightarrow> burn_hub" where
  "store_log_locally stamp f h =
     store_log \<lparr>sl_level = resolve_level f, sl_message = bf_message f, sl_source = resolve_source f, sl_job = bf_job f,
       sl_time = resolve_timestamp stamp f\<rparr> h"

definition store_chart_locally :: "string \<Rightarrow> burn_frame \<Rightarrow> burn_hub \<Rightarrow> burn_hub" where
  "store_chart_locally stamp f h =
     store_point \<lparr>sp_component = bf_component f, sp_key = bf_key f, sp_value = bf_value f, sp_source = bf_agent f,
       sp_time = resolve_timestamp stamp f\<rparr> h"

definition em_dash :: string where
  "em_dash = [CHR '' '', CHR 0xE2, CHR 0x80, CHR 0x94, CHR '' '']"

definition store_phase_transition :: "string \<Rightarrow> burn_frame \<Rightarrow> burn_hub \<Rightarrow> burn_hub" where
  "store_phase_transition stamp f h =
     (if bf_phase f = [] \<or> bf_job f = [] then h
      else let key = bf_phase f @ ''|'' @ bf_detail f in
           if hu_phase h (bf_job f) = Some key then h
           else store_log
             \<lparr>sl_level = ''info'', sl_message = bf_phase f @ (if bf_detail f \<noteq> [] then em_dash @ bf_detail f else []),
              sl_source = (if bf_agent f = [] then ''hub'' else bf_agent f), sl_job = bf_job f, sl_time = stamp\<rparr>
             (h\<lparr>hu_phase := (hu_phase h)(bf_job f \<mapsto> key)\<rparr>))"

definition job_over :: "burn_frame \<Rightarrow> bool" where
  "job_over f \<longleftrightarrow> f64_ge (bf_percent f) (Fin 100) \<and> (bf_phase f = ''COMPLETE'' \<or> bf_phase f = ''CANCELLED'')"

definition cleanup_if_complete :: "burn_frame \<Rightarrow> burn_hub \<Rightarrow> burn_hub" where
  "cleanup_if_complete f h =
     (if job_over f
      then h\<lparr>hu_phase := (hu_phase h)(bf_job f := None), hu_deltas := (hu_deltas h)(bf_job f := None),
             hu_progress := (hu_progress h)(bf_job f := None)\<rparr>
      else h)"

section \<open>Notifications\<close>

definition note_source :: "burn_frame \<Rightarrow> string" where
  "note_source f = ''addon:burnin-preclear-v1:agent:'' @ bf_agent f @ (if bf_job f \<noteq> [] then '':job:'' @ bf_job f else [])"

definition emit_note :: "burn_frame \<Rightarrow> string \<Rightarrow> string \<Rightarrow> string \<Rightarrow> burn_hub \<Rightarrow> burn_hub" where
  "emit_note f ty sev msg h =
     send_up (UpNote \<lparr>bo_type = ty, bo_severity = sev, bo_source = note_source f, bo_message = msg\<rparr>) h"

text \<open>The signs in front of the messages, in UTF-8.\<close>

definition sign_red_dot :: string where
  "sign_red_dot = [CHR 0xF0, CHR 0x9F, CHR 0x94, CHR 0xB4, CHR '' '']"

definition sign_warning :: string where
  "sign_warning = [CHR 0xE2, CHR 0x9A, CHR 0xA0, CHR 0xEF, CHR 0xB8, CHR 0x8F, CHR '' '']"

definition sign_turn :: string where
  "sign_turn = [CHR 0xF0, CHR 0x9F, CHR 0x94, CHR 0x84, CHR '' '']"

definition sign_check :: string where
  "sign_check = [CHR 0xE2, CHR 0x9C, CHR 0x85, CHR '' '']"

definition sign_start :: string where
  "sign_start = [CHR 0xE2, CHR 0x96, CHR 0xB6, CHR 0xEF, CHR 0xB8, CHR 0x8F, CHR '' '']"

definition sign_stop :: string where
  "sign_stop = [CHR 0xF0, CHR 0x9F, CHR 0x9B, CHR 0x91, CHR '' '']"

definition degree_c :: string where
  "degree_c = [CHR 0xC2, CHR 0xB0, CHR ''C'']"

definition command_word :: "burn_frame \<Rightarrow> string" where
  "command_word f = (if bf_command f = [] then ''job'' else bf_command f)"

definition evaluate_job_lifecycle :: "burn_frame \<Rightarrow> burn_hub \<Rightarrow> burn_hub" where
  "evaluate_job_lifecycle f h =
     (let h1 = (if bf_job f \<in> hu_known h then h
                else emit_note f ''job_started'' ''info''
                  (sign_start @ ''Burn-in '' @ command_word f @ '' started on agent '' @ bf_agent f @ '' (job '' @ bf_job f @ '')'')
                  (h\<lparr>hu_known := insert (bf_job f) (hu_known h)\<rparr>))
      in if job_over f
         then let done_word = (if bf_phase f = ''CANCELLED'' then ''cancelled'' else ''completed'') in
              emit_note f ''job_complete'' ''info''
                ((if bf_phase f = ''CANCELLED'' then sign_stop else sign_check) @ ''Burn-in '' @ command_word f @ '' '' @ done_word @
                 '' on agent '' @ bf_agent f @ '' (job '' @ bf_job f @ '')'')
                (h1\<lparr>hu_known := hu_known h1 - {bf_job f}\<rparr>)
         else h1)"

definition check_temperature :: "burn_frame \<Rightarrow> burn_hub \<Rightarrow> burn_hub" where
  "check_temperature f h =
     (let text = (\<lambda>sg word limit. sg @ ''Drive temperature '' @ word @ '' on agent '' @ bf_agent f @ '': '' @ itoa (bf_temp f) @
            degree_c @ '' (threshold: '' @ itoa limit @ degree_c @ '')'')
      in if bf_temp f \<ge> th_critical (hu_thresholds h)
         then emit_note f ''temp_alert'' ''critical'' (text sign_red_dot ''critical'' (th_critical (hu_thresholds h))) h
         else if bf_temp f \<ge> th_warning (hu_thresholds h)
         then emit_note f ''temp_alert'' ''warning'' (text sign_warning ''warning'' (th_warning (hu_thresholds h))) h
         else h)"

definition arrow_right :: string where
  "arrow_right = [CHR '' '', CHR 0xE2, CHR 0x86, CHR 0x92, CHR '' '']"

definition check_delta :: "burn_frame \<Rightarrow> string \<times> string \<times> int \<times> int \<Rightarrow> burn_hub \<Rightarrow> burn_hub" where
  "check_delta f d h =
     (case d of (i, name, base, cur) \<Rightarrow>
        if wrap64 (cur - base) > 0
        then emit_note f ''smart_warning'' ''warning''
          (sign_warning @ ''SMART attribute '' @ i @ '' ('' @ name @ '') +'' @ itoa (wrap64 (cur - base)) @ '' on agent '' @ bf_agent f @
           '' (baseline: '' @ itoa base @ arrow_right @ ''current: '' @ itoa cur @ '')'') h
        else h)"

definition check_smart_deltas :: "(string \<Rightarrow> (string \<times> string \<times> int \<times> int) list option) \<Rightarrow> burn_frame \<Rightarrow> burn_hub \<Rightarrow> burn_hub" where
  "check_smart_deltas dec f h = (case dec (bf_deltas f) of None \<Rightarrow> h | Some ds \<Rightarrow> fold (check_delta f) ds h)"

definition evaluate_progress :: "(string \<Rightarrow> (string \<times> string \<times> int \<times> int) list option) \<Rightarrow> burn_frame \<Rightarrow> burn_hub \<Rightarrow> burn_hub" where
  "evaluate_progress dec f h0 =
     (let h1 = (if bf_job f \<noteq> [] then evaluate_job_lifecycle f h0 else h0);
          h2 = (if bf_temp f > 0 then check_temperature f h1 else h1);
          h3 = (if bf_deltas f \<noteq> [] then check_smart_deltas dec f h2 else h2);
          h4 = (if bf_bad f > 0
                then emit_note f ''job_failed'' ''critical''
                  (sign_red_dot @ ''Bad blocks detected on drive ('' @ bf_agent f @ ''): '' @ itoa (bf_bad f) @ '' errors found'') h3
                else h3)
      in if f64_ge (bf_percent f) (Fin 100) \<and> bf_phase f \<noteq> []
         then let h5 = emit_note f ''phase_complete'' ''info''
                    (sign_turn @ ''Phase '' @ go_quote (bf_phase f) @ '' completed on agent '' @ bf_agent f) h4
              in if bf_command f = ''full'' \<and> bf_phase f = ''complete''
                 then emit_note f ''burnin_passed'' ''info''
                   (sign_check @ ''Burn-in passed on agent '' @ bf_agent f @ '', pre-clear beginning'') h5
                 else h5
         else h4)"

definition evaluate_log :: "burn_frame \<Rightarrow> burn_hub \<Rightarrow> burn_hub" where
  "evaluate_log f h =
     (if resolve_level f = ''error''
      then emit_note f ''job_failed'' ''critical'' (sign_red_dot @ ''Agent '' @ bf_agent f @ '' reported error: '' @ bf_message f) h
      else if resolve_level f = ''warning'' \<or> resolve_level f = ''warn''
      then emit_note f ''smart_warning'' ''warning'' (sign_warning @ ''Agent '' @ bf_agent f @ '' warning: '' @ bf_message f) h
      else h)"

section \<open>A frame of an agent\<close>

definition relayed_log :: "string \<Rightarrow> burn_frame \<Rightarrow> upstream_item" where
  "relayed_log stamp f =
     UpLog (bf_component f) \<lparr>sl_level = resolve_level f, sl_message = bf_message f, sl_source = resolve_source f,
       sl_job = bf_job f, sl_time = resolve_timestamp stamp f\<rparr>"

definition process_frame :: "(string \<Rightarrow> (string \<times> string \<times> int \<times> int) list option) \<Rightarrow> string \<Rightarrow> burn_frame \<Rightarrow> burn_hub \<Rightarrow> burn_hub" where
  "process_frame dec stamp f h =
     (if bf_type f = ''progress''
      then let h1 = cleanup_if_complete f (store_phase_transition stamp f (store_progress_locally f h))
           in if hu_up h then evaluate_progress dec f (send_up (UpProgress (payload_of f)) h1) else h1
      else if bf_type f = ''log''
      then let h1 = store_log_locally stamp f h
           in if hu_up h then evaluate_log f (send_up (relayed_log stamp f) h1) else h1
      else if bf_type f = ''metric''
      then (if hu_up h then send_up (UpMetric (bf_key f) (bf_value f) (resolve_timestamp stamp f)) h else h)
      else if bf_type f = ''chart''
      then let h1 = store_chart_locally stamp f h
           in if hu_up h then send_up (UpChart (bf_component f) (bf_key f) (bf_value f) (resolve_timestamp stamp f)) h1 else h1
      else h)"

text \<open>A message of a connection: its frame is given the id of the agent that is connected.\<close>

definition read_frame :: "(string \<Rightarrow> (string \<times> string \<times> int \<times> int) list option) \<Rightarrow> int \<Rightarrow> string \<Rightarrow> string \<Rightarrow> burn_frame option \<Rightarrow>
    burn_hub \<Rightarrow> burn_hub" where
  "read_frame dec now stamp i msg h =
     (case msg of
        None \<Rightarrow> h
      | Some f \<Rightarrow> process_frame dec stamp (f\<lparr>bf_agent := i\<rparr>) (h\<lparr>hu_registry := touch_agent now i (hu_registry h)\<rparr>))"

section \<open>Connections and the pre-shared key\<close>

definition bearer_ok :: "string \<Rightarrow> string \<Rightarrow> bool" where
  "bearer_ok auth psk \<longleftrightarrow> has_prefix auth ''Bearer '' \<and> trim_prefix auth ''Bearer '' = psk"

definition connect_agent :: "int \<Rightarrow> nat \<Rightarrow> string \<Rightarrow> string \<Rightarrow> burn_hub \<Rightarrow> nat \<times> burn_hub" where
  "connect_agent now conn i auth h =
     (if i = [] then (400, h)
      else if \<not> bearer_ok auth (hu_psk h) then (401, h)
      else if get_agent i (hu_registry h) = None then (404, h)
      else (101, h\<lparr>hu_registry := touch_agent now i (hu_registry h), hu_conns := (hu_conns h)(i \<mapsto> conn)\<rparr>))"

definition disconnect_agent :: "nat \<Rightarrow> string \<Rightarrow> burn_hub \<Rightarrow> burn_hub" where
  "disconnect_agent conn i h = (if hu_conns h i = Some conn then h\<lparr>hu_conns := (hu_conns h)(i := None)\<rparr> else h)"

text \<open>The server has a key of its own.\<close>

record hub_server =
  vs_psk :: string
  vs_file :: "string option"
  vs_hub :: burn_hub

definition new_hub_server :: "burn_registry \<Rightarrow> string \<Rightarrow> alert_thresholds \<Rightarrow> string option \<Rightarrow> hub_server" where
  "new_hub_server g psk th file = \<lparr>vs_psk = psk, vs_file = file, vs_hub = new_burn_hub g psk th\<rparr>"

definition require_psk :: "string \<Rightarrow> hub_server \<Rightarrow> api_response option" where
  "require_psk auth v =
     (if \<not> has_prefix auth ''Bearer '' then Some (401, ApiError ''missing or invalid authorization header'')
      else if trim_prefix auth ''Bearer '' \<noteq> vs_psk v then Some (403, ApiError ''invalid pre-shared key'')
      else None)"

text \<open>The request is the two places of its confirmation; \<open>rnd\<close> the random bytes in hexadecimal.\<close>

definition rotate_psk :: "go_error option \<Rightarrow> go_error option \<Rightarrow> go_error + string \<Rightarrow> (string \<times> string) option \<Rightarrow> hub_server \<Rightarrow>
    api_response \<times> hub_server" where
  "rotate_psk mkdir write rnd req v =
     (case req of
        None \<Rightarrow> ((400, ApiError ''invalid request''), v)
      | Some (inner, outer) \<Rightarrow>
          if (if inner = [] then outer else inner) \<noteq> ''ROTATE'' then ((400, ApiError ''type ROTATE to confirm''), v)
          else case rnd of
            Inl e \<Rightarrow> ((500, ApiError ''PSK generation failed''), v)
          | Inr psk \<Rightarrow>
              (let v1 = v\<lparr>vs_psk := psk\<rparr> in
               if mkdir \<noteq> None then ((500, ApiError ''failed to save PSK''), v1)
               else if write \<noteq> None then ((500, ApiError ''PSK rotated in memory but failed to persist to disk''), v1)
               else ((200, ApiAccepted psk), v1\<lparr>vs_file := Some (psk @ [CHR 0x0A])\<rparr>)))"

definition register_request :: "(burn_agent list \<Rightarrow> string) \<Rightarrow> go_error option \<Rightarrow> int \<Rightarrow> string \<Rightarrow> burn_agent option \<Rightarrow> hub_server \<Rightarrow>
    nat \<times> hub_server" where
  "register_request enc io now auth body v =
     (case require_psk auth v of
        Some r \<Rightarrow> (fst r, v)
      | None \<Rightarrow>
          (case body of
             None \<Rightarrow> (400, v)
           | Some a \<Rightarrow>
               if ba_id a = [] then (400, v)
               else (200, v\<lparr>vs_hub := (vs_hub v)\<lparr>hu_registry := register_agent enc io now a (hu_registry (vs_hub v))\<rparr>\<rparr>)))"

definition delete_request :: "(burn_agent list \<Rightarrow> string) \<Rightarrow> go_error option \<Rightarrow> string \<Rightarrow> hub_server \<Rightarrow> nat \<times> hub_server" where
  "delete_request enc io i v =
     (if i = [] then (400, v)
      else case delete_agent enc io i (hu_registry (vs_hub v)) of
        (False, g) \<Rightarrow> (404, v)
      | (True, g) \<Rightarrow> (200, v\<lparr>vs_hub := (vs_hub v)\<lparr>hu_registry := g\<rparr>\<rparr>))"

section \<open>Queries\<close>

definition busy_agents :: "burn_hub \<Rightarrow> string set" where
  "busy_agents h = pp_agent ` ran (hu_progress h)"

definition query_logs :: "(string \<Rightarrow> int option) \<Rightarrow> int \<Rightarrow> string \<Rightarrow> burn_hub \<Rightarrow> stored_log list" where
  "query_logs parse now tr h =
     (case parse_time_range tr of
        None \<Rightarrow> hu_logs h
      | Some d \<Rightarrow> filter (\<lambda>e. case parse (sl_time e) of None \<Rightarrow> True | Some t \<Rightarrow> t > now - d) (hu_logs h))"

definition query_chart :: "(string \<Rightarrow> int option) \<Rightarrow> int \<Rightarrow> string \<Rightarrow> string \<Rightarrow> burn_hub \<Rightarrow> stored_point list" where
  "query_chart parse now cid tr h =
     filter (\<lambda>p. (cid = [] \<or> sp_component p = cid) \<and>
         (case parse_time_range tr of
            None \<Rightarrow> True
          | Some d \<Rightarrow> (case parse (sp_time p) of None \<Rightarrow> True | Some t \<Rightarrow> t > now - d))) (hu_points h)"

definition query_deltas :: "burn_hub \<Rightarrow> (string \<rightharpoonup> string) option" where
  "query_deltas h = (if hu_deltas h = Map.empty then None else Some (hu_deltas h))"

end
