(* ===== verification/BurnNotes.thy ===== *)
theory BurnNotes
  imports BurnHub
begin

text \<open>
  What the hub of the burn-in add-on makes of the frames of a job: the frames as the agent sends
  them (\<^verbatim>\<open>burn-in/internal/agent/hub_telemetry.go\<close>), the bounds of the hub's buffers, the
  notifications of a job that is over, the agents that are reported busy, and what a rotation of
  the pre-shared key does to the agents.
\<close>

section \<open>The frames of an agent (hub_telemetry.go)\<close>

definition no_frame :: burn_frame where
  "no_frame = \<lparr>bf_type = [], bf_agent = [], bf_job = [], bf_component = [], bf_command = [], bf_phase = [], bf_detail = [],
     bf_percent = Fin 0, bf_speed = Fin 0, bf_temp = 0, bf_elapsed = 0, bf_eta = 0, bf_bad = 0, bf_deltas = [],
     bf_level = [], bf_severity = [], bf_message = [], bf_source = [], bf_time = [], bf_key = [], bf_value = Fin 0\<rparr>"

definition progress_frame :: "string \<Rightarrow> string \<Rightarrow> string \<Rightarrow> string \<Rightarrow> string \<Rightarrow> float64 \<Rightarrow> float64 \<Rightarrow> int \<Rightarrow> int \<Rightarrow> int \<Rightarrow> int \<Rightarrow>
    string \<Rightarrow> burn_frame" where
  "progress_frame agent job command phase detail percent speed temp elapsed eta errs deltas =
     no_frame\<lparr>bf_type := ''progress'', bf_agent := agent, bf_job := job, bf_command := command, bf_phase := phase,
       bf_detail := detail, bf_percent := percent, bf_speed := speed, bf_temp := temp, bf_elapsed := elapsed,
       bf_eta := eta, bf_bad := errs, bf_deltas := deltas\<rparr>"

definition log_frame :: "string \<Rightarrow> string \<Rightarrow> string \<Rightarrow> string \<Rightarrow> string \<Rightarrow> burn_frame" where
  "log_frame agent stamp job severity message =
     no_frame\<lparr>bf_type := ''log'', bf_agent := agent, bf_job := job, bf_component := ''recent-activity'', bf_level := severity,
       bf_message := message, bf_source := agent, bf_time := stamp\<rparr>"

definition chart_frame :: "string \<Rightarrow> string \<Rightarrow> string \<Rightarrow> string \<Rightarrow> float64 \<Rightarrow> burn_frame" where
  "chart_frame agent stamp component key value =
     no_frame\<lparr>bf_type := ''chart'', bf_agent := agent, bf_component := component, bf_key := key, bf_value := value,
       bf_time := stamp\<rparr>"

definition metric_frame :: "string \<Rightarrow> string \<Rightarrow> string \<Rightarrow> float64 \<Rightarrow> burn_frame" where
  "metric_frame agent stamp key value =
     no_frame\<lparr>bf_type := ''metric'', bf_agent := agent, bf_key := key, bf_value := value, bf_time := stamp\<rparr>"

text \<open>What a job sends, without a temperature; \<open>enc\<close> writes the deltas as JSON.\<close>

definition item_frame :: "(delta_payload \<Rightarrow> string) \<Rightarrow> string \<Rightarrow> string \<Rightarrow> bjob_record \<Rightarrow> int \<Rightarrow> burn_item \<Rightarrow> burn_frame" where
  "item_frame enc agent stamp r elapsed x =
     (case x of
        Progress phase detail pct errs deltas \<Rightarrow>
          progress_frame agent (jm_id r) (jm_command r) phase detail (Fin (of_int pct)) (Fin 0) 0 elapsed 0 errs
            (if deltas = NoDeltas then [] else enc deltas)
      | LogLine severity message \<Rightarrow> log_frame agent stamp (jm_id r) severity message)"

section \<open>The registry\<close>

definition registry_ok :: "burn_registry \<Rightarrow> bool" where
  "registry_ok g \<longleftrightarrow> ks_ok ba_id (bg_agents g)"

lemma persist_agents_agents [simp]: "bg_agents (persist_agents enc io g) = bg_agents g"
  by (simp add: persist_agents_def split: option.split)

interpretation burn_reg: keyed_store get_agent touch_agent "\<lambda>i g. snd (delete_agent enc io i g)" see_agent ba_id registry_ok
  for enc io
proof
  show "get_agent k s = Some e \<Longrightarrow> ba_id e = k" for k s e
    using ks_find_Some unfolding get_agent_def by metis
  show "get_agent k' (touch_agent t k s) = (if k' = k then map_option (see_agent t) (get_agent k s) else get_agent k' s)" for k' t k s
    unfolding get_agent_def touch_agent_def using ks_find_modify [of ba_id "see_agent t"] by (simp add: see_agent_def)
  show "get_agent k' (snd (delete_agent enc io k s)) = (if k' = k then None else get_agent k' s)" for k' k s
    by (auto simp: delete_agent_def get_agent_def ks_find_delete)
  show "registry_ok s \<Longrightarrow> registry_ok (touch_agent t k s)" for s t k
    by (simp add: registry_ok_def touch_agent_def ks_ok_modify see_agent_def)
  show "registry_ok s \<Longrightarrow> registry_ok (snd (delete_agent enc io k s))" for s k
    by (simp add: registry_ok_def delete_agent_def ks_ok_delete)
qed

section \<open>The buffers\<close>

lemma ring_append_length: "10 \<le> n \<Longrightarrow> length buf \<le> n \<Longrightarrow> length (ring_append n x buf) \<le> n"
  by (auto simp: ring_append_def Let_def)

definition hub_bounded :: "burn_hub \<Rightarrow> bool" where
  "hub_bounded h \<longleftrightarrow> length (hu_logs h) \<le> 10000 \<and> length (hu_points h) \<le> 2000"

lemma hub_bounded_store [simp]:
  "hub_bounded h \<Longrightarrow> hub_bounded (store_log x h)" "hub_bounded h \<Longrightarrow> hub_bounded (store_point p h)"
  by (simp_all add: hub_bounded_def store_log_def store_point_def ring_append_length)

text \<open>Sending, and with it every notification, changes neither buffer.\<close>

definition same_store :: "burn_hub \<Rightarrow> burn_hub \<Rightarrow> bool" where
  "same_store h h' \<longleftrightarrow> hu_logs h' = hu_logs h \<and> hu_points h' = hu_points h \<and> hu_progress h' = hu_progress h \<and>
     hu_registry h' = hu_registry h \<and> hu_psk h' = hu_psk h \<and> hu_conns h' = hu_conns h \<and> hu_up h' = hu_up h \<and>
     (\<exists>xs. hu_sent h' = hu_sent h @ xs)"

lemma same_store_refl [simp]: "same_store h h"
  by (simp add: same_store_def)

lemma same_store_trans [trans]: "same_store a b \<Longrightarrow> same_store b c \<Longrightarrow> same_store a c"
  by (auto simp: same_store_def)

lemma same_store_emit: "same_store h (emit_note f ty sev msg h)" "same_store h (send_up x h)"
  by (simp_all add: same_store_def emit_note_def send_up_def)

lemma same_store_emit' [intro]: "same_store h h' \<Longrightarrow> same_store h (emit_note f ty sev msg h')"
  using same_store_trans same_store_emit by blast

lemma same_store_if: "same_store h a \<Longrightarrow> same_store h b \<Longrightarrow> same_store h (if c then a else b)"
  by simp

lemma same_store_lifecycle: "same_store h (evaluate_job_lifecycle f h)"
  by (simp add: evaluate_job_lifecycle_def Let_def same_store_def emit_note_def send_up_def)

lemma same_store_temperature: "same_store h (check_temperature f h)"
  by (auto simp: check_temperature_def Let_def intro: same_store_emit)

lemma same_store_deltas: "same_store h (check_smart_deltas dec f h)"
proof -
  have "same_store h (check_delta f d h)" for d h
    by (cases d) (simp add: check_delta_def same_store_emit)
  then have "same_store h (fold (check_delta f) ds h)" for ds
  proof (induction ds arbitrary: h)
    case (Cons d ds)
    from same_store_trans [OF this(2) this(1)] this(2) show ?case by simp
  qed simp
  then show ?thesis by (simp add: check_smart_deltas_def split: option.split)
qed

text \<open>What comes after the life cycle of the job.\<close>

lemma same_store_rest: "same_store (if bf_job f \<noteq> [] then evaluate_job_lifecycle f h else h) (evaluate_progress dec f h)"
proof -
  define h1 where "h1 = (if bf_job f \<noteq> [] then evaluate_job_lifecycle f h else h)"
  define h2 where "h2 = (if bf_temp f > 0 then check_temperature f h1 else h1)"
  define h3 where "h3 = (if bf_deltas f \<noteq> [] then check_smart_deltas dec f h2 else h2)"
  have "same_store h1 h2" by (simp add: h2_def same_store_temperature)
  also have "same_store h2 h3" by (simp add: h3_def same_store_deltas)
  finally have "same_store h1 h3" .
  then show ?thesis
    unfolding evaluate_progress_def Let_def h1_def [symmetric] h2_def [symmetric] h3_def [symmetric]
    by (intro same_store_if same_store_emit')
qed

lemma same_store_progress: "same_store h (evaluate_progress dec f h)"
proof -
  have "same_store h (if bf_job f \<noteq> [] then evaluate_job_lifecycle f h else h)"
    by (simp add: same_store_lifecycle)
  from same_store_trans [OF this same_store_rest] show ?thesis .
qed

lemma same_store_log: "same_store h (evaluate_log f h)"
  by (auto simp: evaluate_log_def intro: same_store_emit)

lemma same_store_bounded: "same_store h h' \<Longrightarrow> hub_bounded h' = hub_bounded h"
  by (simp add: same_store_def hub_bounded_def)

lemma hub_bounded_progress [simp]: "hub_bounded h \<Longrightarrow> hub_bounded (store_progress_locally f h)"
  by (simp add: store_progress_locally_def Let_def hub_bounded_def)

lemma hub_bounded_phase [simp]: "hub_bounded h \<Longrightarrow> hub_bounded (store_phase_transition stamp f h)"
  by (simp add: store_phase_transition_def Let_def store_log_def hub_bounded_def ring_append_length)

lemma hub_bounded_cleanup [simp]: "hub_bounded (cleanup_if_complete f h) = hub_bounded h"
  by (simp add: cleanup_if_complete_def hub_bounded_def)

lemma hub_bounded_send [simp]: "hub_bounded (send_up x h) = hub_bounded h"
  by (rule same_store_bounded [OF same_store_emit(2)])

lemma hub_bounded_evaluate [simp]:
  "hub_bounded (evaluate_progress dec f h) = hub_bounded h" "hub_bounded (evaluate_log f h) = hub_bounded h"
  by (rule same_store_bounded [OF same_store_progress], rule same_store_bounded [OF same_store_log])

lemma hub_bounded_touch [simp]: "hub_bounded (h\<lparr>hu_registry := g\<rparr>) = hub_bounded h"
  by (simp add: hub_bounded_def)

lemma hub_bounded_process: "hub_bounded h \<Longrightarrow> hub_bounded (process_frame dec stamp f h)"
  by (simp add: process_frame_def Let_def store_log_locally_def store_chart_locally_def)

lemma hub_bounded_read: "hub_bounded h \<Longrightarrow> hub_bounded (read_frame dec now stamp i msg h)"
  by (simp add: read_frame_def hub_bounded_process split: option.split)

text \<open>The messages of the connections, each with its time, its time stamp and the agent that sent it.\<close>

definition read_frames :: "(string \<Rightarrow> (string \<times> string \<times> int \<times> int) list option) \<Rightarrow> (int \<times> string \<times> string \<times> burn_frame option) list \<Rightarrow>
    burn_hub \<Rightarrow> burn_hub" where
  "read_frames dec ms h = fold (\<lambda>(now, stamp, i, msg). read_frame dec now stamp i msg) ms h"

text \<open>However many frames the agents send, the hub of the burn-in add-on keeps at most 10000 log
  entries and 2000 points of its charts.\<close>

lemma hub_buffers_bounded:
  "length (hu_logs (read_frames dec ms (new_burn_hub g psk th))) \<le> 10000 \<and>
   length (hu_points (read_frames dec ms (new_burn_hub g psk th))) \<le> 2000"
proof -
  have "hub_bounded (read_frames dec ms h)" if "hub_bounded h" for h
    using that unfolding read_frames_def by (induction ms arbitrary: h) (auto simp: hub_bounded_read)
  then show ?thesis
    unfolding hub_bounded_def by (simp add: new_burn_hub_def)
qed

section \<open>Agents that are busy\<close>

text \<open>A frame that is not of the job leaves what is known of it.\<close>

lemma progress_other_job:
  assumes "bf_job f \<noteq> j"
  shows "hu_progress (process_frame dec stamp f h) j = hu_progress h j"
proof -
  have "hu_progress (evaluate_progress dec f h) = hu_progress h" "hu_progress (evaluate_log f h) = hu_progress h" for h
    using same_store_progress [of h dec f] same_store_log [of h f] by (simp_all add: same_store_def)
  then show ?thesis using assms
    by (simp add: process_frame_def Let_def store_log_locally_def store_chart_locally_def store_log_def store_point_def
        send_up_def cleanup_if_complete_def store_phase_transition_def store_progress_locally_def)
qed

lemma progress_read_other:
  assumes "\<forall>(now, stamp, i, msg) \<in> set ms. \<forall>f. msg = Some f \<longrightarrow> bf_job f \<noteq> j"
  shows "hu_progress (read_frames dec ms h) j = hu_progress h j"
  using assms unfolding read_frames_def
proof (induction ms arbitrary: h)
  case (Cons m ms)
  obtain now stamp i msg where m: "m = (now, stamp, i, msg)" by (cases m)
  have "hu_progress (read_frame dec now stamp i msg h) j = hu_progress h j"
    using Cons.prems by (auto simp: m read_frame_def progress_other_job split: option.split)
  with Cons show ?case by (simp add: m)
qed simp

text \<open>No frame makes an agent known or removes one.\<close>

lemma frames_keep_agents:
  "get_agent i (hu_registry (read_frames dec ms h)) = None \<longleftrightarrow> get_agent i (hu_registry h) = None"
proof (induction ms arbitrary: h)
  case Nil
  then show ?case by (simp add: read_frames_def)
next
  case (Cons m ms)
  obtain now stamp a msg where m: "m = (now, stamp, a, msg)" by (cases m)
  have "hu_registry (evaluate_progress dec f h) = hu_registry h" "hu_registry (evaluate_log f h) = hu_registry h" for f h
    using same_store_progress [of h dec f] same_store_log [of h f] by (simp_all add: same_store_def)
  then have "hu_registry (process_frame dec stamp f h) = hu_registry h" for f h
    by (simp add: process_frame_def Let_def store_log_locally_def store_chart_locally_def store_log_def store_point_def
        send_up_def cleanup_if_complete_def store_phase_transition_def store_progress_locally_def)
  then have "get_agent i (hu_registry (read_frame dec now stamp a msg h)) = None \<longleftrightarrow> get_agent i (hu_registry h) = None"
    by (simp add: read_frame_def burn_reg.touch_known split: option.split)
  with Cons.IH [of "read_frame dec now stamp a msg h"] show ?case by (simp add: read_frames_def m)
qed

text \<open>An agent is reported busy, never offline, from a frame of a job that does not end it until
  another frame of that job: when the agent dies or loses its connection it stays busy, however
  long nothing is heard of it and whatever the other agents send.\<close>

lemma silent_agent_stays_busy:
  assumes "bf_type f = ''progress''" and "bf_job f \<noteq> []" and "\<not> job_over f"
    and "\<forall>(now, stamp, i, msg) \<in> set ms. \<forall>g. msg = Some g \<longrightarrow> bf_job g \<noteq> bf_job f"
    and "ba_id a = i"
  shows "agent_view now (busy_agents (disconnect_agent conn i (read_frames dec ms (read_frame dec now0 stamp0 i (Some f) h)))) a =
    (a, ''busy'')"
proof -
  let ?f = "f\<lparr>bf_agent := i\<rparr>" and ?h = "read_frame dec now0 stamp0 i (Some f) h"
  have e: "hu_progress (evaluate_progress dec ?f h) = hu_progress h" for h
    using same_store_progress [of h dec ?f] by (simp add: same_store_def)
  have "\<not> job_over ?f" using assms(3) by (simp add: job_over_def)
  then have "hu_progress ?h (bf_job f) = Some (payload_of ?f)" using assms(1,2)
    by (simp add: read_frame_def process_frame_def Let_def e send_up_def cleanup_if_complete_def store_phase_transition_def
        store_progress_locally_def store_log_def)
  then have "hu_progress (disconnect_agent conn i (read_frames dec ms ?h)) (bf_job f) = Some (payload_of ?f)"
    using progress_read_other [OF assms(4)] by (simp add: disconnect_agent_def)
  then have "pp_agent (payload_of ?f) \<in> busy_agents (disconnect_agent conn i (read_frames dec ms ?h))"
    unfolding busy_agents_def by (blast intro: ranI)
  then show ?thesis using assms(5) by (simp add: agent_view_def payload_of_def)
qed

section \<open>Rotation of the pre-shared key (server.go)\<close>

text \<open>After a rotation the handlers of the server take the new key and the telemetry connections
  still the old one: the server hands out a key with which an agent registers and cannot connect,
  and an agent that still has the old key cannot register and stays connected or connects again.\<close>

lemma rotation_keeps_old_key:
  assumes "rotate_psk mkdir write rnd req v = ((200, r), v')" and "v = new_hub_server g old th file"
    and "rnd = Inr new" and "new \<noteq> old" and "get_agent i g \<noteq> None" and "i \<noteq> []"
  shows "require_psk (''Bearer '' @ new) v' = None \<and> fst (connect_agent now conn i (''Bearer '' @ new) (vs_hub v')) = 401 \<and>
    fst (connect_agent now conn i (''Bearer '' @ old) (vs_hub v')) = 101 \<and>
    fst (register_request enc io now (''Bearer '' @ old) body v') = 403"
proof (intro conjI)
  have v': "v' = v\<lparr>vs_psk := new, vs_file := Some (new @ [CHR 0x0A])\<rparr>"
    using assms(1,3) by (auto simp: rotate_psk_def Let_def split: option.splits prod.splits if_splits)
  have b: "has_prefix (''Bearer '' @ x) ''Bearer ''" "trim_prefix (''Bearer '' @ x) ''Bearer '' = x" for x
    by (simp_all add: has_prefix_def trim_prefix_def)
  show "require_psk (''Bearer '' @ new) v' = None"
    unfolding require_psk_def b by (simp add: v')
  show "fst (connect_agent now conn i (''Bearer '' @ new) (vs_hub v')) = 401"
    using assms(2,4,6) unfolding connect_agent_def bearer_ok_def b by (simp add: v' new_hub_server_def new_burn_hub_def)
  show "fst (connect_agent now conn i (''Bearer '' @ old) (vs_hub v')) = 101"
    using assms(2,5,6) unfolding connect_agent_def bearer_ok_def b by (simp add: v' new_hub_server_def new_burn_hub_def)
  show "fst (register_request enc io now (''Bearer '' @ old) body v') = 403"
    using assms(4) unfolding register_request_def require_psk_def b by (simp add: v')
qed

section \<open>The notifications of a job that is over\<close>

definition hub_notes :: "burn_hub \<Rightarrow> burn_note list" where
  "hub_notes h = concat (map (\<lambda>x. case x of UpNote n \<Rightarrow> [n] | _ \<Rightarrow> []) (hu_sent h))"

text \<open>A notification of the life of a job: its type and the words of its message.\<close>

definition life_note :: "string \<Rightarrow> bjob_record \<Rightarrow> string \<Rightarrow> string \<Rightarrow> string \<Rightarrow> burn_note" where
  "life_note agent r ty sign word =
     \<lparr>bo_type = ty, bo_severity = ''info'', bo_source = ''addon:burnin-preclear-v1:agent:'' @ agent @ '':job:'' @ jm_id r,
      bo_message = sign @ ''Burn-in '' @ jm_command r @ '' '' @ word @ '' on agent '' @ agent @ '' (job '' @ jm_id r @ '')''\<rparr>"

lemma notes_send [simp]:
  "hub_notes (send_up x h) = hub_notes h @ (case x of UpNote n \<Rightarrow> [n] | _ \<Rightarrow> [])"
  by (simp add: hub_notes_def send_up_def)

lemma notes_sent: "hu_sent h' = hu_sent h \<Longrightarrow> hub_notes h' = hub_notes h"
  by (simp add: hub_notes_def)

lemma notes_emit [simp]:
  "hub_notes (emit_note f ty sev msg h) =
     hub_notes h @ [\<lparr>bo_type = ty, bo_severity = sev, bo_source = note_source f, bo_message = msg\<rparr>]"
  by (simp add: emit_note_def)

lemma notes_known [simp]: "hub_notes (h\<lparr>hu_known := k\<rparr>) = hub_notes h"
  by (simp add: hub_notes_def)

lemma stored_sent [simp]:
  "hu_sent (cleanup_if_complete f h) = hu_sent h" "hu_sent (store_phase_transition stamp f h) = hu_sent h"
  "hu_sent (store_progress_locally f h) = hu_sent h" "hu_sent (store_log_locally stamp f h) = hu_sent h"
  by (simp_all add: cleanup_if_complete_def store_phase_transition_def store_progress_locally_def store_log_locally_def
      store_log_def Let_def)

lemma stored_known [simp]:
  "hu_known (cleanup_if_complete f h) = hu_known h" "hu_known (store_phase_transition stamp f h) = hu_known h"
  "hu_known (store_progress_locally f h) = hu_known h" "hu_known (store_log_locally stamp f h) = hu_known h"
  "hu_known (send_up x h) = hu_known h" "hu_known (emit_note f ty sev msg h) = hu_known h"
  by (simp_all add: cleanup_if_complete_def store_phase_transition_def store_progress_locally_def store_log_locally_def
      store_log_def Let_def send_up_def emit_note_def)

lemma stored_up [simp]:
  "hu_up (cleanup_if_complete f h) = hu_up h" "hu_up (store_phase_transition stamp f h) = hu_up h"
  "hu_up (store_progress_locally f h) = hu_up h" "hu_up (store_log_locally stamp f h) = hu_up h"
  by (simp_all add: cleanup_if_complete_def store_phase_transition_def store_progress_locally_def store_log_locally_def
      store_log_def Let_def)

text \<open>What is stored before a frame is relayed.\<close>

definition stored_progress :: "string \<Rightarrow> burn_frame \<Rightarrow> burn_hub \<Rightarrow> burn_hub" where
  "stored_progress stamp f h =
     send_up (UpProgress (payload_of f)) (cleanup_if_complete f (store_phase_transition stamp f (store_progress_locally f h)))"

lemma stored_progress_notes [simp]:
  "hub_notes (stored_progress stamp f h) = hub_notes h" "hu_known (stored_progress stamp f h) = hu_known h"
  "hu_up (stored_progress stamp f h) = hu_up h"
  by (simp_all add: stored_progress_def) (simp_all add: hub_notes_def send_up_def)

lemma process_progress:
  "bf_type f = ''progress'' \<Longrightarrow> hu_up h \<Longrightarrow> process_frame dec stamp f h = evaluate_progress dec f (stored_progress stamp f h)"
  by (simp add: process_frame_def stored_progress_def Let_def)

lemma life_cycle_notes:
  assumes "bf_agent f = agent" "bf_job f = jm_id r" "bf_command f = jm_command r" "jm_id r \<noteq> []" "jm_command r \<noteq> []"
    and "job_over f" "bf_phase f = ''COMPLETE''"
  shows "hub_notes (evaluate_job_lifecycle f h) = hub_notes h @
      (if jm_id r \<in> hu_known h then [] else [life_note agent r ''job_started'' sign_start ''started'']) @
      [life_note agent r ''job_complete'' sign_check ''completed'']"
    "hu_known (evaluate_job_lifecycle f h) = hu_known h - {jm_id r}"
  using assms
  by (simp_all add: evaluate_job_lifecycle_def Let_def life_note_def note_source_def command_word_def)

lemma known_deltas [simp]: "hu_known (check_smart_deltas dec f h) = hu_known h"
proof -
  have "hu_known (check_delta f d h) = hu_known h" for d h
    by (cases d) (simp add: check_delta_def)
  then have "hu_known (fold (check_delta f) ds h) = hu_known h" for ds
    by (induction ds arbitrary: h) simp_all
  then show ?thesis by (simp add: check_smart_deltas_def split: option.split)
qed

lemma known_progress: "bf_job f \<noteq> [] \<Longrightarrow> hu_known (evaluate_progress dec f h) = hu_known (evaluate_job_lifecycle f h)"
  by (simp add: evaluate_progress_def Let_def check_temperature_def)

definition stored_line :: "string \<Rightarrow> burn_frame \<Rightarrow> burn_hub \<Rightarrow> burn_hub" where
  "stored_line stamp f h = send_up (relayed_log stamp f) (store_log_locally stamp f h)"

lemma stored_line_notes [simp]: "hub_notes (stored_line stamp f h) = hub_notes h"
  by (simp add: stored_line_def relayed_log_def) (simp add: hub_notes_def)

lemma process_error:
  assumes "bf_type f = ''log''" "hu_up h" "resolve_level f = ''error''"
  shows "\<exists>msg. process_frame dec stamp f h = emit_note f ''job_failed'' ''critical'' msg (stored_line stamp f h)"
proof -
  have "process_frame dec stamp f h = evaluate_log f (stored_line stamp f h)"
    using assms(1,2) by (simp add: process_frame_def stored_line_def Let_def)
  then show ?thesis by (simp add: evaluate_log_def assms(3)) blast
qed

text \<open>A job that failed is announced as completed, and twice: the COMPLETE frame of its own
  orchestrator makes the hub report it as completed and forget it, and the COMPLETE frame the job
  manager sends after it makes the hub report it as started and completed again, before the only
  sign of the failure, the agent's error line.\<close>

lemma failed_job_announced_twice:
  assumes "hu_up h" and "jm_id r \<in> hu_known h" and "jm_id r \<noteq> []" and "jm_command r \<noteq> []"
    and "jm_status r = JobFailed" and "jm_reason r \<noteq> []" and "frame = item_frame enc agent stamp r elapsed"
    and "h1 = process_frame dec stamp (frame (Progress ''COMPLETE'' detail 100 errs deltas)) h"
    and "h2 = fold (process_frame dec stamp) (map frame (finish_frames r)) h1"
  shows "(\<exists>xs. hub_notes h1 = hub_notes h @ life_note agent r ''job_complete'' sign_check ''completed'' # xs) \<and>
    (\<exists>phase err. bo_type err = ''job_failed'' \<and> hub_notes h2 = hub_notes h1 @
      [life_note agent r ''job_started'' sign_start ''started'', life_note agent r ''job_complete'' sign_check ''completed'',
       phase, err])"
proof -
  let ?f = "frame (Progress ''COMPLETE'' detail 100 errs deltas)"
  let ?g = "frame (Progress ''COMPLETE'' (jm_reason r) 100 0 NoDeltas)"
  let ?l = "frame (LogLine ''error'' (jm_command r @ '' failed: '' @ jm_reason r))"
  have g: "bf_agent ?g = agent \<and> bf_job ?g = jm_id r \<and> bf_command ?g = jm_command r \<and> bf_phase ?g = ''COMPLETE'' \<and>
      bf_type ?g = ''progress'' \<and> job_over ?g \<and> bf_temp ?g = 0 \<and> bf_deltas ?g = [] \<and> bf_bad ?g = 0 \<and> bf_percent ?g = Fin 100"
    by (simp add: assms(7) item_frame_def progress_frame_def no_frame_def job_over_def)
  have f: "bf_agent ?f = agent \<and> bf_job ?f = jm_id r \<and> bf_command ?f = jm_command r \<and> bf_phase ?f = ''COMPLETE'' \<and>
      bf_type ?f = ''progress'' \<and> job_over ?f"
    by (simp add: assms(7) item_frame_def progress_frame_def no_frame_def job_over_def)
  have l: "bf_type ?l = ''log'' \<and> resolve_level ?l = ''error''"
    by (simp add: assms(7) item_frame_def log_frame_def no_frame_def resolve_level_def)
  have h1: "h1 = evaluate_progress dec ?f (stored_progress stamp ?f h)"
    using f assms(1,8) by (simp add: process_progress)
  then have "\<exists>xs. hu_sent h1 = hu_sent (evaluate_job_lifecycle ?f (stored_progress stamp ?f h)) @ xs"
    using same_store_rest [of ?f "stored_progress stamp ?f h" dec] f assms(3) by (simp add: same_store_def)
  then obtain xs where "hub_notes h1 = hub_notes (evaluate_job_lifecycle ?f (stored_progress stamp ?f h)) @ xs"
    by (auto simp: hub_notes_def)
  then have first: "hub_notes h1 = hub_notes h @ life_note agent r ''job_complete'' sign_check ''completed'' # xs"
    using life_cycle_notes(1) [of ?f agent r "stored_progress stamp ?f h"] f assms(2-4) by simp
  have k: "jm_id r \<notin> hu_known h1"
    using life_cycle_notes(2) [of ?f agent r] known_progress [of ?f] f assms(3,4) by (simp add: h1)
  have up: "hu_up h1"
    using same_store_progress [of "stored_progress stamp ?f h" dec ?f] assms(1) by (simp add: h1 same_store_def)
  let ?e = "evaluate_job_lifecycle ?g (stored_progress stamp ?g h1)"
  obtain ph where h2: "process_frame dec stamp ?g h1 = emit_note ?g ''phase_complete'' ''info'' ph ?e"
    using g up assms(3) by (simp add: process_progress evaluate_progress_def Let_def)
  have "hu_up (process_frame dec stamp ?g h1)"
    using same_store_trans [OF same_store_lifecycle same_store_emit(1)] up
    unfolding h2 same_store_def by (metis stored_progress_notes(3))
  from process_error [OF _ this] l obtain msg where
    "process_frame dec stamp ?l (process_frame dec stamp ?g h1) =
      emit_note ?l ''job_failed'' ''critical'' msg (stored_line stamp ?l (process_frame dec stamp ?g h1))" by blast
  moreover have "h2 = process_frame dec stamp ?l (process_frame dec stamp ?g h1)"
    using assms(5,6,9) by (simp add: finish_frames_def Let_def)
  ultimately have "hub_notes h2 = hub_notes (process_frame dec stamp ?g h1) @
      [\<lparr>bo_type = ''job_failed'', bo_severity = ''critical'', bo_source = note_source ?l, bo_message = msg\<rparr>]"
    by (simp only: notes_emit stored_line_notes)
  note err = this
  let ?err = "\<lparr>bo_type = ''job_failed'', bo_severity = ''critical'', bo_source = note_source ?l, bo_message = msg\<rparr>"
  have "hub_notes ?e = hub_notes h1 @
      [life_note agent r ''job_started'' sign_start ''started'', life_note agent r ''job_complete'' sign_check ''completed'']"
    using life_cycle_notes(1) [of ?g agent r "stored_progress stamp ?g h1"] g k assms(3,4) by simp
  then obtain phase where "hub_notes (process_frame dec stamp ?g h1) = hub_notes h1 @
      [life_note agent r ''job_started'' sign_start ''started'', life_note agent r ''job_complete'' sign_check ''completed'', phase]"
    unfolding h2 notes_emit by simp
  then have "hub_notes h2 = hub_notes h1 @ [life_note agent r ''job_started'' sign_start ''started'',
      life_note agent r ''job_complete'' sign_check ''completed'', phase, ?err]"
    unfolding err by simp
  moreover have "bo_type ?err = ''job_failed''" by simp
  ultimately show ?thesis using first by (intro conjI exI)
qed

section \<open>Sample hub\<close>

definition sample_burn_agent :: burn_agent where
  "sample_burn_agent = \<lparr>ba_id = ''nas'', ba_host = ''nas'', ba_arch = ''amd64'', ba_addr = ''http://nas:9100'', ba_drives = [],
     ba_registered = 0, ba_seen = 0\<rparr>"

definition sample_hub_registry :: burn_registry where
  "sample_hub_registry = \<lparr>bg_agents = [sample_burn_agent], bg_file = None\<rparr>"

definition sample_burn_hub :: burn_hub where
  "sample_burn_hub = set_upstream (new_burn_hub sample_hub_registry ''old'' \<lparr>th_warning = 50, th_critical = 60\<rparr>)"

definition sample_failed_job :: bjob_record where
  "sample_failed_job = \<lparr>jm_id = ''j1'', jm_command = ''burnin'', jm_target = ''/dev/sda'', jm_device = ''/dev/sda'', jm_status = JobFailed,
     jm_phase = ''BURNIN'', jm_params = [], jm_reason = ''bad blocks'', jm_started = 0, jm_done = None, jm_burnin = None\<rparr>"

definition running_hub :: burn_hub where
  "running_hub = process_frame (\<lambda>s. None) ''t'' (progress_frame ''nas'' ''j1'' ''burnin'' ''PRE-FLIGHT'' [] (Fin 0) (Fin 0) 0 0 0 0 []) sample_burn_hub"

lemma running_hub_known: "hu_up running_hub \<and> hu_known running_hub = {''j1''}"
proof -
  let ?f = "progress_frame ''nas'' ''j1'' ''burnin'' ''PRE-FLIGHT'' [] (Fin 0) (Fin 0) 0 0 0 0 []"
  have f: "bf_type ?f = ''progress'' \<and> bf_job ?f = ''j1'' \<and> \<not> job_over ?f"
    by (simp add: progress_frame_def no_frame_def job_over_def)
  have u: "hu_up sample_burn_hub" "hu_known sample_burn_hub = {}"
    by (simp_all add: sample_burn_hub_def set_upstream_def new_burn_hub_def)
  then have r: "running_hub = evaluate_progress (\<lambda>s. None) ?f (stored_progress ''t'' ?f sample_burn_hub)"
    using f by (simp add: running_hub_def process_progress)
  have "hu_up running_hub"
    using same_store_progress [of "stored_progress ''t'' ?f sample_burn_hub" "\<lambda>s. None" ?f] u by (simp add: r same_store_def)
  moreover have "hu_known running_hub = {''j1''}"
    using f u by (simp add: r known_progress evaluate_job_lifecycle_def Let_def)
  ultimately show ?thesis ..
qed

end
