(* ===== verification/BurnEmitter.thy ===== *)
theory BurnEmitter
  imports BurnNotes GoTime
begin

text \<open>
  What a burn-in job tells while it runs (\<^verbatim>\<open>burn-in/internal/jobs/emitter.go\<close> and
  \<^verbatim>\<open>logfile.go\<close>): progress with an estimate of the time left, chart points, log lines and the
  heartbeat, as frames of the agent's connection (\<^verbatim>\<open>hub_telemetry.go\<close>), and the log file of
  the job. Times are nanoseconds; deltas are their JSON text.
\<close>

section \<open>Numbers and texts\<close>

fun f64_neg :: "float64 \<Rightarrow> float64" where
  "f64_neg (Fin a) = Fin (- a)"
| "f64_neg PInf = NInf"
| "f64_neg NInf = PInf"
| "f64_neg NaN = NaN"

definition f64_sub :: "float64 \<Rightarrow> float64 \<Rightarrow> float64" where
  "f64_sub x y = f64_add x (f64_neg y)"

text \<open>The integer part of a number that is not negative; \<open>oor\<close> is what the machine gives beyond the
  range.\<close>

definition whole :: "(float64 \<Rightarrow> int) \<Rightarrow> float64 \<Rightarrow> int" where
  "whole oor x = (case x of Fin a \<Rightarrow> if a < 9223372036854775808 then \<lfloor>a\<rfloor> else oor x | _ \<Rightarrow> oor x)"

text \<open>A duration of whole seconds as Go prints it.\<close>

definition seconds_text :: "int \<Rightarrow> string" where
  "seconds_text s =
     (if s \<ge> 3600 then itoa (s div 3600) @ ''h'' @ itoa (s div 60 mod 60) @ ''m'' @ itoa (s mod 60) @ ''s''
      else if s \<ge> 60 then itoa (s div 60) @ ''m'' @ itoa (s mod 60) @ ''s'' else itoa s @ ''s'')"

definition rounded_seconds :: "int \<Rightarrow> int" where
  "rounded_seconds d = (d + 500000000) div 1000000000"

definition log_stamp :: "int \<Rightarrow> string" where
  "log_stamp ns =
     (let secs = ns div 1000000000; (y, m, d) = civil (secs div 86400); t = secs mod 86400
      in pad_num 4 y @ ''-'' @ pad_num 2 m @ ''-'' @ pad_num 2 d @ '' '' @ pad_num 2 (t div 3600) @ '':'' @
         pad_num 2 (t div 60 mod 60) @ '':'' @ pad_num 2 (t mod 60) @ '' UTC'')"

definition file_stamp :: "int \<Rightarrow> string" where
  "file_stamp ns =
     (let secs = ns div 1000000000; (y, m, d) = civil (secs div 86400); t = secs mod 86400
      in pad_num 4 y @ pad_num 2 m @ pad_num 2 d @ ''T'' @ pad_num 2 (t div 3600) @ pad_num 2 (t div 60 mod 60) @ pad_num 2 (t mod 60))"

section \<open>The log file of a job (logfile.go)\<close>

definition plain_field_char :: "char \<Rightarrow> bool" where
  "plain_field_char c \<longleftrightarrow>
     (97 \<le> (of_char c :: int) \<and> (of_char c :: int) \<le> 122) \<or> (65 \<le> (of_char c :: int) \<and> (of_char c :: int) \<le> 90) \<or>
     is_digit c \<or> c = CHR ''-'' \<or> c = CHR ''_''"

definition sanitize_field :: "string \<Rightarrow> string" where
  "sanitize_field s = map (\<lambda>c. if plain_field_char c then c else CHR ''_'') s"

definition log_file_name :: "int \<Rightarrow> drive_info \<Rightarrow> string" where
  "log_file_name now d =
     ''burnin-'' @ sanitize_field (dr_model d) @ ''_'' @ sanitize_field (dr_serial d) @ ''_'' @ file_stamp now @ ''.log''"

text \<open>No directory, no file; otherwise the path of an empty file, or an error.\<close>

definition new_log_file :: "string \<Rightarrow> go_error option \<Rightarrow> go_error option \<Rightarrow> int \<Rightarrow> drive_info \<Rightarrow>
    go_error + (string \<times> string list) option" where
  "new_log_file dir mkdir open_err now d =
     (if dir = [] then Inr None
      else case mkdir of
        Some e \<Rightarrow> Inl (WrappedError ''creating log directory: '' e [])
      | None \<Rightarrow>
          (case open_err of
             Some e \<Rightarrow> Inl (WrappedError ''opening log file: '' e [])
           | None \<Rightarrow> Inr (Some (path_join dir (log_file_name now d), []))))"

definition rule_line :: string where
  "rule_line = ''+'' @ replicate 77 (CHR ''-'')"

definition separator :: "int \<Rightarrow> string \<Rightarrow> string list" where
  "separator now title = [rule_line, ''+ '' @ title @ '': '' @ log_stamp now, rule_line]"

definition header_lines :: "int \<Rightarrow> string \<Rightarrow> drive_info \<Rightarrow> string list" where
  "header_lines now job d =
     separator now ''Started burn-in'' @
     [''Job ID:                 '' @ job, ''Drive:                  '' @ dr_path d] @
     (if dr_byid d \<noteq> [] then [''By-ID Path:             '' @ dr_byid d] else []) @
     [''Drive Model:            '' @ dr_model d, ''Serial Number:          '' @ dr_serial d,
      ''Disk Type:              '' @ dr_rotation d, ''Capacity:               '' @ itoa (dr_capacity d) @ '' bytes'', []]"

definition log_text_line :: "int \<Rightarrow> string \<Rightarrow> string \<Rightarrow> string" where
  "log_text_line now severity msg = ''['' @ log_stamp now @ ''] ['' @ severity @ ''] '' @ msg"

definition result_lines :: "int \<Rightarrow> bool \<Rightarrow> string \<Rightarrow> int \<Rightarrow> int \<Rightarrow> string list" where
  "result_lines now passed reason errs took =
     separator now ''Finished burn-in'' @
     (if passed then [''Result:                 PASSED'']
      else [''Result:                 FAILED'', ''Reason:                 '' @ reason]) @
     [''Bad block errors:       '' @ itoa errs, ''Total duration:         '' @ seconds_text (rounded_seconds took)]"

section \<open>The emitter\<close>

text \<open>\<open>em_sink\<close> tells whether there is a sink, \<open>em_up\<close> whether its connection stands; \<open>em_out\<close> are the
  frames written to it, \<open>em_file\<close> the lines of the log file.\<close>

record emitter =
  em_sink :: bool
  em_up :: bool
  em_agent :: string
  em_job :: string
  em_command :: string
  em_start :: int
  em_phase_start :: int
  em_base :: float64
  em_phase :: string
  em_alive :: bool
  em_out :: "burn_frame list"
  em_file :: "string list option"

definition new_emitter :: "bool \<Rightarrow> bool \<Rightarrow> string \<Rightarrow> string \<Rightarrow> string \<Rightarrow> int \<Rightarrow> emitter" where
  "new_emitter sink up agent job command now =
     \<lparr>em_sink = sink, em_up = up, em_agent = agent, em_job = job, em_command = command, em_start = now, em_phase_start = now,
      em_base = Fin 0, em_phase = ''PRE-FLIGHT'', em_alive = False, em_out = [], em_file = None\<rparr>"

text \<open>\<open>writeJSON\<close> of the connection: without one the frame is dropped, and the error only logged.\<close>

definition em_write :: "burn_frame \<Rightarrow> emitter \<Rightarrow> emitter" where
  "em_write f e = (if em_up e then e\<lparr>em_out := em_out e @ [f]\<rparr> else e)"

definition file_append :: "string list \<Rightarrow> emitter \<Rightarrow> emitter" where
  "file_append ls e = e\<lparr>em_file := map_option (\<lambda>f. f @ ls) (em_file e)\<rparr>"

definition elapsed_of :: "int \<Rightarrow> emitter \<Rightarrow> int" where
  "elapsed_of now e = whole (\<lambda>x. 0) (duration_seconds (now - em_start e))"

definition estimate_eta :: "(float64 \<Rightarrow> int) \<Rightarrow> int \<Rightarrow> float64 \<Rightarrow> emitter \<Rightarrow> int" where
  "estimate_eta oor now pct e =
     (if f64_ge (Fin 0) pct \<or> f64_ge pct (Fin 100) then 0
      else let phase_elapsed = duration_seconds (now - em_phase_start e); delta = f64_sub pct (em_base e) in
        if f64_gt delta (Fin (1 / 2)) \<and> f64_gt phase_elapsed (Fin 5)
        then let remaining = f64_div (f64_sub (Fin 100) pct) (f64_div delta phase_elapsed)
             in if f64_gt remaining (Fin 0) then whole oor remaining else 0
        else let job_elapsed = duration_seconds (now - em_start e) in
          if f64_gt (Fin 5) job_elapsed then 0
          else let remaining = f64_sub (f64_div job_elapsed (f64_div pct (Fin 100))) job_elapsed
               in if f64_gt (Fin 0) remaining then 0 else whole oor remaining)"

definition em_chart :: "int \<Rightarrow> string \<Rightarrow> string \<Rightarrow> float64 \<Rightarrow> emitter \<Rightarrow> emitter" where
  "em_chart now component key value e =
     (if \<not> em_sink e then e else em_write (chart_frame (em_agent e) (rfc3339 now) component key value) e)"

definition em_metric :: "int \<Rightarrow> string \<Rightarrow> float64 \<Rightarrow> emitter \<Rightarrow> emitter" where
  "em_metric now key value e =
     (if \<not> em_sink e then e else em_write (metric_frame (em_agent e) (rfc3339 now) key value) e)"

definition em_progress :: "(float64 \<Rightarrow> int) \<Rightarrow> int \<Rightarrow> string \<Rightarrow> string \<Rightarrow> float64 \<Rightarrow> float64 \<Rightarrow> int \<Rightarrow> int \<Rightarrow> string \<Rightarrow> emitter \<Rightarrow>
    emitter" where
  "em_progress oor now phase detail pct speed temp bad deltas e =
     (if \<not> em_sink e then e
      else let e1 = em_write (progress_frame (em_agent e) (em_job e) (em_command e) phase detail pct speed temp
                      (elapsed_of now e) (estimate_eta oor now pct e) bad deltas) e
           in if temp > 0 then em_chart now ''drive-temperature'' ''temp_c'' (f64_of_int temp) e1 else e1)"

definition em_start_phase :: "(float64 \<Rightarrow> int) \<Rightarrow> int \<Rightarrow> string \<Rightarrow> string \<Rightarrow> float64 \<Rightarrow> emitter \<Rightarrow> emitter" where
  "em_start_phase oor now phase detail pct e =
     em_progress oor now phase detail pct (Fin 0) 0 0 []
       (file_append (separator now (phase @ '': '' @ detail))
         (e\<lparr>em_phase := phase, em_phase_start := now, em_base := pct\<rparr>))"

definition em_log :: "int \<Rightarrow> string \<Rightarrow> string \<Rightarrow> emitter \<Rightarrow> emitter" where
  "em_log now severity msg e =
     (let e1 = file_append [log_text_line now severity msg] e in
      if \<not> em_sink e then e1 else em_write (log_frame (em_agent e) (rfc3339 now) (em_job e) severity msg) e1)"

definition em_phase_done :: "int \<Rightarrow> string \<Rightarrow> emitter \<Rightarrow> emitter" where
  "em_phase_done now phase e =
     em_log now ''info'' (''phase '' @ phase @ '' complete'') (file_append (separator now (''Finished '' @ phase)) e)"

definition em_smart_warning :: "(float64 \<Rightarrow> int) \<Rightarrow> int \<Rightarrow> string \<Rightarrow> emitter \<Rightarrow> emitter" where
  "em_smart_warning oor now deltas e =
     em_progress oor now ''SMART_WARNING'' ''attribute degradation detected'' (Fin 0) (Fin 0) 0 0 deltas e"

definition em_complete :: "(float64 \<Rightarrow> int) \<Rightarrow> int \<Rightarrow> string \<Rightarrow> int \<Rightarrow> string \<Rightarrow> emitter \<Rightarrow> emitter" where
  "em_complete oor now detail bad deltas e = em_progress oor now ''COMPLETE'' detail (Fin 100) (Fin 0) 0 bad deltas e"

text \<open>The heartbeat, while it runs: a log line with the phase, the time and the temperature.\<close>

definition em_start_alive :: "emitter \<Rightarrow> emitter" where
  "em_start_alive e = e\<lparr>em_alive := True\<rparr>"

definition em_stop_alive :: "emitter \<Rightarrow> emitter" where
  "em_stop_alive e = e\<lparr>em_alive := False\<rparr>"

definition em_beat :: "int \<Rightarrow> int \<Rightarrow> emitter \<Rightarrow> emitter" where
  "em_beat now temp e =
     (if \<not> em_alive e then e
      else em_log now ''info''
        (''ALIVE job='' @ em_job e @ '' phase='' @ em_phase e @ '' elapsed='' @ seconds_text (rounded_seconds (now - em_start e)) @
         '' temp='' @ itoa temp @ [CHR 0xC2, CHR 0xB0] @ ''C'') e)"

section \<open>What the emitter guarantees\<close>

text \<open>The time left is never negative, and zero before the start and at the end.\<close>

lemma whole_nonneg: "(\<And>x. 0 \<le> oor x) \<Longrightarrow> f64_ge x (Fin 0) \<Longrightarrow> 0 \<le> whole oor x"
  by (cases x) (auto simp: whole_def)

lemma f64_not_gt_zero: "\<not> f64_gt (Fin 0) x \<Longrightarrow> x \<noteq> NaN \<Longrightarrow> f64_ge x (Fin 0)"
  by (cases x) auto

lemma eta_nonneg:
  assumes "\<And>x. 0 \<le> oor x"
  shows "0 \<le> estimate_eta oor now pct e"
proof -
  have "f64_gt x (Fin 0) \<Longrightarrow> 0 \<le> whole oor x" for x
    using whole_nonneg [OF assms] by (cases x) auto
  moreover have "\<not> f64_gt (Fin 0) x \<Longrightarrow> 0 \<le> whole oor x" for x
    using whole_nonneg [OF assms] assms by (cases x) (auto simp: whole_def)
  ultimately show ?thesis by (simp add: estimate_eta_def Let_def)
qed

text \<open>The name of a log file has no slash, whatever the drive says its model and serial number are, so
  the file lies in the log directory.\<close>

lemma sanitized: "list_all plain_field_char (sanitize_field s)"
  by (induction s) (auto simp: sanitize_field_def plain_field_char_def)

lemma plain_no_slash: "list_all plain_field_char s \<Longrightarrow> CHR ''/'' \<notin> set s"
  by (auto simp: list_all_iff plain_field_char_def is_digit_def)

lemma itoa_no_slash: "0 \<le> n \<Longrightarrow> CHR ''/'' \<notin> set (itoa n)"
  using all_digits_dec_digits [of n] by (auto simp: itoa_def all_digits_def is_digit_def list_all_iff)

text \<open>Every frame of an emitter is one of its own agent, and without a sink or a connection there is none;
  the log file gets its lines all the same.\<close>

lemma silent_emitter:
  assumes "\<not> em_sink e \<or> \<not> em_up e"
  shows "em_out (em_progress oor now phase detail pct speed temp bad deltas e) = em_out e"
    and "em_out (em_log now severity msg e) = em_out e"
    and "em_file (em_log now severity msg e) = map_option (\<lambda>f. f @ [log_text_line now severity msg]) (em_file e)"
  using assms by (auto simp: em_progress_def em_log_def em_write_def em_chart_def file_append_def Let_def)

text \<open>A progress with a temperature puts a point on the hub's temperature chart.\<close>

lemma progress_frames:
  assumes "em_sink e" "em_up e" "0 < temp"
  shows "em_out (em_progress oor now phase detail pct speed temp bad deltas e) = em_out e @
    [progress_frame (em_agent e) (em_job e) (em_command e) phase detail pct speed temp (elapsed_of now e)
       (estimate_eta oor now pct e) bad deltas,
     chart_frame (em_agent e) (rfc3339 now) ''drive-temperature'' ''temp_c'' (f64_of_int temp)]"
  using assms by (simp add: em_progress_def em_write_def em_chart_def Let_def)

lemma chart_stored:
  assumes "\<not> hu_up h" "f = chart_frame agent t component key value"
  shows "hu_points (process_frame dec stamp f h) = ring_append 2000
    \<lparr>sp_component = component, sp_key = key, sp_value = value, sp_source = agent, sp_time = resolve_timestamp stamp f\<rparr>
    (hu_points h)"
proof -
  have fields: "bf_type f = ''chart''" "bf_component f = component" "bf_key f = key" "bf_value f = value" "bf_agent f = agent"
    using assms(2) by (simp_all add: chart_frame_def no_frame_def)
  show ?thesis
    using assms(1) by (simp add: process_frame_def fields store_chart_locally_def store_point_def)
qed

lemma transition_keeps_progress: "hu_progress (store_phase_transition stamp f h) = hu_progress h"
  by (simp add: store_phase_transition_def store_log_def Let_def)

lemma progress_kept:
  "bf_job f \<noteq> [] \<Longrightarrow> hu_progress (store_progress_locally f h) (bf_job f) = Some (payload_of f)"
  by (simp add: store_progress_locally_def Let_def)

text \<open>A SMART warning is sent as a progress of nothing: however far the job has come, the hub then shows it
  at zero, in a phase of its own.\<close>

lemma warning_frame:
  assumes "em_sink e" "em_up e"
  shows "em_out (em_smart_warning oor now deltas e) = em_out e @
    [progress_frame (em_agent e) (em_job e) (em_command e) ''SMART_WARNING'' ''attribute degradation detected'' (Fin 0) (Fin 0) 0
       (elapsed_of now e) 0 0 deltas]"
  using assms by (simp add: em_smart_warning_def em_progress_def em_write_def estimate_eta_def Let_def)

lemma warning_resets_progress:
  assumes "\<not> hu_up h" "job \<noteq> []"
    and "f = progress_frame agent job command ''SMART_WARNING'' detail (Fin 0) speed temp elapsed eta bad deltas"
  shows "\<exists>p. hu_progress (process_frame dec stamp f h) job = Some p \<and> pp_percent p = Fin 0 \<and> pp_phase p = ''SMART_WARNING''"
proof -
  have fields: "bf_type f = ''progress''" "bf_job f = job" "bf_phase f = ''SMART_WARNING''" "bf_percent f = Fin 0"
    using assms(3) by (simp_all add: progress_frame_def no_frame_def)
  show ?thesis
    using assms(1,2)
    using progress_kept [of f h]
    by (simp add: process_frame_def fields cleanup_if_complete_def job_over_def transition_keeps_progress payload_of_def Let_def)
qed

end
