(* ===== verification/BurnDiscover.thy ===== *)
theory BurnDiscover
  imports BurnNotes
begin

text \<open>
  How the burn-in agent finds the drives it registers with (\<^verbatim>\<open>burn-in/internal/agent/discover.go\<close>).
  The directory of the links, the links themselves, the mount table and smartctl are parameters;
  \<^verbatim>\<open>splitSmartLine\<close> and \<^verbatim>\<open>parseCapacityBytes\<close> are, word for word, those of the drive package. A line
  longer than the buffer of a scanner is left out.
\<close>

record discover_env =
  de_names :: "go_error + string list"
  de_mounts :: "string option"
  de_link :: "string \<Rightarrow> go_error + string"
  de_smart :: "string \<Rightarrow> string \<times> go_error option"

definition disk_by_id :: string where
  "disk_by_id = ''/dev/disk/by-id/''"

definition transport_from_name :: "string \<Rightarrow> string" where
  "transport_from_name n =
     (if has_prefix n ''ata-'' then ''SATA''
      else if has_prefix n ''nvme-'' then ''NVMe''
      else if has_prefix n ''usb-'' then ''USB''
      else if has_prefix n ''scsi-'' then ''SAS''
      else ''unknown'')"

definition os_mount_points :: "string list" where
  "os_mount_points = [''/'', ''/boot'', ''/var'', ''/usr'', ''/home'']"

text \<open>The device and the mount point of a line of \<^verbatim>\<open>/proc/mounts\<close>.\<close>

type_synonym mount_entry = "string \<times> string"

definition mount_table_line :: "discover_env \<Rightarrow> string \<Rightarrow> mount_entry option" where
  "mount_table_line e line =
     (case str_fields line of
        dev # point # _ \<Rightarrow>
          if \<not> has_prefix dev ''/dev/'' then None
          else Some (case de_link e dev of Inr d \<Rightarrow> d | Inl _ \<Rightarrow> dev, point)
      | _ \<Rightarrow> None)"

definition load_mount_table :: "discover_env \<Rightarrow> mount_entry list" where
  "load_mount_table e =
     (case de_mounts e of None \<Rightarrow> [] | Some data \<Rightarrow> List.map_filter (mount_table_line e) (split_on (CHR 0x0A) data))"

definition of_device :: "string \<Rightarrow> mount_entry \<Rightarrow> bool" where
  "of_device dev m \<longleftrightarrow> path_base (fst m) = path_base dev \<or> has_prefix (path_base (fst m)) (path_base dev)"

definition os_mount :: "string \<Rightarrow> bool" where
  "os_mount p \<longleftrightarrow> p \<in> set os_mount_points \<or> p = ''swap'' \<or> str_contains p ''[SWAP]''"

definition check_mounts :: "string \<Rightarrow> mount_entry list \<Rightarrow> string list \<times> bool" where
  "check_mounts dev ms =
     fold (\<lambda>m (points, os). if of_device dev m then (points @ [snd m], os \<or> os_mount (snd m)) else (points, os)) ms ([], False)"

definition is_base_drive :: "string \<Rightarrow> bool" where
  "is_base_drive n \<longleftrightarrow>
     \<not> has_prefix n ''wwn-'' \<and> (has_prefix n ''ata-'' \<or> has_prefix n ''nvme-'' \<or> has_prefix n ''usb-'') \<and>
     \<not> str_contains n ''-part'' \<and> \<not> has_prefix n ''nvme-eui.''"

definition no_hub_drive :: hub_drive where
  "no_hub_drive = \<lparr>hv_path = [], hv_model = [], hv_serial = [], hv_capacity = 0, hv_transport = [], hv_os = False, hv_mounts = []\<rparr>"

definition smart_info_line :: "string \<Rightarrow> hub_drive \<Rightarrow> hub_drive" where
  "smart_info_line line d =
     (case split_smart_line line of
        None \<Rightarrow> d
      | Some (k, v) \<Rightarrow>
          if k \<in> {''Device Model'', ''Model Number'', ''Product''} then d\<lparr>hv_model := v\<rparr>
          else if k \<in> {''Serial Number'', ''Serial number''} then d\<lparr>hv_serial := v\<rparr>
          else if k = ''User Capacity'' then d\<lparr>hv_capacity := parse_capacity_bytes v\<rparr>
          else if k \<in> {''Total NVM Capacity'', ''Namespace 1 Size/Capacity''}
          then (if hv_capacity d = 0 then d\<lparr>hv_capacity := parse_capacity_bytes v\<rparr> else d)
          else d)"

definition parse_smart_info :: "string \<Rightarrow> go_error + hub_drive" where
  "parse_smart_info out =
     (let d = fold smart_info_line (split_on (CHR 0x0A) out) no_hub_drive in
      if hv_model d = [] \<and> hv_serial d = []
      then Inl (PlainError ''smartctl output contained no recognizable drive metadata'') else Inr d)"

definition query_smart_info :: "discover_env \<Rightarrow> string \<Rightarrow> go_error + hub_drive" where
  "query_smart_info e path =
     (case de_smart e path of
        ([], Some err) \<Rightarrow> Inl (WrappedError (''smartctl -i '' @ path @ '': '') err [])
      | (out, _) \<Rightarrow> parse_smart_info out)"

definition discover_one :: "discover_env \<Rightarrow> mount_entry list \<Rightarrow> string \<Rightarrow> hub_drive option" where
  "discover_one e mounts n =
     (if \<not> is_base_drive n then None
      else let path = path_join disk_by_id n in
        case de_link e path of
          Inl _ \<Rightarrow> None
        | Inr dev \<Rightarrow>
            (case query_smart_info e path of
               Inl _ \<Rightarrow> None
             | Inr d \<Rightarrow>
                 (case check_mounts dev mounts of (points, os) \<Rightarrow>
                    Some (d\<lparr>hv_path := path, hv_transport := transport_from_name n, hv_os := os, hv_mounts := points\<rparr>))))"

definition discover_drives :: "discover_env \<Rightarrow> go_error + hub_drive list" where
  "discover_drives e =
     (case de_names e of
        Inl err \<Rightarrow> Inl (WrappedError (''reading '' @ disk_by_id @ '': '') err [])
      | Inr names \<Rightarrow> Inr (List.map_filter (discover_one e (load_mount_table e)) names))"

section \<open>What is registered\<close>

lemma check_mounts_filter:
  "check_mounts dev ms = (map snd (filter (of_device dev) ms), \<exists>m \<in> set ms. of_device dev m \<and> os_mount (snd m))"
proof -
  have "fold (\<lambda>m (points, os). if of_device dev m then (points @ [snd m], os \<or> os_mount (snd m)) else (points, os)) ms (ps, b) =
    (ps @ map snd (filter (of_device dev) ms), b \<or> (\<exists>m \<in> set ms. of_device dev m \<and> os_mount (snd m)))" for ps b
    by (induction ms arbitrary: ps b) auto
  then show ?thesis by (simp add: check_mounts_def)
qed

lemma base_drive_transport: "is_base_drive n \<Longrightarrow> transport_from_name n \<in> {''SATA'', ''NVMe'', ''USB''}"
  by (auto simp: is_base_drive_def transport_from_name_def)

text \<open>A drive the agent registers is a whole disk of \<^verbatim>\<open>/dev/disk/by-id\<close>, never a partition; it is
  reported as a drive of the operating system exactly when one of the file systems mounted from
  it, or from a device whose name starts with its name, is mounted at \<^verbatim>\<open>/\<close>, \<^verbatim>\<open>/boot\<close>, \<^verbatim>\<open>/var\<close>, \<^verbatim>\<open>/usr\<close> or
  \<^verbatim>\<open>/home\<close> or at a place that names the swap. A SAS drive is never registered: the links of one
  have the prefix that the test of the names leaves out.\<close>

lemma discovered_drives:
  assumes "discover_drives e = Inr ds" and "d \<in> set ds"
  shows "\<exists>names n dev. de_names e = Inr names \<and> n \<in> set names \<and> hv_path d = path_join disk_by_id n \<and>
    \<not> str_contains n ''-part'' \<and> hv_transport d \<in> {''SATA'', ''NVMe'', ''USB''} \<and> de_link e (hv_path d) = Inr dev \<and>
    hv_mounts d = map snd (filter (of_device dev) (load_mount_table e)) \<and>
    (hv_os d \<longleftrightarrow> (\<exists>m \<in> set (load_mount_table e). of_device dev m \<and> os_mount (snd m)))"
proof -
  obtain names where names: "de_names e = Inr names"
    using assms(1) by (auto simp: discover_drives_def split: sum.splits)
  with assms obtain n where n: "n \<in> set names" "discover_one e (load_mount_table e) n = Some d"
    by (auto simp: discover_drives_def List.map_filter_def)
  then have base: "is_base_drive n" by (auto simp: discover_one_def split: if_splits)
  from n(2) obtain dev x where "de_link e (path_join disk_by_id n) = Inr dev"
    and d: "d = x\<lparr>hv_path := path_join disk_by_id n, hv_transport := transport_from_name n,
      hv_os := (\<exists>m \<in> set (load_mount_table e). of_device dev m \<and> os_mount (snd m)),
      hv_mounts := map snd (filter (of_device dev) (load_mount_table e))\<rparr>"
    by (auto simp: discover_one_def Let_def check_mounts_filter split: if_splits sum.splits)
  then show ?thesis
    using names n(1) base base_drive_transport [OF base] by (auto simp: is_base_drive_def)
qed

text \<open>The registration and the safety check before a destructive job disagree: when the mount
  table names the root file system by a link, the drive is registered as one of the operating
  system, since the link is resolved there, and the check that is to refuse a mounted drive, which
  compares the names as they are written, finds nothing mounted from it.\<close>

lemma os_drive_passes_mount_check:
  assumes "str_fields line = link # ''/'' # rest" and "CHR 0x0A \<notin> set line"
    and "de_mounts e = Some line" and "bn_mounts env (bs_tr s) = Some line"
    and "has_prefix link ''/dev/''" and "de_link e link = Inr part" and "has_prefix (path_base part) (path_base disk)"
    and "link \<noteq> disk" and "\<not> has_prefix (path_base link) (path_base disk)"
  shows "snd (check_mounts disk (load_mount_table e)) \<and> check_not_mounted env disk s = None"
proof
  have split: "split_on (CHR 0x0A) line = [line]"
    using assms(2) by (simp add: split_on_none)
  have "load_mount_table e = [(part, ''/'')]"
    using assms(1,3,5,6) by (simp add: load_mount_table_def split mount_table_line_def List.map_filter_simps)
  then show "snd (check_mounts disk (load_mount_table e))"
    using assms(7) by (simp add: check_mounts_filter of_device_def os_mount_def os_mount_points_def)
  show "check_not_mounted env disk s = None"
    using assms(1,4,8,9) by (simp add: check_not_mounted_def split)
qed

section \<open>Sample host\<close>

definition sample_mounts :: string where
  "sample_mounts = ''/dev/disk/by-uuid/1a2b / ext4 rw 0 0''"

definition sample_discover :: discover_env where
  "sample_discover = \<lparr>de_names = Inr [''ata-ST4000_ZA1'', ''ata-ST4000_ZA1-part1'', ''scsi-ST8000_ZB2''], de_mounts = Some sample_mounts,
     de_link = (\<lambda>p. Inr (if p = ''/dev/disk/by-uuid/1a2b'' then ''/dev/sda1'' else ''/dev/sda'')),
     de_smart = (\<lambda>p. (''Device Model: ST4000'', None))\<rparr>"

lemma sample_discovered:
  "discover_drives sample_discover = Inr [\<lparr>hv_path = ''/dev/disk/by-id/ata-ST4000_ZA1'', hv_model = ''ST4000'', hv_serial = [],
     hv_capacity = 0, hv_transport = ''SATA'', hv_os = True, hv_mounts = [''/'']\<rparr>]"
  by code_simp

end
