(* ===== verification/Spec2Isabelle.thy ===== *)
theory Spec2Isabelle
  imports SnapEngineLock SnapScheduler SnapAgent SnapHub ZfsTopology ZfsRuns ZfsPipe ZfsPreview ZfsTaskRuns ZfsHubGuards ZfsCollector SnapGuards AddonConfig AgentLinks BurnEmitter BurnNotes BurnDiscover
begin

text \<open>
  Verification library for the Vigil add-ons.
\<close>

end
